(* ===== verification/V850_Prelude.thy ===== *)
theory V850_Prelude
  imports Main "HOL-Library.Word" "HOL-Library.Monad_Syntax"
begin

unbundle bit_operations_syntax

text \<open>
  Shared vocabulary of the development: the C integer types as machine words, the fact
  collections the component theories fill, single-bit updates of a 32-bit register, exact
  arithmetic of sign-extended and zero-extended operands, and the lens interface through
  which the proofs treat a register as a field of a larger state.

  Conventions. A C object of type \<open>uint\<open>w\<close>\<close> or \<open>sint\<open>w\<close>\<close> is a \<open>w word\<close>; the two differ only in
  the operations applied (\<open>unat\<close>, \<open><\<close>, \<open>drop_bit\<close> against \<open>sint\<close>, \<open><s\<close>, \<open>signed_drop_bit\<close>),
  and signed addition wraps as it does in the two's complement code the compilers emit.
  A result of type \<open>'a option\<close> is \<open>None\<close> where the C program has no defined behaviour
  (an array access out of bounds, a division by zero, the quotient of the least negative
  number and \<open>-1\<close>); a C function that reports failure returns its negative \<open>int\<close> inside
  \<open>Some\<close>.
\<close>

type_synonym u8 = "8 word"
type_synonym u16 = "16 word"
type_synonym u32 = "32 word"
type_synonym u64 = "64 word"

named_theorems flag_simps \<open>single PSW flag updates as \<open>put_flag\<close>\<close>
named_theorems mask_simps \<open>conjunction with a low-order mask as \<open>take_bit\<close>\<close>
named_theorems bit_test_simps \<open>comparison of a single-bit conjunction with 0\<close>
named_theorems frame_simps \<open>fields an operation leaves alone\<close>
named_theorems alu_simps \<open>the arithmetic meaning of the flag computations\<close>

section \<open>Single bits of a 32-bit register\<close>

definition put_flag :: "nat \<Rightarrow> bool \<Rightarrow> u32 \<Rightarrow> u32" where
  "put_flag n b w = (if b then set_bit n w else unset_bit n w)"

lemma bit_put_flag [simp]:
  "bit (put_flag n b w) m \<longleftrightarrow> (if m = n then b \<and> n < 32 else bit w m)"
  by (auto simp: put_flag_def bit_set_bit_iff bit_unset_bit_iff dest: bit_imp_le_length)

lemma put_flag_same [simp]: "put_flag n b (put_flag n c w) = put_flag n b w"
  by (rule bit_word_eqI) simp

lemma put_flag_commute: "m \<noteq> n \<Longrightarrow> put_flag m b (put_flag n c w) = put_flag n c (put_flag m b w)"
  by (rule bit_word_eqI) simp

lemma or_push_bit_put_flag: "w OR push_bit n 1 = put_flag n True w"
  by (simp add: put_flag_def set_bit_eq_or)

lemma and_not_push_bit_put_flag: "w AND NOT (push_bit n 1) = put_flag n False w"
  by (simp add: put_flag_def unset_bit_eq_and_not)

lemma and_push_bit_eq_iff_bit:
  "n < 32 \<Longrightarrow> (w AND push_bit n 1 = push_bit n (1 :: u32)) \<longleftrightarrow> bit w n"
proof -
  assume n: "n < 32"
  have "w AND push_bit n 1 = (if bit w n then push_bit n 1 else 0)"
    by (rule bit_word_eqI) (auto simp: bit_and_iff bit_exp_iff)
  moreover have "push_bit n (1 :: u32) \<noteq> 0"
    using n by (simp add: push_bit_eq_mult)
  ultimately show ?thesis by simp
qed

lemma and_push_bit_neq_0_iff_bit: "w AND push_bit n 1 \<noteq> 0 \<longleftrightarrow> bit (w :: 'a::len word) n"
  by (simp add: and_exp_eq_0_iff_not_bit push_bit_eq_mult)

lemma and_power_eq_0_iff: "w AND m = 0 \<longleftrightarrow> \<not> bit (w :: 'a::len word) n" if "m = 2 ^ n"
  using that by (simp add: and_exp_eq_0_iff_not_bit)

text \<open>Tests of one bit, for the masks written as literals in the code.\<close>

lemma bit_tests [bit_test_simps]:
  fixes w :: "'a::len word"
  shows "w AND 1 = 0 \<longleftrightarrow> \<not> bit w 0" "w AND 2 = 0 \<longleftrightarrow> \<not> bit w 1"
    "w AND 4 = 0 \<longleftrightarrow> \<not> bit w 2" "w AND 8 = 0 \<longleftrightarrow> \<not> bit w 3"
    "w AND 16 = 0 \<longleftrightarrow> \<not> bit w 4" "w AND 32 = 0 \<longleftrightarrow> \<not> bit w 5"
    "w AND 64 = 0 \<longleftrightarrow> \<not> bit w 6" "w AND 128 = 0 \<longleftrightarrow> \<not> bit w 7"
    "w AND 256 = 0 \<longleftrightarrow> \<not> bit w 8" "w AND 512 = 0 \<longleftrightarrow> \<not> bit w 9"
    "w AND 1024 = 0 \<longleftrightarrow> \<not> bit w 10" "w AND 2147483648 = 0 \<longleftrightarrow> \<not> bit w 31"
    "w AND 4294967296 = 0 \<longleftrightarrow> \<not> bit w 32"
  by (rule and_power_eq_0_iff, simp)+

lemma u16_eqI:
  "list_all (\<lambda>n. bit v n = bit w n) [0, 1, 2, 3, 4, 5, 6, 7, 8, 9, 10, 11, 12, 13, 14, 15]
     \<Longrightarrow> v = (w :: u16)"
  by (rule bit_word_eqI) (auto simp: less_Suc_eq eval_nat_numeral)

section \<open>Low-order masks\<close>

text \<open>The masks of the decoders, read as the number of low bits they keep.\<close>

lemma and_numeral_eq_take_bit:
  "mask n = (m :: 'a::len word) \<Longrightarrow> w AND m = take_bit n w"
  by (simp add: take_bit_eq_mask)

lemma mask_take_bits [mask_simps]:
  fixes w :: "'a::len word"
  shows "w AND 1 = take_bit 1 w" "w AND 3 = take_bit 2 w" "w AND 7 = take_bit 3 w"
    "w AND 15 = take_bit 4 w" "w AND 31 = take_bit 5 w" "w AND 63 = take_bit 6 w"
    "w AND 127 = take_bit 7 w" "w AND 255 = take_bit 8 w" "w AND 1023 = take_bit 10 w"
    "w AND 2047 = take_bit 11 w" "w AND 32767 = take_bit 15 w" "w AND 65535 = take_bit 16 w"
  by (rule and_numeral_eq_take_bit, simp add: mask_eq_exp_minus_1)+

lemmas bit_simps_all = bit_and_iff bit_or_iff bit_xor_iff bit_not_iff bit_push_bit_iff
  bit_drop_bit_eq bit_take_bit_iff bit_ucast_iff bit_exp_iff

section \<open>Extended operands\<close>

text \<open>
  The C code widens 32-bit operands to 64 bits before it adds, subtracts or multiplies, so
  the 64-bit result is exact. These lemmas read such results as integers.
\<close>

lemma sint_bounds_32: "- 2147483648 \<le> sint (a :: u32)" "sint (a :: u32) \<le> 2147483647"
  using sint_ge [of a] sint_lt [of a] by simp_all

lemma unat_less_32: "unat (a :: u32) < 4294967296"
  using unsigned_less [of a, where ?'a = nat] by simp

lemma unat_bound_32: "unat (a :: u32) \<le> 4294967295"
  using unat_less_32 [of a] by linarith

lemma sint_scast_64 [simp]: "sint (scast (a :: u32) :: u64) = sint a"
  by (simp add: sint_up_scast is_up)

lemma unat_ucast_64 [simp]: "unat (ucast (a :: u32) :: u64) = unat a"
proof -
  have "unat a < 2 ^ 64" by (rule order_less_trans [OF unat_less_32]) simp
  then show ?thesis by (simp add: unsigned_ucast_eq take_bit_nat_eq_self)
qed

lemma sint_in_range_64:
  "- (2 ^ 63) \<le> x \<Longrightarrow> x < 2 ^ 63 \<Longrightarrow> sint (word_of_int x :: u64) = x"
  by (simp add: signed_of_int signed_take_bit_int_eq_self)

lemma sint_add_64:
  fixes a b :: u64
  assumes "- (2 ^ 63) \<le> sint a + sint b" and "sint a + sint b < 2 ^ 63"
  shows "sint (a + b) = sint a + sint b"
proof -
  have "a + b = word_of_int (sint a + sint b)" by simp
  then show ?thesis using assms by (metis sint_in_range_64)
qed

lemma sint_minus_64:
  fixes a :: u64
  assumes "- (2 ^ 63) < sint a"
  shows "sint (- a) = - sint a"
proof -
  have "- a = word_of_int (- sint a)" by simp
  moreover have "sint a < 2 ^ 63" using sint_lt [of a] by simp
  ultimately show ?thesis using assms by (metis sint_in_range_64 minus_less_iff
    neg_less_iff_less order_less_imp_le minus_le_iff neg_le_iff_le)
qed

lemma sint_mult_64:
  fixes a b :: u32
  shows "sint (scast a * scast b :: u64) = sint a * sint b"
proof -
  have "scast a * scast b = (word_of_int (sint a * sint b) :: u64)"
    by simp
  moreover
  have "\<bar>sint a * sint b\<bar> \<le> 2147483648 * 2147483648"
    unfolding abs_mult using sint_bounds_32 [of a] sint_bounds_32 [of b]
    by (intro mult_mono) auto
  then have "- (2 ^ 63) \<le> sint a * sint b" "sint a * sint b < 2 ^ 63"
    by (simp_all add: abs_le_iff)
  ultimately show ?thesis
    by (simp only: sint_in_range_64)
qed

text \<open>A 64-bit word in its two halves.\<close>

lemma take_bit_uint_ge: "LENGTH('a) \<le> n \<Longrightarrow> take_bit n (uint (x :: 'a::len word)) = uint x"
  by (rule bit_eqI) (auto simp: bit_take_bit_iff bit_uint_iff)

lemma uint_drop_bit_div: "uint (drop_bit n (w :: 'a::len word)) = uint w div 2 ^ n"
  by (simp only: unsigned_drop_bit_eq drop_bit_eq_div) 
    (rule bit_eqI, auto simp: bit_take_bit_iff bit_drop_bit_eq bit_uint_iff simp flip: drop_bit_eq_div dest: bit_imp_le_length)

lemma uint_64_split: "uint (w :: u64) = uint (ucast w :: u32) + 2 ^ 32 * uint (ucast (drop_bit 32 w) :: u32)"
proof -
  have "uint w = uint w mod 2 ^ 32 + 2 ^ 32 * (uint w div 2 ^ 32)"
    by simp
  moreover have "uint (ucast w :: u32) = uint w mod 2 ^ 32"
    by (simp add: unsigned_ucast_eq take_bit_eq_mod)
  moreover have "uint w div 2 ^ 32 < 2 ^ 32"
    using unsigned_less [of w, where ?'a = int] by simp
  then have "uint (ucast (drop_bit 32 w) :: u32) = uint w div 2 ^ 32"
    by (simp only: unsigned_ucast_eq uint_drop_bit_div) (simp add: take_bit_int_eq_self_iff pos_imp_zdiv_nonneg_iff)
  ultimately show ?thesis by presburger
qed

lemma sint_eq_uint_32: "sint (x :: u32) = uint x - 2 ^ 32 * of_bool (bit x 31)"
  by (simp add: sint_uint signed_take_bit_eq_take_bit_minus bit_uint_iff take_bit_uint_ge)

lemma sint_eq_uint_64: "sint (x :: u64) = uint x - 2 ^ 64 * of_bool (bit x 63)"
  by (simp add: sint_uint signed_take_bit_eq_take_bit_minus bit_uint_iff take_bit_uint_ge)

lemma sint_64_split: "sint (w :: u64) = uint (ucast w :: u32) + 2 ^ 32 * sint (ucast (drop_bit 32 w) :: u32)"
  unfolding sint_eq_uint_64 sint_eq_uint_32
  using uint_64_split [of w] by (simp add: bit_simps_all)

lemma uint_mult_64: "uint (ucast (a :: u32) * ucast (b :: u32) :: u64) = uint a * uint b"
proof -
  have "uint a * uint b \<le> 4294967295 * 4294967295"
    by (intro mult_mono) (use unsigned_less [of a, where ?'a = int] unsigned_less [of b, where ?'a = int] in auto)
  moreover have "0 \<le> uint a * uint b" by simp
  ultimately show ?thesis
    by (simp add: uint_word_ariths unsigned_ucast_eq take_bit_uint_ge mod_pos_pos_trivial)
qed

section \<open>Registers as lenses\<close>

text \<open>
  A register of the CPU is read and written through a pair of functions that obey the three
  lens laws; two registers that do not overlap obey the laws of \<open>lens_pair\<close> as well.
  The register theory interprets both locales for the program status word and the general
  registers.
\<close>

locale lens =
  fixes get :: "'s \<Rightarrow> 'v" and put :: "'v \<Rightarrow> 's \<Rightarrow> 's"
  assumes get_put: "get (put v s) = v"
    and put_get: "put (get s) s = s"
    and put_put: "put v (put w s) = put v s"
begin

lemma put_inj: "put v s = put w s \<longleftrightarrow> v = w"
  by (metis get_put)

lemma put_eq_iff: "put v s = t \<longleftrightarrow> get t = v \<and> put (get s) t = s"
  by (metis get_put put_get put_put)

lemma put_fold: "fold put vs s = (if vs = [] then s else put (last vs) s)"
  by (induction vs arbitrary: s) (auto simp: put_put)

end

locale lens_pair = fst: lens get1 put1 + snd: lens get2 put2
  for get1 :: "'s \<Rightarrow> 'v" and put1 :: "'v \<Rightarrow> 's \<Rightarrow> 's"
    and get2 :: "'s \<Rightarrow> 'w" and put2 :: "'w \<Rightarrow> 's \<Rightarrow> 's" +
  assumes put_commute: "put1 v (put2 w s) = put2 w (put1 v s)"
begin

lemma get1_put2: "get1 (put2 w s) = get1 s"
  by (metis put_commute fst.get_put fst.put_get)

lemma get2_put1: "get2 (put1 v s) = get2 s"
  by (metis put_commute snd.get_put snd.put_get)

end

end
