(* ===== verification/V850_Decode.thy ===== *)
theory V850_Decode
  imports V850_Prelude
begin

unbundle bit_operations_syntax

text \<open>
  The operand decoder: \<open>src/cpu/cpu_dec/op_format.h\<close>, \<open>op_dec_types.h\<close> and \<open>op_dec.c\<close>.

  An instruction is an array \<open>uint16 code[3]\<close>, here a function from the index. The decoder of
  a format writes the fields of that format in \<open>OpDecodedCodeType\<close> and leaves the other
  formats, and \<open>type_id\<close>, as they were; it always returns 0, so its model returns the structure.
  The second half states what the decoders promise: the bits of the instruction can be
  recovered from the fields (formats I to XIV), and every register field is below 32.
\<close>

section \<open>Instruction formats\<close>

datatype OpCodeFormatId =
    OP_CODE_FORMAT_1 | OP_CODE_FORMAT_2 | OP_CODE_FORMAT_3 | OP_CODE_FORMAT_4
  | OP_CODE_FORMAT_5 | OP_CODE_FORMAT_6 | OP_CODE_FORMAT_7 | OP_CODE_FORMAT_8
  | OP_CODE_FORMAT_9 | OP_CODE_FORMAT_10 | OP_CODE_FORMAT_11 | OP_CODE_FORMAT_12
  | OP_CODE_FORMAT_13 | OP_CODE_FORMAT_14 | OP_CODE_FORMAT_F | OP_CODE_FORMAT_UNKNOWN

record OpCodeFormatType1 =
  t1_opcode :: u16
  t1_reg1 :: u16
  t1_reg2 :: u16

record OpCodeFormatType2 =
  t2_opcode :: u16
  t2_imm :: u32
  t2_reg2 :: u16

record OpCodeFormatType3 =
  t3_opcode :: u16
  t3_disp :: u32
  t3_cond :: u16

record OpCodeFormatType4_1 =
  t4_1_opcode :: u16
  t4_1_disp :: u32
  t4_1_reg2 :: u16
  t4_1_gen :: u32

record OpCodeFormatType4_2 =
  t4_2_opcode :: u16
  t4_2_disp :: u32
  t4_2_reg2 :: u16

record OpCodeFormatType5 =
  t5_opcode :: u16
  t5_disp :: u32
  t5_reg2 :: u16

record OpCodeFormatType6 =
  t6_opcode :: u16
  t6_imm :: u32
  t6_reg1 :: u16
  t6_reg2 :: u16

record OpCodeFormatType7 =
  t7_opcode :: u16
  t7_disp :: u32
  t7_reg1 :: u16
  t7_reg2 :: u16
  t7_gen :: u32

record OpCodeFormatType8 =
  t8_opcode :: u16
  t8_sub :: u16
  t8_bit :: u16
  t8_reg1 :: u16
  t8_disp :: u16

record OpCodeFormatType9 =
  t9_opcode :: u16
  t9_sub :: u16
  t9_gen :: u16
  t9_reg2 :: u16
  t9_rfu2 :: u16
  t9_rfu1 :: u16

record OpCodeFormatType10 =
  t10_opcode :: u16
  t10_gen1 :: u16
  t10_gen2 :: u32
  t10_sub :: u16
  t10_rfu1 :: u16
  t10_rfu2 :: u16
  t10_rfu3 :: u16

record OpCodeFormatType11 =
  t11_opcode :: u16
  t11_reg1 :: u16
  t11_reg2 :: u16
  t11_reg3 :: u16
  t11_sub1 :: u16
  t11_sub2 :: u16
  t11_rfu :: u16

record OpCodeFormatType12 =
  t12_opcode :: u16
  t12_reg2 :: u16
  t12_reg3 :: u16
  t12_imml :: u32
  t12_immh :: u32
  t12_sub1 :: u16
  t12_sub2 :: u16

record OpCodeFormatType13 =
  t13_opcode :: u16
  t13_imm :: u32
  t13_list :: "nat \<Rightarrow> u8"
  t13_gen :: u16
  t13_rfu :: u16

record OpCodeFormatType14 =
  t14_sub1 :: u16
  t14_opcode :: u16
  t14_reg1 :: u16
  t14_reg3 :: u16
  t14_disp_low :: u32
  t14_sub2 :: u16
  t14_disp_high :: u32

record OpCodeFormatType_f =
  tf_reg2 :: u16
  tf_opcode :: u16
  tf_reg1 :: u16
  tf_reg3 :: u16
  tf_subopcode :: u32

record OpDecodedCodeType =
  type_id :: OpCodeFormatId
  type1 :: OpCodeFormatType1
  type2 :: OpCodeFormatType2
  type3 :: OpCodeFormatType3
  type4_1 :: OpCodeFormatType4_1
  type4_2 :: OpCodeFormatType4_2
  type5 :: OpCodeFormatType5
  type6 :: OpCodeFormatType6
  type7 :: OpCodeFormatType7
  type8 :: OpCodeFormatType8
  type9 :: OpCodeFormatType9
  type10 :: OpCodeFormatType10
  type11 :: OpCodeFormatType11
  type12 :: OpCodeFormatType12
  type13 :: OpCodeFormatType13
  type14 :: OpCodeFormatType14
  type_f :: OpCodeFormatType_f

type_synonym code = "nat \<Rightarrow> u16"

fun OpFormatSize :: "OpCodeFormatId \<Rightarrow> u32 option" where
  "OpFormatSize OP_CODE_FORMAT_1 = Some 2"
| "OpFormatSize OP_CODE_FORMAT_2 = Some 2"
| "OpFormatSize OP_CODE_FORMAT_3 = Some 2"
| "OpFormatSize OP_CODE_FORMAT_4 = Some 2"
| "OpFormatSize OP_CODE_FORMAT_5 = Some 4"
| "OpFormatSize OP_CODE_FORMAT_6 = Some 4"
| "OpFormatSize OP_CODE_FORMAT_7 = Some 4"
| "OpFormatSize OP_CODE_FORMAT_8 = Some 4"
| "OpFormatSize OP_CODE_FORMAT_9 = Some 4"
| "OpFormatSize OP_CODE_FORMAT_10 = Some 4"
| "OpFormatSize OP_CODE_FORMAT_11 = Some 4"
| "OpFormatSize OP_CODE_FORMAT_12 = Some 4"
| "OpFormatSize OP_CODE_FORMAT_13 = Some 4"
| "OpFormatSize OP_CODE_FORMAT_14 = Some 6"
| "OpFormatSize OP_CODE_FORMAT_F = Some 4"
| "OpFormatSize OP_CODE_FORMAT_UNKNOWN = None"

section \<open>The decoders\<close>

definition OpDecode1 :: "code \<Rightarrow> OpDecodedCodeType \<Rightarrow> OpDecodedCodeType" where
  "OpDecode1 code d = d\<lparr>type1 := \<lparr>
     t1_opcode = drop_bit 5 (code 0) AND 0x003F,
     t1_reg1 = code 0 AND 0x001F,
     t1_reg2 = drop_bit 11 (code 0) AND 0x001F\<rparr>\<rparr>"

definition OpDecode2 :: "code \<Rightarrow> OpDecodedCodeType \<Rightarrow> OpDecodedCodeType" where
  "OpDecode2 code d = d\<lparr>type2 := \<lparr>
     t2_opcode = drop_bit 5 (code 0) AND 0x003F,
     t2_imm = ucast (code 0 AND 0x001F),
     t2_reg2 = drop_bit 11 (code 0) AND 0x001F\<rparr>\<rparr>"

definition OpDecode3 :: "code \<Rightarrow> OpDecodedCodeType \<Rightarrow> OpDecodedCodeType" where
  "OpDecode3 code d =
     (let tmp1 = ucast (drop_bit 11 (code 0) AND 0x001F) :: u32;
          tmp2 = ucast (drop_bit 4 (code 0) AND 0x0007) :: u32
      in d\<lparr>type3 := \<lparr>
           t3_opcode = drop_bit 7 (code 0) AND 0x000F,
           t3_disp = push_bit 3 tmp1 OR tmp2,
           t3_cond = code 0 AND 0x000F\<rparr>\<rparr>)"

definition OpDecode4 :: "code \<Rightarrow> OpDecodedCodeType \<Rightarrow> OpDecodedCodeType" where
  "OpDecode4 code d = d\<lparr>
     type4_1 := \<lparr>
       t4_1_opcode = drop_bit 7 (code 0) AND 0x000F,
       t4_1_disp = ucast (drop_bit 1 (code 0) AND 0x3F),
       t4_1_reg2 = drop_bit 11 (code 0) AND 0x001F,
       t4_1_gen = ucast (code 0 AND 0x0001)\<rparr>,
     type4_2 := \<lparr>
       t4_2_opcode = drop_bit 4 (code 0) AND 0x007F,
       t4_2_disp = scast (ucast (code 0) :: u8) AND 0x0F,
       t4_2_reg2 = drop_bit 11 (code 0) AND 0x001F\<rparr>\<rparr>"

definition OpDecode5 :: "code \<Rightarrow> OpDecodedCodeType \<Rightarrow> OpDecodedCodeType" where
  "OpDecode5 code d =
     (let tmp1 = ucast (code 0 AND 0x003F) :: u32;
          tmp2 = ucast (code 1 AND 0xFFFF) :: u32
      in d\<lparr>type5 := \<lparr>
           t5_opcode = drop_bit 6 (code 0) AND 0x001F,
           t5_disp = push_bit 16 tmp1 OR tmp2,
           t5_reg2 = drop_bit 11 (code 0) AND 0x001F\<rparr>\<rparr>)"

definition OpDecode6 :: "code \<Rightarrow> OpDecodedCodeType \<Rightarrow> OpDecodedCodeType" where
  "OpDecode6 code d =
     (let tmp2 = ucast (code 1 AND 0xFFFF) :: u32
      in d\<lparr>type6 := \<lparr>
           t6_opcode = drop_bit 5 (code 0) AND 0x003F,
           t6_imm = tmp2,
           t6_reg1 = code 0 AND 0x001F,
           t6_reg2 = drop_bit 11 (code 0) AND 0x001F\<rparr>\<rparr>)"

definition OpDecode7 :: "code \<Rightarrow> OpDecodedCodeType \<Rightarrow> OpDecodedCodeType" where
  "OpDecode7 code d =
     (let tmp2 = ucast (code 1 AND 0xFFFF) :: u32
      in d\<lparr>type7 := \<lparr>
           t7_opcode = drop_bit 5 (code 0) AND 0x003F,
           t7_disp = drop_bit 1 tmp2 AND 0x7FFF,
           t7_reg1 = code 0 AND 0x001F,
           t7_reg2 = drop_bit 11 (code 0) AND 0x001F,
           t7_gen = tmp2 AND 0x0001\<rparr>\<rparr>)"

definition OpDecode8 :: "code \<Rightarrow> OpDecodedCodeType \<Rightarrow> OpDecodedCodeType" where
  "OpDecode8 code d =
     (let tmp2 = code 1 AND 0xFFFF
      in d\<lparr>type8 := \<lparr>
           t8_opcode = drop_bit 5 (code 0) AND 0x003F,
           t8_sub = drop_bit 14 (code 0) AND 0x0003,
           t8_bit = drop_bit 11 (code 0) AND 0x0007,
           t8_reg1 = code 0 AND 0x001F,
           t8_disp = tmp2\<rparr>\<rparr>)"

definition OpDecode9 :: "code \<Rightarrow> OpDecodedCodeType \<Rightarrow> OpDecodedCodeType" where
  "OpDecode9 code d =
     (let tmp1 = code 0 AND 0xFFFF;
          tmp2 = code 1 AND 0xFFFF
      in d\<lparr>type9 := \<lparr>
           t9_opcode = drop_bit 5 tmp1 AND 0x003F,
           t9_sub = drop_bit 5 tmp2 AND 0x003F,
           t9_gen = tmp1 AND 0x001F,
           t9_reg2 = drop_bit 11 tmp1 AND 0x001F,
           t9_rfu2 = drop_bit 11 tmp2 AND 0x001F,
           t9_rfu1 = drop_bit 1 tmp2 AND 0x000F\<rparr>\<rparr>)"

definition OpDecode10 :: "code \<Rightarrow> OpDecodedCodeType \<Rightarrow> OpDecodedCodeType" where
  "OpDecode10 code d =
     (let tmp2 = code 1 AND 0xFFFF
      in d\<lparr>type10 := \<lparr>
           t10_opcode = drop_bit 5 (code 0) AND 0x003F,
           t10_gen1 = drop_bit 13 (code 0) AND 0x0007,
           t10_gen2 = ucast (code 0 AND 0x001F),
           t10_sub = drop_bit 5 tmp2 AND 0x003F,
           t10_rfu1 = drop_bit 11 (code 0) AND 0x0003,
           t10_rfu2 = drop_bit 11 tmp2 AND 0x001F,
           t10_rfu3 = drop_bit 1 tmp2 AND 0x000F\<rparr>\<rparr>)"

definition OpDecode11 :: "code \<Rightarrow> OpDecodedCodeType \<Rightarrow> OpDecodedCodeType" where
  "OpDecode11 code d =
     (let tmp2 = code 1 AND 0xFFFF
      in d\<lparr>type11 := \<lparr>
           t11_opcode = drop_bit 5 (code 0) AND 0x003F,
           t11_reg1 = code 0 AND 0x001F,
           t11_reg2 = drop_bit 11 (code 0) AND 0x001F,
           t11_reg3 = drop_bit 11 tmp2 AND 0x001F,
           t11_sub1 = drop_bit 5 tmp2 AND 0x003F,
           t11_sub2 = drop_bit 1 tmp2 AND 0x0001,
           t11_rfu = drop_bit 2 tmp2 AND 0x0007\<rparr>\<rparr>)"

definition OpDecode12 :: "code \<Rightarrow> OpDecodedCodeType \<Rightarrow> OpDecodedCodeType" where
  "OpDecode12 code d =
     (let tmp2 = code 1 AND 0xFFFF
      in d\<lparr>type12 := \<lparr>
           t12_opcode = drop_bit 5 (code 0) AND 0x003F,
           t12_reg2 = drop_bit 11 (code 0) AND 0x001F,
           t12_reg3 = drop_bit 11 tmp2 AND 0x001F,
           t12_imml = ucast (code 0 AND 0x001F),
           t12_immh = ucast (drop_bit 2 tmp2 AND 0x001F),
           t12_sub1 = drop_bit 7 tmp2 AND 0x000F,
           t12_sub2 = drop_bit 1 tmp2 AND 0x0001\<rparr>\<rparr>)"

text \<open>
  Format XIII scatters the twelve bits of the register list over an array indexed by register
  number; \<open>flag8\<close> is the \<open>(x != 0) ? 1U : 0U\<close> of each assignment.
\<close>

definition flag8 :: "u16 \<Rightarrow> u8" where
  "flag8 w = (if w \<noteq> 0 then 1 else 0)"

definition OpDecode13 :: "code \<Rightarrow> OpDecodedCodeType \<Rightarrow> OpDecodedCodeType" where
  "OpDecode13 code d =
     (let tmp2 = code 1 AND 0xFFFF;
          t1 = code 0 AND 0x0001;
          t2 = drop_bit 5 (code 1) AND 0x07FF
      in d\<lparr>type13 := \<lparr>
           t13_opcode = drop_bit 6 (code 0) AND 0x001F,
           t13_imm = ucast (drop_bit 1 (code 0) AND 0x001F),
           t13_list = (\<lambda>_. 0)
             (30 := flag8 t1,
              31 := flag8 (t2 AND 0x0001),
              29 := flag8 (t2 AND 0x0002),
              28 := flag8 (t2 AND 0x0004),
              23 := flag8 (t2 AND 0x0008),
              22 := flag8 (t2 AND 0x0010),
              21 := flag8 (t2 AND 0x0020),
              20 := flag8 (t2 AND 0x0040),
              27 := flag8 (t2 AND 0x0080),
              26 := flag8 (t2 AND 0x0100),
              25 := flag8 (t2 AND 0x0200),
              24 := flag8 (t2 AND 0x0400)),
           t13_gen = tmp2 AND 0x001F,
           t13_rfu = drop_bit 11 (code 0) AND 0x001F\<rparr>\<rparr>)"

definition OpDecode14 :: "code \<Rightarrow> OpDecodedCodeType \<Rightarrow> OpDecodedCodeType" where
  "OpDecode14 code d = d\<lparr>type14 := \<lparr>
     t14_sub1 = drop_bit 11 (code 0) AND 0x001F,
     t14_opcode = drop_bit 5 (code 0) AND 0x003F,
     t14_reg1 = code 0 AND 0x001F,
     t14_reg3 = drop_bit 11 (code 1) AND 0x001F,
     t14_disp_low = ucast (drop_bit 4 (code 1) AND 0x007F),
     t14_sub2 = code 1 AND 0x000F,
     t14_disp_high = ucast (code 2)\<rparr>\<rparr>"

definition OpDecode_f :: "code \<Rightarrow> OpDecodedCodeType \<Rightarrow> OpDecodedCodeType" where
  "OpDecode_f code d = d\<lparr>type_f := \<lparr>
     tf_reg2 = drop_bit 11 (code 0) AND 0x001F,
     tf_opcode = drop_bit 5 (code 0) AND 0x003F,
     tf_reg1 = code 0 AND 0x001F,
     tf_reg3 = drop_bit 11 (code 1) AND 0x001F,
     tf_subopcode = ucast (code 1 AND 0x03FF)\<rparr>\<rparr>"

text \<open>The table \<open>OpDecoder\<close>; it has no entry for \<open>OP_CODE_FORMAT_UNKNOWN\<close>.\<close>

fun OpDecoder :: "OpCodeFormatId \<Rightarrow> (code \<Rightarrow> OpDecodedCodeType \<Rightarrow> OpDecodedCodeType) option" where
  "OpDecoder OP_CODE_FORMAT_1 = Some OpDecode1"
| "OpDecoder OP_CODE_FORMAT_2 = Some OpDecode2"
| "OpDecoder OP_CODE_FORMAT_3 = Some OpDecode3"
| "OpDecoder OP_CODE_FORMAT_4 = Some OpDecode4"
| "OpDecoder OP_CODE_FORMAT_5 = Some OpDecode5"
| "OpDecoder OP_CODE_FORMAT_6 = Some OpDecode6"
| "OpDecoder OP_CODE_FORMAT_7 = Some OpDecode7"
| "OpDecoder OP_CODE_FORMAT_8 = Some OpDecode8"
| "OpDecoder OP_CODE_FORMAT_9 = Some OpDecode9"
| "OpDecoder OP_CODE_FORMAT_10 = Some OpDecode10"
| "OpDecoder OP_CODE_FORMAT_11 = Some OpDecode11"
| "OpDecoder OP_CODE_FORMAT_12 = Some OpDecode12"
| "OpDecoder OP_CODE_FORMAT_13 = Some OpDecode13"
| "OpDecoder OP_CODE_FORMAT_14 = Some OpDecode14"
| "OpDecoder OP_CODE_FORMAT_F = Some OpDecode_f"
| "OpDecoder OP_CODE_FORMAT_UNKNOWN = None"

lemmas decode_defs = OpDecode1_def OpDecode2_def OpDecode3_def OpDecode4_def OpDecode5_def
  OpDecode6_def OpDecode7_def OpDecode8_def OpDecode9_def OpDecode10_def OpDecode11_def
  OpDecode12_def OpDecode13_def OpDecode14_def OpDecode_f_def

section \<open>Recovering the instruction\<close>

text \<open>
  The instruction halfwords a decoded structure stands for: the assembler's view of each
  format. Formats IX to XII do not store bit 16 of the instruction, which is 0 wherever the
  parser selects them; Format F is left out because its decoder drops a bit.
\<close>

definition list_bits :: "(nat \<Rightarrow> u8) \<Rightarrow> (nat \<times> nat) list \<Rightarrow> u16" where
  "list_bits l ps = foldr (\<lambda>(i, n) w. w OR (if l i = 0 then 0 else push_bit n 1)) ps 0"

fun encode :: "OpCodeFormatId \<Rightarrow> OpDecodedCodeType \<Rightarrow> u16 list" where
  "encode OP_CODE_FORMAT_1 d = (let t = type1 d in
     [push_bit 11 (t1_reg2 t) OR push_bit 5 (t1_opcode t) OR t1_reg1 t])"
| "encode OP_CODE_FORMAT_2 d = (let t = type2 d in
     [push_bit 11 (t2_reg2 t) OR push_bit 5 (t2_opcode t) OR ucast (t2_imm t)])"
| "encode OP_CODE_FORMAT_3 d = (let t = type3 d in
     [push_bit 11 (ucast (drop_bit 3 (t3_disp t))) OR push_bit 7 (t3_opcode t)
      OR push_bit 4 (take_bit 3 (ucast (t3_disp t))) OR t3_cond t])"
| "encode OP_CODE_FORMAT_4 d = (let t = type4_1 d in
     [push_bit 11 (t4_1_reg2 t) OR push_bit 7 (t4_1_opcode t) OR push_bit 1 (ucast (t4_1_disp t))
      OR ucast (t4_1_gen t)])"
| "encode OP_CODE_FORMAT_5 d = (let t = type5 d in
     [push_bit 11 (t5_reg2 t) OR push_bit 6 (t5_opcode t) OR ucast (drop_bit 16 (t5_disp t)),
      ucast (t5_disp t)])"
| "encode OP_CODE_FORMAT_6 d = (let t = type6 d in
     [push_bit 11 (t6_reg2 t) OR push_bit 5 (t6_opcode t) OR t6_reg1 t, ucast (t6_imm t)])"
| "encode OP_CODE_FORMAT_7 d = (let t = type7 d in
     [push_bit 11 (t7_reg2 t) OR push_bit 5 (t7_opcode t) OR t7_reg1 t,
      push_bit 1 (ucast (t7_disp t)) OR ucast (t7_gen t)])"
| "encode OP_CODE_FORMAT_8 d = (let t = type8 d in
     [push_bit 14 (t8_sub t) OR push_bit 11 (t8_bit t) OR push_bit 5 (t8_opcode t) OR t8_reg1 t,
      t8_disp t])"
| "encode OP_CODE_FORMAT_9 d = (let t = type9 d in
     [push_bit 11 (t9_reg2 t) OR push_bit 5 (t9_opcode t) OR t9_gen t,
      push_bit 11 (t9_rfu2 t) OR push_bit 5 (t9_sub t) OR push_bit 1 (t9_rfu1 t)])"
| "encode OP_CODE_FORMAT_10 d = (let t = type10 d in
     [push_bit 13 (t10_gen1 t) OR push_bit 11 (t10_rfu1 t) OR push_bit 5 (t10_opcode t)
      OR ucast (t10_gen2 t),
      push_bit 11 (t10_rfu2 t) OR push_bit 5 (t10_sub t) OR push_bit 1 (t10_rfu3 t)])"
| "encode OP_CODE_FORMAT_11 d = (let t = type11 d in
     [push_bit 11 (t11_reg2 t) OR push_bit 5 (t11_opcode t) OR t11_reg1 t,
      push_bit 11 (t11_reg3 t) OR push_bit 5 (t11_sub1 t) OR push_bit 2 (t11_rfu t)
      OR push_bit 1 (t11_sub2 t)])"
| "encode OP_CODE_FORMAT_12 d = (let t = type12 d in
     [push_bit 11 (t12_reg2 t) OR push_bit 5 (t12_opcode t) OR ucast (t12_imml t),
      push_bit 11 (t12_reg3 t) OR push_bit 7 (t12_sub1 t) OR push_bit 2 (ucast (t12_immh t))
      OR push_bit 1 (t12_sub2 t)])"
| "encode OP_CODE_FORMAT_13 d = (let t = type13 d in
     [push_bit 11 (t13_rfu t) OR push_bit 6 (t13_opcode t) OR push_bit 1 (ucast (t13_imm t))
      OR list_bits (t13_list t) [(30, 0)],
      t13_gen t OR list_bits (t13_list t)
        [(31, 5), (29, 6), (28, 7), (23, 8), (22, 9), (21, 10), (20, 11), (27, 12), (26, 13),
         (25, 14), (24, 15)]])"
| "encode OP_CODE_FORMAT_14 d = (let t = type14 d in
     [push_bit 11 (t14_sub1 t) OR push_bit 5 (t14_opcode t) OR t14_reg1 t,
      push_bit 11 (t14_reg3 t) OR push_bit 4 (ucast (t14_disp_low t)) OR t14_sub2 t,
      ucast (t14_disp_high t)])"
| "encode OP_CODE_FORMAT_F d = []"
| "encode OP_CODE_FORMAT_UNKNOWN d = []"

text \<open>The halfwords a format occupies, with bit 16 cleared where the decoder does not store it.\<close>

fun halfwords :: "OpCodeFormatId \<Rightarrow> code \<Rightarrow> u16 list" where
  "halfwords f code =
     (if f \<in> {OP_CODE_FORMAT_1, OP_CODE_FORMAT_2, OP_CODE_FORMAT_3, OP_CODE_FORMAT_4} then [code 0]
      else if f \<in> {OP_CODE_FORMAT_5, OP_CODE_FORMAT_6, OP_CODE_FORMAT_7, OP_CODE_FORMAT_8,
                   OP_CODE_FORMAT_13} then [code 0, code 1]
      else if f \<in> {OP_CODE_FORMAT_9, OP_CODE_FORMAT_10, OP_CODE_FORMAT_11, OP_CODE_FORMAT_12}
           then [code 0, code 1 AND NOT 1]
      else if f = OP_CODE_FORMAT_14 then [code 0, code 1, code 2]
      else [])"

lemma flag8_eq_0 [simp]: "flag8 w = 0 \<longleftrightarrow> w = 0"
  by (simp add: flag8_def)

lemma bit_list_bits_Nil [simp]: "\<not> bit (list_bits l []) n"
  by (simp add: list_bits_def)

lemma bit_list_bits_Cons [simp]:
  "bit (list_bits l ((i, k) # ps)) n \<longleftrightarrow> (n = k \<and> n < 16 \<and> l i \<noteq> 0) \<or> bit (list_bits l ps) n"
  by (auto simp: list_bits_def bit_or_iff bit_exp_iff)

text \<open>The register list of PREPARE and DISPOSE: which bit of the instruction selects which register.\<close>

lemma OpDecode13_list:
  "t13_list (type13 (OpDecode13 code d)) i \<noteq> 0 \<longleftrightarrow>
     (i = 30 \<and> bit (code 0) 0) \<or> (i = 31 \<and> bit (code 1) 5) \<or> (i = 29 \<and> bit (code 1) 6) \<or>
     (i = 28 \<and> bit (code 1) 7) \<or> (i = 23 \<and> bit (code 1) 8) \<or> (i = 22 \<and> bit (code 1) 9) \<or>
     (i = 21 \<and> bit (code 1) 10) \<or> (i = 20 \<and> bit (code 1) 11) \<or> (i = 27 \<and> bit (code 1) 12) \<or>
     (i = 26 \<and> bit (code 1) 13) \<or> (i = 25 \<and> bit (code 1) 14) \<or> (i = 24 \<and> bit (code 1) 15)"
  by (simp add: OpDecode13_def Let_def bit_test_simps) (simp add: bit_simps_all mask_simps)

lemma encode_OpDecode_short:
  "encode OP_CODE_FORMAT_1 (OpDecode1 code d) = [code 0]"
  "encode OP_CODE_FORMAT_2 (OpDecode2 code d) = [code 0]"
  "encode OP_CODE_FORMAT_3 (OpDecode3 code d) = [code 0]"
  "encode OP_CODE_FORMAT_4 (OpDecode4 code d) = [code 0]"
  unfolding encode.simps Let_def
  by (intro arg_cong2 [where f = Cons] refl; rule u16_eqI;
      simp only: list.pred_inject bit_or_iff bit_push_bit_iff;
      simp add: decode_defs Let_def bit_simps_all mask_simps;
      simp add: bit_simps_all bit_1_iff numeral_2_eq_2 numeral_3_eq_3 flip: bit_0)+

lemma encode_OpDecode_long:
  "encode OP_CODE_FORMAT_5 (OpDecode5 code d) = [code 0, code 1]"
  "encode OP_CODE_FORMAT_6 (OpDecode6 code d) = [code 0, code 1]"
  "encode OP_CODE_FORMAT_7 (OpDecode7 code d) = [code 0, code 1]"
  "encode OP_CODE_FORMAT_8 (OpDecode8 code d) = [code 0, code 1]"
  "encode OP_CODE_FORMAT_14 (OpDecode14 code d) = [code 0, code 1, code 2]"
  unfolding encode.simps Let_def
  by (intro arg_cong2 [where f = Cons] refl; rule u16_eqI;
      simp only: list.pred_inject bit_or_iff bit_push_bit_iff;
      simp add: decode_defs Let_def bit_simps_all mask_simps;
      simp add: bit_simps_all bit_1_iff numeral_2_eq_2 numeral_3_eq_3 flip: bit_0)+

lemma encode_OpDecode_extended:
  "encode OP_CODE_FORMAT_9 (OpDecode9 code d) = [code 0, code 1 AND NOT 1]"
  "encode OP_CODE_FORMAT_10 (OpDecode10 code d) = [code 0, code 1 AND NOT 1]"
  "encode OP_CODE_FORMAT_11 (OpDecode11 code d) = [code 0, code 1 AND NOT 1]"
  "encode OP_CODE_FORMAT_12 (OpDecode12 code d) = [code 0, code 1 AND NOT 1]"
  unfolding encode.simps Let_def
  by (intro arg_cong2 [where f = Cons] refl; rule u16_eqI;
      simp only: list.pred_inject bit_or_iff bit_push_bit_iff;
      simp add: decode_defs Let_def bit_simps_all mask_simps bit_1_iff;
      simp add: bit_simps_all bit_1_iff numeral_2_eq_2 numeral_3_eq_3 flip: bit_0)+

lemma encode_OpDecode_list:
  "encode OP_CODE_FORMAT_13 (OpDecode13 code d) = [code 0, code 1]"
  unfolding encode.simps Let_def
  by (intro arg_cong2 [where f = Cons] refl; rule u16_eqI;
      simp only: list.pred_inject bit_or_iff bit_push_bit_iff bit_list_bits_Cons bit_list_bits_Nil OpDecode13_list;
      simp add: decode_defs Let_def bit_simps_all mask_simps;
      simp add: bit_simps_all bit_1_iff numeral_2_eq_2 numeral_3_eq_3 flip: bit_0)

lemma encode_OpDecode:
  "OpDecoder f = Some dec \<Longrightarrow> f \<noteq> OP_CODE_FORMAT_F \<Longrightarrow> encode f (dec code d) = halfwords f code"
  by (cases f; auto simp del: encode.simps simp: encode_OpDecode_short encode_OpDecode_long
        encode_OpDecode_extended encode_OpDecode_list)

section \<open>Register fields\<close>

text \<open>The fields of a format the executors use as register numbers.\<close>

fun reg_fields :: "OpCodeFormatId \<Rightarrow> OpDecodedCodeType \<Rightarrow> u16 list" where
  "reg_fields OP_CODE_FORMAT_1 d = [t1_reg1 (type1 d), t1_reg2 (type1 d)]"
| "reg_fields OP_CODE_FORMAT_2 d = [t2_reg2 (type2 d)]"
| "reg_fields OP_CODE_FORMAT_3 d = []"
| "reg_fields OP_CODE_FORMAT_4 d = [t4_1_reg2 (type4_1 d), t4_2_reg2 (type4_2 d)]"
| "reg_fields OP_CODE_FORMAT_5 d = [t5_reg2 (type5 d)]"
| "reg_fields OP_CODE_FORMAT_6 d = [t6_reg1 (type6 d), t6_reg2 (type6 d)]"
| "reg_fields OP_CODE_FORMAT_7 d = [t7_reg1 (type7 d), t7_reg2 (type7 d)]"
| "reg_fields OP_CODE_FORMAT_8 d = [t8_reg1 (type8 d)]"
| "reg_fields OP_CODE_FORMAT_9 d = [t9_gen (type9 d), t9_reg2 (type9 d), t9_rfu2 (type9 d)]"
| "reg_fields OP_CODE_FORMAT_10 d = []"
| "reg_fields OP_CODE_FORMAT_11 d = [t11_reg1 (type11 d), t11_reg2 (type11 d), t11_reg3 (type11 d)]"
| "reg_fields OP_CODE_FORMAT_12 d = [t12_reg2 (type12 d), t12_reg3 (type12 d)]"
| "reg_fields OP_CODE_FORMAT_13 d = [t13_gen (type13 d)]"
| "reg_fields OP_CODE_FORMAT_14 d = [t14_reg1 (type14 d), t14_reg3 (type14 d)]"
| "reg_fields OP_CODE_FORMAT_F d = [tf_reg1 (type_f d), tf_reg2 (type_f d), tf_reg3 (type_f d)]"
| "reg_fields OP_CODE_FORMAT_UNKNOWN d = []"

lemma take_bit_5_less_32: "take_bit 5 (w :: u16) < 32"
  by (simp add: word_less_nat_alt unsigned_take_bit_eq take_bit_nat_def)

lemma reg_fields_less_32:
  "OpDecoder f = Some dec \<Longrightarrow> \<forall>x \<in> set (reg_fields f (dec code d)). x < 32"
  by (cases f; auto simp: decode_defs Let_def mask_simps take_bit_5_less_32)

lemma OpDecoder_type_id: "OpDecoder f = Some dec \<Longrightarrow> type_id (dec code d) = type_id d"
  by (cases f; auto simp: decode_defs Let_def)

end
