(* ===== verification/V850_CodeId.thy ===== *)
theory V850_CodeId
  imports V850_Decode
begin

text \<open>
  The operation codes: \<open>src/cpu/cpu_dec/op_codeid.h\<close>. A C enumerator is an integer, and the
  executors are found by indexing \<open>op_exec_table\<close> with it, so an operation code is its \<open>nat\<close>
  value and each enumerator an abbreviation of it. The suffix of an enumerator names the
  instruction format; \<open>code_formats\<close> lists those formats in the order of the enumeration.
\<close>

section \<open>Enumerators\<close>

abbreviation (input) OpCodeId_ABSF_D_F :: nat where "OpCodeId_ABSF_D_F \<equiv> 0"
abbreviation (input) OpCodeId_ABSF_S_F :: nat where "OpCodeId_ABSF_S_F \<equiv> 1"
abbreviation (input) OpCodeId_ADD_1 :: nat where "OpCodeId_ADD_1 \<equiv> 2"
abbreviation (input) OpCodeId_ADD_2 :: nat where "OpCodeId_ADD_2 \<equiv> 3"
abbreviation (input) OpCodeId_ADDF_D_F :: nat where "OpCodeId_ADDF_D_F \<equiv> 4"
abbreviation (input) OpCodeId_ADDF_S_F :: nat where "OpCodeId_ADDF_S_F \<equiv> 5"
abbreviation (input) OpCodeId_ADDI_6 :: nat where "OpCodeId_ADDI_6 \<equiv> 6"
abbreviation (input) OpCodeId_ADF_11 :: nat where "OpCodeId_ADF_11 \<equiv> 7"
abbreviation (input) OpCodeId_AND_1 :: nat where "OpCodeId_AND_1 \<equiv> 8"
abbreviation (input) OpCodeId_ANDI_6 :: nat where "OpCodeId_ANDI_6 \<equiv> 9"
abbreviation (input) OpCodeId_BSH_12 :: nat where "OpCodeId_BSH_12 \<equiv> 10"
abbreviation (input) OpCodeId_BSW_12 :: nat where "OpCodeId_BSW_12 \<equiv> 11"
abbreviation (input) OpCodeId_Bcond_3 :: nat where "OpCodeId_Bcond_3 \<equiv> 12"
abbreviation (input) OpCodeId_CALLT_2 :: nat where "OpCodeId_CALLT_2 \<equiv> 13"
abbreviation (input) OpCodeId_CAXI_11 :: nat where "OpCodeId_CAXI_11 \<equiv> 14"
abbreviation (input) OpCodeId_CEILF_DL_F :: nat where "OpCodeId_CEILF_DL_F \<equiv> 15"
abbreviation (input) OpCodeId_CEILF_DUL_F :: nat where "OpCodeId_CEILF_DUL_F \<equiv> 16"
abbreviation (input) OpCodeId_CEILF_DUW_F :: nat where "OpCodeId_CEILF_DUW_F \<equiv> 17"
abbreviation (input) OpCodeId_CEILF_DW_F :: nat where "OpCodeId_CEILF_DW_F \<equiv> 18"
abbreviation (input) OpCodeId_CEILF_SL_F :: nat where "OpCodeId_CEILF_SL_F \<equiv> 19"
abbreviation (input) OpCodeId_CEILF_SUL_F :: nat where "OpCodeId_CEILF_SUL_F \<equiv> 20"
abbreviation (input) OpCodeId_CEILF_SUW_F :: nat where "OpCodeId_CEILF_SUW_F \<equiv> 21"
abbreviation (input) OpCodeId_CEILF_SW_F :: nat where "OpCodeId_CEILF_SW_F \<equiv> 22"
abbreviation (input) OpCodeId_CLR1_8 :: nat where "OpCodeId_CLR1_8 \<equiv> 23"
abbreviation (input) OpCodeId_CLR1_9 :: nat where "OpCodeId_CLR1_9 \<equiv> 24"
abbreviation (input) OpCodeId_CMOV_12 :: nat where "OpCodeId_CMOV_12 \<equiv> 25"
abbreviation (input) OpCodeId_CMOV_11 :: nat where "OpCodeId_CMOV_11 \<equiv> 26"
abbreviation (input) OpCodeId_CMOVF_D_F :: nat where "OpCodeId_CMOVF_D_F \<equiv> 27"
abbreviation (input) OpCodeId_CMOVF_S_F :: nat where "OpCodeId_CMOVF_S_F \<equiv> 28"
abbreviation (input) OpCodeId_CMP_1 :: nat where "OpCodeId_CMP_1 \<equiv> 29"
abbreviation (input) OpCodeId_CMP_2 :: nat where "OpCodeId_CMP_2 \<equiv> 30"
abbreviation (input) OpCodeId_CMPF_D_F :: nat where "OpCodeId_CMPF_D_F \<equiv> 31"
abbreviation (input) OpCodeId_CMPF_S_F :: nat where "OpCodeId_CMPF_S_F \<equiv> 32"
abbreviation (input) OpCodeId_CTRET_10 :: nat where "OpCodeId_CTRET_10 \<equiv> 33"
abbreviation (input) OpCodeId_CVTF_DL_F :: nat where "OpCodeId_CVTF_DL_F \<equiv> 34"
abbreviation (input) OpCodeId_CVTF_DS_F :: nat where "OpCodeId_CVTF_DS_F \<equiv> 35"
abbreviation (input) OpCodeId_CVTF_DUL_F :: nat where "OpCodeId_CVTF_DUL_F \<equiv> 36"
abbreviation (input) OpCodeId_CVTF_DUW_F :: nat where "OpCodeId_CVTF_DUW_F \<equiv> 37"
abbreviation (input) OpCodeId_CVTF_DW_F :: nat where "OpCodeId_CVTF_DW_F \<equiv> 38"
abbreviation (input) OpCodeId_CVTF_LD_F :: nat where "OpCodeId_CVTF_LD_F \<equiv> 39"
abbreviation (input) OpCodeId_CVTF_LS_F :: nat where "OpCodeId_CVTF_LS_F \<equiv> 40"
abbreviation (input) OpCodeId_CVTF_SD_F :: nat where "OpCodeId_CVTF_SD_F \<equiv> 41"
abbreviation (input) OpCodeId_CVTF_SL_F :: nat where "OpCodeId_CVTF_SL_F \<equiv> 42"
abbreviation (input) OpCodeId_CVTF_SUL_F :: nat where "OpCodeId_CVTF_SUL_F \<equiv> 43"
abbreviation (input) OpCodeId_CVTF_SUW_F :: nat where "OpCodeId_CVTF_SUW_F \<equiv> 44"
abbreviation (input) OpCodeId_CVTF_SW_F :: nat where "OpCodeId_CVTF_SW_F \<equiv> 45"
abbreviation (input) OpCodeId_CVTF_ULD_F :: nat where "OpCodeId_CVTF_ULD_F \<equiv> 46"
abbreviation (input) OpCodeId_CVTF_ULS_F :: nat where "OpCodeId_CVTF_ULS_F \<equiv> 47"
abbreviation (input) OpCodeId_CVTF_UWD_F :: nat where "OpCodeId_CVTF_UWD_F \<equiv> 48"
abbreviation (input) OpCodeId_CVTF_UWS_F :: nat where "OpCodeId_CVTF_UWS_F \<equiv> 49"
abbreviation (input) OpCodeId_CVTF_WD_F :: nat where "OpCodeId_CVTF_WD_F \<equiv> 50"
abbreviation (input) OpCodeId_CVTF_WS_F :: nat where "OpCodeId_CVTF_WS_F \<equiv> 51"
abbreviation (input) OpCodeId_DI_10 :: nat where "OpCodeId_DI_10 \<equiv> 52"
abbreviation (input) OpCodeId_DISPOSE_13 :: nat where "OpCodeId_DISPOSE_13 \<equiv> 53"
abbreviation (input) OpCodeId_DIV_11 :: nat where "OpCodeId_DIV_11 \<equiv> 54"
abbreviation (input) OpCodeId_DIVF_D_F :: nat where "OpCodeId_DIVF_D_F \<equiv> 55"
abbreviation (input) OpCodeId_DIVF_S_F :: nat where "OpCodeId_DIVF_S_F \<equiv> 56"
abbreviation (input) OpCodeId_DIVH_1 :: nat where "OpCodeId_DIVH_1 \<equiv> 57"
abbreviation (input) OpCodeId_DIVH_11 :: nat where "OpCodeId_DIVH_11 \<equiv> 58"
abbreviation (input) OpCodeId_DIVHU_11 :: nat where "OpCodeId_DIVHU_11 \<equiv> 59"
abbreviation (input) OpCodeId_DIVQ_11 :: nat where "OpCodeId_DIVQ_11 \<equiv> 60"
abbreviation (input) OpCodeId_DIVQU_11 :: nat where "OpCodeId_DIVQU_11 \<equiv> 61"
abbreviation (input) OpCodeId_DIVU_11 :: nat where "OpCodeId_DIVU_11 \<equiv> 62"
abbreviation (input) OpCodeId_EI_10 :: nat where "OpCodeId_EI_10 \<equiv> 63"
abbreviation (input) OpCodeId_EIRET_10 :: nat where "OpCodeId_EIRET_10 \<equiv> 64"
abbreviation (input) OpCodeId_FERET_10 :: nat where "OpCodeId_FERET_10 \<equiv> 65"
abbreviation (input) OpCodeId_FETRAP_1 :: nat where "OpCodeId_FETRAP_1 \<equiv> 66"
abbreviation (input) OpCodeId_FLOORF_DL_F :: nat where "OpCodeId_FLOORF_DL_F \<equiv> 67"
abbreviation (input) OpCodeId_FLOORF_DUL_F :: nat where "OpCodeId_FLOORF_DUL_F \<equiv> 68"
abbreviation (input) OpCodeId_FLOORF_DUW_F :: nat where "OpCodeId_FLOORF_DUW_F \<equiv> 69"
abbreviation (input) OpCodeId_FLOORF_DW_F :: nat where "OpCodeId_FLOORF_DW_F \<equiv> 70"
abbreviation (input) OpCodeId_FLOORF_SL_F :: nat where "OpCodeId_FLOORF_SL_F \<equiv> 71"
abbreviation (input) OpCodeId_FLOORF_SUL_F :: nat where "OpCodeId_FLOORF_SUL_F \<equiv> 72"
abbreviation (input) OpCodeId_FLOORF_SUW_F :: nat where "OpCodeId_FLOORF_SUW_F \<equiv> 73"
abbreviation (input) OpCodeId_FLOORF_SW_F :: nat where "OpCodeId_FLOORF_SW_F \<equiv> 74"
abbreviation (input) OpCodeId_HALT_10 :: nat where "OpCodeId_HALT_10 \<equiv> 75"
abbreviation (input) OpCodeId_HSH_12 :: nat where "OpCodeId_HSH_12 \<equiv> 76"
abbreviation (input) OpCodeId_HSW_12 :: nat where "OpCodeId_HSW_12 \<equiv> 77"
abbreviation (input) OpCodeId_JARL_6 :: nat where "OpCodeId_JARL_6 \<equiv> 78"
abbreviation (input) OpCodeId_JARL_5 :: nat where "OpCodeId_JARL_5 \<equiv> 79"
abbreviation (input) OpCodeId_JMP_1 :: nat where "OpCodeId_JMP_1 \<equiv> 80"
abbreviation (input) OpCodeId_JMP_6 :: nat where "OpCodeId_JMP_6 \<equiv> 81"
abbreviation (input) OpCodeId_JR_6 :: nat where "OpCodeId_JR_6 \<equiv> 82"
abbreviation (input) OpCodeId_JR_5 :: nat where "OpCodeId_JR_5 \<equiv> 83"
abbreviation (input) OpCodeId_LDSR_9 :: nat where "OpCodeId_LDSR_9 \<equiv> 84"
abbreviation (input) OpCodeId_LD_B_7 :: nat where "OpCodeId_LD_B_7 \<equiv> 85"
abbreviation (input) OpCodeId_LD_B_14 :: nat where "OpCodeId_LD_B_14 \<equiv> 86"
abbreviation (input) OpCodeId_LD_BU_7 :: nat where "OpCodeId_LD_BU_7 \<equiv> 87"
abbreviation (input) OpCodeId_LD_BU_14 :: nat where "OpCodeId_LD_BU_14 \<equiv> 88"
abbreviation (input) OpCodeId_LD_H_7 :: nat where "OpCodeId_LD_H_7 \<equiv> 89"
abbreviation (input) OpCodeId_LD_H_14 :: nat where "OpCodeId_LD_H_14 \<equiv> 90"
abbreviation (input) OpCodeId_LD_HU_14 :: nat where "OpCodeId_LD_HU_14 \<equiv> 91"
abbreviation (input) OpCodeId_LD_HU_7 :: nat where "OpCodeId_LD_HU_7 \<equiv> 92"
abbreviation (input) OpCodeId_LD_W_7 :: nat where "OpCodeId_LD_W_7 \<equiv> 93"
abbreviation (input) OpCodeId_LD_W_14 :: nat where "OpCodeId_LD_W_14 \<equiv> 94"
abbreviation (input) OpCodeId_MAC_11 :: nat where "OpCodeId_MAC_11 \<equiv> 95"
abbreviation (input) OpCodeId_MACU_11 :: nat where "OpCodeId_MACU_11 \<equiv> 96"
abbreviation (input) OpCodeId_MADDF_S_F :: nat where "OpCodeId_MADDF_S_F \<equiv> 97"
abbreviation (input) OpCodeId_MAXF_D_F :: nat where "OpCodeId_MAXF_D_F \<equiv> 98"
abbreviation (input) OpCodeId_MAXF_S_F :: nat where "OpCodeId_MAXF_S_F \<equiv> 99"
abbreviation (input) OpCodeId_MINF_D_F :: nat where "OpCodeId_MINF_D_F \<equiv> 100"
abbreviation (input) OpCodeId_MINF_S_F :: nat where "OpCodeId_MINF_S_F \<equiv> 101"
abbreviation (input) OpCodeId_MOV_1 :: nat where "OpCodeId_MOV_1 \<equiv> 102"
abbreviation (input) OpCodeId_MOV_2 :: nat where "OpCodeId_MOV_2 \<equiv> 103"
abbreviation (input) OpCodeId_MOV_6 :: nat where "OpCodeId_MOV_6 \<equiv> 104"
abbreviation (input) OpCodeId_MOVEA_6 :: nat where "OpCodeId_MOVEA_6 \<equiv> 105"
abbreviation (input) OpCodeId_MOVHI_6 :: nat where "OpCodeId_MOVHI_6 \<equiv> 106"
abbreviation (input) OpCodeId_MSUBF_S_F :: nat where "OpCodeId_MSUBF_S_F \<equiv> 107"
abbreviation (input) OpCodeId_MUL_11 :: nat where "OpCodeId_MUL_11 \<equiv> 108"
abbreviation (input) OpCodeId_MUL_12 :: nat where "OpCodeId_MUL_12 \<equiv> 109"
abbreviation (input) OpCodeId_MULF_D_F :: nat where "OpCodeId_MULF_D_F \<equiv> 110"
abbreviation (input) OpCodeId_MULF_S_F :: nat where "OpCodeId_MULF_S_F \<equiv> 111"
abbreviation (input) OpCodeId_MULH_1 :: nat where "OpCodeId_MULH_1 \<equiv> 112"
abbreviation (input) OpCodeId_MULH_2 :: nat where "OpCodeId_MULH_2 \<equiv> 113"
abbreviation (input) OpCodeId_MULHI_6 :: nat where "OpCodeId_MULHI_6 \<equiv> 114"
abbreviation (input) OpCodeId_MULU_11 :: nat where "OpCodeId_MULU_11 \<equiv> 115"
abbreviation (input) OpCodeId_MULU_12 :: nat where "OpCodeId_MULU_12 \<equiv> 116"
abbreviation (input) OpCodeId_NEGF_D_F :: nat where "OpCodeId_NEGF_D_F \<equiv> 117"
abbreviation (input) OpCodeId_NEGF_S_F :: nat where "OpCodeId_NEGF_S_F \<equiv> 118"
abbreviation (input) OpCodeId_NMADDF_S_F :: nat where "OpCodeId_NMADDF_S_F \<equiv> 119"
abbreviation (input) OpCodeId_NMSUBF_S_F :: nat where "OpCodeId_NMSUBF_S_F \<equiv> 120"
abbreviation (input) OpCodeId_NOP_1 :: nat where "OpCodeId_NOP_1 \<equiv> 121"
abbreviation (input) OpCodeId_NOT_1 :: nat where "OpCodeId_NOT_1 \<equiv> 122"
abbreviation (input) OpCodeId_NOT1_8 :: nat where "OpCodeId_NOT1_8 \<equiv> 123"
abbreviation (input) OpCodeId_NOT1_9 :: nat where "OpCodeId_NOT1_9 \<equiv> 124"
abbreviation (input) OpCodeId_OR_1 :: nat where "OpCodeId_OR_1 \<equiv> 125"
abbreviation (input) OpCodeId_ORI_6 :: nat where "OpCodeId_ORI_6 \<equiv> 126"
abbreviation (input) OpCodeId_PREPARE_13 :: nat where "OpCodeId_PREPARE_13 \<equiv> 127"
abbreviation (input) OpCodeId_RECIPF_D_F :: nat where "OpCodeId_RECIPF_D_F \<equiv> 128"
abbreviation (input) OpCodeId_RECIPF_S_F :: nat where "OpCodeId_RECIPF_S_F \<equiv> 129"
abbreviation (input) OpCodeId_RETI_10 :: nat where "OpCodeId_RETI_10 \<equiv> 130"
abbreviation (input) OpCodeId_RIE_1 :: nat where "OpCodeId_RIE_1 \<equiv> 131"
abbreviation (input) OpCodeId_RIE_10 :: nat where "OpCodeId_RIE_10 \<equiv> 132"
abbreviation (input) OpCodeId_RSQRTF_D_F :: nat where "OpCodeId_RSQRTF_D_F \<equiv> 133"
abbreviation (input) OpCodeId_RSQRTF_S_F :: nat where "OpCodeId_RSQRTF_S_F \<equiv> 134"
abbreviation (input) OpCodeId_SAR_2 :: nat where "OpCodeId_SAR_2 \<equiv> 135"
abbreviation (input) OpCodeId_SAR_9 :: nat where "OpCodeId_SAR_9 \<equiv> 136"
abbreviation (input) OpCodeId_SAR_11 :: nat where "OpCodeId_SAR_11 \<equiv> 137"
abbreviation (input) OpCodeId_SASF_9 :: nat where "OpCodeId_SASF_9 \<equiv> 138"
abbreviation (input) OpCodeId_SATADD_1 :: nat where "OpCodeId_SATADD_1 \<equiv> 139"
abbreviation (input) OpCodeId_SATADD_2 :: nat where "OpCodeId_SATADD_2 \<equiv> 140"
abbreviation (input) OpCodeId_SATADD_11 :: nat where "OpCodeId_SATADD_11 \<equiv> 141"
abbreviation (input) OpCodeId_SATSUB_1 :: nat where "OpCodeId_SATSUB_1 \<equiv> 142"
abbreviation (input) OpCodeId_SATSUB_11 :: nat where "OpCodeId_SATSUB_11 \<equiv> 143"
abbreviation (input) OpCodeId_SATSUBI_6 :: nat where "OpCodeId_SATSUBI_6 \<equiv> 144"
abbreviation (input) OpCodeId_SATSUBR_1 :: nat where "OpCodeId_SATSUBR_1 \<equiv> 145"
abbreviation (input) OpCodeId_SBF_11 :: nat where "OpCodeId_SBF_11 \<equiv> 146"
abbreviation (input) OpCodeId_SCH0L_9 :: nat where "OpCodeId_SCH0L_9 \<equiv> 147"
abbreviation (input) OpCodeId_SCH0R_9 :: nat where "OpCodeId_SCH0R_9 \<equiv> 148"
abbreviation (input) OpCodeId_SCH1L_9 :: nat where "OpCodeId_SCH1L_9 \<equiv> 149"
abbreviation (input) OpCodeId_SCH1R_9 :: nat where "OpCodeId_SCH1R_9 \<equiv> 150"
abbreviation (input) OpCodeId_SET1_8 :: nat where "OpCodeId_SET1_8 \<equiv> 151"
abbreviation (input) OpCodeId_SET1_9 :: nat where "OpCodeId_SET1_9 \<equiv> 152"
abbreviation (input) OpCodeId_SETF_9 :: nat where "OpCodeId_SETF_9 \<equiv> 153"
abbreviation (input) OpCodeId_SHL_2 :: nat where "OpCodeId_SHL_2 \<equiv> 154"
abbreviation (input) OpCodeId_SHL_9 :: nat where "OpCodeId_SHL_9 \<equiv> 155"
abbreviation (input) OpCodeId_SHL_11 :: nat where "OpCodeId_SHL_11 \<equiv> 156"
abbreviation (input) OpCodeId_SHR_2 :: nat where "OpCodeId_SHR_2 \<equiv> 157"
abbreviation (input) OpCodeId_SHR_9 :: nat where "OpCodeId_SHR_9 \<equiv> 158"
abbreviation (input) OpCodeId_SHR_11 :: nat where "OpCodeId_SHR_11 \<equiv> 159"
abbreviation (input) OpCodeId_SLD_B_4 :: nat where "OpCodeId_SLD_B_4 \<equiv> 160"
abbreviation (input) OpCodeId_SLD_BU_4 :: nat where "OpCodeId_SLD_BU_4 \<equiv> 161"
abbreviation (input) OpCodeId_SLD_H_4 :: nat where "OpCodeId_SLD_H_4 \<equiv> 162"
abbreviation (input) OpCodeId_SLD_HU_4 :: nat where "OpCodeId_SLD_HU_4 \<equiv> 163"
abbreviation (input) OpCodeId_SLD_W_4 :: nat where "OpCodeId_SLD_W_4 \<equiv> 164"
abbreviation (input) OpCodeId_SQRTF_D_F :: nat where "OpCodeId_SQRTF_D_F \<equiv> 165"
abbreviation (input) OpCodeId_SQRTF_S_F :: nat where "OpCodeId_SQRTF_S_F \<equiv> 166"
abbreviation (input) OpCodeId_SST_B_4 :: nat where "OpCodeId_SST_B_4 \<equiv> 167"
abbreviation (input) OpCodeId_SST_H_4 :: nat where "OpCodeId_SST_H_4 \<equiv> 168"
abbreviation (input) OpCodeId_SST_W_4 :: nat where "OpCodeId_SST_W_4 \<equiv> 169"
abbreviation (input) OpCodeId_STSR_9 :: nat where "OpCodeId_STSR_9 \<equiv> 170"
abbreviation (input) OpCodeId_ST_B_7 :: nat where "OpCodeId_ST_B_7 \<equiv> 171"
abbreviation (input) OpCodeId_ST_B_14 :: nat where "OpCodeId_ST_B_14 \<equiv> 172"
abbreviation (input) OpCodeId_ST_H_7 :: nat where "OpCodeId_ST_H_7 \<equiv> 173"
abbreviation (input) OpCodeId_ST_H_14 :: nat where "OpCodeId_ST_H_14 \<equiv> 174"
abbreviation (input) OpCodeId_ST_W_7 :: nat where "OpCodeId_ST_W_7 \<equiv> 175"
abbreviation (input) OpCodeId_ST_W_14 :: nat where "OpCodeId_ST_W_14 \<equiv> 176"
abbreviation (input) OpCodeId_SUB_1 :: nat where "OpCodeId_SUB_1 \<equiv> 177"
abbreviation (input) OpCodeId_SUBF_D_F :: nat where "OpCodeId_SUBF_D_F \<equiv> 178"
abbreviation (input) OpCodeId_SUBF_S_F :: nat where "OpCodeId_SUBF_S_F \<equiv> 179"
abbreviation (input) OpCodeId_SUBR_1 :: nat where "OpCodeId_SUBR_1 \<equiv> 180"
abbreviation (input) OpCodeId_SWITCH_1 :: nat where "OpCodeId_SWITCH_1 \<equiv> 181"
abbreviation (input) OpCodeId_SXB_1 :: nat where "OpCodeId_SXB_1 \<equiv> 182"
abbreviation (input) OpCodeId_SXH_1 :: nat where "OpCodeId_SXH_1 \<equiv> 183"
abbreviation (input) OpCodeId_SYNCE_1 :: nat where "OpCodeId_SYNCE_1 \<equiv> 184"
abbreviation (input) OpCodeId_SYNCM_1 :: nat where "OpCodeId_SYNCM_1 \<equiv> 185"
abbreviation (input) OpCodeId_SYNCP_1 :: nat where "OpCodeId_SYNCP_1 \<equiv> 186"
abbreviation (input) OpCodeId_SYSCALL_10 :: nat where "OpCodeId_SYSCALL_10 \<equiv> 187"
abbreviation (input) OpCodeId_TRAP_10 :: nat where "OpCodeId_TRAP_10 \<equiv> 188"
abbreviation (input) OpCodeId_TRFSR_F :: nat where "OpCodeId_TRFSR_F \<equiv> 189"
abbreviation (input) OpCodeId_TRNCF_DL_F :: nat where "OpCodeId_TRNCF_DL_F \<equiv> 190"
abbreviation (input) OpCodeId_TRNCF_DUL_F :: nat where "OpCodeId_TRNCF_DUL_F \<equiv> 191"
abbreviation (input) OpCodeId_TRNCF_DUW_F :: nat where "OpCodeId_TRNCF_DUW_F \<equiv> 192"
abbreviation (input) OpCodeId_TRNCF_DW_F :: nat where "OpCodeId_TRNCF_DW_F \<equiv> 193"
abbreviation (input) OpCodeId_TRNCF_SL_F :: nat where "OpCodeId_TRNCF_SL_F \<equiv> 194"
abbreviation (input) OpCodeId_TRNCF_SUL_F :: nat where "OpCodeId_TRNCF_SUL_F \<equiv> 195"
abbreviation (input) OpCodeId_TRNCF_SUW_F :: nat where "OpCodeId_TRNCF_SUW_F \<equiv> 196"
abbreviation (input) OpCodeId_TRNCF_SW_F :: nat where "OpCodeId_TRNCF_SW_F \<equiv> 197"
abbreviation (input) OpCodeId_TST_1 :: nat where "OpCodeId_TST_1 \<equiv> 198"
abbreviation (input) OpCodeId_TST1_8 :: nat where "OpCodeId_TST1_8 \<equiv> 199"
abbreviation (input) OpCodeId_TST1_9 :: nat where "OpCodeId_TST1_9 \<equiv> 200"
abbreviation (input) OpCodeId_XOR_1 :: nat where "OpCodeId_XOR_1 \<equiv> 201"
abbreviation (input) OpCodeId_XORI_6 :: nat where "OpCodeId_XORI_6 \<equiv> 202"
abbreviation (input) OpCodeId_ZXB_1 :: nat where "OpCodeId_ZXB_1 \<equiv> 203"
abbreviation (input) OpCodeId_ZXH_1 :: nat where "OpCodeId_ZXH_1 \<equiv> 204"

definition OpCodeId_Num :: nat where "OpCodeId_Num = 205"

section \<open>The format an enumerator names\<close>

definition code_formats :: "OpCodeFormatId list" where
  "code_formats =
    [OP_CODE_FORMAT_F, OP_CODE_FORMAT_F, OP_CODE_FORMAT_1, OP_CODE_FORMAT_2,
     OP_CODE_FORMAT_F, OP_CODE_FORMAT_F, OP_CODE_FORMAT_6, OP_CODE_FORMAT_11,
     OP_CODE_FORMAT_1, OP_CODE_FORMAT_6, OP_CODE_FORMAT_12, OP_CODE_FORMAT_12,
     OP_CODE_FORMAT_3, OP_CODE_FORMAT_2, OP_CODE_FORMAT_11, OP_CODE_FORMAT_F,
     OP_CODE_FORMAT_F, OP_CODE_FORMAT_F, OP_CODE_FORMAT_F, OP_CODE_FORMAT_F,
     OP_CODE_FORMAT_F, OP_CODE_FORMAT_F, OP_CODE_FORMAT_F, OP_CODE_FORMAT_8,
     OP_CODE_FORMAT_9, OP_CODE_FORMAT_12, OP_CODE_FORMAT_11, OP_CODE_FORMAT_F,
     OP_CODE_FORMAT_F, OP_CODE_FORMAT_1, OP_CODE_FORMAT_2, OP_CODE_FORMAT_F,
     OP_CODE_FORMAT_F, OP_CODE_FORMAT_10, OP_CODE_FORMAT_F, OP_CODE_FORMAT_F,
     OP_CODE_FORMAT_F, OP_CODE_FORMAT_F, OP_CODE_FORMAT_F, OP_CODE_FORMAT_F,
     OP_CODE_FORMAT_F, OP_CODE_FORMAT_F, OP_CODE_FORMAT_F, OP_CODE_FORMAT_F,
     OP_CODE_FORMAT_F, OP_CODE_FORMAT_F, OP_CODE_FORMAT_F, OP_CODE_FORMAT_F,
     OP_CODE_FORMAT_F, OP_CODE_FORMAT_F, OP_CODE_FORMAT_F, OP_CODE_FORMAT_F,
     OP_CODE_FORMAT_10, OP_CODE_FORMAT_13, OP_CODE_FORMAT_11, OP_CODE_FORMAT_F,
     OP_CODE_FORMAT_F, OP_CODE_FORMAT_1, OP_CODE_FORMAT_11, OP_CODE_FORMAT_11,
     OP_CODE_FORMAT_11, OP_CODE_FORMAT_11, OP_CODE_FORMAT_11, OP_CODE_FORMAT_10,
     OP_CODE_FORMAT_10, OP_CODE_FORMAT_10, OP_CODE_FORMAT_1, OP_CODE_FORMAT_F,
     OP_CODE_FORMAT_F, OP_CODE_FORMAT_F, OP_CODE_FORMAT_F, OP_CODE_FORMAT_F,
     OP_CODE_FORMAT_F, OP_CODE_FORMAT_F, OP_CODE_FORMAT_F, OP_CODE_FORMAT_10,
     OP_CODE_FORMAT_12, OP_CODE_FORMAT_12, OP_CODE_FORMAT_6, OP_CODE_FORMAT_5,
     OP_CODE_FORMAT_1, OP_CODE_FORMAT_6, OP_CODE_FORMAT_6, OP_CODE_FORMAT_5,
     OP_CODE_FORMAT_9, OP_CODE_FORMAT_7, OP_CODE_FORMAT_14, OP_CODE_FORMAT_7,
     OP_CODE_FORMAT_14, OP_CODE_FORMAT_7, OP_CODE_FORMAT_14, OP_CODE_FORMAT_14,
     OP_CODE_FORMAT_7, OP_CODE_FORMAT_7, OP_CODE_FORMAT_14, OP_CODE_FORMAT_11,
     OP_CODE_FORMAT_11, OP_CODE_FORMAT_F, OP_CODE_FORMAT_F, OP_CODE_FORMAT_F,
     OP_CODE_FORMAT_F, OP_CODE_FORMAT_F, OP_CODE_FORMAT_1, OP_CODE_FORMAT_2,
     OP_CODE_FORMAT_6, OP_CODE_FORMAT_6, OP_CODE_FORMAT_6, OP_CODE_FORMAT_F,
     OP_CODE_FORMAT_11, OP_CODE_FORMAT_12, OP_CODE_FORMAT_F, OP_CODE_FORMAT_F,
     OP_CODE_FORMAT_1, OP_CODE_FORMAT_2, OP_CODE_FORMAT_6, OP_CODE_FORMAT_11,
     OP_CODE_FORMAT_12, OP_CODE_FORMAT_F, OP_CODE_FORMAT_F, OP_CODE_FORMAT_F,
     OP_CODE_FORMAT_F, OP_CODE_FORMAT_1, OP_CODE_FORMAT_1, OP_CODE_FORMAT_8,
     OP_CODE_FORMAT_9, OP_CODE_FORMAT_1, OP_CODE_FORMAT_6, OP_CODE_FORMAT_13,
     OP_CODE_FORMAT_F, OP_CODE_FORMAT_F, OP_CODE_FORMAT_10, OP_CODE_FORMAT_1,
     OP_CODE_FORMAT_10, OP_CODE_FORMAT_F, OP_CODE_FORMAT_F, OP_CODE_FORMAT_2,
     OP_CODE_FORMAT_9, OP_CODE_FORMAT_11, OP_CODE_FORMAT_9, OP_CODE_FORMAT_1,
     OP_CODE_FORMAT_2, OP_CODE_FORMAT_11, OP_CODE_FORMAT_1, OP_CODE_FORMAT_11,
     OP_CODE_FORMAT_6, OP_CODE_FORMAT_1, OP_CODE_FORMAT_11, OP_CODE_FORMAT_9,
     OP_CODE_FORMAT_9, OP_CODE_FORMAT_9, OP_CODE_FORMAT_9, OP_CODE_FORMAT_8,
     OP_CODE_FORMAT_9, OP_CODE_FORMAT_9, OP_CODE_FORMAT_2, OP_CODE_FORMAT_9,
     OP_CODE_FORMAT_11, OP_CODE_FORMAT_2, OP_CODE_FORMAT_9, OP_CODE_FORMAT_11,
     OP_CODE_FORMAT_4, OP_CODE_FORMAT_4, OP_CODE_FORMAT_4, OP_CODE_FORMAT_4,
     OP_CODE_FORMAT_4, OP_CODE_FORMAT_F, OP_CODE_FORMAT_F, OP_CODE_FORMAT_4,
     OP_CODE_FORMAT_4, OP_CODE_FORMAT_4, OP_CODE_FORMAT_9, OP_CODE_FORMAT_7,
     OP_CODE_FORMAT_14, OP_CODE_FORMAT_7, OP_CODE_FORMAT_14, OP_CODE_FORMAT_7,
     OP_CODE_FORMAT_14, OP_CODE_FORMAT_1, OP_CODE_FORMAT_F, OP_CODE_FORMAT_F,
     OP_CODE_FORMAT_1, OP_CODE_FORMAT_1, OP_CODE_FORMAT_1, OP_CODE_FORMAT_1,
     OP_CODE_FORMAT_1, OP_CODE_FORMAT_1, OP_CODE_FORMAT_1, OP_CODE_FORMAT_10,
     OP_CODE_FORMAT_10, OP_CODE_FORMAT_F, OP_CODE_FORMAT_F, OP_CODE_FORMAT_F,
     OP_CODE_FORMAT_F, OP_CODE_FORMAT_F, OP_CODE_FORMAT_F, OP_CODE_FORMAT_F,
     OP_CODE_FORMAT_F, OP_CODE_FORMAT_F, OP_CODE_FORMAT_1, OP_CODE_FORMAT_8,
     OP_CODE_FORMAT_9, OP_CODE_FORMAT_1, OP_CODE_FORMAT_6, OP_CODE_FORMAT_1,
     OP_CODE_FORMAT_1]"

lemma length_code_formats: "length code_formats = OpCodeId_Num"
  by (simp add: code_formats_def OpCodeId_Num_def)

end
