(* ===== verification/V850_Parse_Base.thy ===== *)
theory V850_Parse_Base
  imports V850_CodeId
begin

unbundle bit_operations_syntax

text \<open>
  The parser of the 64 base opcodes: the field macros of \<open>op_parse_private.h\<close> and the functions
  \<open>op_parse_base_code_\<close>\<open>*\<close> of \<open>src/cpu/cpu_dec/op_parse_private.c\<close>, selected by bits 10-5 of the
  first halfword. A function returns the operation and format it stores, or \<open>None\<close> where it
  returns \<open>-1\<close>. The masks of several single-bit terms are written as one literal.
\<close>

record OperationCodeType =
  format_id :: OpCodeFormatId
  code_id :: nat

definition GET_REG1 :: "u16 \<Rightarrow> u16" where
  "GET_REG1 c = c AND 0x001F"

definition GET_REG2 :: "u16 \<Rightarrow> u16" where
  "GET_REG2 c = drop_bit 11 (c AND 0xF800)"

definition GET_REG3 :: "u16 \<Rightarrow> u16" where
  "GET_REG3 c = drop_bit 11 (c AND 0xF800)"

definition code_value :: "code \<Rightarrow> u32" where
  "code_value code = push_bit 16 (ucast (code 1)) OR ucast (code 0)"

section \<open>Base opcodes\<close>

definition op_parse_base_code_0000_00 :: "code \<Rightarrow> OperationCodeType option" where
  "op_parse_base_code_0000_00 code =
     (let reg1 = GET_REG1 (code 0);
          reg2 = GET_REG2 (code 0)
      in if reg1 = 0 \<and> reg2 = 0
      then Some \<lparr>format_id = OP_CODE_FORMAT_1, code_id = OpCodeId_NOP_1\<rparr>
      else if reg1 = 31 \<and> reg2 = 0
      then Some \<lparr>format_id = OP_CODE_FORMAT_1, code_id = OpCodeId_SYNCP_1\<rparr>
      else if reg1 = 30 \<and> reg2 = 0
      then Some \<lparr>format_id = OP_CODE_FORMAT_1, code_id = OpCodeId_SYNCM_1\<rparr>
      else if reg1 = 29 \<and> reg2 = 0
      then Some \<lparr>format_id = OP_CODE_FORMAT_1, code_id = OpCodeId_SYNCE_1\<rparr>
      else if 1 \<le> reg1 \<and> reg1 \<le> 27 \<and> reg2 = 0
      then Some \<lparr>format_id = OP_CODE_FORMAT_1, code_id = OpCodeId_MOV_1\<rparr>
      else if reg1 = 0 \<and> reg2 \<noteq> 0
      then Some \<lparr>format_id = OP_CODE_FORMAT_1, code_id = OpCodeId_MOV_1\<rparr>
      else if reg1 \<noteq> 0 \<and> reg2 \<noteq> 0
      then Some \<lparr>format_id = OP_CODE_FORMAT_1, code_id = OpCodeId_MOV_1\<rparr>
      else None)"

definition op_parse_base_code_0000_01 :: "code \<Rightarrow> OperationCodeType option" where
  "op_parse_base_code_0000_01 code =
     (Some \<lparr>format_id = OP_CODE_FORMAT_1, code_id = OpCodeId_NOT_1\<rparr>)"

definition op_parse_base_code_0000_10 :: "code \<Rightarrow> OperationCodeType option" where
  "op_parse_base_code_0000_10 code =
     (let reg1 = GET_REG1 (code 0);
          reg2 = GET_REG2 (code 0)
      in if reg1 = 0 \<and> reg2 = 0
      then Some \<lparr>format_id = OP_CODE_FORMAT_1, code_id = OpCodeId_RIE_1\<rparr>
      else if reg1 \<noteq> 0 \<and> reg2 = 0
      then Some \<lparr>format_id = OP_CODE_FORMAT_1, code_id = OpCodeId_SWITCH_1\<rparr>
      else if reg1 = 0 \<and> 1 \<le> reg2 \<and> reg2 \<le> 15
      then Some \<lparr>format_id = OP_CODE_FORMAT_1, code_id = OpCodeId_FETRAP_1\<rparr>
      else if reg1 \<noteq> 0 \<and> reg2 \<noteq> 0
      then Some \<lparr>format_id = OP_CODE_FORMAT_1, code_id = OpCodeId_DIVH_1\<rparr>
      else None)"

definition op_parse_base_code_0000_11 :: "code \<Rightarrow> OperationCodeType option" where
  "op_parse_base_code_0000_11 code =
     (let reg2 = GET_REG2 (code 0);
          value = code_value code
      in if reg2 = 0
      then Some \<lparr>format_id = OP_CODE_FORMAT_1, code_id = OpCodeId_JMP_1\<rparr>
      else if reg2 \<noteq> 0 \<and> value AND 0x10 = 0
      then Some \<lparr>format_id = OP_CODE_FORMAT_4, code_id = OpCodeId_SLD_BU_4\<rparr>
      else if reg2 \<noteq> 0 \<and> value AND 0x10 = 0x10
      then Some \<lparr>format_id = OP_CODE_FORMAT_4, code_id = OpCodeId_SLD_HU_4\<rparr>
      else None)"

definition op_parse_base_code_0001_00 :: "code \<Rightarrow> OperationCodeType option" where
  "op_parse_base_code_0001_00 code =
     (let reg2 = GET_REG2 (code 0)
      in if reg2 \<noteq> 0
      then Some \<lparr>format_id = OP_CODE_FORMAT_1, code_id = OpCodeId_SATSUBR_1\<rparr>
      else if reg2 = 0
      then Some \<lparr>format_id = OP_CODE_FORMAT_1, code_id = OpCodeId_ZXB_1\<rparr>
      else None)"

definition op_parse_base_code_0001_01 :: "code \<Rightarrow> OperationCodeType option" where
  "op_parse_base_code_0001_01 code =
     (let reg2 = GET_REG2 (code 0)
      in if reg2 \<noteq> 0
      then Some \<lparr>format_id = OP_CODE_FORMAT_1, code_id = OpCodeId_SATSUB_1\<rparr>
      else if reg2 = 0
      then Some \<lparr>format_id = OP_CODE_FORMAT_1, code_id = OpCodeId_SXB_1\<rparr>
      else None)"

definition op_parse_base_code_0001_10 :: "code \<Rightarrow> OperationCodeType option" where
  "op_parse_base_code_0001_10 code =
     (let reg2 = GET_REG2 (code 0)
      in if reg2 \<noteq> 0
      then Some \<lparr>format_id = OP_CODE_FORMAT_1, code_id = OpCodeId_SATADD_1\<rparr>
      else if reg2 = 0
      then Some \<lparr>format_id = OP_CODE_FORMAT_1, code_id = OpCodeId_ZXH_1\<rparr>
      else None)"

definition op_parse_base_code_0001_11 :: "code \<Rightarrow> OperationCodeType option" where
  "op_parse_base_code_0001_11 code =
     (let reg2 = GET_REG2 (code 0)
      in if reg2 \<noteq> 0
      then Some \<lparr>format_id = OP_CODE_FORMAT_1, code_id = OpCodeId_MULH_1\<rparr>
      else if reg2 = 0
      then Some \<lparr>format_id = OP_CODE_FORMAT_1, code_id = OpCodeId_SXH_1\<rparr>
      else None)"

definition op_parse_base_code_0010_00 :: "code \<Rightarrow> OperationCodeType option" where
  "op_parse_base_code_0010_00 code =
     (Some \<lparr>format_id = OP_CODE_FORMAT_1, code_id = OpCodeId_OR_1\<rparr>)"

definition op_parse_base_code_0010_01 :: "code \<Rightarrow> OperationCodeType option" where
  "op_parse_base_code_0010_01 code =
     (Some \<lparr>format_id = OP_CODE_FORMAT_1, code_id = OpCodeId_XOR_1\<rparr>)"

definition op_parse_base_code_0010_10 :: "code \<Rightarrow> OperationCodeType option" where
  "op_parse_base_code_0010_10 code =
     (Some \<lparr>format_id = OP_CODE_FORMAT_1, code_id = OpCodeId_AND_1\<rparr>)"

definition op_parse_base_code_0010_11 :: "code \<Rightarrow> OperationCodeType option" where
  "op_parse_base_code_0010_11 code =
     (Some \<lparr>format_id = OP_CODE_FORMAT_1, code_id = OpCodeId_TST_1\<rparr>)"

definition op_parse_base_code_0011_00 :: "code \<Rightarrow> OperationCodeType option" where
  "op_parse_base_code_0011_00 code =
     (Some \<lparr>format_id = OP_CODE_FORMAT_1, code_id = OpCodeId_SUBR_1\<rparr>)"

definition op_parse_base_code_0011_01 :: "code \<Rightarrow> OperationCodeType option" where
  "op_parse_base_code_0011_01 code =
     (Some \<lparr>format_id = OP_CODE_FORMAT_1, code_id = OpCodeId_SUB_1\<rparr>)"

definition op_parse_base_code_0011_10 :: "code \<Rightarrow> OperationCodeType option" where
  "op_parse_base_code_0011_10 code =
     (Some \<lparr>format_id = OP_CODE_FORMAT_1, code_id = OpCodeId_ADD_1\<rparr>)"

definition op_parse_base_code_0011_11 :: "code \<Rightarrow> OperationCodeType option" where
  "op_parse_base_code_0011_11 code =
     (Some \<lparr>format_id = OP_CODE_FORMAT_1, code_id = OpCodeId_CMP_1\<rparr>)"

definition op_parse_base_code_0100_00 :: "code \<Rightarrow> OperationCodeType option" where
  "op_parse_base_code_0100_00 code =
     (let reg2 = GET_REG2 (code 0)
      in if reg2 \<noteq> 0
      then Some \<lparr>format_id = OP_CODE_FORMAT_2, code_id = OpCodeId_MOV_2\<rparr>
      else if reg2 = 0
      then Some \<lparr>format_id = OP_CODE_FORMAT_2, code_id = OpCodeId_CALLT_2\<rparr>
      else None)"

definition op_parse_base_code_0100_01 :: "code \<Rightarrow> OperationCodeType option" where
  "op_parse_base_code_0100_01 code =
     (let reg2 = GET_REG2 (code 0)
      in if reg2 \<noteq> 0
      then Some \<lparr>format_id = OP_CODE_FORMAT_2, code_id = OpCodeId_SATADD_2\<rparr>
      else if reg2 = 0
      then Some \<lparr>format_id = OP_CODE_FORMAT_2, code_id = OpCodeId_CALLT_2\<rparr>
      else None)"

definition op_parse_base_code_0100_10 :: "code \<Rightarrow> OperationCodeType option" where
  "op_parse_base_code_0100_10 code =
     (Some \<lparr>format_id = OP_CODE_FORMAT_2, code_id = OpCodeId_ADD_2\<rparr>)"

definition op_parse_base_code_0100_11 :: "code \<Rightarrow> OperationCodeType option" where
  "op_parse_base_code_0100_11 code =
     (Some \<lparr>format_id = OP_CODE_FORMAT_2, code_id = OpCodeId_CMP_2\<rparr>)"

definition op_parse_base_code_0101_00 :: "code \<Rightarrow> OperationCodeType option" where
  "op_parse_base_code_0101_00 code =
     (Some \<lparr>format_id = OP_CODE_FORMAT_2, code_id = OpCodeId_SHR_2\<rparr>)"

definition op_parse_base_code_0101_01 :: "code \<Rightarrow> OperationCodeType option" where
  "op_parse_base_code_0101_01 code =
     (Some \<lparr>format_id = OP_CODE_FORMAT_2, code_id = OpCodeId_SAR_2\<rparr>)"

definition op_parse_base_code_0101_10 :: "code \<Rightarrow> OperationCodeType option" where
  "op_parse_base_code_0101_10 code =
     (Some \<lparr>format_id = OP_CODE_FORMAT_2, code_id = OpCodeId_SHL_2\<rparr>)"

definition op_parse_base_code_0101_11 :: "code \<Rightarrow> OperationCodeType option" where
  "op_parse_base_code_0101_11 code =
     (let reg1 = GET_REG1 (code 0);
          reg2 = GET_REG2 (code 0)
      in if reg2 \<noteq> 0
      then Some \<lparr>format_id = OP_CODE_FORMAT_2, code_id = OpCodeId_MULH_2\<rparr>
      else if reg1 = 0 \<and> reg2 = 0
      then Some \<lparr>format_id = OP_CODE_FORMAT_6, code_id = OpCodeId_JR_6\<rparr>
      else if reg1 \<noteq> 0 \<and> reg2 = 0
      then Some \<lparr>format_id = OP_CODE_FORMAT_6, code_id = OpCodeId_JARL_6\<rparr>
      else None)"

definition op_parse_base_code_0110_00 :: "code \<Rightarrow> OperationCodeType option" where
  "op_parse_base_code_0110_00 code =
     (Some \<lparr>format_id = OP_CODE_FORMAT_4, code_id = OpCodeId_SLD_B_4\<rparr>)"

definition op_parse_base_code_0110_01 :: "code \<Rightarrow> OperationCodeType option" where
  "op_parse_base_code_0110_01 code =
     (Some \<lparr>format_id = OP_CODE_FORMAT_4, code_id = OpCodeId_SLD_B_4\<rparr>)"

definition op_parse_base_code_0110_10 :: "code \<Rightarrow> OperationCodeType option" where
  "op_parse_base_code_0110_10 code =
     (Some \<lparr>format_id = OP_CODE_FORMAT_4, code_id = OpCodeId_SLD_B_4\<rparr>)"

definition op_parse_base_code_0110_11 :: "code \<Rightarrow> OperationCodeType option" where
  "op_parse_base_code_0110_11 code =
     (Some \<lparr>format_id = OP_CODE_FORMAT_4, code_id = OpCodeId_SLD_B_4\<rparr>)"

definition op_parse_base_code_0111_00 :: "code \<Rightarrow> OperationCodeType option" where
  "op_parse_base_code_0111_00 code =
     (Some \<lparr>format_id = OP_CODE_FORMAT_4, code_id = OpCodeId_SST_B_4\<rparr>)"

definition op_parse_base_code_0111_01 :: "code \<Rightarrow> OperationCodeType option" where
  "op_parse_base_code_0111_01 code =
     (Some \<lparr>format_id = OP_CODE_FORMAT_4, code_id = OpCodeId_SST_B_4\<rparr>)"

definition op_parse_base_code_0111_10 :: "code \<Rightarrow> OperationCodeType option" where
  "op_parse_base_code_0111_10 code =
     (Some \<lparr>format_id = OP_CODE_FORMAT_4, code_id = OpCodeId_SST_B_4\<rparr>)"

definition op_parse_base_code_0111_11 :: "code \<Rightarrow> OperationCodeType option" where
  "op_parse_base_code_0111_11 code =
     (Some \<lparr>format_id = OP_CODE_FORMAT_4, code_id = OpCodeId_SST_B_4\<rparr>)"

definition op_parse_base_code_1000_00 :: "code \<Rightarrow> OperationCodeType option" where
  "op_parse_base_code_1000_00 code =
     (Some \<lparr>format_id = OP_CODE_FORMAT_4, code_id = OpCodeId_SLD_H_4\<rparr>)"

definition op_parse_base_code_1000_01 :: "code \<Rightarrow> OperationCodeType option" where
  "op_parse_base_code_1000_01 code =
     (Some \<lparr>format_id = OP_CODE_FORMAT_4, code_id = OpCodeId_SLD_H_4\<rparr>)"

definition op_parse_base_code_1000_10 :: "code \<Rightarrow> OperationCodeType option" where
  "op_parse_base_code_1000_10 code =
     (Some \<lparr>format_id = OP_CODE_FORMAT_4, code_id = OpCodeId_SLD_H_4\<rparr>)"

definition op_parse_base_code_1000_11 :: "code \<Rightarrow> OperationCodeType option" where
  "op_parse_base_code_1000_11 code =
     (Some \<lparr>format_id = OP_CODE_FORMAT_4, code_id = OpCodeId_SLD_H_4\<rparr>)"

definition op_parse_base_code_1001_00 :: "code \<Rightarrow> OperationCodeType option" where
  "op_parse_base_code_1001_00 code =
     (Some \<lparr>format_id = OP_CODE_FORMAT_4, code_id = OpCodeId_SST_H_4\<rparr>)"

definition op_parse_base_code_1001_01 :: "code \<Rightarrow> OperationCodeType option" where
  "op_parse_base_code_1001_01 code =
     (Some \<lparr>format_id = OP_CODE_FORMAT_4, code_id = OpCodeId_SST_H_4\<rparr>)"

definition op_parse_base_code_1001_10 :: "code \<Rightarrow> OperationCodeType option" where
  "op_parse_base_code_1001_10 code =
     (Some \<lparr>format_id = OP_CODE_FORMAT_4, code_id = OpCodeId_SST_H_4\<rparr>)"

definition op_parse_base_code_1001_11 :: "code \<Rightarrow> OperationCodeType option" where
  "op_parse_base_code_1001_11 code =
     (Some \<lparr>format_id = OP_CODE_FORMAT_4, code_id = OpCodeId_SST_H_4\<rparr>)"

definition op_parse_base_code_1010_00 :: "code \<Rightarrow> OperationCodeType option" where
  "op_parse_base_code_1010_00 code =
     (let value = code_value code
      in if value AND 0x1 = 0
      then Some \<lparr>format_id = OP_CODE_FORMAT_4, code_id = OpCodeId_SLD_W_4\<rparr>
      else if value AND 0x1 = 0x1
      then Some \<lparr>format_id = OP_CODE_FORMAT_4, code_id = OpCodeId_SST_W_4\<rparr>
      else None)"

definition op_parse_base_code_1010_01 :: "code \<Rightarrow> OperationCodeType option" where
  "op_parse_base_code_1010_01 code =
     (let value = code_value code
      in if value AND 0x1 = 0
      then Some \<lparr>format_id = OP_CODE_FORMAT_4, code_id = OpCodeId_SLD_W_4\<rparr>
      else if value AND 0x1 = 0x1
      then Some \<lparr>format_id = OP_CODE_FORMAT_4, code_id = OpCodeId_SST_W_4\<rparr>
      else None)"

definition op_parse_base_code_1010_10 :: "code \<Rightarrow> OperationCodeType option" where
  "op_parse_base_code_1010_10 code =
     (let value = code_value code
      in if value AND 0x1 = 0
      then Some \<lparr>format_id = OP_CODE_FORMAT_4, code_id = OpCodeId_SLD_W_4\<rparr>
      else if value AND 0x1 = 0x1
      then Some \<lparr>format_id = OP_CODE_FORMAT_4, code_id = OpCodeId_SST_W_4\<rparr>
      else None)"

definition op_parse_base_code_1010_11 :: "code \<Rightarrow> OperationCodeType option" where
  "op_parse_base_code_1010_11 code =
     (let value = code_value code
      in if value AND 0x1 = 0
      then Some \<lparr>format_id = OP_CODE_FORMAT_4, code_id = OpCodeId_SLD_W_4\<rparr>
      else if value AND 0x1 = 0x1
      then Some \<lparr>format_id = OP_CODE_FORMAT_4, code_id = OpCodeId_SST_W_4\<rparr>
      else None)"

definition op_parse_base_code_1011_00 :: "code \<Rightarrow> OperationCodeType option" where
  "op_parse_base_code_1011_00 code =
     (Some \<lparr>format_id = OP_CODE_FORMAT_3, code_id = OpCodeId_Bcond_3\<rparr>)"

definition op_parse_base_code_1011_01 :: "code \<Rightarrow> OperationCodeType option" where
  "op_parse_base_code_1011_01 code =
     (Some \<lparr>format_id = OP_CODE_FORMAT_3, code_id = OpCodeId_Bcond_3\<rparr>)"

definition op_parse_base_code_1011_10 :: "code \<Rightarrow> OperationCodeType option" where
  "op_parse_base_code_1011_10 code =
     (Some \<lparr>format_id = OP_CODE_FORMAT_3, code_id = OpCodeId_Bcond_3\<rparr>)"

definition op_parse_base_code_1011_11 :: "code \<Rightarrow> OperationCodeType option" where
  "op_parse_base_code_1011_11 code =
     (Some \<lparr>format_id = OP_CODE_FORMAT_3, code_id = OpCodeId_Bcond_3\<rparr>)"

definition op_parse_base_code_1100_00 :: "code \<Rightarrow> OperationCodeType option" where
  "op_parse_base_code_1100_00 code =
     (Some \<lparr>format_id = OP_CODE_FORMAT_6, code_id = OpCodeId_ADDI_6\<rparr>)"

definition op_parse_base_code_1100_01 :: "code \<Rightarrow> OperationCodeType option" where
  "op_parse_base_code_1100_01 code =
     (let reg2 = GET_REG2 (code 0)
      in if reg2 \<noteq> 0
      then Some \<lparr>format_id = OP_CODE_FORMAT_6, code_id = OpCodeId_MOVEA_6\<rparr>
      else if reg2 = 0
      then Some \<lparr>format_id = OP_CODE_FORMAT_6, code_id = OpCodeId_MOV_6\<rparr>
      else None)"

definition op_parse_base_code_1100_10 :: "code \<Rightarrow> OperationCodeType option" where
  "op_parse_base_code_1100_10 code =
     (let reg2 = GET_REG2 (code 0)
      in if reg2 \<noteq> 0
      then Some \<lparr>format_id = OP_CODE_FORMAT_6, code_id = OpCodeId_MOVHI_6\<rparr>
      else if reg2 = 0
      then Some \<lparr>format_id = OP_CODE_FORMAT_13, code_id = OpCodeId_DISPOSE_13\<rparr>
      else None)"

definition op_parse_base_code_1100_11 :: "code \<Rightarrow> OperationCodeType option" where
  "op_parse_base_code_1100_11 code =
     (let reg2 = GET_REG2 (code 0)
      in if reg2 \<noteq> 0
      then Some \<lparr>format_id = OP_CODE_FORMAT_6, code_id = OpCodeId_SATSUBI_6\<rparr>
      else if reg2 = 0
      then Some \<lparr>format_id = OP_CODE_FORMAT_13, code_id = OpCodeId_DISPOSE_13\<rparr>
      else None)"

definition op_parse_base_code_1101_00 :: "code \<Rightarrow> OperationCodeType option" where
  "op_parse_base_code_1101_00 code =
     (Some \<lparr>format_id = OP_CODE_FORMAT_6, code_id = OpCodeId_ORI_6\<rparr>)"

definition op_parse_base_code_1101_01 :: "code \<Rightarrow> OperationCodeType option" where
  "op_parse_base_code_1101_01 code =
     (Some \<lparr>format_id = OP_CODE_FORMAT_6, code_id = OpCodeId_XORI_6\<rparr>)"

definition op_parse_base_code_1101_10 :: "code \<Rightarrow> OperationCodeType option" where
  "op_parse_base_code_1101_10 code =
     (Some \<lparr>format_id = OP_CODE_FORMAT_6, code_id = OpCodeId_ANDI_6\<rparr>)"

definition op_parse_base_code_1101_11 :: "code \<Rightarrow> OperationCodeType option" where
  "op_parse_base_code_1101_11 code =
     (let reg2 = GET_REG2 (code 0);
          value = code_value code
      in if reg2 \<noteq> 0
      then Some \<lparr>format_id = OP_CODE_FORMAT_6, code_id = OpCodeId_MULHI_6\<rparr>
      else if reg2 = 0 \<and> value AND 0x10000 = 0
      then Some \<lparr>format_id = OP_CODE_FORMAT_6, code_id = OpCodeId_JMP_6\<rparr>
      else None)"

definition op_parse_base_code_1110_00 :: "code \<Rightarrow> OperationCodeType option" where
  "op_parse_base_code_1110_00 code =
     (Some \<lparr>format_id = OP_CODE_FORMAT_7, code_id = OpCodeId_LD_B_7\<rparr>)"

definition op_parse_base_code_1110_01 :: "code \<Rightarrow> OperationCodeType option" where
  "op_parse_base_code_1110_01 code =
     (let value = code_value code
      in if value AND 0x10000 = 0
      then Some \<lparr>format_id = OP_CODE_FORMAT_7, code_id = OpCodeId_LD_H_7\<rparr>
      else if value AND 0x10000 = 0x10000
      then Some \<lparr>format_id = OP_CODE_FORMAT_7, code_id = OpCodeId_LD_W_7\<rparr>
      else None)"

definition op_parse_base_code_1110_10 :: "code \<Rightarrow> OperationCodeType option" where
  "op_parse_base_code_1110_10 code =
     (Some \<lparr>format_id = OP_CODE_FORMAT_7, code_id = OpCodeId_ST_B_7\<rparr>)"

definition op_parse_base_code_1110_11 :: "code \<Rightarrow> OperationCodeType option" where
  "op_parse_base_code_1110_11 code =
     (let value = code_value code
      in if value AND 0x10000 = 0
      then Some \<lparr>format_id = OP_CODE_FORMAT_7, code_id = OpCodeId_ST_H_7\<rparr>
      else if value AND 0x10000 = 0x10000
      then Some \<lparr>format_id = OP_CODE_FORMAT_7, code_id = OpCodeId_ST_W_7\<rparr>
      else None)"

definition op_parse_base_code_1111_00 :: "code \<Rightarrow> OperationCodeType option" where
  "op_parse_base_code_1111_00 code =
     (let reg2 = GET_REG2 (code 0);
          value = code_value code
      in if reg2 = 0 \<and> value AND 0xF0020 = 0x50000
      then Some \<lparr>format_id = OP_CODE_FORMAT_14, code_id = OpCodeId_LD_B_14\<rparr>
      else if reg2 = 0 \<and> value AND 0xF0020 = 0x70000
      then Some \<lparr>format_id = OP_CODE_FORMAT_14, code_id = OpCodeId_LD_H_14\<rparr>
      else if reg2 = 0 \<and> value AND 0xF0020 = 0x90000
      then Some \<lparr>format_id = OP_CODE_FORMAT_14, code_id = OpCodeId_LD_W_14\<rparr>
      else if reg2 = 0 \<and> value AND 0xF0020 = 0xD0000
      then Some \<lparr>format_id = OP_CODE_FORMAT_14, code_id = OpCodeId_ST_B_14\<rparr>
      else if reg2 = 0 \<and> value AND 0xF0020 = 0xF0000
      then Some \<lparr>format_id = OP_CODE_FORMAT_14, code_id = OpCodeId_ST_W_14\<rparr>
      else if reg2 = 0 \<and> value AND 0x10000 = 0
      then Some \<lparr>format_id = OP_CODE_FORMAT_5, code_id = OpCodeId_JR_5\<rparr>
      else if reg2 \<noteq> 0 \<and> value AND 0x10000 = 0
      then Some \<lparr>format_id = OP_CODE_FORMAT_5, code_id = OpCodeId_JARL_5\<rparr>
      else if reg2 \<noteq> 0 \<and> value AND 0x10000 = 0x10000
      then Some \<lparr>format_id = OP_CODE_FORMAT_7, code_id = OpCodeId_LD_BU_7\<rparr>
      else if reg2 = 0 \<and> value AND 0x70000 = 0x30000
      then Some \<lparr>format_id = OP_CODE_FORMAT_13, code_id = OpCodeId_PREPARE_13\<rparr>
      else if reg2 = 0 \<and> value AND 0xF0000 = 0x10000
      then Some \<lparr>format_id = OP_CODE_FORMAT_13, code_id = OpCodeId_PREPARE_13\<rparr>
      else None)"

definition op_parse_base_code_1111_01 :: "code \<Rightarrow> OperationCodeType option" where
  "op_parse_base_code_1111_01 code =
     (let reg2 = GET_REG2 (code 0);
          value = code_value code
      in if reg2 = 0 \<and> value AND 0xF0020 = 0x50020
      then Some \<lparr>format_id = OP_CODE_FORMAT_14, code_id = OpCodeId_LD_BU_14\<rparr>
      else if reg2 = 0 \<and> value AND 0xF0020 = 0x70020
      then Some \<lparr>format_id = OP_CODE_FORMAT_14, code_id = OpCodeId_LD_HU_14\<rparr>
      else if reg2 = 0 \<and> value AND 0xF0020 = 0xD0020
      then Some \<lparr>format_id = OP_CODE_FORMAT_14, code_id = OpCodeId_ST_H_14\<rparr>
      else if reg2 = 0 \<and> value AND 0x10000 = 0
      then Some \<lparr>format_id = OP_CODE_FORMAT_5, code_id = OpCodeId_JR_5\<rparr>
      else if reg2 \<noteq> 0 \<and> value AND 0x10000 = 0
      then Some \<lparr>format_id = OP_CODE_FORMAT_5, code_id = OpCodeId_JARL_5\<rparr>
      else if reg2 \<noteq> 0 \<and> value AND 0x10000 = 0x10000
      then Some \<lparr>format_id = OP_CODE_FORMAT_7, code_id = OpCodeId_LD_BU_7\<rparr>
      else if reg2 = 0 \<and> value AND 0x70000 = 0x30000
      then Some \<lparr>format_id = OP_CODE_FORMAT_13, code_id = OpCodeId_PREPARE_13\<rparr>
      else if reg2 = 0 \<and> value AND 0xF0000 = 0x10000
      then Some \<lparr>format_id = OP_CODE_FORMAT_13, code_id = OpCodeId_PREPARE_13\<rparr>
      else None)"

definition op_parse_base_code_1111_10 :: "code \<Rightarrow> OperationCodeType option" where
  "op_parse_base_code_1111_10 code =
     (let value = code_value code
      in if value AND 0xC000 = 0
      then Some \<lparr>format_id = OP_CODE_FORMAT_8, code_id = OpCodeId_SET1_8\<rparr>
      else if value AND 0xC000 = 0x4000
      then Some \<lparr>format_id = OP_CODE_FORMAT_8, code_id = OpCodeId_NOT1_8\<rparr>
      else if value AND 0xC000 = 0x8000
      then Some \<lparr>format_id = OP_CODE_FORMAT_8, code_id = OpCodeId_CLR1_8\<rparr>
      else if value AND 0xC000 = 0xC000
      then Some \<lparr>format_id = OP_CODE_FORMAT_8, code_id = OpCodeId_TST1_8\<rparr>
      else None)"

definition op_parse_base_code_1111_11 :: "code \<Rightarrow> OperationCodeType option" where
  "op_parse_base_code_1111_11 code =
     (let reg2 = GET_REG2 (code 0);
          value = code_value code
      in if reg2 \<noteq> 0 \<and> value AND 0x10000 = 0x10000
      then Some \<lparr>format_id = OP_CODE_FORMAT_7, code_id = OpCodeId_LD_HU_7\<rparr>
      else None)"

section \<open>The dispatch table\<close>

definition op_parse_base_code_table :: "(code \<Rightarrow> OperationCodeType option) list" where
  "op_parse_base_code_table =
    [op_parse_base_code_0000_00, op_parse_base_code_0000_01,
     op_parse_base_code_0000_10, op_parse_base_code_0000_11,
     op_parse_base_code_0001_00, op_parse_base_code_0001_01,
     op_parse_base_code_0001_10, op_parse_base_code_0001_11,
     op_parse_base_code_0010_00, op_parse_base_code_0010_01,
     op_parse_base_code_0010_10, op_parse_base_code_0010_11,
     op_parse_base_code_0011_00, op_parse_base_code_0011_01,
     op_parse_base_code_0011_10, op_parse_base_code_0011_11,
     op_parse_base_code_0100_00, op_parse_base_code_0100_01,
     op_parse_base_code_0100_10, op_parse_base_code_0100_11,
     op_parse_base_code_0101_00, op_parse_base_code_0101_01,
     op_parse_base_code_0101_10, op_parse_base_code_0101_11,
     op_parse_base_code_0110_00, op_parse_base_code_0110_01,
     op_parse_base_code_0110_10, op_parse_base_code_0110_11,
     op_parse_base_code_0111_00, op_parse_base_code_0111_01,
     op_parse_base_code_0111_10, op_parse_base_code_0111_11,
     op_parse_base_code_1000_00, op_parse_base_code_1000_01,
     op_parse_base_code_1000_10, op_parse_base_code_1000_11,
     op_parse_base_code_1001_00, op_parse_base_code_1001_01,
     op_parse_base_code_1001_10, op_parse_base_code_1001_11,
     op_parse_base_code_1010_00, op_parse_base_code_1010_01,
     op_parse_base_code_1010_10, op_parse_base_code_1010_11,
     op_parse_base_code_1011_00, op_parse_base_code_1011_01,
     op_parse_base_code_1011_10, op_parse_base_code_1011_11,
     op_parse_base_code_1100_00, op_parse_base_code_1100_01,
     op_parse_base_code_1100_10, op_parse_base_code_1100_11,
     op_parse_base_code_1101_00, op_parse_base_code_1101_01,
     op_parse_base_code_1101_10, op_parse_base_code_1101_11,
     op_parse_base_code_1110_00, op_parse_base_code_1110_01,
     op_parse_base_code_1110_10, op_parse_base_code_1110_11,
     op_parse_base_code_1111_00, op_parse_base_code_1111_01,
     op_parse_base_code_1111_10, op_parse_base_code_1111_11]"

lemmas parse_base_defs =
  op_parse_base_code_0000_00_def
  op_parse_base_code_0000_01_def
  op_parse_base_code_0000_10_def
  op_parse_base_code_0000_11_def
  op_parse_base_code_0001_00_def
  op_parse_base_code_0001_01_def
  op_parse_base_code_0001_10_def
  op_parse_base_code_0001_11_def
  op_parse_base_code_0010_00_def
  op_parse_base_code_0010_01_def
  op_parse_base_code_0010_10_def
  op_parse_base_code_0010_11_def
  op_parse_base_code_0011_00_def
  op_parse_base_code_0011_01_def
  op_parse_base_code_0011_10_def
  op_parse_base_code_0011_11_def
  op_parse_base_code_0100_00_def
  op_parse_base_code_0100_01_def
  op_parse_base_code_0100_10_def
  op_parse_base_code_0100_11_def
  op_parse_base_code_0101_00_def
  op_parse_base_code_0101_01_def
  op_parse_base_code_0101_10_def
  op_parse_base_code_0101_11_def
  op_parse_base_code_0110_00_def
  op_parse_base_code_0110_01_def
  op_parse_base_code_0110_10_def
  op_parse_base_code_0110_11_def
  op_parse_base_code_0111_00_def
  op_parse_base_code_0111_01_def
  op_parse_base_code_0111_10_def
  op_parse_base_code_0111_11_def
  op_parse_base_code_1000_00_def
  op_parse_base_code_1000_01_def
  op_parse_base_code_1000_10_def
  op_parse_base_code_1000_11_def
  op_parse_base_code_1001_00_def
  op_parse_base_code_1001_01_def
  op_parse_base_code_1001_10_def
  op_parse_base_code_1001_11_def
  op_parse_base_code_1010_00_def
  op_parse_base_code_1010_01_def
  op_parse_base_code_1010_10_def
  op_parse_base_code_1010_11_def
  op_parse_base_code_1011_00_def
  op_parse_base_code_1011_01_def
  op_parse_base_code_1011_10_def
  op_parse_base_code_1011_11_def
  op_parse_base_code_1100_00_def
  op_parse_base_code_1100_01_def
  op_parse_base_code_1100_10_def
  op_parse_base_code_1100_11_def
  op_parse_base_code_1101_00_def
  op_parse_base_code_1101_01_def
  op_parse_base_code_1101_10_def
  op_parse_base_code_1101_11_def
  op_parse_base_code_1110_00_def
  op_parse_base_code_1110_01_def
  op_parse_base_code_1110_10_def
  op_parse_base_code_1110_11_def
  op_parse_base_code_1111_00_def
  op_parse_base_code_1111_01_def
  op_parse_base_code_1111_10_def
  op_parse_base_code_1111_11_def

end
