(* ===== verification/V850_Parse_Extend.thy ===== *)
theory V850_Parse_Extend
  imports V850_Parse_Base
begin

unbundle bit_operations_syntax

text \<open>
  The parser of the 64 extended opcodes: the functions \<open>op_parse_extend_code_\<close>\<open>*\<close> of
  \<open>src/cpu/cpu_dec/op_parse_private.c\<close>, selected by bits 26-21 of the instruction.
\<close>

section \<open>Extended opcodes\<close>

definition op_parse_extend_code_0000_00 :: "code \<Rightarrow> OperationCodeType option" where
  "op_parse_extend_code_0000_00 code =
     (let value = code_value code
      in if value AND 0x10 = 0
      then Some \<lparr>format_id = OP_CODE_FORMAT_9, code_id = OpCodeId_SETF_9\<rparr>
      else if value AND 0x10 = 0x10
      then Some \<lparr>format_id = OP_CODE_FORMAT_10, code_id = OpCodeId_RIE_10\<rparr>
      else None)"

definition op_parse_extend_code_0000_01 :: "code \<Rightarrow> OperationCodeType option" where
  "op_parse_extend_code_0000_01 code =
     (Some \<lparr>format_id = OP_CODE_FORMAT_9, code_id = OpCodeId_LDSR_9\<rparr>)"

definition op_parse_extend_code_0000_10 :: "code \<Rightarrow> OperationCodeType option" where
  "op_parse_extend_code_0000_10 code =
     (Some \<lparr>format_id = OP_CODE_FORMAT_9, code_id = OpCodeId_STSR_9\<rparr>)"

definition op_parse_extend_code_0000_11 :: "code \<Rightarrow> OperationCodeType option" where
  "op_parse_extend_code_0000_11 code =
     (None)"

definition op_parse_extend_code_0001_00 :: "code \<Rightarrow> OperationCodeType option" where
  "op_parse_extend_code_0001_00 code =
     (let value = code_value code
      in if value AND 0x120000 = 0
      then Some \<lparr>format_id = OP_CODE_FORMAT_9, code_id = OpCodeId_SHR_9\<rparr>
      else if value AND 0x120000 = 0x20000
      then Some \<lparr>format_id = OP_CODE_FORMAT_11, code_id = OpCodeId_SHR_11\<rparr>
      else None)"

definition op_parse_extend_code_0001_01 :: "code \<Rightarrow> OperationCodeType option" where
  "op_parse_extend_code_0001_01 code =
     (let value = code_value code
      in if value AND 0x120000 = 0
      then Some \<lparr>format_id = OP_CODE_FORMAT_9, code_id = OpCodeId_SAR_9\<rparr>
      else if value AND 0x120000 = 0x20000
      then Some \<lparr>format_id = OP_CODE_FORMAT_11, code_id = OpCodeId_SAR_11\<rparr>
      else None)"

definition op_parse_extend_code_0001_10 :: "code \<Rightarrow> OperationCodeType option" where
  "op_parse_extend_code_0001_10 code =
     (let value = code_value code
      in if value AND 0x160000 = 0
      then Some \<lparr>format_id = OP_CODE_FORMAT_9, code_id = OpCodeId_SHL_9\<rparr>
      else if value AND 0x160000 = 0x20000
      then Some \<lparr>format_id = OP_CODE_FORMAT_11, code_id = OpCodeId_SHL_11\<rparr>
      else None)"

definition op_parse_extend_code_0001_11 :: "code \<Rightarrow> OperationCodeType option" where
  "op_parse_extend_code_0001_11 code =
     (let value = code_value code
      in if value AND 0x60000 = 0
      then Some \<lparr>format_id = OP_CODE_FORMAT_9, code_id = OpCodeId_SET1_9\<rparr>
      else if value AND 0x60000 = 0x20000
      then Some \<lparr>format_id = OP_CODE_FORMAT_9, code_id = OpCodeId_NOT1_9\<rparr>
      else if value AND 0x60000 = 0x40000
      then Some \<lparr>format_id = OP_CODE_FORMAT_9, code_id = OpCodeId_CLR1_9\<rparr>
      else if value AND 0xE0000 = 0x60000
      then Some \<lparr>format_id = OP_CODE_FORMAT_9, code_id = OpCodeId_TST1_9\<rparr>
      else if value AND 0xE0000 = 0xE0000
      then Some \<lparr>format_id = OP_CODE_FORMAT_11, code_id = OpCodeId_CAXI_11\<rparr>
      else None)"

definition op_parse_extend_code_0010_00 :: "code \<Rightarrow> OperationCodeType option" where
  "op_parse_extend_code_0010_00 code =
     (Some \<lparr>format_id = OP_CODE_FORMAT_10, code_id = OpCodeId_TRAP_10\<rparr>)"

definition op_parse_extend_code_0010_01 :: "code \<Rightarrow> OperationCodeType option" where
  "op_parse_extend_code_0010_01 code =
     (let value = code_value code
      in if value AND 0x800 = 0
      then Some \<lparr>format_id = OP_CODE_FORMAT_10, code_id = OpCodeId_HALT_10\<rparr>
      else None)"

definition op_parse_extend_code_0010_10 :: "code \<Rightarrow> OperationCodeType option" where
  "op_parse_extend_code_0010_10 code =
     (let value = code_value code
      in if value AND 0xE0000 = 0
      then Some \<lparr>format_id = OP_CODE_FORMAT_10, code_id = OpCodeId_RETI_10\<rparr>
      else if value AND 0xE0000 = 0x80000
      then Some \<lparr>format_id = OP_CODE_FORMAT_10, code_id = OpCodeId_EIRET_10\<rparr>
      else if value AND 0xE0000 = 0xA0000
      then Some \<lparr>format_id = OP_CODE_FORMAT_10, code_id = OpCodeId_FERET_10\<rparr>
      else if value AND 0xE0000 = 0x40000
      then Some \<lparr>format_id = OP_CODE_FORMAT_10, code_id = OpCodeId_CTRET_10\<rparr>
      else None)"

definition op_parse_extend_code_0010_11 :: "code \<Rightarrow> OperationCodeType option" where
  "op_parse_extend_code_0010_11 code =
     (let value = code_value code
      in if value AND 0xF800 = 0
      then Some \<lparr>format_id = OP_CODE_FORMAT_10, code_id = OpCodeId_DI_10\<rparr>
      else if value AND 0xF800 = 0x8000
      then Some \<lparr>format_id = OP_CODE_FORMAT_10, code_id = OpCodeId_EI_10\<rparr>
      else if value AND 0xF800 = 0xD000
      then Some \<lparr>format_id = OP_CODE_FORMAT_10, code_id = OpCodeId_SYSCALL_10\<rparr>
      else None)"

definition op_parse_extend_code_0011_00 :: "code \<Rightarrow> OperationCodeType option" where
  "op_parse_extend_code_0011_00 code =
     (None)"

definition op_parse_extend_code_0011_01 :: "code \<Rightarrow> OperationCodeType option" where
  "op_parse_extend_code_0011_01 code =
     (None)"

definition op_parse_extend_code_0011_10 :: "code \<Rightarrow> OperationCodeType option" where
  "op_parse_extend_code_0011_10 code =
     (None)"

definition op_parse_extend_code_0011_11 :: "code \<Rightarrow> OperationCodeType option" where
  "op_parse_extend_code_0011_11 code =
     (None)"

definition op_parse_extend_code_0100_00 :: "code \<Rightarrow> OperationCodeType option" where
  "op_parse_extend_code_0100_00 code =
     (Some \<lparr>format_id = OP_CODE_FORMAT_9, code_id = OpCodeId_SASF_9\<rparr>)"

definition op_parse_extend_code_0100_01 :: "code \<Rightarrow> OperationCodeType option" where
  "op_parse_extend_code_0100_01 code =
     (let value = code_value code
      in if value AND 0x20000 = 0
      then Some \<lparr>format_id = OP_CODE_FORMAT_11, code_id = OpCodeId_MUL_11\<rparr>
      else if value AND 0x20000 = 0x20000
      then Some \<lparr>format_id = OP_CODE_FORMAT_11, code_id = OpCodeId_MULU_11\<rparr>
      else None)"

definition op_parse_extend_code_0100_10 :: "code \<Rightarrow> OperationCodeType option" where
  "op_parse_extend_code_0100_10 code =
     (let value = code_value code
      in if value AND 0x20000 = 0
      then Some \<lparr>format_id = OP_CODE_FORMAT_12, code_id = OpCodeId_MUL_12\<rparr>
      else if value AND 0x20000 = 0x20000
      then Some \<lparr>format_id = OP_CODE_FORMAT_12, code_id = OpCodeId_MULU_12\<rparr>
      else None)"

definition op_parse_extend_code_0100_11 :: "code \<Rightarrow> OperationCodeType option" where
  "op_parse_extend_code_0100_11 code =
     (let value = code_value code
      in if value AND 0x20000 = 0
      then Some \<lparr>format_id = OP_CODE_FORMAT_12, code_id = OpCodeId_MUL_12\<rparr>
      else if value AND 0x20000 = 0x20000
      then Some \<lparr>format_id = OP_CODE_FORMAT_12, code_id = OpCodeId_MULU_12\<rparr>
      else None)"

definition op_parse_extend_code_0101_00 :: "code \<Rightarrow> OperationCodeType option" where
  "op_parse_extend_code_0101_00 code =
     (let value = code_value code
      in if value AND 0x20000 = 0
      then Some \<lparr>format_id = OP_CODE_FORMAT_11, code_id = OpCodeId_DIVH_11\<rparr>
      else if value AND 0x20000 = 0x20000
      then Some \<lparr>format_id = OP_CODE_FORMAT_11, code_id = OpCodeId_DIVHU_11\<rparr>
      else None)"

definition op_parse_extend_code_0101_01 :: "code \<Rightarrow> OperationCodeType option" where
  "op_parse_extend_code_0101_01 code =
     (None)"

definition op_parse_extend_code_0101_10 :: "code \<Rightarrow> OperationCodeType option" where
  "op_parse_extend_code_0101_10 code =
     (let value = code_value code
      in if value AND 0x20000 = 0
      then Some \<lparr>format_id = OP_CODE_FORMAT_11, code_id = OpCodeId_DIV_11\<rparr>
      else if value AND 0x20000 = 0x20000
      then Some \<lparr>format_id = OP_CODE_FORMAT_11, code_id = OpCodeId_DIVU_11\<rparr>
      else None)"

definition op_parse_extend_code_0101_11 :: "code \<Rightarrow> OperationCodeType option" where
  "op_parse_extend_code_0101_11 code =
     (let value = code_value code
      in if value AND 0x20000 = 0
      then Some \<lparr>format_id = OP_CODE_FORMAT_11, code_id = OpCodeId_DIVQ_11\<rparr>
      else if value AND 0x20000 = 0x20000
      then Some \<lparr>format_id = OP_CODE_FORMAT_11, code_id = OpCodeId_DIVQU_11\<rparr>
      else None)"

definition op_parse_extend_code_0110_00 :: "code \<Rightarrow> OperationCodeType option" where
  "op_parse_extend_code_0110_00 code =
     (Some \<lparr>format_id = OP_CODE_FORMAT_12, code_id = OpCodeId_CMOV_12\<rparr>)"

definition op_parse_extend_code_0110_01 :: "code \<Rightarrow> OperationCodeType option" where
  "op_parse_extend_code_0110_01 code =
     (Some \<lparr>format_id = OP_CODE_FORMAT_11, code_id = OpCodeId_CMOV_11\<rparr>)"

definition op_parse_extend_code_0110_10 :: "code \<Rightarrow> OperationCodeType option" where
  "op_parse_extend_code_0110_10 code =
     (let value = code_value code
      in if value AND 0x60000 = 0
      then Some \<lparr>format_id = OP_CODE_FORMAT_12, code_id = OpCodeId_BSW_12\<rparr>
      else if value AND 0x60000 = 0x20000
      then Some \<lparr>format_id = OP_CODE_FORMAT_12, code_id = OpCodeId_BSH_12\<rparr>
      else if value AND 0x60000 = 0x40000
      then Some \<lparr>format_id = OP_CODE_FORMAT_12, code_id = OpCodeId_HSW_12\<rparr>
      else if value AND 0x60000 = 0x60000
      then Some \<lparr>format_id = OP_CODE_FORMAT_12, code_id = OpCodeId_HSH_12\<rparr>
      else None)"

definition op_parse_extend_code_0110_11 :: "code \<Rightarrow> OperationCodeType option" where
  "op_parse_extend_code_0110_11 code =
     (let value = code_value code
      in if value AND 0x1E0000 = 0
      then Some \<lparr>format_id = OP_CODE_FORMAT_9, code_id = OpCodeId_SCH0R_9\<rparr>
      else if value AND 0x1E0000 = 0x20000
      then Some \<lparr>format_id = OP_CODE_FORMAT_9, code_id = OpCodeId_SCH1R_9\<rparr>
      else if value AND 0x1E0000 = 0x40000
      then Some \<lparr>format_id = OP_CODE_FORMAT_9, code_id = OpCodeId_SCH0L_9\<rparr>
      else if value AND 0x1E0000 = 0x60000
      then Some \<lparr>format_id = OP_CODE_FORMAT_9, code_id = OpCodeId_SCH1L_9\<rparr>
      else None)"

definition op_parse_extend_code_0111_00 :: "code \<Rightarrow> OperationCodeType option" where
  "op_parse_extend_code_0111_00 code =
     (let value = code_value code
      in if value AND 0x1E0000 = 0x1A0000
      then Some \<lparr>format_id = OP_CODE_FORMAT_11, code_id = OpCodeId_SATSUB_11\<rparr>
      else if value AND 0x1E0000 \<noteq> 0x1A0000
      then Some \<lparr>format_id = OP_CODE_FORMAT_11, code_id = OpCodeId_SBF_11\<rparr>
      else None)"

definition op_parse_extend_code_0111_01 :: "code \<Rightarrow> OperationCodeType option" where
  "op_parse_extend_code_0111_01 code =
     (let value = code_value code
      in if value AND 0x1E0000 = 0x1A0000
      then Some \<lparr>format_id = OP_CODE_FORMAT_11, code_id = OpCodeId_SATADD_11\<rparr>
      else if value AND 0x1E0000 \<noteq> 0x1A0000
      then Some \<lparr>format_id = OP_CODE_FORMAT_11, code_id = OpCodeId_ADF_11\<rparr>
      else None)"

definition op_parse_extend_code_0111_10 :: "code \<Rightarrow> OperationCodeType option" where
  "op_parse_extend_code_0111_10 code =
     (Some \<lparr>format_id = OP_CODE_FORMAT_11, code_id = OpCodeId_MAC_11\<rparr>)"

definition op_parse_extend_code_0111_11 :: "code \<Rightarrow> OperationCodeType option" where
  "op_parse_extend_code_0111_11 code =
     (Some \<lparr>format_id = OP_CODE_FORMAT_11, code_id = OpCodeId_MACU_11\<rparr>)"

definition op_parse_extend_code_1000_00 :: "code \<Rightarrow> OperationCodeType option" where
  "op_parse_extend_code_1000_00 code =
     (let reg3 = GET_REG3 (code 1);
          value = code_value code
      in if reg3 \<noteq> 0 \<and> value AND 0x100000 = 0
      then Some \<lparr>format_id = OP_CODE_FORMAT_F, code_id = OpCodeId_CMOVF_S_F\<rparr>
      else if reg3 \<noteq> 0 \<and> value AND 0x100000 = 0x100000
      then Some \<lparr>format_id = OP_CODE_FORMAT_F, code_id = OpCodeId_CMOVF_D_F\<rparr>
      else if reg3 = 0 \<and> value AND 0x100000 = 0
      then Some \<lparr>format_id = OP_CODE_FORMAT_F, code_id = OpCodeId_TRFSR_F\<rparr>
      else None)"

definition op_parse_extend_code_1000_01 :: "code \<Rightarrow> OperationCodeType option" where
  "op_parse_extend_code_1000_01 code =
     (let value = code_value code
      in if value AND 0x100000 = 0
      then Some \<lparr>format_id = OP_CODE_FORMAT_F, code_id = OpCodeId_CMPF_S_F\<rparr>
      else if value AND 0x100000 = 0x100000
      then Some \<lparr>format_id = OP_CODE_FORMAT_F, code_id = OpCodeId_CMPF_D_F\<rparr>
      else None)"

text \<open>The longest function, from its end: the cases from FLOORF on, the conversions, the first cases.\<close>

definition op_parse_extend_code_1000_10_floorf :: "code \<Rightarrow> OperationCodeType option" where
  "op_parse_extend_code_1000_10_floorf code =
     (let value = code_value code
      in if value AND 0x1E001F = 0x40003
      then Some \<lparr>format_id = OP_CODE_FORMAT_F, code_id = OpCodeId_FLOORF_SL_F\<rparr>
      else if value AND 0x1E001F = 0x40013
      then Some \<lparr>format_id = OP_CODE_FORMAT_F, code_id = OpCodeId_FLOORF_SUL_F\<rparr>
      else if value AND 0x1E001F = 0x13
      then Some \<lparr>format_id = OP_CODE_FORMAT_F, code_id = OpCodeId_FLOORF_SUW_F\<rparr>
      else if value AND 0x1E001F = 0x3
      then Some \<lparr>format_id = OP_CODE_FORMAT_F, code_id = OpCodeId_FLOORF_SW_F\<rparr>
      else if value AND 0x1E001F = 0x140003
      then Some \<lparr>format_id = OP_CODE_FORMAT_F, code_id = OpCodeId_FLOORF_DL_F\<rparr>
      else if value AND 0x1E001F = 0x140013
      then Some \<lparr>format_id = OP_CODE_FORMAT_F, code_id = OpCodeId_FLOORF_DUL_F\<rparr>
      else if value AND 0x1E001F = 0x100013
      then Some \<lparr>format_id = OP_CODE_FORMAT_F, code_id = OpCodeId_FLOORF_DUW_F\<rparr>
      else if value AND 0x1E001F = 0x100003
      then Some \<lparr>format_id = OP_CODE_FORMAT_F, code_id = OpCodeId_FLOORF_DW_F\<rparr>
      else if value AND 0x1E001F = 0x80001
      then Some \<lparr>format_id = OP_CODE_FORMAT_F, code_id = OpCodeId_NEGF_S_F\<rparr>
      else if value AND 0x1E001F = 0x180001
      then Some \<lparr>format_id = OP_CODE_FORMAT_F, code_id = OpCodeId_NEGF_D_F\<rparr>
      else if value AND 0x1E001F = 0xE0001
      then Some \<lparr>format_id = OP_CODE_FORMAT_F, code_id = OpCodeId_RECIPF_S_F\<rparr>
      else if value AND 0x1E001F = 0x1E0001
      then Some \<lparr>format_id = OP_CODE_FORMAT_F, code_id = OpCodeId_RECIPF_D_F\<rparr>
      else if value AND 0x1E001F = 0xE0002
      then Some \<lparr>format_id = OP_CODE_FORMAT_F, code_id = OpCodeId_RSQRTF_S_F\<rparr>
      else if value AND 0x1E001F = 0x1E0002
      then Some \<lparr>format_id = OP_CODE_FORMAT_F, code_id = OpCodeId_RSQRTF_D_F\<rparr>
      else if value AND 0x1E001F = 0xE0000
      then Some \<lparr>format_id = OP_CODE_FORMAT_F, code_id = OpCodeId_SQRTF_S_F\<rparr>
      else if value AND 0x1E001F = 0x1E0000
      then Some \<lparr>format_id = OP_CODE_FORMAT_F, code_id = OpCodeId_SQRTF_D_F\<rparr>
      else if value AND 0x1E001F = 0x120003
      then Some \<lparr>format_id = OP_CODE_FORMAT_F, code_id = OpCodeId_CVTF_DS_F\<rparr>
      else if value AND 0x1E001F = 0x120002
      then Some \<lparr>format_id = OP_CODE_FORMAT_F, code_id = OpCodeId_CVTF_SD_F\<rparr>
      else if value AND 0x1E001F = 0x40001
      then Some \<lparr>format_id = OP_CODE_FORMAT_F, code_id = OpCodeId_TRNCF_SL_F\<rparr>
      else if value AND 0x1E001F = 0x40011
      then Some \<lparr>format_id = OP_CODE_FORMAT_F, code_id = OpCodeId_TRNCF_SUL_F\<rparr>
      else if value AND 0x1E001F = 0x11
      then Some \<lparr>format_id = OP_CODE_FORMAT_F, code_id = OpCodeId_TRNCF_SUW_F\<rparr>
      else if value AND 0x1E001F = 0x1
      then Some \<lparr>format_id = OP_CODE_FORMAT_F, code_id = OpCodeId_TRNCF_SW_F\<rparr>
      else if value AND 0x1E001F = 0x140001
      then Some \<lparr>format_id = OP_CODE_FORMAT_F, code_id = OpCodeId_TRNCF_DL_F\<rparr>
      else if value AND 0x1E001F = 0x140011
      then Some \<lparr>format_id = OP_CODE_FORMAT_F, code_id = OpCodeId_TRNCF_DUL_F\<rparr>
      else if value AND 0x1E001F = 0x100011
      then Some \<lparr>format_id = OP_CODE_FORMAT_F, code_id = OpCodeId_TRNCF_DUW_F\<rparr>
      else if value AND 0x1E001F = 0x100001
      then Some \<lparr>format_id = OP_CODE_FORMAT_F, code_id = OpCodeId_TRNCF_DW_F\<rparr>
      else None)"

definition op_parse_extend_code_1000_10_cvtf :: "code \<Rightarrow> OperationCodeType option" where
  "op_parse_extend_code_1000_10_cvtf code =
     (let value = code_value code
      in if value AND 0x1E001F = 0x20001
      then Some \<lparr>format_id = OP_CODE_FORMAT_F, code_id = OpCodeId_CVTF_LS_F\<rparr>
      else if value AND 0x1E001F = 0x40004
      then Some \<lparr>format_id = OP_CODE_FORMAT_F, code_id = OpCodeId_CVTF_SL_F\<rparr>
      else if value AND 0x1E001F = 0x40014
      then Some \<lparr>format_id = OP_CODE_FORMAT_F, code_id = OpCodeId_CVTF_SUL_F\<rparr>
      else if value AND 0x1E001F = 0x14
      then Some \<lparr>format_id = OP_CODE_FORMAT_F, code_id = OpCodeId_CVTF_SUW_F\<rparr>
      else if value AND 0x1E001F = 0x4
      then Some \<lparr>format_id = OP_CODE_FORMAT_F, code_id = OpCodeId_CVTF_SW_F\<rparr>
      else if value AND 0x1E001F = 0x20011
      then Some \<lparr>format_id = OP_CODE_FORMAT_F, code_id = OpCodeId_CVTF_ULS_F\<rparr>
      else if value AND 0x1E001F = 0x20010
      then Some \<lparr>format_id = OP_CODE_FORMAT_F, code_id = OpCodeId_CVTF_UWS_F\<rparr>
      else if value AND 0x1E001F = 0x20000
      then Some \<lparr>format_id = OP_CODE_FORMAT_F, code_id = OpCodeId_CVTF_WS_F\<rparr>
      else if value AND 0x1E001F = 0x120001
      then Some \<lparr>format_id = OP_CODE_FORMAT_F, code_id = OpCodeId_CVTF_LD_F\<rparr>
      else if value AND 0x1E001F = 0x140004
      then Some \<lparr>format_id = OP_CODE_FORMAT_F, code_id = OpCodeId_CVTF_DL_F\<rparr>
      else if value AND 0x1E001F = 0x140014
      then Some \<lparr>format_id = OP_CODE_FORMAT_F, code_id = OpCodeId_CVTF_DUL_F\<rparr>
      else if value AND 0x1E001F = 0x100014
      then Some \<lparr>format_id = OP_CODE_FORMAT_F, code_id = OpCodeId_CVTF_DUW_F\<rparr>
      else if value AND 0x1E001F = 0x100004
      then Some \<lparr>format_id = OP_CODE_FORMAT_F, code_id = OpCodeId_CVTF_DW_F\<rparr>
      else if value AND 0x1E001F = 0x120011
      then Some \<lparr>format_id = OP_CODE_FORMAT_F, code_id = OpCodeId_CVTF_ULD_F\<rparr>
      else if value AND 0x1E001F = 0x120010
      then Some \<lparr>format_id = OP_CODE_FORMAT_F, code_id = OpCodeId_CVTF_UWD_F\<rparr>
      else if value AND 0x1E001F = 0x120000
      then Some \<lparr>format_id = OP_CODE_FORMAT_F, code_id = OpCodeId_CVTF_WD_F\<rparr>
      else op_parse_extend_code_1000_10_floorf code)"

definition op_parse_extend_code_1000_10 :: "code \<Rightarrow> OperationCodeType option" where
  "op_parse_extend_code_1000_10 code =
     (let value = code_value code
      in if value AND 0x1E001F = 0x80000
      then Some \<lparr>format_id = OP_CODE_FORMAT_F, code_id = OpCodeId_ABSF_S_F\<rparr>
      else if value AND 0x1E001F = 0x180000
      then Some \<lparr>format_id = OP_CODE_FORMAT_F, code_id = OpCodeId_ABSF_D_F\<rparr>
      else if value AND 0x1E001F = 0x40002
      then Some \<lparr>format_id = OP_CODE_FORMAT_F, code_id = OpCodeId_CEILF_SL_F\<rparr>
      else if value AND 0x1E001F = 0x140002
      then Some \<lparr>format_id = OP_CODE_FORMAT_F, code_id = OpCodeId_CEILF_DL_F\<rparr>
      else if value AND 0x1E001F = 0x40012
      then Some \<lparr>format_id = OP_CODE_FORMAT_F, code_id = OpCodeId_CEILF_SUL_F\<rparr>
      else if value AND 0x1E001F = 0x140012
      then Some \<lparr>format_id = OP_CODE_FORMAT_F, code_id = OpCodeId_CEILF_DUL_F\<rparr>
      else if value AND 0x1E001F = 0x12
      then Some \<lparr>format_id = OP_CODE_FORMAT_F, code_id = OpCodeId_CEILF_SUW_F\<rparr>
      else if value AND 0x1E001F = 0x100012
      then Some \<lparr>format_id = OP_CODE_FORMAT_F, code_id = OpCodeId_CEILF_DUW_F\<rparr>
      else if value AND 0x1E001F = 0x2
      then Some \<lparr>format_id = OP_CODE_FORMAT_F, code_id = OpCodeId_CEILF_SW_F\<rparr>
      else if value AND 0x1E001F = 0x100002
      then Some \<lparr>format_id = OP_CODE_FORMAT_F, code_id = OpCodeId_CEILF_DW_F\<rparr>
      else op_parse_extend_code_1000_10_cvtf code)"

definition op_parse_extend_code_1000_11 :: "code \<Rightarrow> OperationCodeType option" where
  "op_parse_extend_code_1000_11 code =
     (let value = code_value code
      in if value AND 0x1E0000 = 0
      then Some \<lparr>format_id = OP_CODE_FORMAT_F, code_id = OpCodeId_ADDF_S_F\<rparr>
      else if value AND 0x1E0000 = 0x100000
      then Some \<lparr>format_id = OP_CODE_FORMAT_F, code_id = OpCodeId_ADDF_D_F\<rparr>
      else if value AND 0x1E0000 = 0xE0000
      then Some \<lparr>format_id = OP_CODE_FORMAT_F, code_id = OpCodeId_DIVF_S_F\<rparr>
      else if value AND 0x1E0000 = 0x1E0000
      then Some \<lparr>format_id = OP_CODE_FORMAT_F, code_id = OpCodeId_DIVF_D_F\<rparr>
      else if value AND 0x1E0000 = 0x80000
      then Some \<lparr>format_id = OP_CODE_FORMAT_F, code_id = OpCodeId_MAXF_S_F\<rparr>
      else if value AND 0x1E0000 = 0x180000
      then Some \<lparr>format_id = OP_CODE_FORMAT_F, code_id = OpCodeId_MAXF_D_F\<rparr>
      else if value AND 0x1E0000 = 0xA0000
      then Some \<lparr>format_id = OP_CODE_FORMAT_F, code_id = OpCodeId_MINF_S_F\<rparr>
      else if value AND 0x1E0000 = 0x1A0000
      then Some \<lparr>format_id = OP_CODE_FORMAT_F, code_id = OpCodeId_MINF_D_F\<rparr>
      else if value AND 0x1E0000 = 0x40000
      then Some \<lparr>format_id = OP_CODE_FORMAT_F, code_id = OpCodeId_MULF_S_F\<rparr>
      else if value AND 0x1E0000 = 0x20000
      then Some \<lparr>format_id = OP_CODE_FORMAT_F, code_id = OpCodeId_SUBF_S_F\<rparr>
      else if value AND 0x1E0000 = 0x120000
      then Some \<lparr>format_id = OP_CODE_FORMAT_F, code_id = OpCodeId_SUBF_D_F\<rparr>
      else if value AND 0x1E0000 = 0x140000
      then Some \<lparr>format_id = OP_CODE_FORMAT_F, code_id = OpCodeId_MULF_D_F\<rparr>
      else None)"

definition op_parse_extend_code_1001_00 :: "code \<Rightarrow> OperationCodeType option" where
  "op_parse_extend_code_1001_00 code =
     (None)"

definition op_parse_extend_code_1001_01 :: "code \<Rightarrow> OperationCodeType option" where
  "op_parse_extend_code_1001_01 code =
     (None)"

definition op_parse_extend_code_1001_10 :: "code \<Rightarrow> OperationCodeType option" where
  "op_parse_extend_code_1001_10 code =
     (None)"

definition op_parse_extend_code_1001_11 :: "code \<Rightarrow> OperationCodeType option" where
  "op_parse_extend_code_1001_11 code =
     (None)"

definition op_parse_extend_code_1010_00 :: "code \<Rightarrow> OperationCodeType option" where
  "op_parse_extend_code_1010_00 code =
     (Some \<lparr>format_id = OP_CODE_FORMAT_F, code_id = OpCodeId_MADDF_S_F\<rparr>)"

definition op_parse_extend_code_1010_01 :: "code \<Rightarrow> OperationCodeType option" where
  "op_parse_extend_code_1010_01 code =
     (Some \<lparr>format_id = OP_CODE_FORMAT_F, code_id = OpCodeId_MSUBF_S_F\<rparr>)"

definition op_parse_extend_code_1010_10 :: "code \<Rightarrow> OperationCodeType option" where
  "op_parse_extend_code_1010_10 code =
     (Some \<lparr>format_id = OP_CODE_FORMAT_F, code_id = OpCodeId_NMADDF_S_F\<rparr>)"

definition op_parse_extend_code_1010_11 :: "code \<Rightarrow> OperationCodeType option" where
  "op_parse_extend_code_1010_11 code =
     (Some \<lparr>format_id = OP_CODE_FORMAT_F, code_id = OpCodeId_NMSUBF_S_F\<rparr>)"

definition op_parse_extend_code_1011_00 :: "code \<Rightarrow> OperationCodeType option" where
  "op_parse_extend_code_1011_00 code =
     (Some \<lparr>format_id = OP_CODE_FORMAT_F, code_id = OpCodeId_MADDF_S_F\<rparr>)"

definition op_parse_extend_code_1011_01 :: "code \<Rightarrow> OperationCodeType option" where
  "op_parse_extend_code_1011_01 code =
     (Some \<lparr>format_id = OP_CODE_FORMAT_F, code_id = OpCodeId_MSUBF_S_F\<rparr>)"

definition op_parse_extend_code_1011_10 :: "code \<Rightarrow> OperationCodeType option" where
  "op_parse_extend_code_1011_10 code =
     (Some \<lparr>format_id = OP_CODE_FORMAT_F, code_id = OpCodeId_NMADDF_S_F\<rparr>)"

definition op_parse_extend_code_1011_11 :: "code \<Rightarrow> OperationCodeType option" where
  "op_parse_extend_code_1011_11 code =
     (Some \<lparr>format_id = OP_CODE_FORMAT_F, code_id = OpCodeId_NMSUBF_S_F\<rparr>)"

definition op_parse_extend_code_1100_00 :: "code \<Rightarrow> OperationCodeType option" where
  "op_parse_extend_code_1100_00 code =
     (None)"

definition op_parse_extend_code_1100_01 :: "code \<Rightarrow> OperationCodeType option" where
  "op_parse_extend_code_1100_01 code =
     (None)"

definition op_parse_extend_code_1100_10 :: "code \<Rightarrow> OperationCodeType option" where
  "op_parse_extend_code_1100_10 code =
     (None)"

definition op_parse_extend_code_1100_11 :: "code \<Rightarrow> OperationCodeType option" where
  "op_parse_extend_code_1100_11 code =
     (None)"

definition op_parse_extend_code_1101_00 :: "code \<Rightarrow> OperationCodeType option" where
  "op_parse_extend_code_1101_00 code =
     (None)"

definition op_parse_extend_code_1101_01 :: "code \<Rightarrow> OperationCodeType option" where
  "op_parse_extend_code_1101_01 code =
     (None)"

definition op_parse_extend_code_1101_10 :: "code \<Rightarrow> OperationCodeType option" where
  "op_parse_extend_code_1101_10 code =
     (None)"

definition op_parse_extend_code_1101_11 :: "code \<Rightarrow> OperationCodeType option" where
  "op_parse_extend_code_1101_11 code =
     (None)"

definition op_parse_extend_code_1110_00 :: "code \<Rightarrow> OperationCodeType option" where
  "op_parse_extend_code_1110_00 code =
     (None)"

definition op_parse_extend_code_1110_01 :: "code \<Rightarrow> OperationCodeType option" where
  "op_parse_extend_code_1110_01 code =
     (None)"

definition op_parse_extend_code_1110_10 :: "code \<Rightarrow> OperationCodeType option" where
  "op_parse_extend_code_1110_10 code =
     (None)"

definition op_parse_extend_code_1110_11 :: "code \<Rightarrow> OperationCodeType option" where
  "op_parse_extend_code_1110_11 code =
     (None)"

definition op_parse_extend_code_1111_00 :: "code \<Rightarrow> OperationCodeType option" where
  "op_parse_extend_code_1111_00 code =
     (None)"

definition op_parse_extend_code_1111_01 :: "code \<Rightarrow> OperationCodeType option" where
  "op_parse_extend_code_1111_01 code =
     (None)"

definition op_parse_extend_code_1111_10 :: "code \<Rightarrow> OperationCodeType option" where
  "op_parse_extend_code_1111_10 code =
     (None)"

definition op_parse_extend_code_1111_11 :: "code \<Rightarrow> OperationCodeType option" where
  "op_parse_extend_code_1111_11 code =
     (None)"

section \<open>The dispatch table\<close>

definition op_parse_extend_code_table :: "(code \<Rightarrow> OperationCodeType option) list" where
  "op_parse_extend_code_table =
    [op_parse_extend_code_0000_00, op_parse_extend_code_0000_01,
     op_parse_extend_code_0000_10, op_parse_extend_code_0000_11,
     op_parse_extend_code_0001_00, op_parse_extend_code_0001_01,
     op_parse_extend_code_0001_10, op_parse_extend_code_0001_11,
     op_parse_extend_code_0010_00, op_parse_extend_code_0010_01,
     op_parse_extend_code_0010_10, op_parse_extend_code_0010_11,
     op_parse_extend_code_0011_00, op_parse_extend_code_0011_01,
     op_parse_extend_code_0011_10, op_parse_extend_code_0011_11,
     op_parse_extend_code_0100_00, op_parse_extend_code_0100_01,
     op_parse_extend_code_0100_10, op_parse_extend_code_0100_11,
     op_parse_extend_code_0101_00, op_parse_extend_code_0101_01,
     op_parse_extend_code_0101_10, op_parse_extend_code_0101_11,
     op_parse_extend_code_0110_00, op_parse_extend_code_0110_01,
     op_parse_extend_code_0110_10, op_parse_extend_code_0110_11,
     op_parse_extend_code_0111_00, op_parse_extend_code_0111_01,
     op_parse_extend_code_0111_10, op_parse_extend_code_0111_11,
     op_parse_extend_code_1000_00, op_parse_extend_code_1000_01,
     op_parse_extend_code_1000_10, op_parse_extend_code_1000_11,
     op_parse_extend_code_1001_00, op_parse_extend_code_1001_01,
     op_parse_extend_code_1001_10, op_parse_extend_code_1001_11,
     op_parse_extend_code_1010_00, op_parse_extend_code_1010_01,
     op_parse_extend_code_1010_10, op_parse_extend_code_1010_11,
     op_parse_extend_code_1011_00, op_parse_extend_code_1011_01,
     op_parse_extend_code_1011_10, op_parse_extend_code_1011_11,
     op_parse_extend_code_1100_00, op_parse_extend_code_1100_01,
     op_parse_extend_code_1100_10, op_parse_extend_code_1100_11,
     op_parse_extend_code_1101_00, op_parse_extend_code_1101_01,
     op_parse_extend_code_1101_10, op_parse_extend_code_1101_11,
     op_parse_extend_code_1110_00, op_parse_extend_code_1110_01,
     op_parse_extend_code_1110_10, op_parse_extend_code_1110_11,
     op_parse_extend_code_1111_00, op_parse_extend_code_1111_01,
     op_parse_extend_code_1111_10, op_parse_extend_code_1111_11]"

lemmas parse_extend_defs =
  op_parse_extend_code_0000_00_def
  op_parse_extend_code_0000_01_def
  op_parse_extend_code_0000_10_def
  op_parse_extend_code_0000_11_def
  op_parse_extend_code_0001_00_def
  op_parse_extend_code_0001_01_def
  op_parse_extend_code_0001_10_def
  op_parse_extend_code_0001_11_def
  op_parse_extend_code_0010_00_def
  op_parse_extend_code_0010_01_def
  op_parse_extend_code_0010_10_def
  op_parse_extend_code_0010_11_def
  op_parse_extend_code_0011_00_def
  op_parse_extend_code_0011_01_def
  op_parse_extend_code_0011_10_def
  op_parse_extend_code_0011_11_def
  op_parse_extend_code_0100_00_def
  op_parse_extend_code_0100_01_def
  op_parse_extend_code_0100_10_def
  op_parse_extend_code_0100_11_def
  op_parse_extend_code_0101_00_def
  op_parse_extend_code_0101_01_def
  op_parse_extend_code_0101_10_def
  op_parse_extend_code_0101_11_def
  op_parse_extend_code_0110_00_def
  op_parse_extend_code_0110_01_def
  op_parse_extend_code_0110_10_def
  op_parse_extend_code_0110_11_def
  op_parse_extend_code_0111_00_def
  op_parse_extend_code_0111_01_def
  op_parse_extend_code_0111_10_def
  op_parse_extend_code_0111_11_def
  op_parse_extend_code_1000_00_def
  op_parse_extend_code_1000_01_def
  op_parse_extend_code_1000_10_def op_parse_extend_code_1000_10_cvtf_def op_parse_extend_code_1000_10_floorf_def
  op_parse_extend_code_1000_11_def
  op_parse_extend_code_1001_00_def
  op_parse_extend_code_1001_01_def
  op_parse_extend_code_1001_10_def
  op_parse_extend_code_1001_11_def
  op_parse_extend_code_1010_00_def
  op_parse_extend_code_1010_01_def
  op_parse_extend_code_1010_10_def
  op_parse_extend_code_1010_11_def
  op_parse_extend_code_1011_00_def
  op_parse_extend_code_1011_01_def
  op_parse_extend_code_1011_10_def
  op_parse_extend_code_1011_11_def
  op_parse_extend_code_1100_00_def
  op_parse_extend_code_1100_01_def
  op_parse_extend_code_1100_10_def
  op_parse_extend_code_1100_11_def
  op_parse_extend_code_1101_00_def
  op_parse_extend_code_1101_01_def
  op_parse_extend_code_1101_10_def
  op_parse_extend_code_1101_11_def
  op_parse_extend_code_1110_00_def
  op_parse_extend_code_1110_01_def
  op_parse_extend_code_1110_10_def
  op_parse_extend_code_1110_11_def
  op_parse_extend_code_1111_00_def
  op_parse_extend_code_1111_01_def
  op_parse_extend_code_1111_10_def
  op_parse_extend_code_1111_11_def

end
