(* ===== verification/V850_Parse.thy ===== *)
theory V850_Parse
  imports V850_Parse_Extend
begin

unbundle bit_operations_syntax

text \<open>
  The instruction parser \<open>op_parse\<close> of \<open>src/cpu/cpu_dec/op_parse.c\<close>: it selects a table
  (extended when bits 10-5 are all ones and bit 16 is 0), indexes it with an opcode field, runs
  the selected function and then the operand decoder of the format that function chose. The
  result is \<open>None\<close> where the C code would index a table out of bounds, \<open>Some None\<close> where it
  returns \<open>-1\<close>, and otherwise the operation with the decoded operands.
\<close>

section \<open>The parser\<close>

definition is_extend_code :: "code \<Rightarrow> bool" where
  "is_extend_code code \<longleftrightarrow> code 0 AND 0x07E0 = 0x07E0 \<and> code_value code AND 0x10000 = 0"

definition OP_PARSE_TABLE_INDEX :: "u32 \<Rightarrow> u32 \<Rightarrow> nat" where
  "OP_PARSE_TABLE_INDEX base_id sub_id = unat (push_bit 2 base_id OR sub_id)"

definition table_at :: "'a list \<Rightarrow> nat \<Rightarrow> 'a option" where
  "table_at t i = (if i < length t then Some (t ! i) else None)"

definition op_parse :: "code \<Rightarrow> OpDecodedCodeType \<Rightarrow> (OperationCodeType \<times> OpDecodedCodeType) option option" where
  "op_parse code decoded_code = do {
     parse \<leftarrow>
       (if is_extend_code code
        then let base_id = drop_bit 23 (code_value code AND 0x07800000);
                 sub_id = drop_bit 21 (code_value code AND 0x00600000)
             in table_at op_parse_extend_code_table (OP_PARSE_TABLE_INDEX base_id sub_id)
        else let base_id = ucast (drop_bit 7 (code 0 AND 0x0780));
                 sub_id = ucast (drop_bit 5 (code 0 AND 0x0060))
             in table_at op_parse_base_code_table (OP_PARSE_TABLE_INDEX base_id sub_id));
     (case parse code of
        None \<Rightarrow> Some None
      | Some optype \<Rightarrow> do {
          decode \<leftarrow> OpDecoder (format_id optype);
          Some (Some (optype, decode code decoded_code))
        })
   }"

section \<open>The tables are indexed within bounds\<close>

lemma drop_and_take: "drop_bit n (w AND m) = take_bit k (drop_bit n w)"
  if "m = push_bit n (mask k)" for w :: "'a::len word"
  unfolding that
  by (rule bit_word_eqI) (auto simp: bit_simps_all bit_mask_iff dest: bit_imp_le_length)

lemma index_eq:
  "drop_bit 23 (v AND 0x07800000) = take_bit 4 (drop_bit 23 v)"
  "drop_bit 21 (v AND 0x00600000) = take_bit 2 (drop_bit 21 v)"
  "drop_bit 7 (c AND 0x0780) = take_bit 4 (drop_bit 7 c)"
  "drop_bit 5 (c AND 0x0060) = take_bit 2 (drop_bit 5 c)" for v :: u32 and c :: u16
  by (rule drop_and_take, simp add: mask_eq_exp_minus_1 push_bit_eq_mult)+

lemma index_less_64: "OP_PARSE_TABLE_INDEX (take_bit 4 b) (take_bit 2 s) < 64"
proof -
  have "push_bit 2 (take_bit 4 b) OR take_bit 2 s = take_bit 6 (push_bit 2 (take_bit 4 b) OR take_bit 2 s)"
    by (rule bit_word_eqI) (auto simp: bit_simps_all)
  then have "OP_PARSE_TABLE_INDEX (take_bit 4 b) (take_bit 2 s)
      = take_bit 6 (unat (push_bit 2 (take_bit 4 b) OR take_bit 2 s))"
    unfolding OP_PARSE_TABLE_INDEX_def by (metis unsigned_take_bit_eq)
  then show ?thesis
    using take_bit_nat_less_exp [of 6 "unat (push_bit 2 (take_bit 4 b) OR take_bit 2 s)"] by simp
qed

lemma length_tables [simp]:
  "length op_parse_base_code_table = 64" "length op_parse_extend_code_table = 64"
  by (simp_all add: op_parse_base_code_table_def op_parse_extend_code_table_def)

section \<open>Every accepted operation has the format its name says\<close>

definition well_named :: "OperationCodeType \<Rightarrow> bool" where
  "well_named ot \<longleftrightarrow> code_id ot < OpCodeId_Num \<and> format_id ot = code_formats ! code_id ot"

lemma base_table_well_named:
  "list_all (\<lambda>p. \<forall>code ot. p code = Some ot \<longrightarrow> well_named ot) op_parse_base_code_table"
  unfolding op_parse_base_code_table_def list.pred_inject
  by (intro conjI allI impI TrueI;
      simp add: parse_base_defs Let_def split: if_splits;
      (elim disjE conjE)?; clarsimp simp: well_named_def OpCodeId_Num_def code_formats_def)

lemma extend_table_well_named:
  "list_all (\<lambda>p. \<forall>code ot. p code = Some ot \<longrightarrow> well_named ot) op_parse_extend_code_table"
  unfolding op_parse_extend_code_table_def list.pred_inject
  by (intro conjI allI impI TrueI;
      simp add: parse_extend_defs Let_def split: if_splits;
      (elim disjE conjE)?; clarsimp simp: well_named_def OpCodeId_Num_def code_formats_def)

lemma table_at_well_named:
  assumes "list_all (\<lambda>p. \<forall>code ot. p code = Some ot \<longrightarrow> well_named ot) t"
    and "table_at t i = Some p" and "p code = Some ot"
  shows "well_named ot"
  using assms by (auto simp: table_at_def list_all_iff dest: nth_mem split: if_splits)

lemma OpDecoder_defined: "f \<noteq> OP_CODE_FORMAT_UNKNOWN \<Longrightarrow> \<exists>dec. OpDecoder f = Some dec"
  by (cases f) auto

lemma code_formats_known: "n < OpCodeId_Num \<Longrightarrow> code_formats ! n \<noteq> OP_CODE_FORMAT_UNKNOWN"
proof -
  have "list_all (\<lambda>f. f \<noteq> OP_CODE_FORMAT_UNKNOWN) code_formats"
    by (simp add: code_formats_def)
  then show "n < OpCodeId_Num \<Longrightarrow> code_formats ! n \<noteq> OP_CODE_FORMAT_UNKNOWN"
    by (simp add: list_all_length length_code_formats)
qed

lemma well_named_decoder: "well_named ot \<Longrightarrow> \<exists>dec. OpDecoder (format_id ot) = Some dec"
  by (simp add: well_named_def OpDecoder_defined code_formats_known)

section \<open>The result of the parser\<close>

text \<open>Which table function an instruction selects, and that there is always one.\<close>

definition select_parse :: "code \<Rightarrow> (code \<Rightarrow> OperationCodeType option) option" where
  "select_parse code =
     (if is_extend_code code
      then table_at op_parse_extend_code_table
        (OP_PARSE_TABLE_INDEX (take_bit 4 (drop_bit 23 (code_value code))) (take_bit 2 (drop_bit 21 (code_value code))))
      else table_at op_parse_base_code_table
        (OP_PARSE_TABLE_INDEX (take_bit 4 (ucast (drop_bit 7 (code 0)))) (take_bit 2 (ucast (drop_bit 5 (code 0))))))"

lemma ucast_take_bit_up: "ucast (take_bit n (c :: u16)) = (take_bit n (ucast c) :: u32)"
  by (rule bit_word_eqI) (auto simp: bit_simps_all dest: bit_imp_le_length)

lemma op_parse_select:
  "op_parse code d = do {
     parse \<leftarrow> select_parse code;
     (case parse code of
        None \<Rightarrow> Some None
      | Some optype \<Rightarrow> do {
          decode \<leftarrow> OpDecoder (format_id optype);
          Some (Some (optype, decode code d))
        })
   }"
  by (simp add: op_parse_def select_parse_def Let_def mask_simps ucast_take_bit_up)

lemma select_parse_defined: "\<exists>p. select_parse code = Some p"
  by (simp add: select_parse_def table_at_def index_less_64)

lemma select_parse_well_named:
  "select_parse code = Some p \<Longrightarrow> p code = Some ot \<Longrightarrow> well_named ot"
  unfolding select_parse_def
  by (auto split: if_splits intro: table_at_well_named [OF base_table_well_named]
      table_at_well_named [OF extend_table_well_named])

lemma op_parse_cases:
  obtains (reject) "op_parse code d = Some None"
  | (accept) ot dec where "op_parse code d = Some (Some (ot, dec code d))"
      and "well_named ot" and "OpDecoder (format_id ot) = Some dec"
proof -
  obtain p where p: "select_parse code = Some p" using select_parse_defined by blast
  show thesis
  proof (cases "p code")
    case None
    with p show thesis by (intro reject) (simp add: op_parse_select)
  next
    case (Some ot)
    then have w: "well_named ot" by (rule select_parse_well_named [OF p])
    then obtain dec where "OpDecoder (format_id ot) = Some dec" using well_named_decoder by blast
    with p Some w show thesis by (intro accept) (simp_all add: op_parse_select)
  qed
qed

end
