(* ===== verification/V850_Registers.thy ===== *)
theory V850_Registers
  imports V850_Prelude
begin

unbundle bit_operations_syntax

text \<open>
  The register file of one core: \<open>src/cpu/target_cpu.h\<close> and the PSW macros of
  \<open>src/cpu/cpu_common/cpu_ops.h\<close>.

  The C arrays \<open>r[32]\<close>, \<open>grp[5][3].r[28]\<close> and \<open>sysreg[4]\<close> are functions from an index;
  every access goes through an operation that checks the index against the declared size
  (\<open>rd_r\<close>, \<open>wr_r\<close>, \<open>ref_read\<close>, \<open>ref_write\<close>) and is \<open>None\<close> outside it, except where the C
  code itself uses a constant index. A \<open>uint32 *\<close> into the system registers is a value of
  \<open>sysreg_ref\<close>.
\<close>

section \<open>Sizes and indices\<close>

definition CPU_GREG_NUM :: u32 where "CPU_GREG_NUM = 32"
definition CPU_SYSREG_NUM :: u32 where "CPU_SYSREG_NUM = 28"
definition CPU_COMMON_SYSREG_NUM :: nat where "CPU_COMMON_SYSREG_NUM = 4"
definition CPU_SYSBNK_NUM :: nat where "CPU_SYSBNK_NUM = 3"
definition SYS_GRP_NUM :: nat where "SYS_GRP_NUM = 5"

lemmas size_defs = CPU_GREG_NUM_def CPU_SYSREG_NUM_def CPU_COMMON_SYSREG_NUM_def
  CPU_SYSBNK_NUM_def SYS_GRP_NUM_def

abbreviation (input) CPU_SYSREG_BSEL :: nat where "CPU_SYSREG_BSEL \<equiv> 3"

abbreviation (input) SYS_GRP_CPU :: nat where "SYS_GRP_CPU \<equiv> 0"
abbreviation (input) SYS_GRP_PROSESSOR :: nat where "SYS_GRP_PROSESSOR \<equiv> 1"
abbreviation (input) SYS_GRP_PMU :: nat where "SYS_GRP_PMU \<equiv> 2"
abbreviation (input) SYS_GRP_FPU :: nat where "SYS_GRP_FPU \<equiv> 3"
abbreviation (input) SYS_GRP_USER :: nat where "SYS_GRP_USER \<equiv> 4"

abbreviation (input) SYS_REG_EIPC :: nat where "SYS_REG_EIPC \<equiv> 0"
abbreviation (input) SYS_REG_EIPSW :: nat where "SYS_REG_EIPSW \<equiv> 1"
abbreviation (input) SYS_REG_FEPC :: nat where "SYS_REG_FEPC \<equiv> 2"
abbreviation (input) SYS_REG_FEPSW :: nat where "SYS_REG_FEPSW \<equiv> 3"
abbreviation (input) SYS_REG_ECR :: nat where "SYS_REG_ECR \<equiv> 4"
abbreviation (input) SYS_REG_PSW :: nat where "SYS_REG_PSW \<equiv> 5"
abbreviation (input) SYS_REG_SCCFG :: nat where "SYS_REG_SCCFG \<equiv> 11"
abbreviation (input) SYS_REG_SCBP :: nat where "SYS_REG_SCBP \<equiv> 12"
abbreviation (input) SYS_REG_EIIC :: nat where "SYS_REG_EIIC \<equiv> 13"
abbreviation (input) SYS_REG_FEIC :: nat where "SYS_REG_FEIC \<equiv> 14"

abbreviation (input) SYS_REG_MPV_VSECR :: nat where "SYS_REG_MPV_VSECR \<equiv> 0"
abbreviation (input) SYS_REG_MPV_VSTID :: nat where "SYS_REG_MPV_VSTID \<equiv> 1"
abbreviation (input) SYS_REG_MPV_VSADR :: nat where "SYS_REG_MPV_VSADR \<equiv> 2"
abbreviation (input) SYS_REG_MPV_VMECR :: nat where "SYS_REG_MPV_VMECR \<equiv> 4"
abbreviation (input) SYS_REG_MPV_VMTID :: nat where "SYS_REG_MPV_VMTID \<equiv> 5"
abbreviation (input) SYS_REG_MPV_VMADR :: nat where "SYS_REG_MPV_VMADR \<equiv> 6"

abbreviation (input) SYS_REG_MPU_MPM :: nat where "SYS_REG_MPU_MPM \<equiv> 0"
abbreviation (input) SYS_REG_MPU_TID :: nat where "SYS_REG_MPU_TID \<equiv> 2"
abbreviation (input) SYS_REG_MPU_IPA0L :: nat where "SYS_REG_MPU_IPA0L \<equiv> 6"
abbreviation (input) SYS_REG_MPU_IPA0U :: nat where "SYS_REG_MPU_IPA0U \<equiv> 7"
abbreviation (input) SYS_REG_MPU_DPA0L :: nat where "SYS_REG_MPU_DPA0L \<equiv> 16"
abbreviation (input) SYS_REG_MPU_DPA0U :: nat where "SYS_REG_MPU_DPA0U \<equiv> 17"

abbreviation (input) CPU_REG_SP :: u32 where "CPU_REG_SP \<equiv> 3"
abbreviation (input) CPU_REG_EP :: u32 where "CPU_REG_EP \<equiv> 30"

section \<open>The register file\<close>

record CpuSystemRegisterType =
  current_grp :: u32
  current_bnk :: u32
  sys_grp :: "nat \<Rightarrow> nat \<Rightarrow> nat \<Rightarrow> u32"
  sys_sysreg :: "nat \<Rightarrow> u32"

record CpuRegisterType =
  reg_pc :: u32
  reg_r :: "nat \<Rightarrow> u32"
  reg_sys :: CpuSystemRegisterType

definition rd_r :: "CpuRegisterType \<Rightarrow> u32 \<Rightarrow> u32 option" where
  "rd_r g i = (if i < CPU_GREG_NUM then Some (reg_r g (unat i)) else None)"

definition set_r :: "nat \<Rightarrow> u32 \<Rightarrow> CpuRegisterType \<Rightarrow> CpuRegisterType" where
  "set_r i v g = g\<lparr>reg_r := (reg_r g)(i := v)\<rparr>"

definition wr_r :: "CpuRegisterType \<Rightarrow> u32 \<Rightarrow> u32 \<Rightarrow> CpuRegisterType option" where
  "wr_r g i v = (if i < CPU_GREG_NUM then Some (set_r (unat i) v g) else None)"

lemma rd_r_in [simp]: "\<not> CPU_GREG_NUM \<le> i \<Longrightarrow> rd_r g i = Some (reg_r g (unat i))"
  by (simp add: rd_r_def)

lemma wr_r_in [simp]: "\<not> CPU_GREG_NUM \<le> i \<Longrightarrow> wr_r g i v = Some (set_r (unat i) v g)"
  by (simp add: wr_r_def)

section \<open>System registers\<close>

datatype sysreg_ref = GrpReg nat nat nat | CommonReg nat

definition cpu_get_sysreg :: "CpuSystemRegisterType \<Rightarrow> u32 \<Rightarrow> sysreg_ref" where
  "cpu_get_sysreg s inx =
     (if inx < CPU_SYSREG_NUM
      then GrpReg (unat (current_grp s)) (unat (current_bnk s)) (unat inx)
      else CommonReg (unat (inx - CPU_SYSREG_NUM)))"

fun ref_valid :: "sysreg_ref \<Rightarrow> bool" where
  "ref_valid (GrpReg g b i) = (g < SYS_GRP_NUM \<and> b < CPU_SYSBNK_NUM \<and> i < unat CPU_SYSREG_NUM)"
| "ref_valid (CommonReg i) = (i < CPU_COMMON_SYSREG_NUM)"

definition set_grp :: "nat \<Rightarrow> nat \<Rightarrow> nat \<Rightarrow> u32 \<Rightarrow> CpuSystemRegisterType \<Rightarrow> CpuSystemRegisterType" where
  "set_grp g b i v s =
     s\<lparr>sys_grp := (\<lambda>g' b' i'. if g' = g \<and> b' = b \<and> i' = i then v else sys_grp s g' b' i')\<rparr>"

fun ref_get :: "CpuSystemRegisterType \<Rightarrow> sysreg_ref \<Rightarrow> u32" where
  "ref_get s (GrpReg g b i) = sys_grp s g b i"
| "ref_get s (CommonReg i) = sys_sysreg s i"

fun ref_set :: "sysreg_ref \<Rightarrow> u32 \<Rightarrow> CpuSystemRegisterType \<Rightarrow> CpuSystemRegisterType" where
  "ref_set (GrpReg g b i) v s = set_grp g b i v s"
| "ref_set (CommonReg i) v s = s\<lparr>sys_sysreg := (sys_sysreg s)(i := v)\<rparr>"

definition ref_read :: "CpuSystemRegisterType \<Rightarrow> sysreg_ref \<Rightarrow> u32 option" where
  "ref_read s p = (if ref_valid p then Some (ref_get s p) else None)"

definition ref_write :: "CpuSystemRegisterType \<Rightarrow> sysreg_ref \<Rightarrow> u32 \<Rightarrow> CpuSystemRegisterType option" where
  "ref_write s p v = (if ref_valid p then Some (ref_set p v s) else None)"

text \<open>
  \<open>cpu_get_psw\<close>, \<open>sys_get_cpu_base\<close> and the two MPU banks are accesses with constant group
  and bank.
\<close>

definition cpu_get_psw :: "CpuSystemRegisterType \<Rightarrow> u32" where
  "cpu_get_psw s = sys_grp s SYS_GRP_CPU 0 SYS_REG_PSW"

definition sys_get_cpu_base :: "CpuRegisterType \<Rightarrow> nat \<Rightarrow> u32" where
  "sys_get_cpu_base g i = sys_grp (reg_sys g) SYS_GRP_CPU 0 i"

definition set_cpu_base :: "nat \<Rightarrow> u32 \<Rightarrow> CpuRegisterType \<Rightarrow> CpuRegisterType" where
  "set_cpu_base i v g = g\<lparr>reg_sys := set_grp SYS_GRP_CPU 0 i v (reg_sys g)\<rparr>"

definition cpu_get_mpu_illegal_factor_sysreg :: "CpuSystemRegisterType \<Rightarrow> nat \<Rightarrow> u32" where
  "cpu_get_mpu_illegal_factor_sysreg s i = sys_grp s SYS_GRP_PROSESSOR 0 i"

definition set_mpu_illegal_factor :: "nat \<Rightarrow> u32 \<Rightarrow> CpuSystemRegisterType \<Rightarrow> CpuSystemRegisterType" where
  "set_mpu_illegal_factor i v s = set_grp SYS_GRP_PROSESSOR 0 i v s"

definition cpu_get_mpu_settign_sysreg :: "CpuSystemRegisterType \<Rightarrow> nat \<Rightarrow> u32" where
  "cpu_get_mpu_settign_sysreg s i = sys_grp s SYS_GRP_PROSESSOR 1 i"

definition set_mpu_setting :: "nat \<Rightarrow> u32 \<Rightarrow> CpuSystemRegisterType \<Rightarrow> CpuSystemRegisterType" where
  "set_mpu_setting i v s = set_grp SYS_GRP_PROSESSOR 1 i v s"

section \<open>The program status word\<close>

definition psw :: "CpuRegisterType \<Rightarrow> u32" where
  "psw g = sys_get_cpu_base g SYS_REG_PSW"

definition set_psw :: "u32 \<Rightarrow> CpuRegisterType \<Rightarrow> CpuRegisterType" where
  "set_psw v g = set_cpu_base SYS_REG_PSW v g"

text \<open>
  The macros \<open>CPU_SET_\<close>, \<open>CPU_CLR_\<close> and \<open>CPU_ISSET_\<close>, one triple per flag, are the three
  operations below applied to the flag's mask.
\<close>

definition psw_set :: "u32 \<Rightarrow> CpuRegisterType \<Rightarrow> CpuRegisterType" where
  "psw_set m g = set_psw (psw g OR m) g"

definition psw_clr :: "u32 \<Rightarrow> CpuRegisterType \<Rightarrow> CpuRegisterType" where
  "psw_clr m g = set_psw (psw g AND NOT m) g"

definition psw_isset :: "u32 \<Rightarrow> CpuRegisterType \<Rightarrow> bool" where
  "psw_isset m g \<longleftrightarrow> psw g AND m = m"

definition CPU_PSW_Z :: u32 where "CPU_PSW_Z = push_bit 0 1"
definition CPU_PSW_S :: u32 where "CPU_PSW_S = push_bit 1 1"
definition CPU_PSW_OV :: u32 where "CPU_PSW_OV = push_bit 2 1"
definition CPU_PSW_CY :: u32 where "CPU_PSW_CY = push_bit 3 1"
definition CPU_PSW_SAT :: u32 where "CPU_PSW_SAT = push_bit 4 1"
definition CPU_PSW_ID :: u32 where "CPU_PSW_ID = push_bit 5 1"
definition CPU_PSW_EP :: u32 where "CPU_PSW_EP = push_bit 6 1"
definition CPU_PSW_NP :: u32 where "CPU_PSW_NP = push_bit 7 1"
definition CPU_PSW_IMP :: u32 where "CPU_PSW_IMP = push_bit 16 1"
definition CPU_PSW_DMP :: u32 where "CPU_PSW_DMP = push_bit 17 1"
definition CPU_PSW_NPV :: u32 where "CPU_PSW_NPV = push_bit 18 1"
definition CPU_PSW_PP :: u32 where "CPU_PSW_PP = push_bit 19 1"

lemmas psw_mask_defs = CPU_PSW_Z_def CPU_PSW_S_def CPU_PSW_OV_def CPU_PSW_CY_def
  CPU_PSW_SAT_def CPU_PSW_ID_def CPU_PSW_EP_def CPU_PSW_NP_def CPU_PSW_IMP_def
  CPU_PSW_DMP_def CPU_PSW_NPV_def CPU_PSW_PP_def

definition IS_TRUSTED :: "u32 \<Rightarrow> u32 \<Rightarrow> bool" where
  "IS_TRUSTED m w \<longleftrightarrow> w AND m = 0"

definition CPU_MPM_AUE :: u32 where "CPU_MPM_AUE = push_bit 1 1"

definition CPU_ISSET_MPM_AUE :: "CpuSystemRegisterType \<Rightarrow> bool" where
  "CPU_ISSET_MPM_AUE s \<longleftrightarrow> cpu_get_mpu_settign_sysreg s SYS_REG_MPU_MPM AND CPU_MPM_AUE = CPU_MPM_AUE"

section \<open>Frame facts\<close>

lemma get_set_grp [simp]:
  "sys_grp (set_grp g b i v s) g' b' i' = (if g' = g \<and> b' = b \<and> i' = i then v else sys_grp s g' b' i')"
  "sys_sysreg (set_grp g b i v s) = sys_sysreg s"
  "current_grp (set_grp g b i v s) = current_grp s"
  "current_bnk (set_grp g b i v s) = current_bnk s"
  by (simp_all add: set_grp_def)

lemma set_grp_eqs:
  "set_grp g b i v (set_grp g b i w s) = set_grp g b i v s"
  "set_grp g b i (sys_grp s g b i) s = s"
  "(g, b, i) \<noteq> (g', b', i') \<Longrightarrow>
     set_grp g b i v (set_grp g' b' i' w s) = set_grp g' b' i' w (set_grp g b i v s)"
  by (auto simp: set_grp_def fun_eq_iff intro!: CpuSystemRegisterType.equality)

lemma cpu_base_frame [simp]:
  "sys_get_cpu_base (set_cpu_base i v g) j = (if j = i then v else sys_get_cpu_base g j)"
  "reg_pc (set_cpu_base i v g) = reg_pc g"
  "reg_r (set_cpu_base i v g) = reg_r g"
  "sys_get_cpu_base (set_r k v g) j = sys_get_cpu_base g j"
  "reg_pc (set_r k v g) = reg_pc g"
  "reg_r (set_r k v g) = (reg_r g)(k := v)"
  "reg_sys (set_r k v g) = reg_sys g"
  "sys_get_cpu_base (g\<lparr>reg_pc := a\<rparr>) j = sys_get_cpu_base g j"
  by (auto simp: sys_get_cpu_base_def set_cpu_base_def set_r_def)

lemma psw_frame [simp]:
  "psw (set_psw w g) = w"
  "psw (set_r k v g) = psw g"
  "psw (g\<lparr>reg_pc := a\<rparr>) = psw g"
  "reg_pc (set_psw w g) = reg_pc g"
  "reg_r (set_psw w g) = reg_r g"
  "set_psw v (set_psw w g) = set_psw v g"
  "set_psw (psw g) g = g"
  by (simp_all add: psw_def set_psw_def set_cpu_base_def sys_get_cpu_base_def set_grp_eqs)

lemma set_psw_set_r: "set_psw v (set_r k w g) = set_r k w (set_psw v g)"
  by (simp add: set_psw_def set_cpu_base_def set_r_def)

lemma set_psw_pc: "(set_psw v g)\<lparr>reg_pc := a\<rparr> = set_psw v (g\<lparr>reg_pc := a\<rparr>)"
  by (simp add: set_psw_def set_cpu_base_def)

lemma set_r_pc: "(set_r k v g)\<lparr>reg_pc := a\<rparr> = set_r k v (g\<lparr>reg_pc := a\<rparr>)"
  by (simp add: set_r_def)

interpretation psw_lens: lens psw set_psw
  by unfold_locales simp_all

interpretation base_lens: lens "\<lambda>g. sys_get_cpu_base g i" "set_cpu_base i" for i
  by unfold_locales (simp_all add: sys_get_cpu_base_def set_cpu_base_def set_grp_eqs)

interpretation gpr_lens: lens "\<lambda>g. reg_r g i" "set_r i" for i
  by unfold_locales (simp_all add: set_r_def)

interpretation psw_gpr: lens_pair psw set_psw "\<lambda>g. reg_r g i" "set_r i" for i
  by unfold_locales (simp add: set_psw_set_r)

section \<open>Flags as bits\<close>

lemma psw_set_push_bit: "psw_set (push_bit n 1) g = set_psw (put_flag n True (psw g)) g"
  by (simp only: psw_set_def or_push_bit_put_flag)

lemma psw_clr_push_bit: "psw_clr (push_bit n 1) g = set_psw (put_flag n False (psw g)) g"
  by (simp only: psw_clr_def and_not_push_bit_put_flag)

lemma psw_isset_push_bit: "n < 32 \<Longrightarrow> psw_isset (push_bit n 1) g \<longleftrightarrow> bit (psw g) n"
  by (simp only: psw_isset_def and_push_bit_eq_iff_bit)

lemma psw_set_flags [flag_simps]:
  "psw_set CPU_PSW_Z g = set_psw (put_flag 0 True (psw g)) g"
  "psw_set CPU_PSW_S g = set_psw (put_flag 1 True (psw g)) g"
  "psw_set CPU_PSW_OV g = set_psw (put_flag 2 True (psw g)) g"
  "psw_set CPU_PSW_CY g = set_psw (put_flag 3 True (psw g)) g"
  "psw_set CPU_PSW_SAT g = set_psw (put_flag 4 True (psw g)) g"
  "psw_set CPU_PSW_ID g = set_psw (put_flag 5 True (psw g)) g"
  "psw_set CPU_PSW_EP g = set_psw (put_flag 6 True (psw g)) g"
  "psw_set CPU_PSW_NP g = set_psw (put_flag 7 True (psw g)) g"
  "psw_set CPU_PSW_IMP g = set_psw (put_flag 16 True (psw g)) g"
  "psw_set CPU_PSW_DMP g = set_psw (put_flag 17 True (psw g)) g"
  "psw_set CPU_PSW_NPV g = set_psw (put_flag 18 True (psw g)) g"
  "psw_set CPU_PSW_PP g = set_psw (put_flag 19 True (psw g)) g"
  by (simp_all only: psw_mask_defs psw_set_push_bit)

lemma psw_clr_flags [flag_simps]:
  "psw_clr CPU_PSW_Z g = set_psw (put_flag 0 False (psw g)) g"
  "psw_clr CPU_PSW_S g = set_psw (put_flag 1 False (psw g)) g"
  "psw_clr CPU_PSW_OV g = set_psw (put_flag 2 False (psw g)) g"
  "psw_clr CPU_PSW_CY g = set_psw (put_flag 3 False (psw g)) g"
  "psw_clr CPU_PSW_SAT g = set_psw (put_flag 4 False (psw g)) g"
  "psw_clr CPU_PSW_ID g = set_psw (put_flag 5 False (psw g)) g"
  "psw_clr CPU_PSW_EP g = set_psw (put_flag 6 False (psw g)) g"
  "psw_clr CPU_PSW_NP g = set_psw (put_flag 7 False (psw g)) g"
  "psw_clr CPU_PSW_IMP g = set_psw (put_flag 16 False (psw g)) g"
  "psw_clr CPU_PSW_DMP g = set_psw (put_flag 17 False (psw g)) g"
  "psw_clr CPU_PSW_NPV g = set_psw (put_flag 18 False (psw g)) g"
  "psw_clr CPU_PSW_PP g = set_psw (put_flag 19 False (psw g)) g"
  by (simp_all only: psw_mask_defs psw_clr_push_bit)

lemma psw_isset_flags [flag_simps]:
  "psw_isset CPU_PSW_Z g \<longleftrightarrow> bit (psw g) 0"
  "psw_isset CPU_PSW_S g \<longleftrightarrow> bit (psw g) 1"
  "psw_isset CPU_PSW_OV g \<longleftrightarrow> bit (psw g) 2"
  "psw_isset CPU_PSW_CY g \<longleftrightarrow> bit (psw g) 3"
  "psw_isset CPU_PSW_SAT g \<longleftrightarrow> bit (psw g) 4"
  "psw_isset CPU_PSW_ID g \<longleftrightarrow> bit (psw g) 5"
  "psw_isset CPU_PSW_EP g \<longleftrightarrow> bit (psw g) 6"
  "psw_isset CPU_PSW_NP g \<longleftrightarrow> bit (psw g) 7"
  unfolding psw_mask_defs by (rule psw_isset_push_bit, simp)+

lemma IS_TRUSTED_bit [flag_simps]:
  "IS_TRUSTED CPU_PSW_IMP w \<longleftrightarrow> \<not> bit w 16"
  "IS_TRUSTED CPU_PSW_DMP w \<longleftrightarrow> \<not> bit w 17"
  "IS_TRUSTED CPU_PSW_NPV w \<longleftrightarrow> \<not> bit w 18"
  "IS_TRUSTED CPU_PSW_PP w \<longleftrightarrow> \<not> bit w 19"
  using and_push_bit_neq_0_iff_bit
  by (fastforce simp only: IS_TRUSTED_def psw_mask_defs)+

end
