(* ===== verification/V850_Core.thy ===== *)
theory V850_Core
  imports V850_Registers V850_Decode
begin

unbundle bit_operations_syntax

text \<open>
  One processor core and what an instruction executor can touch: \<open>TargetCoreType\<close> and the MPU
  structures of \<open>src/cpu/target_cpu.h\<close>, the NMI requests of \<open>src/device/intc/intc.h\<close>, and the bus.

  The pointers \<open>current_code\<close> and \<open>decoded_code\<close> are only read by the executors, so the core
  holds what they point to. The region containers of the MPU are the lists of their elements
  in creation order. The bus (\<open>bus_get_data8\<close> and its siblings) is code of the Athrill core
  outside this repository: it is a record of functions, an argument of every executor that
  uses it. A bus access can reach devices and the debug window onto the registers, so it acts
  on the whole machine. The same record holds the reads and writes of host memory behind a
  pointer that \<open>bus_get_pointer\<close> returned, and the stack check of the store instructions.
\<close>

section \<open>Memory protection\<close>

datatype CpuExceptionErrorCodeType =
    CpuExceptionError_None | CpuExceptionError_MIP | CpuExceptionError_MDP | CpuExceptionError_PPI

datatype CpuMemoryAccessType =
    CpuMemoryAccess_NONE | CpuMemoryAccess_READ | CpuMemoryAccess_WRITE | CpuMemoryAccess_EXEC

record TargetCoreMpuConfigType =
  mc_enable_protection :: bool
  mc_is_mask_method :: bool
  mc_au :: u32
  mc_al :: u32

record TargetCoreMpuExecConfigType =
  xc_common :: TargetCoreMpuConfigType
  xc_enable_read :: bool
  xc_enable_exec :: bool

record TargetCoreMpuDataConfigType =
  dc_common :: TargetCoreMpuConfigType
  dc_enable_read :: bool
  dc_enable_write :: bool

record TargetCoreMpuType =
  exception_error_code :: CpuExceptionErrorCodeType
  error_address :: u32
  error_access :: CpuMemoryAccessType
  data_configs :: "TargetCoreMpuDataConfigType list"
  exec_configs :: "TargetCoreMpuExecConfigType list"

section \<open>The core\<close>

record TargetCoreType =
  real_elaps :: u32
  core_id :: u32
  reg :: CpuRegisterType
  is_halt :: bool
  current_code :: code
  decoded_code :: OpDecodedCodeType
  mpu :: TargetCoreMpuType

text \<open>The result of an executor: its return value (0, or \<open>-1\<close> on failure) and the core it leaves.\<close>

type_synonym exec_result = "(int \<times> TargetCoreType) option"

definition add_pc :: "u32 \<Rightarrow> CpuRegisterType \<Rightarrow> CpuRegisterType" where
  "add_pc n g = g\<lparr>reg_pc := reg_pc g + n\<rparr>"

definition ret :: "TargetCoreType \<Rightarrow> CpuRegisterType \<Rightarrow> exec_result" where
  "ret cpu g = Some (0, cpu\<lparr>reg := g\<rparr>)"

text \<open>\<open>if (i >= CPU_GREG_NUM) return -1;\<close>, the check most executors open with.\<close>

definition greg_check :: "u32 \<Rightarrow> TargetCoreType \<Rightarrow> exec_result \<Rightarrow> exec_result" where
  "greg_check i cpu k = (if CPU_GREG_NUM \<le> i then Some (-1, cpu) else k)"

lemma add_pc_frame [simp]:
  "reg_pc (add_pc n g) = reg_pc g + n"
  "reg_r (add_pc n g) = reg_r g"
  "reg_sys (add_pc n g) = reg_sys g"
  "psw (add_pc n g) = psw g"
  "sys_get_cpu_base (add_pc n g) i = sys_get_cpu_base g i"
  by (simp_all add: add_pc_def)

lemma greg_check_in [simp]: "i < 32 \<Longrightarrow> greg_check i cpu k = k"
  by (auto simp: greg_check_def CPU_GREG_NUM_def dest: leD)

lemma greg_check_out: "32 \<le> i \<Longrightarrow> greg_check i cpu k = Some (-1, cpu)"
  by (simp add: greg_check_def CPU_GREG_NUM_def)

lemma rd_wr_less_32 [simp]:
  "i < 32 \<Longrightarrow> rd_r g i = Some (reg_r g (unat i))"
  "i < 32 \<Longrightarrow> wr_r g i v = Some (set_r (unat i) v g)"
  by (simp_all add: rd_r_def wr_r_def CPU_GREG_NUM_def)

lemma ucast_less_32 [simp]: "w < 32 \<Longrightarrow> (ucast (w :: u16) :: u32) < 32"
  by (simp add: word_less_nat_alt unsigned_ucast_eq take_bit_nat_eq_self)

section \<open>The bus and the machine\<close>

datatype Std_ReturnType =
    STD_E_OK | STD_E_NOENT | STD_E_SEGV | STD_E_DECODE | STD_E_EXEC | STD_E_INVALID | STD_E_LIMIT
  | STD_E_OTHER int

record NmiIntcStatusType =
  intwdt2_hasreq :: bool
  nmi_reqnum :: int

record 'w machine =
  m_core :: TargetCoreType
  m_nmi :: NmiIntcStatusType
  m_world :: 'w

record 'w bus =
  bus_get_data8 :: "u32 \<Rightarrow> u32 \<Rightarrow> 'w machine \<Rightarrow> Std_ReturnType \<times> u8 \<times> 'w machine"
  bus_get_data16 :: "u32 \<Rightarrow> u32 \<Rightarrow> 'w machine \<Rightarrow> Std_ReturnType \<times> u16 \<times> 'w machine"
  bus_get_data32 :: "u32 \<Rightarrow> u32 \<Rightarrow> 'w machine \<Rightarrow> Std_ReturnType \<times> u32 \<times> 'w machine"
  bus_put_data8 :: "u32 \<Rightarrow> u32 \<Rightarrow> u8 \<Rightarrow> 'w machine \<Rightarrow> Std_ReturnType \<times> 'w machine"
  bus_put_data16 :: "u32 \<Rightarrow> u32 \<Rightarrow> u16 \<Rightarrow> 'w machine \<Rightarrow> Std_ReturnType \<times> 'w machine"
  bus_put_data32 :: "u32 \<Rightarrow> u32 \<Rightarrow> u32 \<Rightarrow> 'w machine \<Rightarrow> Std_ReturnType \<times> 'w machine"
  bus_get_pointer :: "u32 \<Rightarrow> u32 \<Rightarrow> 'w machine \<Rightarrow> Std_ReturnType \<times> nat \<times> 'w machine"
  host_get16 :: "nat \<Rightarrow> 'w machine \<Rightarrow> u16"
  host_get32 :: "nat \<Rightarrow> 'w machine \<Rightarrow> u32"
  host_put32 :: "nat \<Rightarrow> u32 \<Rightarrow> 'w machine \<Rightarrow> 'w machine"
  cpu_may_store_on_stack_overflow :: "u32 \<Rightarrow> bool \<Rightarrow> 'w machine \<Rightarrow> bool"

type_synonym 'w bus_result = "(int \<times> 'w machine) option"

text \<open>An executor that uses only the core, run on the machine.\<close>

definition on_core :: "(TargetCoreType \<Rightarrow> exec_result) \<Rightarrow> 'w machine \<Rightarrow> 'w bus_result" where
  "on_core f m = map_option (\<lambda>(r, cpu). (r, m\<lparr>m_core := cpu\<rparr>)) (f (m_core m))"

definition m_set_reg :: "CpuRegisterType \<Rightarrow> 'w machine \<Rightarrow> 'w machine" where
  "m_set_reg g m = m\<lparr>m_core := (m_core m)\<lparr>reg := g\<rparr>\<rparr>"

definition m_ret :: "'w machine \<Rightarrow> CpuRegisterType \<Rightarrow> 'w bus_result" where
  "m_ret m g = Some (0, m_set_reg g m)"

definition m_greg_check :: "u32 \<Rightarrow> 'w machine \<Rightarrow> 'w bus_result \<Rightarrow> 'w bus_result" where
  "m_greg_check i m k = (if CPU_GREG_NUM \<le> i then Some (-1, m) else k)"

abbreviation m_reg :: "'w machine \<Rightarrow> CpuRegisterType" where
  "m_reg m \<equiv> reg (m_core m)"

lemma m_set_reg_frame [simp]:
  "m_core (m_set_reg g m) = (m_core m)\<lparr>reg := g\<rparr>"
  "m_nmi (m_set_reg g m) = m_nmi m"
  "m_world (m_set_reg g m) = m_world m"
  "m_set_reg g (m_set_reg h m) = m_set_reg g m"
  by (simp_all add: m_set_reg_def)

lemma m_greg_check_in [simp]: "i < 32 \<Longrightarrow> m_greg_check i m k = k"
  by (auto simp: m_greg_check_def CPU_GREG_NUM_def dest: leD)

end
