(* ===== verification/V850_Alu.thy ===== *)
theory V850_Alu
  imports V850_Core
begin

unbundle bit_operations_syntax

text \<open>
  The arithmetic helpers: the flag computations and conditions of
  \<open>src/cpu/cpu_exec/op_exec_arithm.c\<close> and \<open>op_exec_branch.c\<close>, and the inline functions of
  \<open>src/cpu/cpu_common/cpu_ops.h\<close>. A helper that stores its result through the return value and
  changes flags returns the pair of both. The second half reads the flags as statements about
  the integers the operands denote.
\<close>

section \<open>Flag computations\<close>

definition op_chk_and_set_carry :: "u32 \<Rightarrow> u32 \<Rightarrow> CpuRegisterType \<Rightarrow> CpuRegisterType" where
  "op_chk_and_set_carry a32 b32 cpu =
     (let result = ucast a32 + ucast b32 :: u64
      in if 0xFFFFFFFF < result then psw_set CPU_PSW_CY cpu else psw_clr CPU_PSW_CY cpu)"

definition op_chk_and_set_carry3 :: "u32 \<Rightarrow> u32 \<Rightarrow> u32 \<Rightarrow> CpuRegisterType \<Rightarrow> CpuRegisterType" where
  "op_chk_and_set_carry3 a32 b32 c32 cpu =
     (let result = ucast a32 + ucast b32 + ucast c32 :: u64
      in if 0xFFFFFFFF < result then psw_set CPU_PSW_CY cpu else psw_clr CPU_PSW_CY cpu)"

definition op_chk_and_set_borrow :: "u32 \<Rightarrow> u32 \<Rightarrow> CpuRegisterType \<Rightarrow> CpuRegisterType" where
  "op_chk_and_set_borrow a32 b32 cpu =
     (let result = ucast a32 - ucast b32 :: u64
      in if result AND 0x100000000 \<noteq> 0 then psw_set CPU_PSW_CY cpu else psw_clr CPU_PSW_CY cpu)"

definition op_chk_and_set_borrow3 :: "u32 \<Rightarrow> u32 \<Rightarrow> u32 \<Rightarrow> CpuRegisterType \<Rightarrow> CpuRegisterType" where
  "op_chk_and_set_borrow3 a32 b32 c32 cpu =
     (let result = ucast a32 - ucast b32 - ucast c32 :: u64
      in if result AND 0x100000000 \<noteq> 0 then psw_set CPU_PSW_CY cpu else psw_clr CPU_PSW_CY cpu)"

definition CPU_REG_PLUS_MAX :: u64 where "CPU_REG_PLUS_MAX = 2147483647"
definition CPU_REG_MINUS_MAX :: u64 where "CPU_REG_MINUS_MAX = - 2147483648"

definition op_chk_and_set_overflow :: "u64 \<Rightarrow> u64 \<Rightarrow> CpuRegisterType \<Rightarrow> CpuRegisterType" where
  "op_chk_and_set_overflow a64 b64 cpu =
     (let result = a64 + b64
      in if CPU_REG_PLUS_MAX <s result then psw_set CPU_PSW_OV cpu
         else if result <s CPU_REG_MINUS_MAX then psw_set CPU_PSW_OV cpu
         else psw_clr CPU_PSW_OV cpu)"

definition op_chk_and_set_overflow3 :: "u64 \<Rightarrow> u64 \<Rightarrow> u64 \<Rightarrow> CpuRegisterType \<Rightarrow> CpuRegisterType" where
  "op_chk_and_set_overflow3 a64 b64 c64 cpu =
     (let result = a64 + b64 + c64
      in if CPU_REG_PLUS_MAX <s result then psw_set CPU_PSW_OV cpu
         else if result <s CPU_REG_MINUS_MAX then psw_set CPU_PSW_OV cpu
         else psw_clr CPU_PSW_OV cpu)"

definition op_chk_and_set_zero :: "u32 \<Rightarrow> CpuRegisterType \<Rightarrow> CpuRegisterType" where
  "op_chk_and_set_zero result cpu =
     (if result = 0 then psw_set CPU_PSW_Z cpu else psw_clr CPU_PSW_Z cpu)"

definition op_chk_and_set_sign :: "u32 \<Rightarrow> CpuRegisterType \<Rightarrow> CpuRegisterType" where
  "op_chk_and_set_sign result cpu =
     (if result <s 0 then psw_set CPU_PSW_S cpu else psw_clr CPU_PSW_S cpu)"

section \<open>Inline operations\<close>

definition op_addi :: "u32 \<Rightarrow> u32 \<Rightarrow> CpuRegisterType \<Rightarrow> u32 \<times> CpuRegisterType" where
  "op_addi imm_data reg1_data cpu =
     (let result = reg1_data + imm_data;
          cpu = op_chk_and_set_carry imm_data reg1_data cpu;
          cpu = op_chk_and_set_overflow (scast imm_data) (scast reg1_data) cpu;
          cpu = op_chk_and_set_zero result cpu;
          cpu = op_chk_and_set_sign result cpu
      in (result, cpu))"

definition op_andi :: "u32 \<Rightarrow> u32 \<Rightarrow> CpuRegisterType \<Rightarrow> u32 \<times> CpuRegisterType" where
  "op_andi imm_data reg1_data cpu =
     (let result = reg1_data AND imm_data;
          cpu = op_chk_and_set_zero result cpu;
          cpu = op_chk_and_set_sign result cpu;
          cpu = psw_clr CPU_PSW_OV cpu
      in (result, cpu))"

definition op_and :: "u32 \<Rightarrow> u32 \<Rightarrow> CpuRegisterType \<Rightarrow> u32 \<times> CpuRegisterType" where
  "op_and reg2_data reg1_data cpu =
     (let result = reg1_data AND reg2_data;
          cpu = op_chk_and_set_zero result cpu;
          cpu = op_chk_and_set_sign result cpu;
          cpu = psw_clr CPU_PSW_OV cpu
      in (result, cpu))"

definition op_or :: "u32 \<Rightarrow> u32 \<Rightarrow> CpuRegisterType \<Rightarrow> u32 \<times> CpuRegisterType" where
  "op_or reg2_data reg1_data cpu =
     (let result = reg1_data OR reg2_data;
          cpu = op_chk_and_set_zero result cpu;
          cpu = op_chk_and_set_sign result cpu;
          cpu = psw_clr CPU_PSW_OV cpu
      in (result, cpu))"

definition op_movea :: "u32 \<Rightarrow> u32 \<Rightarrow> u32" where
  "op_movea imm_data reg1_data = reg1_data + imm_data"

definition op_movhi :: "u32 \<Rightarrow> u32 \<Rightarrow> u32" where
  "op_movhi imm_data reg1_data = reg1_data + push_bit 16 imm_data"

definition op_mulhi :: "u32 \<Rightarrow> u32 \<Rightarrow> u32" where
  "op_mulhi imm_data reg1_data = reg1_data * imm_data"

definition op_ori :: "u16 \<Rightarrow> u32 \<Rightarrow> CpuRegisterType \<Rightarrow> u32 \<times> CpuRegisterType" where
  "op_ori imm_data reg1_data cpu =
     (let ret = reg1_data OR ucast imm_data;
          cpu = (if ret = 0 then psw_set CPU_PSW_Z cpu else psw_clr CPU_PSW_Z cpu);
          cpu = (if ret AND 0x80000000 \<noteq> 0 then psw_set CPU_PSW_S cpu else psw_clr CPU_PSW_S cpu)
      in (ret, cpu))"

definition op_satadd :: "u32 \<Rightarrow> u64 \<Rightarrow> CpuRegisterType \<Rightarrow> u32 \<times> CpuRegisterType" where
  "op_satadd data_l data_r cpu =
     (let data_r64 = data_r;
          data_l64 = scast data_l :: u64;
          ret64 = data_l64 + data_r64;
          cpu = op_chk_and_set_carry data_l (ucast data_r) cpu;
          cpu = op_chk_and_set_overflow (scast data_l) data_r cpu;
          (ret, cpu) =
            (if CPU_REG_PLUS_MAX <s ret64 then (ucast CPU_REG_PLUS_MAX, psw_set CPU_PSW_SAT cpu)
             else if ret64 <s CPU_REG_MINUS_MAX then (ucast CPU_REG_MINUS_MAX, psw_set CPU_PSW_SAT cpu)
             else (ucast ret64, cpu));
          cpu = (if ret64 <s 0 then psw_set CPU_PSW_S cpu else psw_clr CPU_PSW_S cpu);
          cpu = (if ret64 = 0 then psw_set CPU_PSW_Z cpu else psw_clr CPU_PSW_Z cpu)
      in (ret, cpu))"

definition op_xori :: "u16 \<Rightarrow> u32 \<Rightarrow> CpuRegisterType \<Rightarrow> u32 \<times> CpuRegisterType" where
  "op_xori imm_data reg1_data cpu =
     (let ret = reg1_data XOR ucast imm_data;
          cpu = (if ret = 0 then psw_set CPU_PSW_Z cpu else psw_clr CPU_PSW_Z cpu);
          cpu = (if ret <s 0 then psw_set CPU_PSW_S cpu else psw_clr CPU_PSW_S cpu);
          cpu = psw_clr CPU_PSW_OV cpu
      in (ret, cpu))"

section \<open>Extension by table\<close>

text \<open>Every caller passes a literal bit position below 32, the length of the tables.\<close>

definition sign_extend_table :: "u32 list" where
  "sign_extend_table =
    [0xffffffff, 0xfffffffe, 0xfffffffc, 0xfffffff8, 0xfffffff0, 0xffffffe0, 0xffffffc0, 0xffffff80,
     0xffffff00, 0xfffffe00, 0xfffffc00, 0xfffff800, 0xfffff000, 0xffffe000, 0xffffc000, 0xffff8000,
     0xffff0000, 0xfffe0000, 0xfffc0000, 0xfff80000, 0xfff00000, 0xffe00000, 0xffc00000, 0xff800000,
     0xff000000, 0xfe000000, 0xfc000000, 0xf8000000, 0xf0000000, 0xe0000000, 0xc0000000, 0x80000000]"

definition op_sign_extend :: "nat \<Rightarrow> u32 \<Rightarrow> u32" where
  "op_sign_extend n data =
     (if data AND push_bit n 1 \<noteq> 0 then data OR sign_extend_table ! n else data)"

definition zero_extend_table :: "u32 list" where
  "zero_extend_table =
    [0x00000000, 0x00000001, 0x00000003, 0x00000007, 0x0000000f, 0x0000001f, 0x0000003f, 0x0000007f,
     0x000000ff, 0x000001ff, 0x000003ff, 0x000007ff, 0x00000fff, 0x00001fff, 0x00003fff, 0x00007fff,
     0x0000ffff, 0x0001ffff, 0x0003ffff, 0x0007ffff, 0x000fffff, 0x001fffff, 0x003fffff, 0x007fffff,
     0x00ffffff, 0x01ffffff, 0x03ffffff, 0x07ffffff, 0x0fffffff, 0x1fffffff, 0x3fffffff, 0x7fffffff]"

definition op_zero_extend :: "nat \<Rightarrow> u32 \<Rightarrow> u32" where
  "op_zero_extend n data = data AND zero_extend_table ! n"

text \<open>The bit-by-bit loops the tables replaced; the source keeps them under \<open>#if 0\<close>.\<close>

definition op_sign_extend_loop :: "nat \<Rightarrow> u32 \<Rightarrow> u32" where
  "op_sign_extend_loop n data =
     (if data AND push_bit n 1 \<noteq> 0 then fold (\<lambda>i data. data OR push_bit i 1) [n..<32] data else data)"

definition op_zero_extend_loop :: "nat \<Rightarrow> u32 \<Rightarrow> u32" where
  "op_zero_extend_loop n data = fold (\<lambda>i data. data AND NOT (push_bit i 1)) [n..<32] data"

section \<open>Conditions\<close>

definition op_exec_cond :: "CpuRegisterType \<Rightarrow> u16 \<Rightarrow> bool" where
  "op_exec_cond cpu cond =
     (let flg_s = psw_isset CPU_PSW_S cpu;
          flg_ov = psw_isset CPU_PSW_OV cpu;
          flg_z = psw_isset CPU_PSW_Z cpu;
          flg_cy = psw_isset CPU_PSW_CY cpu;
          flg_sat = psw_isset CPU_PSW_SAT cpu
      in if cond = 0b1110 then \<not> (flg_s \<noteq> flg_ov)
         else if cond = 0b1111 then \<not> ((flg_s \<noteq> flg_ov) \<or> flg_z)
         else if cond = 0b0111 then (flg_s \<noteq> flg_ov) \<or> flg_z
         else if cond = 0b0110 then flg_s \<noteq> flg_ov
         else if cond = 0b1011 then \<not> (flg_cy \<or> flg_z)
         else if cond = 0b0001 then flg_cy
         else if cond = 0b0011 then flg_cy \<or> flg_z
         else if cond = 0b1001 then \<not> flg_cy
         else if cond = 0b0010 then flg_z
         else if cond = 0b1010 then \<not> flg_z
         else if cond = 0b0100 then flg_s
         else if cond = 0b1000 then \<not> flg_ov
         else if cond = 0b1100 then \<not> flg_s
         else if cond = 0b0101 then True
         else if cond = 0b1101 then flg_sat
         else if cond = 0b0000 then flg_ov
         else False)"

definition setf_chk_cond :: "CpuRegisterType \<Rightarrow> u16 \<Rightarrow> bool" where
  "setf_chk_cond cpu cond =
     (let flg_s = psw_isset CPU_PSW_S cpu;
          flg_ov = psw_isset CPU_PSW_OV cpu;
          flg_z = psw_isset CPU_PSW_Z cpu;
          flg_cy = psw_isset CPU_PSW_CY cpu;
          flg_sat = psw_isset CPU_PSW_SAT cpu
      in if cond = 0b0000 then flg_ov
         else if cond = 0b0001 then flg_cy
         else if cond = 0b0010 then flg_z
         else if cond = 0b0011 then flg_cy \<or> flg_z
         else if cond = 0b0100 then flg_s
         else if cond = 0b0101 then True
         else if cond = 0b0110 then flg_s \<noteq> flg_ov
         else if cond = 0b0111 then (flg_s \<noteq> flg_ov) \<or> flg_z
         else if cond = 0b1000 then \<not> flg_ov
         else if cond = 0b1001 then \<not> flg_cy
         else if cond = 0b1010 then \<not> flg_z
         else if cond = 0b1011 then \<not> (flg_cy \<or> flg_z)
         else if cond = 0b1100 then \<not> flg_s
         else if cond = 0b1101 then \<not> flg_sat
         else if cond = 0b1110 then \<not> (flg_s \<noteq> flg_ov)
         else if cond = 0b1111 then \<not> ((flg_s \<noteq> flg_ov) \<or> flg_z)
         else False)"

section \<open>What the flags say\<close>

lemma carry_eq [alu_simps]:
  "op_chk_and_set_carry a b g = set_psw (put_flag 3 (2 ^ 32 \<le> unat a + unat b) (psw g)) g"
proof -
  have "unat (ucast a + ucast b :: u64) = unat a + unat b"
    using unat_less_32 [of a] unat_less_32 [of b] by (simp add: unat_word_ariths)
  then have "0xFFFFFFFF < (ucast a + ucast b :: u64) \<longleftrightarrow> 2 ^ 32 \<le> unat a + unat b"
    by (simp add: word_less_nat_alt) linarith
  then show ?thesis by (simp add: op_chk_and_set_carry_def flag_simps)
qed

lemma carry3_eq [alu_simps]:
  "op_chk_and_set_carry3 a b c g = set_psw (put_flag 3 (2 ^ 32 \<le> unat a + unat b + unat c) (psw g)) g"
proof -
  have "unat (ucast a + ucast b + ucast c :: u64) = unat a + unat b + unat c"
    using unat_less_32 [of a] unat_less_32 [of b] unat_less_32 [of c] by (simp add: unat_word_ariths)
  then have "0xFFFFFFFF < (ucast a + ucast b + ucast c :: u64) \<longleftrightarrow> 2 ^ 32 \<le> unat a + unat b + unat c"
    by (simp add: word_less_nat_alt) linarith
  then show ?thesis by (simp add: op_chk_and_set_carry3_def flag_simps)
qed

lemma bit_32_of_diff:
  fixes w :: u64 and x :: int
  assumes "w = word_of_int x" and "- 4294967296 \<le> x" and "x < 4294967296"
  shows "bit w 32 \<longleftrightarrow> x < 0"
proof -
  have "bit w 32 \<longleftrightarrow> bit x 32"
    by (simp add: assms(1) bit_word_of_int_iff)
  also have "\<dots> \<longleftrightarrow> odd (x div 2 ^ 32)" by (simp add: bit_iff_odd)
  also have "x div 2 ^ 32 = (if x < 0 then -1 else 0)"
    using assms(2,3) by (auto simp: div_pos_pos_trivial intro: div_pos_neg_trivial)
  finally show ?thesis by simp
qed

lemma borrow_eq [alu_simps]:
  "op_chk_and_set_borrow a b g = set_psw (put_flag 3 (unat a < unat b) (psw g)) g"
proof -
  have "bit (ucast a - ucast b :: u64) 32 \<longleftrightarrow> int (unat a) - int (unat b) < 0"
  proof (rule bit_32_of_diff)
    show "ucast a - ucast b = (word_of_int (int (unat a) - int (unat b)) :: u64)"
      by (simp flip: uint_nat)
  qed (use unat_less_32 [of a] unat_less_32 [of b] in linarith)+
  moreover have "int (unat a) - int (unat b) < 0 \<longleftrightarrow> unat a < unat b"
    by linarith
  ultimately show ?thesis
    by (simp only: op_chk_and_set_borrow_def flag_simps bit_test_simps Let_def not_not split: if_split) simp
qed

lemma borrow3_eq [alu_simps]:
  assumes "unat c \<le> 1"
  shows "op_chk_and_set_borrow3 a b c g = set_psw (put_flag 3 (unat a < unat b + unat c) (psw g)) g"
proof -
  have "bit (ucast a - ucast b - ucast c :: u64) 32 \<longleftrightarrow> int (unat a) - int (unat b) - int (unat c) < 0"
  proof (rule bit_32_of_diff)
    show "ucast a - ucast b - ucast c = (word_of_int (int (unat a) - int (unat b) - int (unat c)) :: u64)"
      by (simp flip: uint_nat)
  qed (use unat_less_32 [of a] unat_less_32 [of b] assms in linarith)+
  moreover have "int (unat a) - int (unat b) - int (unat c) < 0 \<longleftrightarrow> unat a < unat b + unat c"
    by linarith
  ultimately show ?thesis
    by (simp only: op_chk_and_set_borrow3_def flag_simps bit_test_simps Let_def not_not if_True if_False split: if_split) simp
qed

definition sovf :: "int \<Rightarrow> bool" where
  "sovf x \<longleftrightarrow> x < - (2 ^ 31) \<or> 2 ^ 31 \<le> x"

lemma overflow_eq:
  assumes "- (2 ^ 63) \<le> sint a + sint b" and "sint a + sint b < 2 ^ 63"
  shows "op_chk_and_set_overflow a b g = set_psw (put_flag 2 (sovf (sint a + sint b)) (psw g)) g"
  using sint_add_64 [OF assms]
  by (auto simp: op_chk_and_set_overflow_def sovf_def word_sless_alt CPU_REG_PLUS_MAX_def
      CPU_REG_MINUS_MAX_def flag_simps Let_def)

lemma sint_minus_scast [simp]: "sint (- scast (a :: u32) :: u64) = - sint a"
  using sint_minus_64 [of "scast a"] sint_bounds_32 [of a] by simp

lemma overflow_scast [alu_simps]:
  "op_chk_and_set_overflow (scast a) (scast (b :: u32)) g =
     set_psw (put_flag 2 (sovf (sint (a :: u32) + sint b)) (psw g)) g"
  "op_chk_and_set_overflow (scast a) (- scast (b :: u32)) g =
     set_psw (put_flag 2 (sovf (sint (a :: u32) - sint b)) (psw g)) g"
  using sint_bounds_32 [of a] sint_bounds_32 [of b] by (simp_all add: overflow_eq)

lemma overflow3_eq: 
  "op_chk_and_set_overflow3 a b c g = op_chk_and_set_overflow (a + b) c g"
  by (simp add: op_chk_and_set_overflow3_def op_chk_and_set_overflow_def)

lemma overflow3_scast [alu_simps]:
  "op_chk_and_set_overflow3 (scast a) (scast b) (scast (c :: u32)) g =
     set_psw (put_flag 2 (sovf (sint (a :: u32) + sint (b :: u32) + sint c)) (psw g)) g"
  "op_chk_and_set_overflow3 (scast a) (- scast b) (- scast (c :: u32)) g =
     set_psw (put_flag 2 (sovf (sint (a :: u32) - sint (b :: u32) - sint c)) (psw g)) g"
  using sint_bounds_32 [of a] sint_bounds_32 [of b] sint_bounds_32 [of c] sint_add_64 [of "scast a" "scast b"]
    sint_add_64 [of "scast a" "- scast b"]
  by (simp_all add: overflow3_eq overflow_eq)

lemma zero_eq [alu_simps]: "op_chk_and_set_zero w g = set_psw (put_flag 0 (w = 0) (psw g)) g"
  by (simp add: op_chk_and_set_zero_def flag_simps)

lemma sign_eq [alu_simps]: "op_chk_and_set_sign w g = set_psw (put_flag 1 (sint w < 0) (psw g)) g"
  by (simp add: op_chk_and_set_sign_def flag_simps word_sless_alt)

text \<open>Saturated addition: the result is the exact sum, clamped to 32 signed bits.\<close>

definition clamp32 :: "int \<Rightarrow> int" where
  "clamp32 x = max (- (2 ^ 31)) (min (2 ^ 31 - 1) x)"

lemma sint_ucast_32: "- (2 ^ 31) \<le> sint (w :: u64) \<Longrightarrow> sint w < 2 ^ 31 \<Longrightarrow> sint (ucast w :: u32) = sint w"
proof -
  assume a: "- (2 ^ 31) \<le> sint w" "sint w < 2 ^ 31"
  have "(ucast w :: u32) = word_of_int (sint w)"
    by (rule bit_word_eqI) (simp add: bit_simps_all bit_signed_iff)
  then have "sint (ucast w :: u32) = signed_take_bit 31 (sint w)"
    by (simp only: signed_of_int) simp
  then show ?thesis using a by (simp add: signed_take_bit_int_eq_self)
qed

lemma op_satadd_eq:
  fixes b :: int
  assumes r: "sint data_r = b" and b: "- (2 ^ 31) \<le> b" "b \<le> 2 ^ 31"
  shows "sint (fst (op_satadd l data_r g)) = clamp32 (sint l + b)"
    and "snd (op_satadd l data_r g) = set_psw
      (put_flag 0 (sint l + b = 0) (put_flag 1 (sint l + b < 0)
        ((if sovf (sint l + b) then put_flag 4 True else id)
          (put_flag 2 (sovf (sint l + b)) (put_flag 3 (2 ^ 32 \<le> unat l + unat (ucast data_r :: u32)) (psw g)))))) g"
proof -
  have s: "sint (scast l + data_r :: u64) = sint l + b"
    using sint_add_64 [of "scast l" data_r] r b sint_bounds_32 [of l] by simp
  have z: "scast l + data_r = (0 :: u64) \<longleftrightarrow> sint l + b = 0"
    unfolding s [symmetric] by (simp only: signed_eq_0_iff)
  have ov: "op_chk_and_set_overflow (scast l) data_r g' = set_psw (put_flag 2 (sovf (sint l + b)) (psw g')) g'" for g'
    using overflow_eq [of "scast l" data_r] r b sint_bounds_32 [of l] by simp
  show "sint (fst (op_satadd l data_r g)) = clamp32 (sint l + b)"
    using sint_ucast_32 [of "scast l + data_r"]
    by (simp add: op_satadd_def Let_def word_sless_alt s CPU_REG_PLUS_MAX_def CPU_REG_MINUS_MAX_def
        clamp32_def split: prod.split)
  show "snd (op_satadd l data_r g) = set_psw
      (put_flag 0 (sint l + b = 0) (put_flag 1 (sint l + b < 0)
        ((if sovf (sint l + b) then put_flag 4 True else id)
          (put_flag 2 (sovf (sint l + b)) (put_flag 3 (2 ^ 32 \<le> unat l + unat (ucast data_r :: u32)) (psw g)))))) g"
    by (auto simp: op_satadd_def Let_def word_sless_alt s z ov carry_eq flag_simps CPU_REG_PLUS_MAX_def CPU_REG_MINUS_MAX_def
        sovf_def)
qed

section \<open>Extension\<close>

lemma nth_sign_extend_table: "n < 32 \<Longrightarrow> sign_extend_table ! n = NOT (mask n)"
proof -
  have "list_all (\<lambda>n. sign_extend_table ! n = NOT (mask n)) [0..<32]"
    by (simp add: sign_extend_table_def upt_rec mask_eq_exp_minus_1)
  then show "n < 32 \<Longrightarrow> sign_extend_table ! n = NOT (mask n)" by (simp add: list_all_iff)
qed

lemma nth_zero_extend_table: "n < 32 \<Longrightarrow> zero_extend_table ! n = mask n"
proof -
  have "list_all (\<lambda>n. zero_extend_table ! n = mask n) [0..<32]"
    by (simp add: zero_extend_table_def upt_rec mask_eq_exp_minus_1)
  then show "n < 32 \<Longrightarrow> zero_extend_table ! n = mask n" by (simp add: list_all_iff)
qed

lemma op_sign_extend_eq:
  "n < 32 \<Longrightarrow> op_sign_extend n data = (if bit data n then data OR NOT (mask n) else data)"
  by (simp add: op_sign_extend_def and_push_bit_neq_0_iff_bit nth_sign_extend_table del: push_bit_of_1)

lemma op_zero_extend_eq: "n < 32 \<Longrightarrow> op_zero_extend n data = take_bit n data"
  by (simp add: op_zero_extend_def nth_zero_extend_table take_bit_eq_mask)

lemma bit_fold_set: "bit (fold (\<lambda>i d. d OR push_bit i 1) is d) m \<longleftrightarrow> bit (d :: u32) m \<or> m \<in> set is \<and> m < 32"
  by (induction "is" arbitrary: d) (auto simp: bit_simps_all)

lemma bit_fold_clear: "bit (fold (\<lambda>i d. d AND NOT (push_bit i 1)) is d) m \<longleftrightarrow> bit (d :: u32) m \<and> m \<notin> set is"
  by (induction "is" arbitrary: d) (auto simp: bit_simps_all dest: bit_imp_le_length)

lemma sint_op_sign_extend:
  assumes "n < 32" and "take_bit (Suc n) data = data"
  shows "sint (op_sign_extend n data) = signed_take_bit n (sint data)"
proof (rule bit_eqI)
  fix m
  have "bit data k \<Longrightarrow> k < n \<or> k = n" for k
    using assms(2) by (metis bit_take_bit_iff less_SucE)
  from this [of m] this [of 31] show "bit (sint (op_sign_extend n data)) m \<longleftrightarrow> bit (signed_take_bit n (sint data)) m"
    using assms(1)
    by (auto simp: op_sign_extend_eq bit_sint_iff bit_signed_take_bit_iff bit_simps_all bit_mask_iff min_def)
qed

section \<open>Conditions after a comparison\<close>

lemma sint_wrap_32:
  assumes "- (2 ^ 32) \<le> x" and "x < 2 ^ 32"
  shows "sint (word_of_int x :: u32) =
    (if x < - (2 ^ 31) then x + 2 ^ 32 else if 2 ^ 31 \<le> x then x - 2 ^ 32 else x)"
proof -
  have e: "sint (word_of_int x :: u32) = (x + 2 ^ 31) mod 2 ^ 32 - 2 ^ 31"
    using int_word_sint [of x, where 'a = 32] by simp
  consider "x < - (2 ^ 31)" | "2 ^ 31 \<le> x" | "- (2 ^ 31) \<le> x" "x < 2 ^ 31" by linarith
  then show ?thesis
  proof cases
    case 1
    have "(x + 2 ^ 31) mod 2 ^ 32 = (x + 2 ^ 31 + 2 ^ 32) mod 2 ^ 32"
      by (rule mod_add_self2 [symmetric])
    also have "\<dots> = x + 2 ^ 31 + 2 ^ 32"
      using 1 assms by (intro mod_pos_pos_trivial) simp_all
    finally show ?thesis using 1 e by simp
  next
    case 2
    then have "(x + 2 ^ 31) mod 2 ^ 32 = x + 2 ^ 31 - 2 ^ 32"
      using assms by (simp add: mod_pos_geq mod_pos_pos_trivial)
    with 2 e show ?thesis by simp
  next
    case 3
    then show ?thesis using e by (simp add: mod_pos_pos_trivial)
  qed
qed

lemma sint_diff_32:
  "sint (a - b :: u32) =
    (if sint a - sint b < - (2 ^ 31) then sint a - sint b + 2 ^ 32
     else if 2 ^ 31 \<le> sint a - sint b then sint a - sint b - 2 ^ 32 else sint a - sint b)"
proof -
  have "a - b = word_of_int (sint a - sint b)" by simp
  then show ?thesis
    using sint_wrap_32 [of "sint a - sint b"] sint_bounds_32 [of a] sint_bounds_32 [of b] by simp
qed

lemma signed_less_from_flags:
  "(sint (a - b :: u32) < 0) \<noteq> sovf (sint a - sint b) \<longleftrightarrow> sint a < sint b"
  using sint_bounds_32 [of a] sint_bounds_32 [of b] by (auto simp: sint_diff_32 sovf_def)

text \<open>The flags a comparison of \<open>a\<close> with \<open>b\<close> leaves, and what each condition then means.\<close>

definition cmp_flags :: "u32 \<Rightarrow> u32 \<Rightarrow> CpuRegisterType \<Rightarrow> CpuRegisterType" where
  "cmp_flags a b g =
     set_psw (put_flag 1 (sint (a - b) < 0) (put_flag 0 (a = b)
       (put_flag 2 (sovf (sint a - sint b)) (put_flag 3 (unat a < unat b) (psw g))))) g"

lemma cond_after_cmp:
  "op_exec_cond (cmp_flags a b g) 0b0010 \<longleftrightarrow> a = b"
  "op_exec_cond (cmp_flags a b g) 0b1010 \<longleftrightarrow> a \<noteq> b"
  "op_exec_cond (cmp_flags a b g) 0b0110 \<longleftrightarrow> sint a < sint b"
  "op_exec_cond (cmp_flags a b g) 0b1110 \<longleftrightarrow> sint b \<le> sint a"
  "op_exec_cond (cmp_flags a b g) 0b0111 \<longleftrightarrow> sint a \<le> sint b"
  "op_exec_cond (cmp_flags a b g) 0b1111 \<longleftrightarrow> sint b < sint a"
  "op_exec_cond (cmp_flags a b g) 0b0001 \<longleftrightarrow> unat a < unat b"
  "op_exec_cond (cmp_flags a b g) 0b1001 \<longleftrightarrow> unat b \<le> unat a"
  "op_exec_cond (cmp_flags a b g) 0b0011 \<longleftrightarrow> unat a \<le> unat b"
  "op_exec_cond (cmp_flags a b g) 0b1011 \<longleftrightarrow> unat b < unat a"
proof -
  have s: "sint a = sint b \<longleftrightarrow> a = b" "sint b = sint a \<longleftrightarrow> a = b"
    and u: "unat a = unat b \<longleftrightarrow> a = b" "unat b = unat a \<longleftrightarrow> a = b"
    by (metis signed_word_eqI, metis signed_word_eqI, metis unsigned_word_eqI, metis unsigned_word_eqI)
  have o: "\<not> sint a < sint b \<longleftrightarrow> sint b \<le> sint a" "\<not> unat a < unat b \<longleftrightarrow> unat b \<le> unat a"
    "sint a < sint b \<or> a = b \<longleftrightarrow> sint a \<le> sint b" "unat a < unat b \<or> a = b \<longleftrightarrow> unat a \<le> unat b"
    "sint b \<le> sint a \<and> a \<noteq> b \<longleftrightarrow> sint b < sint a" "unat b \<le> unat a \<and> a \<noteq> b \<longleftrightarrow> unat b < unat a"
    using s u by linarith+
  have l2: "((sint (a - b) < 0) = sovf (sint a - sint b)) \<longleftrightarrow> sint b \<le> sint a"
    using signed_less_from_flags [of a b] by (metis not_less)
  have l: "((sint (a - b) < 0) = (\<not> sovf (sint a - sint b))) \<longleftrightarrow> sint a < sint b"
    using signed_less_from_flags [of a b] by blast
  note [simp] = op_exec_cond_def cmp_flags_def flag_simps signed_less_from_flags l l2 o
  show "op_exec_cond (cmp_flags a b g) 0b0010 \<longleftrightarrow> a = b"
    and "op_exec_cond (cmp_flags a b g) 0b1010 \<longleftrightarrow> a \<noteq> b"
    and "op_exec_cond (cmp_flags a b g) 0b0110 \<longleftrightarrow> sint a < sint b"
    and "op_exec_cond (cmp_flags a b g) 0b0111 \<longleftrightarrow> sint a \<le> sint b"
    and "op_exec_cond (cmp_flags a b g) 0b0001 \<longleftrightarrow> unat a < unat b"
    and "op_exec_cond (cmp_flags a b g) 0b0011 \<longleftrightarrow> unat a \<le> unat b"
    by simp_all
  show "op_exec_cond (cmp_flags a b g) 0b1110 \<longleftrightarrow> sint b \<le> sint a"
    "op_exec_cond (cmp_flags a b g) 0b1111 \<longleftrightarrow> sint b < sint a"
    "op_exec_cond (cmp_flags a b g) 0b1001 \<longleftrightarrow> unat b \<le> unat a"
    "op_exec_cond (cmp_flags a b g) 0b1011 \<longleftrightarrow> unat b < unat a"
    by simp_all
qed

end
