(* ===== verification/V850_Exec_Arith.thy ===== *)
theory V850_Exec_Arith
  imports V850_Alu
begin

unbundle bit_operations_syntax

text \<open>
  The arithmetic executors of \<open>src/cpu/cpu_exec/op_exec_arithm.c\<close>, one definition per handler in
  the order of the file, and the saturated ones of \<open>op_exec_sat.c\<close>. The debug trace each handler
  prints has no effect on the core and is left out. Reads a handler makes before its range
  checks are made before them here too.
\<close>

section \<open>Operand fields\<close>

abbreviation f1_reg1 :: "TargetCoreType \<Rightarrow> u32" where
  "f1_reg1 cpu \<equiv> ucast (t1_reg1 (type1 (decoded_code cpu)))"
abbreviation f1_reg2 :: "TargetCoreType \<Rightarrow> u32" where
  "f1_reg2 cpu \<equiv> ucast (t1_reg2 (type1 (decoded_code cpu)))"
abbreviation f2_imm :: "TargetCoreType \<Rightarrow> u32" where
  "f2_imm cpu \<equiv> t2_imm (type2 (decoded_code cpu))"
abbreviation f2_reg2 :: "TargetCoreType \<Rightarrow> u32" where
  "f2_reg2 cpu \<equiv> ucast (t2_reg2 (type2 (decoded_code cpu)))"
abbreviation f6_imm :: "TargetCoreType \<Rightarrow> u32" where
  "f6_imm cpu \<equiv> t6_imm (type6 (decoded_code cpu))"
abbreviation f6_reg1 :: "TargetCoreType \<Rightarrow> u32" where
  "f6_reg1 cpu \<equiv> ucast (t6_reg1 (type6 (decoded_code cpu)))"
abbreviation f6_reg2 :: "TargetCoreType \<Rightarrow> u32" where
  "f6_reg2 cpu \<equiv> ucast (t6_reg2 (type6 (decoded_code cpu)))"
abbreviation f9_gen :: "TargetCoreType \<Rightarrow> u16" where
  "f9_gen cpu \<equiv> t9_gen (type9 (decoded_code cpu))"
abbreviation f9_gen1 :: "TargetCoreType \<Rightarrow> u32" where
  "f9_gen1 cpu \<equiv> ucast (t9_gen (type9 (decoded_code cpu)))"
abbreviation f9_reg2 :: "TargetCoreType \<Rightarrow> u32" where
  "f9_reg2 cpu \<equiv> ucast (t9_reg2 (type9 (decoded_code cpu)))"
abbreviation f11_reg1 :: "TargetCoreType \<Rightarrow> u32" where
  "f11_reg1 cpu \<equiv> ucast (t11_reg1 (type11 (decoded_code cpu)))"
abbreviation f11_reg2 :: "TargetCoreType \<Rightarrow> u32" where
  "f11_reg2 cpu \<equiv> ucast (t11_reg2 (type11 (decoded_code cpu)))"
abbreviation f11_reg3 :: "TargetCoreType \<Rightarrow> u32" where
  "f11_reg3 cpu \<equiv> ucast (t11_reg3 (type11 (decoded_code cpu)))"
abbreviation f12_reg2 :: "TargetCoreType \<Rightarrow> u32" where
  "f12_reg2 cpu \<equiv> ucast (t12_reg2 (type12 (decoded_code cpu)))"
abbreviation f12_reg3 :: "TargetCoreType \<Rightarrow> u32" where
  "f12_reg3 cpu \<equiv> ucast (t12_reg3 (type12 (decoded_code cpu)))"

text \<open>The four-bit condition of CMOV, ADF and SBF is split over two fields of Format XI.\<close>

abbreviation f11_cond :: "TargetCoreType \<Rightarrow> u16" where
  "f11_cond cpu \<equiv> push_bit 1 (t11_rfu (type11 (decoded_code cpu))) OR t11_sub2 (type11 (decoded_code cpu))"

section \<open>C division\<close>

text \<open>Signed division truncates; dividing by 0, and the least number by \<open>-1\<close>, is undefined.\<close>

definition c_sdiv :: "u32 \<Rightarrow> u32 \<Rightarrow> u32 option" where
  "c_sdiv a b =
     (if b = 0 \<or> (a = 0x80000000 \<and> b = -1) then None
      else Some (word_of_int (sgn (sint a) * sgn (sint b) * (\<bar>sint a\<bar> div \<bar>sint b\<bar>))))"

definition c_smod :: "u32 \<Rightarrow> u32 \<Rightarrow> u32 option" where
  "c_smod a b = map_option (\<lambda>q. a - q * b) (c_sdiv a b)"

definition c_udiv :: "u32 \<Rightarrow> u32 \<Rightarrow> u32 option" where
  "c_udiv a b = (if b = 0 then None else Some (a div b))"

definition c_umod :: "u32 \<Rightarrow> u32 \<Rightarrow> u32 option" where
  "c_umod a b = (if b = 0 then None else Some (a mod b))"

text \<open>\<open>(sint32)((sint16)x)\<close> and \<open>(uint32)((uint16)x)\<close>.\<close>

definition sext16 :: "u32 \<Rightarrow> u32" where
  "sext16 x = scast (ucast x :: u16)"

definition zext16 :: "u32 \<Rightarrow> u32" where
  "zext16 x = ucast (ucast x :: u16)"

section \<open>Format I\<close>

definition op_exec_sub :: "TargetCoreType \<Rightarrow> exec_result" where
  "op_exec_sub cpu =
     (let reg1 = f1_reg1 cpu; reg2 = f1_reg2 cpu
      in greg_check reg1 cpu (greg_check reg2 cpu (do {
           reg2_data \<leftarrow> rd_r (reg cpu) reg2;
           reg1_data \<leftarrow> rd_r (reg cpu) reg1;
           let result = reg2_data - reg1_data;
           g \<leftarrow> wr_r (reg cpu) reg2 result;
           let g = op_chk_and_set_borrow reg2_data reg1_data g;
           let g = op_chk_and_set_overflow (scast reg2_data) (- scast reg1_data) g;
           let g = op_chk_and_set_zero result g;
           let g = op_chk_and_set_sign result g;
           ret cpu (add_pc 2 g)
         })))"

definition op_exec_subr :: "TargetCoreType \<Rightarrow> exec_result" where
  "op_exec_subr cpu =
     (let reg1 = f1_reg1 cpu; reg2 = f1_reg2 cpu
      in greg_check reg1 cpu (greg_check reg2 cpu (do {
           reg2_data \<leftarrow> rd_r (reg cpu) reg2;
           reg1_data \<leftarrow> rd_r (reg cpu) reg1;
           let result = reg1_data - reg2_data;
           g \<leftarrow> wr_r (reg cpu) reg2 result;
           let g = op_chk_and_set_borrow reg1_data reg2_data g;
           let g = op_chk_and_set_overflow (scast reg1_data) (- scast reg2_data) g;
           let g = op_chk_and_set_zero result g;
           let g = op_chk_and_set_sign result g;
           ret cpu (add_pc 2 g)
         })))"

definition op_exec_cmp_1 :: "TargetCoreType \<Rightarrow> exec_result" where
  "op_exec_cmp_1 cpu =
     (let reg1 = f1_reg1 cpu; reg2 = f1_reg2 cpu
      in greg_check reg1 cpu (greg_check reg2 cpu (do {
           reg2_data \<leftarrow> rd_r (reg cpu) reg2;
           reg1_data \<leftarrow> rd_r (reg cpu) reg1;
           let result = reg2_data - reg1_data;
           let g = op_chk_and_set_borrow reg2_data reg1_data (reg cpu);
           let g = op_chk_and_set_overflow (scast reg2_data) (- scast reg1_data) g;
           let g = op_chk_and_set_zero result g;
           let g = op_chk_and_set_sign result g;
           ret cpu (add_pc 2 g)
         })))"

definition op_exec_add_1 :: "TargetCoreType \<Rightarrow> exec_result" where
  "op_exec_add_1 cpu =
     (let reg1 = f1_reg1 cpu; reg2 = f1_reg2 cpu
      in greg_check reg1 cpu (greg_check reg2 cpu (do {
           reg2_data \<leftarrow> rd_r (reg cpu) reg2;
           reg1_data \<leftarrow> rd_r (reg cpu) reg1;
           let result = reg2_data + reg1_data;
           g \<leftarrow> wr_r (reg cpu) reg2 result;
           let g = op_chk_and_set_carry reg2_data reg1_data g;
           let g = op_chk_and_set_overflow (scast reg2_data) (scast reg1_data) g;
           let g = op_chk_and_set_zero result g;
           let g = op_chk_and_set_sign result g;
           ret cpu (add_pc 2 g)
         })))"

definition op_exec_mov_1 :: "TargetCoreType \<Rightarrow> exec_result" where
  "op_exec_mov_1 cpu =
     (let reg1 = f1_reg1 cpu; reg2 = f1_reg2 cpu
      in greg_check reg1 cpu (greg_check reg2 cpu (do {
           v \<leftarrow> rd_r (reg cpu) reg1;
           g \<leftarrow> wr_r (reg cpu) reg2 v;
           ret cpu (add_pc 2 g)
         })))"

definition op_exec_mulh_1 :: "TargetCoreType \<Rightarrow> exec_result" where
  "op_exec_mulh_1 cpu =
     (let reg1 = f1_reg1 cpu; reg2 = f1_reg2 cpu
      in greg_check reg1 cpu (greg_check reg2 cpu (do {
           r1 \<leftarrow> rd_r (reg cpu) reg1;
           r2 \<leftarrow> rd_r (reg cpu) reg2;
           let result = sext16 r1 * sext16 r2;
           g \<leftarrow> wr_r (reg cpu) reg2 result;
           ret cpu (add_pc 2 g)
         })))"

definition op_exec_divh_1 :: "TargetCoreType \<Rightarrow> exec_result" where
  "op_exec_divh_1 cpu =
     (let reg1 = f1_reg1 cpu; reg2 = f1_reg2 cpu
      in do {
        reg1_data \<leftarrow> rd_r (reg cpu) reg1;
        reg2_data \<leftarrow> rd_r (reg cpu) reg2;
        greg_check reg1 cpu (greg_check reg2 cpu (do {
          g \<leftarrow> (if reg1_data = 0 then Some (psw_set CPU_PSW_OV (reg cpu))
                else do {
                  q \<leftarrow> c_sdiv reg2_data (sext16 reg1_data);
                  wr_r (psw_clr CPU_PSW_OV (reg cpu)) reg2 q
                });
          v \<leftarrow> rd_r g reg2;
          let g = op_chk_and_set_zero v g;
          let g = op_chk_and_set_sign v g;
          ret cpu (add_pc 2 g)
        }))
      })"

section \<open>Format II\<close>

abbreviation imm5_sext :: "TargetCoreType \<Rightarrow> u32" where
  "imm5_sext cpu \<equiv> op_sign_extend 4 (f2_imm cpu)"

definition op_exec_cmp_2 :: "TargetCoreType \<Rightarrow> exec_result" where
  "op_exec_cmp_2 cpu =
     (let reg2 = f2_reg2 cpu
      in greg_check reg2 cpu (do {
           reg2_data \<leftarrow> rd_r (reg cpu) reg2;
           let imm_data = imm5_sext cpu;
           let result = reg2_data - imm_data;
           let g = op_chk_and_set_borrow reg2_data imm_data (reg cpu);
           let g = op_chk_and_set_overflow (scast reg2_data) (- scast imm_data) g;
           let g = op_chk_and_set_zero result g;
           let g = op_chk_and_set_sign result g;
           ret cpu (add_pc 2 g)
         }))"

definition op_exec_add_2 :: "TargetCoreType \<Rightarrow> exec_result" where
  "op_exec_add_2 cpu =
     (let reg2 = f2_reg2 cpu
      in greg_check reg2 cpu (do {
           reg2_data \<leftarrow> rd_r (reg cpu) reg2;
           let imm_data = imm5_sext cpu;
           let result = reg2_data + imm_data;
           g \<leftarrow> wr_r (reg cpu) reg2 result;
           let g = op_chk_and_set_carry reg2_data imm_data g;
           let g = op_chk_and_set_overflow (scast reg2_data) (scast imm_data) g;
           let g = op_chk_and_set_zero result g;
           let g = op_chk_and_set_sign result g;
           ret cpu (add_pc 2 g)
         }))"

definition op_exec_mov_2 :: "TargetCoreType \<Rightarrow> exec_result" where
  "op_exec_mov_2 cpu =
     (let reg2 = f2_reg2 cpu
      in greg_check reg2 cpu (do {
           g \<leftarrow> wr_r (reg cpu) reg2 (imm5_sext cpu);
           ret cpu (add_pc 2 g)
         }))"

definition op_exec_mulh_2 :: "TargetCoreType \<Rightarrow> exec_result" where
  "op_exec_mulh_2 cpu =
     (let reg2 = f2_reg2 cpu
      in greg_check reg2 cpu (do {
           r2 \<leftarrow> rd_r (reg cpu) reg2;
           let result = imm5_sext cpu * sext16 r2;
           g \<leftarrow> wr_r (reg cpu) reg2 result;
           ret cpu (add_pc 2 g)
         }))"

section \<open>Format VI\<close>

abbreviation imm16_sext :: "TargetCoreType \<Rightarrow> u32" where
  "imm16_sext cpu \<equiv> op_sign_extend 15 (f6_imm cpu)"

definition op_exec_addi :: "TargetCoreType \<Rightarrow> exec_result" where
  "op_exec_addi cpu =
     (let reg1 = f6_reg1 cpu; reg2 = f6_reg2 cpu; imm_data = imm16_sext cpu
      in greg_check reg1 cpu (greg_check reg2 cpu (do {
           r1 \<leftarrow> rd_r (reg cpu) reg1;
           let (result, g) = op_addi imm_data r1 (reg cpu);
           g \<leftarrow> wr_r g reg2 result;
           ret cpu (add_pc 4 g)
         })))"

definition op_exec_movea :: "TargetCoreType \<Rightarrow> exec_result" where
  "op_exec_movea cpu =
     (let reg1 = f6_reg1 cpu; reg2 = f6_reg2 cpu; imm_data = imm16_sext cpu
      in greg_check reg1 cpu (greg_check reg2 cpu (do {
           r1 \<leftarrow> rd_r (reg cpu) reg1;
           g \<leftarrow> wr_r (reg cpu) reg2 (op_movea imm_data r1);
           ret cpu (add_pc 4 g)
         })))"

text \<open>MOV with a 32-bit immediate fetches its third halfword from the bus.\<close>

definition op_exec_mov_6 :: "'w bus \<Rightarrow> 'w machine \<Rightarrow> 'w bus_result" where
  "op_exec_mov_6 bus m =
     (let reg1 = f6_reg1 (m_core m); imm_data = f6_imm (m_core m)
      in m_greg_check reg1 m (
           let imm_high_addr = reg_pc (m_reg m) + 4;
               (err, imm_high16, m) = bus_get_data16 bus (core_id (m_core m)) imm_high_addr m
           in if err \<noteq> STD_E_OK then Some (-1, m)
              else do {
                let imm_high = ucast imm_high16;
                let imm_data = imm_data OR push_bit 16 imm_high;
                g \<leftarrow> wr_r (m_reg m) reg1 imm_data;
                m_ret m (add_pc 6 g)
              }))"

definition op_exec_movhi :: "TargetCoreType \<Rightarrow> exec_result" where
  "op_exec_movhi cpu =
     (let reg1 = f6_reg1 cpu; reg2 = f6_reg2 cpu; imm_data = imm16_sext cpu
      in greg_check reg1 cpu (greg_check reg2 cpu (do {
           r1 \<leftarrow> rd_r (reg cpu) reg1;
           g \<leftarrow> wr_r (reg cpu) reg2 (op_movhi imm_data r1);
           ret cpu (add_pc 4 g)
         })))"

definition op_exec_mulhi :: "TargetCoreType \<Rightarrow> exec_result" where
  "op_exec_mulhi cpu =
     (let reg1 = f6_reg1 cpu; reg2 = f6_reg2 cpu; imm_data = imm16_sext cpu
      in greg_check reg1 cpu (greg_check reg2 cpu (do {
           r1 \<leftarrow> rd_r (reg cpu) reg1;
           g \<leftarrow> wr_r (reg cpu) reg2 (op_mulhi imm_data r1);
           ret cpu (add_pc 4 g)
         })))"

section \<open>Format IX\<close>

definition op_exec_setf :: "TargetCoreType \<Rightarrow> exec_result" where
  "op_exec_setf cpu =
     (let reg2 = f9_reg2 cpu; cond = f9_gen cpu
      in greg_check reg2 cpu (do {
           let result = (if setf_chk_cond (reg cpu) cond then 1 else 0);
           g \<leftarrow> wr_r (reg cpu) reg2 result;
           ret cpu (add_pc 4 g)
         }))"

definition op_exec_sasf_9 :: "TargetCoreType \<Rightarrow> exec_result" where
  "op_exec_sasf_9 cpu =
     (let reg2 = f9_reg2 cpu; cond = f9_gen cpu
      in greg_check reg2 cpu (do {
           r2 \<leftarrow> rd_r (reg cpu) reg2;
           let result = push_bit 1 r2;
           let result = (if op_exec_cond (reg cpu) cond then result OR 1 else result);
           g \<leftarrow> wr_r (reg cpu) reg2 result;
           ret cpu (add_pc 4 g)
         }))"

section \<open>Format XI: division\<close>

text \<open>
  \<open>div_11\<close> is the common shape of the five two-result divisions: read all operands, check the
  registers, set \<open>OV\<close> and skip the division if the test \<open>zero\<close> says so, otherwise store quotient
  and remainder, and take \<open>Z\<close> and \<open>S\<close> from \<open>reg2\<close>.
\<close>

definition div_11 ::
  "(u32 \<Rightarrow> u32 \<Rightarrow> bool) \<Rightarrow> (u32 \<Rightarrow> u32 \<Rightarrow> u32 option) \<Rightarrow> (u32 \<Rightarrow> u32 \<Rightarrow> u32 option) \<Rightarrow> (u32 \<Rightarrow> u32)
   \<Rightarrow> TargetCoreType \<Rightarrow> exec_result" where
  "div_11 ovf quot remn narrow cpu =
     (let reg1 = f11_reg1 cpu; reg2 = f11_reg2 cpu; reg3 = f11_reg3 cpu
      in do {
        reg1_data \<leftarrow> rd_r (reg cpu) reg1;
        reg2_data \<leftarrow> rd_r (reg cpu) reg2;
        reg3_data \<leftarrow> rd_r (reg cpu) reg3;
        greg_check reg1 cpu (greg_check reg2 cpu (greg_check reg3 cpu (do {
          g \<leftarrow> (if reg1_data = 0 then Some (psw_set CPU_PSW_OV (reg cpu))
                else do {
                  let g = (if ovf reg1_data reg2_data then psw_set CPU_PSW_OV (reg cpu)
                           else psw_clr CPU_PSW_OV (reg cpu));
                  q \<leftarrow> quot reg2_data (narrow reg1_data);
                  g \<leftarrow> wr_r g reg2 q;
                  rem' \<leftarrow> remn reg2_data (narrow reg1_data);
                  wr_r g reg3 rem'
                });
          v \<leftarrow> rd_r g reg2;
          let g = op_chk_and_set_zero v g;
          let g = op_chk_and_set_sign v g;
          ret cpu (add_pc 4 g)
        })))
      })"

definition op_exec_divu :: "TargetCoreType \<Rightarrow> exec_result" where
  "op_exec_divu = div_11 (\<lambda>_ _. False) c_udiv c_umod (\<lambda>x. x)"

definition op_exec_divhu :: "TargetCoreType \<Rightarrow> exec_result" where
  "op_exec_divhu = div_11 (\<lambda>_ _. False) c_udiv c_umod zext16"

definition op_exec_divqu_11 :: "TargetCoreType \<Rightarrow> exec_result" where
  "op_exec_divqu_11 = div_11 (\<lambda>_ _. False) c_udiv c_umod (\<lambda>x. x)"

definition op_exec_divh_11 :: "TargetCoreType \<Rightarrow> exec_result" where
  "op_exec_divh_11 = div_11 (\<lambda>_ _. False) c_sdiv c_smod sext16"

definition op_exec_div_common :: "TargetCoreType \<Rightarrow> exec_result" where
  "op_exec_div_common = div_11 (\<lambda>r1 r2. r1 = -1 \<and> r2 = 0x80000000) c_sdiv c_smod (\<lambda>x. x)"

definition op_exec_div :: "TargetCoreType \<Rightarrow> exec_result" where
  "op_exec_div cpu = op_exec_div_common cpu"

definition op_exec_divq :: "TargetCoreType \<Rightarrow> exec_result" where
  "op_exec_divq cpu = op_exec_div_common cpu"

section \<open>Format XI: multiplication and conditional move\<close>

definition op_exec_mul :: "TargetCoreType \<Rightarrow> exec_result" where
  "op_exec_mul cpu =
     (let reg1 = f11_reg1 cpu; reg2 = f11_reg2 cpu; reg3 = f11_reg3 cpu
      in do {
        reg1_data \<leftarrow> rd_r (reg cpu) reg1;
        reg2_data \<leftarrow> rd_r (reg cpu) reg2;
        reg3_data \<leftarrow> rd_r (reg cpu) reg3;
        greg_check reg1 cpu (greg_check reg2 cpu (greg_check reg3 cpu (do {
          let result = (scast reg1_data * scast reg2_data :: u64);
          g \<leftarrow> wr_r (reg cpu) reg2 (ucast result);
          g \<leftarrow> wr_r g reg3 (ucast (drop_bit 32 result));
          ret cpu (add_pc 4 g)
        })))
      })"

definition op_exec_mulu :: "TargetCoreType \<Rightarrow> exec_result" where
  "op_exec_mulu cpu =
     (let reg1 = f11_reg1 cpu; reg2 = f11_reg2 cpu; reg3 = f11_reg3 cpu
      in do {
        reg1_data \<leftarrow> rd_r (reg cpu) reg1;
        reg2_data \<leftarrow> rd_r (reg cpu) reg2;
        reg3_data \<leftarrow> rd_r (reg cpu) reg3;
        greg_check reg1 cpu (greg_check reg2 cpu (greg_check reg3 cpu (do {
          let result = (ucast reg1_data * ucast reg2_data :: u64);
          g \<leftarrow> wr_r (reg cpu) reg2 (ucast result);
          g \<leftarrow> wr_r g reg3 (ucast (drop_bit 32 result));
          ret cpu (add_pc 4 g)
        })))
      })"

definition op_exec_cmov_11 :: "TargetCoreType \<Rightarrow> exec_result" where
  "op_exec_cmov_11 cpu =
     (let reg1 = f11_reg1 cpu; reg2 = f11_reg2 cpu; reg3 = f11_reg3 cpu
      in do {
        reg1_data \<leftarrow> rd_r (reg cpu) reg1;
        reg2_data \<leftarrow> rd_r (reg cpu) reg2;
        reg3_data \<leftarrow> rd_r (reg cpu) reg3;
        greg_check reg1 cpu (greg_check reg2 cpu (greg_check reg3 cpu (do {
          g \<leftarrow> (if setf_chk_cond (reg cpu) (f11_cond cpu) then wr_r (reg cpu) reg3 reg1_data
                else wr_r (reg cpu) reg3 reg2_data);
          ret cpu (add_pc 4 g)
        })))
      })"

section \<open>Format XII\<close>

abbreviation f12_imm9 :: "TargetCoreType \<Rightarrow> u32" where
  "f12_imm9 cpu \<equiv> push_bit 5 (t12_immh (type12 (decoded_code cpu)) AND 0xF) OR t12_imml (type12 (decoded_code cpu))"

definition op_exec_mulu_12 :: "TargetCoreType \<Rightarrow> exec_result" where
  "op_exec_mulu_12 cpu =
     (let reg2 = f12_reg2 cpu; reg3 = f12_reg3 cpu
      in greg_check reg2 cpu (greg_check reg3 cpu (do {
           let imm9 = (ucast (f12_imm9 cpu) :: u64);
           reg2_data \<leftarrow> rd_r (reg cpu) reg2;
           let result = ucast reg2_data * imm9;
           let result_low = ucast result;
           let result_high = ucast (drop_bit 32 result);
           g \<leftarrow> wr_r (reg cpu) reg2 result_low;
           g \<leftarrow> wr_r g reg3 result_high;
           ret cpu (add_pc 4 g)
         })))"

definition op_exec_mul_12 :: "TargetCoreType \<Rightarrow> exec_result" where
  "op_exec_mul_12 cpu =
     (let reg2 = f12_reg2 cpu; reg3 = f12_reg3 cpu
      in greg_check reg2 cpu (greg_check reg3 cpu (do {
           let imm9 = (scast (op_sign_extend 8 (f12_imm9 cpu)) :: u64);
           reg2_data \<leftarrow> rd_r (reg cpu) reg2;
           let result = scast reg2_data * imm9;
           let result_low = ucast result;
           let result_high = ucast (signed_drop_bit 32 result);
           g \<leftarrow> wr_r (reg cpu) reg2 result_low;
           g \<leftarrow> wr_r g reg3 result_high;
           ret cpu (add_pc 4 g)
         })))"

definition op_exec_cmov_12 :: "TargetCoreType \<Rightarrow> exec_result" where
  "op_exec_cmov_12 cpu =
     (let imm_data = op_sign_extend 4 (t12_imml (type12 (decoded_code cpu)));
          reg2 = f12_reg2 cpu; reg3 = f12_reg3 cpu;
          cond = ucast (push_bit 1 (t12_immh (type12 (decoded_code cpu)) AND 0x07))
                 OR t12_sub2 (type12 (decoded_code cpu))
      in do {
        reg2_data \<leftarrow> rd_r (reg cpu) reg2;
        reg3_data \<leftarrow> rd_r (reg cpu) reg3;
        greg_check reg2 cpu (greg_check reg3 cpu (do {
          g \<leftarrow> (if setf_chk_cond (reg cpu) cond then wr_r (reg cpu) reg3 imm_data
                else wr_r (reg cpu) reg3 reg2_data);
          ret cpu (add_pc 4 g)
        }))
      })"

section \<open>Format XI: conditional add, multiply-accumulate\<close>

definition op_exec_adf_11 :: "TargetCoreType \<Rightarrow> exec_result" where
  "op_exec_adf_11 cpu =
     (let reg1 = f11_reg1 cpu; reg2 = f11_reg2 cpu; reg3 = f11_reg3 cpu
      in greg_check reg1 cpu (greg_check reg2 cpu (greg_check reg3 cpu (do {
           reg1_data \<leftarrow> rd_r (reg cpu) reg1;
           reg2_data \<leftarrow> rd_r (reg cpu) reg2;
           let add_data = (if op_exec_cond (reg cpu) (f11_cond cpu) then 1 else 0);
           let result = reg2_data + reg1_data + add_data;
           g \<leftarrow> wr_r (reg cpu) reg3 result;
           let g = op_chk_and_set_carry3 reg2_data reg1_data add_data g;
           let g = op_chk_and_set_overflow3 (scast reg2_data) (scast reg1_data) (scast add_data) g;
           let g = op_chk_and_set_zero result g;
           let g = op_chk_and_set_sign result g;
           ret cpu (add_pc 4 g)
         }))))"

definition op_exec_sbf_11 :: "TargetCoreType \<Rightarrow> exec_result" where
  "op_exec_sbf_11 cpu =
     (let reg1 = f11_reg1 cpu; reg2 = f11_reg2 cpu; reg3 = f11_reg3 cpu
      in greg_check reg1 cpu (greg_check reg2 cpu (greg_check reg3 cpu (do {
           let add_data = (if op_exec_cond (reg cpu) (f11_cond cpu) then 1 else 0);
           reg2_data \<leftarrow> rd_r (reg cpu) reg2;
           reg1_data \<leftarrow> rd_r (reg cpu) reg1;
           let result = reg2_data - reg1_data - add_data;
           g \<leftarrow> wr_r (reg cpu) reg3 result;
           let g = op_chk_and_set_borrow3 reg2_data reg1_data add_data g;
           let g = op_chk_and_set_overflow3 (scast reg2_data) (- scast reg1_data) (- scast add_data) g;
           let g = op_chk_and_set_zero result g;
           let g = op_chk_and_set_sign result g;
           ret cpu (add_pc 4 g)
         }))))"

text \<open>\<open>reg4\<close> is the register number of MAC's result, twice the four-bit condition field.\<close>

definition op_exec_mac_11 :: "TargetCoreType \<Rightarrow> exec_result" where
  "op_exec_mac_11 cpu =
     (let reg1 = f11_reg1 cpu; reg2 = f11_reg2 cpu; reg3 = f11_reg3 cpu;
          reg4 = push_bit 1 (ucast (f11_cond cpu));
          reg3plus1 = reg3 + 1; reg4plus1 = reg4 + 1
      in do {
        r1 \<leftarrow> rd_r (reg cpu) reg1;
        r2 \<leftarrow> rd_r (reg cpu) reg2;
        r3p \<leftarrow> rd_r (reg cpu) reg3plus1;
        r3 \<leftarrow> rd_r (reg cpu) reg3;
        let reg1_data = (scast r1 :: u64);
        let reg2_data = (scast r2 :: u64);
        let reg3plus1_data = (scast r3p :: u64);
        let reg3_data = (scast r3 :: u64);
        greg_check reg1 cpu (greg_check reg2 cpu (greg_check reg3 cpu (greg_check reg4 cpu (
          if reg3 mod 2 \<noteq> 0 then Some (-1, cpu)
          else if reg4 mod 2 \<noteq> 0 then Some (-1, cpu)
          else do {
            let result1 = reg2_data * reg1_data;
            let result2 = push_bit 32 reg3plus1_data OR reg3_data;
            let result = result1 + result2;
            g \<leftarrow> wr_r (reg cpu) reg4 (ucast result);
            g \<leftarrow> wr_r g reg4plus1 (ucast (drop_bit 32 result));
            ret cpu (add_pc 4 g)
          }))))
      })"

definition op_exec_macu_11 :: "TargetCoreType \<Rightarrow> exec_result" where
  "op_exec_macu_11 cpu =
     (let reg1 = f11_reg1 cpu; reg2 = f11_reg2 cpu; reg3 = f11_reg3 cpu;
          reg4 = push_bit 1 (ucast (f11_cond cpu));
          reg3plus1 = reg3 + 1; reg4plus1 = reg4 + 1
      in do {
        r1 \<leftarrow> rd_r (reg cpu) reg1;
        r2 \<leftarrow> rd_r (reg cpu) reg2;
        r3p \<leftarrow> rd_r (reg cpu) reg3plus1;
        r3 \<leftarrow> rd_r (reg cpu) reg3;
        let reg1_data = (ucast r1 :: u64);
        let reg2_data = (ucast r2 :: u64);
        let reg3plus1_data = (ucast r3p :: u64);
        let reg3_data = (ucast r3 :: u64);
        greg_check reg1 cpu (greg_check reg2 cpu (greg_check reg3 cpu (greg_check reg4 cpu (
          if reg3 mod 2 \<noteq> 0 then Some (-1, cpu)
          else if reg4 mod 2 \<noteq> 0 then Some (-1, cpu)
          else do {
            let result1 = reg2_data * reg1_data;
            let result2 = push_bit 32 reg3plus1_data OR reg3_data;
            let result = result1 + result2;
            g \<leftarrow> wr_r (reg cpu) reg4 (ucast result);
            g \<leftarrow> wr_r g reg4plus1 (ucast (drop_bit 32 result));
            ret cpu (add_pc 4 g)
          }))))
      })"

section \<open>Saturated arithmetic\<close>

definition op_exec_satadd_1 :: "TargetCoreType \<Rightarrow> exec_result" where
  "op_exec_satadd_1 cpu =
     (let reg1 = f1_reg1 cpu; reg2 = f1_reg2 cpu
      in greg_check reg1 cpu (greg_check reg2 cpu (do {
           r2 \<leftarrow> rd_r (reg cpu) reg2;
           r1 \<leftarrow> rd_r (reg cpu) reg1;
           let (result, g) = op_satadd r2 (scast r1) (reg cpu);
           g \<leftarrow> wr_r g reg2 result;
           ret cpu (add_pc 2 g)
         })))"

definition op_exec_satsub_1 :: "TargetCoreType \<Rightarrow> exec_result" where
  "op_exec_satsub_1 cpu =
     (let reg1 = f1_reg1 cpu; reg2 = f1_reg2 cpu
      in greg_check reg1 cpu (greg_check reg2 cpu (do {
           r2 \<leftarrow> rd_r (reg cpu) reg2;
           r1 \<leftarrow> rd_r (reg cpu) reg1;
           let (result, g) = op_satadd r2 (- scast r1) (reg cpu);
           g \<leftarrow> wr_r g reg2 result;
           ret cpu (add_pc 2 g)
         })))"

definition op_exec_satsubr_1 :: "TargetCoreType \<Rightarrow> exec_result" where
  "op_exec_satsubr_1 cpu =
     (let reg1 = f1_reg1 cpu; reg2 = f1_reg2 cpu
      in greg_check reg1 cpu (greg_check reg2 cpu (do {
           r1 \<leftarrow> rd_r (reg cpu) reg1;
           r2 \<leftarrow> rd_r (reg cpu) reg2;
           let (result, g) = op_satadd r1 (- scast r2) (reg cpu);
           g \<leftarrow> wr_r g reg2 result;
           ret cpu (add_pc 2 g)
         })))"

definition op_exec_satadd_2 :: "TargetCoreType \<Rightarrow> exec_result" where
  "op_exec_satadd_2 cpu =
     (let imm_data = imm5_sext cpu; reg2 = f2_reg2 cpu
      in greg_check reg2 cpu (do {
           r2 \<leftarrow> rd_r (reg cpu) reg2;
           let (result, g) = op_satadd r2 (scast imm_data) (reg cpu);
           g \<leftarrow> wr_r g reg2 result;
           ret cpu (add_pc 2 g)
         }))"

definition op_exec_satsubi :: "TargetCoreType \<Rightarrow> exec_result" where
  "op_exec_satsubi cpu =
     (let reg1 = f6_reg1 cpu; reg2 = f6_reg2 cpu; imm_data = imm16_sext cpu
      in greg_check reg1 cpu (greg_check reg2 cpu (do {
           r1 \<leftarrow> rd_r (reg cpu) reg1;
           let (result, g) = op_satadd r1 (scast (- imm_data)) (reg cpu);
           g \<leftarrow> wr_r g reg2 result;
           ret cpu (add_pc 4 g)
         })))"

definition op_exec_satadd_11 :: "TargetCoreType \<Rightarrow> exec_result" where
  "op_exec_satadd_11 cpu =
     (let reg1 = f11_reg1 cpu; reg2 = f11_reg2 cpu; reg3 = f11_reg3 cpu
      in greg_check reg1 cpu (greg_check reg2 cpu (greg_check reg3 cpu (do {
           r2 \<leftarrow> rd_r (reg cpu) reg2;
           r1 \<leftarrow> rd_r (reg cpu) reg1;
           let (result, g) = op_satadd r2 (scast r1) (reg cpu);
           g \<leftarrow> wr_r g reg3 result;
           ret cpu (add_pc 4 g)
         }))))"

definition op_exec_satsub_11 :: "TargetCoreType \<Rightarrow> exec_result" where
  "op_exec_satsub_11 cpu =
     (let reg1 = f11_reg1 cpu; reg2 = f11_reg2 cpu; reg3 = f11_reg3 cpu
      in greg_check reg1 cpu (greg_check reg2 cpu (greg_check reg3 cpu (do {
           r2 \<leftarrow> rd_r (reg cpu) reg2;
           r1 \<leftarrow> rd_r (reg cpu) reg1;
           let (result, g) = op_satadd r2 (- scast r1) (reg cpu);
           g \<leftarrow> wr_r g reg3 result;
           ret cpu (add_pc 4 g)
         }))))"

lemmas arith_defs = op_exec_sub_def op_exec_subr_def op_exec_cmp_1_def op_exec_add_1_def
  op_exec_mov_1_def op_exec_mulh_1_def op_exec_divh_1_def op_exec_cmp_2_def op_exec_add_2_def
  op_exec_mov_2_def op_exec_mulh_2_def op_exec_addi_def op_exec_movea_def op_exec_movhi_def
  op_exec_mulhi_def op_exec_setf_def op_exec_sasf_9_def op_exec_divu_def op_exec_divhu_def
  op_exec_divqu_11_def op_exec_divh_11_def op_exec_div_def op_exec_divq_def op_exec_div_common_def
  op_exec_mul_def op_exec_mulu_def op_exec_cmov_11_def op_exec_mulu_12_def op_exec_mul_12_def
  op_exec_cmov_12_def op_exec_adf_11_def op_exec_sbf_11_def op_exec_mac_11_def op_exec_macu_11_def
  op_exec_satadd_1_def op_exec_satsub_1_def op_exec_satsubr_1_def op_exec_satadd_2_def
  op_exec_satsubi_def op_exec_satadd_11_def op_exec_satsub_11_def

end
