(* ===== verification/V850_Exec_Logic.thy ===== *)
theory V850_Exec_Logic
  imports V850_Exec_Arith
begin

unbundle bit_operations_syntax

text \<open>
  The logical executors of \<open>src/cpu/cpu_exec/op_exec_logic.c\<close>, one definition per handler in the
  order of the file: bitwise operations, extensions, shifts and the byte and halfword swaps
  of Format XII. Shift amounts are masked to five bits before use, so every C shift is
  defined.
\<close>

section \<open>Format I\<close>

definition op_exec_or :: "TargetCoreType \<Rightarrow> exec_result" where
  "op_exec_or cpu =
     (let reg1 = f1_reg1 cpu; reg2 = f1_reg2 cpu
      in greg_check reg1 cpu (greg_check reg2 cpu (do {
           r2 \<leftarrow> rd_r (reg cpu) reg2;
           r1 \<leftarrow> rd_r (reg cpu) reg1;
           let (result, g) = op_or r2 r1 (reg cpu);
           g \<leftarrow> wr_r g reg2 result;
           ret cpu (add_pc 2 g)
         })))"

definition op_exec_zxb :: "TargetCoreType \<Rightarrow> exec_result" where
  "op_exec_zxb cpu =
     (let reg1 = f1_reg1 cpu
      in greg_check reg1 cpu (do {
           r1 \<leftarrow> rd_r (reg cpu) reg1;
           g \<leftarrow> wr_r (reg cpu) reg1 (ucast (ucast r1 :: u8));
           ret cpu (add_pc 2 g)
         }))"

definition op_exec_zxh :: "TargetCoreType \<Rightarrow> exec_result" where
  "op_exec_zxh cpu =
     (let reg1 = f1_reg1 cpu
      in greg_check reg1 cpu (do {
           r1 \<leftarrow> rd_r (reg cpu) reg1;
           g \<leftarrow> wr_r (reg cpu) reg1 (ucast (ucast r1 :: u16));
           ret cpu (add_pc 2 g)
         }))"

definition op_exec_tst :: "TargetCoreType \<Rightarrow> exec_result" where
  "op_exec_tst cpu =
     (let reg1 = f1_reg1 cpu; reg2 = f1_reg2 cpu
      in greg_check reg1 cpu (greg_check reg2 cpu (do {
           r2 \<leftarrow> rd_r (reg cpu) reg2;
           r1 \<leftarrow> rd_r (reg cpu) reg1;
           let (_, g) = op_and r2 r1 (reg cpu);
           ret cpu (add_pc 2 g)
         })))"

definition op_exec_and :: "TargetCoreType \<Rightarrow> exec_result" where
  "op_exec_and cpu =
     (let reg1 = f1_reg1 cpu; reg2 = f1_reg2 cpu
      in greg_check reg1 cpu (greg_check reg2 cpu (do {
           r2 \<leftarrow> rd_r (reg cpu) reg2;
           r1 \<leftarrow> rd_r (reg cpu) reg1;
           let (result, g) = op_and r2 r1 (reg cpu);
           g \<leftarrow> wr_r g reg2 result;
           ret cpu (add_pc 2 g)
         })))"

definition op_exec_not :: "TargetCoreType \<Rightarrow> exec_result" where
  "op_exec_not cpu =
     (let reg1 = f1_reg1 cpu; reg2 = f1_reg2 cpu
      in greg_check reg1 cpu (greg_check reg2 cpu (do {
           r1 \<leftarrow> rd_r (reg cpu) reg1;
           let result = NOT r1;
           g \<leftarrow> wr_r (reg cpu) reg2 result;
           v \<leftarrow> rd_r g reg2;
           let g = op_chk_and_set_zero v g;
           let g = op_chk_and_set_sign v g;
           let g = psw_clr CPU_PSW_OV g;
           ret cpu (add_pc 2 g)
         })))"

definition op_exec_xor :: "TargetCoreType \<Rightarrow> exec_result" where
  "op_exec_xor cpu =
     (let reg1 = f1_reg1 cpu; reg2 = f1_reg2 cpu
      in greg_check reg1 cpu (greg_check reg2 cpu (do {
           r2 \<leftarrow> rd_r (reg cpu) reg2;
           r1 \<leftarrow> rd_r (reg cpu) reg1;
           let result = r2 XOR r1;
           g \<leftarrow> wr_r (reg cpu) reg2 result;
           v \<leftarrow> rd_r g reg2;
           let g = op_chk_and_set_zero v g;
           let g = op_chk_and_set_sign v g;
           let g = psw_clr CPU_PSW_OV g;
           ret cpu (add_pc 2 g)
         })))"

definition op_exec_sxh :: "TargetCoreType \<Rightarrow> exec_result" where
  "op_exec_sxh cpu =
     (let reg1 = f1_reg1 cpu
      in greg_check reg1 cpu (do {
           r1 \<leftarrow> rd_r (reg cpu) reg1;
           g \<leftarrow> wr_r (reg cpu) reg1 (scast (ucast r1 :: u16));
           ret cpu (add_pc 2 g)
         }))"

definition op_exec_sxb :: "TargetCoreType \<Rightarrow> exec_result" where
  "op_exec_sxb cpu =
     (let reg1 = f1_reg1 cpu
      in greg_check reg1 cpu (do {
           r1 \<leftarrow> rd_r (reg cpu) reg1;
           g \<leftarrow> wr_r (reg cpu) reg1 (scast (ucast r1 :: u8));
           ret cpu (add_pc 2 g)
         }))"

section \<open>Shifts\<close>

definition op_chk_and_set_shl_carry :: "u32 \<Rightarrow> u32 \<Rightarrow> CpuRegisterType \<Rightarrow> CpuRegisterType" where
  "op_chk_and_set_shl_carry data sh cpu =
     (if 0 < sh then
        (if data AND push_bit (unat (32 - sh)) 1 \<noteq> 0 then psw_set CPU_PSW_CY cpu
         else psw_clr CPU_PSW_CY cpu)
      else psw_clr CPU_PSW_CY cpu)"

definition op_chk_and_set_shr_carry :: "u32 \<Rightarrow> u32 \<Rightarrow> CpuRegisterType \<Rightarrow> CpuRegisterType" where
  "op_chk_and_set_shr_carry data sh cpu =
     (if 0 < sh then
        (if data AND push_bit (unat (sh - 1)) 1 \<noteq> 0 then psw_set CPU_PSW_CY cpu
         else psw_clr CPU_PSW_CY cpu)
      else psw_clr CPU_PSW_CY cpu)"

definition op_exec_shl_2 :: "TargetCoreType \<Rightarrow> exec_result" where
  "op_exec_shl_2 cpu =
     (let reg2 = f2_reg2 cpu
      in greg_check reg2 cpu (do {
           reg2_data \<leftarrow> rd_r (reg cpu) reg2;
           let imm_data = op_zero_extend 5 (f2_imm cpu);
           let result = push_bit (unat imm_data) reg2_data;
           g \<leftarrow> wr_r (reg cpu) reg2 result;
           let g = psw_clr CPU_PSW_OV g;
           let g = op_chk_and_set_shl_carry reg2_data imm_data g;
           v \<leftarrow> rd_r g reg2;
           let g = op_chk_and_set_zero v g;
           let g = op_chk_and_set_sign v g;
           ret cpu (add_pc 2 g)
         }))"

definition op_exec_shr_2 :: "TargetCoreType \<Rightarrow> exec_result" where
  "op_exec_shr_2 cpu =
     (let reg2 = f2_reg2 cpu
      in greg_check reg2 cpu (do {
           reg2_data \<leftarrow> rd_r (reg cpu) reg2;
           let imm_data = op_zero_extend 5 (f2_imm cpu);
           let result = drop_bit (unat imm_data) reg2_data;
           g \<leftarrow> wr_r (reg cpu) reg2 result;
           let g = psw_clr CPU_PSW_OV g;
           let g = op_chk_and_set_shr_carry reg2_data imm_data g;
           v \<leftarrow> rd_r g reg2;
           let g = op_chk_and_set_zero v g;
           let g = op_chk_and_set_sign v g;
           ret cpu (add_pc 2 g)
         }))"

definition op_exec_sar_2 :: "TargetCoreType \<Rightarrow> exec_result" where
  "op_exec_sar_2 cpu =
     (let reg2 = f2_reg2 cpu
      in greg_check reg2 cpu (do {
           reg2_data \<leftarrow> rd_r (reg cpu) reg2;
           let imm_data = op_zero_extend 5 (f2_imm cpu);
           let result = signed_drop_bit (unat imm_data) reg2_data;
           g \<leftarrow> wr_r (reg cpu) reg2 result;
           let g = psw_clr CPU_PSW_OV g;
           let g = op_chk_and_set_shr_carry reg2_data imm_data g;
           v \<leftarrow> rd_r g reg2;
           let g = op_chk_and_set_zero v g;
           let g = op_chk_and_set_sign v g;
           ret cpu (add_pc 2 g)
         }))"

section \<open>Format VI\<close>

definition op_exec_andi :: "TargetCoreType \<Rightarrow> exec_result" where
  "op_exec_andi cpu =
     (let reg1 = f6_reg1 cpu; reg2 = f6_reg2 cpu;
          imm_data = op_zero_extend 16 (f6_imm cpu)
      in greg_check reg1 cpu (greg_check reg2 cpu (do {
           r1 \<leftarrow> rd_r (reg cpu) reg1;
           let (result, g) = op_andi imm_data r1 (reg cpu);
           g \<leftarrow> wr_r g reg2 result;
           ret cpu (add_pc 4 g)
         })))"

definition op_exec_ori :: "TargetCoreType \<Rightarrow> exec_result" where
  "op_exec_ori cpu =
     (let reg1 = f6_reg1 cpu; reg2 = f6_reg2 cpu;
          imm_data = op_zero_extend 16 (f6_imm cpu)
      in greg_check reg1 cpu (greg_check reg2 cpu (do {
           r1 \<leftarrow> rd_r (reg cpu) reg1;
           let (result, g) = op_ori (ucast imm_data) r1 (reg cpu);
           g \<leftarrow> wr_r g reg2 result;
           ret cpu (add_pc 4 g)
         })))"

definition op_exec_xori :: "TargetCoreType \<Rightarrow> exec_result" where
  "op_exec_xori cpu =
     (let reg1 = f6_reg1 cpu; reg2 = f6_reg2 cpu;
          imm_data = op_zero_extend 16 (f6_imm cpu)
      in greg_check reg1 cpu (greg_check reg2 cpu (do {
           r1 \<leftarrow> rd_r (reg cpu) reg1;
           let (result, g) = op_xori (ucast imm_data) r1 (reg cpu);
           g \<leftarrow> wr_r g reg2 result;
           ret cpu (add_pc 4 g)
         })))"

section \<open>Formats IX and XI: shifts by a register\<close>

definition op_exec_shl_9 :: "TargetCoreType \<Rightarrow> exec_result" where
  "op_exec_shl_9 cpu =
     (let reg1 = f9_gen1 cpu; reg2 = f9_reg2 cpu
      in greg_check reg1 cpu (greg_check reg2 cpu (do {
           reg2_data \<leftarrow> rd_r (reg cpu) reg2;
           r1 \<leftarrow> rd_r (reg cpu) reg1;
           let reg1_data = r1 AND 0x0000001F;
           let result = push_bit (unat reg1_data) reg2_data;
           g \<leftarrow> wr_r (reg cpu) reg2 result;
           let g = psw_clr CPU_PSW_OV g;
           let g = op_chk_and_set_shl_carry reg2_data reg1_data g;
           v \<leftarrow> rd_r g reg2;
           let g = op_chk_and_set_zero v g;
           let g = op_chk_and_set_sign v g;
           ret cpu (add_pc 4 g)
         })))"

definition op_exec_shr_9 :: "TargetCoreType \<Rightarrow> exec_result" where
  "op_exec_shr_9 cpu =
     (let reg1 = f9_gen1 cpu; reg2 = f9_reg2 cpu
      in greg_check reg1 cpu (greg_check reg2 cpu (do {
           reg2_data \<leftarrow> rd_r (reg cpu) reg2;
           r1 \<leftarrow> rd_r (reg cpu) reg1;
           let reg1_data = r1 AND 0x0000001F;
           let result = drop_bit (unat reg1_data) reg2_data;
           g \<leftarrow> wr_r (reg cpu) reg2 result;
           let g = psw_clr CPU_PSW_OV g;
           let g = op_chk_and_set_shr_carry reg2_data reg1_data g;
           v \<leftarrow> rd_r g reg2;
           let g = op_chk_and_set_zero v g;
           let g = op_chk_and_set_sign v g;
           ret cpu (add_pc 4 g)
         })))"

definition op_exec_sar_9 :: "TargetCoreType \<Rightarrow> exec_result" where
  "op_exec_sar_9 cpu =
     (let reg1 = f9_gen1 cpu; reg2 = f9_reg2 cpu
      in greg_check reg1 cpu (greg_check reg2 cpu (do {
           reg2_data \<leftarrow> rd_r (reg cpu) reg2;
           r1 \<leftarrow> rd_r (reg cpu) reg1;
           let reg1_data = r1 AND 0x0000001F;
           let result = signed_drop_bit (unat reg1_data) reg2_data;
           g \<leftarrow> wr_r (reg cpu) reg2 result;
           let g = psw_clr CPU_PSW_OV g;
           let g = op_chk_and_set_shr_carry reg2_data reg1_data g;
           v \<leftarrow> rd_r g reg2;
           let g = op_chk_and_set_zero v g;
           let g = op_chk_and_set_sign v g;
           ret cpu (add_pc 4 g)
         })))"

definition op_exec_shl_11 :: "TargetCoreType \<Rightarrow> exec_result" where
  "op_exec_shl_11 cpu =
     (let reg1 = f11_reg1 cpu; reg2 = f11_reg2 cpu; reg3 = f11_reg3 cpu
      in greg_check reg1 cpu (greg_check reg2 cpu (greg_check reg3 cpu (do {
           reg2_data \<leftarrow> rd_r (reg cpu) reg2;
           r1 \<leftarrow> rd_r (reg cpu) reg1;
           let reg1_data = r1 AND 0x0000001F;
           let result = push_bit (unat reg1_data) reg2_data;
           g \<leftarrow> wr_r (reg cpu) reg3 result;
           let g = psw_clr CPU_PSW_OV g;
           let g = op_chk_and_set_shl_carry reg2_data reg1_data g;
           v \<leftarrow> rd_r g reg2;
           let g = op_chk_and_set_zero v g;
           let g = op_chk_and_set_sign v g;
           ret cpu (add_pc 4 g)
         }))))"

definition op_exec_shr_11 :: "TargetCoreType \<Rightarrow> exec_result" where
  "op_exec_shr_11 cpu =
     (let reg1 = f11_reg1 cpu; reg2 = f11_reg2 cpu; reg3 = f11_reg3 cpu
      in greg_check reg1 cpu (greg_check reg2 cpu (greg_check reg3 cpu (do {
           reg2_data \<leftarrow> rd_r (reg cpu) reg2;
           r1 \<leftarrow> rd_r (reg cpu) reg1;
           let reg1_data = r1 AND 0x0000001F;
           let result = drop_bit (unat reg1_data) reg2_data;
           g \<leftarrow> wr_r (reg cpu) reg3 result;
           let g = psw_clr CPU_PSW_OV g;
           let g = op_chk_and_set_shr_carry reg2_data reg1_data g;
           v \<leftarrow> rd_r g reg2;
           let g = op_chk_and_set_zero v g;
           let g = op_chk_and_set_sign v g;
           ret cpu (add_pc 4 g)
         }))))"

definition op_exec_sar_11 :: "TargetCoreType \<Rightarrow> exec_result" where
  "op_exec_sar_11 cpu =
     (let reg1 = f11_reg1 cpu; reg2 = f11_reg2 cpu; reg3 = f11_reg3 cpu
      in greg_check reg1 cpu (greg_check reg2 cpu (greg_check reg3 cpu (do {
           reg2_data \<leftarrow> rd_r (reg cpu) reg2;
           r1 \<leftarrow> rd_r (reg cpu) reg1;
           let reg1_data = r1 AND 0x0000001F;
           let result = signed_drop_bit (unat reg1_data) reg2_data;
           g \<leftarrow> wr_r (reg cpu) reg3 result;
           let g = psw_clr CPU_PSW_OV g;
           let g = op_chk_and_set_shr_carry reg2_data reg1_data g;
           v \<leftarrow> rd_r g reg2;
           let g = op_chk_and_set_zero v g;
           let g = op_chk_and_set_sign v g;
           ret cpu (add_pc 4 g)
         }))))"

section \<open>Format XII: swaps\<close>

text \<open>These handlers index the registers without a range check.\<close>

definition op_exec_hsh_12 :: "TargetCoreType \<Rightarrow> exec_result" where
  "op_exec_hsh_12 cpu =
     (let reg2 = f12_reg2 cpu; reg3 = f12_reg3 cpu
      in do {
        r2 \<leftarrow> rd_r (reg cpu) reg2;
        let g = (if r2 AND 0x0000FFFF = 0 then psw_set CPU_PSW_Z (psw_set CPU_PSW_CY (reg cpu))
                 else psw_clr CPU_PSW_Z (psw_clr CPU_PSW_CY (reg cpu)));
        let g = psw_clr CPU_PSW_OV g;
        let g = (if r2 AND 0x80000000 = 0x80000000 then psw_set CPU_PSW_S g else psw_clr CPU_PSW_S g);
        g \<leftarrow> wr_r g reg3 r2;
        ret cpu (add_pc 2 g)
      })"

definition op_exec_hsw_12 :: "TargetCoreType \<Rightarrow> exec_result" where
  "op_exec_hsw_12 cpu =
     (let reg2 = f12_reg2 cpu; reg3 = f12_reg3 cpu
      in do {
        r2 \<leftarrow> rd_r (reg cpu) reg2;
        let result_half_up = drop_bit 16 (r2 AND 0xFFFF0000);
        let result_half_dw = push_bit 16 (r2 AND 0x0000FFFF);
        let result = result_half_dw OR result_half_up;
        let g = (if result_half_dw = 0 \<or> result_half_up = 0 then psw_set CPU_PSW_CY (reg cpu)
                 else psw_clr CPU_PSW_CY (reg cpu));
        let g = psw_clr CPU_PSW_OV g;
        let g = (if result = 0 then psw_set CPU_PSW_Z g else psw_clr CPU_PSW_Z g);
        let g = (if result AND 0x80000000 = 0x80000000 then psw_set CPU_PSW_S g else psw_clr CPU_PSW_S g);
        g \<leftarrow> wr_r g reg3 result;
        ret cpu (add_pc 2 g)
      })"

definition op_exec_bsh_12 :: "TargetCoreType \<Rightarrow> exec_result" where
  "op_exec_bsh_12 cpu =
     (let reg2 = f12_reg2 cpu; reg3 = f12_reg3 cpu
      in do {
        r2 \<leftarrow> rd_r (reg cpu) reg2;
        let data_0 = r2 AND 0x000000FF;
        let data_1 = drop_bit 8 (r2 AND 0x0000FF00);
        let data_2 = drop_bit 16 (r2 AND 0x00FF0000);
        let data_3 = drop_bit 24 (r2 AND 0xFF000000);
        let result = push_bit 24 data_2 OR push_bit 16 data_3 OR push_bit 8 data_0 OR data_1;
        let g = (if result AND 0x000000FF = 0 \<or> result AND 0x0000FF00 = 0 then psw_set CPU_PSW_CY (reg cpu)
                 else psw_clr CPU_PSW_CY (reg cpu));
        let g = psw_clr CPU_PSW_OV g;
        let g = (if result AND 0x80000000 = 0x80000000 then psw_set CPU_PSW_S g else psw_clr CPU_PSW_S g);
        let g = (if result AND 0x0000FFFF = 0 then psw_set CPU_PSW_Z g else psw_clr CPU_PSW_Z g);
        g \<leftarrow> wr_r g reg3 result;
        ret cpu (add_pc 2 g)
      })"

definition op_exec_bsw_12 :: "TargetCoreType \<Rightarrow> exec_result" where
  "op_exec_bsw_12 cpu =
     (let reg2 = f12_reg2 cpu; reg3 = f12_reg3 cpu
      in do {
        r2 \<leftarrow> rd_r (reg cpu) reg2;
        let data_0 = r2 AND 0x000000FF;
        let data_1 = drop_bit 8 (r2 AND 0x0000FF00);
        let data_2 = drop_bit 16 (r2 AND 0x00FF0000);
        let data_3 = drop_bit 24 (r2 AND 0xFF000000);
        let result = push_bit 24 data_0 OR push_bit 16 data_1 OR push_bit 8 data_2 OR data_3;
        let g = (if result AND 0x000000FF = 0 \<or> result AND 0x0000FF00 = 0
                    \<or> result AND 0x00FF0000 = 0 \<or> result AND 0xFF000000 = 0
                 then psw_set CPU_PSW_CY (reg cpu) else psw_clr CPU_PSW_CY (reg cpu));
        let g = psw_clr CPU_PSW_OV g;
        let g = (if result AND 0x80000000 = 0x80000000 then psw_set CPU_PSW_S g else psw_clr CPU_PSW_S g);
        let g = (if result AND 0x0000FFFF = 0 then psw_set CPU_PSW_Z g else psw_clr CPU_PSW_Z g);
        g \<leftarrow> wr_r g reg3 result;
        ret cpu (add_pc 2 g)
      })"

lemmas logic_defs = op_exec_or_def op_exec_zxb_def op_exec_zxh_def op_exec_tst_def op_exec_and_def
  op_exec_not_def op_exec_xor_def op_exec_sxh_def op_exec_sxb_def op_exec_shl_2_def
  op_exec_shr_2_def op_exec_sar_2_def op_exec_andi_def op_exec_ori_def op_exec_xori_def
  op_exec_shl_9_def op_exec_shr_9_def op_exec_sar_9_def op_exec_shl_11_def
  op_exec_shr_11_def op_exec_sar_11_def op_exec_hsh_12_def op_exec_hsw_12_def
  op_exec_bsh_12_def op_exec_bsw_12_def

end
