(* ===== verification/V850_Exec_Bit.thy ===== *)
theory V850_Exec_Bit
  imports V850_Exec_Logic
begin

unbundle bit_operations_syntax

text \<open>
  The bit manipulation executors of \<open>src/cpu/cpu_exec/op_exec_bit.c\<close>. TST1, SET1, CLR1 and NOT1
  read a byte from the bus, test one bit into \<open>Z\<close> and, except TST1, write the byte back; the
  bit number comes from a three-bit field or is masked to three bits. SCH0L, SCH1L, SCH0R and
  SCH1R search a register for the first bit of a given value.
\<close>

abbreviation f8_reg1 :: "TargetCoreType \<Rightarrow> u32" where
  "f8_reg1 cpu \<equiv> ucast (t8_reg1 (type8 (decoded_code cpu)))"
abbreviation f8_disp16 :: "TargetCoreType \<Rightarrow> u32" where
  "f8_disp16 cpu \<equiv> scast (t8_disp (type8 (decoded_code cpu)))"
abbreviation f8_bit3 :: "TargetCoreType \<Rightarrow> u32" where
  "f8_bit3 cpu \<equiv> ucast (t8_bit (type8 (decoded_code cpu)))"

text \<open>\<open>(bit & (1 << bit3)) == (1 << bit3)\<close>, and the assignments \<open>bit |= (1 << bit3)\<close> and
  \<open>bit &= ~(1 << bit3)\<close> to a byte.\<close>

definition bit3_isset :: "u8 \<Rightarrow> u32 \<Rightarrow> bool" where
  "bit3_isset b n \<longleftrightarrow> ucast b AND push_bit (unat n) 1 = (push_bit (unat n) 1 :: u32)"

definition bit3_set :: "u8 \<Rightarrow> u32 \<Rightarrow> u8" where
  "bit3_set b n = ucast (ucast b OR push_bit (unat n) 1 :: u32)"

definition bit3_clr :: "u8 \<Rightarrow> u32 \<Rightarrow> u8" where
  "bit3_clr b n = ucast (ucast b AND NOT (push_bit (unat n) 1) :: u32)"

definition set_z_unless :: "bool \<Rightarrow> CpuRegisterType \<Rightarrow> CpuRegisterType" where
  "set_z_unless b g = (if b then psw_clr CPU_PSW_Z g else psw_set CPU_PSW_Z g)"

section \<open>Format VIII\<close>

definition op_exec_tst1_8 :: "'w bus \<Rightarrow> 'w machine \<Rightarrow> 'w bus_result" where
  "op_exec_tst1_8 bus m =
     (let reg1 = f8_reg1 (m_core m); disp16 = f8_disp16 (m_core m); bit3 = f8_bit3 (m_core m)
      in m_greg_check reg1 m (do {
           r1 \<leftarrow> rd_r (m_reg m) reg1;
           let addr = r1 + disp16;
           let (err, data, m) = bus_get_data8 bus (core_id (m_core m)) addr m;
           if err \<noteq> STD_E_OK then Some (-1, m)
           else do {
             m_ret m (add_pc 4 (set_z_unless (bit3_isset data bit3) (m_reg m)))
           }
         }))"

definition op_exec_set1_8 :: "'w bus \<Rightarrow> 'w machine \<Rightarrow> 'w bus_result" where
  "op_exec_set1_8 bus m =
     (let reg1 = f8_reg1 (m_core m); disp16 = f8_disp16 (m_core m); bit3 = f8_bit3 (m_core m)
      in m_greg_check reg1 m (do {
           r1 \<leftarrow> rd_r (m_reg m) reg1;
           let addr = r1 + disp16;
           let (err, data, m) = bus_get_data8 bus (core_id (m_core m)) addr m;
           if err \<noteq> STD_E_OK then Some (-1, m)
           else do {
             let (err, m) = bus_put_data8 bus (core_id (m_core m)) addr (bit3_set data bit3) m;
             if err \<noteq> STD_E_OK then Some (-1, m)
             else m_ret m (add_pc 4 (set_z_unless (bit3_isset data bit3) (m_reg m)))
           }
         }))"

definition op_exec_clr1_8 :: "'w bus \<Rightarrow> 'w machine \<Rightarrow> 'w bus_result" where
  "op_exec_clr1_8 bus m =
     (let reg1 = f8_reg1 (m_core m); disp16 = f8_disp16 (m_core m); bit3 = f8_bit3 (m_core m)
      in m_greg_check reg1 m (do {
           r1 \<leftarrow> rd_r (m_reg m) reg1;
           let addr = r1 + disp16;
           let (err, data, m) = bus_get_data8 bus (core_id (m_core m)) addr m;
           if err \<noteq> STD_E_OK then Some (-1, m)
           else do {
             let (err, m) = bus_put_data8 bus (core_id (m_core m)) addr (bit3_clr data bit3) m;
             if err \<noteq> STD_E_OK then Some (-1, m)
             else m_ret m (add_pc 4 (set_z_unless (bit3_isset data bit3) (m_reg m)))
           }
         }))"

definition op_exec_not1_8 :: "'w bus \<Rightarrow> 'w machine \<Rightarrow> 'w bus_result" where
  "op_exec_not1_8 bus m =
     (let reg1 = f8_reg1 (m_core m); disp16 = f8_disp16 (m_core m); bit3 = f8_bit3 (m_core m)
      in m_greg_check reg1 m (do {
           r1 \<leftarrow> rd_r (m_reg m) reg1;
           let addr = r1 + disp16;
           let (err, data, m) = bus_get_data8 bus (core_id (m_core m)) addr m;
           if err \<noteq> STD_E_OK then Some (-1, m)
           else do {
             let m = m_set_reg (set_z_unless (bit3_isset data bit3) (m_reg m)) m;
             let data' = (if bit3_isset data bit3 then bit3_clr data bit3 else bit3_set data bit3);
             let (err, m) = bus_put_data8 bus (core_id (m_core m)) addr data' m;
             if err \<noteq> STD_E_OK then Some (-1, m) else m_ret m (add_pc 4 (m_reg m))
           }
         }))"

section \<open>Format IX\<close>

definition op_exec_set1_9 :: "'w bus \<Rightarrow> 'w machine \<Rightarrow> 'w bus_result" where
  "op_exec_set1_9 bus m =
     (let reg1 = f9_gen1 (m_core m); reg2 = f9_reg2 (m_core m)
      in m_greg_check reg1 m (m_greg_check reg2 m (do {
           addr \<leftarrow> rd_r (m_reg m) reg1;
           let (err, data, m) = bus_get_data8 bus (core_id (m_core m)) addr m;
           if err \<noteq> STD_E_OK then Some (-1, m)
           else do {
             r2 \<leftarrow> rd_r (m_reg m) reg2;
             let bit3 = r2 AND 0x07;
             let (err, m) = bus_put_data8 bus (core_id (m_core m)) addr (bit3_set data bit3) m;
             if err \<noteq> STD_E_OK then Some (-1, m)
             else m_ret m (add_pc 4 (set_z_unless (bit3_isset data bit3) (m_reg m)))
           }
         })))"

definition op_exec_clr1_9 :: "'w bus \<Rightarrow> 'w machine \<Rightarrow> 'w bus_result" where
  "op_exec_clr1_9 bus m =
     (let reg1 = f9_gen1 (m_core m); reg2 = f9_reg2 (m_core m)
      in m_greg_check reg1 m (m_greg_check reg2 m (do {
           addr \<leftarrow> rd_r (m_reg m) reg1;
           let (err, data, m) = bus_get_data8 bus (core_id (m_core m)) addr m;
           if err \<noteq> STD_E_OK then Some (-1, m)
           else do {
             r2 \<leftarrow> rd_r (m_reg m) reg2;
             let bit3 = r2 AND 0x07;
             let (err, m) = bus_put_data8 bus (core_id (m_core m)) addr (bit3_clr data bit3) m;
             if err \<noteq> STD_E_OK then Some (-1, m)
             else m_ret m (add_pc 4 (set_z_unless (bit3_isset data bit3) (m_reg m)))
           }
         })))"

definition op_exec_tst1_9 :: "'w bus \<Rightarrow> 'w machine \<Rightarrow> 'w bus_result" where
  "op_exec_tst1_9 bus m =
     (let reg1 = f9_gen1 (m_core m); reg2 = f9_reg2 (m_core m)
      in m_greg_check reg1 m (m_greg_check reg2 m (do {
           addr \<leftarrow> rd_r (m_reg m) reg1;
           let (err, data, m) = bus_get_data8 bus (core_id (m_core m)) addr m;
           if err \<noteq> STD_E_OK then Some (-1, m)
           else do {
             r2 \<leftarrow> rd_r (m_reg m) reg2;
             let bit3 = r2 AND 0x07;
             m_ret m (add_pc 4 (set_z_unless (bit3_isset data bit3) (m_reg m)))
           }
         })))"

definition op_exec_not1_9 :: "'w bus \<Rightarrow> 'w machine \<Rightarrow> 'w bus_result" where
  "op_exec_not1_9 bus m =
     (let reg1 = f9_gen1 (m_core m); reg2 = f9_reg2 (m_core m)
      in m_greg_check reg1 m (m_greg_check reg2 m (do {
           addr \<leftarrow> rd_r (m_reg m) reg1;
           let (err, data, m) = bus_get_data8 bus (core_id (m_core m)) addr m;
           if err \<noteq> STD_E_OK then Some (-1, m)
           else do {
             r2 \<leftarrow> rd_r (m_reg m) reg2;
             let bit3 = r2 AND 0x07;
             let m = m_set_reg (set_z_unless (bit3_isset data bit3) (m_reg m)) m;
             let data' = (if bit3_isset data bit3 then bit3_clr data bit3 else bit3_set data bit3);
             let (err, m) = bus_put_data8 bus (core_id (m_core m)) addr data' m;
             if err \<noteq> STD_E_OK then Some (-1, m) else m_ret m (add_pc 4 (m_reg m))
           }
         })))"

section \<open>Bit search\<close>

definition schlr_search_bitval :: "u32 \<Rightarrow> nat \<Rightarrow> u32" where
  "schlr_search_bitval v i = (if v = 0 then 0 else push_bit i 1)"

text \<open>The search loop: \<open>isFound\<close> and \<open>count\<close> after trying the bit positions in turn.\<close>

fun schlr_loop :: "(nat \<Rightarrow> bool) \<Rightarrow> nat list \<Rightarrow> u32 \<Rightarrow> bool \<times> u32" where
  "schlr_loop hit [] count = (False, count)"
| "schlr_loop hit (i # is) count = (if hit i then (True, count) else schlr_loop hit is (count + 1))"

definition op_exec_schlr_9 :: "u32 \<Rightarrow> bool \<Rightarrow> TargetCoreType \<Rightarrow> exec_result" where
  "op_exec_schlr_9 search_bitval search_left cpu =
     (let reg2 = f9_reg2 cpu; reg3 = ucast (t9_rfu2 (type9 (decoded_code cpu)))
      in do {
        reg2_data \<leftarrow> rd_r (reg cpu) reg2;
        let hit = (\<lambda>i. reg2_data AND push_bit i 1 = schlr_search_bitval search_bitval i);
        let (isFound, count) =
          (if search_left then schlr_loop (\<lambda>i. hit (31 - i)) [0..<32] 0 else schlr_loop hit [0..<32] 0);
        let g = (if count = 31 then psw_set CPU_PSW_CY (reg cpu) else psw_set CPU_PSW_CY (reg cpu));
        let g = psw_clr CPU_PSW_OV g;
        let g = psw_clr CPU_PSW_S g;
        let (result, g) =
          (if \<not> isFound then (0, psw_set CPU_PSW_Z g) else (count + 1, psw_clr CPU_PSW_Z g));
        g \<leftarrow> wr_r g reg3 result;
        ret cpu (add_pc 4 g)
      })"

definition op_exec_sch0l_9 :: "TargetCoreType \<Rightarrow> exec_result" where
  "op_exec_sch0l_9 cpu = op_exec_schlr_9 0 True cpu"

definition op_exec_sch1l_9 :: "TargetCoreType \<Rightarrow> exec_result" where
  "op_exec_sch1l_9 cpu = op_exec_schlr_9 1 True cpu"

definition op_exec_sch0r_9 :: "TargetCoreType \<Rightarrow> exec_result" where
  "op_exec_sch0r_9 cpu = op_exec_schlr_9 0 False cpu"

definition op_exec_sch1r_9 :: "TargetCoreType \<Rightarrow> exec_result" where
  "op_exec_sch1r_9 cpu = op_exec_schlr_9 1 False cpu"

end
