(* ===== verification/V850_Exec_Branch.thy ===== *)
theory V850_Exec_Branch
  imports V850_Exec_Arith
begin

unbundle bit_operations_syntax

text \<open>
  The branch executors of \<open>src/cpu/cpu_exec/op_exec_branch.c\<close>; the condition itself
  (\<open>op_exec_cond\<close>) is in the theory of the arithmetic helpers.
\<close>

abbreviation f3_cond :: "TargetCoreType \<Rightarrow> u16" where
  "f3_cond cpu \<equiv> t3_cond (type3 (decoded_code cpu))"
abbreviation f3_disp :: "TargetCoreType \<Rightarrow> u32" where
  "f3_disp cpu \<equiv> t3_disp (type3 (decoded_code cpu))"
abbreviation f5_reg2 :: "TargetCoreType \<Rightarrow> u32" where
  "f5_reg2 cpu \<equiv> ucast (t5_reg2 (type5 (decoded_code cpu)))"
abbreviation f5_disp :: "TargetCoreType \<Rightarrow> u32" where
  "f5_disp cpu \<equiv> t5_disp (type5 (decoded_code cpu))"

definition op_exec_bcond :: "u16 \<Rightarrow> u32 \<Rightarrow> u32 \<Rightarrow> CpuRegisterType \<Rightarrow> CpuRegisterType" where
  "op_exec_bcond cond disp code_size g = (if op_exec_cond g cond then add_pc disp g else add_pc code_size g)"

definition op_exec_jmp :: "TargetCoreType \<Rightarrow> exec_result" where
  "op_exec_jmp cpu =
     (let reg1 = f1_reg1 cpu
      in greg_check reg1 cpu (do {
           r1 \<leftarrow> rd_r (reg cpu) reg1;
           ret cpu ((reg cpu)\<lparr>reg_pc := r1\<rparr>)
         }))"

definition op_exec_bcond_3 :: "TargetCoreType \<Rightarrow> exec_result" where
  "op_exec_bcond_3 cpu =
     (let disp_u = push_bit 1 (f3_disp cpu); disp = op_sign_extend 8 disp_u
      in ret cpu (op_exec_bcond (f3_cond cpu) disp 2 (reg cpu)))"

definition op_exec_jr :: "TargetCoreType \<Rightarrow> exec_result" where
  "op_exec_jr cpu =
     (let reg2 = f5_reg2 cpu; pc = reg_pc (reg cpu)
      in do {
        g \<leftarrow> (if 0 < reg2 then wr_r (reg cpu) reg2 (reg_pc (reg cpu) + 4) else Some (reg cpu));
        let disp = op_sign_extend 21 (f5_disp cpu);
        ret cpu (g\<lparr>reg_pc := pc + disp\<rparr>)
      })"

text \<open>The 32-bit displacement: its low half from the instruction, its high half from the bus.\<close>

definition op_exec_parse_jmp_addr_fmt6 :: "'w bus \<Rightarrow> 'w machine \<Rightarrow> u32 option \<times> 'w machine" where
  "op_exec_parse_jmp_addr_fmt6 bus m =
     (let disp = f6_imm (m_core m);
          imm_high_addr = reg_pc (m_reg m) + 4;
          (err, imm_high16, m) = bus_get_data16 bus (core_id (m_core m)) imm_high_addr m
      in if err \<noteq> STD_E_OK then (None, m)
         else (Some (push_bit 16 (ucast imm_high16) OR disp), m))"

definition op_exec_jmp_6 :: "'w bus \<Rightarrow> 'w machine \<Rightarrow> 'w bus_result" where
  "op_exec_jmp_6 bus m =
     (let reg1 = f6_reg1 (m_core m)
      in m_greg_check reg1 m
           (case op_exec_parse_jmp_addr_fmt6 bus m of
              (None, m) \<Rightarrow> Some (-1, m)
            | (Some disp, m) \<Rightarrow> do {
                r1 \<leftarrow> rd_r (m_reg m) reg1;
                m_ret m ((m_reg m)\<lparr>reg_pc := r1 + disp\<rparr>)
              }))"

definition op_exec_jarl_6 :: "'w bus \<Rightarrow> 'w machine \<Rightarrow> 'w bus_result" where
  "op_exec_jarl_6 bus m =
     (let reg1 = f6_reg1 (m_core m); pc = reg_pc (m_reg m)
      in case op_exec_parse_jmp_addr_fmt6 bus m of
           (None, m) \<Rightarrow> Some (-1, m)
         | (Some disp, m) \<Rightarrow> do {
             g \<leftarrow> wr_r (m_reg m) reg1 (reg_pc (m_reg m) + 6);
             m_ret m (g\<lparr>reg_pc := pc + disp\<rparr>)
           })"

definition op_exec_jr_6 :: "'w bus \<Rightarrow> 'w machine \<Rightarrow> 'w bus_result" where
  "op_exec_jr_6 bus m =
     (let pc = reg_pc (m_reg m)
      in case op_exec_parse_jmp_addr_fmt6 bus m of
           (None, m) \<Rightarrow> Some (-1, m)
         | (Some disp, m) \<Rightarrow> m_ret m ((m_reg m)\<lparr>reg_pc := pc + disp\<rparr>))"

end
