(* ===== verification/V850_Exec_Load.thy ===== *)
theory V850_Exec_Load
  imports V850_Exec_Arith
begin

unbundle bit_operations_syntax

text \<open>
  The load executors of \<open>src/cpu/cpu_exec/op_exec_load.c\<close>. A load adds a displacement to its base
  register, reads the bus, and stores the datum, extended to 32 bits, in its target register;
  when the bus refuses, nothing else happens and the executor fails.
\<close>

abbreviation f41_reg2 :: "TargetCoreType \<Rightarrow> u32" where
  "f41_reg2 cpu \<equiv> ucast (t4_1_reg2 (type4_1 (decoded_code cpu)))"
abbreviation f42_reg2 :: "TargetCoreType \<Rightarrow> u32" where
  "f42_reg2 cpu \<equiv> ucast (t4_2_reg2 (type4_2 (decoded_code cpu)))"
abbreviation f41_disp :: "TargetCoreType \<Rightarrow> u32" where
  "f41_disp cpu \<equiv> t4_1_disp (type4_1 (decoded_code cpu))"
abbreviation f41_gen :: "TargetCoreType \<Rightarrow> u32" where
  "f41_gen cpu \<equiv> t4_1_gen (type4_1 (decoded_code cpu))"
abbreviation f42_disp :: "TargetCoreType \<Rightarrow> u32" where
  "f42_disp cpu \<equiv> t4_2_disp (type4_2 (decoded_code cpu))"
abbreviation f7_reg1 :: "TargetCoreType \<Rightarrow> u32" where
  "f7_reg1 cpu \<equiv> ucast (t7_reg1 (type7 (decoded_code cpu)))"
abbreviation f7_reg2 :: "TargetCoreType \<Rightarrow> u32" where
  "f7_reg2 cpu \<equiv> ucast (t7_reg2 (type7 (decoded_code cpu)))"
abbreviation f7_disp :: "TargetCoreType \<Rightarrow> u32" where
  "f7_disp cpu \<equiv> t7_disp (type7 (decoded_code cpu))"
abbreviation f7_gen :: "TargetCoreType \<Rightarrow> u32" where
  "f7_gen cpu \<equiv> t7_gen (type7 (decoded_code cpu))"
abbreviation f7_opcode :: "TargetCoreType \<Rightarrow> u16" where
  "f7_opcode cpu \<equiv> t7_opcode (type7 (decoded_code cpu))"
abbreviation f14_reg1 :: "TargetCoreType \<Rightarrow> u32" where
  "f14_reg1 cpu \<equiv> ucast (t14_reg1 (type14 (decoded_code cpu)))"
abbreviation f14_reg3 :: "TargetCoreType \<Rightarrow> u32" where
  "f14_reg3 cpu \<equiv> ucast (t14_reg3 (type14 (decoded_code cpu)))"
abbreviation f14_disp :: "TargetCoreType \<Rightarrow> u32" where
  "f14_disp cpu \<equiv> push_bit 7 (t14_disp_high (type14 (decoded_code cpu))) OR t14_disp_low (type14 (decoded_code cpu))"

section \<open>Format IV: short loads relative to the element pointer\<close>

definition op_exec_sldb :: "'w bus \<Rightarrow> 'w machine \<Rightarrow> 'w bus_result" where
  "op_exec_sldb bus m =
     (let reg1 = CPU_REG_EP; reg2 = f41_reg2 (m_core m)
      in m_greg_check reg1 m (m_greg_check reg2 m (do {
           r1 \<leftarrow> rd_r (m_reg m) reg1;
           let disp = op_zero_extend 7 (push_bit 1 (f41_disp (m_core m)) OR f41_gen (m_core m));
           let addr = r1 + disp;
           let (err, data8, m) = bus_get_data8 bus (core_id (m_core m)) addr m;
           if err \<noteq> STD_E_OK then Some (-1, m)
           else do {
             g \<leftarrow> wr_r (m_reg m) reg2 (scast data8);
             m_ret m (add_pc 2 g)
           }
         })))"

definition op_exec_sldbu :: "'w bus \<Rightarrow> 'w machine \<Rightarrow> 'w bus_result" where
  "op_exec_sldbu bus m =
     (let reg1 = CPU_REG_EP; reg2 = f42_reg2 (m_core m)
      in m_greg_check reg1 m (m_greg_check reg2 m (do {
           r1 \<leftarrow> rd_r (m_reg m) reg1;
           let disp = op_zero_extend 4 (f42_disp (m_core m));
           let addr = r1 + disp;
           let (err, data8, m) = bus_get_data8 bus (core_id (m_core m)) addr m;
           if err \<noteq> STD_E_OK then Some (-1, m)
           else do {
             g \<leftarrow> wr_r (m_reg m) reg2 (ucast data8);
             m_ret m (add_pc 2 g)
           }
         })))"

definition op_exec_sldhu :: "'w bus \<Rightarrow> 'w machine \<Rightarrow> 'w bus_result" where
  "op_exec_sldhu bus m =
     (let reg1 = CPU_REG_EP; reg2 = f42_reg2 (m_core m)
      in m_greg_check reg1 m (m_greg_check reg2 m (do {
           r1 \<leftarrow> rd_r (m_reg m) reg1;
           let disp = op_zero_extend 5 (push_bit 1 (f42_disp (m_core m)));
           let addr = r1 + disp;
           let (err, data16, m) = bus_get_data16 bus (core_id (m_core m)) addr m;
           if err \<noteq> STD_E_OK then Some (-1, m)
           else do {
             g \<leftarrow> wr_r (m_reg m) reg2 (ucast data16);
             m_ret m (add_pc 2 g)
           }
         })))"

definition op_exec_sldh :: "'w bus \<Rightarrow> 'w machine \<Rightarrow> 'w bus_result" where
  "op_exec_sldh bus m =
     (let reg1 = CPU_REG_EP; reg2 = f41_reg2 (m_core m)
      in m_greg_check reg1 m (m_greg_check reg2 m (do {
           r1 \<leftarrow> rd_r (m_reg m) reg1;
           let disp = push_bit 1 (op_zero_extend 7 (push_bit 1 (f41_disp (m_core m)) OR f41_gen (m_core m)));
           let addr = r1 + disp;
           let (err, data16, m) = bus_get_data16 bus (core_id (m_core m)) addr m;
           if err \<noteq> STD_E_OK then Some (-1, m)
           else do {
             g \<leftarrow> wr_r (m_reg m) reg2 (scast data16);
             m_ret m (add_pc 2 g)
           }
         })))"

definition op_exec_sldw :: "'w bus \<Rightarrow> 'w machine \<Rightarrow> 'w bus_result" where
  "op_exec_sldw bus m =
     (let reg1 = CPU_REG_EP; reg2 = f41_reg2 (m_core m)
      in m_greg_check reg1 m (m_greg_check reg2 m (do {
           r1 \<leftarrow> rd_r (m_reg m) reg1;
           let disp = push_bit 2 (op_zero_extend 6 (f41_disp (m_core m)));
           let addr = r1 + disp;
           let (err, data32, m) = bus_get_data32 bus (core_id (m_core m)) addr m;
           if err \<noteq> STD_E_OK then Some (-1, m)
           else do {
             g \<leftarrow> wr_r (m_reg m) reg2 data32;
             m_ret m (add_pc 2 g)
           }
         })))"

section \<open>Formats VII and XIV\<close>

definition op_exec_ldb :: "'w bus \<Rightarrow> 'w machine \<Rightarrow> 'w bus_result" where
  "op_exec_ldb bus m =
     (let reg1 = f7_reg1 (m_core m); reg2 = f7_reg2 (m_core m)
      in m_greg_check reg1 m (m_greg_check reg2 m (do {
           r1 \<leftarrow> rd_r (m_reg m) reg1;
           let disp = op_sign_extend 15 (push_bit 1 (f7_disp (m_core m)) OR f7_gen (m_core m));
           let addr = r1 + disp;
           let (err, data8, m) = bus_get_data8 bus (core_id (m_core m)) addr m;
           if err \<noteq> STD_E_OK then Some (-1, m)
           else do {
             g \<leftarrow> wr_r (m_reg m) reg2 (scast data8);
             m_ret m (add_pc 4 g)
           }
         })))"

definition op_exec_ld_b_14 :: "'w bus \<Rightarrow> 'w machine \<Rightarrow> 'w bus_result" where
  "op_exec_ld_b_14 bus m =
     (let reg1 = f14_reg1 (m_core m); reg3 = f14_reg3 (m_core m)
      in m_greg_check reg1 m (m_greg_check reg3 m (do {
           r1 \<leftarrow> rd_r (m_reg m) reg1;
           let disp = op_sign_extend 22 (f14_disp (m_core m));
           let addr = r1 + disp;
           let (err, data8, m) = bus_get_data8 bus (core_id (m_core m)) addr m;
           if err \<noteq> STD_E_OK then Some (-1, m)
           else do {
             g \<leftarrow> wr_r (m_reg m) reg3 (scast data8);
             m_ret m (add_pc 6 g)
           }
         })))"

definition op_exec_ldbu :: "'w bus \<Rightarrow> 'w machine \<Rightarrow> 'w bus_result" where
  "op_exec_ldbu bus m =
     (let reg1 = f7_reg1 (m_core m); reg2 = f7_reg2 (m_core m)
      in m_greg_check reg1 m (m_greg_check reg2 m (do {
           r1 \<leftarrow> rd_r (m_reg m) reg1;
           let disp = op_sign_extend 15 (push_bit 1 (f7_disp (m_core m)) OR ucast (f7_opcode (m_core m) AND 0x0001));
           let addr = r1 + disp;
           let (err, data8, m) = bus_get_data8 bus (core_id (m_core m)) addr m;
           if err \<noteq> STD_E_OK then Some (-1, m)
           else do {
             g \<leftarrow> wr_r (m_reg m) reg2 (ucast data8);
             m_ret m (add_pc 4 g)
           }
         })))"

definition op_exec_ld_bu_14 :: "'w bus \<Rightarrow> 'w machine \<Rightarrow> 'w bus_result" where
  "op_exec_ld_bu_14 bus m =
     (let reg1 = f14_reg1 (m_core m); reg3 = f14_reg3 (m_core m)
      in m_greg_check reg1 m (m_greg_check reg3 m (do {
           r1 \<leftarrow> rd_r (m_reg m) reg1;
           let disp = op_sign_extend 22 (f14_disp (m_core m));
           let addr = r1 + disp;
           let (err, data8, m) = bus_get_data8 bus (core_id (m_core m)) addr m;
           if err \<noteq> STD_E_OK then Some (-1, m)
           else do {
             g \<leftarrow> wr_r (m_reg m) reg3 (ucast data8);
             m_ret m (add_pc 6 g)
           }
         })))"

definition op_exec_ldhw :: "'w bus \<Rightarrow> 'w machine \<Rightarrow> 'w bus_result" where
  "op_exec_ldhw bus m =
     (let reg1 = f7_reg1 (m_core m); reg2 = f7_reg2 (m_core m)
      in m_greg_check reg1 m (m_greg_check reg2 m (do {
           r1 \<leftarrow> rd_r (m_reg m) reg1;
           let disp = op_sign_extend 15 (push_bit 1 (f7_disp (m_core m)));
           let addr = r1 + disp;
           if f7_gen (m_core m) = 0 then do {
             let (err, data16, m) = bus_get_data16 bus (core_id (m_core m)) addr m;
             if err \<noteq> STD_E_OK then Some (-1, m)
             else do {
               g \<leftarrow> wr_r (m_reg m) reg2 (scast data16);
               m_ret m (add_pc 4 g)
             }
           } else do {
             let (err, data32, m) = bus_get_data32 bus (core_id (m_core m)) addr m;
             if err \<noteq> STD_E_OK then Some (-1, m)
             else do {
               g \<leftarrow> wr_r (m_reg m) reg2 data32;
               m_ret m (add_pc 4 g)
             }
           }
         })))"

definition op_exec_ld_h_14 :: "'w bus \<Rightarrow> 'w machine \<Rightarrow> 'w bus_result" where
  "op_exec_ld_h_14 bus m =
     (let reg1 = f14_reg1 (m_core m); reg3 = f14_reg3 (m_core m)
      in m_greg_check reg1 m (m_greg_check reg3 m (do {
           r1 \<leftarrow> rd_r (m_reg m) reg1;
           let disp = op_sign_extend 22 (f14_disp (m_core m));
           let addr = r1 + disp;
           let (err, data16, m) = bus_get_data16 bus (core_id (m_core m)) addr m;
           if err \<noteq> STD_E_OK then Some (-1, m)
           else do {
             g \<leftarrow> wr_r (m_reg m) reg3 (scast data16);
             m_ret m (add_pc 6 g)
           }
         })))"

definition op_exec_ld_w_14 :: "'w bus \<Rightarrow> 'w machine \<Rightarrow> 'w bus_result" where
  "op_exec_ld_w_14 bus m =
     (let reg1 = f14_reg1 (m_core m); reg3 = f14_reg3 (m_core m)
      in m_greg_check reg1 m (m_greg_check reg3 m (do {
           r1 \<leftarrow> rd_r (m_reg m) reg1;
           let disp = op_sign_extend 22 (f14_disp (m_core m));
           let addr = r1 + disp;
           let (err, data32, m) = bus_get_data32 bus (core_id (m_core m)) addr m;
           if err \<noteq> STD_E_OK then Some (-1, m)
           else do {
             g \<leftarrow> wr_r (m_reg m) reg3 data32;
             m_ret m (add_pc 6 g)
           }
         })))"

definition op_exec_ldhu :: "'w bus \<Rightarrow> 'w machine \<Rightarrow> 'w bus_result" where
  "op_exec_ldhu bus m =
     (let reg1 = f7_reg1 (m_core m); reg2 = f7_reg2 (m_core m)
      in m_greg_check reg1 m (m_greg_check reg2 m (do {
           r1 \<leftarrow> rd_r (m_reg m) reg1;
           let disp = op_sign_extend 15 (push_bit 1 (f7_disp (m_core m)));
           let addr = r1 + disp;
           let (err, data16, m) = bus_get_data16 bus (core_id (m_core m)) addr m;
           if err \<noteq> STD_E_OK then Some (-1, m)
           else do {
             g \<leftarrow> wr_r (m_reg m) reg2 (ucast data16);
             m_ret m (add_pc 4 g)
           }
         })))"

definition op_exec_ld_hu_14 :: "'w bus \<Rightarrow> 'w machine \<Rightarrow> 'w bus_result" where
  "op_exec_ld_hu_14 bus m =
     (let reg1 = f14_reg1 (m_core m); reg3 = f14_reg3 (m_core m)
      in m_greg_check reg1 m (m_greg_check reg3 m (do {
           r1 \<leftarrow> rd_r (m_reg m) reg1;
           let disp = op_sign_extend 22 (f14_disp (m_core m));
           let addr = r1 + disp;
           let (err, data16, m) = bus_get_data16 bus (core_id (m_core m)) addr m;
           if err \<noteq> STD_E_OK then Some (-1, m)
           else do {
             g \<leftarrow> wr_r (m_reg m) reg3 (ucast data16);
             m_ret m (add_pc 6 g)
           }
         })))"

end
