(* ===== verification/V850_Exec_Store.thy ===== *)
theory V850_Exec_Store
  imports V850_Exec_Load
begin

unbundle bit_operations_syntax

text \<open>
  The store executors of \<open>src/cpu/cpu_exec/op_exec_store.c\<close>. A store relative to the stack pointer
  first asks \<open>cpu_may_store_on_stack_overflow\<close>, a function of the Athrill core outside this
  repository; the short stores carry the same test, which their base register never passes.
\<close>

definition IS_STACK_OVER :: "'w bus \<Rightarrow> 'w machine \<Rightarrow> u32 \<Rightarrow> u32 \<Rightarrow> bool" where
  "IS_STACK_OVER bus m addr disp \<longleftrightarrow> cpu_may_store_on_stack_overflow bus addr (disp = 1) m"

section \<open>Format IV: short stores relative to the element pointer\<close>

definition op_exec_sstb :: "'w bus \<Rightarrow> 'w machine \<Rightarrow> 'w bus_result" where
  "op_exec_sstb bus m =
     (let reg1 = CPU_REG_EP; reg2 = f41_reg2 (m_core m)
      in m_greg_check reg1 m (m_greg_check reg2 m (do {
           r1 \<leftarrow> rd_r (m_reg m) reg1;
           let disp = op_zero_extend 7 (push_bit 1 (f41_disp (m_core m)) OR f41_gen (m_core m));
           let addr = r1 + disp;
           if reg1 = CPU_REG_SP \<and> IS_STACK_OVER bus m r1 disp then Some (-1, m)
           else do {
             data \<leftarrow> rd_r (m_reg m) reg2;
             let (err, m) = bus_put_data8 bus (core_id (m_core m)) addr (ucast data) m;
             if err \<noteq> STD_E_OK then Some (-1, m) else m_ret m (add_pc 2 (m_reg m))
           }
         })))"

definition op_exec_ssth :: "'w bus \<Rightarrow> 'w machine \<Rightarrow> 'w bus_result" where
  "op_exec_ssth bus m =
     (let reg1 = CPU_REG_EP; reg2 = f41_reg2 (m_core m)
      in m_greg_check reg1 m (m_greg_check reg2 m (do {
           r1 \<leftarrow> rd_r (m_reg m) reg1;
           let disp = push_bit 1 (op_zero_extend 7 (push_bit 1 (f41_disp (m_core m)) OR f41_gen (m_core m)));
           let addr = r1 + disp;
           if reg1 = CPU_REG_SP \<and> IS_STACK_OVER bus m r1 disp then Some (-1, m)
           else do {
             data \<leftarrow> rd_r (m_reg m) reg2;
             let (err, m) = bus_put_data16 bus (core_id (m_core m)) addr (ucast data) m;
             if err \<noteq> STD_E_OK then Some (-1, m) else m_ret m (add_pc 2 (m_reg m))
           }
         })))"

definition op_exec_sstw :: "'w bus \<Rightarrow> 'w machine \<Rightarrow> 'w bus_result" where
  "op_exec_sstw bus m =
     (let reg1 = CPU_REG_EP; reg2 = f41_reg2 (m_core m)
      in m_greg_check reg1 m (m_greg_check reg2 m (do {
           r1 \<leftarrow> rd_r (m_reg m) reg1;
           let disp = push_bit 2 (op_zero_extend 6 (f41_disp (m_core m)));
           let addr = r1 + disp;
           if reg1 = CPU_REG_SP \<and> IS_STACK_OVER bus m r1 disp then Some (-1, m)
           else do {
             data \<leftarrow> rd_r (m_reg m) reg2;
             let (err, m) = bus_put_data32 bus (core_id (m_core m)) addr data m;
             if err \<noteq> STD_E_OK then Some (-1, m) else m_ret m (add_pc 2 (m_reg m))
           }
         })))"

section \<open>Formats VII and XIV\<close>

definition op_exec_sthw :: "'w bus \<Rightarrow> 'w machine \<Rightarrow> 'w bus_result" where
  "op_exec_sthw bus m =
     (let reg1 = f7_reg1 (m_core m); reg2 = f7_reg2 (m_core m)
      in m_greg_check reg1 m (m_greg_check reg2 m (do {
           r1 \<leftarrow> rd_r (m_reg m) reg1;
           let disp = op_sign_extend 15 (push_bit 1 (f7_disp (m_core m)));
           let addr = r1 + disp;
           if reg1 = CPU_REG_SP \<and> IS_STACK_OVER bus m r1 disp then Some (-1, m)
           else do {
             data \<leftarrow> rd_r (m_reg m) reg2;
             let (err, m) =
               (if f7_gen (m_core m) = 0 then bus_put_data16 bus (core_id (m_core m)) addr (ucast data) m
                else bus_put_data32 bus (core_id (m_core m)) addr data m);
             if err \<noteq> STD_E_OK then Some (-1, m) else m_ret m (add_pc 4 (m_reg m))
           }
         })))"

definition op_exec_stb :: "'w bus \<Rightarrow> 'w machine \<Rightarrow> 'w bus_result" where
  "op_exec_stb bus m =
     (let reg1 = f7_reg1 (m_core m); reg2 = f7_reg2 (m_core m)
      in m_greg_check reg1 m (m_greg_check reg2 m (do {
           r1 \<leftarrow> rd_r (m_reg m) reg1;
           let disp = op_sign_extend 15 (push_bit 1 (f7_disp (m_core m)) OR f7_gen (m_core m));
           let addr = r1 + disp;
           if reg1 = CPU_REG_SP \<and> IS_STACK_OVER bus m r1 disp then Some (-1, m)
           else do {
             data \<leftarrow> rd_r (m_reg m) reg2;
             let (err, m) = bus_put_data8 bus (core_id (m_core m)) addr (ucast data) m;
             if err \<noteq> STD_E_OK then Some (-1, m) else m_ret m (add_pc 4 (m_reg m))
           }
         })))"

definition op_exec_st_b_14 :: "'w bus \<Rightarrow> 'w machine \<Rightarrow> 'w bus_result" where
  "op_exec_st_b_14 bus m =
     (let reg1 = f14_reg1 (m_core m); reg3 = f14_reg3 (m_core m)
      in m_greg_check reg1 m (m_greg_check reg3 m (do {
           r1 \<leftarrow> rd_r (m_reg m) reg1;
           let disp = op_sign_extend 22 (f14_disp (m_core m));
           let addr = r1 + disp;
           if reg1 = CPU_REG_SP \<and> IS_STACK_OVER bus m r1 disp then Some (-1, m)
           else do {
             data \<leftarrow> rd_r (m_reg m) reg3;
             let (err, m) = bus_put_data8 bus (core_id (m_core m)) addr (ucast data) m;
             if err \<noteq> STD_E_OK then Some (-1, m) else m_ret m (add_pc 6 (m_reg m))
           }
         })))"

definition op_exec_st_h_14 :: "'w bus \<Rightarrow> 'w machine \<Rightarrow> 'w bus_result" where
  "op_exec_st_h_14 bus m =
     (let reg1 = f14_reg1 (m_core m); reg3 = f14_reg3 (m_core m)
      in m_greg_check reg1 m (m_greg_check reg3 m (do {
           r1 \<leftarrow> rd_r (m_reg m) reg1;
           let disp = op_sign_extend 22 (f14_disp (m_core m));
           let addr = r1 + disp;
           if reg1 = CPU_REG_SP \<and> IS_STACK_OVER bus m r1 disp then Some (-1, m)
           else do {
             data \<leftarrow> rd_r (m_reg m) reg3;
             let (err, m) = bus_put_data16 bus (core_id (m_core m)) addr (ucast data) m;
             if err \<noteq> STD_E_OK then Some (-1, m) else m_ret m (add_pc 6 (m_reg m))
           }
         })))"

definition op_exec_st_w_14 :: "'w bus \<Rightarrow> 'w machine \<Rightarrow> 'w bus_result" where
  "op_exec_st_w_14 bus m =
     (let reg1 = f14_reg1 (m_core m); reg3 = f14_reg3 (m_core m)
      in m_greg_check reg1 m (m_greg_check reg3 m (do {
           r1 \<leftarrow> rd_r (m_reg m) reg1;
           let disp = op_sign_extend 22 (f14_disp (m_core m));
           let addr = r1 + disp;
           if reg1 = CPU_REG_SP \<and> IS_STACK_OVER bus m r1 disp then Some (-1, m)
           else do {
             data \<leftarrow> rd_r (m_reg m) reg3;
             let (err, m) = bus_put_data32 bus (core_id (m_core m)) addr data m;
             if err \<noteq> STD_E_OK then Some (-1, m) else m_ret m (add_pc 6 (m_reg m))
           }
         })))"

end
