(* ===== verification/V850_Fpu_Regs.thy ===== *)
theory V850_Fpu_Regs
  imports V850_Core
begin

unbundle bit_operations_syntax

text \<open>
  The FPU system registers: the field macros of \<open>src/cpu/target_cpu.h\<close>, the accessors of
  \<open>src/cpu/cpu_common/cpu_fpu_ops.h\<close>, and \<open>fpu_sync_sysreg\<close> of \<open>src/cpu/cpu_exec/op_exec_fpu.c\<close>.

  FPSR holds all fields; FPST, FPCC and FPCFG hold copies of some of them. Every setter
  writes the field and its copy, and \<open>fpu_sync_sysreg\<close> carries a copy that LDSR has written
  back into FPSR. The registers are those of the FPU group in the current bank, so an access
  is \<open>None\<close> when the bank number is out of range.
\<close>

section \<open>Register fields\<close>

abbreviation (input) SYS_REG_FPSR :: nat where "SYS_REG_FPSR \<equiv> 6"
abbreviation (input) SYS_REG_FPEPC :: nat where "SYS_REG_FPEPC \<equiv> 7"
abbreviation (input) SYS_REG_FPST :: nat where "SYS_REG_FPST \<equiv> 8"
abbreviation (input) SYS_REG_FPCC :: nat where "SYS_REG_FPCC \<equiv> 9"
abbreviation (input) SYS_REG_FPCFG :: nat where "SYS_REG_FPCFG \<equiv> 10"
abbreviation (input) SYS_REG_FPEC :: nat where "SYS_REG_FPEC \<equiv> 11"

definition SYS_ISSET_BIT :: "nat \<Rightarrow> u32 \<Rightarrow> bool" where
  "SYS_ISSET_BIT bitpos data32 \<longleftrightarrow> data32 AND push_bit bitpos 1 \<noteq> 0"

definition SYS_SET_BIT :: "nat \<Rightarrow> u32 \<Rightarrow> u32" where
  "SYS_SET_BIT bitpos data32 = data32 OR push_bit bitpos 1"

definition SYS_CLR_BIT :: "nat \<Rightarrow> u32 \<Rightarrow> u32" where
  "SYS_CLR_BIT bitpos data32 = data32 AND NOT (push_bit bitpos 1)"

definition SYS_GET_DATA2 :: "nat \<Rightarrow> u32 \<Rightarrow> u8" where
  "SYS_GET_DATA2 bitpos data32 = ucast (drop_bit bitpos data32) AND 0x0003"

definition SYS_SET_DATA2 :: "nat \<Rightarrow> u8 \<Rightarrow> u32 \<Rightarrow> u32" where
  "SYS_SET_DATA2 bitpos data8 org =
     (org AND NOT (push_bit bitpos 0x0003)) OR push_bit bitpos (ucast data8)"

definition SYS_GET_DATA5 :: "nat \<Rightarrow> u32 \<Rightarrow> u8" where
  "SYS_GET_DATA5 bitpos data32 = ucast (drop_bit bitpos data32) AND 0x001F"

definition SYS_SET_DATA5 :: "nat \<Rightarrow> u8 \<Rightarrow> u32 \<Rightarrow> u32" where
  "SYS_SET_DATA5 bitpos data8 org =
     (org AND NOT (push_bit bitpos 0x001F)) OR push_bit bitpos (ucast data8)"

definition SYS_GET_DATA6 :: "nat \<Rightarrow> u32 \<Rightarrow> u8" where
  "SYS_GET_DATA6 bitpos data32 = ucast (drop_bit bitpos data32) AND 0x003F"

definition SYS_SET_DATA6 :: "nat \<Rightarrow> u8 \<Rightarrow> u32 \<Rightarrow> u32" where
  "SYS_SET_DATA6 bitpos data8 org =
     (org AND NOT (push_bit bitpos 0x003F)) OR push_bit bitpos (ucast data8)"

definition SYS_GET_DATA8 :: "nat \<Rightarrow> u32 \<Rightarrow> u8" where
  "SYS_GET_DATA8 bitpos data32 = ucast (drop_bit bitpos data32)"

definition SYS_SET_DATA8 :: "nat \<Rightarrow> u8 \<Rightarrow> u32 \<Rightarrow> u32" where
  "SYS_SET_DATA8 bitpos data8 org =
     (org AND NOT (push_bit bitpos 0xFFFF)) OR push_bit bitpos (ucast data8)"

definition cpu_get_sysreg_fpu :: "CpuSystemRegisterType \<Rightarrow> nat \<Rightarrow> sysreg_ref" where
  "cpu_get_sysreg_fpu s regid = GrpReg SYS_GRP_FPU (unat (current_bnk s)) regid"

definition fpu_get :: "nat \<Rightarrow> CpuRegisterType \<Rightarrow> u32 option" where
  "fpu_get regid g = ref_read (reg_sys g) (cpu_get_sysreg_fpu (reg_sys g) regid)"

definition fpu_upd :: "nat \<Rightarrow> (u32 \<Rightarrow> u32) \<Rightarrow> CpuRegisterType \<Rightarrow> CpuRegisterType option" where
  "fpu_upd regid f g = do {
     let regp = cpu_get_sysreg_fpu (reg_sys g) regid;
     v \<leftarrow> ref_read (reg_sys g) regp;
     s \<leftarrow> ref_write (reg_sys g) regp (f v);
     Some (g\<lparr>reg_sys := s\<rparr>)
   }"

section \<open>Accessors\<close>

definition sys_set_fpsr_cc :: "u8 \<Rightarrow> CpuRegisterType \<Rightarrow> CpuRegisterType option" where
  "sys_set_fpsr_cc data g = do {
     g \<leftarrow> fpu_upd SYS_REG_FPSR (SYS_SET_DATA8 24 data) g;
     fpu_upd SYS_REG_FPCC (SYS_SET_DATA8 0 data) g
   }"

definition sys_get_fpsr_cc :: "CpuRegisterType \<Rightarrow> u8 option" where
  "sys_get_fpsr_cc g = map_option (SYS_GET_DATA8 24) (fpu_get SYS_REG_FPSR g)"

definition sys_isset_fpsr_fn :: "CpuRegisterType \<Rightarrow> bool option" where
  "sys_isset_fpsr_fn g = map_option (SYS_ISSET_BIT 23) (fpu_get SYS_REG_FPSR g)"

definition sys_set_fpsr_fn :: "CpuRegisterType \<Rightarrow> CpuRegisterType option" where
  "sys_set_fpsr_fn g = fpu_upd SYS_REG_FPSR (SYS_SET_BIT 23) g"

definition sys_clr_fpsr_fn :: "CpuRegisterType \<Rightarrow> CpuRegisterType option" where
  "sys_clr_fpsr_fn g = fpu_upd SYS_REG_FPSR (SYS_CLR_BIT 23) g"

definition sys_isset_fpsr_if :: "CpuRegisterType \<Rightarrow> bool option" where
  "sys_isset_fpsr_if g = map_option (SYS_ISSET_BIT 22) (fpu_get SYS_REG_FPSR g)"

definition sys_set_fpsr_if :: "CpuRegisterType \<Rightarrow> CpuRegisterType option" where
  "sys_set_fpsr_if g = do {
     g \<leftarrow> fpu_upd SYS_REG_FPSR (SYS_SET_BIT 22) g;
     fpu_upd SYS_REG_FPST (SYS_SET_BIT 5) g
   }"

definition sys_clr_fpsr_if :: "CpuRegisterType \<Rightarrow> CpuRegisterType option" where
  "sys_clr_fpsr_if g = do {
     g \<leftarrow> fpu_upd SYS_REG_FPSR (SYS_CLR_BIT 22) g;
     fpu_upd SYS_REG_FPST (SYS_CLR_BIT 5) g
   }"

definition sys_isset_fpsr_pem :: "CpuRegisterType \<Rightarrow> bool option" where
  "sys_isset_fpsr_pem g = map_option (SYS_ISSET_BIT 21) (fpu_get SYS_REG_FPSR g)"

definition sys_set_fpsr_pem :: "CpuRegisterType \<Rightarrow> CpuRegisterType option" where
  "sys_set_fpsr_pem g = fpu_upd SYS_REG_FPSR (SYS_SET_BIT 21) g"

definition sys_clr_fpsr_pem :: "CpuRegisterType \<Rightarrow> CpuRegisterType option" where
  "sys_clr_fpsr_pem g = fpu_upd SYS_REG_FPSR (SYS_CLR_BIT 21) g"

text \<open>The rounding modes as the header numbers them.\<close>

definition SysFpuRm_RN :: u8 where "SysFpuRm_RN = 0x00"
definition SysFpuRm_RZ :: u8 where "SysFpuRm_RZ = 0x01"
definition SysFpuRm_RP :: u8 where "SysFpuRm_RP = 0x10"
definition SysFpuRm_RD :: u8 where "SysFpuRm_RD = 0x11"

definition sys_get_fpsr_rm :: "CpuRegisterType \<Rightarrow> u8 option" where
  "sys_get_fpsr_rm g = map_option (SYS_GET_DATA2 18) (fpu_get SYS_REG_FPSR g)"

definition sys_set_fpsr_rm :: "u8 \<Rightarrow> CpuRegisterType \<Rightarrow> CpuRegisterType option" where
  "sys_set_fpsr_rm data g = do {
     g \<leftarrow> fpu_upd SYS_REG_FPSR (SYS_SET_DATA2 18 data) g;
     fpu_upd SYS_REG_FPCFG (SYS_SET_DATA2 8 data) g
   }"

definition sys_isset_fpsr_fs :: "CpuRegisterType \<Rightarrow> bool option" where
  "sys_isset_fpsr_fs g = map_option (SYS_ISSET_BIT 17) (fpu_get SYS_REG_FPSR g)"

definition sys_set_fpsr_fs :: "CpuRegisterType \<Rightarrow> CpuRegisterType option" where
  "sys_set_fpsr_fs g = fpu_upd SYS_REG_FPSR (SYS_SET_BIT 17) g"

definition sys_clr_fpsr_fs :: "CpuRegisterType \<Rightarrow> CpuRegisterType option" where
  "sys_clr_fpsr_fs g = fpu_upd SYS_REG_FPSR (SYS_CLR_BIT 17) g"

definition SYS_FPSR_EXPR_I :: u8 where "SYS_FPSR_EXPR_I = 1"
definition SYS_FPSR_EXPR_U :: u8 where "SYS_FPSR_EXPR_U = 2"
definition SYS_FPSR_EXPR_O :: u8 where "SYS_FPSR_EXPR_O = 4"
definition SYS_FPSR_EXPR_Z :: u8 where "SYS_FPSR_EXPR_Z = 8"
definition SYS_FPSR_EXPR_V :: u8 where "SYS_FPSR_EXPR_V = 16"
definition SYS_FPSR_EXPR_E :: u8 where "SYS_FPSR_EXPR_E = 32"

definition sys_set_fpsr_xc :: "u8 \<Rightarrow> CpuRegisterType \<Rightarrow> CpuRegisterType option" where
  "sys_set_fpsr_xc data g = do {
     g \<leftarrow> fpu_upd SYS_REG_FPSR (SYS_SET_DATA6 10 data) g;
     fpu_upd SYS_REG_FPST (SYS_SET_DATA6 8 data) g
   }"

definition sys_isset_fpsr_xc :: "u8 \<Rightarrow> CpuRegisterType \<Rightarrow> bool option" where
  "sys_isset_fpsr_xc data g = map_option (\<lambda>v. SYS_GET_DATA6 10 v AND data \<noteq> 0) (fpu_get SYS_REG_FPSR g)"

definition sys_set_fpsr_xe :: "u8 \<Rightarrow> CpuRegisterType \<Rightarrow> CpuRegisterType option" where
  "sys_set_fpsr_xe data g = do {
     g \<leftarrow> fpu_upd SYS_REG_FPSR (SYS_SET_DATA5 5 data) g;
     fpu_upd SYS_REG_FPCFG (SYS_SET_DATA5 0 data) g
   }"

definition sys_isset_fpsr_xe :: "u8 \<Rightarrow> CpuRegisterType \<Rightarrow> bool option" where
  "sys_isset_fpsr_xe data g = map_option (\<lambda>v. SYS_GET_DATA5 5 v AND data \<noteq> 0) (fpu_get SYS_REG_FPSR g)"

definition sys_set_fpsr_xp :: "u8 \<Rightarrow> CpuRegisterType \<Rightarrow> CpuRegisterType option" where
  "sys_set_fpsr_xp data g = do {
     g \<leftarrow> fpu_upd SYS_REG_FPSR (SYS_SET_DATA5 0 data) g;
     fpu_upd SYS_REG_FPST (SYS_SET_DATA5 0 data) g
   }"

definition sys_isset_fpsr_xp :: "u8 \<Rightarrow> CpuRegisterType \<Rightarrow> bool option" where
  "sys_isset_fpsr_xp data g = map_option (\<lambda>v. SYS_GET_DATA5 0 v AND data \<noteq> 0) (fpu_get SYS_REG_FPSR g)"

definition sys_get_fpepc_pc :: "CpuRegisterType \<Rightarrow> u32 option" where
  "sys_get_fpepc_pc g = fpu_get SYS_REG_FPEC g"

definition sys_set_fpepc_pc :: "u32 \<Rightarrow> CpuRegisterType \<Rightarrow> CpuRegisterType option" where
  "sys_set_fpepc_pc data g = fpu_upd SYS_REG_FPEC (\<lambda>_. data AND 0xFFFFFFFE) g"

definition sys_set_fpst_xc :: "u8 \<Rightarrow> CpuRegisterType \<Rightarrow> CpuRegisterType option" where
  "sys_set_fpst_xc data g = sys_set_fpsr_xc data g"

definition sys_get_fpst_xc :: "CpuRegisterType \<Rightarrow> u8 option" where
  "sys_get_fpst_xc g = map_option (SYS_GET_DATA6 8) (fpu_get SYS_REG_FPST g)"

definition sys_isset_fpst_xc :: "u8 \<Rightarrow> CpuRegisterType \<Rightarrow> bool option" where
  "sys_isset_fpst_xc data g = map_option (\<lambda>v. SYS_GET_DATA6 8 v AND data \<noteq> 0) (fpu_get SYS_REG_FPST g)"

definition sys_set_fpst_xp :: "u8 \<Rightarrow> CpuRegisterType \<Rightarrow> CpuRegisterType option" where
  "sys_set_fpst_xp data g = sys_set_fpsr_xp data g"

definition sys_get_fpst_xp :: "CpuRegisterType \<Rightarrow> u8 option" where
  "sys_get_fpst_xp g = map_option (SYS_GET_DATA5 0) (fpu_get SYS_REG_FPST g)"

definition sys_isset_fpst_xp :: "u8 \<Rightarrow> CpuRegisterType \<Rightarrow> bool option" where
  "sys_isset_fpst_xp data g = map_option (\<lambda>v. SYS_GET_DATA5 0 v AND data \<noteq> 0) (fpu_get SYS_REG_FPST g)"

definition sys_isset_fpst_if :: "CpuRegisterType \<Rightarrow> bool option" where
  "sys_isset_fpst_if g = map_option (SYS_ISSET_BIT 5) (fpu_get SYS_REG_FPST g)"

definition sys_set_fpst_if :: "CpuRegisterType \<Rightarrow> CpuRegisterType option" where
  "sys_set_fpst_if g = sys_set_fpsr_if g"

definition sys_clr_fpst_if :: "CpuRegisterType \<Rightarrow> CpuRegisterType option" where
  "sys_clr_fpst_if g = sys_clr_fpsr_if g"

definition sys_set_fpcc_cc :: "u8 \<Rightarrow> CpuRegisterType \<Rightarrow> CpuRegisterType option" where
  "sys_set_fpcc_cc data g = sys_set_fpsr_cc data g"

definition sys_get_fpcc_cc :: "CpuRegisterType \<Rightarrow> u8 option" where
  "sys_get_fpcc_cc g = map_option (SYS_GET_DATA8 0) (fpu_get SYS_REG_FPCC g)"

definition sys_get_fpcfg_rm :: "CpuRegisterType \<Rightarrow> u8 option" where
  "sys_get_fpcfg_rm g = map_option (SYS_GET_DATA2 8) (fpu_get SYS_REG_FPCFG g)"

definition sys_set_fpcfg_rm :: "u8 \<Rightarrow> CpuRegisterType \<Rightarrow> CpuRegisterType option" where
  "sys_set_fpcfg_rm data g = sys_set_fpsr_rm data g"

definition sys_set_fpcfg_xe :: "u8 \<Rightarrow> CpuRegisterType \<Rightarrow> CpuRegisterType option" where
  "sys_set_fpcfg_xe data g = sys_set_fpsr_xe data g"

definition sys_get_fpcfg_xe :: "CpuRegisterType \<Rightarrow> u8 option" where
  "sys_get_fpcfg_xe g = map_option (SYS_GET_DATA5 0) (fpu_get SYS_REG_FPCFG g)"

definition sys_isset_fpcfg_xe :: "u8 \<Rightarrow> CpuRegisterType \<Rightarrow> bool option" where
  "sys_isset_fpcfg_xe data g = map_option (\<lambda>v. SYS_GET_DATA5 0 v AND data \<noteq> 0) (fpu_get SYS_REG_FPCFG g)"

definition sys_set_fpec_fpivd :: "CpuRegisterType \<Rightarrow> CpuRegisterType option" where
  "sys_set_fpec_fpivd g = fpu_upd SYS_REG_FPEC (SYS_SET_BIT 0) g"

definition sys_clr_fpec_fpivd :: "CpuRegisterType \<Rightarrow> CpuRegisterType option" where
  "sys_clr_fpec_fpivd g = fpu_upd SYS_REG_FPEC (SYS_CLR_BIT 0) g"

definition sys_isset_fpec_fpivd :: "CpuRegisterType \<Rightarrow> bool option" where
  "sys_isset_fpec_fpivd g = map_option (SYS_ISSET_BIT 0) (fpu_get SYS_REG_FPEC g)"

section \<open>Synchronisation after LDSR\<close>

definition fpu_sync_sysreg :: "u32 \<Rightarrow> u32 \<Rightarrow> CpuRegisterType \<Rightarrow> CpuRegisterType option" where
  "fpu_sync_sysreg regid selid g =
     (if unat selid \<noteq> SYS_GRP_FPU then Some g
      else if unat regid = SYS_REG_FPST then do {
        data \<leftarrow> sys_get_fpst_xc g;
        g \<leftarrow> sys_set_fpsr_xc data g;
        data \<leftarrow> sys_get_fpst_xp g;
        g \<leftarrow> sys_set_fpsr_xp data g;
        b \<leftarrow> sys_isset_fpst_if g;
        if b then sys_set_fpsr_if g else sys_clr_fpsr_if g
      }
      else if unat regid = SYS_REG_FPCC then do {
        data \<leftarrow> sys_get_fpcc_cc g;
        sys_set_fpsr_cc data g
      }
      else if unat regid = SYS_REG_FPCFG then do {
        data \<leftarrow> sys_get_fpcfg_rm g;
        g \<leftarrow> sys_set_fpsr_rm data g;
        data \<leftarrow> sys_get_fpcfg_xe g;
        sys_set_fpsr_xe data g
      }
      else Some g)"

end
