(* ===== verification/V850_Mpu.thy ===== *)
theory V850_Mpu
  imports V850_Core
begin

unbundle bit_operations_syntax

text \<open>
  Memory protection and reset: the part of \<open>src/cpu/config/cpu_config.c\<close> that decides whether
  an access is permitted, raises the protection exception, builds the region descriptors from
  the MPU setting registers, and resets a core.

  The region containers are the lists of their elements. Their search function
  \<open>object_container_find_first2\<close> belongs to the Athrill core outside this repository, so it is
  an argument (one instance per element type), and what the code relies on is the predicate
  \<open>find_first2_ok\<close>. The functions read the program counter of the current core; it is the
  argument \<open>cur_pc\<close>.
\<close>

section \<open>Region checks\<close>

record CpuMemoryCheckType =
  chk_access_type :: CpuMemoryAccessType
  chk_start :: u32
  chk_end :: u32

datatype MpuAddressRegionEnumType = GLOBAL_MEMORY | READONLY_MEMORY | DEVICE

definition IS_NOT_OVERLAP_RANGE :: "u32 \<Rightarrow> u32 \<Rightarrow> u32 \<Rightarrow> u32 \<Rightarrow> bool" where
  "IS_NOT_OVERLAP_RANGE access_start access_end config_start config_end \<longleftrightarrow>
     config_end < access_start \<or> access_end < config_start"

definition is_overlap :: "TargetCoreMpuConfigType \<Rightarrow> CpuMemoryCheckType \<Rightarrow> bool" where
  "is_overlap config check_arg =
     (let (config_start, config_end) =
            (if \<not> mc_is_mask_method config then (mc_al config, mc_au config)
             else (mc_al config AND NOT (mc_au config), mc_al config OR mc_au config))
      in \<not> IS_NOT_OVERLAP_RANGE config_start config_end (chk_start check_arg) (chk_end check_arg))"

definition dmp_object_filter :: "TargetCoreMpuDataConfigType \<Rightarrow> CpuMemoryCheckType \<Rightarrow> bool" where
  "dmp_object_filter config check_arg =
     (if \<not> mc_enable_protection (dc_common config) then False
      else if \<not> is_overlap (dc_common config) check_arg then False
      else if chk_access_type check_arg = CpuMemoryAccess_READ then dc_enable_read config
      else if chk_access_type check_arg = CpuMemoryAccess_WRITE then dc_enable_write config
      else False)"

definition dip_object_filter :: "TargetCoreMpuExecConfigType \<Rightarrow> CpuMemoryCheckType \<Rightarrow> bool" where
  "dip_object_filter config check_arg =
     (if \<not> mc_enable_protection (xc_common config) then False
      else if \<not> is_overlap (xc_common config) check_arg then False
      else if chk_access_type check_arg = CpuMemoryAccess_EXEC then xc_enable_exec config
      else if chk_access_type check_arg = CpuMemoryAccess_READ then xc_enable_read config
      else False)"

text \<open>The container search, and the contract it is documented to have.\<close>

type_synonym 'a find_first2 = "'a list \<Rightarrow> ('a \<Rightarrow> CpuMemoryCheckType \<Rightarrow> bool) \<Rightarrow> CpuMemoryCheckType \<Rightarrow> 'a option"

record object_container =
  find_data :: "TargetCoreMpuDataConfigType find_first2"
  find_exec :: "TargetCoreMpuExecConfigType find_first2"

definition find_first2_ok :: "'a find_first2 \<Rightarrow> bool" where
  "find_first2_ok f \<longleftrightarrow>
     (\<forall>xs P arg. case f xs P arg of
        None \<Rightarrow> \<forall>x \<in> set xs. \<not> P x arg
      | Some x \<Rightarrow> x \<in> set xs \<and> P x arg)"

definition cpu_has_permission_dmp ::
  "object_container \<Rightarrow> CpuMemoryAccessType \<Rightarrow> u32 \<Rightarrow> u32 \<Rightarrow> TargetCoreType \<Rightarrow> bool" where
  "cpu_has_permission_dmp oc access_type addr nbytes cpu =
     (let arg = \<lparr>chk_access_type = access_type, chk_start = addr, chk_end = addr + (nbytes - 1)\<rparr>
      in find_data oc (data_configs (mpu cpu)) dmp_object_filter arg \<noteq> None)"

definition cpu_has_permission_imp ::
  "object_container \<Rightarrow> CpuMemoryAccessType \<Rightarrow> u32 \<Rightarrow> u32 \<Rightarrow> TargetCoreType \<Rightarrow> bool" where
  "cpu_has_permission_imp oc access_type addr nbytes cpu =
     (let arg = \<lparr>chk_access_type = access_type, chk_start = addr, chk_end = addr + (nbytes - 1)\<rparr>
      in find_exec oc (exec_configs (mpu cpu)) dip_object_filter arg \<noteq> None)"

definition report_violation ::
  "CpuExceptionErrorCodeType \<Rightarrow> u32 \<Rightarrow> CpuMemoryAccessType \<Rightarrow> TargetCoreType \<Rightarrow> TargetCoreType" where
  "report_violation code addr access_type cpu =
     cpu\<lparr>mpu := (mpu cpu)\<lparr>exception_error_code := code, error_address := addr, error_access := access_type\<rparr>\<rparr>"

definition cpu_has_permission ::
  "object_container \<Rightarrow> u32 \<Rightarrow> MpuAddressRegionEnumType \<Rightarrow> CpuMemoryAccessType \<Rightarrow> u32 \<Rightarrow> u32
   \<Rightarrow> TargetCoreType \<Rightarrow> bool \<times> TargetCoreType" where
  "cpu_has_permission oc cur_pc region_type access_type addr nbytes cpu =
     (let psw = cpu_get_psw (reg_sys (reg cpu))
      in case region_type of
           DEVICE \<Rightarrow>
             (let permission = IS_TRUSTED CPU_PSW_PP psw
              in (permission,
                  if \<not> permission then report_violation CpuExceptionError_PPI addr access_type cpu else cpu))
         | _ \<Rightarrow>
             (let imp_permission =
                    (if access_type = CpuMemoryAccess_WRITE \<or> IS_TRUSTED CPU_PSW_IMP psw then True
                     else cpu_has_permission_imp oc access_type addr nbytes cpu);
                  dmp_permission =
                    (if access_type = CpuMemoryAccess_EXEC \<or> IS_TRUSTED CPU_PSW_DMP psw then True
                     else cpu_has_permission_dmp oc access_type addr nbytes cpu);
                  permission =
                    (if access_type = CpuMemoryAccess_READ then dmp_permission \<or> imp_permission
                     else dmp_permission \<and> imp_permission);
                  cpu = (if \<not> permission \<and> \<not> imp_permission
                         then report_violation CpuExceptionError_MIP cur_pc access_type cpu else cpu);
                  cpu = (if \<not> permission \<and> \<not> dmp_permission
                         then report_violation CpuExceptionError_MDP addr access_type cpu else cpu)
              in (permission, cpu)))"

text \<open>The specialisation used by the clock, compiled in under \<open>CPU_PERMISSION_OPTIMIZE\<close>.\<close>

definition cpu_has_permission_for_clock_supply ::
  "object_container \<Rightarrow> u32 \<Rightarrow> CpuMemoryAccessType \<Rightarrow> u32 \<Rightarrow> u32 \<Rightarrow> TargetCoreType \<Rightarrow> bool \<times> TargetCoreType" where
  "cpu_has_permission_for_clock_supply oc cur_pc access_type addr nbytes cpu =
     (let psw = cpu_get_psw (reg_sys (reg cpu)); dmp_permission = False
      in if IS_TRUSTED CPU_PSW_IMP psw then (True, cpu)
         else let imp_permission = cpu_has_permission_imp oc access_type addr nbytes cpu
              in if imp_permission then (True, cpu)
                 else let cpu = (if \<not> imp_permission
                                 then report_violation CpuExceptionError_MIP cur_pc access_type cpu else cpu);
                          cpu = (if \<not> dmp_permission
                                 then report_violation CpuExceptionError_MDP addr access_type cpu else cpu)
                      in (False, cpu))"

section \<open>The protection exception\<close>

definition CPU_VMECR_VMW :: u32 where "CPU_VMECR_VMW = push_bit 4 1"
definition CPU_VMECR_VMR :: u32 where "CPU_VMECR_VMR = push_bit 5 1"
definition CPU_VMECR_VMX :: u32 where "CPU_VMECR_VMX = push_bit 6 1"

definition vmecr_update :: "CpuMemoryAccessType \<Rightarrow> u32 \<Rightarrow> u32" where
  "vmecr_update access r =
     (case access of
        CpuMemoryAccess_READ \<Rightarrow> (r OR CPU_VMECR_VMR) AND NOT CPU_VMECR_VMW AND NOT CPU_VMECR_VMX
      | CpuMemoryAccess_WRITE \<Rightarrow> (r OR CPU_VMECR_VMW) AND NOT CPU_VMECR_VMR AND NOT CPU_VMECR_VMX
      | CpuMemoryAccess_EXEC \<Rightarrow> (r OR CPU_VMECR_VMX) AND NOT CPU_VMECR_VMW AND NOT CPU_VMECR_VMR
      | CpuMemoryAccess_NONE \<Rightarrow> r)"

definition illegal_access_feic :: "CpuExceptionErrorCodeType \<Rightarrow> u32" where
  "illegal_access_feic code =
     (case code of
        CpuExceptionError_MIP \<Rightarrow> 0x0430
      | CpuExceptionError_MDP \<Rightarrow> 0x0431
      | CpuExceptionError_PPI \<Rightarrow> 0x0432
      | CpuExceptionError_None \<Rightarrow> 0)"

definition cpu_illegal_access :: "u32 \<Rightarrow> TargetCoreType \<Rightarrow> bool \<times> TargetCoreType" where
  "cpu_illegal_access cur_pc cpu =
     (if exception_error_code (mpu cpu) = CpuExceptionError_None then (False, cpu)
      else
        let fepc = cur_pc;
            fepsw = cpu_get_psw (reg_sys (reg cpu));
            s = reg_sys (reg cpu);
            s = set_mpu_illegal_factor SYS_REG_MPV_VMADR (error_address (mpu cpu)) s;
            s = set_mpu_illegal_factor SYS_REG_MPV_VMTID (cpu_get_mpu_settign_sysreg s SYS_REG_MPU_TID) s;
            feic = illegal_access_feic (exception_error_code (mpu cpu));
            handler_code = 0x0030;
            s = set_mpu_illegal_factor SYS_REG_MPV_VMECR
                  (vmecr_update (error_access (mpu cpu)) (cpu_get_mpu_illegal_factor_sysreg s SYS_REG_MPV_VMECR)) s;
            g = (reg cpu)\<lparr>reg_sys := s\<rparr>;
            g = psw_set CPU_PSW_EP g;
            g = psw_set CPU_PSW_NP g;
            g = psw_set CPU_PSW_ID g;
            g = psw_clr CPU_PSW_PP g;
            g = psw_clr CPU_PSW_NPV g;
            g = psw_clr CPU_PSW_IMP g;
            g = psw_clr CPU_PSW_DMP g;
            g = set_cpu_base SYS_REG_FEIC feic g;
            g = set_cpu_base SYS_REG_FEPSW fepsw g;
            g = set_cpu_base SYS_REG_FEPC fepc g;
            ecr = (sys_get_cpu_base g SYS_REG_ECR AND 0x00FF) OR push_bit 16 feic;
            g = set_cpu_base SYS_REG_ECR ecr g;
            g = g\<lparr>reg_pc := handler_code\<rparr>
        in (True, cpu\<lparr>reg := g,
              mpu := (mpu cpu)\<lparr>exception_error_code := CpuExceptionError_None,
                               error_access := CpuMemoryAccess_NONE\<rparr>\<rparr>))"

section \<open>Region descriptors\<close>

definition TARGET_CORE_MPU_CONFIG_EXEC_MAXNUM :: nat where "TARGET_CORE_MPU_CONFIG_EXEC_MAXNUM = 5"
definition TARGET_CORE_MPU_CONFIG_DATA_MAXNUM :: nat where "TARGET_CORE_MPU_CONFIG_DATA_MAXNUM = 6"

definition private_cpu_mpu_set_common_obj :: "u32 \<Rightarrow> u32 \<Rightarrow> TargetCoreMpuConfigType" where
  "private_cpu_mpu_set_common_obj au al = \<lparr>
     mc_enable_protection = (al AND 0x01 \<noteq> 0),
     mc_is_mask_method = (al AND 0x04 \<noteq> 0),
     mc_au = (au AND 0xFFFFFF0) OR 0x0F,
     mc_al = al AND 0xFFFFFF0\<rparr>"

definition exec_config_of :: "(nat \<Rightarrow> u32) \<Rightarrow> nat \<Rightarrow> TargetCoreMpuExecConfigType" where
  "exec_config_of setting_sysreg i =
     (let al = setting_sysreg (SYS_REG_MPU_IPA0L + i * 2);
          au = setting_sysreg (SYS_REG_MPU_IPA0U + i * 2)
      in \<lparr>xc_common = private_cpu_mpu_set_common_obj au al,
          xc_enable_read = (au AND 0x02 \<noteq> 0), xc_enable_exec = (au AND 0x01 \<noteq> 0)\<rparr>)"

definition data_config_of :: "(nat \<Rightarrow> u32) \<Rightarrow> nat \<Rightarrow> TargetCoreMpuDataConfigType" where
  "data_config_of setting_sysreg i =
     (let al = setting_sysreg (SYS_REG_MPU_DPA0L + i * 2);
          au = setting_sysreg (SYS_REG_MPU_DPA0U + i * 2)
      in \<lparr>dc_common = private_cpu_mpu_set_common_obj au al,
          dc_enable_read = (au AND 0x02 \<noteq> 0), dc_enable_write = (au AND 0x04 \<noteq> 0)\<rparr>)"

text \<open>The old containers are deleted and new ones filled element by element.\<close>

definition private_cpu_mpu_construct_containers :: "TargetCoreType \<Rightarrow> TargetCoreType" where
  "private_cpu_mpu_construct_containers cpu =
     (let setting_sysreg = cpu_get_mpu_settign_sysreg (reg_sys (reg cpu))
      in cpu\<lparr>mpu := (mpu cpu)\<lparr>
           exec_configs := fold (\<lambda>i xs. xs @ [exec_config_of setting_sysreg i]) [0..<TARGET_CORE_MPU_CONFIG_EXEC_MAXNUM] [],
           data_configs := fold (\<lambda>i xs. xs @ [data_config_of setting_sysreg i]) [0..<TARGET_CORE_MPU_CONFIG_DATA_MAXNUM] []\<rparr>\<rparr>)"

section \<open>Reset\<close>

definition mpu_init_values :: "(nat \<times> u32) list" where
  "mpu_init_values =
     [(6, 0x00000002), (8, 0x00000002), (10, 0x00000002), (12, 0x00000002), (14, 0x00000002),
      (7, 0x00000000), (9, 0x00000000), (11, 0x00000000), (13, 0x00000000), (15, 0x00000000),
      (16, 0x00000002), (18, 0x00000002), (20, 0x00000002), (22, 0x00000002), (24, 0x00000002),
      (26, 0x00000006),
      (17, 0x00000006), (19, 0x00000000), (21, 0x00000000), (23, 0x00000000), (25, 0x00000000),
      (27, 0x00000000)]"

definition private_cpu_mpu_init :: "TargetCoreType \<Rightarrow> TargetCoreType" where
  "private_cpu_mpu_init cpu =
     (let cpu = cpu\<lparr>mpu := (mpu cpu)\<lparr>exception_error_code := CpuExceptionError_None\<rparr>\<rparr>;
          s = fold (\<lambda>(i, v) s. set_mpu_setting i v s) mpu_init_values (reg_sys (reg cpu));
          cpu = cpu\<lparr>reg := (reg cpu)\<lparr>reg_sys := s\<rparr>\<rparr>
      in private_cpu_mpu_construct_containers cpu)"

definition private_cpu_reset :: "TargetCoreType \<Rightarrow> TargetCoreType" where
  "private_cpu_reset cpu =
     (let s = (reg_sys (reg cpu))\<lparr>current_grp := of_nat SYS_GRP_CPU, current_bnk := 0\<rparr>;
          s = fold (\<lambda>regId s. ref_set (cpu_get_sysreg s (of_nat regId)) 0 s) [0..<unat CPU_GREG_NUM] s;
          g = \<lparr>reg_pc = 0, reg_r = (\<lambda>_. 0), reg_sys = s\<rparr>;
          g = set_cpu_base SYS_REG_PSW 0x20 g
      in private_cpu_mpu_init (cpu\<lparr>reg := g, is_halt := False\<rparr>))"

definition cpu_illegal_opcode_trap :: "TargetCoreType \<Rightarrow> TargetCoreType" where
  "cpu_illegal_opcode_trap cpu =
     (let g = reg cpu;
          eicc = 0x60;
          g = set_cpu_base SYS_REG_EIPC (reg_pc g - 4) g;
          g = set_cpu_base SYS_REG_EIPSW (sys_get_cpu_base g SYS_REG_PSW) g;
          ecr = (sys_get_cpu_base g SYS_REG_ECR AND 0x00FF) OR push_bit 16 eicc;
          g = set_cpu_base SYS_REG_ECR ecr g;
          g = psw_set CPU_PSW_NP g;
          g = psw_set CPU_PSW_EP g;
          g = psw_set CPU_PSW_ID g
      in cpu\<lparr>reg := g\<lparr>reg_pc := 0x60\<rparr>\<rparr>)"

end
