(* ===== verification/V850_Intc.thy ===== *)
theory V850_Intc
  imports V850_Mpu
begin

unbundle bit_operations_syntax

text \<open>
  The interrupt controller: \<open>src/device/intc/intc.h\<close> and \<open>intc.c\<close>.

  \<open>intc_state\<close> holds what the file's functions read and write: the NMI requests, the work area
  of each core, the bytes of the register region (one copy of the register map per core), and
  the cores. An operation is \<open>None\<close> when it leaves one of the C arrays: a core number of
  \<open>CPU_CONFIG_CORE_NUM\<close> or more, an interrupt number of \<open>INTC_NUM\<close> or more, a saved-interrupt
  offset outside the stack, an offset outside the region data. Halfword and word accesses to
  the region use the byte order of a little-endian host.
\<close>

section \<open>Constants and state\<close>

definition CPU_CONFIG_CORE_NUM :: nat where "CPU_CONFIG_CORE_NUM = 2"
definition INTC_NUM :: nat where "INTC_NUM = 117"
definition INTC_INTNO_MAX :: nat where "INTC_INTNO_MAX = 116"
definition INTC_PINTNO_NOUSE :: nat where "INTC_PINTNO_NOUSE = 54"
definition INTC_NUM_INTLVL :: nat where "INTC_NUM_INTLVL = 8"
definition INTC_FECC_NMI :: u32 where "INTC_FECC_NMI = 0x10"
definition INTC_FECC_INTWDT2 :: u32 where "INTC_FECC_INTWDT2 = 0x20"
definition INTC_NMINO_INTWDT2 :: u32 where "INTC_NMINO_INTWDT2 = 1"
definition INTC_REG_ICN_BASE :: u32 where "INTC_REG_ICN_BASE = 0xFFFFF110"
definition INTC_REG_ISPR :: u32 where "INTC_REG_ISPR = 0xFFFFF1FA"
definition INTC_REG_xxICnStr :: u32 where "INTC_REG_xxICnStr = 0xFFFFF110"
definition INTC_REG_xxICnEnd :: u32 where "INTC_REG_xxICnEnd = 0xFFFFF1F8"

text \<open>The entry of the interrupt controller in \<open>mpu_address_map\<close> (\<open>src/cpu/config/mpu_config.c\<close>).\<close>

definition MPU_ADDRESS_REGION_MASK_PH :: u32 where "MPU_ADDRESS_REGION_MASK_PH = 0x03FFFFFF"
definition intc_region_start :: u32 where "intc_region_start = 0x03FFF100"
definition MPU_ADDRESS_REGION_SIZE_INX_INTC :: nat where "MPU_ADDRESS_REGION_SIZE_INX_INTC = 251"

lemmas intc_consts = CPU_CONFIG_CORE_NUM_def INTC_NUM_def INTC_INTNO_MAX_def INTC_PINTNO_NOUSE_def
  INTC_NUM_INTLVL_def INTC_FECC_NMI_def INTC_FECC_INTWDT2_def INTC_NMINO_INTWDT2_def
  INTC_REG_ICN_BASE_def INTC_REG_ISPR_def INTC_REG_xxICnStr_def INTC_REG_xxICnEnd_def
  MPU_ADDRESS_REGION_MASK_PH_def intc_region_start_def MPU_ADDRESS_REGION_SIZE_INX_INTC_def

record IntcControlWorkType =
  current_intno :: int
  saved_intno_off :: int
  saved_intno_stack :: "nat \<Rightarrow> int"
  is_waiting_lvl :: "nat \<Rightarrow> u8"
  waiting_lvl_num :: "nat \<Rightarrow> u32"
  waiting_int_num :: u32

record intc_state =
  ic_nmi :: NmiIntcStatusType
  ic_work :: "nat \<Rightarrow> IntcControlWorkType"
  ic_data :: "nat \<Rightarrow> u8"
  ic_cores :: "nat \<Rightarrow> TargetCoreType"

definition set_work :: "nat \<Rightarrow> IntcControlWorkType \<Rightarrow> intc_state \<Rightarrow> intc_state" where
  "set_work c w s = s\<lparr>ic_work := (ic_work s)(c := w)\<rparr>"

definition set_core :: "nat \<Rightarrow> TargetCoreType \<Rightarrow> intc_state \<Rightarrow> intc_state" where
  "set_core c k s = s\<lparr>ic_cores := (ic_cores s)(c := k)\<rparr>"

text \<open>Array bounds.\<close>

definition check :: "bool \<Rightarrow> unit option" where
  "check b = (if b then Some () else None)"

lemma check_simps [simp]: "check True = Some ()" "check False = None"
  by (simp_all add: check_def)

section \<open>The register region\<close>

definition intc_regaddr_icn :: "nat \<Rightarrow> u32" where
  "intc_regaddr_icn intno = INTC_REG_ICN_BASE + of_nat intno * 2"

definition INTC_MASK_ECR_CODE :: "nat \<Rightarrow> u32" where
  "INTC_MASK_ECR_CODE intno = 0x0080 + of_nat intno * 16"

text \<open>\<open>intc_get_pointer\<close>: an index into the region data.\<close>

definition intc_get_pointer :: "nat \<Rightarrow> u32 \<Rightarrow> nat" where
  "intc_get_pointer cid addr =
     unat (addr - intc_region_start) + cid * MPU_ADDRESS_REGION_SIZE_INX_INTC"

definition intc_reg_pointer :: "nat \<Rightarrow> u32 \<Rightarrow> nat" where
  "intc_reg_pointer cid regaddr = intc_get_pointer cid (regaddr AND MPU_ADDRESS_REGION_MASK_PH)"

definition data_in :: "nat \<Rightarrow> bool" where
  "data_in p \<longleftrightarrow> p < MPU_ADDRESS_REGION_SIZE_INX_INTC * CPU_CONFIG_CORE_NUM"

definition rd8 :: "intc_state \<Rightarrow> nat \<Rightarrow> u8 option" where
  "rd8 s p = (if data_in p then Some (ic_data s p) else None)"

definition wr8 :: "nat \<Rightarrow> u8 \<Rightarrow> intc_state \<Rightarrow> intc_state option" where
  "wr8 p v s = (if data_in p then Some (s\<lparr>ic_data := (ic_data s)(p := v)\<rparr>) else None)"

definition wr16 :: "nat \<Rightarrow> u16 \<Rightarrow> intc_state \<Rightarrow> intc_state option" where
  "wr16 p v s = do { s \<leftarrow> wr8 p (ucast v) s; wr8 (p + 1) (ucast (drop_bit 8 v)) s }"

section \<open>Initialisation\<close>

definition init_work :: "IntcControlWorkType \<Rightarrow> IntcControlWorkType" where
  "init_work w = w\<lparr>
     is_waiting_lvl := (\<lambda>i. if i < INTC_NUM then of_nat INTC_NUM_INTLVL else is_waiting_lvl w i),
     waiting_lvl_num := (\<lambda>i. if i < INTC_NUM then 0 else waiting_lvl_num w i),
     current_intno := -1,
     waiting_int_num := 0,
     saved_intno_off := 0,
     saved_intno_stack := (\<lambda>i. if i < INTC_NUM_INTLVL then 0 else saved_intno_stack w i)\<rparr>"

text \<open>A \<open>for\<close> loop over indices whose body may be undefined.\<close>

fun for_each :: "('a \<Rightarrow> 's \<Rightarrow> 's option) \<Rightarrow> 'a list \<Rightarrow> 's \<Rightarrow> 's option" where
  "for_each body [] s = Some s"
| "for_each body (i # is) s = do { s \<leftarrow> body i s; for_each body is s }"

definition init_core :: "nat \<Rightarrow> intc_state \<Rightarrow> intc_state option" where
  "init_core coreId s = do {
     check (coreId < CPU_CONFIG_CORE_NUM);
     let s = set_work coreId (init_work (ic_work s coreId)) s;
     s \<leftarrow> for_each (\<lambda>i s. wr8 (intc_reg_pointer coreId (intc_regaddr_icn i)) 0x47 s) [0..<INTC_NUM] s;
     s \<leftarrow> for_each (\<lambda>r s. wr16 (intc_reg_pointer coreId r) 0xFFFF s)
           [0xFFFFF100, 0xFFFFF102, 0xFFFFF104, 0xFFFFF106, 0xFFFFF108, 0xFFFFF10A, 0xFFFFF10C] s;
     s \<leftarrow> wr8 (intc_reg_pointer coreId 0xFFFFF10E) 0x1F s;
     wr8 (intc_reg_pointer coreId INTC_REG_ISPR) 0x00 s
   }"

definition device_init_intc :: "nat \<Rightarrow> intc_state \<Rightarrow> intc_state option" where
  "device_init_intc core_id_num s =
     for_each init_core [0..<core_id_num] (s\<lparr>ic_nmi := \<lparr>intwdt2_hasreq = False, nmi_reqnum = 0\<rparr>\<rparr>)"

section \<open>Waiting interrupts\<close>

definition is_idle :: "IntcControlWorkType \<Rightarrow> nat \<Rightarrow> bool" where
  "is_idle w intno \<longleftrightarrow> unat (is_waiting_lvl w intno) = INTC_NUM_INTLVL"

definition set_wait_intno :: "nat \<Rightarrow> u32 \<Rightarrow> IntcControlWorkType \<Rightarrow> IntcControlWorkType" where
  "set_wait_intno intno lvl w =
     (if is_idle w intno then
        w\<lparr>is_waiting_lvl := (is_waiting_lvl w)(intno := ucast lvl),
          waiting_lvl_num := (waiting_lvl_num w)(intno := 1),
          waiting_int_num := waiting_int_num w + 1\<rparr>
      else w)"

definition clr_wait_intno :: "nat \<Rightarrow> IntcControlWorkType \<Rightarrow> IntcControlWorkType" where
  "clr_wait_intno intno w =
     (if 0 < waiting_lvl_num w intno then
        let w = w\<lparr>waiting_lvl_num := (waiting_lvl_num w)(intno := waiting_lvl_num w intno - 1)\<rparr>;
            w = (if waiting_lvl_num w intno = 0
                 then w\<lparr>is_waiting_lvl := (is_waiting_lvl w)(intno := of_nat INTC_NUM_INTLVL)\<rparr> else w)
        in w\<lparr>waiting_int_num := waiting_int_num w - 1\<rparr>
      else w)"

definition is_masked :: "nat \<Rightarrow> nat \<Rightarrow> intc_state \<Rightarrow> bool option" where
  "is_masked cid intno s = do {
     wdata \<leftarrow> rd8 s (intc_reg_pointer cid (intc_regaddr_icn intno));
     Some (wdata AND push_bit 6 1 = push_bit 6 1)
   }"

text \<open>The key by which requests are ordered: the level first, then the interrupt number.\<close>

definition pri_key :: "IntcControlWorkType \<Rightarrow> nat \<Rightarrow> u32" where
  "pri_key w intno = push_bit 16 (ucast (is_waiting_lvl w intno)) OR of_nat intno"

definition maxpri_body :: "nat \<Rightarrow> intc_state \<Rightarrow> nat \<Rightarrow> int \<times> u32 \<Rightarrow> (int \<times> u32) option" where
  "maxpri_body cid s i = (\<lambda>(next_intno, minlvl).
     let w = ic_work s cid
     in if is_idle w i then Some (next_intno, minlvl)
        else if 0 < current_intno w \<and> current_intno w = int i then Some (next_intno, minlvl)
        else do {
          masked \<leftarrow> is_masked cid i s;
          if masked then Some (next_intno, minlvl)
          else let tmp_lvl = pri_key w i
               in if tmp_lvl < minlvl then Some (int i, tmp_lvl) else Some (next_intno, minlvl)
        })"

definition get_maxpri_itno :: "nat \<Rightarrow> intc_state \<Rightarrow> int option" where
  "get_maxpri_itno cid s = do {
     check (cid < CPU_CONFIG_CORE_NUM);
     let w = ic_work s cid;
     if waiting_int_num w = 0 then Some (-1)
     else do {
       minlvl \<leftarrow> (if 0 \<le> current_intno w then do {
                    check (nat (current_intno w) < INTC_NUM);
                    Some (pri_key w (nat (current_intno w)))
                  } else Some 0xFFFFFFFF);
       (next_intno, minlvl) \<leftarrow> for_each (maxpri_body cid s) [0..<INTC_NUM] (-1, minlvl);
       Some next_intno
     }
   }"

section \<open>Raising and clearing interrupts\<close>

text \<open>\<open>c\<close> is the position of the core in \<open>cores\<close>; the work area is chosen by the core's own number.\<close>

definition intc_raise :: "nat \<Rightarrow> nat \<Rightarrow> intc_state \<Rightarrow> intc_state option" where
  "intc_raise c intno s =
     (let cpu = ic_cores s c; cid = unat (core_id cpu) in do {
        check (cid < CPU_CONFIG_CORE_NUM \<and> intno < INTC_NUM);
        let w = ic_work s cid;
        let lvl = is_waiting_lvl w intno;
        if psw_isset CPU_PSW_NP (reg cpu) then Some s
        else if psw_isset CPU_PSW_ID (reg cpu) then Some s
        else do {
          w \<leftarrow> (if current_intno w \<noteq> -1 then do {
                  check (0 \<le> saved_intno_off w \<and> nat (saved_intno_off w) < INTC_NUM_INTLVL);
                  Some (w\<lparr>saved_intno_stack := (saved_intno_stack w)(nat (saved_intno_off w) := current_intno w),
                          saved_intno_off := saved_intno_off w + 1\<rparr>)
                } else Some w);
          let w = w\<lparr>current_intno := int intno\<rparr>;
          let g = reg cpu;
          let g = set_cpu_base SYS_REG_EIPC (reg_pc g) g;
          let g = set_cpu_base SYS_REG_EIPSW (sys_get_cpu_base g SYS_REG_PSW) g;
          let wdata32 = (sys_get_cpu_base g SYS_REG_ECR AND 0xFFFF0000) OR INTC_MASK_ECR_CODE intno;
          let g = set_cpu_base SYS_REG_ECR wdata32 g;
          let g = psw_set CPU_PSW_ID g;
          let g = psw_clr CPU_PSW_EP g;
          ispr \<leftarrow> rd8 s (intc_reg_pointer cid INTC_REG_ISPR);
          s \<leftarrow> wr8 (intc_reg_pointer cid INTC_REG_ISPR)
                (ispr OR ucast (push_bit (unat lvl) 1 :: u32)) s;
          let g = g\<lparr>reg_pc := INTC_MASK_ECR_CODE intno\<rparr>;
          let s = set_core c (cpu\<lparr>reg := g\<rparr>) (set_work cid w s);
          Some (set_core cid ((ic_cores s cid)\<lparr>is_halt := False\<rparr>) s)
        }
      })"

definition common_raise_intr :: "nat \<Rightarrow> nat \<Rightarrow> intc_state \<Rightarrow> intc_state option" where
  "common_raise_intr intno coreId s = do {
     check (coreId < CPU_CONFIG_CORE_NUM \<and> intno < INTC_NUM);
     let p = intc_reg_pointer coreId (intc_regaddr_icn intno);
     wdata \<leftarrow> rd8 s p;
     let wdata = wdata OR push_bit 7 1;
     s \<leftarrow> wr8 p wdata s;
     let lvl = wdata AND 0x07;
     let s = set_work coreId (set_wait_intno intno (ucast lvl) (ic_work s coreId)) s;
     Some (set_core coreId ((ic_cores s coreId)\<lparr>is_halt := False\<rparr>) s)
   }"

definition intc_cpu_trigger_interrupt :: "nat \<Rightarrow> nat \<Rightarrow> intc_state \<Rightarrow> intc_state option" where
  "intc_cpu_trigger_interrupt cid intno s =
     common_raise_intr intno (if cid = 0 then 1 else 0) s"

definition intc_raise_intr :: "nat \<Rightarrow> nat \<Rightarrow> intc_state \<Rightarrow> intc_state option" where
  "intc_raise_intr core_id_num intno s = for_each (common_raise_intr intno) [0..<core_id_num] s"

definition intc_clr_currlvl_ispr :: "nat \<Rightarrow> intc_state \<Rightarrow> intc_state option" where
  "intc_clr_currlvl_ispr cid s = do {
     check (cid < CPU_CONFIG_CORE_NUM);
     let w = ic_work s cid;
     if current_intno w = -1 then Some s
     else do {
       check (0 \<le> current_intno w \<and> nat (current_intno w) < INTC_NUM);
       let cur = nat (current_intno w);
       let lvl = is_waiting_lvl w cur;
       ispr \<leftarrow> rd8 s (intc_reg_pointer cid INTC_REG_ISPR);
       s \<leftarrow> wr8 (intc_reg_pointer cid INTC_REG_ISPR)
             (ispr AND ucast (NOT (push_bit (unat lvl) 1) :: u32)) s;
       wdata \<leftarrow> rd8 s (intc_reg_pointer cid (intc_regaddr_icn cur));
       s \<leftarrow> wr8 (intc_reg_pointer cid (intc_regaddr_icn cur)) (wdata AND NOT (push_bit 7 1)) s;
       let w = clr_wait_intno cur w;
       w \<leftarrow> (if 0 < saved_intno_off w then do {
               let w = w\<lparr>saved_intno_off := saved_intno_off w - 1\<rparr>;
               check (nat (saved_intno_off w) < INTC_NUM_INTLVL);
               Some (w\<lparr>current_intno := saved_intno_stack w (nat (saved_intno_off w))\<rparr>)
             } else Some (w\<lparr>current_intno := -1\<rparr>));
       Some (set_work cid w s)
     }
   }"

section \<open>Non-maskable interrupts\<close>

definition can_raise_inwtdt2 :: "TargetCoreType \<Rightarrow> bool" where
  "can_raise_inwtdt2 cpu = psw_isset CPU_PSW_NP (reg cpu)"

definition raise_intwdt2 :: "TargetCoreType \<Rightarrow> TargetCoreType" where
  "raise_intwdt2 cpu =
     (let g = reg cpu;
          g = set_cpu_base SYS_REG_FEPC 0 g;
          g = set_cpu_base SYS_REG_FEPSW (sys_get_cpu_base g SYS_REG_PSW) g;
          g = set_cpu_base SYS_REG_ECR (sys_get_cpu_base g SYS_REG_ECR OR push_bit 16 INTC_FECC_INTWDT2) g;
          g = psw_set CPU_PSW_NP g;
          g = psw_clr CPU_PSW_EP g;
          g = psw_set CPU_PSW_ID g
      in cpu\<lparr>is_halt := False, reg := g\<lparr>reg_pc := INTC_FECC_INTWDT2\<rparr>\<rparr>)"

definition raise_nmi :: "TargetCoreType \<Rightarrow> TargetCoreType" where
  "raise_nmi cpu =
     (if psw_isset CPU_PSW_NP (reg cpu) then cpu
      else
        let g = reg cpu;
            g = set_cpu_base SYS_REG_FEPC (reg_pc g) g;
            g = set_cpu_base SYS_REG_FEPSW (sys_get_cpu_base g SYS_REG_PSW) g;
            g = set_cpu_base SYS_REG_ECR (sys_get_cpu_base g SYS_REG_ECR OR push_bit 16 INTC_FECC_NMI) g;
            g = psw_set CPU_PSW_NP g;
            g = psw_clr CPU_PSW_EP g;
            g = psw_set CPU_PSW_ID g
        in cpu\<lparr>is_halt := False, reg := g\<lparr>reg_pc := INTC_FECC_NMI\<rparr>\<rparr>)"

definition intc_raise_pending_intr :: "nat \<Rightarrow> intc_state \<Rightarrow> intc_state option" where
  "intc_raise_pending_intr c s =
     (let cpu = ic_cores s c in
      if intwdt2_hasreq (ic_nmi s) then
        (if \<not> can_raise_inwtdt2 cpu then Some s else Some (set_core c (raise_intwdt2 cpu) s))
      else if 0 < nmi_reqnum (ic_nmi s) then Some (set_core c (raise_nmi cpu) s)
      else do {
        let cid = unat (core_id cpu);
        maxlvl_intno \<leftarrow> get_maxpri_itno cid s;
        if maxlvl_intno < 0 then Some s
        else if maxlvl_intno = current_intno (ic_work s cid) then Some s
        else intc_raise c (nat maxlvl_intno) s
      })"

definition intc_raise_nmi :: "u32 \<Rightarrow> NmiIntcStatusType \<Rightarrow> NmiIntcStatusType" where
  "intc_raise_nmi nmino n =
     (if nmino = INTC_NMINO_INTWDT2 then n\<lparr>intwdt2_hasreq := True\<rparr>
      else n\<lparr>nmi_reqnum := nmi_reqnum n + 1\<rparr>)"

text \<open>\<open>intc_clr_nmi\<close>, called by RETI, resets the core after a watchdog NMI.\<close>

definition intc_clr_nmi :: "'w machine \<Rightarrow> 'w machine" where
  "intc_clr_nmi m =
     (if intwdt2_hasreq (m_nmi m) then m\<lparr>m_core := private_cpu_reset (m_core m)\<rparr>
      else m\<lparr>m_nmi := (m_nmi m)\<lparr>nmi_reqnum := nmi_reqnum (m_nmi m) - 1\<rparr>\<rparr>)"

text \<open>One clock: the interrupt clock of the device advances while a core is in an interrupt.\<close>

definition device_supply_clock_intc :: "nat \<Rightarrow> u64 \<times> intc_state \<Rightarrow> (u64 \<times> intc_state) option" where
  "device_supply_clock_intc core_id_num = (\<lambda>(intclock, s).
     let intclock = (if \<exists>c \<in> set [0..<core_id_num]. current_intno (ic_work s c) \<noteq> -1
                     then intclock + 1 else intclock)
     in do {
       s \<leftarrow> for_each intc_raise_pending_intr [0..<core_id_num] s;
       Some (intclock, s)
     })"

section \<open>Register access\<close>

definition get_imrno :: "u32 \<Rightarrow> int" where
  "get_imrno regaddr =
     (if regaddr = 0x03FFF100 then 0 else if regaddr = 0x03FFF102 then 1
      else if regaddr = 0x03FFF104 then 2 else if regaddr = 0x03FFF106 then 3
      else if regaddr = 0x03FFF108 then 4 else if regaddr = 0x03FFF10A then 5
      else if regaddr = 0x03FFF10C then 6 else if regaddr = 0x03FFF10E then 7
      else -1)"

definition get_xxICn :: "u32 \<Rightarrow> int" where
  "get_xxICn regaddr =
     (if regaddr < INTC_REG_xxICnStr AND MPU_ADDRESS_REGION_MASK_PH then -1
      else if INTC_REG_xxICnEnd AND MPU_ADDRESS_REGION_MASK_PH < regaddr then -1
      else uint ((regaddr - (INTC_REG_xxICnStr AND MPU_ADDRESS_REGION_MASK_PH)) div 2))"

definition hook_mask_bit :: "nat \<Rightarrow> u16 \<Rightarrow> nat \<Rightarrow> nat \<Rightarrow> intc_state \<Rightarrow> intc_state option" where
  "hook_mask_bit cid data intno0 i s =
     (let intno = intno0 + i in
      if intno = INTC_PINTNO_NOUSE then Some s
      else if INTC_INTNO_MAX < intno then Some s
      else do {
        let p = intc_reg_pointer cid (intc_regaddr_icn intno);
        v \<leftarrow> rd8 s p;
        wr8 p (if bit data i then v OR push_bit 6 1 else v AND NOT (push_bit 6 1)) s
      })"

definition intc_hook_update_reg8 :: "nat \<Rightarrow> u32 \<Rightarrow> u8 \<Rightarrow> intc_state \<Rightarrow> intc_state option" where
  "intc_hook_update_reg8 cid regaddr data s =
     (let imrno = get_imrno regaddr in
      if 0 \<le> imrno then for_each (hook_mask_bit cid (ucast data) (nat imrno * 16)) [0..<8] s
      else if 0 \<le> get_xxICn regaddr then intc_clr_currlvl_ispr cid s
      else Some s)"

definition intc_hook_update_reg16 :: "nat \<Rightarrow> u32 \<Rightarrow> u16 \<Rightarrow> intc_state \<Rightarrow> intc_state option" where
  "intc_hook_update_reg16 cid regaddr data s =
     (let imrno = get_imrno regaddr in
      if imrno < 0 then Some s
      else for_each (hook_mask_bit cid data (nat imrno * 16)) [0..<16] s)"

definition intc_get_data8 :: "nat \<Rightarrow> u32 \<Rightarrow> intc_state \<Rightarrow> u8 option" where
  "intc_get_data8 cid addr s = rd8 s (intc_get_pointer cid addr)"

definition intc_get_data16 :: "nat \<Rightarrow> u32 \<Rightarrow> intc_state \<Rightarrow> u16 option" where
  "intc_get_data16 cid addr s = do {
     let p = intc_get_pointer cid addr;
     b0 \<leftarrow> rd8 s p;
     b1 \<leftarrow> rd8 s (p + 1);
     Some (ucast b0 OR push_bit 8 (ucast b1))
   }"

definition intc_get_data32 :: "nat \<Rightarrow> u32 \<Rightarrow> intc_state \<Rightarrow> u32 option" where
  "intc_get_data32 cid addr s = do {
     let p = intc_get_pointer cid addr;
     b0 \<leftarrow> rd8 s p;
     b1 \<leftarrow> rd8 s (p + 1);
     b2 \<leftarrow> rd8 s (p + 2);
     b3 \<leftarrow> rd8 s (p + 3);
     Some (ucast b0 OR push_bit 8 (ucast b1) OR push_bit 16 (ucast b2) OR push_bit 24 (ucast b3))
   }"

definition intc_put_data8 :: "nat \<Rightarrow> u32 \<Rightarrow> u8 \<Rightarrow> intc_state \<Rightarrow> intc_state option" where
  "intc_put_data8 cid addr data s = do {
     s \<leftarrow> intc_hook_update_reg8 cid addr data s;
     wr8 (intc_get_pointer cid addr) data s
   }"

definition intc_put_data16 :: "nat \<Rightarrow> u32 \<Rightarrow> u16 \<Rightarrow> intc_state \<Rightarrow> intc_state option" where
  "intc_put_data16 cid addr data s = do {
     s \<leftarrow> intc_hook_update_reg16 cid addr data s;
     wr16 (intc_get_pointer cid addr) data s
   }"

definition intc_put_data32 :: "nat \<Rightarrow> u32 \<Rightarrow> u32 \<Rightarrow> intc_state \<Rightarrow> intc_state option" where
  "intc_put_data32 cid addr data s = do {
     let p = intc_get_pointer cid addr;
     s \<leftarrow> wr16 p (ucast data) s;
     wr16 (p + 2) (ucast (drop_bit 16 data)) s
   }"

end
