(* ===== verification/V850_Exec_Spec.thy ===== *)
theory V850_Exec_Spec
  imports V850_Exec_Arith V850_Fpu_Regs V850_Intc
begin

unbundle bit_operations_syntax

text \<open>
  The system executors of \<open>src/cpu/cpu_exec/op_exec_spec.c\<close>: system register access with its
  privilege check, exceptions and returns from them, the table jump, the two stack frame
  instructions and compare-and-exchange. While an executor runs, the current core is the core
  it runs on, so the program counter that the permission check records is this core's.
\<close>

section \<open>System registers\<close>

definition set_sysreg_grp_bnk :: "u32 \<Rightarrow> CpuRegisterType \<Rightarrow> int \<times> CpuRegisterType" where
  "set_sysreg_grp_bnk sysreg g =
     (let bnk = sysreg AND 0x000000FF;
          grp = drop_bit 8 (sysreg AND 0x0000FF00);
          sel =
            (if grp = 0x00 then
               (if bnk = 0x00 then Some (SYS_GRP_CPU, 0)
                else if bnk = 0x10 then Some (SYS_GRP_CPU, 1)
                else if bnk = 0x11 then Some (SYS_GRP_CPU, 2) else None)
             else if grp = 0x10 then
               (if bnk = 0x00 then Some (SYS_GRP_PROSESSOR, 0)
                else if bnk = 0x01 then Some (SYS_GRP_PROSESSOR, 1)
                else if bnk = 0x10 then Some (SYS_GRP_PROSESSOR, 2) else None)
             else if grp = 0x11 then (if bnk = 0x00 then Some (SYS_GRP_PMU, 0) else None)
             else if grp = 0x20 then (if bnk = 0x00 then Some (SYS_GRP_FPU, 0) else None)
             else if grp = 0xFF then
               (if bnk = 0x00 then Some (SYS_GRP_USER, 0)
                else if bnk = 0xFF then Some (SYS_GRP_USER, 1) else None)
             else None)
      in case sel of
           None \<Rightarrow> (-1, g)
         | Some (reg_grp, reg_bnk) \<Rightarrow>
             (0, g\<lparr>reg_sys := (reg_sys g)\<lparr>current_grp := of_nat reg_grp, current_bnk := of_nat reg_bnk\<rparr>\<rparr>))"

definition PSW_PROTECT_VALUE :: "u32 \<Rightarrow> u32" where
  "PSW_PROTECT_VALUE w = w AND 0xFFFFFFC0"

definition has_permission_psw_change :: "u32 \<Rightarrow> u32 \<Rightarrow> bool" where
  "has_permission_psw_change org_psw new_psw =
     (if PSW_PROTECT_VALUE org_psw \<noteq> PSW_PROTECT_VALUE new_psw then False else True)"

definition ldsr_grp_cpu_has_permission :: "TargetCoreType \<Rightarrow> u32 \<Rightarrow> u32 \<Rightarrow> bool" where
  "ldsr_grp_cpu_has_permission cpu regid reg2_data =
     (if current_bnk (reg_sys (reg cpu)) = 0 then
        (if unat regid = SYS_REG_PSW
         then has_permission_psw_change (cpu_get_psw (reg_sys (reg cpu))) reg2_data else False)
      else False)"

definition ldsr_has_permission :: "TargetCoreType \<Rightarrow> u32 \<Rightarrow> u32 \<Rightarrow> bool" where
  "ldsr_has_permission cpu regid reg2_data =
     (if IS_TRUSTED CPU_PSW_NPV (cpu_get_psw (reg_sys (reg cpu))) then True
      else if unat (current_grp (reg_sys (reg cpu))) = SYS_GRP_CPU
      then ldsr_grp_cpu_has_permission cpu regid reg2_data
      else False)"

definition CPU_CONFIG_BSEL_MPU_BNK_SETTING :: u32 where "CPU_CONFIG_BSEL_MPU_BNK_SETTING = 0x00001001"
definition CPU_CONFIG_BSEL_FPU_SETTING :: u32 where "CPU_CONFIG_BSEL_FPU_SETTING = 0x00002000"

definition count_sysreg_violation :: "CpuRegisterType \<Rightarrow> CpuRegisterType" where
  "count_sysreg_violation g =
     (let s = reg_sys g;
          s = (if cpu_get_mpu_illegal_factor_sysreg s SYS_REG_MPV_VSECR = 0
               then set_mpu_illegal_factor SYS_REG_MPV_VSADR (reg_pc g)
                      (set_mpu_illegal_factor SYS_REG_MPV_VSTID
                        (cpu_get_mpu_settign_sysreg s SYS_REG_MPU_TID) s)
               else s);
          s = set_mpu_illegal_factor SYS_REG_MPV_VSECR
                (cpu_get_mpu_illegal_factor_sysreg s SYS_REG_MPV_VSECR + 1) s
      in g\<lparr>reg_sys := s\<rparr>)"

definition op_exec_ldsr :: "TargetCoreType \<Rightarrow> exec_result" where
  "op_exec_ldsr cpu =
     (let regid = f9_reg2 cpu; reg2 = f9_gen1 cpu
      in greg_check reg2 cpu (greg_check regid cpu (do {
           let sysreg = cpu_get_sysreg (reg_sys (reg cpu)) regid;
           r2 \<leftarrow> rd_r (reg cpu) reg2;
           if \<not> ldsr_has_permission cpu regid r2 then ret cpu (add_pc 4 (count_sysreg_violation (reg cpu)))
           else
             let (ret', g) = (if regid = 31 then set_sysreg_grp_bnk r2 (reg cpu) else (0, reg cpu))
             in if ret' < 0 then Some (-1, cpu)
                else do {
                  s \<leftarrow> ref_write (reg_sys g) sysreg r2;
                  let cpu = cpu\<lparr>reg := g\<lparr>reg_sys := s\<rparr>\<rparr>;
                  cpu \<leftarrow>
                    (if sys_sysreg s CPU_SYSREG_BSEL = CPU_CONFIG_BSEL_MPU_BNK_SETTING
                     then Some (private_cpu_mpu_construct_containers cpu)
                     else if sys_sysreg s CPU_SYSREG_BSEL = CPU_CONFIG_BSEL_FPU_SETTING
                     then map_option (\<lambda>g. cpu\<lparr>reg := g\<rparr>) (fpu_sync_sysreg regid (current_grp s) (reg cpu))
                     else Some cpu);
                  ret cpu (add_pc 4 (reg cpu))
                }
         })))"

definition op_exec_stsr :: "TargetCoreType \<Rightarrow> exec_result" where
  "op_exec_stsr cpu =
     (let regid = f9_gen1 cpu; reg2 = f9_reg2 cpu
      in greg_check reg2 cpu (greg_check regid cpu (do {
           v \<leftarrow> ref_read (reg_sys (reg cpu)) (cpu_get_sysreg (reg_sys (reg cpu)) regid);
           g \<leftarrow> wr_r (reg cpu) reg2 v;
           ret cpu (add_pc 4 g)
         })))"

section \<open>Interrupt enable, returns and exceptions\<close>

abbreviation f10_gen2 :: "TargetCoreType \<Rightarrow> u32" where
  "f10_gen2 cpu \<equiv> t10_gen2 (type10 (decoded_code cpu))"

definition op_exec_diei :: "TargetCoreType \<Rightarrow> exec_result" where
  "op_exec_diei cpu =
     (let g = (if t10_gen1 (type10 (decoded_code cpu)) = 0x04 then psw_clr CPU_PSW_ID (reg cpu)
               else psw_set CPU_PSW_ID (reg cpu))
      in ret cpu (add_pc 4 g))"

definition op_exec_nop :: "TargetCoreType \<Rightarrow> exec_result" where
  "op_exec_nop cpu = ret cpu (add_pc 2 (reg cpu))"

definition return_from :: "nat \<Rightarrow> nat \<Rightarrow> CpuRegisterType \<Rightarrow> CpuRegisterType" where
  "return_from reg_pc' reg_psw g =
     (let g = g\<lparr>reg_pc := sys_get_cpu_base g reg_pc'\<rparr>
      in set_cpu_base SYS_REG_PSW (sys_get_cpu_base g reg_psw) g)"

definition op_exec_reti :: "'w machine \<Rightarrow> 'w bus_result" where
  "op_exec_reti m =
     (if psw_isset CPU_PSW_EP (m_reg m) then
        m_ret m (return_from SYS_REG_EIPC SYS_REG_EIPSW (m_reg m))
      else if psw_isset CPU_PSW_NP (m_reg m) then
        Some (0, intc_clr_nmi (m_set_reg (return_from SYS_REG_FEPC SYS_REG_FEPSW (m_reg m)) m))
      else m_ret m (return_from SYS_REG_EIPC SYS_REG_EIPSW (m_reg m)))"

definition op_exec_feret_10 :: "TargetCoreType \<Rightarrow> exec_result" where
  "op_exec_feret_10 cpu = ret cpu (return_from SYS_REG_FEPC SYS_REG_FEPSW (reg cpu))"

definition op_exec_eiret_10 :: "TargetCoreType \<Rightarrow> exec_result" where
  "op_exec_eiret_10 cpu = ret cpu (return_from SYS_REG_EIPC SYS_REG_EIPSW (reg cpu))"

definition op_exec_halt :: "TargetCoreType \<Rightarrow> exec_result" where
  "op_exec_halt cpu = ret (cpu\<lparr>is_halt := True\<rparr>) (add_pc 4 (reg cpu))"

text \<open>The four protection bits of the PSW, cleared when \<open>MPM.AUE\<close> is set.\<close>

definition clear_protection :: "CpuRegisterType \<Rightarrow> CpuRegisterType" where
  "clear_protection g =
     psw_clr CPU_PSW_PP (psw_clr CPU_PSW_NPV (psw_clr CPU_PSW_DMP (psw_clr CPU_PSW_IMP g)))"

definition op_exec_trap :: "TargetCoreType \<Rightarrow> exec_result" where
  "op_exec_trap cpu =
     (let vector = f10_gen2 cpu;
          target =
            (if vector \<le> 0x0F then Some (0x40, 0x40 + vector)
             else if vector \<le> 0x1F then Some (0x50, 0x50 + (0x0F AND vector))
             else None)
      in case target of
           None \<Rightarrow> Some (0, cpu)
         | Some (pc, eicc) \<Rightarrow>
             let g = reg cpu;
                 g = (if CPU_ISSET_MPM_AUE (reg_sys g) then clear_protection g else g);
                 g = set_cpu_base SYS_REG_EIPC (reg_pc g + 4) g;
                 g = set_cpu_base SYS_REG_EIPSW (sys_get_cpu_base g SYS_REG_PSW) g;
                 ecr = (sys_get_cpu_base g SYS_REG_ECR AND 0x0000FFFF) OR push_bit 16 eicc;
                 g = set_cpu_base SYS_REG_ECR ecr g;
                 g = psw_set CPU_PSW_EP g;
                 g = psw_set CPU_PSW_ID g
             in ret cpu (g\<lparr>reg_pc := pc\<rparr>))"

definition op_exec_fetrap_1 :: "TargetCoreType \<Rightarrow> exec_result" where
  "op_exec_fetrap_1 cpu =
     (let g = reg cpu;
          vector = f1_reg2 cpu;
          w = sys_get_cpu_base g SYS_REG_PSW;
          ecr = sys_get_cpu_base g SYS_REG_ECR;
          fepc = reg_pc g + 2;
          fecc = 0x30 + vector;
          ecr = (ecr AND 0x0000FFFF) OR push_bit 16 fecc;
          g = set_cpu_base SYS_REG_FEPC fepc g;
          g = set_cpu_base SYS_REG_FEIC fecc g;
          g = set_cpu_base SYS_REG_FEPSW w g;
          g = set_cpu_base SYS_REG_ECR ecr g;
          g = psw_set CPU_PSW_EP g;
          g = psw_set CPU_PSW_ID g;
          g = psw_set CPU_PSW_NP g;
          g = (if CPU_ISSET_MPM_AUE (reg_sys g) then clear_protection g else g)
      in ret cpu (g\<lparr>reg_pc := 0x00000030\<rparr>))"

definition op_exec_syscall_10 :: "'w bus \<Rightarrow> 'w machine \<Rightarrow> 'w bus_result" where
  "op_exec_syscall_10 bus m =
     (let g = m_reg m;
          w = sys_get_cpu_base g SYS_REG_PSW;
          scbp = sys_get_cpu_base g SYS_REG_SCBP;
          sccfg_size = sys_get_cpu_base g SYS_REG_SCCFG AND 0x000000FF;
          vector8 = push_bit 5 (ucast (t10_rfu3 (type10 (decoded_code (m_core m))))) OR f10_gen2 (m_core m);
          eipc = reg_pc g + 4;
          eiic = 0x8000 + vector8;
          ecr = (sys_get_cpu_base g SYS_REG_ECR AND 0xFFFF0000) OR eiic;
          g = set_cpu_base SYS_REG_EIPC eipc g;
          g = set_cpu_base SYS_REG_EIIC eiic g;
          g = set_cpu_base SYS_REG_EIPSW w g;
          g = set_cpu_base SYS_REG_ECR ecr g;
          g = psw_set CPU_PSW_EP g;
          g = psw_set CPU_PSW_ID g;
          (g, backupDmp, dmpIsTrusted) =
            (if CPU_ISSET_MPM_AUE (reg_sys g) then (clear_protection g, False, False)
             else (psw_clr CPU_PSW_DMP g, True, IS_TRUSTED CPU_PSW_DMP w));
          addr = (if vector8 \<le> sccfg_size then scbp + push_bit 2 vector8 else scbp);
          (err, data, m) = bus_get_data32 bus (core_id (m_core m)) addr (m_set_reg g m)
      in if err \<noteq> STD_E_OK then Some (-1, m)
         else let g = m_reg m;
                  g = (if backupDmp then
                         (if dmpIsTrusted then psw_clr CPU_PSW_DMP g else psw_set CPU_PSW_DMP g)
                       else g)
              in m_ret m (g\<lparr>reg_pc := scbp + data\<rparr>))"

definition op_exec_switch :: "'w bus \<Rightarrow> 'w machine \<Rightarrow> 'w bus_result" where
  "op_exec_switch bus m =
     (let reg1 = f1_reg1 (m_core m)
      in m_greg_check reg1 m (do {
           reg1_data \<leftarrow> rd_r (m_reg m) reg1;
           let addr = (reg_pc (m_reg m) + 2) + push_bit 1 reg1_data;
           let (err, data16, m) = bus_get_data16 bus (core_id (m_core m)) addr m;
           if err \<noteq> STD_E_OK then Some (-1, m)
           else
             let tmp_pc = push_bit 1 (scast data16);
                 next_pc = (reg_pc (m_reg m) + 2) + tmp_pc
             in m_ret m ((m_reg m)\<lparr>reg_pc := next_pc\<rparr>)
         }))"

section \<open>Stack frames\<close>

abbreviation f13_list :: "TargetCoreType \<Rightarrow> nat \<Rightarrow> u8" where
  "f13_list cpu \<equiv> t13_list (type13 (decoded_code cpu))"
abbreviation f13_gen :: "TargetCoreType \<Rightarrow> u16" where
  "f13_gen cpu \<equiv> t13_gen (type13 (decoded_code cpu))"
abbreviation f13_imm :: "TargetCoreType \<Rightarrow> u32" where
  "f13_imm cpu \<equiv> t13_imm (type13 (decoded_code cpu))"

text \<open>Four bytes for each register of \<open>is\<close> that the list names.\<close>

fun frame_size :: "TargetCoreType \<Rightarrow> nat list \<Rightarrow> u32 \<Rightarrow> u32" where
  "frame_size cpu [] n = n"
| "frame_size cpu (i # is) n = (if f13_list cpu i = 0 then frame_size cpu is n else frame_size cpu is (n + 4))"

definition m_permission ::
  "object_container \<Rightarrow> MpuAddressRegionEnumType \<Rightarrow> CpuMemoryAccessType \<Rightarrow> u32 \<Rightarrow> u32
   \<Rightarrow> 'w machine \<Rightarrow> bool \<times> 'w machine" where
  "m_permission oc region_type access_type addr nbytes m =
     (case cpu_has_permission oc (reg_pc (m_reg m)) region_type access_type addr nbytes (m_core m) of
        (permission, cpu) \<Rightarrow> (permission, m\<lparr>m_core := cpu\<rparr>))"

definition has_permission_prepare ::
  "object_container \<Rightarrow> nat \<Rightarrow> u16 \<Rightarrow> 'w machine \<Rightarrow> bool \<times> 'w machine" where
  "has_permission_prepare oc start_reg ff m =
     (let stack_write_off = reg_r (m_reg m) 3;
          program_read_off = reg_pc (m_reg m) + 4;
          stack_write_size = frame_size (m_core m) [start_reg..<32] 0;
          program_read_size =
            (if ff = 0b00 then 0 else if ff = 0b01 then 2 else if ff = 0b10 then 2
             else if ff = 0b11 then 4 else 0);
          (permission, m) =
            m_permission oc GLOBAL_MEMORY CpuMemoryAccess_WRITE stack_write_off stack_write_size m
      in if \<not> permission then (False, m)
         else if program_read_size = 0 then (True, m)
         else m_permission oc READONLY_MEMORY CpuMemoryAccess_EXEC program_read_off program_read_size m)"

definition m_add_elaps :: "u32 \<Rightarrow> 'w machine \<Rightarrow> 'w machine" where
  "m_add_elaps n m = m\<lparr>m_core := (m_core m)\<lparr>real_elaps := real_elaps (m_core m) + n\<rparr>\<rparr>"

fun prepare_loop :: "'w bus \<Rightarrow> nat list \<Rightarrow> 'w machine \<Rightarrow> int \<times> 'w machine" where
  "prepare_loop bus [] m = (0, m)"
| "prepare_loop bus (i # is) m =
     (if f13_list (m_core m) i = 0 then prepare_loop bus is m
      else
        let addr = reg_r (m_reg m) 3 - 4;
            (err, addrp, m) = bus_get_pointer bus (core_id (m_core m)) addr m
        in if err \<noteq> STD_E_OK then (-1, m)
           else
             let m = host_put32 bus addrp (reg_r (m_reg m) i) m;
                 m = m_set_reg (set_r 3 addr (m_reg m)) m
             in prepare_loop bus is (m_add_elaps 1 m))"

definition op_exec_prepare :: "object_container \<Rightarrow> 'w bus \<Rightarrow> 'w machine \<Rightarrow> 'w bus_result" where
  "op_exec_prepare oc bus m =
     (let subop = f13_gen (m_core m) AND 0x0007;
          ff = drop_bit 3 (f13_gen (m_core m));
          start_reg = 20;
          imm = push_bit 2 (f13_imm (m_core m));
          (permission, m) = has_permission_prepare oc start_reg ff m
      in if \<not> permission then Some (-1, m)
         else
           let (err, m) = prepare_loop bus [start_reg..<32] m
           in if err < 0 then Some (-1, m)
              else
                let m = m_set_reg (set_r 3 (reg_r (m_reg m) 3 - imm) (m_reg m)) m
                in if subop = 1 then m_ret m (add_pc 4 (m_reg m))
                   else
                     let addr = reg_pc (m_reg m) + 4;
                         (err, addrp, m) = bus_get_pointer bus (core_id (m_core m)) addr m;
                         g = m_reg m
                     in if err \<noteq> STD_E_OK then Some (-1, m)
                        else if ff = 0b00 then m_ret m (add_pc 4 (set_r 30 (reg_r g 3) g))
                        else if ff = 0b01 then
                          m_ret m (add_pc 6 (set_r 30 (scast (host_get16 bus addrp m)) g))
                        else if ff = 0b10 then
                          m_ret m (add_pc 6 (set_r 30 (push_bit 16 (ucast (host_get16 bus addrp m))) g))
                        else if ff = 0b11 then
                          m_ret m (add_pc 8 (set_r 30 (host_get32 bus addrp m) g))
                        else Some (-1, m))"

definition has_permission_dispose :: "object_container \<Rightarrow> nat \<Rightarrow> 'w machine \<Rightarrow> bool \<times> 'w machine" where
  "has_permission_dispose oc start_reg m =
     m_permission oc GLOBAL_MEMORY CpuMemoryAccess_READ (reg_r (m_reg m) 3)
       (frame_size (m_core m) [start_reg..<32] 0) m"

fun dispose_loop :: "'w bus \<Rightarrow> nat list \<Rightarrow> 'w machine \<Rightarrow> int \<times> 'w machine" where
  "dispose_loop bus [] m = (0, m)"
| "dispose_loop bus (i # is) m =
     (if f13_list (m_core m) i = 0 then dispose_loop bus is m
      else
        let addr = reg_r (m_reg m) 3;
            (err, addrp, m) = bus_get_pointer bus (core_id (m_core m)) addr m
        in if err \<noteq> STD_E_OK then (-1, m)
           else
             let m = m_set_reg (set_r i (host_get32 bus addrp m) (m_reg m)) m;
                 m = m_set_reg (set_r 3 (addr + 4) (m_reg m)) m
             in dispose_loop bus is (m_add_elaps 1 m))"

definition op_exec_dispose :: "object_container \<Rightarrow> 'w bus \<Rightarrow> 'w machine \<Rightarrow> 'w bus_result" where
  "op_exec_dispose oc bus m =
     (let reg1 = f13_gen (m_core m);
          start_reg = 20;
          imm = push_bit 2 (f13_imm (m_core m));
          m = m\<lparr>m_core := (m_core m)\<lparr>real_elaps := 0\<rparr>\<rparr>;
          (permission, m) = has_permission_dispose oc start_reg m
      in if \<not> permission then Some (-1, m)
         else
           let m = m_set_reg (set_r 3 (reg_r (m_reg m) 3 + imm) (m_reg m)) m;
               (err, m) = dispose_loop bus (rev [start_reg..<32]) m
           in if err < 0 then Some (-1, m)
              else if reg1 \<noteq> 0 then do {
                let m = m_add_elaps 6 m;
                v \<leftarrow> rd_r (m_reg m) (ucast reg1);
                m_ret m ((m_reg m)\<lparr>reg_pc := v\<rparr>)
              }
              else let m = m_add_elaps 2 m in m_ret m (add_pc 4 (m_reg m)))"

section \<open>Compare and exchange\<close>

definition op_exec_caxi :: "'w bus \<Rightarrow> 'w machine \<Rightarrow> 'w bus_result" where
  "op_exec_caxi bus m =
     (let reg1 = f11_reg1 (m_core m); reg2 = f11_reg2 (m_core m); reg3 = f11_reg3 (m_core m)
      in do {
        r1 \<leftarrow> rd_r (m_reg m) reg1;
        let reg1_addr = r1 AND 0xFFFFFFFC;
        reg2_data \<leftarrow> rd_r (m_reg m) reg2;
        reg3_data \<leftarrow> rd_r (m_reg m) reg3;
        let (err, token, m) = bus_get_data16 bus (core_id (m_core m)) reg1_addr m;
        if err \<noteq> STD_E_OK then Some (-1, m)
        else
          let result = (ucast (reg2_data - scast token) :: u16);
              put_data = (if result = 0 then ucast reg3_data else token);
              (err, m) = bus_put_data16 bus (core_id (m_core m)) reg1_addr put_data m
          in if err \<noteq> STD_E_OK then Some (-1, m)
             else do {
               g \<leftarrow> wr_r (m_reg m) reg3 (ucast token);
               let g = op_chk_and_set_borrow reg2_data (scast token) g;
               let g = op_chk_and_set_overflow (ucast reg2_data) (- scast token) g;
               let g = op_chk_and_set_zero (scast result) g;
               let g = op_chk_and_set_sign (scast result) g;
               m_ret m (add_pc 4 g)
             }
      })"

end
