(* ===== verification/V850_Float.thy ===== *)
theory V850_Float
  imports V850_Prelude
begin

unbundle bit_operations_syntax

text \<open>
  The floating-point arithmetic of C that \<open>src/cpu/cpu_exec/op_exec_fpu.c\<close> uses: the operators on
  \<open>float\<close> and \<open>double\<close>, their conversions, \<open>fmaf\<close>, \<open>sqrt\<close>, \<open>sqrtf\<close>, \<open>trunc\<close>, \<open>truncf\<close>, \<open>floorf\<close> and the
  environment of \<open><fenv.h>\<close>, as IEC 60559 (annex F of the C standard) has them. Every operation
  computes the exact result on integers, rounds it once in the rounding mode in force and
  returns the exceptions it raises. What the standard leaves to the implementation (the NaN an
  operation returns, the detection of tiny results, the inexact exception of some conversions)
  is the argument \<open>fp_host\<close>. A conversion to an integer type that cannot hold the value is
  undefined in C and is \<open>None\<close>.
\<close>

section \<open>Formats and numbers\<close>

record fp_format =
  exp_bits :: nat
  man_bits :: nat

definition FLT :: fp_format where "FLT = \<lparr>exp_bits = 8, man_bits = 23\<rparr>"
definition DBL :: fp_format where "DBL = \<lparr>exp_bits = 11, man_bits = 52\<rparr>"

text \<open>The three fields of a number: sign, biased exponent, fraction.\<close>

datatype fp = Fp (fp_neg: bool) (fp_exp: nat) (fp_man: nat)

definition exp_top :: "fp_format \<Rightarrow> nat" where "exp_top F = 2 ^ exp_bits F - 1"
definition exp_bias :: "fp_format \<Rightarrow> int" where "exp_bias F = 2 ^ (exp_bits F - 1) - 1"

definition fp_valid :: "fp_format \<Rightarrow> fp \<Rightarrow> bool" where
  "fp_valid F x \<longleftrightarrow> fp_exp x \<le> exp_top F \<and> fp_man x < 2 ^ man_bits F"

definition fp_is_nan :: "fp_format \<Rightarrow> fp \<Rightarrow> bool" where
  "fp_is_nan F x \<longleftrightarrow> fp_exp x = exp_top F \<and> fp_man x \<noteq> 0"

definition fp_is_snan :: "fp_format \<Rightarrow> fp \<Rightarrow> bool" where
  "fp_is_snan F x \<longleftrightarrow> fp_is_nan F x \<and> fp_man x < 2 ^ (man_bits F - 1)"

definition fp_is_inf :: "fp_format \<Rightarrow> fp \<Rightarrow> bool" where
  "fp_is_inf F x \<longleftrightarrow> fp_exp x = exp_top F \<and> fp_man x = 0"

definition fp_is_zero :: "fp \<Rightarrow> bool" where
  "fp_is_zero x \<longleftrightarrow> fp_exp x = 0 \<and> fp_man x = 0"

definition fp_is_finite :: "fp_format \<Rightarrow> fp \<Rightarrow> bool" where
  "fp_is_finite F x \<longleftrightarrow> fp_exp x < exp_top F"

text \<open>A finite number is \<open>fp_int F x * 2 ^ fp_lsb F x\<close>.\<close>

definition fp_sig :: "fp_format \<Rightarrow> fp \<Rightarrow> nat" where
  "fp_sig F x = (if fp_exp x = 0 then fp_man x else fp_man x + 2 ^ man_bits F)"

definition fp_lsb :: "fp_format \<Rightarrow> fp \<Rightarrow> int" where
  "fp_lsb F x = int (max 1 (fp_exp x)) - exp_bias F - int (man_bits F)"

definition fp_int :: "fp_format \<Rightarrow> fp \<Rightarrow> int" where
  "fp_int F x = (if fp_neg x then - int (fp_sig F x) else int (fp_sig F x))"

definition fp_zero :: "bool \<Rightarrow> fp" where "fp_zero s = Fp s 0 0"
definition fp_inf :: "fp_format \<Rightarrow> bool \<Rightarrow> fp" where "fp_inf F s = Fp s (exp_top F) 0"
definition fp_max :: "fp_format \<Rightarrow> bool \<Rightarrow> fp" where
  "fp_max F s = Fp s (exp_top F - 1) (2 ^ man_bits F - 1)"

definition fp_minus :: "fp \<Rightarrow> fp" where
  "fp_minus x = Fp (\<not> fp_neg x) (fp_exp x) (fp_man x)"

section \<open>The environment and the implementation\<close>

datatype fe_round = FE_TONEAREST | FE_UPWARD | FE_DOWNWARD | FE_TOWARDZERO
datatype fe_except = FE_DIVBYZERO | FE_INEXACT | FE_INVALID | FE_OVERFLOW | FE_UNDERFLOW

type_synonym 'a fp_result = "'a \<times> fe_except list"

record fp_host =
  host_nan :: "fp_format \<Rightarrow> (fp_format \<times> fp) list \<Rightarrow> fp"
  host_tiny_before :: bool
  host_to_int_inexact :: bool
  host_rint_inexact :: bool
  host_fma_invalid :: bool

definition host_ok :: "fp_host \<Rightarrow> bool" where
  "host_ok h \<longleftrightarrow> (\<forall>F xs. fp_valid F (host_nan h F xs) \<and> fp_is_nan F (host_nan h F xs) \<and> \<not> fp_is_snan F (host_nan h F xs))"

section \<open>Rounding\<close>

fun bitlen :: "nat \<Rightarrow> nat" where
  "bitlen n = (if n = 0 then 0 else Suc (bitlen (n div 2)))"

declare bitlen.simps [simp del]

text \<open>\<open>m / 2 ^ k\<close>, and a little more when \<open>sticky\<close>, as an integer; and whether it is not one.\<close>

definition round_nat :: "fe_round \<Rightarrow> bool \<Rightarrow> nat \<Rightarrow> nat \<Rightarrow> bool \<Rightarrow> nat \<times> bool" where
  "round_nat rm s m k sticky =
     (let q = m div 2 ^ k;
          r = m mod 2 ^ k;
          inexact = (r \<noteq> 0 \<or> sticky);
          up = (case rm of
                  FE_TONEAREST \<Rightarrow> 2 ^ k < 2 * r \<or> 2 * r = 2 ^ k \<and> (sticky \<or> odd q)
                | FE_UPWARD \<Rightarrow> inexact \<and> \<not> s
                | FE_DOWNWARD \<Rightarrow> inexact \<and> s
                | FE_TOWARDZERO \<Rightarrow> False)
      in (if up then q + 1 else q, inexact))"

definition fp_overflow :: "fp_format \<Rightarrow> fe_round \<Rightarrow> bool \<Rightarrow> fp" where
  "fp_overflow F rm s =
     (case rm of
        FE_TONEAREST \<Rightarrow> fp_inf F s
      | FE_UPWARD \<Rightarrow> if s then fp_max F s else fp_inf F s
      | FE_DOWNWARD \<Rightarrow> if s then fp_inf F s else fp_max F s
      | FE_TOWARDZERO \<Rightarrow> fp_max F s)"

definition round_at :: "fe_round \<Rightarrow> bool \<Rightarrow> nat \<Rightarrow> int \<Rightarrow> bool \<Rightarrow> int \<Rightarrow> nat \<times> bool" where
  "round_at rm s m e sticky t =
     (if t \<le> e then (m * 2 ^ nat (e - t), sticky) else round_nat rm s m (nat (t - e)) sticky)"

text \<open>Is the result below the normal range, before or after rounding to the full precision?\<close>

definition fp_tiny :: "fp_host \<Rightarrow> fp_format \<Rightarrow> fe_round \<Rightarrow> bool \<Rightarrow> nat \<Rightarrow> int \<Rightarrow> bool \<Rightarrow> bool" where
  "fp_tiny h F rm s m e sticky \<longleftrightarrow>
     (let top = e + int (bitlen m); emin = 1 - exp_bias F
      in top \<le> emin \<and>
         (host_tiny_before h \<or> top < emin \<or>
          fst (round_at rm s m e sticky (top - int (man_bits F + 1))) < 2 ^ (man_bits F + 1)))"

text \<open>The number of sign \<open>s\<close> and magnitude \<open>m * 2 ^ e\<close>, and a little more when \<open>sticky\<close>.\<close>

definition fp_round :: "fp_host \<Rightarrow> fp_format \<Rightarrow> fe_round \<Rightarrow> bool \<Rightarrow> nat \<Rightarrow> int \<Rightarrow> bool \<Rightarrow> fp fp_result" where
  "fp_round h F rm s m e sticky =
     (let p = man_bits F;
          t = max (e + int (bitlen m) - int (p + 1)) (1 - exp_bias F - int p);
          (q, inexact) = round_at rm s m e sticky t;
          (q, t) = (if q = 2 ^ (p + 1) then (2 ^ p, t + 1) else (q, t));
          E = (if q < 2 ^ p then 0 else nat (t + int p + exp_bias F))
      in if exp_top F \<le> E then (fp_overflow F rm s, [FE_OVERFLOW, FE_INEXACT])
         else (Fp s E (q mod 2 ^ p),
               (if inexact then [FE_INEXACT] else []) @
               (if inexact \<and> fp_tiny h F rm s m e sticky then [FE_UNDERFLOW] else [])))"

section \<open>Arithmetic\<close>

definition fp_nan_result :: "fp_host \<Rightarrow> fp_format \<Rightarrow> fp list \<Rightarrow> fp fp_result" where
  "fp_nan_result h F xs =
     (host_nan h F (map (Pair F) xs), if \<exists>x \<in> set xs. fp_is_snan F x then [FE_INVALID] else [])"

definition fp_invalid :: "fp_host \<Rightarrow> fp_format \<Rightarrow> fp list \<Rightarrow> fp fp_result" where
  "fp_invalid h F xs = (host_nan h F (map (Pair F) xs), [FE_INVALID])"

text \<open>The sum of two finite numbers given as \<open>a * 2 ^ i\<close> and \<open>b * 2 ^ j\<close>, with their signs.\<close>

definition fp_sum ::
  "fp_host \<Rightarrow> fp_format \<Rightarrow> fe_round \<Rightarrow> bool \<Rightarrow> int \<Rightarrow> int \<Rightarrow> bool \<Rightarrow> int \<Rightarrow> int \<Rightarrow> fp fp_result" where
  "fp_sum h F rm sa a i sb b j =
     (let e = min i j;
          n = a * 2 ^ nat (i - e) + b * 2 ^ nat (j - e)
      in if n = 0 then (fp_zero (if sa = sb then sa else rm = FE_DOWNWARD), [])
         else fp_round h F rm (n < 0) (nat \<bar>n\<bar>) e False)"

definition fp_add :: "fp_host \<Rightarrow> fp_format \<Rightarrow> fe_round \<Rightarrow> fp \<Rightarrow> fp \<Rightarrow> fp fp_result" where
  "fp_add h F rm x y =
     (if fp_is_nan F x \<or> fp_is_nan F y then fp_nan_result h F [x, y]
      else if fp_is_inf F x then
        (if fp_is_inf F y \<and> fp_neg x \<noteq> fp_neg y then fp_invalid h F [x, y] else (x, []))
      else if fp_is_inf F y then (y, [])
      else fp_sum h F rm (fp_neg x) (fp_int F x) (fp_lsb F x) (fp_neg y) (fp_int F y) (fp_lsb F y))"

definition fp_sub :: "fp_host \<Rightarrow> fp_format \<Rightarrow> fe_round \<Rightarrow> fp \<Rightarrow> fp \<Rightarrow> fp fp_result" where
  "fp_sub h F rm x y =
     (if fp_is_nan F x \<or> fp_is_nan F y then fp_nan_result h F [x, y] else fp_add h F rm x (fp_minus y))"

definition fp_mul :: "fp_host \<Rightarrow> fp_format \<Rightarrow> fe_round \<Rightarrow> fp \<Rightarrow> fp \<Rightarrow> fp fp_result" where
  "fp_mul h F rm x y =
     (let s = (fp_neg x \<noteq> fp_neg y) in
      if fp_is_nan F x \<or> fp_is_nan F y then fp_nan_result h F [x, y]
      else if fp_is_inf F x \<or> fp_is_inf F y then
        (if fp_is_zero x \<or> fp_is_zero y then fp_invalid h F [x, y] else (fp_inf F s, []))
      else fp_round h F rm s (fp_sig F x * fp_sig F y) (fp_lsb F x + fp_lsb F y) False)"

definition fp_div :: "fp_host \<Rightarrow> fp_format \<Rightarrow> fe_round \<Rightarrow> fp \<Rightarrow> fp \<Rightarrow> fp fp_result" where
  "fp_div h F rm x y =
     (let s = (fp_neg x \<noteq> fp_neg y); k = 2 * man_bits F + 4 in
      if fp_is_nan F x \<or> fp_is_nan F y then fp_nan_result h F [x, y]
      else if fp_is_inf F x then (if fp_is_inf F y then fp_invalid h F [x, y] else (fp_inf F s, []))
      else if fp_is_inf F y then (fp_zero s, [])
      else if fp_is_zero y then
        (if fp_is_zero x then fp_invalid h F [x, y] else (fp_inf F s, [FE_DIVBYZERO]))
      else fp_round h F rm s (fp_sig F x * 2 ^ k div fp_sig F y) (fp_lsb F x - fp_lsb F y - int k)
             (fp_sig F x * 2 ^ k mod fp_sig F y \<noteq> 0))"

definition fp_fma :: "fp_host \<Rightarrow> fp_format \<Rightarrow> fe_round \<Rightarrow> fp \<Rightarrow> fp \<Rightarrow> fp \<Rightarrow> fp fp_result" where
  "fp_fma h F rm x y z =
     (let s = (fp_neg x \<noteq> fp_neg y);
          no_product = (fp_is_inf F x \<and> fp_is_zero y \<or> fp_is_zero x \<and> fp_is_inf F y)
      in if fp_is_nan F x \<or> fp_is_nan F y then fp_nan_result h F [x, y, z]
         else if fp_is_nan F z then
           (if no_product \<and> host_fma_invalid h then fp_invalid h F [x, y, z] else fp_nan_result h F [x, y, z])
         else if no_product then fp_invalid h F [x, y, z]
         else if fp_is_inf F x \<or> fp_is_inf F y then
           (if fp_is_inf F z \<and> fp_neg z \<noteq> s then fp_invalid h F [x, y, z] else (fp_inf F s, []))
         else if fp_is_inf F z then (z, [])
         else fp_sum h F rm s (fp_int F x * fp_int F y) (fp_lsb F x + fp_lsb F y)
                (fp_neg z) (fp_int F z) (fp_lsb F z))"

text \<open>The integer square root, two bits of the argument at a time.\<close>

fun isqrt :: "nat \<Rightarrow> nat" where
  "isqrt n = (if n = 0 then 0
     else let r = 2 * isqrt (n div 4) in if (r + 1) * (r + 1) \<le> n then r + 1 else r)"

declare isqrt.simps [simp del]

definition fp_sqrt :: "fp_host \<Rightarrow> fp_format \<Rightarrow> fe_round \<Rightarrow> fp \<Rightarrow> fp fp_result" where
  "fp_sqrt h F rm x =
     (if fp_is_nan F x then fp_nan_result h F [x]
      else if fp_is_zero x then (x, [])
      else if fp_neg x then fp_invalid h F [x]
      else if fp_is_inf F x then (x, [])
      else
        let odd_lsb = (fp_lsb F x mod 2 = 1);
            m = (if odd_lsb then 2 * fp_sig F x else fp_sig F x) * 2 ^ (2 * (man_bits F + 3));
            e = (if odd_lsb then fp_lsb F x - 1 else fp_lsb F x) - int (2 * (man_bits F + 3))
        in fp_round h F rm False (isqrt m) (e div 2) (isqrt m * isqrt m \<noteq> m))"

section \<open>Comparison\<close>

text \<open>The order of two numbers that are not NaN: infinities are beyond every finite number.\<close>

definition fp_cmp_int :: "fp_format \<Rightarrow> fp \<Rightarrow> fp \<Rightarrow> int \<times> int" where
  "fp_cmp_int F x y =
     (let e = min (fp_lsb F x) (fp_lsb F y)
      in (fp_int F x * 2 ^ nat (fp_lsb F x - e), fp_int F y * 2 ^ nat (fp_lsb F y - e)))"

definition fp_lt :: "fp_format \<Rightarrow> fp \<Rightarrow> fp \<Rightarrow> bool fp_result" where
  "fp_lt F x y =
     (if fp_is_nan F x \<or> fp_is_nan F y then (False, [FE_INVALID])
      else (let (a, b) = fp_cmp_int F x y in a < b, []))"

definition fp_eq :: "fp_format \<Rightarrow> fp \<Rightarrow> fp \<Rightarrow> bool fp_result" where
  "fp_eq F x y =
     (if fp_is_nan F x \<or> fp_is_nan F y
      then (False, if fp_is_snan F x \<or> fp_is_snan F y then [FE_INVALID] else [])
      else (let (a, b) = fp_cmp_int F x y in a = b, []))"

section \<open>Conversion\<close>

definition fp_cvt :: "fp_host \<Rightarrow> fp_format \<Rightarrow> fp_format \<Rightarrow> fe_round \<Rightarrow> fp \<Rightarrow> fp fp_result" where
  "fp_cvt h F G rm x =
     (if fp_is_nan F x then (host_nan h G [(F, x)], if fp_is_snan F x then [FE_INVALID] else [])
      else if fp_is_inf F x then (fp_inf G (fp_neg x), [])
      else fp_round h G rm (fp_neg x) (fp_sig F x) (fp_lsb F x) False)"

definition fp_of_int :: "fp_host \<Rightarrow> fp_format \<Rightarrow> fe_round \<Rightarrow> int \<Rightarrow> fp fp_result" where
  "fp_of_int h F rm n = fp_round h F rm (n < 0) (nat \<bar>n\<bar>) 0 False"

text \<open>The integral part of a finite number, and whether there is a fraction.\<close>

definition fp_integral :: "fp_format \<Rightarrow> fe_round \<Rightarrow> fp \<Rightarrow> int \<times> bool" where
  "fp_integral F rm x =
     (let (q, inexact) = round_at rm (fp_neg x) (fp_sig F x) (fp_lsb F x) False 0
      in (if fp_neg x then - int q else int q, inexact))"

text \<open>Conversion to an integer type with the range from \<open>lo\<close> to \<open>hi\<close>.\<close>

definition fp_to_int :: "fp_host \<Rightarrow> fp_format \<Rightarrow> int \<Rightarrow> int \<Rightarrow> fp \<Rightarrow> int fp_result option" where
  "fp_to_int h F lo hi x =
     (if fp_exp x = exp_top F then None
      else
        let (n, inexact) = fp_integral F FE_TOWARDZERO x
        in if lo \<le> n \<and> n \<le> hi
           then Some (n, if inexact \<and> host_to_int_inexact h then [FE_INEXACT] else [])
           else None)"

text \<open>\<open>trunc\<close> (towards zero) and \<open>floor\<close> (downward).\<close>

definition fp_rint :: "fp_host \<Rightarrow> fp_format \<Rightarrow> fe_round \<Rightarrow> fp \<Rightarrow> fp fp_result" where
  "fp_rint h F rm x =
     (if fp_is_nan F x then fp_nan_result h F [x]
      else if fp_is_inf F x \<or> 0 \<le> fp_lsb F x then (x, [])
      else
        let (q, inexact) = round_at rm (fp_neg x) (fp_sig F x) (fp_lsb F x) False 0
        in (fst (fp_round h F rm (fp_neg x) q 0 False),
            if inexact \<and> host_rint_inexact h then [FE_INEXACT] else []))"

end
