(* ===== verification/V850_Fpu_Ops.thy ===== *)
theory V850_Fpu_Ops
  imports V850_Float V850_Fpu_Regs
begin

unbundle bit_operations_syntax

text \<open>
  The bit-level view of floating-point numbers (\<open>src/cpu/cpu_common/cpu_fpu_ops.h\<close>) and the frame
  of the floating-point executors: \<open>prepare_float_op\<close>, \<open>end_float_op\<close> and the flushing of
  subnormal numbers (\<open>src/cpu/cpu_exec/op_exec_fpu.c\<close>).

  The unions \<open>FloatBinaryDataType\<close> and \<open>DoubleBinaryDataType\<close> are their \<open>binary\<close> members;
  \<open>float_data\<close> and \<open>double_data\<close> read them as numbers, \<open>float_binary\<close> and \<open>double_binary\<close> write
  them. The host is little-endian: \<open>binary[1]\<close> is the upper word of a \<open>double\<close>.
\<close>

section \<open>The unions\<close>

type_synonym FloatBinaryDataType = u32

record DoubleBinaryDataType =
  binary0 :: u32
  binary1 :: u32

definition float_data :: "FloatBinaryDataType \<Rightarrow> fp" where
  "float_data x = Fp (bit x 31) (unat (take_bit 8 (drop_bit 23 x))) (unat (take_bit 23 x))"

definition float_binary :: "fp \<Rightarrow> FloatBinaryDataType" where
  "float_binary f = push_bit 31 (of_bool (fp_neg f)) OR push_bit 23 (of_nat (fp_exp f)) OR of_nat (fp_man f)"

definition double_data :: "DoubleBinaryDataType \<Rightarrow> fp" where
  "double_data x = Fp (bit (binary1 x) 31) (unat (take_bit 11 (drop_bit 20 (binary1 x))))
     (unat (take_bit 20 (binary1 x)) * 2 ^ 32 + unat (binary0 x))"

definition double_binary :: "fp \<Rightarrow> DoubleBinaryDataType" where
  "double_binary f = \<lparr>binary0 = of_nat (fp_man f),
     binary1 = push_bit 31 (of_bool (fp_neg f)) OR push_bit 20 (of_nat (fp_exp f)) OR of_nat (fp_man f div 2 ^ 32)\<rparr>"

section \<open>Sign, exponent and mantissa\<close>

definition FLOAT_SIGN_BIT_PTRN :: u32 where "FLOAT_SIGN_BIT_PTRN = push_bit 31 1"
definition FLOAT_SIGN_BIT_MASK :: u32 where "FLOAT_SIGN_BIT_MASK = NOT (push_bit 31 1)"
definition FLOAT_EXP_BIT_MASK :: u32 where "FLOAT_EXP_BIT_MASK = 0x7F800000"
definition FLOAT_MANTISSA_BIT_MASK :: u32 where "FLOAT_MANTISSA_BIT_MASK = 0x007FFFFF"
definition DOUBLE_EXP_BIT_MASK :: u32 where "DOUBLE_EXP_BIT_MASK = 0x7FE00000"
definition DOUBLE_MANTISSA1_BIT_MASK :: u32 where "DOUBLE_MANTISSA1_BIT_MASK = 0x007FFFFF"
definition DOUBLE_MANTISSA0_BIT_MASK :: u32 where "DOUBLE_MANTISSA0_BIT_MASK = 0xFFFFFFFF"

definition GET_FLOAT_SIGN_BIT_VALUE :: "FloatBinaryDataType \<Rightarrow> u32" where
  "GET_FLOAT_SIGN_BIT_VALUE x = (if FLOAT_SIGN_BIT_PTRN AND x \<noteq> 0 then 1 else 0)"

definition FLOAT_SIGN_BIT_SET :: "FloatBinaryDataType \<Rightarrow> FloatBinaryDataType" where
  "FLOAT_SIGN_BIT_SET x = x OR FLOAT_SIGN_BIT_PTRN"

definition FLOAT_SIGN_BIT_CLR :: "FloatBinaryDataType \<Rightarrow> FloatBinaryDataType" where
  "FLOAT_SIGN_BIT_CLR x = x AND FLOAT_SIGN_BIT_MASK"

definition GET_DOUBLE_SIGN_BIT_VALUE :: "DoubleBinaryDataType \<Rightarrow> u32" where
  "GET_DOUBLE_SIGN_BIT_VALUE x = (if FLOAT_SIGN_BIT_PTRN AND binary1 x \<noteq> 0 then 1 else 0)"

definition DOUBLE_SIGN_BIT_SET :: "DoubleBinaryDataType \<Rightarrow> DoubleBinaryDataType" where
  "DOUBLE_SIGN_BIT_SET x = x\<lparr>binary1 := binary1 x OR FLOAT_SIGN_BIT_PTRN\<rparr>"

definition DOUBLE_SIGN_BIT_CLR :: "DoubleBinaryDataType \<Rightarrow> DoubleBinaryDataType" where
  "DOUBLE_SIGN_BIT_CLR x = x\<lparr>binary1 := binary1 x AND FLOAT_SIGN_BIT_MASK\<rparr>"

definition GET_FLOAT_EXP_VALUE :: "FloatBinaryDataType \<Rightarrow> u16" where
  "GET_FLOAT_EXP_VALUE x = ucast (drop_bit 23 (FLOAT_EXP_BIT_MASK AND x))"

definition GET_FLOAT_MANTISSA_VALUE :: "FloatBinaryDataType \<Rightarrow> u32" where
  "GET_FLOAT_MANTISSA_VALUE x = drop_bit 0 (FLOAT_MANTISSA_BIT_MASK AND x)"

definition GET_DOUBLE_EXP_VALUE :: "DoubleBinaryDataType \<Rightarrow> u16" where
  "GET_DOUBLE_EXP_VALUE x = ucast (drop_bit 20 (DOUBLE_EXP_BIT_MASK AND binary1 x))"

definition GET_DOUBLE_MANTISSA1_VALUE :: "DoubleBinaryDataType \<Rightarrow> u32" where
  "GET_DOUBLE_MANTISSA1_VALUE x = drop_bit 0 (DOUBLE_MANTISSA1_BIT_MASK AND binary1 x)"

definition GET_DOUBLE_MANTISSA0_VALUE :: "DoubleBinaryDataType \<Rightarrow> u32" where
  "GET_DOUBLE_MANTISSA0_VALUE x = drop_bit 0 (DOUBLE_MANTISSA0_BIT_MASK AND binary0 x)"

section \<open>Classes of numbers\<close>

definition FLOAT_IS_ZERO :: "FloatBinaryDataType \<Rightarrow> bool" where
  "FLOAT_IS_ZERO x \<longleftrightarrow> GET_FLOAT_EXP_VALUE x = 0 \<and> GET_FLOAT_MANTISSA_VALUE x = 0"

definition FLOAT_IS_NORMAL :: "FloatBinaryDataType \<Rightarrow> bool" where
  "FLOAT_IS_NORMAL x \<longleftrightarrow> 1 \<le>s GET_FLOAT_EXP_VALUE x \<and> GET_FLOAT_EXP_VALUE x \<le>s 254"

definition FLOAT_IS_SBNORM :: "FloatBinaryDataType \<Rightarrow> bool" where
  "FLOAT_IS_SBNORM x \<longleftrightarrow> GET_FLOAT_EXP_VALUE x = 0 \<and> GET_FLOAT_MANTISSA_VALUE x \<noteq> 0"

definition FLOAT_IS_INF :: "FloatBinaryDataType \<Rightarrow> bool" where
  "FLOAT_IS_INF x \<longleftrightarrow> GET_FLOAT_EXP_VALUE x = 255 \<and> GET_FLOAT_MANTISSA_VALUE x = 0"

definition FLOAT_IS_NAN :: "FloatBinaryDataType \<Rightarrow> bool" where
  "FLOAT_IS_NAN x \<longleftrightarrow> GET_FLOAT_EXP_VALUE x = 255 \<and> GET_FLOAT_MANTISSA_VALUE x \<noteq> 0"

definition FLOAT_IS_PLUS :: "FloatBinaryDataType \<Rightarrow> bool" where
  "FLOAT_IS_PLUS x \<longleftrightarrow> GET_FLOAT_SIGN_BIT_VALUE x = 0"

definition FLOAT_IS_MINUS :: "FloatBinaryDataType \<Rightarrow> bool" where
  "FLOAT_IS_MINUS x \<longleftrightarrow> GET_FLOAT_SIGN_BIT_VALUE x = 1"

definition DOUBLE_IS_ZERO :: "DoubleBinaryDataType \<Rightarrow> bool" where
  "DOUBLE_IS_ZERO x \<longleftrightarrow> GET_DOUBLE_EXP_VALUE x = 0 \<and> GET_DOUBLE_MANTISSA0_VALUE x = 0 \<and> GET_DOUBLE_MANTISSA1_VALUE x = 0"

definition DOUBLE_IS_NORMAL :: "DoubleBinaryDataType \<Rightarrow> bool" where
  "DOUBLE_IS_NORMAL x \<longleftrightarrow> 1 \<le>s GET_DOUBLE_EXP_VALUE x \<and> GET_DOUBLE_EXP_VALUE x \<le>s 2046"

definition DOUBLE_IS_SBNORM :: "DoubleBinaryDataType \<Rightarrow> bool" where
  "DOUBLE_IS_SBNORM x \<longleftrightarrow> GET_DOUBLE_EXP_VALUE x = 0 \<and> (GET_DOUBLE_MANTISSA0_VALUE x \<noteq> 0 \<or> GET_DOUBLE_MANTISSA1_VALUE x \<noteq> 0)"

definition DOUBLE_IS_INF :: "DoubleBinaryDataType \<Rightarrow> bool" where
  "DOUBLE_IS_INF x \<longleftrightarrow> GET_DOUBLE_EXP_VALUE x = 2047 \<and> GET_DOUBLE_MANTISSA0_VALUE x = 0 \<and> GET_DOUBLE_MANTISSA1_VALUE x = 0"

definition DOUBLE_IS_NAN :: "DoubleBinaryDataType \<Rightarrow> bool" where
  "DOUBLE_IS_NAN x \<longleftrightarrow> GET_DOUBLE_EXP_VALUE x = 2047 \<and> (GET_DOUBLE_MANTISSA0_VALUE x \<noteq> 0 \<or> GET_DOUBLE_MANTISSA1_VALUE x \<noteq> 0)"

definition DOUBLE_IS_PLUS :: "DoubleBinaryDataType \<Rightarrow> bool" where
  "DOUBLE_IS_PLUS x \<longleftrightarrow> GET_DOUBLE_SIGN_BIT_VALUE x = 0"

definition DOUBLE_IS_MINUS :: "DoubleBinaryDataType \<Rightarrow> bool" where
  "DOUBLE_IS_MINUS x \<longleftrightarrow> GET_DOUBLE_SIGN_BIT_VALUE x = 1"

definition FLOAT_SET_SIGN_REVERSE :: "FloatBinaryDataType \<Rightarrow> FloatBinaryDataType" where
  "FLOAT_SET_SIGN_REVERSE x = (if FLOAT_IS_PLUS x then FLOAT_SIGN_BIT_SET x else FLOAT_SIGN_BIT_CLR x)"

definition DOUBLE_SET_SIGN_REVERSE :: "DoubleBinaryDataType \<Rightarrow> DoubleBinaryDataType" where
  "DOUBLE_SET_SIGN_REVERSE x = (if DOUBLE_IS_PLUS x then DOUBLE_SIGN_BIT_SET x else DOUBLE_SIGN_BIT_CLR x)"

definition float_is_qnan :: "FloatBinaryDataType \<Rightarrow> bool" where
  "float_is_qnan x = (if \<not> FLOAT_IS_NAN x then False else if x AND push_bit 22 1 \<noteq> 0 then True else False)"

definition float_is_snan :: "FloatBinaryDataType \<Rightarrow> bool" where
  "float_is_snan x = (if \<not> FLOAT_IS_NAN x then False else if x AND push_bit 22 1 \<noteq> 0 then False else True)"

definition float_get_qnan :: FloatBinaryDataType where
  "float_get_qnan = 0x7FFFFFFF"

definition float_get_snan :: FloatBinaryDataType where
  "float_get_snan = 0x7FFFFFFF AND NOT (push_bit 22 1)"

definition double_is_qnan :: "DoubleBinaryDataType \<Rightarrow> bool" where
  "double_is_qnan x = (if \<not> DOUBLE_IS_NAN x then False else if binary1 x AND push_bit 19 1 \<noteq> 0 then True else False)"

definition double_is_snan :: "DoubleBinaryDataType \<Rightarrow> bool" where
  "double_is_snan x = (if \<not> DOUBLE_IS_NAN x then False else if binary1 x AND push_bit 19 1 \<noteq> 0 then False else True)"

definition double_get_qnan :: DoubleBinaryDataType where
  "double_get_qnan = \<lparr>binary0 = 0xFFFFFFFF, binary1 = 0x7FFFFFFF\<rparr>"

definition double_get_snan :: DoubleBinaryDataType where
  "double_get_snan = \<lparr>binary0 = 0xFFFFFFFF, binary1 = 0x7FFFFFFF AND NOT (push_bit 19 1)\<rparr>"

definition op_absf_s :: "FloatBinaryDataType \<Rightarrow> FloatBinaryDataType" where
  "op_absf_s x = x AND FLOAT_SIGN_BIT_MASK"

section \<open>Exceptions\<close>

record FloatExceptionType =
  disable_bits :: u32
  intr_bits :: u32

definition FLOAT_EXCEPTION_BIT_RESET :: FloatExceptionType where
  "FLOAT_EXCEPTION_BIT_RESET = \<lparr>disable_bits = 0, intr_bits = 0\<rparr>"

definition FLOAT_EXCEPTION_INTR_BIT_SET :: "nat \<Rightarrow> FloatExceptionType \<Rightarrow> FloatExceptionType" where
  "FLOAT_EXCEPTION_INTR_BIT_SET bitpos fex = fex\<lparr>intr_bits := intr_bits fex OR push_bit bitpos 1\<rparr>"

text \<open>The two statements by which an executor records an exception in FPST (and so in FPSR).\<close>

definition fpst_raise :: "u8 \<Rightarrow> CpuRegisterType \<Rightarrow> CpuRegisterType option" where
  "fpst_raise e g = do {
     xc \<leftarrow> sys_get_fpst_xc g;
     g \<leftarrow> sys_set_fpst_xc (xc OR e) g;
     xp \<leftarrow> sys_get_fpst_xp g;
     sys_set_fpst_xp (xp OR e) g
   }"

section \<open>The frame of an operation\<close>

datatype FpuConfigRoundingType = FpuRounding_RN | FpuRounding_RU | FpuRounding_RD | FpuRounding_RZ

record FpuConfigSettingType =
  is_FPSR_FS :: bool
  round_type :: FpuConfigRoundingType

text \<open>\<open>prepare_float_op\<close> yields the settings and the rounding mode it puts in force; it clears
  the host's exceptions.\<close>

definition prepare_float_op ::
  "CpuRegisterType \<Rightarrow> (FloatExceptionType \<times> FpuConfigSettingType \<times> fe_round) option" where
  "prepare_float_op g = do {
     cfg \<leftarrow> sys_get_fpsr_rm g;
     let rt = (if cfg = SysFpuRm_RN then FpuRounding_RN
               else if cfg = SysFpuRm_RZ then FpuRounding_RZ
               else if cfg = SysFpuRm_RP then FpuRounding_RU
               else if cfg = SysFpuRm_RD then FpuRounding_RD
               else FpuRounding_RN);
     Some (FLOAT_EXCEPTION_BIT_RESET, \<lparr>is_FPSR_FS = True, round_type = rt\<rparr>,
       case rt of
         FpuRounding_RN \<Rightarrow> FE_TONEAREST
       | FpuRounding_RU \<Rightarrow> FE_UPWARD
       | FpuRounding_RD \<Rightarrow> FE_DOWNWARD
       | FpuRounding_RZ \<Rightarrow> FE_TOWARDZERO)
   }"

definition end_float_exc ::
  "fe_except list \<Rightarrow> fe_except \<Rightarrow> nat \<Rightarrow> u8 \<Rightarrow> CpuRegisterType \<times> FloatExceptionType
   \<Rightarrow> (CpuRegisterType \<times> FloatExceptionType) option" where
  "end_float_exc raised e bitpos expr = (\<lambda>(g, ex).
     if e \<in> set raised then do {
       g \<leftarrow> fpst_raise expr g;
       Some (g, FLOAT_EXCEPTION_INTR_BIT_SET bitpos ex)
     } else Some (g, ex))"

definition end_float_op ::
  "fe_except list \<Rightarrow> CpuRegisterType \<times> FloatExceptionType \<Rightarrow> (CpuRegisterType \<times> FloatExceptionType) option" where
  "end_float_op raised x =
     (if raised = [] then Some x
      else do {
        x \<leftarrow> end_float_exc raised FE_DIVBYZERO 2 SYS_FPSR_EXPR_Z x;
        x \<leftarrow> end_float_exc raised FE_INEXACT 0 SYS_FPSR_EXPR_I x;
        x \<leftarrow> end_float_exc raised FE_INVALID 1 SYS_FPSR_EXPR_V x;
        x \<leftarrow> end_float_exc raised FE_OVERFLOW 3 SYS_FPSR_EXPR_O x;
        end_float_exc raised FE_UNDERFLOW 4 SYS_FPSR_EXPR_U x
      })"

definition set_subnormal_operand :: "FpuConfigSettingType \<Rightarrow> FloatBinaryDataType \<Rightarrow> FloatBinaryDataType" where
  "set_subnormal_operand cp operand =
     (if \<not> FLOAT_IS_SBNORM operand then operand
      else if \<not> is_FPSR_FS cp then operand
      else if FLOAT_IS_MINUS operand then FLOAT_SIGN_BIT_SET 0
      else 0)"

definition FLT_MIN :: fp where "FLT_MIN = Fp False 1 0"
definition DBL_MIN :: fp where "DBL_MIN = Fp False 1 0"

definition set_subnormal_result :: "FpuConfigSettingType \<Rightarrow> FloatBinaryDataType \<Rightarrow> FloatBinaryDataType" where
  "set_subnormal_result cp result =
     (if \<not> FLOAT_IS_SBNORM result then result
      else if \<not> is_FPSR_FS cp then result
      else
        case round_type cp of
          FpuRounding_RN \<Rightarrow> 0
        | FpuRounding_RZ \<Rightarrow> 0
        | FpuRounding_RU \<Rightarrow> if FLOAT_IS_MINUS result then FLOAT_SIGN_BIT_SET 0 else float_binary FLT_MIN
        | FpuRounding_RD \<Rightarrow> if FLOAT_IS_MINUS result then FLOAT_SIGN_BIT_SET (float_binary FLT_MIN) else 0)"

definition set_subnormal_operand_double ::
  "FpuConfigSettingType \<Rightarrow> DoubleBinaryDataType \<Rightarrow> DoubleBinaryDataType" where
  "set_subnormal_operand_double cp operand =
     (if \<not> DOUBLE_IS_SBNORM operand then operand
      else if \<not> is_FPSR_FS cp then operand
      else if DOUBLE_IS_MINUS operand then DOUBLE_SIGN_BIT_SET \<lparr>binary0 = 0, binary1 = 0\<rparr>
      else \<lparr>binary0 = 0, binary1 = 0\<rparr>)"

definition set_subnormal_result_double ::
  "FpuConfigSettingType \<Rightarrow> DoubleBinaryDataType \<Rightarrow> DoubleBinaryDataType" where
  "set_subnormal_result_double cp result =
     (if \<not> DOUBLE_IS_SBNORM result then result
      else if \<not> is_FPSR_FS cp then result
      else
        case round_type cp of
          FpuRounding_RN \<Rightarrow> \<lparr>binary0 = 0, binary1 = 0\<rparr>
        | FpuRounding_RZ \<Rightarrow> \<lparr>binary0 = 0, binary1 = 0\<rparr>
        | FpuRounding_RU \<Rightarrow>
            if DOUBLE_IS_MINUS result then DOUBLE_SIGN_BIT_SET \<lparr>binary0 = 0, binary1 = 0\<rparr>
            else double_binary DBL_MIN
        | FpuRounding_RD \<Rightarrow>
            if DOUBLE_IS_MINUS result then DOUBLE_SIGN_BIT_SET (double_binary DBL_MIN)
            else \<lparr>binary0 = 0, binary1 = 0\<rparr>)"

text \<open>The block between \<open>prepare_float_op\<close> and \<open>end_float_op\<close>: the body computes a value, the
  exceptions the host raises meanwhile, and the registers. The local exception record ends with
  the block.\<close>

definition float_op ::
  "(FpuConfigSettingType \<Rightarrow> fe_round \<Rightarrow> CpuRegisterType \<Rightarrow> ('a \<times> fe_except list \<times> CpuRegisterType) option)
   \<Rightarrow> CpuRegisterType \<Rightarrow> ('a \<times> CpuRegisterType) option" where
  "float_op body g = do {
     (ex, cp, rm) \<leftarrow> prepare_float_op g;
     (result, raised, g) \<leftarrow> body cp rm g;
     (g, ex) \<leftarrow> end_float_op raised (g, ex);
     Some (result, g)
   }"

end
