(* ===== verification/V850_Exec_Fpu.thy ===== *)
theory V850_Exec_Fpu
  imports V850_Fpu_Ops
begin

unbundle bit_operations_syntax

text \<open>
  The floating-point executors of \<open>src/cpu/cpu_exec/op_exec_fpu.c\<close>, all of format F. An executor
  takes the implementation \<open>h\<close> of the host's floating-point arithmetic. A \<open>double\<close> operand is a
  pair of registers, the lower word first; a 64-bit integer result is stored upper word first,
  as the code does. The values read from the destination registers for the debug output alone
  are left out. Sequences of statements that several executors repeat, differing in the
  expression they compute, are the functions \<open>float_arith\<close> to \<open>double_to_int\<close>.
\<close>

section \<open>Operands\<close>

abbreviation ff_reg1 :: "TargetCoreType \<Rightarrow> u32" where
  "ff_reg1 cpu \<equiv> ucast (tf_reg1 (type_f (decoded_code cpu)))"
abbreviation ff_reg2 :: "TargetCoreType \<Rightarrow> u32" where
  "ff_reg2 cpu \<equiv> ucast (tf_reg2 (type_f (decoded_code cpu)))"
abbreviation ff_reg3 :: "TargetCoreType \<Rightarrow> u32" where
  "ff_reg3 cpu \<equiv> ucast (tf_reg3 (type_f (decoded_code cpu)))"
abbreviation ff_sub :: "TargetCoreType \<Rightarrow> u32" where
  "ff_sub cpu \<equiv> tf_subopcode (type_f (decoded_code cpu))"

definition ff_fcbit :: "TargetCoreType \<Rightarrow> u32" where
  "ff_fcbit cpu = drop_bit 1 (ff_sub cpu AND 0x0000000F)"

definition ff_reg4 :: "TargetCoreType \<Rightarrow> u32" where
  "ff_reg4 cpu = (ff_sub cpu AND 0x1e) OR (drop_bit 7 (ff_sub cpu) AND 1)"

definition rd_double :: "CpuRegisterType \<Rightarrow> u32 \<Rightarrow> DoubleBinaryDataType option" where
  "rd_double g i = do { b0 \<leftarrow> rd_r g i; b1 \<leftarrow> rd_r g (i + 1); Some \<lparr>binary0 = b0, binary1 = b1\<rparr> }"

definition wr_double :: "CpuRegisterType \<Rightarrow> u32 \<Rightarrow> DoubleBinaryDataType \<Rightarrow> CpuRegisterType option" where
  "wr_double g i d = do { g \<leftarrow> wr_r g i (binary0 d); wr_r g (i + 1) (binary1 d) }"

text \<open>\<open>r[i] = (uint32)(v>>32); r[i + 1] = (uint32)(v & 0xffffffff);\<close>\<close>

definition wr_int64 :: "CpuRegisterType \<Rightarrow> u32 \<Rightarrow> int \<Rightarrow> CpuRegisterType option" where
  "wr_int64 g i v = do {
     g \<leftarrow> wr_r g i (ucast (drop_bit 32 (word_of_int v :: u64)));
     wr_r g (i + 1) (ucast ((word_of_int v :: u64) AND 0xffffffff))
   }"

abbreviation INT_MAX :: int where "INT_MAX \<equiv> 2 ^ 31 - 1"
abbreviation UINT_MAX :: int where "UINT_MAX \<equiv> 2 ^ 32 - 1"
abbreviation LONG_MAX :: int where "LONG_MAX \<equiv> 2 ^ 63 - 1"
abbreviation ULONG_MAX :: int where "ULONG_MAX \<equiv> 2 ^ 64 - 1"

text \<open>Casts of a \<open>float\<close> or \<open>double\<close> to an integer type.\<close>

definition to_sint32 :: "fp_host \<Rightarrow> fp_format \<Rightarrow> fp \<Rightarrow> int fp_result option" where
  "to_sint32 h F x = fp_to_int h F (- (2 ^ 31)) INT_MAX x"
definition to_uint32 :: "fp_host \<Rightarrow> fp_format \<Rightarrow> fp \<Rightarrow> int fp_result option" where
  "to_uint32 h F x = fp_to_int h F 0 UINT_MAX x"
definition to_sint64 :: "fp_host \<Rightarrow> fp_format \<Rightarrow> fp \<Rightarrow> int fp_result option" where
  "to_sint64 h F x = fp_to_int h F (- (2 ^ 63)) LONG_MAX x"
definition to_uint64 :: "fp_host \<Rightarrow> fp_format \<Rightarrow> fp \<Rightarrow> int fp_result option" where
  "to_uint64 h F x = fp_to_int h F 0 ULONG_MAX x"

text \<open>\<open>(uint64)ULONG_MAX\<close> in a comparison with a floating-point number: \<open>2 ^ 64\<close> after rounding.\<close>

definition fp_ulong_max :: "fp_format \<Rightarrow> fp" where
  "fp_ulong_max F = Fp False (nat (exp_bias F) + 64) 0"

section \<open>Sign, selection and comparison\<close>

definition op_exec_absf_s_F :: "TargetCoreType \<Rightarrow> exec_result" where
  "op_exec_absf_s_F cpu =
     (let reg2 = ff_reg2 cpu; reg3 = ff_reg3 cpu
      in greg_check reg2 cpu (greg_check reg3 cpu (do {
           reg2_data \<leftarrow> rd_r (reg cpu) reg2;
           let result_data = op_absf_s reg2_data;
           g \<leftarrow> wr_r (reg cpu) reg3 result_data;
           ret cpu (add_pc 4 g)
         })))"

definition op_exec_maxf_s_F :: "TargetCoreType \<Rightarrow> exec_result" where
  "op_exec_maxf_s_F cpu =
     (let reg1 = ff_reg1 cpu; reg2 = ff_reg2 cpu; reg3 = ff_reg3 cpu
      in greg_check reg1 cpu (greg_check reg2 cpu (greg_check reg3 cpu (do {
           reg1_data \<leftarrow> rd_r (reg cpu) reg1;
           reg2_data \<leftarrow> rd_r (reg cpu) reg2;
           (result_data, g) \<leftarrow>
             (if float_is_snan reg1_data \<or> float_is_snan reg2_data then do {
                g \<leftarrow> fpst_raise SYS_FPSR_EXPR_V (reg cpu);
                Some (float_get_qnan, g)
              } else Some (if fst (fp_lt FLT (float_data reg2_data) (float_data reg1_data)) then reg1_data else reg2_data, reg cpu));
           g \<leftarrow> wr_r g reg3 result_data;
           ret cpu (add_pc 4 g)
         }))))"

definition op_exec_minf_s_F :: "TargetCoreType \<Rightarrow> exec_result" where
  "op_exec_minf_s_F cpu =
     (let reg1 = ff_reg1 cpu; reg2 = ff_reg2 cpu; reg3 = ff_reg3 cpu
      in greg_check reg1 cpu (greg_check reg2 cpu (greg_check reg3 cpu (do {
           reg1_data \<leftarrow> rd_r (reg cpu) reg1;
           reg2_data \<leftarrow> rd_r (reg cpu) reg2;
           (result_data, g) \<leftarrow>
             (if float_is_snan reg1_data \<or> float_is_snan reg2_data then do {
                g \<leftarrow> fpst_raise SYS_FPSR_EXPR_V (reg cpu);
                Some (float_get_qnan, g)
              } else Some (if fst (fp_lt FLT (float_data reg1_data) (float_data reg2_data)) then reg1_data else reg2_data, reg cpu));
           g \<leftarrow> wr_r g reg3 result_data;
           ret cpu (add_pc 4 g)
         }))))"

definition op_exec_cmovf_s_F :: "TargetCoreType \<Rightarrow> exec_result" where
  "op_exec_cmovf_s_F cpu =
     (let reg1 = ff_reg1 cpu; reg2 = ff_reg2 cpu; reg3 = ff_reg3 cpu; fcbit = ff_fcbit cpu
      in greg_check reg1 cpu (greg_check reg2 cpu (greg_check reg3 cpu (do {
           reg1_data \<leftarrow> rd_r (reg cpu) reg1;
           reg2_data \<leftarrow> rd_r (reg cpu) reg2;
           data \<leftarrow> sys_get_fpsr_cc (reg cpu);
           let result_data = (if ucast data AND push_bit (unat fcbit) (1 :: u32) \<noteq> 0 then reg1_data else reg2_data);
           g \<leftarrow> wr_r (reg cpu) reg3 result_data;
           ret cpu (add_pc 4 g)
         }))))"

definition op_exec_negf_s_F :: "TargetCoreType \<Rightarrow> exec_result" where
  "op_exec_negf_s_F cpu =
     (let reg2 = ff_reg2 cpu; reg3 = ff_reg3 cpu
      in greg_check reg2 cpu (greg_check reg3 cpu (do {
           reg2_data \<leftarrow> rd_r (reg cpu) reg2;
           let result_data = float_binary (fp_minus (float_data reg2_data));
           g \<leftarrow> wr_r (reg cpu) reg3 result_data;
           ret cpu (add_pc 4 g)
         })))"

definition op_exec_trfsr_F :: "TargetCoreType \<Rightarrow> exec_result" where
  "op_exec_trfsr_F cpu =
     (let fcbit = ff_fcbit cpu
      in do {
           data \<leftarrow> sys_get_fpsr_cc (reg cpu);
           let g = (if ucast data AND push_bit (unat fcbit) (1 :: u32) \<noteq> 0
                    then psw_set CPU_PSW_Z (reg cpu) else psw_clr CPU_PSW_Z (reg cpu));
           ret cpu (add_pc 4 g)
         })"

text \<open>The result of a comparison as the bits less, equal and unordered, and its entry into the
  condition bits.\<close>

definition cmpf_result :: "bool \<Rightarrow> bool \<Rightarrow> bool \<Rightarrow> u32" where
  "cmpf_result result_less result_equal result_unordered =
     push_bit 2 (of_bool result_less) OR push_bit 1 (of_bool result_equal) OR push_bit 0 (of_bool result_unordered)"

definition cmpf_cc :: "u32 \<Rightarrow> u32 \<Rightarrow> u32 \<Rightarrow> CpuRegisterType \<Rightarrow> CpuRegisterType option" where
  "cmpf_cc result_data fcond fcbit g = do {
     data \<leftarrow> sys_get_fpsr_cc g;
     let data = (if result_data AND (fcond AND 0x00000007) \<noteq> 0
                 then ucast (ucast data OR push_bit (unat fcbit) (1 :: u32))
                 else ucast (ucast data AND NOT (push_bit (unat fcbit) (1 :: u32))));
     sys_set_fpsr_cc data g
   }"

definition op_exec_cmpf_s_F :: "TargetCoreType \<Rightarrow> exec_result" where
  "op_exec_cmpf_s_F cpu =
     (let reg1 = ff_reg1 cpu; reg2 = ff_reg2 cpu; fcond = ff_reg3 cpu; fcbit = ff_fcbit cpu
      in greg_check reg1 cpu (greg_check reg2 cpu (do {
           reg1_data \<leftarrow> rd_r (reg cpu) reg1;
           reg2_data \<leftarrow> rd_r (reg cpu) reg2;
           (result_less, result_equal, result_unordered, g) \<leftarrow>
             (if FLOAT_IS_NAN reg1_data \<or> FLOAT_IS_NAN reg2_data then do {
                g \<leftarrow> (if fcond AND 0x00000008 \<noteq> 0 then fpst_raise SYS_FPSR_EXPR_V (reg cpu) else Some (reg cpu));
                Some (False, False, True, g)
              } else Some (fst (fp_lt FLT (float_data reg2_data) (float_data reg1_data)),
                           fst (fp_eq FLT (float_data reg2_data) (float_data reg1_data)), False, reg cpu));
           g \<leftarrow> cmpf_cc (cmpf_result result_less result_equal result_unordered) fcond fcbit g;
           ret cpu (add_pc 4 g)
         })))"

section \<open>Arithmetic\<close>

text \<open>Two \<open>float\<close> operands, the subnormal ones flushed; the result flushed.\<close>

definition float_arith :: "(fe_round \<Rightarrow> fp \<Rightarrow> fp \<Rightarrow> fp fp_result) \<Rightarrow> TargetCoreType \<Rightarrow> exec_result" where
  "float_arith compute cpu =
     (let reg1 = ff_reg1 cpu; reg2 = ff_reg2 cpu; reg3 = ff_reg3 cpu
      in greg_check reg1 cpu (greg_check reg2 cpu (greg_check reg3 cpu (do {
           reg1_data \<leftarrow> rd_r (reg cpu) reg1;
           reg2_data \<leftarrow> rd_r (reg cpu) reg2;
           (result_data, g) \<leftarrow> float_op (\<lambda>cp rm g.
              let reg1_data = set_subnormal_operand cp reg1_data;
                  reg2_data = set_subnormal_operand cp reg2_data;
                  (result, raised) = compute rm (float_data reg1_data) (float_data reg2_data);
                  result_data = set_subnormal_result cp (float_binary result)
              in Some (result_data, raised, g)) (reg cpu);
           g \<leftarrow> wr_r g reg3 result_data;
           ret cpu (add_pc 4 g)
         }))))"

definition double_arith :: "(fe_round \<Rightarrow> fp \<Rightarrow> fp \<Rightarrow> fp fp_result) \<Rightarrow> TargetCoreType \<Rightarrow> exec_result" where
  "double_arith compute cpu =
     (let reg1 = ff_reg1 cpu; reg2 = ff_reg2 cpu; reg3 = ff_reg3 cpu
      in greg_check (reg1 + 1) cpu (greg_check (reg2 + 1) cpu (greg_check (reg3 + 1) cpu (do {
           reg1_data \<leftarrow> rd_double (reg cpu) reg1;
           reg2_data \<leftarrow> rd_double (reg cpu) reg2;
           (result_data, g) \<leftarrow> float_op (\<lambda>cp rm g.
              let reg1_data = set_subnormal_operand_double cp reg1_data;
                  reg2_data = set_subnormal_operand_double cp reg2_data;
                  (result, raised) = compute rm (double_data reg1_data) (double_data reg2_data);
                  result_data = set_subnormal_result_double cp (double_binary result)
              in Some (result_data, raised, g)) (reg cpu);
           g \<leftarrow> wr_double g reg3 result_data;
           ret cpu (add_pc 4 g)
         }))))"

definition op_exec_addf_s_F :: "fp_host \<Rightarrow> TargetCoreType \<Rightarrow> exec_result" where
  "op_exec_addf_s_F h cpu = float_arith (\<lambda>rm reg1 reg2. fp_add h FLT rm reg1 reg2) cpu"

definition op_exec_mulf_s_F :: "fp_host \<Rightarrow> TargetCoreType \<Rightarrow> exec_result" where
  "op_exec_mulf_s_F h cpu = float_arith (\<lambda>rm reg1 reg2. fp_mul h FLT rm reg1 reg2) cpu"

definition op_exec_divf_s_F :: "fp_host \<Rightarrow> TargetCoreType \<Rightarrow> exec_result" where
  "op_exec_divf_s_F h cpu = float_arith (\<lambda>rm reg1 reg2. fp_div h FLT rm reg2 reg1) cpu"

definition op_exec_subf_s_F :: "fp_host \<Rightarrow> TargetCoreType \<Rightarrow> exec_result" where
  "op_exec_subf_s_F h cpu = float_arith (\<lambda>rm reg1 reg2. fp_sub h FLT rm reg2 reg1) cpu"

definition op_exec_addf_d_F :: "fp_host \<Rightarrow> TargetCoreType \<Rightarrow> exec_result" where
  "op_exec_addf_d_F h cpu = double_arith (\<lambda>rm reg1 reg2. fp_add h DBL rm reg1 reg2) cpu"

definition op_exec_mulf_d_F :: "fp_host \<Rightarrow> TargetCoreType \<Rightarrow> exec_result" where
  "op_exec_mulf_d_F h cpu = double_arith (\<lambda>rm reg1 reg2. fp_mul h DBL rm reg1 reg2) cpu"

definition op_exec_divf_d_F :: "fp_host \<Rightarrow> TargetCoreType \<Rightarrow> exec_result" where
  "op_exec_divf_d_F h cpu = double_arith (\<lambda>rm reg1 reg2. fp_div h DBL rm reg2 reg1) cpu"

definition op_exec_subf_d_F :: "fp_host \<Rightarrow> TargetCoreType \<Rightarrow> exec_result" where
  "op_exec_subf_d_F h cpu = double_arith (\<lambda>rm reg1 reg2. fp_sub h DBL rm reg2 reg1) cpu"

text \<open>Fused operations: \<open>reg3\<close> is an operand too, not flushed; \<open>finish\<close> is applied to the result.\<close>

definition float_fused ::
  "(fe_round \<Rightarrow> fp \<Rightarrow> fp \<Rightarrow> fp \<Rightarrow> fp fp_result) \<Rightarrow> (FloatBinaryDataType \<Rightarrow> FloatBinaryDataType) \<Rightarrow> TargetCoreType \<Rightarrow> exec_result" where
  "float_fused compute finish cpu =
     (let reg1 = ff_reg1 cpu; reg2 = ff_reg2 cpu; reg3 = ff_reg3 cpu
      in greg_check reg1 cpu (greg_check reg2 cpu (greg_check reg3 cpu (do {
           reg1_data \<leftarrow> rd_r (reg cpu) reg1;
           reg2_data \<leftarrow> rd_r (reg cpu) reg2;
           reg3_data \<leftarrow> rd_r (reg cpu) reg3;
           (result_data, g) \<leftarrow> float_op (\<lambda>cp rm g.
              let reg1_data = set_subnormal_operand cp reg1_data;
                  reg2_data = set_subnormal_operand cp reg2_data;
                  (result, raised) = compute rm (float_data reg1_data) (float_data reg2_data) (float_data reg3_data);
                  result_data = finish (float_binary result);
                  result_data = set_subnormal_result cp result_data
              in Some (result_data, raised, g)) (reg cpu);
           g \<leftarrow> wr_r g reg3 result_data;
           ret cpu (add_pc 4 g)
         }))))"

definition op_exec_fmaf_s_F :: "fp_host \<Rightarrow> TargetCoreType \<Rightarrow> exec_result" where
  "op_exec_fmaf_s_F h cpu = float_fused (\<lambda>rm reg1 reg2 reg3. fp_fma h FLT rm reg2 reg1 reg3) id cpu"

definition op_exec_fmsf_s_F :: "fp_host \<Rightarrow> TargetCoreType \<Rightarrow> exec_result" where
  "op_exec_fmsf_s_F h cpu = float_fused (\<lambda>rm reg1 reg2 reg3. fp_fma h FLT rm reg2 reg1 (fp_minus reg3)) id cpu"

definition op_exec_fnmaf_s_F :: "fp_host \<Rightarrow> TargetCoreType \<Rightarrow> exec_result" where
  "op_exec_fnmaf_s_F h cpu = float_fused (\<lambda>rm reg1 reg2 reg3. fp_fma h FLT rm reg2 reg1 reg3) FLOAT_SET_SIGN_REVERSE cpu"

definition op_exec_fnmsf_s_F :: "fp_host \<Rightarrow> TargetCoreType \<Rightarrow> exec_result" where
  "op_exec_fnmsf_s_F h cpu = float_fused (\<lambda>rm reg1 reg2 reg3. fp_fma h FLT rm reg2 reg1 (fp_minus reg3)) FLOAT_SET_SIGN_REVERSE cpu"

text \<open>Multiplication and addition with two roundings; the destination is \<open>reg4\<close>.\<close>

definition float_muladd :: "(fe_round \<Rightarrow> fp \<Rightarrow> fp \<Rightarrow> fp \<Rightarrow> fp fp_result) \<Rightarrow> TargetCoreType \<Rightarrow> exec_result" where
  "float_muladd compute cpu =
     (let reg1 = ff_reg1 cpu; reg2 = ff_reg2 cpu; reg3 = ff_reg3 cpu; reg4 = ff_reg4 cpu
      in greg_check reg1 cpu (greg_check reg2 cpu (greg_check reg3 cpu (greg_check reg4 cpu (do {
           reg1_data \<leftarrow> rd_r (reg cpu) reg1;
           reg2_data \<leftarrow> rd_r (reg cpu) reg2;
           reg3_data \<leftarrow> rd_r (reg cpu) reg3;
           (result_data, g) \<leftarrow> float_op (\<lambda>cp rm g.
              let reg1_data = set_subnormal_operand cp reg1_data;
                  reg2_data = set_subnormal_operand cp reg2_data;
                  reg3_data = set_subnormal_operand cp reg3_data;
                  (result, raised) = compute rm (float_data reg1_data) (float_data reg2_data) (float_data reg3_data);
                  result_data = set_subnormal_result cp (float_binary result)
              in Some (result_data, raised, g)) (reg cpu);
           g \<leftarrow> wr_r g reg4 result_data;
           ret cpu (add_pc 4 g)
         })))))"

text \<open>\<open>reg2 * reg1 + reg3\<close> and \<open>reg2 * reg1 - reg3\<close>.\<close>

definition mul_add :: "fp_host \<Rightarrow> fe_round \<Rightarrow> fp \<Rightarrow> fp \<Rightarrow> fp \<Rightarrow> fp fp_result" where
  "mul_add h rm reg1 reg2 reg3 =
     (let (p, e1) = fp_mul h FLT rm reg2 reg1; (s, e2) = fp_add h FLT rm p reg3 in (s, e1 @ e2))"

definition mul_sub :: "fp_host \<Rightarrow> fe_round \<Rightarrow> fp \<Rightarrow> fp \<Rightarrow> fp \<Rightarrow> fp fp_result" where
  "mul_sub h rm reg1 reg2 reg3 =
     (let (p, e1) = fp_mul h FLT rm reg2 reg1; (s, e2) = fp_sub h FLT rm p reg3 in (s, e1 @ e2))"

definition op_exec_maddf_s_F :: "fp_host \<Rightarrow> TargetCoreType \<Rightarrow> exec_result" where
  "op_exec_maddf_s_F h cpu = float_muladd (\<lambda>rm reg1 reg2 reg3. mul_add h rm reg1 reg2 reg3) cpu"

definition op_exec_msubf_s_F :: "fp_host \<Rightarrow> TargetCoreType \<Rightarrow> exec_result" where
  "op_exec_msubf_s_F h cpu = float_muladd (\<lambda>rm reg1 reg2 reg3. mul_sub h rm reg1 reg2 reg3) cpu"

definition op_exec_nmaddf_s_F :: "fp_host \<Rightarrow> TargetCoreType \<Rightarrow> exec_result" where
  "op_exec_nmaddf_s_F h cpu = float_muladd (\<lambda>rm reg1 reg2 reg3. map_prod fp_minus id (mul_add h rm reg1 reg2 reg3)) cpu"

definition op_exec_nmsubf_s_F :: "fp_host \<Rightarrow> TargetCoreType \<Rightarrow> exec_result" where
  "op_exec_nmsubf_s_F h cpu = float_muladd (\<lambda>rm reg1 reg2 reg3. map_prod fp_minus id (mul_sub h rm reg1 reg2 reg3)) cpu"

section \<open>Conversion to floating-point numbers\<close>

definition op_exec_cvtf_ws_F :: "fp_host \<Rightarrow> TargetCoreType \<Rightarrow> exec_result" where
  "op_exec_cvtf_ws_F h cpu =
     (let reg2 = ff_reg2 cpu; reg3 = ff_reg3 cpu
      in greg_check reg2 cpu (greg_check reg3 cpu (do {
           reg2_data \<leftarrow> rd_r (reg cpu) reg2;
           (result_data, g) \<leftarrow> float_op (\<lambda>cp rm g.
              let (result, raised) = fp_of_int h FLT rm (sint reg2_data);
                  result_data = set_subnormal_result cp (float_binary result)
              in Some (result_data, raised, g)) (reg cpu);
           g \<leftarrow> wr_r g reg3 result_data;
           ret cpu (add_pc 4 g)
         })))"

definition op_exec_cvtf_ds_F :: "fp_host \<Rightarrow> TargetCoreType \<Rightarrow> exec_result" where
  "op_exec_cvtf_ds_F h cpu =
     (let reg2 = ff_reg2 cpu; reg3 = ff_reg3 cpu
      in greg_check reg2 cpu (greg_check (reg2 + 1) cpu (greg_check reg3 cpu (do {
           reg2_data \<leftarrow> rd_double (reg cpu) reg2;
           (result_data, g) \<leftarrow> float_op (\<lambda>cp rm g.
              let reg2_data = set_subnormal_operand_double cp reg2_data;
                  (result, raised) = fp_cvt h DBL FLT rm (double_data reg2_data);
                  result_data = set_subnormal_result cp (float_binary result)
              in Some (result_data, raised, g)) (reg cpu);
           g \<leftarrow> wr_r g reg3 result_data;
           ret cpu (add_pc 4 g)
         }))))"

definition op_exec_cvtf_sd_F :: "fp_host \<Rightarrow> TargetCoreType \<Rightarrow> exec_result" where
  "op_exec_cvtf_sd_F h cpu =
     (let reg2 = ff_reg2 cpu; reg3 = ff_reg3 cpu
      in greg_check reg3 cpu (greg_check (reg3 + 1) cpu (greg_check reg2 cpu (do {
           reg2_data \<leftarrow> rd_r (reg cpu) reg2;
           (result_data, g) \<leftarrow> float_op (\<lambda>cp rm g.
              let reg2_data = set_subnormal_operand cp reg2_data;
                  (result, raised) = fp_cvt h FLT DBL rm (float_data reg2_data);
                  result_data = set_subnormal_result_double cp (double_binary result)
              in Some (result_data, raised, g)) (reg cpu);
           g \<leftarrow> wr_double g reg3 result_data;
           ret cpu (add_pc 4 g)
         }))))"

definition op_exec_cvtf_ls_F :: "fp_host \<Rightarrow> TargetCoreType \<Rightarrow> exec_result" where
  "op_exec_cvtf_ls_F h cpu =
     (let reg2 = ff_reg2 cpu; reg3 = ff_reg3 cpu
      in greg_check reg2 cpu (greg_check (reg2 + 1) cpu (greg_check reg3 cpu (do {
           reg2_0_data \<leftarrow> rd_r (reg cpu) reg2;
           reg2_1_data \<leftarrow> rd_r (reg cpu) (reg2 + 1);
           (result_data, g) \<leftarrow> float_op (\<lambda>cp rm g.
              let (result, raised) = fp_of_int h FLT rm (sint (push_bit 32 (ucast reg2_1_data) OR ucast reg2_0_data :: u64));
                  result_data = set_subnormal_result cp (float_binary result)
              in Some (result_data, raised, g)) (reg cpu);
           g \<leftarrow> wr_r g reg3 result_data;
           ret cpu (add_pc 4 g)
         }))))"

definition op_exec_cvtf_uls_F :: "fp_host \<Rightarrow> TargetCoreType \<Rightarrow> exec_result" where
  "op_exec_cvtf_uls_F h cpu =
     (let reg2 = ff_reg2 cpu; reg3 = ff_reg3 cpu
      in greg_check reg2 cpu (greg_check (reg2 + 1) cpu (greg_check reg3 cpu (do {
           reg2_0_data \<leftarrow> rd_r (reg cpu) reg2;
           reg2_1_data \<leftarrow> rd_r (reg cpu) (reg2 + 1);
           (result_data, g) \<leftarrow> float_op (\<lambda>cp rm g.
              let (result, raised) = fp_of_int h FLT rm (uint (push_bit 32 (ucast reg2_1_data) OR ucast reg2_0_data :: u64));
                  result_data = set_subnormal_result cp (float_binary result)
              in Some (result_data, raised, g)) (reg cpu);
           g \<leftarrow> wr_r g reg3 result_data;
           ret cpu (add_pc 4 g)
         }))))"

definition op_exec_cvtf_uws_F :: "fp_host \<Rightarrow> TargetCoreType \<Rightarrow> exec_result" where
  "op_exec_cvtf_uws_F h cpu =
     (let reg2 = ff_reg2 cpu; reg3 = ff_reg3 cpu
      in greg_check reg2 cpu (greg_check reg3 cpu (do {
           reg2_data \<leftarrow> rd_r (reg cpu) reg2;
           (result_data, g) \<leftarrow> float_op (\<lambda>cp rm g.
              let (result, raised) = fp_of_int h FLT rm (uint reg2_data);
                  result_data = set_subnormal_result cp (float_binary result)
              in Some (result_data, raised, g)) (reg cpu);
           g \<leftarrow> wr_r g reg3 result_data;
           ret cpu (add_pc 4 g)
         })))"

definition op_exec_cvtf_ld_F :: "fp_host \<Rightarrow> TargetCoreType \<Rightarrow> exec_result" where
  "op_exec_cvtf_ld_F h cpu =
     (let reg2 = ff_reg2 cpu; reg3 = ff_reg3 cpu
      in greg_check (reg2 + 1) cpu (greg_check (reg3 + 1) cpu (do {
           reg2_0_data \<leftarrow> rd_r (reg cpu) reg2;
           reg2_1_data \<leftarrow> rd_r (reg cpu) (reg2 + 1);
           (result_data, g) \<leftarrow> float_op (\<lambda>cp rm g.
              let (result, raised) = fp_of_int h DBL rm (sint (push_bit 32 (ucast reg2_0_data) OR ucast reg2_1_data :: u64));
                  result_data = set_subnormal_result_double cp (double_binary result)
              in Some (result_data, raised, g)) (reg cpu);
           g \<leftarrow> wr_double g reg3 result_data;
           ret cpu (add_pc 4 g)
         })))"

definition op_exec_cvtf_uld_F :: "fp_host \<Rightarrow> TargetCoreType \<Rightarrow> exec_result" where
  "op_exec_cvtf_uld_F h cpu =
     (let reg2 = ff_reg2 cpu; reg3 = ff_reg3 cpu
      in greg_check (reg2 + 1) cpu (greg_check (reg3 + 1) cpu (do {
           reg2_0_data \<leftarrow> rd_r (reg cpu) reg2;
           reg2_1_data \<leftarrow> rd_r (reg cpu) (reg2 + 1);
           (result_data, g) \<leftarrow> float_op (\<lambda>cp rm g.
              let (result, raised) = fp_of_int h DBL rm (uint (push_bit 32 (ucast reg2_0_data) OR ucast reg2_1_data :: u64));
                  result_data = set_subnormal_result_double cp (double_binary result)
              in Some (result_data, raised, g)) (reg cpu);
           g \<leftarrow> wr_double g reg3 result_data;
           ret cpu (add_pc 4 g)
         })))"

definition op_exec_cvtf_uwd_F :: "fp_host \<Rightarrow> TargetCoreType \<Rightarrow> exec_result" where
  "op_exec_cvtf_uwd_F h cpu =
     (let reg2 = ff_reg2 cpu; reg3 = ff_reg3 cpu
      in greg_check reg2 cpu (greg_check (reg3 + 1) cpu (do {
           reg2_data \<leftarrow> rd_r (reg cpu) reg2;
           (result_data, g) \<leftarrow> float_op (\<lambda>cp rm g.
              let (result, raised) = fp_of_int h DBL rm (uint reg2_data);
                  result_data = set_subnormal_result_double cp (double_binary result)
              in Some (result_data, raised, g)) (reg cpu);
           g \<leftarrow> wr_double g reg3 result_data;
           ret cpu (add_pc 4 g)
         })))"

definition op_exec_cvtf_wd_F :: "fp_host \<Rightarrow> TargetCoreType \<Rightarrow> exec_result" where
  "op_exec_cvtf_wd_F h cpu =
     (let reg2 = ff_reg2 cpu; reg3 = ff_reg3 cpu
      in greg_check reg2 cpu (greg_check (reg3 + 1) cpu (do {
           reg2_data \<leftarrow> rd_r (reg cpu) reg2;
           (result_data, g) \<leftarrow> float_op (\<lambda>cp rm g.
              let (result, raised) = fp_of_int h DBL rm (sint reg2_data);
                  result_data = set_subnormal_result_double cp (double_binary result)
              in Some (result_data, raised, g)) (reg cpu);
           g \<leftarrow> wr_double g reg3 result_data;
           ret cpu (add_pc 4 g)
         })))"

section \<open>Conversion of \<open>float\<close> to integers\<close>

text \<open>The cast of a number that is neither NaN nor infinite to a 64-bit integer, by \<open>cast\<close>; then the
  range of the 32-bit type is enforced. \<open>clip_invalid\<close> records the invalid operation.\<close>

definition clip_invalid :: "bool \<Rightarrow> CpuRegisterType \<Rightarrow> CpuRegisterType option" where
  "clip_invalid is_invalid g = (if is_invalid then fpst_raise SYS_FPSR_EXPR_V g else Some g)"

definition float_to_uint32 ::
  "(FloatBinaryDataType \<Rightarrow> int fp_result option) \<Rightarrow> TargetCoreType \<Rightarrow> exec_result" where
  "float_to_uint32 cast cpu =
     (let reg2 = ff_reg2 cpu; reg3 = ff_reg3 cpu
      in greg_check reg2 cpu (greg_check reg3 cpu (do {
           reg2_data \<leftarrow> rd_r (reg cpu) reg2;
           (result_data, g) \<leftarrow> float_op (\<lambda>cp rm g. do {
              (result, raised, is_invalid) \<leftarrow>
                (if FLOAT_IS_NAN reg2_data \<or> FLOAT_IS_INF reg2_data
                 then Some (if FLOAT_IS_PLUS reg2_data then UINT_MAX else 0, [], True)
                 else do {
                   (result, raised) \<leftarrow> cast reg2_data;
                   Some (if UINT_MAX < result then (UINT_MAX, raised, True) else (result, raised, False))
                 });
              g \<leftarrow> clip_invalid is_invalid g;
              Some (word_of_int result, raised, g)
            }) (reg cpu);
           g \<leftarrow> wr_r g reg3 result_data;
           ret cpu (add_pc 4 g)
         })))"

definition float_to_sint32 ::
  "(FloatBinaryDataType \<Rightarrow> int fp_result option) \<Rightarrow> TargetCoreType \<Rightarrow> exec_result" where
  "float_to_sint32 cast cpu =
     (let reg2 = ff_reg2 cpu; reg3 = ff_reg3 cpu
      in greg_check reg2 cpu (greg_check reg3 cpu (do {
           reg2_data \<leftarrow> rd_r (reg cpu) reg2;
           (result_data, g) \<leftarrow> float_op (\<lambda>cp rm g. do {
              (result, raised, is_invalid) \<leftarrow>
                (if FLOAT_IS_NAN reg2_data \<or> FLOAT_IS_INF reg2_data
                 then Some (if FLOAT_IS_PLUS reg2_data then INT_MAX else - INT_MAX, [], True)
                 else do {
                   (result, raised) \<leftarrow> cast reg2_data;
                   Some (if result < - INT_MAX then (- INT_MAX, raised, True)
                         else if INT_MAX < result then (INT_MAX, raised, True)
                         else (result, raised, False))
                 });
              g \<leftarrow> clip_invalid is_invalid g;
              Some (word_of_int result, raised, g)
            }) (reg cpu);
           g \<leftarrow> wr_r g reg3 result_data;
           ret cpu (add_pc 4 g)
         })))"

text \<open>The casts: of the operand itself, of \<open>truncf\<close> and of \<open>floorf\<close> of it.\<close>

definition cast_rint ::
  "fp_host \<Rightarrow> fp_format \<Rightarrow> fe_round \<Rightarrow> (fp \<Rightarrow> int fp_result option) \<Rightarrow> fp \<Rightarrow> int fp_result option" where
  "cast_rint h F rm cast x = do {
     let (y, e1) = fp_rint h F rm x;
     (n, e2) \<leftarrow> cast y;
     Some (n, e1 @ e2)
   }"

definition op_exec_cvtf_suw_F :: "fp_host \<Rightarrow> TargetCoreType \<Rightarrow> exec_result" where
  "op_exec_cvtf_suw_F h cpu = float_to_uint32 (\<lambda>x. to_uint64 h FLT (float_data x)) cpu"

definition op_exec_cvtf_sw_F :: "fp_host \<Rightarrow> TargetCoreType \<Rightarrow> exec_result" where
  "op_exec_cvtf_sw_F h cpu = float_to_sint32 (\<lambda>x. to_sint64 h FLT (float_data x)) cpu"

definition op_exec_trncf_sw_F :: "fp_host \<Rightarrow> TargetCoreType \<Rightarrow> exec_result" where
  "op_exec_trncf_sw_F h cpu = float_to_sint32 (\<lambda>x. cast_rint h FLT FE_TOWARDZERO (to_sint64 h FLT) (float_data x)) cpu"

definition op_exec_trncf_suw_F :: "fp_host \<Rightarrow> TargetCoreType \<Rightarrow> exec_result" where
  "op_exec_trncf_suw_F h cpu = float_to_uint32 (\<lambda>x. cast_rint h FLT FE_TOWARDZERO (to_uint64 h FLT) (float_data x)) cpu"

definition op_exec_floorf_suw_F :: "fp_host \<Rightarrow> TargetCoreType \<Rightarrow> exec_result" where
  "op_exec_floorf_suw_F h cpu = float_to_uint32 (\<lambda>x. cast_rint h FLT FE_DOWNWARD (to_uint64 h FLT) (float_data x)) cpu"

definition op_exec_trncf_sl_F :: "fp_host \<Rightarrow> TargetCoreType \<Rightarrow> exec_result" where
  "op_exec_trncf_sl_F h cpu =
     (let reg2 = ff_reg2 cpu; reg3 = ff_reg3 cpu
      in greg_check reg2 cpu (greg_check (reg3 + 1) cpu (do {
           reg2_data \<leftarrow> rd_r (reg cpu) reg2;
           (result_data, g) \<leftarrow> float_op (\<lambda>cp rm g. do {
              (result, raised, is_invalid) \<leftarrow>
                (if FLOAT_IS_NAN reg2_data then Some (- LONG_MAX, [], True)
                 else if FLOAT_IS_INF reg2_data then Some (LONG_MAX, [], True)
                 else do {
                   (result, raised) \<leftarrow> cast_rint h FLT FE_TOWARDZERO (to_sint64 h FLT) (float_data reg2_data);
                   Some (result, raised, False)
                 });
              g \<leftarrow> clip_invalid is_invalid g;
              Some (result, raised, g)
            }) (reg cpu);
           g \<leftarrow> wr_int64 g reg3 result_data;
           ret cpu (add_pc 4 g)
         })))"

text \<open>A number that is neither NaN nor infinite as an unsigned 64-bit integer: negative numbers
  give 0 and numbers above \<open>ULONG_MAX\<close> give it, both invalid.\<close>

definition clip_uint64 ::
  "fp_format \<Rightarrow> (fp \<Rightarrow> int fp_result option) \<Rightarrow> fp \<Rightarrow> (int \<times> fe_except list \<times> bool) option" where
  "clip_uint64 F cast x =
     (let (neg, e1) = fp_lt F x (fp_zero False); (big, e2) = fp_lt F (fp_ulong_max F) x
      in if neg then Some (0, e1, True)
         else if big then Some (ULONG_MAX, e1 @ e2, True)
         else do { (result, e3) \<leftarrow> cast x; Some (result, e1 @ e2 @ e3, False) })"

definition op_exec_trncf_sul_F :: "fp_host \<Rightarrow> TargetCoreType \<Rightarrow> exec_result" where
  "op_exec_trncf_sul_F h cpu =
     (let reg2 = ff_reg2 cpu; reg3 = ff_reg3 cpu
      in greg_check reg2 cpu (greg_check (reg3 + 1) cpu (do {
           reg2_data \<leftarrow> rd_r (reg cpu) reg2;
           (result_data, g) \<leftarrow> float_op (\<lambda>cp rm g. do {
              (result, raised, is_invalid) \<leftarrow>
                (if FLOAT_IS_NAN reg2_data then Some (0, [], True)
                 else if FLOAT_IS_INF reg2_data
                 then Some (if FLOAT_IS_PLUS reg2_data then ULONG_MAX else 0, [], True)
                 else clip_uint64 FLT (cast_rint h FLT FE_TOWARDZERO (to_uint64 h FLT)) (float_data reg2_data));
              g \<leftarrow> clip_invalid is_invalid g;
              Some (result, raised, g)
            }) (reg cpu);
           g \<leftarrow> wr_int64 g reg3 result_data;
           ret cpu (add_pc 4 g)
         })))"

definition op_exec_floorf_sul_F :: "fp_host \<Rightarrow> TargetCoreType \<Rightarrow> exec_result" where
  "op_exec_floorf_sul_F h cpu =
     (let reg2 = ff_reg2 cpu; reg3 = ff_reg3 cpu
      in greg_check reg2 cpu (greg_check reg3 cpu (do {
           reg2_data \<leftarrow> rd_r (reg cpu) reg2;
           (result_data, g) \<leftarrow> float_op (\<lambda>cp rm g. do {
              (result, raised, is_invalid) \<leftarrow>
                (if FLOAT_IS_NAN reg2_data then Some (0, [], True)
                 else if FLOAT_IS_INF reg2_data
                 then Some (if FLOAT_IS_PLUS reg2_data then ULONG_MAX else 0, [], True)
                 else clip_uint64 FLT (cast_rint h FLT FE_DOWNWARD (to_uint64 h FLT)) (float_data reg2_data));
              g \<leftarrow> clip_invalid is_invalid g;
              Some (result, raised, g)
            }) (reg cpu);
           g \<leftarrow> wr_int64 g reg3 result_data;
           ret cpu (add_pc 4 g)
         })))"

text \<open>\<open>floorf\<close> of the operand, stored as a floating-point number.\<close>

definition op_exec_floorf_sl_F :: "fp_host \<Rightarrow> TargetCoreType \<Rightarrow> exec_result" where
  "op_exec_floorf_sl_F h cpu =
     (let reg2 = ff_reg2 cpu; reg3 = ff_reg3 cpu
      in greg_check reg2 cpu (greg_check reg3 cpu (do {
           reg2_data \<leftarrow> rd_r (reg cpu) reg2;
           (result_data, g) \<leftarrow> float_op (\<lambda>cp rm g.
              let reg2_data = set_subnormal_operand cp reg2_data;
                  (f, e1) = fp_rint h FLT FE_DOWNWARD (float_data reg2_data);
                  (result, e2) = fp_cvt h FLT DBL rm f;
                  result_data = set_subnormal_result_double cp (double_binary result)
              in Some (result_data, e1 @ e2, g)) (reg cpu);
           g \<leftarrow> wr_double g reg3 result_data;
           ret cpu (add_pc 4 g)
         })))"

definition op_exec_floorf_sw_F :: "fp_host \<Rightarrow> TargetCoreType \<Rightarrow> exec_result" where
  "op_exec_floorf_sw_F h cpu =
     (let reg2 = ff_reg2 cpu; reg3 = ff_reg3 cpu
      in greg_check reg2 cpu (greg_check reg3 cpu (do {
           reg2_data \<leftarrow> rd_r (reg cpu) reg2;
           (result_data, g) \<leftarrow> float_op (\<lambda>cp rm g.
              let reg2_data = set_subnormal_operand cp reg2_data;
                  (result, raised) = fp_rint h FLT FE_DOWNWARD (float_data reg2_data);
                  result_data = set_subnormal_result cp (float_binary result)
              in Some (result_data, raised, g)) (reg cpu);
           g \<leftarrow> wr_r g reg3 result_data;
           ret cpu (add_pc 4 g)
         })))"

section \<open>Conversion of \<open>double\<close> to integers\<close>

text \<open>The operand flushed and cast; \<open>write\<close> stores the result.\<close>

definition double_to_int ::
  "u32 \<Rightarrow> (fp \<Rightarrow> int fp_result option) \<Rightarrow> (CpuRegisterType \<Rightarrow> u32 \<Rightarrow> int \<Rightarrow> CpuRegisterType option) \<Rightarrow> TargetCoreType \<Rightarrow> exec_result" where
  "double_to_int top_reg cast write cpu =
     (let reg2 = ff_reg2 cpu; reg3 = ff_reg3 cpu
      in greg_check (reg2 + 1) cpu (greg_check top_reg cpu (do {
           reg2_data \<leftarrow> rd_double (reg cpu) reg2;
           (result_data, g) \<leftarrow> float_op (\<lambda>cp rm g.
              let reg2_data = set_subnormal_operand_double cp reg2_data
              in do {
                   (result, raised) \<leftarrow> cast (double_data reg2_data);
                   Some (result, raised, g)
                 }) (reg cpu);
           g \<leftarrow> write g reg3 result_data;
           ret cpu (add_pc 4 g)
         })))"

definition wr_int32 :: "CpuRegisterType \<Rightarrow> u32 \<Rightarrow> int \<Rightarrow> CpuRegisterType option" where
  "wr_int32 g i v = wr_r g i (word_of_int v)"

definition op_exec_ceilf_dl_F :: "fp_host \<Rightarrow> TargetCoreType \<Rightarrow> exec_result" where
  "op_exec_ceilf_dl_F h cpu = double_to_int (ff_reg3 cpu + 1) (to_sint64 h DBL) wr_int64 cpu"

definition op_exec_cvtf_dl_F :: "fp_host \<Rightarrow> TargetCoreType \<Rightarrow> exec_result" where
  "op_exec_cvtf_dl_F h cpu = double_to_int (ff_reg3 cpu + 1) (to_sint64 h DBL) wr_int64 cpu"

definition op_exec_cvtf_dul_F :: "fp_host \<Rightarrow> TargetCoreType \<Rightarrow> exec_result" where
  "op_exec_cvtf_dul_F h cpu = double_to_int (ff_reg3 cpu + 1) (to_uint64 h DBL) wr_int64 cpu"

definition op_exec_cvtf_duw_F :: "fp_host \<Rightarrow> TargetCoreType \<Rightarrow> exec_result" where
  "op_exec_cvtf_duw_F h cpu = double_to_int (ff_reg3 cpu) (to_uint32 h DBL) wr_int32 cpu"

definition op_exec_cvtf_dw_F :: "fp_host \<Rightarrow> TargetCoreType \<Rightarrow> exec_result" where
  "op_exec_cvtf_dw_F h cpu = double_to_int (ff_reg3 cpu) (to_sint32 h DBL) wr_int32 cpu"

definition op_exec_trncf_duw_F :: "fp_host \<Rightarrow> TargetCoreType \<Rightarrow> exec_result" where
  "op_exec_trncf_duw_F h cpu = double_to_int (ff_reg3 cpu) (to_uint32 h DBL) wr_int32 cpu"

definition op_exec_trncf_dw_F :: "fp_host \<Rightarrow> TargetCoreType \<Rightarrow> exec_result" where
  "op_exec_trncf_dw_F h cpu = double_to_int (ff_reg3 cpu) (to_sint32 h DBL) wr_int32 cpu"

text \<open>\<open>op_exec_ceilf_duw_F\<close> does not call \<open>end_float_op\<close>.\<close>

definition op_exec_ceilf_duw_F :: "fp_host \<Rightarrow> TargetCoreType \<Rightarrow> exec_result" where
  "op_exec_ceilf_duw_F h cpu =
     (let reg2 = ff_reg2 cpu; reg3 = ff_reg3 cpu
      in greg_check (reg2 + 1) cpu (greg_check reg3 cpu (do {
           reg2_data \<leftarrow> rd_double (reg cpu) reg2;
           (ex, cp, rm) \<leftarrow> prepare_float_op (reg cpu);
           let reg2_data = set_subnormal_operand_double cp reg2_data;
           (result_data, raised) \<leftarrow> cast_rint h DBL FE_TOWARDZERO (to_sint32 h DBL) (double_data reg2_data);
           g \<leftarrow> wr_int32 (reg cpu) reg3 result_data;
           ret cpu (add_pc 4 g)
         })))"

definition op_exec_ceilf_dul_F :: "fp_host \<Rightarrow> TargetCoreType \<Rightarrow> exec_result" where
  "op_exec_ceilf_dul_F h cpu =
     (let reg2 = ff_reg2 cpu; reg3 = ff_reg3 cpu
      in greg_check (reg2 + 1) cpu (greg_check (reg3 + 1) cpu (do {
           reg2_data \<leftarrow> rd_double (reg cpu) reg2;
           (result_data, g) \<leftarrow> float_op (\<lambda>cp rm g. do {
              (result, raised, is_invalid) \<leftarrow>
                (if DOUBLE_IS_NAN reg2_data \<or> DOUBLE_IS_INF reg2_data
                 then Some (if DOUBLE_IS_PLUS reg2_data \<and> DOUBLE_IS_INF reg2_data then ULONG_MAX else 0, [], True)
                 else do {
                   let (t, e1) = fp_rint h DBL FE_TOWARDZERO (double_data reg2_data);
                   (result, e2, is_invalid) \<leftarrow> clip_uint64 DBL (to_uint64 h DBL) t;
                   Some (result, e1 @ e2, is_invalid)
                 });
              g \<leftarrow> clip_invalid is_invalid g;
              Some (result, raised, g)
            }) (reg cpu);
           g \<leftarrow> wr_int64 g reg3 result_data;
           ret cpu (add_pc 4 g)
         })))"

definition op_exec_trncf_dul_F :: "fp_host \<Rightarrow> TargetCoreType \<Rightarrow> exec_result" where
  "op_exec_trncf_dul_F h cpu =
     (let reg2 = ff_reg2 cpu; reg3 = ff_reg3 cpu
      in greg_check (reg2 + 1) cpu (greg_check (reg3 + 1) cpu (do {
           reg2_data \<leftarrow> rd_double (reg cpu) reg2;
           (result_data, g) \<leftarrow> float_op (\<lambda>cp rm g. do {
              (result, raised, is_invalid) \<leftarrow>
                (if DOUBLE_IS_NAN reg2_data then Some (0, [], True)
                 else if DOUBLE_IS_INF reg2_data
                 then Some (if DOUBLE_IS_PLUS reg2_data then ULONG_MAX else 0, [], True)
                 else clip_uint64 DBL (cast_rint h DBL FE_TOWARDZERO (to_uint64 h DBL)) (double_data reg2_data));
              g \<leftarrow> clip_invalid is_invalid g;
              Some (result, raised, g)
            }) (reg cpu);
           g \<leftarrow> wr_int64 g reg3 result_data;
           ret cpu (add_pc 4 g)
         })))"

definition op_exec_trncf_dl_F :: "fp_host \<Rightarrow> TargetCoreType \<Rightarrow> exec_result" where
  "op_exec_trncf_dl_F h cpu =
     (let reg2 = ff_reg2 cpu; reg3 = ff_reg3 cpu
      in greg_check (reg2 + 1) cpu (greg_check (reg3 + 1) cpu (do {
           reg2_data \<leftarrow> rd_double (reg cpu) reg2;
           (result_data, g) \<leftarrow> float_op (\<lambda>cp rm g. do {
              (result, raised, is_invalid) \<leftarrow>
                (if DOUBLE_IS_NAN reg2_data \<or> DOUBLE_IS_INF reg2_data
                 then Some (if DOUBLE_IS_PLUS reg2_data then LONG_MAX else - LONG_MAX, [], True)
                 else do {
                   (result, raised) \<leftarrow> cast_rint h DBL FE_TOWARDZERO (to_sint64 h DBL) (double_data reg2_data);
                   Some (if result < - LONG_MAX then (- LONG_MAX, raised, True)
                         else if LONG_MAX < result then (LONG_MAX, raised, True)
                         else (result, raised, False))
                 });
              g \<leftarrow> clip_invalid is_invalid g;
              Some (result, raised, g)
            }) (reg cpu);
           g \<leftarrow> wr_int64 g reg3 result_data;
           ret cpu (add_pc 4 g)
         })))"

section \<open>Further \<open>double\<close> operations\<close>

definition op_exec_absf_d_F :: "TargetCoreType \<Rightarrow> exec_result" where
  "op_exec_absf_d_F cpu =
     (let reg2 = ff_reg2 cpu; reg3 = ff_reg3 cpu
      in greg_check (reg2 + 1) cpu (greg_check (reg3 + 1) cpu (do {
           reg2_data \<leftarrow> rd_double (reg cpu) reg2;
           (result_data, g) \<leftarrow> float_op (\<lambda>cp rm g.
              let reg2_data = set_subnormal_operand_double cp reg2_data;
                  result_data = DOUBLE_SIGN_BIT_CLR reg2_data;
                  result_data = set_subnormal_result_double cp result_data
              in Some (result_data, [], g)) (reg cpu);
           g \<leftarrow> wr_double g reg3 result_data;
           ret cpu (add_pc 4 g)
         })))"

definition op_exec_cmovf_d_F :: "TargetCoreType \<Rightarrow> exec_result" where
  "op_exec_cmovf_d_F cpu =
     (let reg1 = ff_reg1 cpu; reg2 = ff_reg2 cpu; reg3 = ff_reg3 cpu; fcbit = ff_fcbit cpu
      in greg_check (reg1 + 1) cpu (greg_check (reg2 + 1) cpu (greg_check (reg3 + 1) cpu (do {
           reg1_data \<leftarrow> rd_double (reg cpu) reg1;
           reg2_data \<leftarrow> rd_double (reg cpu) reg2;
           data \<leftarrow> sys_get_fpsr_cc (reg cpu);
           let result_data = (if ucast data AND push_bit (unat fcbit) (1 :: u32) \<noteq> 0 then reg1_data else reg2_data);
           g \<leftarrow> wr_double (reg cpu) reg3 result_data;
           ret cpu (add_pc 4 g)
         }))))"

definition op_exec_cmpf_d_F :: "TargetCoreType \<Rightarrow> exec_result" where
  "op_exec_cmpf_d_F cpu =
     (let reg1 = ff_reg1 cpu; reg2 = ff_reg2 cpu; fcond = ff_reg3 cpu; fcbit = ff_fcbit cpu
      in greg_check (reg1 + 1) cpu (greg_check (reg2 + 1) cpu (do {
           reg1_data \<leftarrow> rd_double (reg cpu) reg1;
           reg2_data \<leftarrow> rd_double (reg cpu) reg2;
           (result_less, result_equal, result_unordered, g) \<leftarrow>
             (if DOUBLE_IS_NAN reg1_data \<or> DOUBLE_IS_NAN reg2_data then do {
                g \<leftarrow> (if fcond AND 0x00000008 \<noteq> 0 then fpst_raise SYS_FPSR_EXPR_V (reg cpu) else Some (reg cpu));
                Some (False, False, True, g)
              } else Some (fst (fp_lt DBL (double_data reg2_data) (double_data reg1_data)),
                           fst (fp_eq DBL (double_data reg2_data) (double_data reg1_data)), False, reg cpu));
           g \<leftarrow> cmpf_cc (cmpf_result result_less result_equal result_unordered) fcond fcbit g;
           ret cpu (add_pc 4 g)
         })))"

definition op_exec_maxf_d_F :: "TargetCoreType \<Rightarrow> exec_result" where
  "op_exec_maxf_d_F cpu =
     (let reg1 = ff_reg1 cpu; reg2 = ff_reg2 cpu; reg3 = ff_reg3 cpu
      in greg_check (reg1 + 1) cpu (greg_check (reg2 + 1) cpu (do {
           reg1_data \<leftarrow> rd_double (reg cpu) reg1;
           reg2_data \<leftarrow> rd_double (reg cpu) reg2;
           (result_data, g) \<leftarrow> float_op (\<lambda>cp rm g. do {
              let (result, raised, is_invalid) =
                (if double_is_snan reg1_data \<or> double_is_snan reg2_data then (double_get_qnan, [], True)
                 else if double_is_qnan reg1_data \<or> double_is_qnan reg2_data then (double_get_qnan, [], False)
                 else let (gt, e) = fp_lt DBL (double_data reg2_data) (double_data reg1_data)
                      in (if gt then reg1_data else reg2_data, e, False));
              g \<leftarrow> clip_invalid is_invalid g;
              Some (result, raised, g)
            }) (reg cpu);
           g \<leftarrow> wr_double g reg3 result_data;
           ret cpu (add_pc 4 g)
         })))"

definition op_exec_minf_d_F :: "TargetCoreType \<Rightarrow> exec_result" where
  "op_exec_minf_d_F cpu =
     (let reg1 = ff_reg1 cpu; reg2 = ff_reg2 cpu; reg3 = ff_reg3 cpu
      in greg_check (reg1 + 1) cpu (greg_check (reg2 + 1) cpu (greg_check (reg3 + 1) cpu (do {
           reg1_data \<leftarrow> rd_double (reg cpu) reg1;
           reg2_data \<leftarrow> rd_double (reg cpu) reg2;
           (result_data, g) \<leftarrow>
             (if double_is_snan reg1_data \<or> double_is_snan reg2_data then do {
                g \<leftarrow> fpst_raise SYS_FPSR_EXPR_V (reg cpu);
                Some (double_get_qnan, g)
              } else Some (if fst (fp_lt DBL (double_data reg1_data) (double_data reg2_data)) then reg1_data else reg2_data, reg cpu));
           g \<leftarrow> wr_double g reg3 result_data;
           ret cpu (add_pc 4 g)
         }))))"

definition op_exec_negf_d_F :: "TargetCoreType \<Rightarrow> exec_result" where
  "op_exec_negf_d_F cpu =
     (let reg2 = ff_reg2 cpu; reg3 = ff_reg3 cpu
      in greg_check (reg2 + 1) cpu (greg_check (reg3 + 1) cpu (do {
           reg2_data \<leftarrow> rd_double (reg cpu) reg2;
           (result_data, g) \<leftarrow> float_op (\<lambda>cp rm g.
              if double_is_qnan reg2_data then Some (double_get_qnan, [], g)
              else if double_is_snan reg2_data then do {
                g \<leftarrow> fpst_raise SYS_FPSR_EXPR_V g;
                Some (double_get_snan, [], g)
              }
              else Some (DOUBLE_SET_SIGN_REVERSE reg2_data, [], g)) (reg cpu);
           g \<leftarrow> wr_double g reg3 result_data;
           ret cpu (add_pc 4 g)
         })))"

definition fp_one :: "fp_format \<Rightarrow> fp" where "fp_one F = Fp False (nat (exp_bias F)) 0"

text \<open>The reciprocal: for infinite and zero operands the code sets the sign bit of the operand
  after its last use, so that the result is positive.\<close>

definition op_exec_recipf_s_F :: "fp_host \<Rightarrow> TargetCoreType \<Rightarrow> exec_result" where
  "op_exec_recipf_s_F h cpu =
     (let reg2 = ff_reg2 cpu; reg3 = ff_reg3 cpu
      in greg_check reg2 cpu (greg_check reg3 cpu (do {
           reg2_data \<leftarrow> rd_r (reg cpu) reg2;
           (result_data, g) \<leftarrow> float_op (\<lambda>cp rm g.
              if float_is_qnan reg2_data then Some (float_get_qnan, [], g)
              else if float_is_snan reg2_data then do {
                g \<leftarrow> fpst_raise SYS_FPSR_EXPR_V g;
                Some (float_get_snan, [], g)
              }
              else if FLOAT_IS_INF reg2_data then Some (float_binary (fp_zero False), [], g)
              else if FLOAT_IS_ZERO reg2_data then do {
                g \<leftarrow> fpst_raise SYS_FPSR_EXPR_Z g;
                Some (float_binary (fp_inf FLT False), [], g)
              }
              else let (result, raised) = fp_div h FLT rm (fp_one FLT) (float_data reg2_data)
                   in Some (float_binary result, raised, g)) (reg cpu);
           g \<leftarrow> wr_r g reg3 result_data;
           ret cpu (add_pc 4 g)
         })))"

definition op_exec_recipf_d_F :: "fp_host \<Rightarrow> TargetCoreType \<Rightarrow> exec_result" where
  "op_exec_recipf_d_F h cpu =
     (let reg2 = ff_reg2 cpu; reg3 = ff_reg3 cpu
      in greg_check (reg2 + 1) cpu (greg_check (reg3 + 1) cpu (do {
           reg2_data \<leftarrow> rd_double (reg cpu) reg2;
           (result_data, g) \<leftarrow> float_op (\<lambda>cp rm g.
              if double_is_qnan reg2_data then Some (double_get_qnan, [], g)
              else if double_is_snan reg2_data then do {
                g \<leftarrow> fpst_raise SYS_FPSR_EXPR_V g;
                Some (double_get_snan, [], g)
              }
              else if DOUBLE_IS_INF reg2_data then Some (double_binary (fp_zero False), [], g)
              else if DOUBLE_IS_ZERO reg2_data then do {
                g \<leftarrow> fpst_raise SYS_FPSR_EXPR_Z g;
                Some (double_binary (fp_inf DBL False), [], g)
              }
              else let (result, raised) = fp_div h DBL rm (fp_one DBL) (double_data reg2_data)
                   in Some (double_binary result, raised, g)) (reg cpu);
           g \<leftarrow> wr_double g reg3 result_data;
           ret cpu (add_pc 4 g)
         })))"

definition op_exec_rsqrtf_d_F :: "fp_host \<Rightarrow> TargetCoreType \<Rightarrow> exec_result" where
  "op_exec_rsqrtf_d_F h cpu =
     (let reg2 = ff_reg2 cpu; reg3 = ff_reg3 cpu
      in greg_check (reg2 + 1) cpu (greg_check (reg3 + 1) cpu (do {
           reg2_data \<leftarrow> rd_double (reg cpu) reg2;
           (result_data, g) \<leftarrow> float_op (\<lambda>cp rm g.
              let reg2_data = set_subnormal_operand_double cp reg2_data;
                  (s, e1) = fp_sqrt h DBL rm (double_data reg2_data);
                  (result, e2) = fp_div h DBL rm (fp_one DBL) s;
                  result_data = set_subnormal_result_double cp (double_binary result)
              in Some (result_data, e1 @ e2, g)) (reg cpu);
           g \<leftarrow> wr_double g reg3 result_data;
           ret cpu (add_pc 4 g)
         })))"

definition op_exec_sqrtf_d_F :: "fp_host \<Rightarrow> TargetCoreType \<Rightarrow> exec_result" where
  "op_exec_sqrtf_d_F h cpu =
     (let reg2 = ff_reg2 cpu; reg3 = ff_reg3 cpu
      in greg_check (reg2 + 1) cpu (greg_check (reg3 + 1) cpu (do {
           reg2_data \<leftarrow> rd_double (reg cpu) reg2;
           (result_data, g) \<leftarrow> float_op (\<lambda>cp rm g.
              let reg2_data = set_subnormal_operand_double cp reg2_data;
                  (result, raised) = fp_sqrt h DBL rm (double_data reg2_data);
                  result_data = set_subnormal_result_double cp (double_binary result)
              in Some (result_data, raised, g)) (reg cpu);
           g \<leftarrow> wr_double g reg3 result_data;
           ret cpu (add_pc 4 g)
         })))"

text \<open>\<open>(float)1/sqrt(x)\<close> is computed in \<open>double\<close> and converted back.\<close>

definition op_exec_rsqrtf_s_F :: "fp_host \<Rightarrow> TargetCoreType \<Rightarrow> exec_result" where
  "op_exec_rsqrtf_s_F h cpu =
     (let reg2 = ff_reg2 cpu; reg3 = ff_reg3 cpu
      in greg_check reg2 cpu (greg_check reg3 cpu (do {
           reg2_data \<leftarrow> rd_r (reg cpu) reg2;
           (result_data, g) \<leftarrow> float_op (\<lambda>cp rm g.
              let reg2_data = set_subnormal_operand cp reg2_data;
                  (x, e1) = fp_cvt h FLT DBL rm (float_data reg2_data);
                  (s, e2) = fp_sqrt h DBL rm x;
                  (q, e3) = fp_div h DBL rm (fp_one DBL) s;
                  (result, e4) = fp_cvt h DBL FLT rm q;
                  result_data = set_subnormal_result cp (float_binary result)
              in Some (result_data, e1 @ e2 @ e3 @ e4, g)) (reg cpu);
           g \<leftarrow> wr_r g reg3 result_data;
           ret cpu (add_pc 4 g)
         })))"

definition op_exec_sqrtf_s_F :: "fp_host \<Rightarrow> TargetCoreType \<Rightarrow> exec_result" where
  "op_exec_sqrtf_s_F h cpu =
     (let reg2 = ff_reg2 cpu; reg3 = ff_reg3 cpu
      in greg_check reg2 cpu (greg_check reg3 cpu (do {
           reg2_data \<leftarrow> rd_r (reg cpu) reg2;
           (result_data, g) \<leftarrow> float_op (\<lambda>cp rm g.
              let reg2_data = set_subnormal_operand cp reg2_data;
                  (result, raised) = fp_sqrt h FLT rm (float_data reg2_data);
                  result_data = set_subnormal_result cp (float_binary result)
              in Some (result_data, raised, g)) (reg cpu);
           g \<leftarrow> wr_r g reg3 result_data;
           ret cpu (add_pc 4 g)
         })))"

section \<open>Operations that are not supported\<close>

definition op_exec_ceilf_dw_F :: "TargetCoreType \<Rightarrow> exec_result" where
  "op_exec_ceilf_dw_F cpu = Some (-1, cpu)"

definition op_exec_floorf_dl_F :: "TargetCoreType \<Rightarrow> exec_result" where
  "op_exec_floorf_dl_F cpu = Some (-1, cpu)"

definition op_exec_floorf_dul_F :: "TargetCoreType \<Rightarrow> exec_result" where
  "op_exec_floorf_dul_F cpu = Some (-1, cpu)"

definition op_exec_floorf_duw_F :: "TargetCoreType \<Rightarrow> exec_result" where
  "op_exec_floorf_duw_F cpu = Some (-1, cpu)"

definition op_exec_floorf_dw_F :: "TargetCoreType \<Rightarrow> exec_result" where
  "op_exec_floorf_dw_F cpu = Some (-1, cpu)"

definition op_exec_ceilf_sl_F :: "TargetCoreType \<Rightarrow> exec_result" where
  "op_exec_ceilf_sl_F cpu = Some (-1, cpu)"

definition op_exec_ceilf_sul_F :: "TargetCoreType \<Rightarrow> exec_result" where
  "op_exec_ceilf_sul_F cpu = Some (-1, cpu)"

definition op_exec_ceilf_suw_F :: "TargetCoreType \<Rightarrow> exec_result" where
  "op_exec_ceilf_suw_F cpu = Some (-1, cpu)"

definition op_exec_ceilf_sw_F :: "TargetCoreType \<Rightarrow> exec_result" where
  "op_exec_ceilf_sw_F cpu = Some (-1, cpu)"

definition op_exec_cvtf_sl_F :: "TargetCoreType \<Rightarrow> exec_result" where
  "op_exec_cvtf_sl_F cpu = Some (-1, cpu)"

definition op_exec_cvtf_sul_F :: "TargetCoreType \<Rightarrow> exec_result" where
  "op_exec_cvtf_sul_F cpu = Some (-1, cpu)"

end
