(* ===== verification/V850_Cpu.thy ===== *)
theory V850_Cpu
  imports V850_Parse V850_Exec_Bit V850_Exec_Branch V850_Exec_Store V850_Exec_Spec V850_Exec_Fpu
begin

unbundle bit_operations_syntax

text \<open>
  The execution loop: \<open>op_exec_table\<close> of \<open>src/cpu/cpu_exec/op_exec.c\<close> (with the names of
  \<open>op_exec.h\<close> resolved) and \<open>cpu_supply_clock\<close> of \<open>src/cpu/config/cpu_config.c\<close>, in the
  configuration the build selects (\<open>CPU_PERMISSION_OPTIMIZE\<close>).

  The table maps an operation code to its clock count and its executor; an executor that is not
  supported is \<open>None\<close>, the NULL pointer of the C table. The argument \<open>fpu\<close> says what the
  C implementation chooses in floating-point arithmetic (\<open>V850_Float\<close>).
  \<open>virtual_cpu_get_cached_code\<close> is code of the Athrill core outside this repository; its model
  is the argument \<open>get_cached_code\<close>, which yields the block that covers an address and the
  address at which the block starts.
\<close>

section \<open>The table of executors\<close>

type_synonym 'w exec = "'w machine \<Rightarrow> 'w bus_result"

definition op_exec_table :: "object_container \<Rightarrow> 'w bus \<Rightarrow> fp_host \<Rightarrow> (u32 \<times> 'w exec option) list" where
  "op_exec_table oc bus fpu = [
    (7, Some (on_core op_exec_absf_d_F)),
    (7, Some (on_core op_exec_absf_s_F)),
    (1, Some (on_core op_exec_add_1)),
    (1, Some (on_core op_exec_add_2)),
    (7, Some (on_core (op_exec_addf_d_F fpu))),
    (7, Some (on_core (op_exec_addf_s_F fpu))),
    (1, Some (on_core op_exec_addi)),
    (1, Some (on_core op_exec_adf_11)),
    (1, Some (on_core op_exec_and)),
    (1, Some (on_core op_exec_andi)),
    (1, Some (on_core op_exec_bsh_12)),
    (1, Some (on_core op_exec_bsw_12)),
    (4, Some (on_core op_exec_bcond_3)),
    (10, None),
    (4, Some (op_exec_caxi bus)),
    (7, Some (on_core (op_exec_ceilf_dl_F fpu))),
    (7, Some (on_core (op_exec_ceilf_dul_F fpu))),
    (7, Some (on_core (op_exec_ceilf_duw_F fpu))),
    (7, Some (on_core op_exec_ceilf_dw_F)),
    (7, Some (on_core op_exec_ceilf_sl_F)),
    (7, Some (on_core op_exec_ceilf_sul_F)),
    (7, Some (on_core op_exec_ceilf_suw_F)),
    (7, Some (on_core op_exec_ceilf_sw_F)),
    (4, Some (op_exec_clr1_8 bus)),
    (4, Some (op_exec_clr1_9 bus)),
    (1, Some (on_core op_exec_cmov_12)),
    (1, Some (on_core op_exec_cmov_11)),
    (7, Some (on_core op_exec_cmovf_d_F)),
    (7, Some (on_core op_exec_cmovf_s_F)),
    (1, Some (on_core op_exec_cmp_1)),
    (1, Some (on_core op_exec_cmp_2)),
    (7, Some (on_core op_exec_cmpf_d_F)),
    (7, Some (on_core op_exec_cmpf_s_F)),
    (7, None),
    (7, Some (on_core (op_exec_cvtf_dl_F fpu))),
    (7, Some (on_core (op_exec_cvtf_ds_F fpu))),
    (7, Some (on_core (op_exec_cvtf_dul_F fpu))),
    (7, Some (on_core (op_exec_cvtf_duw_F fpu))),
    (7, Some (on_core (op_exec_cvtf_dw_F fpu))),
    (7, Some (on_core (op_exec_cvtf_ld_F fpu))),
    (7, Some (on_core (op_exec_cvtf_ls_F fpu))),
    (7, Some (on_core (op_exec_cvtf_sd_F fpu))),
    (7, Some (on_core op_exec_cvtf_sl_F)),
    (7, Some (on_core op_exec_cvtf_sul_F)),
    (7, Some (on_core (op_exec_cvtf_suw_F fpu))),
    (7, Some (on_core (op_exec_cvtf_sw_F fpu))),
    (7, Some (on_core (op_exec_cvtf_uld_F fpu))),
    (7, Some (on_core (op_exec_cvtf_uls_F fpu))),
    (7, Some (on_core (op_exec_cvtf_uwd_F fpu))),
    (7, Some (on_core (op_exec_cvtf_uws_F fpu))),
    (7, Some (on_core (op_exec_cvtf_wd_F fpu))),
    (7, Some (on_core (op_exec_cvtf_ws_F fpu))),
    (3, Some (on_core op_exec_diei)),
    (2, Some (op_exec_dispose oc bus)),
    (19, Some (on_core op_exec_div)),
    (20, Some (on_core (op_exec_divf_d_F fpu))),
    (20, Some (on_core (op_exec_divf_s_F fpu))),
    (36, Some (on_core op_exec_divh_1)),
    (19, Some (on_core op_exec_divh_11)),
    (19, Some (on_core op_exec_divhu)),
    (19, Some (on_core op_exec_divq)),
    (19, Some (on_core op_exec_divqu_11)),
    (19, Some (on_core op_exec_divu)),
    (3, Some (on_core op_exec_diei)),
    (7, Some (on_core op_exec_eiret_10)),
    (7, Some (on_core op_exec_feret_10)),
    (7, Some (on_core op_exec_fetrap_1)),
    (7, Some (on_core op_exec_floorf_dl_F)),
    (7, Some (on_core op_exec_floorf_dul_F)),
    (7, Some (on_core op_exec_floorf_duw_F)),
    (7, Some (on_core op_exec_floorf_dw_F)),
    (7, Some (on_core (op_exec_floorf_sl_F fpu))),
    (7, Some (on_core (op_exec_floorf_sul_F fpu))),
    (7, Some (on_core (op_exec_floorf_suw_F fpu))),
    (7, Some (on_core (op_exec_floorf_sw_F fpu))),
    (1, Some (on_core op_exec_halt)),
    (1, Some (on_core op_exec_hsh_12)),
    (1, Some (on_core op_exec_hsw_12)),
    (4, Some (op_exec_jarl_6 bus)),
    (4, Some (on_core op_exec_jr)),
    (4, Some (on_core op_exec_jmp)),
    (5, Some (op_exec_jmp_6 bus)),
    (4, Some (op_exec_jr_6 bus)),
    (4, Some (on_core op_exec_jr)),
    (3, Some (on_core op_exec_ldsr)),
    (3, Some (op_exec_ldb bus)),
    (3, Some (op_exec_ld_b_14 bus)),
    (3, Some (op_exec_ldbu bus)),
    (3, Some (op_exec_ld_bu_14 bus)),
    (3, Some (op_exec_ldhw bus)),
    (3, Some (op_exec_ld_h_14 bus)),
    (3, Some (op_exec_ld_hu_14 bus)),
    (3, Some (op_exec_ldhu bus)),
    (3, Some (op_exec_ldhw bus)),
    (3, Some (op_exec_ld_w_14 bus)),
    (3, Some (on_core op_exec_mac_11)),
    (3, Some (on_core op_exec_macu_11)),
    (7, Some (on_core (op_exec_maddf_s_F fpu))),
    (7, Some (on_core op_exec_maxf_d_F)),
    (7, Some (on_core op_exec_maxf_s_F)),
    (7, Some (on_core op_exec_minf_d_F)),
    (7, Some (on_core op_exec_minf_s_F)),
    (1, Some (on_core op_exec_mov_1)),
    (1, Some (on_core op_exec_mov_2)),
    (1, Some (op_exec_mov_6 bus)),
    (1, Some (on_core op_exec_movea)),
    (1, Some (on_core op_exec_movhi)),
    (7, Some (on_core (op_exec_msubf_s_F fpu))),
    (3, Some (on_core op_exec_mul)),
    (3, Some (on_core op_exec_mul_12)),
    (8, Some (on_core (op_exec_mulf_d_F fpu))),
    (7, Some (on_core (op_exec_mulf_s_F fpu))),
    (3, Some (on_core op_exec_mulh_1)),
    (3, Some (on_core op_exec_mulh_2)),
    (3, Some (on_core op_exec_mulhi)),
    (3, Some (on_core op_exec_mulu)),
    (3, Some (on_core op_exec_mulu_12)),
    (7, Some (on_core op_exec_negf_d_F)),
    (7, Some (on_core op_exec_negf_s_F)),
    (7, Some (on_core (op_exec_nmaddf_s_F fpu))),
    (7, Some (on_core (op_exec_nmsubf_s_F fpu))),
    (1, Some (on_core op_exec_nop)),
    (1, Some (on_core op_exec_not)),
    (4, Some (op_exec_not1_8 bus)),
    (4, Some (op_exec_not1_9 bus)),
    (1, Some (on_core op_exec_or)),
    (1, Some (on_core op_exec_ori)),
    (2, Some (op_exec_prepare oc bus)),
    (32, Some (on_core (op_exec_recipf_d_F fpu))),
    (16, Some (on_core (op_exec_recipf_s_F fpu))),
    (7, Some op_exec_reti),
    (7, None),
    (7, None),
    (42, Some (on_core (op_exec_rsqrtf_d_F fpu))),
    (20, Some (on_core (op_exec_rsqrtf_s_F fpu))),
    (1, Some (on_core op_exec_sar_2)),
    (1, Some (on_core op_exec_sar_9)),
    (1, Some (on_core op_exec_sar_11)),
    (1, Some (on_core op_exec_sasf_9)),
    (1, Some (on_core op_exec_satadd_1)),
    (1, Some (on_core op_exec_satadd_2)),
    (1, Some (on_core op_exec_satadd_11)),
    (1, Some (on_core op_exec_satsub_1)),
    (1, Some (on_core op_exec_satsub_11)),
    (1, Some (on_core op_exec_satsubi)),
    (1, Some (on_core op_exec_satsubr_1)),
    (1, Some (on_core op_exec_sbf_11)),
    (1, Some (on_core op_exec_sch0l_9)),
    (1, Some (on_core op_exec_sch0r_9)),
    (1, Some (on_core op_exec_sch1l_9)),
    (1, Some (on_core op_exec_sch1r_9)),
    (4, Some (op_exec_set1_8 bus)),
    (4, Some (op_exec_set1_9 bus)),
    (1, Some (on_core op_exec_setf)),
    (1, Some (on_core op_exec_shl_2)),
    (1, Some (on_core op_exec_shl_9)),
    (1, Some (on_core op_exec_shl_11)),
    (1, Some (on_core op_exec_shr_2)),
    (1, Some (on_core op_exec_shr_9)),
    (1, Some (on_core op_exec_shr_11)),
    (3, Some (op_exec_sldb bus)),
    (3, Some (op_exec_sldbu bus)),
    (3, Some (op_exec_sldh bus)),
    (3, Some (op_exec_sldhu bus)),
    (3, Some (op_exec_sldw bus)),
    (36, Some (on_core (op_exec_sqrtf_d_F fpu))),
    (20, Some (on_core (op_exec_sqrtf_s_F fpu))),
    (1, Some (op_exec_sstb bus)),
    (1, Some (op_exec_ssth bus)),
    (1, Some (op_exec_sstw bus)),
    (1, Some (on_core op_exec_stsr)),
    (1, Some (op_exec_stb bus)),
    (1, Some (op_exec_st_b_14 bus)),
    (1, Some (op_exec_sthw bus)),
    (1, Some (op_exec_st_h_14 bus)),
    (1, Some (op_exec_sthw bus)),
    (1, Some (op_exec_st_w_14 bus)),
    (1, Some (on_core op_exec_sub)),
    (7, Some (on_core (op_exec_subf_d_F fpu))),
    (7, Some (on_core (op_exec_subf_s_F fpu))),
    (1, Some (on_core op_exec_subr)),
    (8, Some (op_exec_switch bus)),
    (1, Some (on_core op_exec_sxb)),
    (1, Some (on_core op_exec_sxh)),
    (10, None),
    (10, None),
    (10, None),
    (10, Some (op_exec_syscall_10 bus)),
    (7, Some (on_core op_exec_trap)),
    (1, Some (on_core op_exec_trfsr_F)),
    (7, Some (on_core (op_exec_trncf_dl_F fpu))),
    (7, Some (on_core (op_exec_trncf_dul_F fpu))),
    (7, Some (on_core (op_exec_trncf_duw_F fpu))),
    (7, Some (on_core (op_exec_trncf_dw_F fpu))),
    (7, Some (on_core (op_exec_trncf_sl_F fpu))),
    (7, Some (on_core (op_exec_trncf_sul_F fpu))),
    (7, Some (on_core (op_exec_trncf_suw_F fpu))),
    (7, Some (on_core (op_exec_trncf_sw_F fpu))),
    (1, Some (on_core op_exec_tst)),
    (4, Some (op_exec_tst1_8 bus)),
    (4, Some (op_exec_tst1_9 bus)),
    (1, Some (on_core op_exec_xor)),
    (1, Some (on_core op_exec_xori)),
    (1, Some (on_core op_exec_zxb)),
    (1, Some (on_core op_exec_zxh))]"

lemma length_op_exec_table [simp]: "length (op_exec_table oc bus fpu) = OpCodeId_Num"
  by (simp add: op_exec_table_def OpCodeId_Num_def)

section \<open>The state of the execution loop\<close>

text \<open>
  \<open>CachedCode\<close> is one slot of a block of cached code. The decoded operands of an instruction
  are kept in its slot, or in the static variable of \<open>cpu_supply_clock_not_cached\<close>
  (\<open>static_decoded\<close>) if no block covers it; \<open>decoded_code\<close> of the core is what its pointer
  denotes.
\<close>

record 'w CachedCode =
  cc_code_id :: nat
  cc_decoded_code :: OpDecodedCodeType
  cc_op_exec :: "'w exec option"

record 'w vcpu =
  v_machine :: "'w machine"
  v_elaps :: u64
  static_decoded :: OpDecodedCodeType
  cached_codes :: "nat \<Rightarrow> u32 \<Rightarrow> 'w CachedCode"

abbreviation v_core :: "'w vcpu \<Rightarrow> TargetCoreType" where
  "v_core v \<equiv> m_core (v_machine v)"

definition upd_core :: "(TargetCoreType \<Rightarrow> TargetCoreType) \<Rightarrow> 'w vcpu \<Rightarrow> 'w vcpu" where
  "upd_core f v = v\<lparr>v_machine := (v_machine v)\<lparr>m_core := f (v_core v)\<rparr>\<rparr>"

definition zero_r0 :: "'w vcpu \<Rightarrow> 'w vcpu" where
  "zero_r0 = upd_core (\<lambda>cpu. cpu\<lparr>reg := set_r 0 0 (reg cpu)\<rparr>)"

text \<open>The slot an access goes to, and writing its decoded operands.\<close>

definition get_decoded :: "(nat \<times> u32) option \<Rightarrow> 'w vcpu \<Rightarrow> OpDecodedCodeType" where
  "get_decoded slot v =
     (case slot of None \<Rightarrow> static_decoded v | Some (b, inx) \<Rightarrow> cc_decoded_code (cached_codes v b inx))"

definition set_slot :: "nat \<Rightarrow> u32 \<Rightarrow> 'w CachedCode \<Rightarrow> 'w vcpu \<Rightarrow> 'w vcpu" where
  "set_slot b inx c v = v\<lparr>cached_codes := (cached_codes v)(b := (cached_codes v b)(inx := c))\<rparr>"

definition put_decoded :: "(nat \<times> u32) option \<Rightarrow> OpDecodedCodeType \<Rightarrow> 'w vcpu \<Rightarrow> 'w vcpu" where
  "put_decoded slot d v =
     (let v = (case slot of
                 None \<Rightarrow> v\<lparr>static_decoded := d\<rparr>
               | Some (b, inx) \<Rightarrow> set_slot b inx ((cached_codes v b inx)\<lparr>cc_decoded_code := d\<rparr>) v)
      in upd_core (\<lambda>cpu. cpu\<lparr>decoded_code := d\<rparr>) v)"

text \<open>Running an executor: its clocks, its effect, and the elapsed time if it succeeds.\<close>

definition run_exec :: "u32 \<Rightarrow> 'w exec \<Rightarrow> 'w vcpu \<Rightarrow> (Std_ReturnType \<times> 'w vcpu) option" where
  "run_exec clocks exec v = do {
     let v = upd_core (\<lambda>cpu. cpu\<lparr>real_elaps := clocks\<rparr>) v;
     (ret', m) \<leftarrow> exec (v_machine v);
     let v = v\<lparr>v_machine := m\<rparr>;
     if ret' < 0 then Some (STD_E_EXEC, v)
     else Some (STD_E_OK, v\<lparr>v_elaps := v_elaps v + ucast (real_elaps (v_core v))\<rparr>)
   }"

definition clock_permission :: "object_container \<Rightarrow> u32 \<Rightarrow> 'w vcpu \<Rightarrow> bool \<times> 'w vcpu" where
  "clock_permission oc nbytes v =
     (let pc = reg_pc (reg (v_core v));
          (permission, cpu) = cpu_has_permission_for_clock_supply oc pc CpuMemoryAccess_EXEC pc nbytes (v_core v)
      in (permission, upd_core (\<lambda>_. cpu) v))"

section \<open>One instruction\<close>

definition cpu_supply_clock_not_cached ::
  "object_container \<Rightarrow> 'w bus \<Rightarrow> fp_host \<Rightarrow> (nat \<times> u32) option \<Rightarrow> 'w vcpu
   \<Rightarrow> (Std_ReturnType \<times> 'w vcpu) option" where
  "cpu_supply_clock_not_cached oc bus fpu slot v =
     (let v = upd_core (\<lambda>cpu. cpu\<lparr>decoded_code := get_decoded slot v\<rparr>) v;
          (err, p, m) = bus_get_pointer bus (core_id (v_core v)) (reg_pc (reg (v_core v))) (v_machine v);
          v = v\<lparr>v_machine := m\<rparr>
      in if err \<noteq> STD_E_OK then Some (err, v)
         else
           let code = (\<lambda>i. host_get16 bus (p + 2 * i) m);
               v = upd_core (\<lambda>cpu. cpu\<lparr>current_code := code\<rparr>) v
           in do {
                parsed \<leftarrow> op_parse code (get_decoded slot v);
                (case parsed of
                   None \<Rightarrow> Some (STD_E_DECODE, v)
                 | Some (optype, d) \<Rightarrow> do {
                     let v = put_decoded slot d v;
                     nbytes \<leftarrow> OpFormatSize (type_id d);
                     let (permission, v) = clock_permission oc nbytes v;
                     if \<not> permission then Some (STD_E_SEGV, v)
                     else do {
                       (clocks, exec) \<leftarrow> table_at (op_exec_table oc bus fpu) (code_id optype);
                       (case exec of
                          None \<Rightarrow> Some (STD_E_EXEC, v)
                        | Some f \<Rightarrow> do {
                            (err, v) \<leftarrow> run_exec clocks f v;
                            if err \<noteq> STD_E_OK then Some (err, v)
                            else Some (STD_E_OK,
                              case slot of
                                None \<Rightarrow> v
                              | Some (b, inx) \<Rightarrow>
                                  set_slot b inx ((cached_codes v b inx)
                                    \<lparr>cc_code_id := code_id optype, cc_op_exec := exec\<rparr>) v)
                          })
                     }
                   })
              })"

definition cpu_supply_clock ::
  "object_container \<Rightarrow> 'w bus \<Rightarrow> fp_host \<Rightarrow> (u32 \<Rightarrow> (nat \<times> u32) option) \<Rightarrow> 'w vcpu
   \<Rightarrow> (Std_ReturnType \<times> 'w vcpu) option" where
  "cpu_supply_clock oc bus fpu get_cached_code v =
     (if is_halt (v_core v) then Some (STD_E_OK, v)
      else
        let v = zero_r0 v;
            pc = reg_pc (reg (v_core v));
            slot = map_option (\<lambda>(b, start). (b, pc - start)) (get_cached_code pc);
            cached = (case slot of None \<Rightarrow> None | Some (b, inx) \<Rightarrow> cc_op_exec (cached_codes v b inx))
        in case cached of
             None \<Rightarrow> do {
               (err, v) \<leftarrow> cpu_supply_clock_not_cached oc bus fpu slot v;
               if err \<noteq> STD_E_OK then Some (err, v) else Some (STD_E_OK, zero_r0 v)
             }
           | Some op_exec \<Rightarrow> do {
               let (b, inx) = the slot;
               let code_id = cc_code_id (cached_codes v b inx);
               let v = upd_core (\<lambda>cpu. cpu\<lparr>decoded_code := get_decoded slot v\<rparr>) v;
               nbytes \<leftarrow> OpFormatSize (type_id (cc_decoded_code (cached_codes v b inx)));
               let (permission, v) = clock_permission oc nbytes v;
               if \<not> permission then Some (STD_E_SEGV, v)
               else do {
                 (clocks, _) \<leftarrow> table_at (op_exec_table oc bus fpu) code_id;
                 (err, v) \<leftarrow> run_exec clocks op_exec v;
                 if err \<noteq> STD_E_OK then Some (err, v) else Some (STD_E_OK, zero_r0 v)
               }
             })"

end
