(* ===== verification/V850_Frames.thy ===== *)
theory V850_Frames
  imports V850_Cpu
begin

unbundle bit_operations_syntax

text \<open>
  What the straight-line executors have in common: the locale \<open>core_executor\<close> is the contract
  of an executor that only computes on the register file, \<open>straight_line\<close> lists the
  executors of the table that keep it with their operation code and the distance they advance
  the program counter, and the lemmas below say that the table holds them, how the distance
  compares with the size of the format, and for which of them the result is always defined.
\<close>

section \<open>Fields the helpers leave alone\<close>

lemma psw_ops_frame [frame_simps]:
  "reg_pc (psw_set m g) = reg_pc g" "reg_r (psw_set m g) = reg_r g"
  "reg_pc (psw_clr m g) = reg_pc g" "reg_r (psw_clr m g) = reg_r g"
  by (simp_all add: psw_set_def psw_clr_def)

lemma flag_ops_frame [frame_simps]:
  "reg_pc (op_chk_and_set_carry a b g) = reg_pc g" "reg_r (op_chk_and_set_carry a b g) = reg_r g"
  "reg_pc (op_chk_and_set_carry3 a b c g) = reg_pc g" "reg_r (op_chk_and_set_carry3 a b c g) = reg_r g"
  "reg_pc (op_chk_and_set_borrow a b g) = reg_pc g" "reg_r (op_chk_and_set_borrow a b g) = reg_r g"
  "reg_pc (op_chk_and_set_borrow3 a b c g) = reg_pc g" "reg_r (op_chk_and_set_borrow3 a b c g) = reg_r g"
  "reg_pc (op_chk_and_set_overflow x y g) = reg_pc g" "reg_r (op_chk_and_set_overflow x y g) = reg_r g"
  "reg_pc (op_chk_and_set_overflow3 x y z g) = reg_pc g" "reg_r (op_chk_and_set_overflow3 x y z g) = reg_r g"
  "reg_pc (op_chk_and_set_zero a g) = reg_pc g" "reg_r (op_chk_and_set_zero a g) = reg_r g"
  "reg_pc (op_chk_and_set_sign a g) = reg_pc g" "reg_r (op_chk_and_set_sign a g) = reg_r g"
  "reg_pc (op_chk_and_set_shl_carry a b g) = reg_pc g" "reg_r (op_chk_and_set_shl_carry a b g) = reg_r g"
  "reg_pc (op_chk_and_set_shr_carry a b g) = reg_pc g" "reg_r (op_chk_and_set_shr_carry a b g) = reg_r g"
  by (simp_all add: op_chk_and_set_carry_def op_chk_and_set_carry3_def op_chk_and_set_borrow_def
      op_chk_and_set_borrow3_def op_chk_and_set_overflow_def op_chk_and_set_overflow3_def
      op_chk_and_set_zero_def op_chk_and_set_sign_def op_chk_and_set_shl_carry_def
      op_chk_and_set_shr_carry_def Let_def psw_ops_frame)

lemma inline_ops_frame [frame_simps]:
  "reg_pc (snd (op_addi a b g)) = reg_pc g" "reg_r (snd (op_addi a b g)) = reg_r g"
  "reg_pc (snd (op_andi a b g)) = reg_pc g" "reg_r (snd (op_andi a b g)) = reg_r g"
  "reg_pc (snd (op_and a b g)) = reg_pc g" "reg_r (snd (op_and a b g)) = reg_r g"
  "reg_pc (snd (op_or a b g)) = reg_pc g" "reg_r (snd (op_or a b g)) = reg_r g"
  "reg_pc (snd (op_ori i b g)) = reg_pc g" "reg_r (snd (op_ori i b g)) = reg_r g"
  "reg_pc (snd (op_xori i b g)) = reg_pc g" "reg_r (snd (op_xori i b g)) = reg_r g"
  "reg_pc (snd (op_satadd a x g)) = reg_pc g" "reg_r (snd (op_satadd a x g)) = reg_r g"
  by (simp_all add: op_addi_def op_andi_def op_and_def op_or_def op_ori_def op_xori_def op_satadd_def
      Let_def frame_simps)

section \<open>The contract of a straight-line executor\<close>

text \<open>
  An executor that only computes: it fails without effect or succeeds having changed only the
  register file, with the program counter advanced by \<open>n\<close>.
\<close>

locale core_executor =
  fixes exec :: "TargetCoreType \<Rightarrow> exec_result" and n :: u32
  assumes exec_frame: "exec cpu = Some (r, cpu') \<Longrightarrow> cpu' = cpu\<lparr>reg := reg cpu'\<rparr>"
    and exec_result: "exec cpu = Some (r, cpu') \<Longrightarrow> r = 0 \<or> r = -1 \<and> cpu' = cpu"
    and exec_pc: "exec cpu = Some (0, cpu') \<Longrightarrow> reg_pc (reg cpu') = reg_pc (reg cpu) + n"

lemma ret_eq_Some [simp]: "ret cpu g = Some (r, cpu') \<longleftrightarrow> r = 0 \<and> cpu' = cpu\<lparr>reg := g\<rparr>"
  by (auto simp: ret_def)

lemma greg_check_eq_Some:
  "greg_check i cpu k = Some (r, cpu') \<longleftrightarrow>
     (if i < 32 then k = Some (r, cpu') else r = -1 \<and> cpu' = cpu)"
  by (auto simp: greg_check_def CPU_GREG_NUM_def)

lemma wr_r_eq_Some: "wr_r g i v = Some g' \<longleftrightarrow> i < 32 \<and> g' = set_r (unat i) v g"
  by (auto simp: wr_r_def CPU_GREG_NUM_def)

lemma rd_r_eq_Some: "rd_r g i = Some v \<longleftrightarrow> i < 32 \<and> v = reg_r g (unat i)"
  by (auto simp: rd_r_def CPU_GREG_NUM_def)

lemma case_prod_op: "(case p of (a, b) \<Rightarrow> f a b) = f (fst p) (snd p)"
  by (simp add: case_prod_beta)

lemmas exec_simps = Let_def bind_eq_Some_conv greg_check_eq_Some wr_r_eq_Some rd_r_eq_Some case_prod_op


lemmas div_defs = div_11_def c_sdiv_def c_smod_def c_udiv_def c_umod_def
lemmas schlr_defs = op_exec_sch0l_9_def op_exec_sch1l_9_def op_exec_sch0r_9_def op_exec_sch1r_9_def op_exec_schlr_9_def

definition straight_line :: "(nat \<times> (TargetCoreType \<Rightarrow> exec_result) \<times> u32) list" where
  "straight_line = [
     (OpCodeId_ADD_1, op_exec_add_1, 2),
     (OpCodeId_ADD_2, op_exec_add_2, 2),
     (OpCodeId_ADDI_6, op_exec_addi, 4),
     (OpCodeId_ADF_11, op_exec_adf_11, 4),
     (OpCodeId_AND_1, op_exec_and, 2),
     (OpCodeId_ANDI_6, op_exec_andi, 4),
     (OpCodeId_BSH_12, op_exec_bsh_12, 2),
     (OpCodeId_BSW_12, op_exec_bsw_12, 2),
     (OpCodeId_CMOV_12, op_exec_cmov_12, 4),
     (OpCodeId_CMOV_11, op_exec_cmov_11, 4),
     (OpCodeId_CMP_1, op_exec_cmp_1, 2),
     (OpCodeId_CMP_2, op_exec_cmp_2, 2),
     (OpCodeId_DI_10, op_exec_diei, 4),
     (OpCodeId_DIV_11, op_exec_div, 4),
     (OpCodeId_DIVH_1, op_exec_divh_1, 2),
     (OpCodeId_DIVH_11, op_exec_divh_11, 4),
     (OpCodeId_DIVHU_11, op_exec_divhu, 4),
     (OpCodeId_DIVQ_11, op_exec_divq, 4),
     (OpCodeId_DIVQU_11, op_exec_divqu_11, 4),
     (OpCodeId_DIVU_11, op_exec_divu, 4),
     (OpCodeId_EI_10, op_exec_diei, 4),
     (OpCodeId_HSH_12, op_exec_hsh_12, 2),
     (OpCodeId_HSW_12, op_exec_hsw_12, 2),
     (OpCodeId_MAC_11, op_exec_mac_11, 4),
     (OpCodeId_MACU_11, op_exec_macu_11, 4),
     (OpCodeId_MOV_1, op_exec_mov_1, 2),
     (OpCodeId_MOV_2, op_exec_mov_2, 2),
     (OpCodeId_MOVEA_6, op_exec_movea, 4),
     (OpCodeId_MOVHI_6, op_exec_movhi, 4),
     (OpCodeId_MUL_11, op_exec_mul, 4),
     (OpCodeId_MUL_12, op_exec_mul_12, 4),
     (OpCodeId_MULH_1, op_exec_mulh_1, 2),
     (OpCodeId_MULH_2, op_exec_mulh_2, 2),
     (OpCodeId_MULHI_6, op_exec_mulhi, 4),
     (OpCodeId_MULU_11, op_exec_mulu, 4),
     (OpCodeId_MULU_12, op_exec_mulu_12, 4),
     (OpCodeId_NOP_1, op_exec_nop, 2),
     (OpCodeId_NOT_1, op_exec_not, 2),
     (OpCodeId_OR_1, op_exec_or, 2),
     (OpCodeId_ORI_6, op_exec_ori, 4),
     (OpCodeId_SAR_2, op_exec_sar_2, 2),
     (OpCodeId_SAR_9, op_exec_sar_9, 4),
     (OpCodeId_SAR_11, op_exec_sar_11, 4),
     (OpCodeId_SASF_9, op_exec_sasf_9, 4),
     (OpCodeId_SATADD_1, op_exec_satadd_1, 2),
     (OpCodeId_SATADD_2, op_exec_satadd_2, 2),
     (OpCodeId_SATADD_11, op_exec_satadd_11, 4),
     (OpCodeId_SATSUB_1, op_exec_satsub_1, 2),
     (OpCodeId_SATSUB_11, op_exec_satsub_11, 4),
     (OpCodeId_SATSUBI_6, op_exec_satsubi, 4),
     (OpCodeId_SATSUBR_1, op_exec_satsubr_1, 2),
     (OpCodeId_SBF_11, op_exec_sbf_11, 4),
     (OpCodeId_SCH0L_9, op_exec_sch0l_9, 4),
     (OpCodeId_SCH0R_9, op_exec_sch0r_9, 4),
     (OpCodeId_SCH1L_9, op_exec_sch1l_9, 4),
     (OpCodeId_SCH1R_9, op_exec_sch1r_9, 4),
     (OpCodeId_SETF_9, op_exec_setf, 4),
     (OpCodeId_SHL_2, op_exec_shl_2, 2),
     (OpCodeId_SHL_9, op_exec_shl_9, 4),
     (OpCodeId_SHL_11, op_exec_shl_11, 4),
     (OpCodeId_SHR_2, op_exec_shr_2, 2),
     (OpCodeId_SHR_9, op_exec_shr_9, 4),
     (OpCodeId_SHR_11, op_exec_shr_11, 4),
     (OpCodeId_STSR_9, op_exec_stsr, 4),
     (OpCodeId_SUB_1, op_exec_sub, 2),
     (OpCodeId_SUBR_1, op_exec_subr, 2),
     (OpCodeId_SXB_1, op_exec_sxb, 2),
     (OpCodeId_SXH_1, op_exec_sxh, 2),
     (OpCodeId_TST_1, op_exec_tst, 2),
     (OpCodeId_XOR_1, op_exec_xor, 2),
     (OpCodeId_XORI_6, op_exec_xori, 4),
     (OpCodeId_ZXB_1, op_exec_zxb, 2),
     (OpCodeId_ZXH_1, op_exec_zxh, 2)]"

lemma straight_line_executor: "list_all (\<lambda>(i, f, n). core_executor f n) straight_line"
  unfolding straight_line_def list.pred_inject prod.case
  by (intro conjI TrueI; unfold_locales)
    (auto simp: arith_defs logic_defs schlr_defs div_11_def op_exec_diei_def op_exec_nop_def op_exec_stsr_def exec_simps frame_simps split: if_splits)

lemma straight_lineD: "(i, f, n) \<in> set straight_line \<Longrightarrow> core_executor f n"
  using straight_line_executor by (auto simp: list_all_iff)

lemma straight_line_table:
  "list_all (\<lambda>(i, f, n). snd (op_exec_table oc bus fpu ! i) = Some (on_core f)) straight_line"
  unfolding straight_line_def list.pred_inject prod.case op_exec_table_def
  by (simp add: op_exec_div_def op_exec_divq_def)

lemma straight_line_size:
  "list_all (\<lambda>(i, f, n). OpFormatSize (code_formats ! i) = Some n \<longleftrightarrow>
      i \<notin> {OpCodeId_HSH_12, OpCodeId_HSW_12, OpCodeId_BSH_12, OpCodeId_BSW_12}) straight_line"
  unfolding straight_line_def list.pred_inject prod.case code_formats_def
  by simp

lemma straight_line_defined:
  "list_all (\<lambda>(i, f, n).
      i \<notin> {OpCodeId_DIVH_1, OpCodeId_DIVH_11, OpCodeId_DIVHU_11, OpCodeId_DIV_11, OpCodeId_DIVQ_11,
            OpCodeId_MAC_11, OpCodeId_MACU_11, OpCodeId_STSR_9} \<longrightarrow>
      (\<forall>x \<in> set (reg_fields (code_formats ! i) (decoded_code cpu)). x < 32) \<longrightarrow>
      (\<exists>cpu'. f cpu = Some (0, cpu'))) straight_line"
  unfolding straight_line_def list.pred_inject prod.case code_formats_def
  by (simp add: arith_defs logic_defs schlr_defs div_defs op_exec_diei_def op_exec_nop_def Let_def case_prod_op ret_def)

section \<open>Running a straight-line executor on the machine\<close>

context core_executor
begin

lemma on_core_frame:
  assumes "on_core exec m = Some (r, m')"
  shows "m_world m' = m_world m" and "m_nmi m' = m_nmi m"
    and "m_core m' = (m_core m)\<lparr>reg := m_reg m'\<rparr>"
  using assms exec_frame [of "m_core m"] by (auto simp: on_core_def)

lemma on_core_result:
  assumes "on_core exec m = Some (r, m')"
  shows "r = 0 \<and> reg_pc (m_reg m') = reg_pc (m_reg m) + n \<or> r = -1 \<and> m' = m"
  using assms exec_result [of "m_core m"] exec_pc [of "m_core m"] by (auto simp: on_core_def)

end

interpretation add_1: core_executor op_exec_add_1 2
  by (rule straight_lineD [of OpCodeId_ADD_1], simp add: straight_line_def)

interpretation addi: core_executor op_exec_addi 4
  by (rule straight_lineD [of OpCodeId_ADDI_6], simp add: straight_line_def)

interpretation mul: core_executor op_exec_mul 4
  by (rule straight_lineD [of OpCodeId_MUL_11], simp add: straight_line_def)

interpretation div: core_executor op_exec_div 4
  by (rule straight_lineD [of OpCodeId_DIV_11], simp add: straight_line_def)

interpretation shl_9: core_executor op_exec_shl_9 4
  by (rule straight_lineD [of OpCodeId_SHL_9], simp add: straight_line_def)

interpretation bsw: core_executor op_exec_bsw_12 2
  by (rule straight_lineD [of OpCodeId_BSW_12], simp add: straight_line_def)

interpretation satadd_1: core_executor op_exec_satadd_1 2
  by (rule straight_lineD [of OpCodeId_SATADD_1], simp add: straight_line_def)

interpretation setf: core_executor op_exec_setf 4
  by (rule straight_lineD [of OpCodeId_SETF_9], simp add: straight_line_def)

end
