(* ===== verification/V850_Samples.thy ===== *)
theory V850_Samples
  imports V850_Frames
begin

unbundle bit_operations_syntax

text \<open>
  Concrete cores and machines: the states at which the witnesses evaluate the properties.
  A core is built from the decoded instruction and the values of the general registers; all
  other registers are 0, as \<open>private_cpu_reset\<close> leaves them.
\<close>

definition blank_decoded :: OpDecodedCodeType where
  "blank_decoded = \<lparr>
     type_id = OP_CODE_FORMAT_1,
     type1 = \<lparr>t1_opcode = 0, t1_reg1 = 0, t1_reg2 = 0\<rparr>,
     type2 = \<lparr>t2_opcode = 0, t2_imm = 0, t2_reg2 = 0\<rparr>,
     type3 = \<lparr>t3_opcode = 0, t3_disp = 0, t3_cond = 0\<rparr>,
     type4_1 = \<lparr>t4_1_opcode = 0, t4_1_disp = 0, t4_1_reg2 = 0, t4_1_gen = 0\<rparr>,
     type4_2 = \<lparr>t4_2_opcode = 0, t4_2_disp = 0, t4_2_reg2 = 0\<rparr>,
     type5 = \<lparr>t5_opcode = 0, t5_disp = 0, t5_reg2 = 0\<rparr>,
     type6 = \<lparr>t6_opcode = 0, t6_imm = 0, t6_reg1 = 0, t6_reg2 = 0\<rparr>,
     type7 = \<lparr>t7_opcode = 0, t7_disp = 0, t7_reg1 = 0, t7_reg2 = 0, t7_gen = 0\<rparr>,
     type8 = \<lparr>t8_opcode = 0, t8_sub = 0, t8_bit = 0, t8_reg1 = 0, t8_disp = 0\<rparr>,
     type9 = \<lparr>t9_opcode = 0, t9_sub = 0, t9_gen = 0, t9_reg2 = 0, t9_rfu2 = 0, t9_rfu1 = 0\<rparr>,
     type10 = \<lparr>t10_opcode = 0, t10_gen1 = 0, t10_gen2 = 0, t10_sub = 0, t10_rfu1 = 0, t10_rfu2 = 0, t10_rfu3 = 0\<rparr>,
     type11 = \<lparr>t11_opcode = 0, t11_reg1 = 0, t11_reg2 = 0, t11_reg3 = 0, t11_sub1 = 0, t11_sub2 = 0, t11_rfu = 0\<rparr>,
     type12 = \<lparr>t12_opcode = 0, t12_reg2 = 0, t12_reg3 = 0, t12_imml = 0, t12_immh = 0, t12_sub1 = 0, t12_sub2 = 0\<rparr>,
     type13 = \<lparr>t13_opcode = 0, t13_imm = 0, t13_list = (\<lambda>_. 0), t13_gen = 0, t13_rfu = 0\<rparr>,
     type14 = \<lparr>t14_sub1 = 0, t14_opcode = 0, t14_reg1 = 0, t14_reg3 = 0, t14_disp_low = 0, t14_sub2 = 0, t14_disp_high = 0\<rparr>,
     type_f = \<lparr>tf_reg2 = 0, tf_opcode = 0, tf_reg1 = 0, tf_reg3 = 0, tf_subopcode = 0\<rparr>\<rparr>"

definition blank_regs :: "(nat \<Rightarrow> u32) \<Rightarrow> CpuRegisterType" where
  "blank_regs r = \<lparr>reg_pc = 0, reg_r = r,
     reg_sys = \<lparr>current_grp = 0, current_bnk = 0, sys_grp = (\<lambda>_ _ _. 0), sys_sysreg = (\<lambda>_. 0)\<rparr>\<rparr>"

definition blank_mpu :: TargetCoreMpuType where
  "blank_mpu = \<lparr>exception_error_code = CpuExceptionError_None, error_address = 0,
     error_access = CpuMemoryAccess_NONE, data_configs = [], exec_configs = []\<rparr>"

definition sample_core :: "OpDecodedCodeType \<Rightarrow> (nat \<Rightarrow> u32) \<Rightarrow> TargetCoreType" where
  "sample_core d r = \<lparr>real_elaps = 0, core_id = 0, reg = blank_regs r, is_halt = False,
     current_code = (\<lambda>_. 0), decoded_code = d, mpu = blank_mpu\<rparr>"

definition sample_machine :: "TargetCoreType \<Rightarrow> 'w \<Rightarrow> 'w machine" where
  "sample_machine cpu w = \<lparr>m_core = cpu, m_nmi = \<lparr>intwdt2_hasreq = False, nmi_reqnum = 0\<rparr>, m_world = w\<rparr>"

text \<open>Instructions with operands \<open>r1\<close>, \<open>r2\<close> and, where the format has it, \<open>r3\<close>.\<close>

definition sample_1 :: "(nat \<Rightarrow> u32) \<Rightarrow> TargetCoreType" where
  "sample_1 r = sample_core (OpDecode1 (\<lambda>_. 0x1001) blank_decoded) r"

definition sample_2 :: "(nat \<Rightarrow> u32) \<Rightarrow> TargetCoreType" where
  "sample_2 r = sample_core (OpDecode2 (\<lambda>_. 0x1004) blank_decoded) r"

definition sample_6 :: "(nat \<Rightarrow> u32) \<Rightarrow> TargetCoreType" where
  "sample_6 r = sample_core (OpDecode6 (\<lambda>_. 0x1001) blank_decoded) r"

definition sample_9 :: "(nat \<Rightarrow> u32) \<Rightarrow> TargetCoreType" where
  "sample_9 r = sample_core (OpDecode9 (\<lambda>i. if i = 0 then 0x1001 else 0x1800) blank_decoded) r"

definition sample_11 :: "(nat \<Rightarrow> u32) \<Rightarrow> TargetCoreType" where
  "sample_11 r = sample_core (OpDecode11 (\<lambda>i. if i = 0 then 0x1001 else 0x1800) blank_decoded) r"

definition sample_12 :: "(nat \<Rightarrow> u32) \<Rightarrow> TargetCoreType" where
  "sample_12 r = sample_core (OpDecode12 (\<lambda>i. if i = 0 then 0x1001 else 0x1800) blank_decoded) r"

lemmas sample_core_defs = sample_core_def blank_regs_def blank_decoded_def blank_mpu_def

lemma sample_core_frame [simp]:
  "reg (sample_core d r) = blank_regs r" "decoded_code (sample_core d r) = d"
  "mpu (sample_core d r) = blank_mpu" "is_halt (sample_core d r) = False"
  "real_elaps (sample_core d r) = 0"
  "reg_r (blank_regs r) = r" "reg_pc (blank_regs r) = 0" "psw (blank_regs r) = 0"
  "m_core (sample_machine cpu w) = cpu" "m_world (sample_machine cpu w) = w"
  by (simp_all add: sample_core_def blank_regs_def sample_machine_def psw_def sys_get_cpu_base_def)

lemma sample_fields [simp]:
  "t1_reg1 (type1 (decoded_code (sample_1 r))) = 1" "t1_reg2 (type1 (decoded_code (sample_1 r))) = 2"
  "t2_imm (type2 (decoded_code (sample_2 r))) = 4" "t2_reg2 (type2 (decoded_code (sample_2 r))) = 2"
  "t6_reg1 (type6 (decoded_code (sample_6 r))) = 1" "t6_reg2 (type6 (decoded_code (sample_6 r))) = 2"
  "t6_imm (type6 (decoded_code (sample_6 r))) = 0x1001"
  "t9_gen (type9 (decoded_code (sample_9 r))) = 1" "t9_reg2 (type9 (decoded_code (sample_9 r))) = 2"
  "t9_rfu2 (type9 (decoded_code (sample_9 r))) = 3"
  "t11_reg1 (type11 (decoded_code (sample_11 r))) = 1" "t11_reg2 (type11 (decoded_code (sample_11 r))) = 2"
  "t11_reg3 (type11 (decoded_code (sample_11 r))) = 3"
  "t12_reg2 (type12 (decoded_code (sample_12 r))) = 2" "t12_reg3 (type12 (decoded_code (sample_12 r))) = 3"
  by (simp_all add: sample_1_def sample_2_def sample_6_def sample_9_def sample_11_def sample_12_def
      OpDecode1_def OpDecode2_def OpDecode6_def OpDecode9_def OpDecode11_def OpDecode12_def Let_def)

lemma sample_regs [simp]:
  "reg (sample_1 r) = blank_regs r" "reg (sample_2 r) = blank_regs r" "reg (sample_6 r) = blank_regs r"
  "reg (sample_9 r) = blank_regs r" "reg (sample_11 r) = blank_regs r" "reg (sample_12 r) = blank_regs r"
  by (simp_all add: sample_1_def sample_2_def sample_6_def sample_9_def sample_11_def sample_12_def)


section \<open>A memory behind the bus\<close>

text \<open>
  A bus with one little-endian memory of bytes and no devices: pointers are addresses, and no
  access fails. The container search is the library's \<open>find\<close>.
\<close>

type_synonym ram = "nat \<Rightarrow> u8"

definition ram_get16 :: "ram \<Rightarrow> nat \<Rightarrow> u16" where
  "ram_get16 w a = ucast (w a) OR push_bit 8 (ucast (w (a + 1)))"

definition ram_get32 :: "ram \<Rightarrow> nat \<Rightarrow> u32" where
  "ram_get32 w a = ucast (ram_get16 w a) OR push_bit 16 (ucast (ram_get16 w (a + 2)))"

definition ram_put16 :: "ram \<Rightarrow> nat \<Rightarrow> u16 \<Rightarrow> ram" where
  "ram_put16 w a v = w(a := ucast v, a + 1 := ucast (drop_bit 8 v))"

definition ram_put32 :: "ram \<Rightarrow> nat \<Rightarrow> u32 \<Rightarrow> ram" where
  "ram_put32 w a v = ram_put16 (ram_put16 w a (ucast v)) (a + 2) (ucast (drop_bit 16 v))"

definition ram_bus :: "ram bus" where
  "ram_bus = \<lparr>
     bus_get_data8 = (\<lambda>_ a m. (STD_E_OK, m_world m (unat a), m)),
     bus_get_data16 = (\<lambda>_ a m. (STD_E_OK, ram_get16 (m_world m) (unat a), m)),
     bus_get_data32 = (\<lambda>_ a m. (STD_E_OK, ram_get32 (m_world m) (unat a), m)),
     bus_put_data8 = (\<lambda>_ a v m. (STD_E_OK, m\<lparr>m_world := (m_world m)(unat a := v)\<rparr>)),
     bus_put_data16 = (\<lambda>_ a v m. (STD_E_OK, m\<lparr>m_world := ram_put16 (m_world m) (unat a) v\<rparr>)),
     bus_put_data32 = (\<lambda>_ a v m. (STD_E_OK, m\<lparr>m_world := ram_put32 (m_world m) (unat a) v\<rparr>)),
     bus_get_pointer = (\<lambda>_ a m. (STD_E_OK, unat a, m)),
     host_get16 = (\<lambda>p m. ram_get16 (m_world m) p),
     host_get32 = (\<lambda>p m. ram_get32 (m_world m) p),
     host_put32 = (\<lambda>p v m. m\<lparr>m_world := ram_put32 (m_world m) p v\<rparr>),
     cpu_may_store_on_stack_overflow = (\<lambda>_ _ _. False)\<rparr>"

definition list_container :: object_container where
  "list_container = \<lparr>find_data = (\<lambda>xs P arg. find (\<lambda>x. P x arg) xs), find_exec = (\<lambda>xs P arg. find (\<lambda>x. P x arg) xs)\<rparr>"

lemma ram_get16_put16: "ram_get16 (ram_put16 w a v) a = v"
  by (rule bit_word_eqI) (auto simp: ram_get16_def ram_put16_def bit_simps_all)

lemma ram_get16_put16_other: "a + 1 < b \<or> b + 1 < a \<Longrightarrow> ram_get16 (ram_put16 w a v) b = ram_get16 w b"
  by (auto simp: ram_get16_def ram_put16_def)

lemma ram_get32_put32: "ram_get32 (ram_put32 w a v) a = v"
proof -
  have "ram_get16 (ram_put32 w a v) a = ucast v" "ram_get16 (ram_put32 w a v) (a + 2) = ucast (drop_bit 16 v)"
    by (simp_all add: ram_put32_def ram_get16_put16 ram_get16_put16_other)
  then show ?thesis
    by (intro bit_word_eqI) (auto simp: ram_get32_def bit_simps_all)
qed

lemma ram_get32_put32_other: "a + 4 \<le> b \<or> b + 4 \<le> a \<Longrightarrow> ram_get32 (ram_put32 w a v) b = ram_get32 w b"
  by (auto simp: ram_get32_def ram_put32_def ram_get16_put16_other)

section \<open>A state of the execution loop\<close>

text \<open>The program is one format I instruction of the two given bytes at address 0.\<close>

definition sample_vcpu :: "u8 \<Rightarrow> u8 \<Rightarrow> (nat \<Rightarrow> u32) \<Rightarrow> ram vcpu" where
  "sample_vcpu lo hi r = \<lparr>
     v_machine = sample_machine (sample_core blank_decoded r) (\<lambda>a. if a = 0 then lo else if a = 1 then hi else 0),
     v_elaps = 0,
     static_decoded = blank_decoded,
     cached_codes = (\<lambda>_ _. \<lparr>cc_code_id = 0, cc_decoded_code = blank_decoded, cc_op_exec = None\<rparr>)\<rparr>"

lemma sample_vcpu_frame [simp]:
  "v_core (sample_vcpu lo hi r) = sample_core blank_decoded r" "v_elaps (sample_vcpu lo hi r) = 0"
  "static_decoded (sample_vcpu lo hi r) = blank_decoded"
  "cc_op_exec (cached_codes (sample_vcpu lo hi r) b i) = None"
  "cc_decoded_code (cached_codes (sample_vcpu lo hi r) b i) = blank_decoded"
  by (simp_all add: sample_vcpu_def)

text \<open>\<open>ADD r1, r2\<close> and \<open>DIVH r1, r2\<close>.\<close>

lemma parse_sample:
  "code 0 = 0x11C1 \<Longrightarrow>
     op_parse code d = Some (Some (\<lparr>format_id = OP_CODE_FORMAT_1, code_id = OpCodeId_ADD_1\<rparr>, OpDecode1 code d))"
  "code 0 = 0x1041 \<Longrightarrow>
     op_parse code d = Some (Some (\<lparr>format_id = OP_CODE_FORMAT_1, code_id = OpCodeId_DIVH_1\<rparr>, OpDecode1 code d))"
  by (simp_all add: op_parse_def is_extend_code_def table_at_def OP_PARSE_TABLE_INDEX_def
      op_parse_base_code_table_def op_parse_base_code_0011_10_def op_parse_base_code_0000_10_def
      GET_REG1_def GET_REG2_def)

end
