(* ===== verification/V850_Decode_Correct.thy ===== *)
theory V850_Decode_Correct
  imports V850_Samples
begin

unbundle bit_operations_syntax

text \<open>
  What the parser and the operand decoders of \<open>V850_Parse\<close> and \<open>V850_Decode\<close> promise the
  executors, and the equivalence of the extension tables of \<open>V850_Alu\<close> with the loops they replace.
\<close>

section \<open>Properties\<close>

text \<open>C1: the parser is total and its result is well formed: it never indexes its
  tables or the decoder table out of bounds; an accepted instruction has an operation code
  of the enumeration, the format the operation's name says, operands that are those of
  that format's decoder, and register fields below 32.\<close>

theorem parse_well_formed:
  "op_parse code d \<noteq> None \<and>
   (\<forall>ot d'. op_parse code d = Some (Some (ot, d')) \<longrightarrow>
      code_id ot < OpCodeId_Num \<and> format_id ot = code_formats ! code_id ot \<and>
      (\<exists>dec. OpDecoder (format_id ot) = Some dec \<and> d' = dec code d) \<and>
      (\<forall>x \<in> set (reg_fields (format_id ot) d'). x < 32) \<and> type_id d' = type_id d)"
proof (cases code d rule: op_parse_cases)
  case reject
  then show ?thesis by simp
next
  case (accept ot dec)
  then show ?thesis
    using reg_fields_less_32 OpDecoder_type_id by (auto simp: well_named_def)
qed

lemma parse_well_formed_witness:
  "op_parse (\<lambda>_. 0x11C1) blank_decoded = Some (Some (\<lparr>format_id = OP_CODE_FORMAT_1, code_id = OpCodeId_ADD_1\<rparr>,
      OpDecode1 (\<lambda>_. 0x11C1) blank_decoded))
   \<and> list_all (\<lambda>x. x < 32) (reg_fields OP_CODE_FORMAT_1 (OpDecode1 (\<lambda>_. 0x11C1) blank_decoded))"
proof -
  have p: "op_parse (\<lambda>_. 0x11C1) blank_decoded = Some (Some (\<lparr>format_id = OP_CODE_FORMAT_1, code_id = OpCodeId_ADD_1\<rparr>,
      OpDecode1 (\<lambda>_. 0x11C1) blank_decoded))"
    by (rule parse_sample(1)) simp
  then have "\<forall>x \<in> set (reg_fields (format_id \<lparr>format_id = OP_CODE_FORMAT_1, code_id = OpCodeId_ADD_1\<rparr>)
      (OpDecode1 (\<lambda>_. 0x11C1) blank_decoded)). x < 32"
    using parse_well_formed [of "\<lambda>_. 0x11C1" blank_decoded] by blast
  then have "\<forall>x \<in> set (reg_fields OP_CODE_FORMAT_1 (OpDecode1 (\<lambda>_. 0x11C1) blank_decoded)). x < 32"
    by (simp only: OperationCodeType.select_convs)
  with p show ?thesis by (simp only: list_all_iff)
qed

text \<open>C2: decoding loses nothing: from the operands of formats I to XIV the halfwords of the
  instruction can be put together again, up to bit 16 of formats IX to XII, which the parser has fixed.\<close>

theorem decode_lossless:
  assumes "OpDecoder f = Some dec" and "f \<noteq> OP_CODE_FORMAT_F"
  shows "encode f (dec code d) = halfwords f code"
  by (rule encode_OpDecode [OF assms])

lemma decode_lossless_witness:
  "encode OP_CODE_FORMAT_13 (OpDecode13 (\<lambda>i. if i = 0 then 0x0786 else 0xE0E1) blank_decoded) = [0x0786, 0xE0E1]"
  using decode_lossless [of OP_CODE_FORMAT_13 OpDecode13 "\<lambda>i. if i = 0 then 0x0786 else 0xE0E1" blank_decoded]
  by simp

text \<open>the decoder of the floating-point format, whose sub-opcode is documented as bits 26 to
  16, keeps only ten of these eleven bits: two instructions that differ in bit 26 alone
  decode to the same operands.\<close>

theorem decode_f_drops_bit_26:
  "OpDecode_f (code(1 := code 1 XOR 0x0400)) d = OpDecode_f code d"
proof -
  have "drop_bit 11 (w XOR 0x0400) AND 0x001F = drop_bit 11 w AND 0x001F"
    "(w XOR 0x0400) AND 0x03FF = w AND 0x03FF" for w :: u16
    by (rule u16_eqI, simp add: bit_simps_all mask_simps)+
  then show ?thesis by (simp add: OpDecode_f_def)
qed

text \<open>the table-driven extensions compute what the bit-by-bit loops they replaced compute: for
  every bit position the sign extension by table is the loop that sets each higher bit when
  the sign bit is set, and the zero extension is the loop that clears the bits from the
  position up.\<close>

theorem extension_tables:
  assumes "n < 32"
  shows "op_sign_extend n w = op_sign_extend_loop n w \<and> op_zero_extend n w = op_zero_extend_loop n w"
proof
  show "op_sign_extend n w = op_sign_extend_loop n w"
    by (rule bit_word_eqI) (use assms in \<open>auto simp: op_sign_extend_eq op_sign_extend_loop_def bit_fold_set bit_simps_all
      bit_mask_iff and_push_bit_neq_0_iff_bit simp del: push_bit_of_1\<close>)
  show "op_zero_extend n w = op_zero_extend_loop n w"
    by (rule bit_word_eqI) (use assms in \<open>auto simp: op_zero_extend_eq op_zero_extend_loop_def bit_fold_clear bit_simps_all simp del: push_bit_of_1\<close>)
qed

lemma extension_tables_witness:
  "op_sign_extend 4 0x1F = op_sign_extend_loop 4 0x1F \<and> op_sign_extend 4 0x1F = 0xFFFFFFFF"
  using extension_tables [of 4 "0x1F"] by (simp add: op_sign_extend_def sign_extend_table_def)

end
