(* ===== verification/V850_Arith_Correct.thy ===== *)
theory V850_Arith_Correct
  imports V850_Samples
begin

unbundle bit_operations_syntax

text \<open>
  What the arithmetic executors of \<open>V850_Exec_Arith\<close> compute, stated over the integers the
  registers denote: addition, subtraction and comparison with their flags, conditions after a
  comparison, products, quotients and where division has no defined behaviour,
  multiply-accumulate, and saturation. The lemmas describe the executors one by one; the
  properties at the end collect them by family.
\<close>

section \<open>Addition and subtraction\<close>

text \<open>The register file after an operation with result \<open>v\<close> in register \<open>d\<close> and flags \<open>cy\<close>, \<open>ov\<close>.\<close>

definition with_flags :: "u32 \<Rightarrow> bool \<Rightarrow> bool \<Rightarrow> CpuRegisterType \<Rightarrow> CpuRegisterType" where
  "with_flags v cy ov g =
     set_psw (put_flag 1 (sint v < 0) (put_flag 0 (v = 0) (put_flag 2 ov (put_flag 3 cy (psw g))))) g"

lemma with_flags_bits:
  "bit (psw (with_flags v cy ov g)) 0 \<longleftrightarrow> v = 0"
  "bit (psw (with_flags v cy ov g)) 1 \<longleftrightarrow> sint v < 0"
  "bit (psw (with_flags v cy ov g)) 2 \<longleftrightarrow> ov"
  "bit (psw (with_flags v cy ov g)) 3 \<longleftrightarrow> cy"
  "4 \<le> n \<Longrightarrow> bit (psw (with_flags v cy ov g)) n \<longleftrightarrow> bit (psw g) n"
  by (simp_all add: with_flags_def)

lemmas alu_state_simps = with_flags_def alu_simps set_psw_set_r set_psw_pc

lemma add_1_correct:
  assumes "f1_reg1 cpu < 32" and "f1_reg2 cpu < 32"
  defines "a \<equiv> reg_r (reg cpu) (unat (f1_reg2 cpu))" and "b \<equiv> reg_r (reg cpu) (unat (f1_reg1 cpu))"
  shows "op_exec_add_1 cpu = ret cpu (add_pc 2 (set_r (unat (f1_reg2 cpu)) (a + b)
      (with_flags (a + b) (2 ^ 32 \<le> unat a + unat b) (sovf (sint a + sint b)) (reg cpu))))"
  using assms(1,2) by (simp add: op_exec_add_1_def Let_def alu_state_simps a_def b_def)

lemma add_2_correct:
  assumes "f2_reg2 cpu < 32"
  defines "a \<equiv> reg_r (reg cpu) (unat (f2_reg2 cpu))" and "b \<equiv> imm5_sext cpu"
  shows "op_exec_add_2 cpu = ret cpu (add_pc 2 (set_r (unat (f2_reg2 cpu)) (a + b)
      (with_flags (a + b) (2 ^ 32 \<le> unat a + unat b) (sovf (sint a + sint b)) (reg cpu))))"
  using assms(1) by (simp add: op_exec_add_2_def Let_def alu_state_simps a_def b_def)

lemma addi_correct:
  assumes "f6_reg1 cpu < 32" and "f6_reg2 cpu < 32"
  defines "a \<equiv> reg_r (reg cpu) (unat (f6_reg1 cpu))" and "b \<equiv> imm16_sext cpu"
  shows "op_exec_addi cpu = ret cpu (add_pc 4 (set_r (unat (f6_reg2 cpu)) (a + b)
      (with_flags (a + b) (2 ^ 32 \<le> unat b + unat a) (sovf (sint b + sint a)) (reg cpu))))"
  using assms(1,2) by (simp add: op_exec_addi_def op_addi_def Let_def alu_state_simps a_def b_def)

lemma sub_correct:
  assumes "f1_reg1 cpu < 32" and "f1_reg2 cpu < 32"
  defines "a \<equiv> reg_r (reg cpu) (unat (f1_reg2 cpu))" and "b \<equiv> reg_r (reg cpu) (unat (f1_reg1 cpu))"
  shows "op_exec_sub cpu = ret cpu (add_pc 2 (set_r (unat (f1_reg2 cpu)) (a - b) (cmp_flags a b (reg cpu))))"
    and "op_exec_subr cpu = ret cpu (add_pc 2 (set_r (unat (f1_reg2 cpu)) (b - a) (cmp_flags b a (reg cpu))))"
    and "op_exec_cmp_1 cpu = ret cpu (add_pc 2 (cmp_flags a b (reg cpu)))"
  using assms(1,2)
  by (simp_all add: op_exec_sub_def op_exec_subr_def op_exec_cmp_1_def cmp_flags_def Let_def alu_state_simps a_def b_def)

lemma adf_correct:
  assumes "f11_reg1 cpu < 32" and "f11_reg2 cpu < 32" and "f11_reg3 cpu < 32"
  defines "a \<equiv> reg_r (reg cpu) (unat (f11_reg2 cpu))" and "b \<equiv> reg_r (reg cpu) (unat (f11_reg1 cpu))"
    and "c \<equiv> of_bool (op_exec_cond (reg cpu) (f11_cond cpu)) :: u32"
  shows "op_exec_adf_11 cpu = ret cpu (add_pc 4 (set_r (unat (f11_reg3 cpu)) (a + b + c)
      (with_flags (a + b + c) (2 ^ 32 \<le> unat a + unat b + unat c) (sovf (sint a + sint b + sint c)) (reg cpu))))"
    and "op_exec_sbf_11 cpu = ret cpu (add_pc 4 (set_r (unat (f11_reg3 cpu)) (a - b - c)
      (with_flags (a - b - c) (unat a < unat b + unat c) (sovf (sint a - sint b - sint c)) (reg cpu))))"
  using assms(1-3)
  by (cases "op_exec_cond (reg cpu) (f11_cond cpu)";
      simp add: op_exec_adf_11_def op_exec_sbf_11_def Let_def alu_state_simps c_def flip: a_def b_def)+

text \<open>Comparison and conditional branch.\<close>

lemma op_exec_cond_add_pc [simp]: "op_exec_cond (add_pc n g) = op_exec_cond g"
  by (simp add: op_exec_cond_def psw_isset_def fun_eq_iff)

lemma psw_set_r_isset [simp]: "op_exec_cond (set_r k v g) = op_exec_cond g"
  by (simp add: op_exec_cond_def psw_isset_def fun_eq_iff)

definition cond_holds :: "u16 \<Rightarrow> u32 \<Rightarrow> u32 \<Rightarrow> bool option" where
  "cond_holds cond a b =
     (if cond = 0b0010 then Some (a = b) else if cond = 0b1010 then Some (a \<noteq> b)
      else if cond = 0b0110 then Some (sint a < sint b) else if cond = 0b1110 then Some (sint b \<le> sint a)
      else if cond = 0b0111 then Some (sint a \<le> sint b) else if cond = 0b1111 then Some (sint b < sint a)
      else if cond = 0b0001 then Some (unat a < unat b) else if cond = 0b1001 then Some (unat b \<le> unat a)
      else if cond = 0b0011 then Some (unat a \<le> unat b) else if cond = 0b1011 then Some (unat b < unat a)
      else None)"

lemma cond_after_cmp_flags:
  "cond_holds cond a b = Some c \<Longrightarrow> op_exec_cond (cmp_flags a b g) cond \<longleftrightarrow> c"
  by (auto simp: cond_holds_def cond_after_cmp split: if_splits)

lemma cond_cases_16:
  fixes cond :: u16
  obtains "cond \<in> {0, 1, 2, 3, 4, 5, 6, 7, 8, 9, 10, 11, 12, 13, 14, 15}"
  | "cond \<notin> {0, 1, 2, 3, 4, 5, 6, 7, 8, 9, 10, 11, 12, 13, 14, 15}"
  by blast

section \<open>Multiplication\<close>

lemma mul_correct:
  assumes "f11_reg1 cpu < 32" and "f11_reg2 cpu < 32" and "f11_reg3 cpu < 32"
  defines "a \<equiv> reg_r (reg cpu) (unat (f11_reg1 cpu))" and "b \<equiv> reg_r (reg cpu) (unat (f11_reg2 cpu))"
  obtains lo hi where
    "op_exec_mul cpu = ret cpu (add_pc 4 (set_r (unat (f11_reg3 cpu)) hi (set_r (unat (f11_reg2 cpu)) lo (reg cpu))))"
    and "uint lo + 2 ^ 32 * sint hi = sint a * sint b"
proof
  let ?w = "scast a * scast b :: u64"
  show "op_exec_mul cpu = ret cpu (add_pc 4 (set_r (unat (f11_reg3 cpu)) (ucast (drop_bit 32 ?w))
      (set_r (unat (f11_reg2 cpu)) (ucast ?w) (reg cpu))))"
    using assms(1-3) by (simp add: op_exec_mul_def Let_def a_def b_def)
  show "uint (ucast ?w :: u32) + 2 ^ 32 * sint (ucast (drop_bit 32 ?w) :: u32) = sint a * sint b"
    using sint_64_split [of ?w] by (simp only: sint_mult_64)
qed

lemma mulu_correct:
  assumes "f11_reg1 cpu < 32" and "f11_reg2 cpu < 32" and "f11_reg3 cpu < 32"
  defines "a \<equiv> reg_r (reg cpu) (unat (f11_reg1 cpu))" and "b \<equiv> reg_r (reg cpu) (unat (f11_reg2 cpu))"
  obtains lo hi where
    "op_exec_mulu cpu = ret cpu (add_pc 4 (set_r (unat (f11_reg3 cpu)) hi (set_r (unat (f11_reg2 cpu)) lo (reg cpu))))"
    and "uint lo + 2 ^ 32 * uint hi = uint a * uint b"
proof
  let ?w = "ucast a * ucast b :: u64"
  show "op_exec_mulu cpu = ret cpu (add_pc 4 (set_r (unat (f11_reg3 cpu)) (ucast (drop_bit 32 ?w))
      (set_r (unat (f11_reg2 cpu)) (ucast ?w) (reg cpu))))"
    using assms(1-3) by (simp add: op_exec_mulu_def Let_def a_def b_def)
  show "uint (ucast ?w :: u32) + 2 ^ 32 * uint (ucast (drop_bit 32 ?w) :: u32) = uint a * uint b"
    using uint_64_split [of ?w] by (simp only: uint_mult_64)
qed

lemma ucast_signed_drop_bit: "(ucast (signed_drop_bit 32 (w :: u64)) :: u32) = ucast (drop_bit 32 w)"
  by (rule bit_word_eqI) (auto simp: bit_simps_all bit_signed_drop_bit_iff)

lemma mul_12_correct:
  assumes "f12_reg2 cpu < 32" and "f12_reg3 cpu < 32"
  defines "a \<equiv> op_sign_extend 8 (f12_imm9 cpu)" and "b \<equiv> reg_r (reg cpu) (unat (f12_reg2 cpu))"
  obtains lo hi where
    "op_exec_mul_12 cpu = ret cpu (add_pc 4 (set_r (unat (f12_reg3 cpu)) hi (set_r (unat (f12_reg2 cpu)) lo (reg cpu))))"
    and "uint lo + 2 ^ 32 * sint hi = sint a * sint b"
proof
  let ?w = "scast b * scast a :: u64"
  show "op_exec_mul_12 cpu = ret cpu (add_pc 4 (set_r (unat (f12_reg3 cpu)) (ucast (drop_bit 32 ?w))
      (set_r (unat (f12_reg2 cpu)) (ucast ?w) (reg cpu))))"
    using assms(1-2) by (simp add: op_exec_mul_12_def Let_def a_def b_def ucast_signed_drop_bit del: signed_drop_bit_of_0)
  show "uint (ucast ?w :: u32) + 2 ^ 32 * sint (ucast (drop_bit 32 ?w) :: u32) = sint a * sint b"
    using sint_64_split [of ?w] by (simp only: sint_mult_64 mult.commute)
qed

section \<open>Division\<close>

lemma c_sdiv_defined: "c_sdiv a b = None \<longleftrightarrow> b = 0 \<or> a = 0x80000000 \<and> b = -1"
  by (simp add: c_sdiv_def)

lemma sint_min_32: "sint (x :: u32) = - 2147483648 \<longleftrightarrow> x = 0x80000000"
  using signed_word_eqI [of x "0x80000000"] by auto

lemma sint_minus_1_32: "sint (x :: u32) = -1 \<longleftrightarrow> x = -1"
  using signed_word_eqI [of x "-1"] by auto

text \<open>Division that truncates towards zero.\<close>

definition tdiv :: "int \<Rightarrow> int \<Rightarrow> int" where
  "tdiv x y = sgn x * sgn y * (\<bar>x\<bar> div \<bar>y\<bar>)"

lemma tdiv_bound: "y \<noteq> 0 \<Longrightarrow> \<bar>tdiv x y\<bar> \<le> \<bar>x\<bar>"
  using zdiv_mono2 [of "\<bar>x\<bar>" 1 "\<bar>y\<bar>"] by (auto simp: tdiv_def abs_mult abs_sgn_eq pos_imp_zdiv_nonneg_iff)

lemma tdiv_mod:
  assumes "y \<noteq> 0"
  shows "\<bar>x - tdiv x y * y\<bar> < \<bar>y\<bar>" and "sgn (x - tdiv x y * y) = 0 \<or> sgn (x - tdiv x y * y) = sgn x"
proof -
  have e: "x - tdiv x y * y = sgn x * (\<bar>x\<bar> mod \<bar>y\<bar>)"
    using assms by (simp add: tdiv_def sgn_if minus_div_mult_eq_mod [symmetric] algebra_simps split: if_splits)
  show "\<bar>x - tdiv x y * y\<bar> < \<bar>y\<bar>"
    unfolding e using assms by (simp add: abs_mult abs_sgn_eq)
  have "0 \<le> \<bar>x\<bar> mod \<bar>y\<bar>" using assms by simp
  then have "sgn (\<bar>x\<bar> mod \<bar>y\<bar>) = 0 \<or> sgn (\<bar>x\<bar> mod \<bar>y\<bar>) = 1" by (auto simp: sgn_if)
  then show "sgn (x - tdiv x y * y) = 0 \<or> sgn (x - tdiv x y * y) = sgn x"
    unfolding e sgn_mult by auto
qed

lemma tdiv_overflow:
  assumes "sint (b :: u32) \<noteq> 0" and "\<not> (a = 0x80000000 \<and> b = -1)"
  shows "- (2 ^ 31) \<le> tdiv (sint (a :: u32)) (sint b)" and "tdiv (sint a) (sint b) < 2 ^ 31"
proof -
  have "\<bar>tdiv (sint a) (sint b)\<bar> \<le> \<bar>sint a\<bar>" using assms(1) by (rule tdiv_bound)
  with sint_bounds_32 [of a] show "- (2 ^ 31) \<le> tdiv (sint a) (sint b)" by (simp add: abs_if split: if_splits)
  have "tdiv (sint a) (sint b) \<noteq> 2 ^ 31"
  proof
    assume *: "tdiv (sint a) (sint b) = 2 ^ 31"
    then have "2147483648 \<le> \<bar>sint a\<bar>"
      using \<open>\<bar>tdiv (sint a) (sint b)\<bar> \<le> \<bar>sint a\<bar>\<close> by simp
    then have "\<bar>sint a\<bar> = 2147483648" using sint_bounds_32 [of a] by linarith
    then have "sint a = - 2147483648" using sint_bounds_32 [of a] by linarith
    then have a: "a = 0x80000000" by (simp only: sint_min_32)
    have "\<bar>sint b\<bar> = 1"
    proof (rule ccontr)
      assume "\<bar>sint b\<bar> \<noteq> 1"
      then have "2 \<le> \<bar>sint b\<bar>" using assms(1) by linarith
      then have "2147483648 div \<bar>sint b\<bar> \<le> 2147483648 div 2" by (intro zdiv_mono2) auto
      moreover have "\<bar>tdiv (sint a) (sint b)\<bar> = 2147483648 div \<bar>sint b\<bar>"
        using assms(1) by (simp add: a tdiv_def abs_mult abs_sgn_eq pos_imp_zdiv_nonneg_iff)
      ultimately show False using * by simp
    qed
    moreover have "sint b < 0"
    proof (rule ccontr)
      assume "\<not> sint b < 0"
      with assms(1) have "0 < sint b" by linarith
      then have "tdiv (sint a) (sint b) \<le> 0"
        by (simp add: a tdiv_def sgn_if pos_imp_zdiv_nonneg_iff)
      with * show False by simp
    qed
    ultimately have "sint b = -1" by linarith
    then show False using assms(2) a by (simp add: sint_minus_1_32)
  qed
  with \<open>\<bar>tdiv (sint a) (sint b)\<bar> \<le> \<bar>sint a\<bar>\<close> sint_bounds_32 [of a]
  show "tdiv (sint a) (sint b) < 2 ^ 31" by (simp add: abs_if split: if_splits)
qed

lemma c_sdiv_correct:
  assumes "c_sdiv a b = Some q"
  shows "sint q = tdiv (sint a) (sint b)" and "c_smod a b = Some r \<Longrightarrow> sint r = sint a - tdiv (sint a) (sint b) * sint b"
proof -
  have d: "b \<noteq> 0" "\<not> (a = 0x80000000 \<and> b = -1)" and q: "q = word_of_int (tdiv (sint a) (sint b))"
    using assms by (auto simp: c_sdiv_def tdiv_def split: if_splits)
  have b0: "sint b \<noteq> 0" using d(1) by (simp only: signed_eq_0_iff not_False_eq_True)
  show *: "sint q = tdiv (sint a) (sint b)"
    unfolding q using sint_wrap_32 [of "tdiv (sint a) (sint b)"] tdiv_overflow [OF b0 d(2)] by auto
  show "sint r = sint a - tdiv (sint a) (sint b) * sint b" if "c_smod a b = Some r"
  proof -
    have "r = a - q * b" using that assms by (simp add: c_smod_def)
    then have r: "r = word_of_int (sint a - tdiv (sint a) (sint b) * sint b)" by (simp flip: *)
    have "\<bar>sint a - tdiv (sint a) (sint b) * sint b\<bar> < \<bar>sint b\<bar>" by (rule tdiv_mod [OF b0])
    then have "\<bar>sint a - tdiv (sint a) (sint b) * sint b\<bar> < 2147483648" using sint_bounds_32 [of b] by linarith
    then show ?thesis unfolding r
      using sint_wrap_32 [of "sint a - tdiv (sint a) (sint b) * sint b"] by auto
  qed
qed

lemma psw_frame_more [simp]:
  "reg_r (psw_set m g) = reg_r g" "reg_r (psw_clr m g) = reg_r g"
  by (simp_all add: frame_simps)

text \<open>Z and S as the division executors take them from \<open>reg2\<close>.\<close>

definition zs_flags :: "u32 \<Rightarrow> CpuRegisterType \<Rightarrow> CpuRegisterType" where
  "zs_flags v g = set_psw (put_flag 1 (sint v < 0) (put_flag 0 (v = 0) (psw g))) g"

lemma div_11_zero:
  assumes "f11_reg1 cpu < 32" "f11_reg2 cpu < 32" "f11_reg3 cpu < 32"
    and "reg_r (reg cpu) (unat (f11_reg1 cpu)) = 0"
  shows "div_11 ovf quot remn narrow cpu = ret cpu (add_pc 4
     (zs_flags (reg_r (reg cpu) (unat (f11_reg2 cpu))) (set_psw (put_flag 2 True (psw (reg cpu))) (reg cpu))))"
  using assms by (simp add: div_11_def Let_def zs_flags_def alu_simps flag_simps)

lemma div_11_defined:
  assumes "f11_reg1 cpu < 32" "f11_reg2 cpu < 32" "f11_reg3 cpu < 32"
  defines "a \<equiv> reg_r (reg cpu) (unat (f11_reg2 cpu))" and "b \<equiv> reg_r (reg cpu) (unat (f11_reg1 cpu))"
  assumes "b \<noteq> 0" and "quot a (narrow b) = Some q" and "remn a (narrow b) = Some r"
  shows "div_11 ovf quot remn narrow cpu = ret cpu (add_pc 4
     (let g = set_r (unat (f11_reg3 cpu)) r (set_r (unat (f11_reg2 cpu)) q
                (set_psw (put_flag 2 (ovf b a) (psw (reg cpu))) (reg cpu)))
      in zs_flags (reg_r g (unat (f11_reg2 cpu))) g))"
  using assms by (simp add: div_11_def Let_def zs_flags_def alu_simps flag_simps)

lemma div_11_undefined:
  assumes "f11_reg1 cpu < 32" "f11_reg2 cpu < 32" "f11_reg3 cpu < 32"
  defines "a \<equiv> reg_r (reg cpu) (unat (f11_reg2 cpu))" and "b \<equiv> reg_r (reg cpu) (unat (f11_reg1 cpu))"
  assumes "\<And>x y. remn x y = None \<longleftrightarrow> quot x y = None"
  shows "div_11 ovf quot remn narrow cpu = None \<longleftrightarrow> b \<noteq> 0 \<and> quot a (narrow b) = None"
  using assms
  by (auto simp: div_11_def Let_def ret_def simp flip: a_def b_def split: option.splits Option.bind_splits)

lemma c_mod_None: "c_smod x y = None \<longleftrightarrow> c_sdiv x y = None" "c_umod x y = None \<longleftrightarrow> c_udiv x y = None"
  by (simp_all add: c_smod_def c_udiv_def c_umod_def)

abbreviation regs11_ok :: "TargetCoreType \<Rightarrow> bool" where
  "regs11_ok cpu \<equiv> f11_reg1 cpu < 32 \<and> f11_reg2 cpu < 32 \<and> f11_reg3 cpu < 32"

lemma div_correct:
  assumes "regs11_ok cpu"
  defines "a \<equiv> reg_r (reg cpu) (unat (f11_reg2 cpu))" and "b \<equiv> reg_r (reg cpu) (unat (f11_reg1 cpu))"
  assumes "b \<noteq> 0" and "\<not> (a = 0x80000000 \<and> b = -1)"
  obtains q r where "op_exec_div cpu = ret cpu (add_pc 4
     (let g = set_r (unat (f11_reg3 cpu)) r (set_r (unat (f11_reg2 cpu)) q
                (set_psw (put_flag 2 False (psw (reg cpu))) (reg cpu)))
      in zs_flags (reg_r g (unat (f11_reg2 cpu))) g))"
    and "sint a = sint q * sint b + sint r" and "\<bar>sint r\<bar> < \<bar>sint b\<bar>" and "sgn (sint r) = 0 \<or> sgn (sint r) = sgn (sint a)"
proof -
  obtain q r where q: "c_sdiv a b = Some q" and r: "c_smod a b = Some r"
    using assms(4,5) c_sdiv_defined [of a b] by (auto simp: c_smod_def)
  have b0: "sint b \<noteq> 0" using assms(4) by (simp only: signed_eq_0_iff not_False_eq_True)
  show thesis
  proof
    show "op_exec_div cpu = ret cpu (add_pc 4
     (let g = set_r (unat (f11_reg3 cpu)) r (set_r (unat (f11_reg2 cpu)) q
                (set_psw (put_flag 2 False (psw (reg cpu))) (reg cpu)))
      in zs_flags (reg_r g (unat (f11_reg2 cpu))) g))"
      using assms(1,4,5) q r unfolding op_exec_div_def op_exec_div_common_def a_def b_def
      by (subst div_11_defined) auto
  qed (use c_sdiv_correct [OF q] r tdiv_mod [OF b0, of "sint a"] in auto)
qed

lemma divh_11_undefined:
  assumes "regs11_ok cpu"
  defines "a \<equiv> reg_r (reg cpu) (unat (f11_reg2 cpu))" and "b \<equiv> reg_r (reg cpu) (unat (f11_reg1 cpu))"
  shows "op_exec_divh_11 cpu = None \<longleftrightarrow>
      b \<noteq> 0 \<and> (sext16 b = 0 \<or> a = 0x80000000 \<and> sext16 b = -1)"
  using assms(1) unfolding op_exec_divh_11_def a_def b_def
  by (subst div_11_undefined) (simp_all add: c_mod_None c_sdiv_defined)

lemma divhu_undefined:
  assumes "regs11_ok cpu"
  defines "a \<equiv> reg_r (reg cpu) (unat (f11_reg2 cpu))" and "b \<equiv> reg_r (reg cpu) (unat (f11_reg1 cpu))"
  shows "op_exec_divhu cpu = None \<longleftrightarrow> b \<noteq> 0 \<and> zext16 b = 0"
  using assms(1) unfolding op_exec_divhu_def a_def b_def
  by (subst div_11_undefined) (simp_all add: c_mod_None c_udiv_def)

lemma divu_undefined:
  assumes "regs11_ok cpu"
  shows "op_exec_divu cpu \<noteq> None" "op_exec_divqu_11 cpu \<noteq> None"
  using assms(1) unfolding op_exec_divu_def op_exec_divqu_11_def
  by (subst div_11_undefined; simp add: c_mod_None c_udiv_def)+

lemma div_undefined:
  assumes "regs11_ok cpu"
  defines "a \<equiv> reg_r (reg cpu) (unat (f11_reg2 cpu))" and "b \<equiv> reg_r (reg cpu) (unat (f11_reg1 cpu))"
  shows "op_exec_div cpu = None \<longleftrightarrow> a = 0x80000000 \<and> b = -1"
    and "op_exec_divq cpu = None \<longleftrightarrow> a = 0x80000000 \<and> b = -1"
  using assms(1) unfolding op_exec_div_def op_exec_divq_def op_exec_div_common_def a_def b_def
  by (subst div_11_undefined; auto simp add: c_mod_None c_sdiv_defined)+

section \<open>Multiply-accumulate\<close>

abbreviation mac_reg4 :: "TargetCoreType \<Rightarrow> u32" where
  "mac_reg4 cpu \<equiv> push_bit 1 (ucast (f11_cond cpu))"

lemma even_u32: "w mod 2 = 0 \<longleftrightarrow> even (w :: u32)"
  by (simp add: even_iff_mod_2_eq_zero)

lemma mod2_push_bit: "push_bit 1 (w :: u32) mod 2 = 0"
  by (simp add: even_iff_mod_2_eq_zero [symmetric])

lemma pair_or_u: "push_bit 32 (ucast (hi :: u32)) OR ucast (lo :: u32) = (push_bit 32 (ucast hi) + ucast lo :: u64)"
  by (rule disjunctive_add [symmetric]) (auto simp: bit_simps_all dest: bit_imp_le_length)

lemma pair_or_s:
  "push_bit 32 (scast (hi :: u32)) OR scast (lo :: u32) =
    (if bit lo 31 then scast lo else push_bit 32 (scast hi) + scast lo :: u64)"
proof (cases "bit lo 31")
  case True
  then show ?thesis
    by (intro bit_word_eqI) (auto simp: bit_simps_all bit_signed_iff min_def)
next
  case False
  then show ?thesis
    by (simp, intro disjunctive_add [symmetric]) (auto simp: bit_simps_all bit_signed_iff min_def dest: bit_imp_le_length)
qed

lemma even_less_32_succ: "even w \<Longrightarrow> w < 32 \<Longrightarrow> w + 1 < (32 :: u32)"
proof -
  assume e: "even w" and l: "w < 32"
  then have u: "unat w < 32" by (simp add: word_less_nat_alt)
  have "even (unat w)" using e by (metis bit_0 bit_unsigned_iff)
  with u have "unat w + 1 < 32" by presburger
  then show ?thesis by (simp add: word_less_nat_alt unat_word_ariths)
qed

lemma mac_result:
  assumes "regs11_ok cpu" and "even (f11_reg3 cpu)" and "mac_reg4 cpu < 32"
  defines "a \<equiv> reg_r (reg cpu) (unat (f11_reg1 cpu))" and "b \<equiv> reg_r (reg cpu) (unat (f11_reg2 cpu))"
    and "lo \<equiv> reg_r (reg cpu) (unat (f11_reg3 cpu))" and "hi \<equiv> reg_r (reg cpu) (unat (f11_reg3 cpu + 1))"
  shows "op_exec_mac_11 cpu = (let w = scast b * scast a + (if bit lo 31 then scast lo else push_bit 32 (scast hi) + scast lo) :: u64
     in ret cpu (add_pc 4 (set_r (unat (mac_reg4 cpu + 1)) (ucast (drop_bit 32 w)) (set_r (unat (mac_reg4 cpu)) (ucast w) (reg cpu)))))"
    and "op_exec_macu_11 cpu = (let w = ucast b * ucast a + (push_bit 32 (ucast hi) + ucast lo) :: u64
     in ret cpu (add_pc 4 (set_r (unat (mac_reg4 cpu + 1)) (ucast (drop_bit 32 w)) (set_r (unat (mac_reg4 cpu)) (ucast w) (reg cpu)))))"
proof -
  have r3: "f11_reg3 cpu + 1 < 32" using assms(1,2) even_less_32_succ by blast
  have r4: "mac_reg4 cpu + 1 < 32" using assms(3) even_less_32_succ [of "mac_reg4 cpu"] by simp
  note d = assms(1-3) r3 r4 mod2_push_bit even_iff_mod_2_eq_zero [THEN iffD1, OF assms(2)]
  show "op_exec_mac_11 cpu = (let w = scast b * scast a + (if bit lo 31 then scast lo else push_bit 32 (scast hi) + scast lo) :: u64
     in ret cpu (add_pc 4 (set_r (unat (mac_reg4 cpu + 1)) (ucast (drop_bit 32 w)) (set_r (unat (mac_reg4 cpu)) (ucast w) (reg cpu)))))"
    unfolding op_exec_mac_11_def Let_def pair_or_s [symmetric] a_def b_def lo_def hi_def
    using d by (simp add: Let_def del: push_bit_of_1 push_bit_Suc One_nat_def)
  show "op_exec_macu_11 cpu = (let w = ucast b * ucast a + (push_bit 32 (ucast hi) + ucast lo) :: u64
     in ret cpu (add_pc 4 (set_r (unat (mac_reg4 cpu + 1)) (ucast (drop_bit 32 w)) (set_r (unat (mac_reg4 cpu)) (ucast w) (reg cpu)))))"
    unfolding op_exec_macu_11_def Let_def pair_or_u [symmetric] a_def b_def lo_def hi_def
    using d by (simp add: Let_def del: push_bit_of_1 push_bit_Suc One_nat_def)
qed

lemma mac_out_of_bounds:
  assumes "f11_reg3 cpu = 31"
  shows "op_exec_mac_11 cpu = None" "op_exec_macu_11 cpu = None"
  by (simp_all add: op_exec_mac_11_def op_exec_macu_11_def Let_def assms rd_r_def CPU_GREG_NUM_def)

section \<open>Saturation\<close>

definition sat_flags :: "int \<Rightarrow> bool \<Rightarrow> CpuRegisterType \<Rightarrow> CpuRegisterType" where
  "sat_flags x cy g = set_psw (put_flag 0 (x = 0) (put_flag 1 (x < 0)
     ((if sovf x then put_flag 4 True else id) (put_flag 2 (sovf x) (put_flag 3 cy (psw g)))))) g"

lemma sat_state:
  fixes b :: int
  assumes "sint data_r = b" and "- (2 ^ 31) \<le> b" "b \<le> 2 ^ 31" and "(ucast data_r :: u32) = c"
  obtains v where "op_satadd l data_r g = (v, sat_flags (sint l + b) (2 ^ 32 \<le> unat l + unat c) g)"
    and "sint v = clamp32 (sint l + b)"
proof
  show "op_satadd l data_r g = (fst (op_satadd l data_r g), sat_flags (sint l + b) (2 ^ 32 \<le> unat l + unat c) g)"
    using op_satadd_eq(2) [OF assms(1-3), of l g]
    by (simp only: sat_flags_def assms(4) prod_eq_iff fst_conv snd_conv simp_thms)
qed (rule op_satadd_eq(1) [OF assms(1-3)])

lemma ucast_scast_64 [simp]: "(ucast (scast (b :: u32) :: u64) :: u32) = b"
  by (rule bit_word_eqI) (simp add: bit_simps_all bit_signed_iff)

lemma ucast_uminus_scast_64: "(ucast (- scast (b :: u32) :: u64) :: u32) = - b"
proof -
  have "(- scast b :: u64) = word_of_int (- sint b)" by simp
  moreover have "(ucast (word_of_int k :: u64) :: u32) = word_of_int k" for k
    by (rule bit_word_eqI) (simp add: bit_simps_all bit_word_of_int_iff)
  ultimately have "(ucast (- scast b :: u64) :: u32) = word_of_int (- sint b)" by metis
  then show ?thesis by simp
qed

lemma unat_minus_32: "unat (- b :: u32) = (if b = 0 then 0 else 2 ^ 32 - unat b)"
proof (cases "b = 0")
  case False
  then have "uint b \<noteq> 0" by (simp only: unsigned_eq_0_iff not_False_eq_True)
  moreover have "0 \<le> uint b" by simp
  ultimately have p: "0 < uint b" by linarith
  have l: "uint b < 2 ^ 32" using unsigned_less [of b, where ?'a = int] by simp
  have "uint (- b) = (2 ^ 32 - uint b) mod 2 ^ 32" by (simp add: uint_word_ariths)
  also have "\<dots> = 2 ^ 32 - uint b" using p l by (intro mod_pos_pos_trivial) auto
  finally have "int (unat (- b)) = int (2 ^ 32 - unat b)" using unat_less_32 [of b] by simp
  then have "unat (- b) = 2 ^ 32 - unat b" by (simp only: of_nat_eq_iff)
  with False show ?thesis by simp
qed simp

lemma satadd_1_correct:
  assumes "f1_reg1 cpu < 32" and "f1_reg2 cpu < 32"
  defines "a \<equiv> reg_r (reg cpu) (unat (f1_reg2 cpu))" and "b \<equiv> reg_r (reg cpu) (unat (f1_reg1 cpu))"
  obtains v where "op_exec_satadd_1 cpu = ret cpu (add_pc 2 (set_r (unat (f1_reg2 cpu)) v
      (sat_flags (sint a + sint b) (2 ^ 32 \<le> unat a + unat b) (reg cpu))))"
    and "sint v = clamp32 (sint a + sint b)"
proof -
  have r: "sint (scast b :: u64) = sint b" "- (2 ^ 31) \<le> sint b" "sint b \<le> 2 ^ 31" "(ucast (scast b :: u64) :: u32) = b"
    using sint_bounds_32 [of b] by simp_all
  obtain v where e: "op_satadd a (scast b) (reg cpu) = (v, sat_flags (sint a + sint b) (2 ^ 32 \<le> unat a + unat b) (reg cpu))"
    and v: "sint v = clamp32 (sint a + sint b)"
    by (rule sat_state [OF r])
  show thesis
    by (rule that [OF _ v], insert assms(1,2) e) (simp add: op_exec_satadd_1_def Let_def a_def b_def)
qed

lemma satsub_1_correct:
  assumes "f1_reg1 cpu < 32" and "f1_reg2 cpu < 32"
  defines "a \<equiv> reg_r (reg cpu) (unat (f1_reg2 cpu))" and "b \<equiv> reg_r (reg cpu) (unat (f1_reg1 cpu))"
  obtains v where "op_exec_satsub_1 cpu = ret cpu (add_pc 2 (set_r (unat (f1_reg2 cpu)) v
      (sat_flags (sint a - sint b) (b \<noteq> 0 \<and> unat b \<le> unat a) (reg cpu))))"
    and "sint v = clamp32 (sint a - sint b)"
proof -
  have r: "sint (- scast b :: u64) = - sint b" "- (2 ^ 31) \<le> - sint b" "- sint b \<le> 2 ^ 31" "(ucast (- scast b :: u64) :: u32) = - b"
    using sint_bounds_32 [of b] by (simp_all add: ucast_uminus_scast_64)
  have cy: "2 ^ 32 \<le> unat a + unat (- b) \<longleftrightarrow> b \<noteq> 0 \<and> unat b \<le> unat a"
    using unat_less_32 [of a] unat_less_32 [of b] by (auto simp: unat_minus_32)
  obtain v where e: "op_satadd a (- scast b) (reg cpu) = (v, sat_flags (sint a + - sint b) (2 ^ 32 \<le> unat a + unat (- b)) (reg cpu))"
    and v: "sint v = clamp32 (sint a + - sint b)"
    by (rule sat_state [OF r])
  show thesis
    by (rule that [of v], insert assms(1,2) e [unfolded cy] v) (simp_all add: op_exec_satsub_1_def Let_def a_def b_def)
qed

section \<open>Properties\<close>

text \<open>C17: the ADD executors add: ADD with a register or a sign-extended 5-bit
  immediate and ADDI write the wrapped sum, advance the program counter, and set CY to the
  unsigned carry, OV to the signed overflow of the exact sum, S and Z to the sign and
  zeroness of the result, with every other bit of the PSW as it was.\<close>

theorem add_family:
  assumes "f1_reg1 cpu < 32" and "f1_reg2 cpu < 32" and "f2_reg2 cpu < 32"
    and "f6_reg1 cpu < 32" and "f6_reg2 cpu < 32"
  shows "(let a = reg_r (reg cpu) (unat (f1_reg2 cpu)); b = reg_r (reg cpu) (unat (f1_reg1 cpu))
      in op_exec_add_1 cpu = ret cpu (add_pc 2 (set_r (unat (f1_reg2 cpu)) (a + b)
           (with_flags (a + b) (2 ^ 32 \<le> unat a + unat b) (sovf (sint a + sint b)) (reg cpu)))))
    \<and> (let a = reg_r (reg cpu) (unat (f2_reg2 cpu)); b = imm5_sext cpu
      in op_exec_add_2 cpu = ret cpu (add_pc 2 (set_r (unat (f2_reg2 cpu)) (a + b)
           (with_flags (a + b) (2 ^ 32 \<le> unat a + unat b) (sovf (sint a + sint b)) (reg cpu)))))
    \<and> (let a = reg_r (reg cpu) (unat (f6_reg1 cpu)); b = imm16_sext cpu
      in op_exec_addi cpu = ret cpu (add_pc 4 (set_r (unat (f6_reg2 cpu)) (a + b)
           (with_flags (a + b) (2 ^ 32 \<le> unat b + unat a) (sovf (sint b + sint a)) (reg cpu)))))"
  unfolding Let_def using assms by (simp only: add_1_correct add_2_correct addi_correct simp_thms)

definition add_sample :: TargetCoreType where
  "add_sample = sample_1 (\<lambda>i. if i = 1 then 0x7FFFFFFF else if i = 2 then 1 else 0)"

lemma add_sample_fields [simp]:
  "f1_reg1 add_sample = 1" "f1_reg2 add_sample = 2" "f2_reg2 add_sample = 0" "f6_reg1 add_sample = 0"
  "f6_reg2 add_sample = 0" "f11_reg1 add_sample = 0" "f11_reg2 add_sample = 0" "f11_reg3 add_sample = 0"
  "reg_r (reg add_sample) = (\<lambda>i. if i = 1 then 0x7FFFFFFF else if i = 2 then 1 else 0)"
  by (simp_all add: add_sample_def sample_1_def OpDecode1_def blank_decoded_def)

lemma add_family_witness:
  "f1_reg1 add_sample < 32 \<and> f1_reg2 add_sample < 32 \<and> f2_reg2 add_sample < 32 \<and> f6_reg1 add_sample < 32
    \<and> f6_reg2 add_sample < 32
    \<and> op_exec_add_1 add_sample = ret add_sample (add_pc 2 (set_r 2 0x80000000
         (with_flags 0x80000000 False True (reg add_sample))))"
  using add_family [of add_sample] by (simp add: Let_def sovf_def)

text \<open>SUB, SUBR and CMP compute the difference: SUB and SUBR write it, CMP
  writes no register; all three leave the flags of comparing the minuend with the subtrahend
  (CY is the unsigned borrow, OV the signed overflow of the exact difference).\<close>

theorem sub_family:
  assumes "f1_reg1 cpu < 32" and "f1_reg2 cpu < 32"
  shows "let a = reg_r (reg cpu) (unat (f1_reg2 cpu)); b = reg_r (reg cpu) (unat (f1_reg1 cpu))
    in op_exec_sub cpu = ret cpu (add_pc 2 (set_r (unat (f1_reg2 cpu)) (a - b) (cmp_flags a b (reg cpu))))
     \<and> op_exec_subr cpu = ret cpu (add_pc 2 (set_r (unat (f1_reg2 cpu)) (b - a) (cmp_flags b a (reg cpu))))
     \<and> op_exec_cmp_1 cpu = ret cpu (add_pc 2 (cmp_flags a b (reg cpu)))"
  unfolding Let_def using assms by (intro conjI sub_correct)

lemma sub_family_witness:
  "f1_reg1 add_sample < 32 \<and> f1_reg2 add_sample < 32
    \<and> op_exec_sub add_sample = ret add_sample (add_pc 2 (set_r 2 (- 2147483646) (cmp_flags 1 0x7FFFFFFF (reg add_sample))))"
  using sub_family [of add_sample] by (simp add: Let_def)

text \<open>ADF and SBF add or subtract one more when their condition holds in the
  flags before the instruction, and CY and OV are those of the exact three-operand result.\<close>

theorem adf_family:
  assumes "f11_reg1 cpu < 32" and "f11_reg2 cpu < 32" and "f11_reg3 cpu < 32"
  shows "let a = reg_r (reg cpu) (unat (f11_reg2 cpu)); b = reg_r (reg cpu) (unat (f11_reg1 cpu));
        c = of_bool (op_exec_cond (reg cpu) (f11_cond cpu)) :: u32
    in op_exec_adf_11 cpu = ret cpu (add_pc 4 (set_r (unat (f11_reg3 cpu)) (a + b + c)
          (with_flags (a + b + c) (2 ^ 32 \<le> unat a + unat b + unat c) (sovf (sint a + sint b + sint c)) (reg cpu))))
     \<and> op_exec_sbf_11 cpu = ret cpu (add_pc 4 (set_r (unat (f11_reg3 cpu)) (a - b - c)
          (with_flags (a - b - c) (unat a < unat b + unat c) (sovf (sint a - sint b - sint c)) (reg cpu))))"
  unfolding Let_def using assms by (intro conjI adf_correct)

lemma adf_family_witness:
  "\<exists>cpu. f11_reg1 cpu = 1 \<and> f11_reg2 cpu = 2 \<and> f11_reg3 cpu = 3 \<and> reg_r (reg cpu) 3 = 0 \<and>
     op_exec_adf_11 cpu = ret cpu (add_pc 4 (set_r 3 0 (with_flags 0 True False (reg cpu))))"
proof (intro exI conjI)
  let ?cpu = "sample_11 (\<lambda>i. if i = 1 then 5 else if i = 2 then - 5 else 0)"
  have "f11_cond ?cpu = 0" by (simp add: sample_11_def OpDecode11_def Let_def)
  moreover have "\<not> op_exec_cond (blank_regs r) 0" for r
    by (simp add: op_exec_cond_def flag_simps)
  ultimately show "op_exec_adf_11 ?cpu = ret ?cpu (add_pc 4 (set_r 3 0 (with_flags 0 True False (reg ?cpu))))"
    using adf_family [of ?cpu] by (simp add: Let_def sovf_def unat_minus_32)
qed simp_all

text \<open>C18: comparing and then branching decides the comparison of the integers:
  after CMP, each of the ten ordering conditions of the condition table (E, NE, LT, GE, LE,
  GT signed, L, NL, NH, H unsigned) holds exactly when the relation it is named after holds
  between the operands read as signed or unsigned integers.\<close>

theorem cmp_then_branch:
  assumes "f1_reg1 cpu < 32" and "f1_reg2 cpu < 32"
    and "op_exec_cmp_1 cpu = Some (0, cpu')"
    and "cond_holds cond (reg_r (reg cpu) (unat (f1_reg2 cpu))) (reg_r (reg cpu) (unat (f1_reg1 cpu))) = Some c"
  shows "op_exec_cond (reg cpu') cond \<longleftrightarrow> c"
  using assms sub_correct(3) [OF assms(1,2)] by (auto simp: cond_after_cmp_flags)

lemma cmp_then_branch_witness:
  "\<exists>cpu'. op_exec_cmp_1 add_sample = Some (0, cpu') \<and> op_exec_cond (reg cpu') 0b0110"
proof -
  have e: "\<exists>cpu'. op_exec_cmp_1 add_sample = Some (0, cpu')"
    using sub_correct(3) [of add_sample] by simp
  then obtain cpu' where c: "op_exec_cmp_1 add_sample = Some (0, cpu')" by blast
  have "op_exec_cond (reg cpu') 0b0110 \<longleftrightarrow> True"
    by (rule cmp_then_branch [OF _ _ c]) (simp_all add: cond_holds_def)
  with c show ?thesis by auto
qed

text \<open>C19: SETF and CMOV evaluate a condition code with \<open>setf_chk_cond\<close>, branches and ADF
  with \<open>op_exec_cond\<close>: the two agree on every condition code except 13 (SA), on which
  \<open>setf_chk_cond\<close> gives the negation of the other on every PSW.\<close>

theorem setf_condition: "setf_chk_cond g cond = (op_exec_cond g cond \<noteq> (cond = 0b1101))"
proof (cases cond rule: cond_cases_16)
  case 1
  then show ?thesis
    by (elim insertE emptyE; simp only: setf_chk_cond_def op_exec_cond_def Let_def; simp)
next
  case 2
  then show ?thesis by (simp add: setf_chk_cond_def op_exec_cond_def)
qed

text \<open>C20: SATADD writes the exact signed sum clamped to 32 bits, sets SAT on
  overflow and leaves it otherwise, and OV, S and Z describe the exact sum.\<close>

theorem satadd_clamps:
  assumes "f1_reg1 cpu < 32" and "f1_reg2 cpu < 32"
  shows "let a = reg_r (reg cpu) (unat (f1_reg2 cpu)); b = reg_r (reg cpu) (unat (f1_reg1 cpu))
    in \<exists>v. op_exec_satadd_1 cpu = ret cpu (add_pc 2 (set_r (unat (f1_reg2 cpu)) v
          (sat_flags (sint a + sint b) (2 ^ 32 \<le> unat a + unat b) (reg cpu))))
        \<and> sint v = clamp32 (sint a + sint b)"
  unfolding Let_def using satadd_1_correct [OF assms] by blast

lemma satadd_clamps_witness:
  "f1_reg1 add_sample < 32 \<and> f1_reg2 add_sample < 32 \<and>
   (\<exists>v. op_exec_satadd_1 add_sample = ret add_sample (add_pc 2 (set_r 2 v
       (sat_flags 2147483648 False (reg add_sample)))) \<and> sint v = 2147483647)"
  using satadd_clamps [of add_sample] by (simp add: Let_def clamp32_def)

text \<open>SATSUB writes the exact signed difference clamped to 32 bits; its CY is
  set when the subtrahend is not 0 and there is no borrow, the inverse of the CY that SUB
  leaves for the same operands whenever the subtrahend is not 0.\<close>

theorem satsub_carry:
  assumes "f1_reg1 cpu < 32" and "f1_reg2 cpu < 32"
  shows "let a = reg_r (reg cpu) (unat (f1_reg2 cpu)); b = reg_r (reg cpu) (unat (f1_reg1 cpu))
    in \<exists>v. op_exec_satsub_1 cpu = ret cpu (add_pc 2 (set_r (unat (f1_reg2 cpu)) v
          (sat_flags (sint a - sint b) (b \<noteq> 0 \<and> unat b \<le> unat a) (reg cpu))))
        \<and> sint v = clamp32 (sint a - sint b)"
  unfolding Let_def using satsub_1_correct [OF assms] by blast

lemma satsub_carry_witness:
  "\<exists>cpu. f1_reg1 cpu = 1 \<and> f1_reg2 cpu = 2 \<and> (\<exists>v. op_exec_satsub_1 cpu =
     ret cpu (add_pc 2 (set_r 2 v (sat_flags 2 True (reg cpu)))) \<and> sint v = 2)"
  by (rule exI [of _ "sample_1 (\<lambda>i. if i = 1 then 1 else 3)"],
      use satsub_carry [of "sample_1 (\<lambda>i. if i = 1 then 1 else 3)"] in \<open>simp add: Let_def clamp32_def\<close>)

text \<open>MUL and MULU write the full 64-bit product over two registers: the low
  word to \<open>reg2\<close> and the high word to \<open>reg3\<close>, signed and unsigned, with no loss.\<close>

theorem mul_product:
  assumes "f11_reg1 cpu < 32" and "f11_reg2 cpu < 32" and "f11_reg3 cpu < 32"
  shows "let a = reg_r (reg cpu) (unat (f11_reg1 cpu)); b = reg_r (reg cpu) (unat (f11_reg2 cpu));
        result = \<lambda>lo hi. ret cpu (add_pc 4 (set_r (unat (f11_reg3 cpu)) hi (set_r (unat (f11_reg2 cpu)) lo (reg cpu))))
    in (\<exists>lo hi. op_exec_mul cpu = result lo hi \<and> uint lo + 2 ^ 32 * sint hi = sint a * sint b)
     \<and> (\<exists>lo hi. op_exec_mulu cpu = result lo hi \<and> uint lo + 2 ^ 32 * uint hi = uint a * uint b)"
  unfolding Let_def
  by (rule conjI, rule mul_correct [OF assms], intro exI conjI, assumption+,
      rule mulu_correct [OF assms], intro exI conjI, assumption+)

lemma mul_product_witness:
  "\<exists>cpu lo hi. f11_reg1 cpu = 1 \<and> f11_reg2 cpu = 2 \<and> f11_reg3 cpu = 3 \<and> reg_r (reg cpu) 1 = - 2 \<and> reg_r (reg cpu) 2 = 3 \<and>
     op_exec_mul cpu = ret cpu (add_pc 4 (set_r 3 hi (set_r 2 lo (reg cpu)))) \<and> uint lo + 4294967296 * sint hi = - 6"
proof -
  let ?cpu = "sample_11 (\<lambda>i. if i = 1 then - 2 else 3)"
  have f: "f11_reg1 ?cpu = 1" "f11_reg2 ?cpu = 2" "f11_reg3 ?cpu = 3"
    "reg_r (reg ?cpu) 1 = - 2" "reg_r (reg ?cpu) 2 = 3" by simp_all
  have n: "unat (1 :: u32) = 1" "unat (2 :: u32) = 2" "unat (3 :: u32) = 3" by simp_all
  have v: "sint (- 2 :: u32) * sint (3 :: u32) = - 6" "(2 :: int) ^ 32 = 4294967296" by simp_all
  have h: "(1 :: u32) < 32" "(2 :: u32) < 32" "(3 :: u32) < 32" by simp_all
  from conjunct1 [OF mul_product [of ?cpu, unfolded f n Let_def, OF h], unfolded f v] f
  show ?thesis by blast
qed

text \<open>C21: DIV writes the quotient that rounds towards zero and its remainder
  when the divisor is not 0 and the quotient is representable: the remainder is smaller than
  the divisor and has the sign of the dividend.\<close>

theorem div_quotient:
  assumes "regs11_ok cpu"
    and "reg_r (reg cpu) (unat (f11_reg1 cpu)) \<noteq> 0"
    and "\<not> (reg_r (reg cpu) (unat (f11_reg2 cpu)) = 0x80000000 \<and> reg_r (reg cpu) (unat (f11_reg1 cpu)) = -1)"
  shows "let a = reg_r (reg cpu) (unat (f11_reg2 cpu)); b = reg_r (reg cpu) (unat (f11_reg1 cpu))
    in \<exists>q r. op_exec_div cpu = ret cpu (add_pc 4
         (let g = set_r (unat (f11_reg3 cpu)) r (set_r (unat (f11_reg2 cpu)) q
                    (set_psw (put_flag 2 False (psw (reg cpu))) (reg cpu)))
          in zs_flags (reg_r g (unat (f11_reg2 cpu))) g))
       \<and> sint a = sint q * sint b + sint r \<and> \<bar>sint r\<bar> < \<bar>sint b\<bar>
       \<and> (sgn (sint r) = 0 \<or> sgn (sint r) = sgn (sint a))"
  unfolding Let_def using div_correct [unfolded Let_def, OF assms] by blast

lemma div_quotient_witness:
  "\<exists>cpu q r. regs11_ok cpu \<and> f11_reg2 cpu = 2 \<and> f11_reg3 cpu = 3 \<and> reg_r (reg cpu) 2 = - 7 \<and> reg_r (reg cpu) 1 = 2 \<and>
     op_exec_div cpu = ret cpu (add_pc 4 (let g = set_r 3 r (set_r 2 q (set_psw (put_flag 2 False 0) (reg cpu)))
        in zs_flags q g)) \<and> - 7 = sint q * 2 + sint r"
  by (rule exI [of _ "sample_11 (\<lambda>i. if i = 1 then 2 else - 7)"],
      use div_quotient [of "sample_11 (\<lambda>i. if i = 1 then 2 else - 7)"] in \<open>auto simp: Let_def\<close>)

text \<open>where the dividers have no defined behaviour: DIV and DIVQ exactly
  on the least negative number divided by \<open>-1\<close>; DIVU never; DIVH and DIVHU, which compare the whole
  register with 0 but divide by its low halfword, also whenever that halfword is 0 in a
  register that is not.\<close>

theorem division_undefined:
  assumes "regs11_ok cpu"
  shows "let a = reg_r (reg cpu) (unat (f11_reg2 cpu)); b = reg_r (reg cpu) (unat (f11_reg1 cpu))
    in (op_exec_div cpu = None \<longleftrightarrow> a = 0x80000000 \<and> b = -1)
     \<and> (op_exec_divq cpu = None \<longleftrightarrow> a = 0x80000000 \<and> b = -1)
     \<and> (op_exec_divh_11 cpu = None \<longleftrightarrow> b \<noteq> 0 \<and> (sext16 b = 0 \<or> a = 0x80000000 \<and> sext16 b = -1))
     \<and> (op_exec_divhu cpu = None \<longleftrightarrow> b \<noteq> 0 \<and> zext16 b = 0)
     \<and> op_exec_divu cpu \<noteq> None"
  unfolding Let_def
  using div_undefined [OF assms] divh_11_undefined [OF assms] divhu_undefined [OF assms] divu_undefined [OF assms]
  by blast

lemma division_undefined_witness:
  "\<exists>cpu. regs11_ok cpu \<and> reg_r (reg cpu) (unat (f11_reg1 cpu)) = 0x10000 \<and> op_exec_divhu cpu = None"
  by (rule exI [of _ "sample_11 (\<lambda>i. 0x10000)"],
      use division_undefined [of "sample_11 (\<lambda>i. 0x10000)"] in \<open>simp add: Let_def zext16_def\<close>)

text \<open>MAC and MACU write the 64-bit sum of the product and the register pair
  \<open>reg3\<close>, \<open>reg3 + 1\<close> to the pair of \<open>reg4\<close>, when both numbers are even; MAC takes the pair as
  its sign-extended low word alone, the high word lost, whenever that low word is negative.\<close>

theorem mac_accumulates:
  assumes "regs11_ok cpu" and "even (f11_reg3 cpu)" and "mac_reg4 cpu < 32"
  shows "let a = reg_r (reg cpu) (unat (f11_reg1 cpu)); b = reg_r (reg cpu) (unat (f11_reg2 cpu));
        lo = reg_r (reg cpu) (unat (f11_reg3 cpu)); hi = reg_r (reg cpu) (unat (f11_reg3 cpu + 1));
        result = \<lambda>w :: u64. ret cpu (add_pc 4 (set_r (unat (mac_reg4 cpu + 1)) (ucast (drop_bit 32 w))
          (set_r (unat (mac_reg4 cpu)) (ucast w) (reg cpu))))
    in op_exec_mac_11 cpu = result (scast b * scast a + (if bit lo 31 then scast lo else push_bit 32 (scast hi) + scast lo))
     \<and> op_exec_macu_11 cpu = result (ucast b * ucast a + (push_bit 32 (ucast hi) + ucast lo))"
  using mac_result [OF assms] by (simp only: Let_def simp_thms)

lemma mac_accumulates_witness:
  "\<exists>cpu. regs11_ok cpu \<and> reg_r (reg cpu) 4 = 0x80000000 \<and> reg_r (reg cpu) 5 = 7 \<and>
     op_exec_mac_11 cpu = ret cpu (add_pc 4 (set_r 9 0xFFFFFFFF (set_r 8 0x80000000 (reg cpu))))"
proof (intro exI conjI)
  let ?cpu = "sample_core (OpDecode11 (\<lambda>i. if i = 0 then 0x1001 else 0x2008) blank_decoded)
     (\<lambda>i. if i = 4 then 0x80000000 else if i = 5 then 7 else 0)"
  have f: "f11_reg1 ?cpu = 1" "f11_reg2 ?cpu = 2" "f11_reg3 ?cpu = 4" "f11_cond ?cpu = 4"
    by (simp_all add: OpDecode11_def Let_def)
  have b: "bit (0x80000000 :: u32) 31" and e: "(18446744071562067968 :: u32) = 0x80000000" by simp_all
  show "op_exec_mac_11 ?cpu = ret ?cpu (add_pc 4 (set_r 9 0xFFFFFFFF (set_r 8 0x80000000 (reg ?cpu))))"
    using mac_accumulates [of ?cpu] unfolding f Let_def by (simp add: b e)
qed (simp_all add: OpDecode11_def Let_def)

end
