(* ===== verification/V850_Logic_Correct.thy ===== *)
theory V850_Logic_Correct
  imports V850_Arith_Correct
begin

unbundle bit_operations_syntax

text \<open>
  What the shift, swap and search executors of \<open>V850_Exec_Logic\<close> and \<open>V850_Exec_Bit\<close>
  compute, bit by bit, and the flags they leave.
\<close>

section \<open>Shifts\<close>

lemma shl_carry_eq [alu_simps]:
  "sh < 32 \<Longrightarrow> op_chk_and_set_shl_carry a sh g =
     set_psw (put_flag 3 (0 < sh \<and> bit a (32 - unat sh)) (psw g)) g"
  by (auto simp: op_chk_and_set_shl_carry_def flag_simps and_push_bit_neq_0_iff_bit unat_sub word_le_nat_alt word_less_nat_alt
      simp del: push_bit_of_1)

lemma shr_carry_eq [alu_simps]:
  "op_chk_and_set_shr_carry a sh g =
     set_psw (put_flag 3 (0 < sh \<and> bit a (unat sh - 1)) (psw g)) g"
  by (auto simp: op_chk_and_set_shr_carry_def flag_simps and_push_bit_neq_0_iff_bit unat_minus_one word_gt_0
      simp del: push_bit_of_1)

lemma take_bit_5_less: "take_bit 5 (w :: u32) < 32"
  by (simp add: word_less_nat_alt unsigned_take_bit_eq take_bit_nat_def)

definition logic_flags :: "u32 \<Rightarrow> CpuRegisterType \<Rightarrow> CpuRegisterType" where
  "logic_flags v g = set_psw (put_flag 1 (sint v < 0) (put_flag 0 (v = 0) (put_flag 2 False (psw g)))) g"

lemma put_flag_order:
  "put_flag 3 c (put_flag 2 b w) = put_flag 2 b (put_flag 3 c w)"
  "put_flag 2 b (put_flag 1 s w) = put_flag 1 s (put_flag 2 b w)"
  "put_flag 2 b (put_flag 0 z w) = put_flag 0 z (put_flag 2 b w)"
  "put_flag 2 b (put_flag (Suc 0) s w) = put_flag (Suc 0) s (put_flag 2 b w)"
  by (simp_all add: put_flag_commute)

lemma shift_2_correct:
  assumes "f2_reg2 cpu < 32"
  defines "a \<equiv> reg_r (reg cpu) (unat (f2_reg2 cpu))" and "n \<equiv> unat (take_bit 5 (f2_imm cpu))"
  shows "op_exec_shl_2 cpu = ret cpu (add_pc 2 (set_r (unat (f2_reg2 cpu)) (push_bit n a)
      (with_flags (push_bit n a) (0 < n \<and> bit a (32 - n)) False (reg cpu))))"
    and "op_exec_shr_2 cpu = ret cpu (add_pc 2 (set_r (unat (f2_reg2 cpu)) (drop_bit n a)
      (with_flags (drop_bit n a) (0 < n \<and> bit a (n - 1)) False (reg cpu))))"
    and "op_exec_sar_2 cpu = ret cpu (add_pc 2 (set_r (unat (f2_reg2 cpu)) (signed_drop_bit n a)
      (with_flags (signed_drop_bit n a) (0 < n \<and> bit a (n - 1)) False (reg cpu))))"
  using assms(1)
  by (simp_all add: op_exec_shl_2_def op_exec_shr_2_def op_exec_sar_2_def Let_def op_zero_extend_eq take_bit_5_less
      with_flags_def alu_simps flag_simps set_psw_set_r put_flag_order a_def n_def unat_gt_0 word_gt_0)

lemma shift_9_correct:
  assumes "f9_gen1 cpu < 32" and "f9_reg2 cpu < 32"
  defines "a \<equiv> reg_r (reg cpu) (unat (f9_reg2 cpu))"
    and "n \<equiv> unat (take_bit 5 (reg_r (reg cpu) (unat (f9_gen1 cpu))))"
  shows "op_exec_shl_9 cpu = ret cpu (add_pc 4 (set_r (unat (f9_reg2 cpu)) (push_bit n a)
      (with_flags (push_bit n a) (0 < n \<and> bit a (32 - n)) False (reg cpu))))"
    and "op_exec_shr_9 cpu = ret cpu (add_pc 4 (set_r (unat (f9_reg2 cpu)) (drop_bit n a)
      (with_flags (drop_bit n a) (0 < n \<and> bit a (n - 1)) False (reg cpu))))"
    and "op_exec_sar_9 cpu = ret cpu (add_pc 4 (set_r (unat (f9_reg2 cpu)) (signed_drop_bit n a)
      (with_flags (signed_drop_bit n a) (0 < n \<and> bit a (n - 1)) False (reg cpu))))"
  using assms(1,2)
  by (simp_all add: op_exec_shl_9_def op_exec_shr_9_def op_exec_sar_9_def Let_def mask_simps take_bit_5_less
      with_flags_def alu_simps flag_simps set_psw_set_r put_flag_order a_def n_def unat_gt_0 word_gt_0)

lemma shift_11_correct:
  assumes "f11_reg1 cpu < 32" and "f11_reg2 cpu < 32" and "f11_reg3 cpu < 32"
  defines "a \<equiv> reg_r (reg cpu) (unat (f11_reg2 cpu))"
    and "n \<equiv> unat (take_bit 5 (reg_r (reg cpu) (unat (f11_reg1 cpu))))"
    and "f \<equiv> \<lambda>v. if f11_reg3 cpu = f11_reg2 cpu then v else reg_r (reg cpu) (unat (f11_reg2 cpu))"
  shows "op_exec_shl_11 cpu = ret cpu (add_pc 4 (set_r (unat (f11_reg3 cpu)) (push_bit n a)
      (with_flags (f (push_bit n a)) (0 < n \<and> bit a (32 - n)) False (reg cpu))))"
    and "op_exec_shr_11 cpu = ret cpu (add_pc 4 (set_r (unat (f11_reg3 cpu)) (drop_bit n a)
      (with_flags (f (drop_bit n a)) (0 < n \<and> bit a (n - 1)) False (reg cpu))))"
    and "op_exec_sar_11 cpu = ret cpu (add_pc 4 (set_r (unat (f11_reg3 cpu)) (signed_drop_bit n a)
      (with_flags (f (signed_drop_bit n a)) (0 < n \<and> bit a (n - 1)) False (reg cpu))))"
  using assms(1-3)
  by (simp_all add: op_exec_shl_11_def op_exec_shr_11_def op_exec_sar_11_def Let_def mask_simps take_bit_5_less
      with_flags_def alu_simps flag_simps set_psw_set_r put_flag_order a_def n_def f_def unat_gt_0 word_gt_0
      flip: word_unat_eq_iff)

text \<open>The shifted values as integers.\<close>

lemma shift_values:
  fixes a :: u32
  shows "uint (push_bit n a) = uint a * 2 ^ n mod 2 ^ 32"
    and "uint (drop_bit n a) = uint a div 2 ^ n"
    and "sint (signed_drop_bit n a) = sint a div 2 ^ n"
proof -
  show "uint (push_bit n a) = uint a * 2 ^ n mod 2 ^ 32"
    by (subst unsigned_push_bit_eq) (simp add: push_bit_eq_mult take_bit_eq_mod)
  show "sint (signed_drop_bit n a) = sint a div 2 ^ n"
    by (simp add: sint_signed_drop_bit_eq drop_bit_eq_div)
qed (rule uint_drop_bit_div)

section \<open>Swaps\<close>

lemma and_low:
  "w AND 0x000000FF = take_bit 8 w" "w AND 0x0000FFFF = take_bit 16 w" for w :: u32
  by (simp_all add: mask_simps)

lemma and_byte:
  "drop_bit 8 (w AND 0x0000FF00) = take_bit 8 (drop_bit 8 w)"
  "drop_bit 16 (w AND 0x00FF0000) = take_bit 8 (drop_bit 16 w)"
  "drop_bit 24 (w AND 0xFF000000) = take_bit 8 (drop_bit 24 w)"
  "drop_bit 16 (w AND 0xFFFF0000) = take_bit 16 (drop_bit 16 w)"
  for w :: u32
  by (rule drop_and_take, simp add: mask_eq_exp_minus_1 push_bit_eq_mult)+

lemma less_4_cases: "k < 4 \<Longrightarrow> k = 0 \<or> k = 1 \<or> k = 2 \<or> k = (3 :: nat)"
  by linarith

text \<open>Byte \<open>k\<close> of the result is byte \<open>3 - k\<close> of the operand (BSW), or its neighbour (BSH).\<close>

lemma bsw_bits:
  fixes a :: u32
  defines "v \<equiv> push_bit 24 (take_bit 8 a) OR push_bit 16 (take_bit 8 (drop_bit 8 a)) OR
     push_bit 8 (take_bit 8 (drop_bit 16 a)) OR take_bit 8 (drop_bit 24 a)"
  assumes "k < 4" and "j < 8"
  shows "bit v (8 * k + j) = bit a (8 * (3 - k) + j)"
  using less_4_cases [OF assms(2)] assms(3) by (elim disjE; simp add: v_def bit_simps_all add.commute)

lemma bsh_bits:
  fixes a :: u32
  defines "v \<equiv> push_bit 24 (take_bit 8 (drop_bit 16 a)) OR push_bit 16 (take_bit 8 (drop_bit 24 a)) OR
     push_bit 8 (take_bit 8 a) OR take_bit 8 (drop_bit 8 a)"
  assumes "k < 4" and "j < 8"
  shows "bit v (8 * k + j) = bit a (8 * (if even k then k + 1 else k - 1) + j)"
  using less_4_cases [OF assms(2)] assms(3) by (elim disjE; simp add: v_def bit_simps_all add.commute)

lemma flag_if:
  "(if c then psw_set CPU_PSW_Z g else psw_clr CPU_PSW_Z g) = set_psw (put_flag 0 c (psw g)) g"
  "(if c then psw_set CPU_PSW_S g else psw_clr CPU_PSW_S g) = set_psw (put_flag 1 c (psw g)) g"
  "(if c then psw_set CPU_PSW_CY g else psw_clr CPU_PSW_CY g) = set_psw (put_flag 3 c (psw g)) g"
  "psw_clr CPU_PSW_OV g = set_psw (put_flag 2 False (psw g)) g"
  by (simp_all add: flag_simps)

lemma and_sign_bit: "w AND 0x80000000 = 0x80000000 \<longleftrightarrow> bit (w :: u32) 31"
  using and_push_bit_eq_iff_bit [of 31 w] by simp

lemma bsw_correct:
  assumes "f12_reg2 cpu < 32" and "f12_reg3 cpu < 32"
  defines "a \<equiv> reg_r (reg cpu) (unat (f12_reg2 cpu))"
  obtains v w where "op_exec_bsw_12 cpu = ret cpu (add_pc 2 (set_r (unat (f12_reg3 cpu)) v (set_psw w (reg cpu))))"
    and "\<And>k j. k < 4 \<Longrightarrow> j < 8 \<Longrightarrow> bit v (8 * k + j) = bit a (8 * (3 - k) + j)"
    and "bit w 0 \<longleftrightarrow> take_bit 16 v = 0"
proof
  let ?v = "push_bit 24 (take_bit 8 a) OR push_bit 16 (take_bit 8 (drop_bit 8 a)) OR
     push_bit 8 (take_bit 8 (drop_bit 16 a)) OR take_bit 8 (drop_bit 24 a)"
  let ?w = "put_flag 0 (take_bit 16 ?v = 0) (put_flag 1 (bit ?v 31) (put_flag 2 False
     (put_flag 3 (take_bit 8 ?v = 0 \<or> ?v AND 0x0000FF00 = 0 \<or> ?v AND 0x00FF0000 = 0 \<or> ?v AND 0xFF000000 = 0) (psw (reg cpu)))))"
  show "op_exec_bsw_12 cpu = ret cpu (add_pc 2 (set_r (unat (f12_reg3 cpu)) ?v (set_psw ?w (reg cpu))))"
    by (simp only: op_exec_bsw_12_def Let_def rd_wr_less_32 assms(1,2) bind.simps flag_if and_byte and_low a_def
        and_sign_bit psw_frame)
  show "k < 4 \<Longrightarrow> j < 8 \<Longrightarrow> bit ?v (8 * k + j) = bit a (8 * (3 - k) + j)" for k j
    by (rule bsw_bits)
  show "bit ?w 0 \<longleftrightarrow> take_bit 16 ?v = 0" by (simp only: bit_put_flag) simp
qed

lemma bsh_correct:
  assumes "f12_reg2 cpu < 32" and "f12_reg3 cpu < 32"
  defines "a \<equiv> reg_r (reg cpu) (unat (f12_reg2 cpu))"
  obtains v w where "op_exec_bsh_12 cpu = ret cpu (add_pc 2 (set_r (unat (f12_reg3 cpu)) v (set_psw w (reg cpu))))"
    and "\<And>k j. k < 4 \<Longrightarrow> j < 8 \<Longrightarrow> bit v (8 * k + j) = bit a (8 * (if even k then k + 1 else k - 1) + j)"
    and "bit w 0 \<longleftrightarrow> take_bit 16 v = 0"
proof
  let ?v = "push_bit 24 (take_bit 8 (drop_bit 16 a)) OR push_bit 16 (take_bit 8 (drop_bit 24 a)) OR
     push_bit 8 (take_bit 8 a) OR take_bit 8 (drop_bit 8 a)"
  let ?w = "put_flag 0 (take_bit 16 ?v = 0) (put_flag 1 (bit ?v 31) (put_flag 2 False
     (put_flag 3 (take_bit 8 ?v = 0 \<or> ?v AND 0x0000FF00 = 0) (psw (reg cpu)))))"
  show "op_exec_bsh_12 cpu = ret cpu (add_pc 2 (set_r (unat (f12_reg3 cpu)) ?v (set_psw ?w (reg cpu))))"
    by (simp only: op_exec_bsh_12_def Let_def rd_wr_less_32 assms(1,2) bind.simps flag_if and_byte and_low a_def
        and_sign_bit psw_frame)
  show "k < 4 \<Longrightarrow> j < 8 \<Longrightarrow> bit ?v (8 * k + j) = bit a (8 * (if even k then k + 1 else k - 1) + j)" for k j
    by (rule bsh_bits)
  show "bit ?w 0 \<longleftrightarrow> take_bit 16 ?v = 0" by (simp only: bit_put_flag) simp
qed

lemma hsw_bits:
  fixes a :: u32
  assumes "k < 2" and "j < 16"
  shows "bit (push_bit 16 (take_bit 16 a) OR take_bit 16 (drop_bit 16 a)) (16 * k + j) = bit a (16 * (1 - k) + j)"
proof -
  have "k = 0 \<or> k = 1" using assms(1) by linarith
  then show ?thesis using assms(2) by (elim disjE; simp add: bit_simps_all add.commute)
qed

lemma hsw_correct:
  assumes "f12_reg2 cpu < 32" and "f12_reg3 cpu < 32"
  defines "a \<equiv> reg_r (reg cpu) (unat (f12_reg2 cpu))"
  obtains v w where "op_exec_hsw_12 cpu = ret cpu (add_pc 2 (set_r (unat (f12_reg3 cpu)) v (set_psw w (reg cpu))))"
    and "\<And>k j. k < 2 \<Longrightarrow> j < 16 \<Longrightarrow> bit v (16 * k + j) = bit a (16 * (1 - k) + j)"
    and "bit w 0 \<longleftrightarrow> v = 0"
proof
  let ?v = "push_bit 16 (take_bit 16 a) OR take_bit 16 (drop_bit 16 a)"
  let ?w = "put_flag 1 (bit ?v 31) (put_flag 0 (?v = 0) (put_flag 2 False
     (put_flag 3 (push_bit 16 (take_bit 16 a) = 0 \<or> take_bit 16 (drop_bit 16 a) = 0) (psw (reg cpu)))))"
  show "op_exec_hsw_12 cpu = ret cpu (add_pc 2 (set_r (unat (f12_reg3 cpu)) ?v (set_psw ?w (reg cpu))))"
    by (simp only: op_exec_hsw_12_def Let_def rd_wr_less_32 assms(1,2) bind.simps flag_if and_byte and_low a_def
        and_sign_bit psw_frame)
  show "k < 2 \<Longrightarrow> j < 16 \<Longrightarrow> bit ?v (16 * k + j) = bit a (16 * (1 - k) + j)" for k j
    by (rule hsw_bits)
  show "bit ?w 0 \<longleftrightarrow> ?v = 0" by (simp only: bit_put_flag) simp
qed

section \<open>Bit search\<close>

lemma schlr_loop_eq:
  "schlr_loop hit is c = (list_ex hit is, c + of_nat (length (takeWhile (\<lambda>i. \<not> hit i) is)))"
  by (induction "is" arbitrary: c) auto

lemma list_ex_takeWhile: "list_ex P xs \<longleftrightarrow> length (takeWhile (\<lambda>x. \<not> P x) xs) < length xs"
  by (induction xs) auto

text \<open>How many bit positions, from the left or the right, precede the first with value \<open>b\<close>.\<close>

definition search_pos :: "bool \<Rightarrow> bool \<Rightarrow> u32 \<Rightarrow> nat" where
  "search_pos b left a =
     length (takeWhile (\<lambda>i. \<not> (bit a (if left then 31 - i else i) = b)) [0..<32])"

lemma schlr_result:
  assumes "f9_reg2 cpu < 32" and "t9_rfu2 (type9 (decoded_code cpu)) < 32"
  shows "op_exec_schlr_9 v left cpu = ret cpu (add_pc 4
    (let n = search_pos (v \<noteq> 0) left (reg_r (reg cpu) (unat (f9_reg2 cpu)))
     in set_r (unat (ucast (t9_rfu2 (type9 (decoded_code cpu))) :: u32)) (if n < 32 then of_nat n + 1 else 0)
      (set_psw (put_flag 0 (n = 32) (put_flag 1 False (put_flag 2 False (put_flag 3 True (psw (reg cpu)))))) (reg cpu))))"
proof -
  define a where "a = reg_r (reg cpu) (unat (f9_reg2 cpu))"
  define n where "n = search_pos (v \<noteq> 0) left a"
  have p: "push_bit i (1 :: u32) \<noteq> 0" if "i < 32" for i
    using that by (simp add: push_bit_eq_mult)
  have h: "a AND push_bit i 1 = schlr_search_bitval v i \<longleftrightarrow> bit a i = (v \<noteq> 0)" if "i < 32" for i
    using that p [OF that] and_push_bit_eq_iff_bit [OF that, of a] and_push_bit_neq_0_iff_bit [of a i]
    by (auto simp: schlr_search_bitval_def simp del: push_bit_of_1)
  let ?hit = "\<lambda>i. a AND push_bit (if left then 31 - i else i) 1 = schlr_search_bitval v (if left then 31 - i else i)"
  have "takeWhile (\<lambda>i. \<not> ?hit i) [0..<32] = takeWhile (\<lambda>i. \<not> (bit a (if left then 31 - i else i) = (v \<noteq> 0))) [0..<32]"
    by (rule takeWhile_cong) (auto simp: h simp del: push_bit_of_1)
  then have t: "length (takeWhile (\<lambda>i. \<not> ?hit i) [0..<32]) = n"
    by (simp only: n_def search_pos_def)
  have x: "list_ex ?hit [0..<32] \<longleftrightarrow> n < 32"
    unfolding list_ex_takeWhile t by simp
  have nn: "n \<le> 32" unfolding n_def search_pos_def using length_takeWhile_le [of _ "[0..<32]"] by simp
  have "schlr_loop ?hit [0..<32] 0 = (n < 32, of_nat n)"
    unfolding schlr_loop_eq x t by simp
  then have e: "(if left then schlr_loop (\<lambda>i. a AND push_bit (31 - i) 1 = schlr_search_bitval v (31 - i)) [0..<32] 0
      else schlr_loop (\<lambda>i. a AND push_bit i 1 = schlr_search_bitval v i) [0..<32] 0) = (n < 32, of_nat n)"
    by (cases left) (simp_all only: if_True if_False)
  show ?thesis
    using assms(1,2) nn
    by (auto simp: op_exec_schlr_9_def Let_def flag_simps e simp flip: a_def n_def simp del: push_bit_of_1)
qed

section \<open>Properties\<close>

text \<open>C22: SHL, SHR and SAR by a 5-bit immediate or by the low five bits of a
  register write the shifted word to \<open>reg2\<close>, put the last bit shifted out in CY (0 for a
  shift by 0), clear OV, and set Z and S from the result.\<close>

theorem shift_by_immediate:
  assumes "f2_reg2 cpu < 32" and "f9_gen1 cpu < 32" and "f9_reg2 cpu < 32"
  shows "(let a = reg_r (reg cpu) (unat (f2_reg2 cpu)); n = unat (take_bit 5 (f2_imm cpu));
         result = \<lambda>v cy. ret cpu (add_pc 2 (set_r (unat (f2_reg2 cpu)) v (with_flags v cy False (reg cpu))))
       in op_exec_shl_2 cpu = result (push_bit n a) (0 < n \<and> bit a (32 - n))
        \<and> op_exec_shr_2 cpu = result (drop_bit n a) (0 < n \<and> bit a (n - 1))
        \<and> op_exec_sar_2 cpu = result (signed_drop_bit n a) (0 < n \<and> bit a (n - 1)))
    \<and> (let a = reg_r (reg cpu) (unat (f9_reg2 cpu)); n = unat (take_bit 5 (reg_r (reg cpu) (unat (f9_gen1 cpu))));
         result = \<lambda>v cy. ret cpu (add_pc 4 (set_r (unat (f9_reg2 cpu)) v (with_flags v cy False (reg cpu))))
       in op_exec_shl_9 cpu = result (push_bit n a) (0 < n \<and> bit a (32 - n))
        \<and> op_exec_shr_9 cpu = result (drop_bit n a) (0 < n \<and> bit a (n - 1))
        \<and> op_exec_sar_9 cpu = result (signed_drop_bit n a) (0 < n \<and> bit a (n - 1)))"
  unfolding Let_def using assms by (intro conjI shift_2_correct shift_9_correct)

lemma shift_by_immediate_witness:
  "\<exists>cpu. f2_reg2 cpu = 2 \<and> reg_r (reg cpu) 2 = 0xF0000000 \<and>
     op_exec_shl_2 cpu = ret cpu (add_pc 2 (set_r 2 0 (with_flags 0 True False (reg cpu))))"
proof (intro exI conjI)
  let ?cpu = "sample_2 (\<lambda>_. 0xF0000000)"
  have f: "f9_gen1 ?cpu = 0" "f9_reg2 ?cpu = 0"
    by (simp_all add: sample_2_def OpDecode2_def blank_decoded_def)
  have b: "bit (0xF0000000 :: u32) 28" and e: "(64424509440 :: u32) = 0" by simp_all
  show "op_exec_shl_2 ?cpu = ret ?cpu (add_pc 2 (set_r 2 0 (with_flags 0 True False (reg ?cpu))))"
    using shift_by_immediate [of ?cpu] by (simp add: f b e Let_def)
qed simp_all

text \<open>the three-register shifts write the shifted word to \<open>reg3\<close> and
  clear OV, but take Z and S from \<open>reg2\<close>: they describe the result only when \<open>reg3\<close> is \<open>reg2\<close>,
  and the unshifted operand otherwise.\<close>

theorem shift_three_registers:
  assumes "f11_reg1 cpu < 32" and "f11_reg2 cpu < 32" and "f11_reg3 cpu < 32"
  shows "let a = reg_r (reg cpu) (unat (f11_reg2 cpu)); n = unat (take_bit 5 (reg_r (reg cpu) (unat (f11_reg1 cpu))));
       result = \<lambda>v cy. ret cpu (add_pc 4 (set_r (unat (f11_reg3 cpu)) v
         (with_flags (if f11_reg3 cpu = f11_reg2 cpu then v else a) cy False (reg cpu))))
     in op_exec_shl_11 cpu = result (push_bit n a) (0 < n \<and> bit a (32 - n))
      \<and> op_exec_shr_11 cpu = result (drop_bit n a) (0 < n \<and> bit a (n - 1))
      \<and> op_exec_sar_11 cpu = result (signed_drop_bit n a) (0 < n \<and> bit a (n - 1))"
  unfolding Let_def by (intro conjI shift_11_correct assms)

lemma shift_three_registers_witness:
  "\<exists>cpu. f11_reg1 cpu = 1 \<and> f11_reg2 cpu = 2 \<and> f11_reg3 cpu = 3 \<and> reg_r (reg cpu) 1 = 4 \<and> reg_r (reg cpu) 2 = 15 \<and>
     op_exec_shr_11 cpu = ret cpu (add_pc 4 (set_r 3 0 (with_flags 15 True False (reg cpu))))"
proof (intro exI conjI)
  let ?cpu = "sample_11 (\<lambda>i. if i = 1 then 4 else 15)"
  show "op_exec_shr_11 ?cpu = ret ?cpu (add_pc 4 (set_r 3 0 (with_flags 15 True False (reg ?cpu))))"
    using shift_three_registers [of ?cpu] by (simp add: Let_def)
qed simp_all

text \<open>BSW reverses the four bytes, BSH swaps the bytes of each halfword and HSW
  swaps the halfwords; all three advance the program counter by 2, not by the 4 bytes of
  format XII, and the Z of BSW and BSH is that of the low halfword of the result.\<close>

theorem byte_swaps:
  assumes "f12_reg2 cpu < 32" and "f12_reg3 cpu < 32"
  shows "let a = reg_r (reg cpu) (unat (f12_reg2 cpu));
       result = \<lambda>v w. ret cpu (add_pc 2 (set_r (unat (f12_reg3 cpu)) v (set_psw w (reg cpu))))
     in (\<exists>v w. op_exec_bsw_12 cpu = result v w \<and> (\<forall>k < 4. \<forall>j < 8. bit v (8 * k + j) = bit a (8 * (3 - k) + j))
            \<and> (bit w 0 \<longleftrightarrow> take_bit 16 v = 0))
      \<and> (\<exists>v w. op_exec_bsh_12 cpu = result v w \<and>
            (\<forall>k < 4. \<forall>j < 8. bit v (8 * k + j) = bit a (8 * (if even k then k + 1 else k - 1) + j))
            \<and> (bit w 0 \<longleftrightarrow> take_bit 16 v = 0))
      \<and> (\<exists>v w. op_exec_hsw_12 cpu = result v w \<and> (\<forall>k < 2. \<forall>j < 16. bit v (16 * k + j) = bit a (16 * (1 - k) + j))
            \<and> (bit w 0 \<longleftrightarrow> v = 0))"
  unfolding Let_def
  by (rule conjI, rule bsw_correct [OF assms], intro exI conjI allI impI, assumption, assumption, assumption,
      rule conjI, rule bsh_correct [OF assms], intro exI conjI allI impI, assumption, assumption, assumption,
      rule hsw_correct [OF assms], intro exI conjI allI impI, assumption, assumption, assumption)

lemma byte_swaps_witness:
  "\<exists>cpu v w. f12_reg2 cpu = 2 \<and> f12_reg3 cpu = 3 \<and>
     op_exec_bsw_12 cpu = ret cpu (add_pc 2 (set_r 3 v (set_psw w (reg cpu)))) \<and>
     (\<forall>k < 4. \<forall>j < 8. bit v (8 * k + j) = bit (reg_r (reg cpu) 2) (8 * (3 - k) + j))"
proof -
  let ?cpu = "sample_12 (\<lambda>_. 0x01020304)"
  have f: "f12_reg2 ?cpu = 2" "f12_reg3 ?cpu = 3" by simp_all
  have n: "unat (2 :: u32) = 2" "unat (3 :: u32) = 3" by simp_all
  have h: "(2 :: u32) < 32" "(3 :: u32) < 32" by simp_all
  from conjunct1 [OF byte_swaps [of ?cpu, unfolded f n Let_def, OF h]] f
  show ?thesis by blast
qed

text \<open>SCH0L, SCH1L, SCH0R and SCH1R find the first bit with the value searched for,
  from the left or the right: \<open>reg3\<close> receives the number of positions before it plus one, or 0
  with Z set when there is none; OV and S are cleared. CY is set in both cases.\<close>

theorem bit_search:
  assumes "f9_reg2 cpu < 32" and "t9_rfu2 (type9 (decoded_code cpu)) < 32"
  shows "let result = \<lambda>b left. (let n = search_pos b left (reg_r (reg cpu) (unat (f9_reg2 cpu)))
       in ret cpu (add_pc 4 (set_r (unat (ucast (t9_rfu2 (type9 (decoded_code cpu))) :: u32)) (if n < 32 then of_nat n + 1 else 0)
          (set_psw (put_flag 0 (n = 32) (put_flag 1 False (put_flag 2 False (put_flag 3 True (psw (reg cpu)))))) (reg cpu)))))
     in op_exec_sch0l_9 cpu = result False True \<and> op_exec_sch1l_9 cpu = result True True
      \<and> op_exec_sch0r_9 cpu = result False False \<and> op_exec_sch1r_9 cpu = result True False"
  by (simp add: op_exec_sch0l_9_def op_exec_sch1l_9_def op_exec_sch0r_9_def op_exec_sch1r_9_def
      schlr_result [OF assms] Let_def)

lemma search_pos_sample: "search_pos True False 0x10 = 4"
  by (simp add: search_pos_def upt_rec)

lemma bit_search_witness:
  "\<exists>cpu. f9_reg2 cpu = 2 \<and> reg_r (reg cpu) 2 = 0x10 \<and> op_exec_sch1r_9 cpu = ret cpu (add_pc 4 (set_r 3 5
     (set_psw (put_flag 0 False (put_flag 1 False (put_flag 2 False (put_flag 3 True 0)))) (reg cpu))))"
  by (rule exI [of _ "sample_9 (\<lambda>_. 0x10)"],
      use bit_search [of "sample_9 (\<lambda>_. 0x10)"] in \<open>simp add: Let_def search_pos_sample\<close>)

end
