(* ===== verification/V850_Memory_Correct.thy ===== *)
theory V850_Memory_Correct
  imports V850_Logic_Correct
begin

unbundle bit_operations_syntax

text \<open>
  The instructions that use the bus or branch (\<open>V850_Exec_Load\<close>, \<open>V850_Exec_Store\<close>,
  \<open>V850_Exec_Bit\<close>, \<open>V850_Exec_Branch\<close>), from their encoding in the code to the access they make:
  displacements, widths and extension, the bit they change, the address they go to. The bus
  is arbitrary; only the property of a store followed by a load assumes that it remembers.
\<close>

section \<open>Displacements\<close>

text \<open>The displacement of a decoded load, store or branch is a field of the instruction: the
  fields, put together, are the halfword or its even part, and extending them is a cast.\<close>

lemma bit_mod_2: "bit (w mod 2) n \<longleftrightarrow> n = 0 \<and> bit (w :: 'a::len word) 0"
  by (metis bit_take_bit_iff less_one power_one_right take_bit_eq_mod)

lemmas disp_simps = Let_def mask_simps bit_simps_all bit_mod_2 bit_mask_iff

lemma bit_u16_ge: "16 \<le> n \<Longrightarrow> \<not> bit (w :: u16) n"
  by (auto dest: bit_imp_le_length)

lemma sign_extend_u16: "op_sign_extend 15 (ucast (w :: u16)) = scast w"
proof (rule bit_word_eqI)
  fix n assume "n < LENGTH(32)"
  then show "bit (op_sign_extend 15 (ucast w)) n \<longleftrightarrow> bit (scast w :: u32) n"
    by (cases "n < 15"; cases "n = 15") (simp_all add: op_sign_extend_eq disp_simps bit_signed_iff bit_u16_ge)
qed

lemma bit_ucast_u16 [simp]: "bit (ucast (w :: u16) :: u32) n \<longleftrightarrow> bit w n"
  by (auto simp: bit_simps_all bit_u16_ge not_less intro: ccontr)

lemma take_bit_16_u16 [simp]: "take_bit 16 (w :: u16) = w"
  by (simp add: take_bit_word_eq_self)

lemma fields_7:
  "t7_disp (type7 (OpDecode7 code d)) = drop_bit 1 (ucast (code 1))"
  "t7_gen (type7 (OpDecode7 code d)) = take_bit 1 (ucast (code 1))"
proof -
  have "take_bit 15 (drop_bit 1 (ucast w :: u32)) = drop_bit 1 (ucast w)" for w :: u16
    by (rule bit_word_eqI) (auto simp: bit_simps_all bit_u16_ge not_less intro: ccontr)
  then show "t7_disp (type7 (OpDecode7 code d)) = drop_bit 1 (ucast (code 1))"
    by (simp add: OpDecode7_def Let_def mask_simps)
qed (simp add: OpDecode7_def Let_def mask_simps)

lemma push_drop_bit_1: "push_bit 1 (drop_bit 1 w) OR take_bit 1 w = (w :: 'a::len word)"
  by (rule bit_word_eqI; case_tac n; simp add: bit_simps flip: bit_0 del: push_bit_Suc take_bit_Suc bit_0)

lemma push_drop_even: "push_bit 1 (drop_bit 1 (ucast (w :: u16) :: u32)) = ucast (w AND NOT 1)"
  by (rule bit_word_eqI; case_tac n; auto simp: bit_simps_all bit_1_iff bit_u16_ge not_less
      simp del: push_bit_Suc intro: ccontr)

text \<open>The signed displacements of format VII, with and without its lowest bit, and of LD.BU, whose
  lowest bit is in the opcode.\<close>

definition disp16 :: "code \<Rightarrow> u32" where "disp16 code = scast (code 1)"
definition disp16_even :: "code \<Rightarrow> u32" where "disp16_even code = scast (code 1 AND NOT 1)"
definition disp16_bu :: "code \<Rightarrow> u32" where
  "disp16_bu code = scast (code 1 AND NOT 1) OR ucast (drop_bit 5 (code 0) AND 1)"

lemma disp_7:
  "type7 x = type7 (OpDecode7 code d) \<Longrightarrow> op_sign_extend 15 (push_bit 1 (t7_disp (type7 x)) OR t7_gen (type7 x)) = disp16 code"
  "type7 x = type7 (OpDecode7 code d) \<Longrightarrow> op_sign_extend 15 (push_bit 1 (t7_disp (type7 x))) = disp16_even code"
  by (simp_all only: fields_7 push_drop_bit_1 sign_extend_u16 disp16_def)
    (simp_all only: push_drop_even sign_extend_u16 disp16_even_def)

lemma disp_7_bu:
  "type7 x = type7 (OpDecode7 code d) \<Longrightarrow>
   op_sign_extend 15 (push_bit 1 (t7_disp (type7 x)) OR ucast (t7_opcode (type7 x) AND 1)) = disp16_bu code"
proof -
  have "t7_opcode (type7 (OpDecode7 code d)) AND 1 = drop_bit 5 (code 0) AND 1"
    by (simp add: OpDecode7_def Let_def mask_simps take_bit_Suc and_one_eq)
  moreover have "op_sign_extend 15 (ucast (w AND NOT 1) OR ucast (v AND 1)) = scast (w AND NOT 1) OR ucast (v AND 1)" for w v :: u16
    by (rule bit_word_eqI; case_tac "n < 15"; case_tac "n = 15")
      (simp_all add: op_sign_extend_eq bit_simps_all bit_1_iff bit_signed_iff bit_u16_ge bit_mask_iff)
  ultimately show "type7 x = type7 (OpDecode7 code d) \<Longrightarrow> ?thesis"
    by (simp only: fields_7 push_drop_even disp16_bu_def)
qed

text \<open>The 23-bit displacement of format XIV.\<close>

definition disp23 :: "code \<Rightarrow> u32" where
  "disp23 code = push_bit 7 (scast (code 2)) OR ucast (take_bit 7 (drop_bit 4 (code 1)))"

lemma disp_14:
  "type14 x = type14 (OpDecode14 code d) \<Longrightarrow>
   op_sign_extend 22 (push_bit 7 (t14_disp_high (type14 x)) OR t14_disp_low (type14 x)) = disp23 code"
  by (rule bit_word_eqI; case_tac "n < 22"; case_tac "n = 22")
    (auto simp: op_sign_extend_eq disp23_def OpDecode14_def mask_simps bit_simps_all bit_signed_iff bit_u16_ge bit_mask_iff)

text \<open>The unsigned displacements of the short forms.\<close>

lemma disp_4:
  "type4_1 x = type4_1 (OpDecode4 code d) \<Longrightarrow>
   op_zero_extend 7 (push_bit 1 (t4_1_disp (type4_1 x)) OR t4_1_gen (type4_1 x)) = ucast (take_bit 7 (code 0))"
  "type4_1 x = type4_1 (OpDecode4 code d) \<Longrightarrow>
   op_zero_extend 6 (t4_1_disp (type4_1 x)) = ucast (take_bit 6 (drop_bit 1 (code 0)))"
  "type4_2 x = type4_2 (OpDecode4 code d) \<Longrightarrow> op_zero_extend 4 (t4_2_disp (type4_2 x)) = ucast (take_bit 4 (code 0))"
  "type4_2 x = type4_2 (OpDecode4 code d) \<Longrightarrow>
   op_zero_extend 5 (push_bit 1 (t4_2_disp (type4_2 x))) = ucast (push_bit 1 (take_bit 4 (code 0)))"
  by (rule bit_word_eqI; case_tac n; auto simp: op_zero_extend_eq OpDecode4_def mask_simps bit_simps_all
      bit_u16_ge and_one_eq bit_mod_2 bit_signed_iff simp flip: bit_0 simp del: push_bit_Suc take_bit_Suc bit_0)+

section \<open>What a load does\<close>

datatype width = Byte bool | Half bool | Word

definition bus_read :: "'w bus \<Rightarrow> width \<Rightarrow> u32 \<Rightarrow> 'w machine \<Rightarrow> Std_ReturnType \<times> u32 \<times> 'w machine" where
  "bus_read bus w addr m =
     (case w of
        Byte s \<Rightarrow> (case bus_get_data8 bus (core_id (m_core m)) addr m of
                     (err, v, m) \<Rightarrow> (err, if s then scast v else ucast v, m))
      | Half s \<Rightarrow> (case bus_get_data16 bus (core_id (m_core m)) addr m of
                     (err, v, m) \<Rightarrow> (err, if s then scast v else ucast v, m))
      | Word \<Rightarrow> bus_get_data32 bus (core_id (m_core m)) addr m)"

definition load_step :: "'w bus \<Rightarrow> width \<Rightarrow> u32 \<Rightarrow> nat \<Rightarrow> u32 \<Rightarrow> 'w machine \<Rightarrow> 'w bus_result" where
  "load_step bus w addr rd n m =
     (case bus_read bus w addr m of (err, v, m) \<Rightarrow>
        if err \<noteq> STD_E_OK then Some (-1, m) else m_ret m (add_pc n (set_r rd v (m_reg m))))"

definition c_reg1 :: "code \<Rightarrow> nat" where "c_reg1 code = unat (take_bit 5 (code 0))"
definition c_reg2 :: "code \<Rightarrow> nat" where "c_reg2 code = unat (drop_bit 11 (code 0))"
definition c_reg3 :: "code \<Rightarrow> nat" where "c_reg3 code = unat (drop_bit 11 (code 1))"

text \<open>Operation code; width, base register, displacement and target register, from the code.\<close>

definition loads :: "(nat \<times> (code \<Rightarrow> width) \<times> (code \<Rightarrow> nat) \<times> (code \<Rightarrow> u32) \<times> (code \<Rightarrow> nat)) list" where
  "loads = [
     (OpCodeId_LD_B_7, \<lambda>_. Byte True, c_reg1, disp16, c_reg2),
     (OpCodeId_LD_BU_7, \<lambda>_. Byte False, c_reg1, disp16_bu, c_reg2),
     (OpCodeId_LD_H_7, \<lambda>c. if even (c 1) then Half True else Word, c_reg1, disp16_even, c_reg2),
     (OpCodeId_LD_HU_7, \<lambda>_. Half False, c_reg1, disp16_even, c_reg2),
     (OpCodeId_LD_W_7, \<lambda>c. if even (c 1) then Half True else Word, c_reg1, disp16_even, c_reg2),
     (OpCodeId_LD_B_14, \<lambda>_. Byte True, c_reg1, disp23, c_reg3),
     (OpCodeId_LD_BU_14, \<lambda>_. Byte False, c_reg1, disp23, c_reg3),
     (OpCodeId_LD_H_14, \<lambda>_. Half True, c_reg1, disp23, c_reg3),
     (OpCodeId_LD_HU_14, \<lambda>_. Half False, c_reg1, disp23, c_reg3),
     (OpCodeId_LD_W_14, \<lambda>_. Word, c_reg1, disp23, c_reg3),
     (OpCodeId_SLD_B_4, \<lambda>_. Byte True, \<lambda>_. 30, \<lambda>c. ucast (take_bit 7 (c 0)), c_reg2),
     (OpCodeId_SLD_BU_4, \<lambda>_. Byte False, \<lambda>_. 30, \<lambda>c. ucast (take_bit 4 (c 0)), c_reg2),
     (OpCodeId_SLD_H_4, \<lambda>_. Half True, \<lambda>_. 30, \<lambda>c. push_bit 1 (ucast (take_bit 7 (c 0))), c_reg2),
     (OpCodeId_SLD_HU_4, \<lambda>_. Half False, \<lambda>_. 30, \<lambda>c. push_bit 1 (ucast (take_bit 4 (c 0))), c_reg2),
     (OpCodeId_SLD_W_4, \<lambda>_. Word, \<lambda>_. 30, \<lambda>c. push_bit 2 (ucast (take_bit 6 (drop_bit 1 (c 0)))), c_reg2)]"

lemma reg_field_bounds:
  "take_bit 5 (w :: u16) < 32" "(ucast (take_bit 5 w) :: u32) < 32" "unat (ucast (take_bit 5 w) :: u32) = unat (take_bit 5 w)"
  using take_bit_nat_less_exp [of 5]
  by (simp_all add: word_less_nat_alt unsigned_ucast_eq unsigned_take_bit_eq take_bit_take_bit)

lemma take_drop_11: "take_bit 5 (drop_bit 11 w) = drop_bit 11 (w :: u16)"
  by (rule bit_word_eqI) (auto simp: bit_simps_all dest: bit_imp_le_length)

lemma ucast_mod_2: "(ucast (w :: u16) :: u32) mod 2 = 0 \<longleftrightarrow> even w"
  by (metis bit_0 bit_ucast_u16 even_iff_mod_2_eq_zero)

lemma fields_regs:
  "t7_gen (type7 (OpDecode7 code d)) = 0 \<longleftrightarrow> even (code 1)"
  "ucast (t7_reg1 (type7 (OpDecode7 code d))) < (32 :: u32)" "unat (ucast (t7_reg1 (type7 (OpDecode7 code d))) :: u32) = c_reg1 code"
  "ucast (t7_reg2 (type7 (OpDecode7 code d))) < (32 :: u32)" "unat (ucast (t7_reg2 (type7 (OpDecode7 code d))) :: u32) = c_reg2 code"
  "ucast (t14_reg1 (type14 (OpDecode14 code d))) < (32 :: u32)" "unat (ucast (t14_reg1 (type14 (OpDecode14 code d))) :: u32) = c_reg1 code"
  "ucast (t14_reg3 (type14 (OpDecode14 code d))) < (32 :: u32)" "unat (ucast (t14_reg3 (type14 (OpDecode14 code d))) :: u32) = c_reg3 code"
  "ucast (t4_1_reg2 (type4_1 (OpDecode4 code d))) < (32 :: u32)" "unat (ucast (t4_1_reg2 (type4_1 (OpDecode4 code d))) :: u32) = c_reg2 code"
  "ucast (t4_2_reg2 (type4_2 (OpDecode4 code d))) < (32 :: u32)" "unat (ucast (t4_2_reg2 (type4_2 (OpDecode4 code d))) :: u32) = c_reg2 code"
  using reg_field_bounds [of "drop_bit 11 _", unfolded take_drop_11]
  by (simp_all add: OpDecode7_def OpDecode14_def OpDecode4_def Let_def mask_simps reg_field_bounds take_drop_11 ucast_mod_2
      c_reg1_def c_reg2_def c_reg3_def)

lemma ld_7:
  assumes "decoded_code (m_core m) = OpDecode7 code d"
  shows "op_exec_ldb bus m = load_step bus (Byte True) (reg_r (m_reg m) (c_reg1 code) + disp16 code) (c_reg2 code) 4 m"
    "op_exec_ldbu bus m = load_step bus (Byte False) (reg_r (m_reg m) (c_reg1 code) + disp16_bu code) (c_reg2 code) 4 m"
    "op_exec_ldhw bus m = load_step bus (if even (code 1) then Half True else Word) (reg_r (m_reg m) (c_reg1 code) + disp16_even code) (c_reg2 code) 4 m"
    "op_exec_ldhu bus m = load_step bus (Half False) (reg_r (m_reg m) (c_reg1 code) + disp16_even code) (c_reg2 code) 4 m"
  by (simp_all add: op_exec_ldb_def op_exec_ldbu_def op_exec_ldhw_def op_exec_ldhu_def Let_def assms fields_regs
     disp_7 [OF refl] disp_7_bu [OF refl] load_step_def bus_read_def split: prod.split del: push_bit_of_1 One_nat_def push_bit_Suc)

lemma ld_14:
  assumes "decoded_code (m_core m) = OpDecode14 code d"
  shows "op_exec_ld_b_14 bus m = load_step bus (Byte True) (reg_r (m_reg m) (c_reg1 code) + disp23 code) (c_reg3 code) 6 m"
    "op_exec_ld_bu_14 bus m = load_step bus (Byte False) (reg_r (m_reg m) (c_reg1 code) + disp23 code) (c_reg3 code) 6 m"
    "op_exec_ld_h_14 bus m = load_step bus (Half True) (reg_r (m_reg m) (c_reg1 code) + disp23 code) (c_reg3 code) 6 m"
    "op_exec_ld_hu_14 bus m = load_step bus (Half False) (reg_r (m_reg m) (c_reg1 code) + disp23 code) (c_reg3 code) 6 m"
    "op_exec_ld_w_14 bus m = load_step bus Word (reg_r (m_reg m) (c_reg1 code) + disp23 code) (c_reg3 code) 6 m"
  by (simp_all add: op_exec_ld_b_14_def op_exec_ld_bu_14_def op_exec_ld_h_14_def op_exec_ld_hu_14_def
     op_exec_ld_w_14_def Let_def assms fields_regs
     disp_14 [OF refl] load_step_def bus_read_def split: prod.split)

lemma ld_4:
  assumes "decoded_code (m_core m) = OpDecode4 code d"
  shows "op_exec_sldb bus m = load_step bus (Byte True) (reg_r (m_reg m) 30 + ucast (take_bit 7 (code 0))) (c_reg2 code) 2 m"
    "op_exec_sldbu bus m = load_step bus (Byte False) (reg_r (m_reg m) 30 + ucast (take_bit 4 (code 0))) (c_reg2 code) 2 m"
    "op_exec_sldh bus m = load_step bus (Half True) (reg_r (m_reg m) 30 + push_bit 1 (ucast (take_bit 7 (code 0)))) (c_reg2 code) 2 m"
    "op_exec_sldhu bus m = load_step bus (Half False) (reg_r (m_reg m) 30 + ucast (push_bit 1 (take_bit 4 (code 0)))) (c_reg2 code) 2 m"
    "op_exec_sldw bus m = load_step bus Word (reg_r (m_reg m) 30 + push_bit 2 (ucast (take_bit 6 (drop_bit 1 (code 0))))) (c_reg2 code) 2 m"
  by (simp_all add: op_exec_sldb_def op_exec_sldbu_def op_exec_sldh_def op_exec_sldhu_def
     op_exec_sldw_def Let_def assms fields_regs
     disp_4 [OF refl] load_step_def bus_read_def split: prod.split del: push_bit_of_1 One_nat_def push_bit_Suc)

section \<open>What a store does\<close>

definition bus_write :: "'w bus \<Rightarrow> width \<Rightarrow> u32 \<Rightarrow> u32 \<Rightarrow> 'w machine \<Rightarrow> Std_ReturnType \<times> 'w machine" where
  "bus_write bus w addr v m =
     (case w of
        Byte _ \<Rightarrow> bus_put_data8 bus (core_id (m_core m)) addr (ucast v) m
      | Half _ \<Rightarrow> bus_put_data16 bus (core_id (m_core m)) addr (ucast v) m
      | Word \<Rightarrow> bus_put_data32 bus (core_id (m_core m)) addr v m)"

text \<open>A store relative to \<open>r3\<close> first asks the stack check, which is given the register alone and
  whether the displacement is 1.\<close>

definition store_step :: "'w bus \<Rightarrow> width \<Rightarrow> nat \<Rightarrow> u32 \<Rightarrow> nat \<Rightarrow> u32 \<Rightarrow> 'w machine \<Rightarrow> 'w bus_result" where
  "store_step bus w base disp rs n m =
     (let r1 = reg_r (m_reg m) base
      in if base = 3 \<and> IS_STACK_OVER bus m r1 disp then Some (-1, m)
         else case bus_write bus w (r1 + disp) (reg_r (m_reg m) rs) m of (err, m) \<Rightarrow>
           if err \<noteq> STD_E_OK then Some (-1, m) else m_ret m (add_pc n (m_reg m)))"

lemma reg1_eq_3:
  "ucast (t7_reg1 (type7 (OpDecode7 code d))) = (3 :: u32) \<longleftrightarrow> c_reg1 code = 3"
  "ucast (t14_reg1 (type14 (OpDecode14 code d))) = (3 :: u32) \<longleftrightarrow> c_reg1 code = 3"
  using fields_regs(3,7) [of code d] by (simp_all add: word_unat_eq_iff)

lemma st_7:
  assumes "decoded_code (m_core m) = OpDecode7 code d"
  shows "op_exec_stb bus m = store_step bus (Byte True) (c_reg1 code) (disp16 code) (c_reg2 code) 4 m"
    "op_exec_sthw bus m = store_step bus (if even (code 1) then Half True else Word) (c_reg1 code) (disp16_even code) (c_reg2 code) 4 m"
  by (cases "c_reg1 code = 3"; simp add: op_exec_stb_def op_exec_sthw_def Let_def assms fields_regs reg1_eq_3
     disp_7 [OF refl] store_step_def bus_write_def split: prod.split del: push_bit_of_1 One_nat_def push_bit_Suc)+

lemma st_14:
  assumes "decoded_code (m_core m) = OpDecode14 code d"
  shows "op_exec_st_b_14 bus m = store_step bus (Byte True) (c_reg1 code) (disp23 code) (c_reg3 code) 6 m"
    "op_exec_st_h_14 bus m = store_step bus (Half True) (c_reg1 code) (disp23 code) (c_reg3 code) 6 m"
    "op_exec_st_w_14 bus m = store_step bus Word (c_reg1 code) (disp23 code) (c_reg3 code) 6 m"
  by (cases "c_reg1 code = 3"; simp add: op_exec_st_b_14_def op_exec_st_h_14_def op_exec_st_w_14_def Let_def assms fields_regs reg1_eq_3
     disp_14 [OF refl] store_step_def bus_write_def split: prod.split)+

lemma st_4:
  assumes "decoded_code (m_core m) = OpDecode4 code d"
  shows "op_exec_sstb bus m = store_step bus (Byte True) 30 (ucast (take_bit 7 (code 0))) (c_reg2 code) 2 m"
    "op_exec_ssth bus m = store_step bus (Half True) 30 (push_bit 1 (ucast (take_bit 7 (code 0)))) (c_reg2 code) 2 m"
    "op_exec_sstw bus m = store_step bus Word 30 (push_bit 2 (ucast (take_bit 6 (drop_bit 1 (code 0))))) (c_reg2 code) 2 m"
  by (simp_all add: op_exec_sstb_def op_exec_ssth_def op_exec_sstw_def Let_def assms fields_regs
     disp_4 [OF refl] store_step_def bus_write_def split: prod.split del: push_bit_of_1 One_nat_def push_bit_Suc)

text \<open>The entries of \<open>stores\<close> are read as those of \<open>loads\<close>; the register is the source.\<close>

definition stores :: "(nat \<times> (code \<Rightarrow> width) \<times> (code \<Rightarrow> nat) \<times> (code \<Rightarrow> u32) \<times> (code \<Rightarrow> nat)) list" where
  "stores = [
     (OpCodeId_ST_B_7, \<lambda>_. Byte True, c_reg1, disp16, c_reg2),
     (OpCodeId_ST_H_7, \<lambda>c. if even (c 1) then Half True else Word, c_reg1, disp16_even, c_reg2),
     (OpCodeId_ST_W_7, \<lambda>c. if even (c 1) then Half True else Word, c_reg1, disp16_even, c_reg2),
     (OpCodeId_ST_B_14, \<lambda>_. Byte True, c_reg1, disp23, c_reg3),
     (OpCodeId_ST_H_14, \<lambda>_. Half True, c_reg1, disp23, c_reg3),
     (OpCodeId_ST_W_14, \<lambda>_. Word, c_reg1, disp23, c_reg3),
     (OpCodeId_SST_B_4, \<lambda>_. Byte True, \<lambda>_. 30, \<lambda>c. ucast (take_bit 7 (c 0)), c_reg2),
     (OpCodeId_SST_H_4, \<lambda>_. Half True, \<lambda>_. 30, \<lambda>c. push_bit 1 (ucast (take_bit 7 (c 0))), c_reg2),
     (OpCodeId_SST_W_4, \<lambda>_. Word, \<lambda>_. 30, \<lambda>c. push_bit 2 (ucast (take_bit 6 (drop_bit 1 (c 0)))), c_reg2)]"

lemma ucast_push_bit_nibble: "ucast (push_bit 1 (take_bit 4 (w :: u16))) = (push_bit 1 (ucast (take_bit 4 w)) :: u32)"
  by (rule bit_word_eqI) (auto simp: bit_simps_all simp del: push_bit_Suc)

lemma load_table:
  "snd (op_exec_table oc bus fpu ! OpCodeId_LD_B_7) = Some (op_exec_ldb bus)"
  "snd (op_exec_table oc bus fpu ! OpCodeId_LD_BU_7) = Some (op_exec_ldbu bus)"
  "snd (op_exec_table oc bus fpu ! OpCodeId_LD_H_7) = Some (op_exec_ldhw bus)"
  "snd (op_exec_table oc bus fpu ! OpCodeId_LD_HU_7) = Some (op_exec_ldhu bus)"
  "snd (op_exec_table oc bus fpu ! OpCodeId_LD_W_7) = Some (op_exec_ldhw bus)"
  "snd (op_exec_table oc bus fpu ! OpCodeId_LD_B_14) = Some (op_exec_ld_b_14 bus)"
  "snd (op_exec_table oc bus fpu ! OpCodeId_LD_BU_14) = Some (op_exec_ld_bu_14 bus)"
  "snd (op_exec_table oc bus fpu ! OpCodeId_LD_H_14) = Some (op_exec_ld_h_14 bus)"
  "snd (op_exec_table oc bus fpu ! OpCodeId_LD_HU_14) = Some (op_exec_ld_hu_14 bus)"
  "snd (op_exec_table oc bus fpu ! OpCodeId_LD_W_14) = Some (op_exec_ld_w_14 bus)"
  "snd (op_exec_table oc bus fpu ! OpCodeId_SLD_B_4) = Some (op_exec_sldb bus)"
  "snd (op_exec_table oc bus fpu ! OpCodeId_SLD_BU_4) = Some (op_exec_sldbu bus)"
  "snd (op_exec_table oc bus fpu ! OpCodeId_SLD_H_4) = Some (op_exec_sldh bus)"
  "snd (op_exec_table oc bus fpu ! OpCodeId_SLD_HU_4) = Some (op_exec_sldhu bus)"
  "snd (op_exec_table oc bus fpu ! OpCodeId_SLD_W_4) = Some (op_exec_sldw bus)"
  by (simp_all add: op_exec_table_def)

lemma store_table:
  "snd (op_exec_table oc bus fpu ! OpCodeId_ST_B_7) = Some (op_exec_stb bus)"
  "snd (op_exec_table oc bus fpu ! OpCodeId_ST_H_7) = Some (op_exec_sthw bus)"
  "snd (op_exec_table oc bus fpu ! OpCodeId_ST_W_7) = Some (op_exec_sthw bus)"
  "snd (op_exec_table oc bus fpu ! OpCodeId_ST_B_14) = Some (op_exec_st_b_14 bus)"
  "snd (op_exec_table oc bus fpu ! OpCodeId_ST_H_14) = Some (op_exec_st_h_14 bus)"
  "snd (op_exec_table oc bus fpu ! OpCodeId_ST_W_14) = Some (op_exec_st_w_14 bus)"
  "snd (op_exec_table oc bus fpu ! OpCodeId_SST_B_4) = Some (op_exec_sstb bus)"
  "snd (op_exec_table oc bus fpu ! OpCodeId_SST_H_4) = Some (op_exec_ssth bus)"
  "snd (op_exec_table oc bus fpu ! OpCodeId_SST_W_4) = Some (op_exec_sstw bus)"
  by (simp_all add: op_exec_table_def)

lemma access_formats:
  "code_formats ! OpCodeId_LD_B_7 = OP_CODE_FORMAT_7"
  "code_formats ! OpCodeId_LD_BU_7 = OP_CODE_FORMAT_7"
  "code_formats ! OpCodeId_LD_H_7 = OP_CODE_FORMAT_7"
  "code_formats ! OpCodeId_LD_HU_7 = OP_CODE_FORMAT_7"
  "code_formats ! OpCodeId_LD_W_7 = OP_CODE_FORMAT_7"
  "code_formats ! OpCodeId_LD_B_14 = OP_CODE_FORMAT_14"
  "code_formats ! OpCodeId_LD_BU_14 = OP_CODE_FORMAT_14"
  "code_formats ! OpCodeId_LD_H_14 = OP_CODE_FORMAT_14"
  "code_formats ! OpCodeId_LD_HU_14 = OP_CODE_FORMAT_14"
  "code_formats ! OpCodeId_LD_W_14 = OP_CODE_FORMAT_14"
  "code_formats ! OpCodeId_SLD_B_4 = OP_CODE_FORMAT_4"
  "code_formats ! OpCodeId_SLD_BU_4 = OP_CODE_FORMAT_4"
  "code_formats ! OpCodeId_SLD_H_4 = OP_CODE_FORMAT_4"
  "code_formats ! OpCodeId_SLD_HU_4 = OP_CODE_FORMAT_4"
  "code_formats ! OpCodeId_SLD_W_4 = OP_CODE_FORMAT_4"
  "code_formats ! OpCodeId_ST_B_7 = OP_CODE_FORMAT_7"
  "code_formats ! OpCodeId_ST_H_7 = OP_CODE_FORMAT_7"
  "code_formats ! OpCodeId_ST_W_7 = OP_CODE_FORMAT_7"
  "code_formats ! OpCodeId_ST_B_14 = OP_CODE_FORMAT_14"
  "code_formats ! OpCodeId_ST_H_14 = OP_CODE_FORMAT_14"
  "code_formats ! OpCodeId_ST_W_14 = OP_CODE_FORMAT_14"
  "code_formats ! OpCodeId_SST_B_4 = OP_CODE_FORMAT_4"
  "code_formats ! OpCodeId_SST_H_4 = OP_CODE_FORMAT_4"
  "code_formats ! OpCodeId_SST_W_4 = OP_CODE_FORMAT_4"
  by (simp_all add: code_formats_def)

lemma load_entry:
  assumes "(i, w, b, disp, rd) \<in> set loads" and "OpDecoder (code_formats ! i) = Some dec" and "decoded_code (m_core m) = dec code d"
  shows "\<exists>h n. snd (op_exec_table oc bus fpu ! i) = Some h \<and> OpFormatSize (code_formats ! i) = Some n
    \<and> h m = load_step bus (w code) (reg_r (m_reg m) (b code) + disp code) (rd code) n m"
  using assms unfolding loads_def set_simps
  by (elim insertE emptyE; clarify; simp only: load_table access_formats OpDecoder.simps OpFormatSize.simps option.inject; hypsubst?;
     simp add: ld_7 ld_14 ld_4 ucast_push_bit_nibble del: One_nat_def push_bit_Suc push_bit_of_1)

lemma store_entry:
  assumes "(i, w, b, disp, rs) \<in> set stores" and "OpDecoder (code_formats ! i) = Some dec" and "decoded_code (m_core m) = dec code d"
  shows "\<exists>h n. snd (op_exec_table oc bus fpu ! i) = Some h \<and> OpFormatSize (code_formats ! i) = Some n
    \<and> h m = store_step bus (w code) (b code) (disp code) (rs code) n m"
  using assms unfolding stores_def set_simps
  by (elim insertE emptyE; clarify; simp only: store_table access_formats OpDecoder.simps OpFormatSize.simps option.inject; hypsubst?;
     simp add: st_7 st_14 st_4 del: One_nat_def push_bit_Suc push_bit_of_1)

section \<open>Properties\<close>

text \<open>C25: the 15 load instructions, from their encoding: the executor in the table under the
  operation code reads the bus with the width, and extends with the sign, that \<open>loads\<close> lists, at
  the base register plus the displacement encoded in the instruction; it writes the target
  register and advances by the size of the format, or fails with the registers the bus left.\<close>

theorem load_instructions:
  assumes "(i, w, b, disp, rd) \<in> set loads" and "OpDecoder (code_formats ! i) = Some dec"
    and "decoded_code (m_core m) = dec code d"
  shows "\<exists>h n. snd (op_exec_table oc bus fpu ! i) = Some h \<and> OpFormatSize (code_formats ! i) = Some n
    \<and> h m = load_step bus (w code) (reg_r (m_reg m) (b code) + disp code) (rd code) n m"
  by (rule load_entry [OF assms])

text \<open>A word load of \<open>-4[r1]\<close> to \<open>r2\<close>.\<close>

definition ld_code :: code where "ld_code = (\<lambda>i. if i = 0 then 0x1721 else 0xFFFD)"

lemma ld_code_fields: "c_reg1 ld_code = 1" "c_reg2 ld_code = 2" "disp16_even ld_code = -4" "odd (ld_code 1)" "odd (ld_code (Suc 0))"
  by (simp_all add: c_reg1_def c_reg2_def ld_code_def disp16_even_def)

lemma load_instructions_witness:
  "\<forall>oc fpu w. \<exists>h. snd (op_exec_table oc ram_bus fpu ! OpCodeId_LD_W_7) = Some h
    \<and> h (sample_machine (sample_core (OpDecode7 ld_code blank_decoded) (\<lambda>_. 0x104)) w)
       = load_step ram_bus Word 0x100 2 4 (sample_machine (sample_core (OpDecode7 ld_code blank_decoded) (\<lambda>_. 0x104)) w)"
proof (intro allI)
  fix oc and fpu :: fp_host and w :: ram
  let ?m = "sample_machine (sample_core (OpDecode7 ld_code blank_decoded) (\<lambda>_. 0x104)) w"
  have "(OpCodeId_LD_W_7, \<lambda>c. if even (c 1) then Half True else Word, c_reg1, disp16_even, c_reg2) \<in> set loads"
    by (simp add: loads_def)
  from load_instructions [OF this, of OpDecode7 ?m ld_code blank_decoded oc ram_bus fpu]
  show "\<exists>h. snd (op_exec_table oc ram_bus fpu ! OpCodeId_LD_W_7) = Some h \<and> h ?m = load_step ram_bus Word 0x100 2 4 ?m"
    by (auto simp: access_formats ld_code_fields)
qed

text \<open>C26: the 9 store instructions, from their encoding: after the stack check, asked only
  when the base register is \<open>r3\<close>, the executor writes the source register, cut to the width, at
  the base plus the encoded displacement and advances by the size of the format; when the
  check or the bus refuses it fails.\<close>

theorem store_instructions:
  assumes "(i, w, b, disp, rs) \<in> set stores" and "OpDecoder (code_formats ! i) = Some dec"
    and "decoded_code (m_core m) = dec code d"
  shows "\<exists>h n. snd (op_exec_table oc bus fpu ! i) = Some h \<and> OpFormatSize (code_formats ! i) = Some n
    \<and> h m = store_step bus (w code) (b code) (disp code) (rs code) n m"
  by (rule store_entry [OF assms])

lemma store_instructions_witness:
  "\<forall>oc fpu w. \<exists>h. snd (op_exec_table oc ram_bus fpu ! OpCodeId_ST_W_7) = Some h
    \<and> h (sample_machine (sample_core (OpDecode7 ld_code blank_decoded) (\<lambda>_. 0x104)) w)
       = store_step ram_bus Word 1 (-4) 2 4 (sample_machine (sample_core (OpDecode7 ld_code blank_decoded) (\<lambda>_. 0x104)) w)"
proof (intro allI)
  fix oc and fpu :: fp_host and w :: ram
  let ?m = "sample_machine (sample_core (OpDecode7 ld_code blank_decoded) (\<lambda>_. 0x104)) w"
  have "(OpCodeId_ST_W_7, \<lambda>c. if even (c 1) then Half True else Word, c_reg1, disp16_even, c_reg2) \<in> set stores"
    by (simp add: stores_def)
  from store_instructions [OF this, of OpDecode7 ?m ld_code blank_decoded oc ram_bus fpu]
  show "\<exists>h. snd (op_exec_table oc ram_bus fpu ! OpCodeId_ST_W_7) = Some h \<and> h ?m = store_step ram_bus Word 1 (-4) 2 4 ?m"
    by (auto simp: access_formats ld_code_fields)
qed

section \<open>A store and then a load\<close>

text \<open>What a program expects of the memory behind the bus: an accepted write changes no register,
  and a read of the same size at the same address, from any state with that world, returns it.\<close>

definition bus_remembers :: "'w bus \<Rightarrow> bool" where
  "bus_remembers bus \<longleftrightarrow>
     (\<forall>c addr v m m'. bus_put_data8 bus c addr v m = (STD_E_OK, m') \<longrightarrow> m_core m' = m_core m \<and>
        (\<forall>m2. m_world m2 = m_world m' \<longrightarrow> (\<exists>m3. bus_get_data8 bus c addr m2 = (STD_E_OK, v, m3)))) \<and>
     (\<forall>c addr v m m'. bus_put_data16 bus c addr v m = (STD_E_OK, m') \<longrightarrow> m_core m' = m_core m \<and>
        (\<forall>m2. m_world m2 = m_world m' \<longrightarrow> (\<exists>m3. bus_get_data16 bus c addr m2 = (STD_E_OK, v, m3)))) \<and>
     (\<forall>c addr v m m'. bus_put_data32 bus c addr v m = (STD_E_OK, m') \<longrightarrow> m_core m' = m_core m \<and>
        (\<forall>m2. m_world m2 = m_world m' \<longrightarrow> (\<exists>m3. bus_get_data32 bus c addr m2 = (STD_E_OK, v, m3))))"

lemma ram_bus_remembers: "bus_remembers ram_bus"
  by (auto simp: bus_remembers_def ram_bus_def ram_get16_put16 ram_get32_put32)

fun width_bits :: "width \<Rightarrow> nat" where
  "width_bits (Byte _) = 8" | "width_bits (Half _) = 16" | "width_bits Word = 32"

text \<open>A register cut to a width and extended again.\<close>

fun through :: "width \<Rightarrow> u32 \<Rightarrow> u32" where
  "through (Byte s) v = (if s then scast (ucast v :: u8) else take_bit 8 v)"
| "through (Half s) v = (if s then scast (ucast v :: u16) else take_bit 16 v)"
| "through Word v = v"

lemma bus_remembersD:
  assumes "bus_remembers bus"
  shows "bus_put_data8 bus c addr v8 m = (STD_E_OK, m') \<Longrightarrow> m_core m' = m_core m"
    "bus_put_data16 bus c addr v16 m = (STD_E_OK, m') \<Longrightarrow> m_core m' = m_core m"
    "bus_put_data32 bus c addr v32 m = (STD_E_OK, m') \<Longrightarrow> m_core m' = m_core m"
    "bus_put_data8 bus c addr v8 m = (STD_E_OK, m') \<Longrightarrow> m_world m2 = m_world m' \<Longrightarrow>
       \<exists>m3. bus_get_data8 bus c addr m2 = (STD_E_OK, v8, m3)"
    "bus_put_data16 bus c addr v16 m = (STD_E_OK, m') \<Longrightarrow> m_world m2 = m_world m' \<Longrightarrow>
       \<exists>m3. bus_get_data16 bus c addr m2 = (STD_E_OK, v16, m3)"
    "bus_put_data32 bus c addr v32 m = (STD_E_OK, m') \<Longrightarrow> m_world m2 = m_world m' \<Longrightarrow>
       \<exists>m3. bus_get_data32 bus c addr m2 = (STD_E_OK, v32, m3)"
  using assms unfolding bus_remembers_def by blast+

lemma ucast_ucast_u32:
  "ucast (ucast (v :: u32) :: u8) = take_bit 8 v" "ucast (ucast v :: u16) = take_bit 16 v"
  by (rule bit_word_eqI, auto simp: bit_simps_all)+

lemma bus_write_core:
  assumes "bus_remembers bus" and "bus_write bus w addr v m = (STD_E_OK, m1)"
  shows "m_core m1 = m_core m"
  using assms(2) bus_remembersD(1-3) [OF assms(1)] by (cases w) (simp_all add: bus_write_def)

lemma bus_write_read:
  assumes "bus_remembers bus" and "bus_write bus w addr v m = (STD_E_OK, m1)" and "width_bits w = width_bits w'"
    and "m_world m2 = m_world m1" and "core_id (m_core m2) = core_id (m_core m)"
  shows "\<exists>m3. bus_read bus w' addr m2 = (STD_E_OK, through w' v, m3)"
proof -
  note rem = bus_remembersD(4-6) [OF assms(1) _ assms(4)]
  consider (byte) s t where "w = Byte s" "w' = Byte t" | (half) s t where "w = Half s" "w' = Half t" | (word) "w = Word" "w' = Word"
    using assms(3) by (cases w; cases w') auto
  then show ?thesis
  proof cases
    case byte
    with assms(2) rem(1) obtain m3 where "bus_get_data8 bus (core_id (m_core m)) addr m2 = (STD_E_OK, ucast v, m3)"
      by (simp add: bus_write_def) blast
    then show ?thesis by (simp add: byte bus_read_def assms(5) ucast_ucast_u32)
  next
    case half
    with assms(2) rem(2) obtain m3 where "bus_get_data16 bus (core_id (m_core m)) addr m2 = (STD_E_OK, ucast v, m3)"
      by (simp add: bus_write_def) blast
    then show ?thesis by (simp add: half bus_read_def assms(5) ucast_ucast_u32)
  next
    case word
    with assms(2) rem(3) obtain m3 where "bus_get_data32 bus (core_id (m_core m)) addr m2 = (STD_E_OK, v, m3)"
      by (simp add: bus_write_def) blast
    then show ?thesis by (simp add: word bus_read_def assms(5))
  qed
qed

lemma store_step_ok:
  assumes "store_step bus w b disp rs n m = Some (0, m1)"
  obtains m' where "bus_write bus w (reg_r (m_reg m) b + disp) (reg_r (m_reg m) rs) m = (STD_E_OK, m')"
    and "m1 = m_set_reg (add_pc n (m_reg m')) m'"
  using assms by (auto simp: store_step_def Let_def m_ret_def split: prod.splits if_splits)

text \<open>C27: a store followed by a load of the same width at the same address, on a bus
  that remembers what is written: the load succeeds and its target register is the stored
  register, cut to the width and extended as the load extends.\<close>

theorem store_then_load:
  assumes "bus_remembers bus"
    and "(i, w, b, disp, rs) \<in> set stores" and "OpDecoder (code_formats ! i) = Some dec"
    and "decoded_code (m_core m) = dec code d" and "snd (op_exec_table oc bus fpu ! i) = Some st"
    and "st m = Some (0, m1)"
    and "(j, w', b', disp', rd) \<in> set loads" and "OpDecoder (code_formats ! j) = Some dec'"
    and "m2 = m1\<lparr>m_core := (m_core m1)\<lparr>decoded_code := dec' code' d'\<rparr>\<rparr>"
    and "width_bits (w code) = width_bits (w' code')"
    and "reg_r (m_reg m) (b code) + disp code = reg_r (m_reg m) (b' code') + disp' code'"
  shows "\<exists>ld m3. snd (op_exec_table oc bus fpu ! j) = Some ld \<and> ld m2 = Some (0, m3) \<and>
    reg_r (m_reg m3) (rd code') = through (w' code') (reg_r (m_reg m) (rs code))"
proof -
  obtain n where "st m = store_step bus (w code) (b code) (disp code) (rs code) n m"
    using store_entry [OF assms(2,3,4), of oc bus fpu] assms(5) by auto
  then obtain m' where wr: "bus_write bus (w code) (reg_r (m_reg m) (b code) + disp code) (reg_r (m_reg m) (rs code)) m = (STD_E_OK, m')"
    and m1: "m1 = m_set_reg (add_pc n (m_reg m')) m'"
    using assms(6) store_step_ok by metis
  have wld: "m_world m2 = m_world m'" by (simp add: assms(9) m1)
  have dc: "decoded_code (m_core m2) = dec' code' d'" by (simp add: assms(9))
  have core: "m_core m' = m_core m" by (rule bus_write_core [OF assms(1) wr])
  have id: "core_id (m_core m2) = core_id (m_core m)" and r: "reg_r (m_reg m2) = reg_r (m_reg m)"
    by (simp_all add: assms(9) m1 core)
  from bus_write_read [OF assms(1) wr assms(10) wld id] obtain m3
    where rd: "bus_read bus (w' code') (reg_r (m_reg m) (b code) + disp code) m2 = (STD_E_OK, through (w' code') (reg_r (m_reg m) (rs code)), m3)"
    by blast
  obtain ld k where ld: "snd (op_exec_table oc bus fpu ! j) = Some ld"
    "ld m2 = load_step bus (w' code') (reg_r (m_reg m2) (b' code') + disp' code') (rd code') k m2"
    using load_entry [OF assms(7,8) dc, of oc bus fpu] by blast
  with rd show ?thesis
    by (simp add: load_step_def r assms(11) m_ret_def set_r_def)
qed

definition ld_code_3 :: code where "ld_code_3 = (\<lambda>i. if i = 0 then 0x1F21 else 0xFFFD)"

lemma ld_code_3_fields:
  "c_reg1 ld_code_3 = 1" "c_reg2 ld_code_3 = 3" "disp16_even ld_code_3 = -4" "odd (ld_code_3 1)" "odd (ld_code_3 (Suc 0))"
  by (simp_all add: c_reg1_def c_reg2_def ld_code_3_def disp16_even_def)

lemma store_then_load_witness:
  "\<forall>oc fpu w. \<exists>m1 m3. let m = sample_machine (sample_core (OpDecode7 ld_code blank_decoded) (\<lambda>i. if i = 1 then 0x104 else 0xCAFE)) w;
      m2 = m1\<lparr>m_core := (m_core m1)\<lparr>decoded_code := OpDecode7 ld_code_3 blank_decoded\<rparr>\<rparr>
    in (\<exists>st. snd (op_exec_table oc ram_bus fpu ! OpCodeId_ST_W_7) = Some st \<and> st m = Some (0, m1)) \<and>
       (\<exists>ld. snd (op_exec_table oc ram_bus fpu ! OpCodeId_LD_W_7) = Some ld \<and> ld m2 = Some (0, m3)) \<and>
       reg_r (m_reg m3) 3 = 0xCAFE"
proof (intro allI)
  fix oc and fpu :: fp_host and w :: ram
  let ?m = "sample_machine (sample_core (OpDecode7 ld_code blank_decoded) (\<lambda>i. if i = 1 then 0x104 else 0xCAFE)) w"
  let ?w = "\<lambda>c :: code. if even (c 1) then Half True else Word"
  have i: "(OpCodeId_ST_W_7, ?w, c_reg1, disp16_even, c_reg2) \<in> set stores"
    and j: "(OpCodeId_LD_W_7, ?w, c_reg1, disp16_even, c_reg2) \<in> set loads"
    by (simp_all add: stores_def loads_def)
  have st: "snd (op_exec_table oc ram_bus fpu ! OpCodeId_ST_W_7) = Some (op_exec_sthw ram_bus)"
    by (rule store_table)
  obtain m1 where m1: "op_exec_sthw ram_bus ?m = Some (0, m1)"
    by (simp add: st_7 ld_code_fields store_step_def bus_write_def ram_bus_def m_ret_def)
  have fi: "OpDecoder (code_formats ! OpCodeId_ST_W_7) = Some OpDecode7"
    "OpDecoder (code_formats ! OpCodeId_LD_W_7) = Some OpDecode7" by (simp_all add: access_formats)
  from store_then_load [OF ram_bus_remembers i fi(1) _ st m1 j fi(2) refl, of ld_code blank_decoded ld_code_3 blank_decoded]
  obtain ld m3 where "snd (op_exec_table oc ram_bus fpu ! OpCodeId_LD_W_7) = Some ld"
    "ld (m1\<lparr>m_core := (m_core m1)\<lparr>decoded_code := OpDecode7 ld_code_3 blank_decoded\<rparr>\<rparr>) = Some (0, m3)"
    "reg_r (m_reg m3) 3 = 0xCAFE"
    by (auto simp: ld_code_fields ld_code_3_fields)
  with st m1 show "\<exists>m1 m3. let m = ?m; m2 = m1\<lparr>m_core := (m_core m1)\<lparr>decoded_code := OpDecode7 ld_code_3 blank_decoded\<rparr>\<rparr>
    in (\<exists>st. snd (op_exec_table oc ram_bus fpu ! OpCodeId_ST_W_7) = Some st \<and> st m = Some (0, m1)) \<and>
       (\<exists>ld. snd (op_exec_table oc ram_bus fpu ! OpCodeId_LD_W_7) = Some ld \<and> ld m2 = Some (0, m3)) \<and>
       reg_r (m_reg m3) 3 = 0xCAFE"
    unfolding Let_def by (intro exI conjI)
qed

section \<open>Bit instructions\<close>

lemma bit3_simps:
  assumes "unat n < 8"
  shows "bit3_isset b n \<longleftrightarrow> bit b (unat n)" "bit3_set b n = set_bit (unat n) b" "bit3_clr b n = unset_bit (unat n) b"
proof -
  have "bit3_isset b n \<longleftrightarrow> bit (ucast b :: u32) (unat n)"
    using assms by (simp add: bit3_isset_def and_push_bit_eq_iff_bit del: push_bit_of_1)
  then show "bit3_isset b n \<longleftrightarrow> bit b (unat n)" using assms by (simp add: bit_simps_all)
  show "bit3_set b n = set_bit (unat n) b" "bit3_clr b n = unset_bit (unat n) b"
    using assms by (auto intro!: bit_word_eqI simp: bit3_set_def bit3_clr_def bit_simps_all bit_set_bit_iff bit_unset_bit_iff bit_1_iff)
qed

text \<open>Reading a byte, testing a bit into Z and, but for TST1, writing the byte back changed.
  NOT1 sets Z before the write, the others after it.\<close>

definition set_z :: "bool \<Rightarrow> CpuRegisterType \<Rightarrow> CpuRegisterType" where
  "set_z b g = set_psw (put_flag 0 b (psw g)) g"

definition bit_read :: "'w bus \<Rightarrow> u32 \<Rightarrow> (u8 \<Rightarrow> 'w machine \<Rightarrow> 'w bus_result) \<Rightarrow> 'w machine \<Rightarrow> 'w bus_result" where
  "bit_read bus addr k m =
     (case bus_get_data8 bus (core_id (m_core m)) addr m of (err, b, m) \<Rightarrow>
        if err \<noteq> STD_E_OK then Some (-1, m) else k b m)"

definition bit_test :: "nat \<Rightarrow> u8 \<Rightarrow> 'w machine \<Rightarrow> 'w bus_result" where
  "bit_test n b m = m_ret m (add_pc 4 (set_z (\<not> bit b n) (m_reg m)))"

definition bit_write :: "'w bus \<Rightarrow> u32 \<Rightarrow> u8 \<Rightarrow> ('w machine \<Rightarrow> CpuRegisterType) \<Rightarrow> 'w machine \<Rightarrow> 'w bus_result" where
  "bit_write bus addr b' g m =
     (case bus_put_data8 bus (core_id (m_core m)) addr b' m of (err, m) \<Rightarrow>
        if err \<noteq> STD_E_OK then Some (-1, m) else m_ret m (add_pc 4 (g m)))"

definition bit_modify :: "'w bus \<Rightarrow> u32 \<Rightarrow> nat \<Rightarrow> (nat \<Rightarrow> u8 \<Rightarrow> u8) \<Rightarrow> u8 \<Rightarrow> 'w machine \<Rightarrow> 'w bus_result" where
  "bit_modify bus addr n f b = bit_write bus addr (f n b) (\<lambda>m. set_z (\<not> bit b n) (m_reg m))"

definition bit_flip :: "'w bus \<Rightarrow> u32 \<Rightarrow> nat \<Rightarrow> u8 \<Rightarrow> 'w machine \<Rightarrow> 'w bus_result" where
  "bit_flip bus addr n b m =
     bit_write bus addr (flip_bit n b) m_reg (m_set_reg (set_z (\<not> bit b n) (m_reg m)) m)"

lemmas bit_step_defs = bit_read_def bit_test_def bit_write_def bit_modify_def bit_flip_def

lemma set_z_unless_eq: "set_z_unless b g = set_z (\<not> b) g"
  by (simp add: set_z_unless_def set_z_def flag_simps)

lemma flip_bit_eq: "flip_bit n b = (if bit b n then unset_bit n b else set_bit n b)"
  by (simp add: flip_bit_eq_if)

lemma bits_8:
  assumes "f8_reg1 (m_core m) < 32" and "unat (f8_bit3 (m_core m)) < 8"
  shows "let addr = reg_r (m_reg m) (unat (f8_reg1 (m_core m))) + f8_disp16 (m_core m); n = unat (f8_bit3 (m_core m))
    in op_exec_tst1_8 bus m = bit_read bus addr (bit_test n) m
     \<and> op_exec_set1_8 bus m = bit_read bus addr (bit_modify bus addr n set_bit) m
     \<and> op_exec_clr1_8 bus m = bit_read bus addr (bit_modify bus addr n unset_bit) m
     \<and> op_exec_not1_8 bus m = bit_read bus addr (bit_flip bus addr n) m"
  using assms unfolding Let_def
  by (intro conjI; simp add: op_exec_tst1_8_def op_exec_set1_8_def op_exec_clr1_8_def op_exec_not1_8_def Let_def
     bit3_simps set_z_unless_eq bit_step_defs flip_bit_eq split: prod.split)

lemma unat_and_7: "unat ((w :: u32) AND 7) < 8"
  using word_and_le1 [of w 7] by (simp add: word_less_nat_alt word_le_nat_alt)

lemma unat_field_8:
  assumes "decoded_code cpu = OpDecode8 code d"
  shows "f8_reg1 cpu < 32" "unat (f8_reg1 cpu) = unat (take_bit 5 (code 0))" "unat (f8_bit3 cpu) = unat (take_bit 3 (drop_bit 11 (code 0)))"
    "unat (f8_bit3 cpu) < 8" "f8_disp16 cpu = scast (code 1)"
  using take_bit_nat_less_exp [of 5] take_bit_nat_less_exp [of 3]
  by (simp_all add: assms OpDecode8_def Let_def mask_simps word_less_nat_alt unsigned_ucast_eq unsigned_take_bit_eq take_bit_take_bit)

lemma bits_9:
  assumes "f9_gen1 (m_core m) < 32" and "f9_reg2 (m_core m) < 32"
  shows "let addr = reg_r (m_reg m) (unat (f9_gen1 (m_core m)));
      n = (\<lambda>m'. unat (take_bit 3 (reg_r (m_reg m') (unat (f9_reg2 (m_core m))))))
    in op_exec_tst1_9 bus m = bit_read bus addr (\<lambda>b m'. bit_test (n m') b m') m
     \<and> op_exec_set1_9 bus m = bit_read bus addr (\<lambda>b m'. bit_modify bus addr (n m') set_bit b m') m
     \<and> op_exec_clr1_9 bus m = bit_read bus addr (\<lambda>b m'. bit_modify bus addr (n m') unset_bit b m') m
     \<and> op_exec_not1_9 bus m = bit_read bus addr (\<lambda>b m'. bit_flip bus addr (n m') b m') m"
proof -
  have [simp]: "w AND 7 = take_bit 3 w" for w :: u32 by (simp add: mask_simps)
  have [simp]: "unat (take_bit 3 (w :: u32)) < 8" for w using unat_and_7 [of w] by simp
  show ?thesis
    using assms unfolding Let_def
    by (intro conjI; simp add: op_exec_tst1_9_def op_exec_set1_9_def op_exec_clr1_9_def op_exec_not1_9_def Let_def
       bit3_simps set_z_unless_eq bit_step_defs flip_bit_eq split: prod.split)
qed

lemma unat_field_9:
  assumes "decoded_code cpu = OpDecode9 code d"
  shows "f9_gen1 cpu < 32" "unat (f9_gen1 cpu) = unat (take_bit 5 (code 0))" "unat (f9_reg2 cpu) = unat (take_bit 5 (drop_bit 11 (code 0)))"
    "f9_reg2 cpu < 32"
  using take_bit_nat_less_exp [of 5] take_bit_nat_less_exp [of 3]
  by (simp_all add: assms OpDecode9_def Let_def mask_simps word_less_nat_alt unsigned_ucast_eq unsigned_take_bit_eq take_bit_take_bit)

text \<open>the bit instructions of formats VIII and IX read the byte at the base register plus
  the sign-extended displacement, or at the register itself; Z becomes the negation of the
  addressed bit as it was; SET1, CLR1 and NOT1 write the byte back with that bit alone set, cleared
  or flipped; and when the bus refuses the read nothing is written.\<close>

theorem bit_instructions:
  assumes "decoded_code (m_core m) = OpDecode8 code d" and "decoded_code (m_core m') = OpDecode9 code d"
  shows "(let addr = reg_r (m_reg m) (unat (take_bit 5 (code 0))) + scast (code 1); n = unat (take_bit 3 (drop_bit 11 (code 0)))
    in op_exec_tst1_8 bus m = bit_read bus addr (bit_test n) m
     \<and> op_exec_set1_8 bus m = bit_read bus addr (bit_modify bus addr n set_bit) m
     \<and> op_exec_clr1_8 bus m = bit_read bus addr (bit_modify bus addr n unset_bit) m
     \<and> op_exec_not1_8 bus m = bit_read bus addr (bit_flip bus addr n) m)
    \<and> (let addr = reg_r (m_reg m') (unat (take_bit 5 (code 0)));
        n = (\<lambda>m. unat (take_bit 3 (reg_r (m_reg m) (unat (take_bit 5 (drop_bit 11 (code 0)))))))
    in op_exec_tst1_9 bus m' = bit_read bus addr (\<lambda>b m. bit_test (n m) b m) m'
     \<and> op_exec_set1_9 bus m' = bit_read bus addr (\<lambda>b m. bit_modify bus addr (n m) set_bit b m) m'
     \<and> op_exec_clr1_9 bus m' = bit_read bus addr (\<lambda>b m. bit_modify bus addr (n m) unset_bit b m) m'
     \<and> op_exec_not1_9 bus m' = bit_read bus addr (\<lambda>b m. bit_flip bus addr (n m) b m) m')"
  using bits_8 [of m bus] unat_field_8 [OF assms(1)] bits_9 [of m' bus] unat_field_9 [OF assms(2)]
  by (simp only: Let_def simp_thms)

lemma bit_instructions_witness:
  "\<forall>w. let m = sample_machine (sample_core (OpDecode8 (\<lambda>i. if i = 0 then 0x5801 else 0xFFFF) blank_decoded) (\<lambda>_. 0x101)) (\<lambda>_. 0xF0)
    in op_exec_clr1_8 ram_bus m = m_ret (m\<lparr>m_world := (\<lambda>_. 0xF0)(0x100 := 0xF0)\<rparr>) (add_pc 4 (set_z True (m_reg m)))"
proof -
  let ?code = "\<lambda>i. if i = 0 then 0x5801 else 0xFFFF :: u16"
  let ?m = "sample_machine (sample_core (OpDecode8 ?code blank_decoded) (\<lambda>_. 0x101)) (\<lambda>_. 0xF0)"
  let ?m' = "sample_machine (sample_core (OpDecode9 ?code blank_decoded) (\<lambda>_. 0)) (\<lambda>_. 0)"
  have "op_exec_clr1_8 ram_bus ?m = m_ret (?m\<lparr>m_world := (\<lambda>_. 0xF0)(0x100 := 0xF0)\<rparr>) (add_pc 4 (set_z True (m_reg ?m)))"
    using bit_instructions [of ?m ?code blank_decoded ?m' ram_bus]
    by (simp add: Let_def bit_step_defs ram_bus_def unset_bit_eq_and_not)
  then show ?thesis by (simp add: Let_def)
qed

section \<open>Branch targets\<close>

lemma disp_3:
  "op_sign_extend 8 (push_bit 1 (t3_disp (type3 (OpDecode3 code d)))) =
   signed_take_bit 8 (push_bit 4 (ucast (drop_bit 11 (code 0))) OR push_bit 1 (ucast (take_bit 3 (drop_bit 4 (code 0)))))"
  by (rule bit_word_eqI; case_tac "n < 8"; case_tac "n = 8")
    (auto simp: op_sign_extend_eq OpDecode3_def Let_def mask_simps bit_simps_all bit_signed_take_bit_iff bit_mask_iff bit_u16_ge
      simp del: push_bit_Suc)

lemma disp_5:
  "op_sign_extend 21 (t5_disp (type5 (OpDecode5 code d))) = signed_take_bit 21 (push_bit 16 (ucast (code 0)) OR ucast (code 1))"
  by (rule bit_word_eqI; case_tac "n < 21"; case_tac "n = 21")
    (auto simp: op_sign_extend_eq OpDecode5_def Let_def mask_simps bit_simps_all bit_signed_take_bit_iff bit_mask_iff bit_u16_ge)

lemma field_3_5:
  "t3_cond (type3 (OpDecode3 code d)) = take_bit 4 (code 0)"
  "ucast (t5_reg2 (type5 (OpDecode5 code d))) < (32 :: u32)"
  "unat (ucast (t5_reg2 (type5 (OpDecode5 code d))) :: u32) = unat (take_bit 5 (drop_bit 11 (code 0)))"
  using take_bit_nat_less_exp [of 5]
  by (simp_all add: OpDecode3_def OpDecode5_def Let_def mask_simps word_less_nat_alt unsigned_ucast_eq unsigned_take_bit_eq take_bit_take_bit)

text \<open>C28: branch targets, from the encoding: a conditional branch goes, when its condition
  holds, to the program counter plus the signed 9-bit displacement and otherwise to the next
  instruction; JR and JARL go to the program counter plus the signed 22-bit displacement, JARL
  saving the address behind itself in its register, which is JR when that register is \<open>r0\<close>.\<close>

theorem branch_targets:
  assumes "decoded_code cpu = OpDecode3 code d" and "decoded_code call = OpDecode5 code d"
  shows "op_exec_bcond_3 cpu = ret cpu (add_pc
      (if op_exec_cond (reg cpu) (take_bit 4 (code 0))
       then signed_take_bit 8 (push_bit 4 (ucast (drop_bit 11 (code 0))) OR push_bit 1 (ucast (take_bit 3 (drop_bit 4 (code 0)))))
       else 2) (reg cpu))
   \<and> (let link = unat (take_bit 5 (drop_bit 11 (code 0)));
          g = (if link = 0 then reg call else set_r link (reg_pc (reg call) + 4) (reg call))
      in op_exec_jr call = ret call (add_pc (signed_take_bit 21 (push_bit 16 (ucast (code 0)) OR ucast (code 1))) g))"
proof -
  have z: "0 < (ucast (t5_reg2 (type5 (OpDecode5 code d))) :: u32) \<longleftrightarrow> unat (take_bit 5 (drop_bit 11 (code 0))) \<noteq> 0"
    by (simp add: word_less_nat_alt field_3_5)
  show ?thesis
    by (simp add: op_exec_bcond_3_def op_exec_bcond_def op_exec_jr_def Let_def assms disp_3 disp_5 field_3_5 z
        set_r_def add_pc_def del: push_bit_Suc One_nat_def)
qed

lemma branch_targets_witness:
  "let cpu = sample_core (OpDecode3 (\<lambda>_. 0xFDF5) blank_decoded) (\<lambda>_. 0); call = sample_core (OpDecode5 (\<lambda>i. if i = 0 then 0xFFBF else 0xFFFE) blank_decoded) (\<lambda>_. 0)
   in op_exec_bcond_3 cpu = ret cpu (add_pc (-2) (reg cpu)) \<and> op_exec_jr call = ret call (add_pc (-2) (set_r 31 4 (reg call)))"
proof -
  let ?b = "sample_core (OpDecode3 (\<lambda>_. 0xFDF5) blank_decoded) (\<lambda>_. 0)"
  let ?c = "\<lambda>i. if i = 0 then 0xFFBF else 0xFFFE :: u16"
  let ?j = "sample_core (OpDecode5 ?c blank_decoded) (\<lambda>_. 0)"
  have c: "op_exec_cond g 5" for g by (simp add: op_exec_cond_def)
  have "op_exec_bcond_3 ?b = ret ?b (add_pc (-2) (reg ?b))"
    using branch_targets [of ?b "\<lambda>_. 0xFDF5" blank_decoded "sample_core (OpDecode5 (\<lambda>_. 0xFDF5) blank_decoded) (\<lambda>_. 0)"]
    by (simp add: c)
  moreover have "op_exec_jr ?j = ret ?j (add_pc (-2) (set_r 31 4 (reg ?j)))"
    using branch_targets [of "sample_core (OpDecode3 ?c blank_decoded) (\<lambda>_. 0)" ?c blank_decoded ?j]
    by (simp add: Let_def)
  ultimately show ?thesis by (simp add: Let_def)
qed

end
