(* ===== verification/V850_Mpu_Correct.thy ===== *)
theory V850_Mpu_Correct
  imports V850_Logic_Correct
begin

unbundle bit_operations_syntax

text \<open>
  Memory protection and exceptions (\<open>V850_Mpu\<close>, and the traps and returns of \<open>V850_Exec_Spec\<close>):
  which accesses the region descriptors let through, what the specialised check of the clock
  reports, what the 28-bit region registers cannot reach, and that a return undoes an entry.
\<close>

section \<open>The verdict\<close>

definition imp_ok :: "object_container \<Rightarrow> CpuMemoryAccessType \<Rightarrow> u32 \<Rightarrow> u32 \<Rightarrow> TargetCoreType \<Rightarrow> bool" where
  "imp_ok oc a addr n cpu \<longleftrightarrow> a = CpuMemoryAccess_WRITE \<or> IS_TRUSTED CPU_PSW_IMP (cpu_get_psw (reg_sys (reg cpu)))
     \<or> cpu_has_permission_imp oc a addr n cpu"

definition dmp_ok :: "object_container \<Rightarrow> CpuMemoryAccessType \<Rightarrow> u32 \<Rightarrow> u32 \<Rightarrow> TargetCoreType \<Rightarrow> bool" where
  "dmp_ok oc a addr n cpu \<longleftrightarrow> a = CpuMemoryAccess_EXEC \<or> IS_TRUSTED CPU_PSW_DMP (cpu_get_psw (reg_sys (reg cpu)))
     \<or> cpu_has_permission_dmp oc a addr n cpu"

lemma report_violation_twice [simp]:
  "report_violation e x a (report_violation e' x' a' cpu) = report_violation e x a cpu"
  by (simp add: report_violation_def)

lemma report_violation_frame [simp]:
  "reg (report_violation e a t cpu) = reg cpu" "decoded_code (report_violation e a t cpu) = decoded_code cpu"
  by (simp_all add: report_violation_def)

lemma cpu_has_permission_memory:
  assumes "t \<noteq> DEVICE"
  shows "cpu_has_permission oc pc t a addr n cpu =
    (let ok = (if a = CpuMemoryAccess_READ then dmp_ok oc a addr n cpu \<or> imp_ok oc a addr n cpu
               else dmp_ok oc a addr n cpu \<and> imp_ok oc a addr n cpu)
     in (ok, if ok then cpu else if dmp_ok oc a addr n cpu then report_violation CpuExceptionError_MIP pc a cpu
             else report_violation CpuExceptionError_MDP addr a cpu))"
proof -
  have i: "(if a = CpuMemoryAccess_WRITE \<or> IS_TRUSTED CPU_PSW_IMP (cpu_get_psw (reg_sys (reg cpu))) then True
      else cpu_has_permission_imp oc a addr n cpu) = imp_ok oc a addr n cpu"
    by (auto simp: imp_ok_def)
  have d: "(if a = CpuMemoryAccess_EXEC \<or> IS_TRUSTED CPU_PSW_DMP (cpu_get_psw (reg_sys (reg cpu))) then True
      else cpu_has_permission_dmp oc a addr n cpu) = dmp_ok oc a addr n cpu"
    by (auto simp: dmp_ok_def)
  have e: "cpu_has_permission oc pc t a addr n cpu =
    (let imp_permission = imp_ok oc a addr n cpu; dmp_permission = dmp_ok oc a addr n cpu;
         permission = (if a = CpuMemoryAccess_READ then dmp_permission \<or> imp_permission else dmp_permission \<and> imp_permission);
         cpu = (if \<not> permission \<and> \<not> imp_permission then report_violation CpuExceptionError_MIP pc a cpu else cpu);
         cpu = (if \<not> permission \<and> \<not> dmp_permission then report_violation CpuExceptionError_MDP addr a cpu else cpu)
     in (permission, cpu))"
  proof (cases t)
    case DEVICE
    with assms show ?thesis by simp
  qed (simp_all only: cpu_has_permission_def i [symmetric] d [symmetric] MpuAddressRegionEnumType.case Let_def)
  show ?thesis
    unfolding e Let_def by (cases a; simp; blast)
qed

text \<open>The first and last address of a region, as the region descriptor holds it.\<close>

definition region_bounds :: "TargetCoreMpuConfigType \<Rightarrow> u32 \<times> u32" where
  "region_bounds c = (if mc_is_mask_method c then (mc_al c AND NOT (mc_au c), mc_al c OR mc_au c) else (mc_al c, mc_au c))"

text \<open>A region meets an access when some byte of the access lies in it.\<close>

definition meets :: "TargetCoreMpuConfigType \<Rightarrow> u32 \<Rightarrow> u32 \<Rightarrow> bool" where
  "meets c addr n \<longleftrightarrow> mc_enable_protection c \<and>
     (\<exists>k. addr \<le> k \<and> k \<le> addr + (n - 1) \<and> fst (region_bounds c) \<le> k \<and> k \<le> snd (region_bounds c))"

definition well_bounded :: "TargetCoreMpuConfigType \<Rightarrow> bool" where
  "well_bounded c \<longleftrightarrow> fst (region_bounds c) \<le> snd (region_bounds c)"

lemma is_overlap_meets:
  assumes "well_bounded c" and "addr \<le> addr + (n - 1)"
  shows "mc_enable_protection c \<and> is_overlap c \<lparr>chk_access_type = a, chk_start = addr, chk_end = addr + (n - 1)\<rparr> \<longleftrightarrow> meets c addr n"
proof -
  have "is_overlap c \<lparr>chk_access_type = a, chk_start = addr, chk_end = addr + (n - 1)\<rparr> \<longleftrightarrow>
      addr \<le> snd (region_bounds c) \<and> fst (region_bounds c) \<le> addr + (n - 1)"
    by (auto simp: is_overlap_def region_bounds_def IS_NOT_OVERLAP_RANGE_def Let_def not_less)
  moreover have "addr \<le> hi \<and> lo \<le> e \<longleftrightarrow> (\<exists>k. addr \<le> k \<and> k \<le> e \<and> lo \<le> k \<and> k \<le> hi)"
    if "lo \<le> hi" "addr \<le> e" for lo hi e :: u32
    using that by (auto intro!: exI [of _ "max addr lo"])
  ultimately show ?thesis using assms by (auto simp: meets_def well_bounded_def)
qed

definition regions_ok :: "TargetCoreType \<Rightarrow> bool" where
  "regions_ok cpu \<longleftrightarrow> (\<forall>c \<in> set (data_configs (mpu cpu)). well_bounded (dc_common c))
     \<and> (\<forall>c \<in> set (exec_configs (mpu cpu)). well_bounded (xc_common c))"

definition container_ok :: "object_container \<Rightarrow> bool" where
  "container_ok oc \<longleftrightarrow> find_first2_ok (find_data oc) \<and> find_first2_ok (find_exec oc)"

lemma find_first2_neq_None:
  assumes "find_first2_ok f"
  shows "f xs P arg \<noteq> None \<longleftrightarrow> (\<exists>x \<in> set xs. P x arg)"
proof -
  have "case f xs P arg of None \<Rightarrow> \<forall>x \<in> set xs. \<not> P x arg | Some x \<Rightarrow> x \<in> set xs \<and> P x arg"
    using assms unfolding find_first2_ok_def by blast
  then show ?thesis by (cases "f xs P arg") auto
qed

lemma list_container_ok: "container_ok list_container"
  by (auto simp: container_ok_def find_first2_ok_def list_container_def find_None_iff find_Some_iff split: option.splits)

text \<open>The regions that let an access through.\<close>

definition data_grants :: "CpuMemoryAccessType \<Rightarrow> u32 \<Rightarrow> u32 \<Rightarrow> TargetCoreType \<Rightarrow> bool" where
  "data_grants a addr n cpu \<longleftrightarrow> (\<exists>c \<in> set (data_configs (mpu cpu)). meets (dc_common c) addr n
     \<and> (a = CpuMemoryAccess_READ \<and> dc_enable_read c \<or> a = CpuMemoryAccess_WRITE \<and> dc_enable_write c))"

definition exec_grants :: "CpuMemoryAccessType \<Rightarrow> u32 \<Rightarrow> u32 \<Rightarrow> TargetCoreType \<Rightarrow> bool" where
  "exec_grants a addr n cpu \<longleftrightarrow> (\<exists>c \<in> set (exec_configs (mpu cpu)). meets (xc_common c) addr n
     \<and> (a = CpuMemoryAccess_EXEC \<and> xc_enable_exec c \<or> a = CpuMemoryAccess_READ \<and> xc_enable_read c))"

lemma cpu_has_permission_dmp_grants:
  assumes "container_ok oc" and "regions_ok cpu" and "addr \<le> addr + (n - 1)"
  shows "cpu_has_permission_dmp oc a addr n cpu \<longleftrightarrow> data_grants a addr n cpu"
    "cpu_has_permission_imp oc a addr n cpu \<longleftrightarrow> exec_grants a addr n cpu"
proof -
  let ?arg = "\<lparr>chk_access_type = a, chk_start = addr, chk_end = addr + (n - 1)\<rparr>"
  note m = is_overlap_meets [OF _ assms(3), symmetric]
  have d: "dmp_object_filter c ?arg \<longleftrightarrow> meets (dc_common c) addr n
     \<and> (a = CpuMemoryAccess_READ \<and> dc_enable_read c \<or> a = CpuMemoryAccess_WRITE \<and> dc_enable_write c)"
    if "c \<in> set (data_configs (mpu cpu))" for c
    using that assms(2) by (auto simp: regions_ok_def m [of _ a] dmp_object_filter_def)
  have x: "dip_object_filter c ?arg \<longleftrightarrow> meets (xc_common c) addr n
     \<and> (a = CpuMemoryAccess_EXEC \<and> xc_enable_exec c \<or> a = CpuMemoryAccess_READ \<and> xc_enable_read c)"
    if "c \<in> set (exec_configs (mpu cpu))" for c
    using that assms(2) by (auto simp: regions_ok_def m [of _ a] dip_object_filter_def)
  show "cpu_has_permission_dmp oc a addr n cpu \<longleftrightarrow> data_grants a addr n cpu"
    "cpu_has_permission_imp oc a addr n cpu \<longleftrightarrow> exec_grants a addr n cpu"
    using assms(1) d x
    by (simp_all only: cpu_has_permission_dmp_def cpu_has_permission_imp_def Let_def container_ok_def
        find_first2_neq_None data_grants_def exec_grants_def cong: bex_cong)
qed

lemma permission_by_grants:
  assumes "container_ok oc" and "regions_ok cpu" and "addr \<le> addr + (n - 1)" and "t \<noteq> DEVICE"
  shows "let instr = \<not> bit (psw (reg cpu)) 16 \<or> exec_grants a addr n cpu; data = \<not> bit (psw (reg cpu)) 17 \<or> data_grants a addr n cpu;
      ok = (case a of CpuMemoryAccess_WRITE \<Rightarrow> data | CpuMemoryAccess_EXEC \<Rightarrow> instr
            | CpuMemoryAccess_READ \<Rightarrow> data \<or> instr | CpuMemoryAccess_NONE \<Rightarrow> data \<and> instr)
    in fst (cpu_has_permission oc pc t a addr n cpu) = ok
     \<and> (snd (cpu_has_permission oc pc t a addr n cpu) = (if ok then cpu
          else if a = CpuMemoryAccess_EXEC \<or> a = CpuMemoryAccess_NONE \<and> data
          then report_violation CpuExceptionError_MIP pc a cpu else report_violation CpuExceptionError_MDP addr a cpu))"
  by (cases a) (auto simp: cpu_has_permission_memory [OF assms(4)] imp_ok_def dmp_ok_def Let_def
      cpu_has_permission_dmp_grants [OF assms(1-3)] flag_simps psw_def sys_get_cpu_base_def cpu_get_psw_def)

text \<open>C30: the verdict on an access to memory that is not a device, when the region search
  finds an element if there is one and no region is inverted: a write needs the data side, an
  instruction fetch the instruction side, a read either of the two; a side consents when the PSW
  trusts it or when one of its regions, enabled and with the right to that access, holds
  some byte of the access (not necessarily all). A consent leaves the core as it is, a refusal
  records the violation and nothing else.\<close>

theorem permission_verdict:
  assumes "container_ok oc" and "regions_ok cpu" and "addr \<le> addr + (n - 1)" and "t \<noteq> DEVICE"
  shows "let instr = \<not> bit (psw (reg cpu)) 16 \<or> exec_grants a addr n cpu; data = \<not> bit (psw (reg cpu)) 17 \<or> data_grants a addr n cpu;
      ok = (case a of CpuMemoryAccess_WRITE \<Rightarrow> data | CpuMemoryAccess_EXEC \<Rightarrow> instr
            | CpuMemoryAccess_READ \<Rightarrow> data \<or> instr | CpuMemoryAccess_NONE \<Rightarrow> data \<and> instr)
    in fst (cpu_has_permission oc pc t a addr n cpu) = ok
     \<and> (snd (cpu_has_permission oc pc t a addr n cpu) = (if ok then cpu
          else if a = CpuMemoryAccess_EXEC \<or> a = CpuMemoryAccess_NONE \<and> data
          then report_violation CpuExceptionError_MIP pc a cpu else report_violation CpuExceptionError_MDP addr a cpu))"
  by (rule permission_by_grants [OF assms])

text \<open>One data region, 0x1000 to 0x100F, writable: the write of the word at 0xFFD, of which only
  the last byte lies in it, is granted; the byte at 0xFFC is refused.\<close>

definition guarded_core :: TargetCoreType where
  "guarded_core = (sample_core blank_decoded (\<lambda>_. 0))\<lparr>
     reg := set_psw 0x30000 (blank_regs (\<lambda>_. 0)),
     mpu := blank_mpu\<lparr>data_configs := [\<lparr>dc_common = \<lparr>mc_enable_protection = True, mc_is_mask_method = False,
        mc_au = 0x100F, mc_al = 0x1000\<rparr>, dc_enable_read = False, dc_enable_write = True\<rparr>]\<rparr>\<rparr>"

lemma guarded_core_frame:
  "regions_ok guarded_core" "psw (reg guarded_core) = 0x30000"
  by (simp_all add: regions_ok_def guarded_core_def blank_mpu_def well_bounded_def region_bounds_def)

lemma permission_verdict_witness:
  "fst (cpu_has_permission list_container 0 GLOBAL_MEMORY CpuMemoryAccess_WRITE 0xFFD 4 guarded_core)
   \<and> \<not> fst (cpu_has_permission list_container 0 GLOBAL_MEMORY CpuMemoryAccess_WRITE 0xFFC 1 guarded_core)"
proof -
  have g: "data_grants CpuMemoryAccess_WRITE 0xFFD 4 guarded_core" "\<not> data_grants CpuMemoryAccess_WRITE 0xFFC 1 guarded_core"
    by (auto simp: data_grants_def guarded_core_def blank_mpu_def meets_def region_bounds_def intro!: exI [of _ "0x1000"])
  have b: "bit (0x30000 :: u32) 17" by simp
  show ?thesis
    using permission_verdict [OF list_container_ok guarded_core_frame(1), where addr = "0xFFD" and n = 4 and t = GLOBAL_MEMORY and a = CpuMemoryAccess_WRITE]
      permission_verdict [OF list_container_ok guarded_core_frame(1), where addr = "0xFFC" and n = 1 and t = GLOBAL_MEMORY and a = CpuMemoryAccess_WRITE]
    by (simp add: Let_def guarded_core_frame(2) g b)
qed

section \<open>The check of the clock\<close>

text \<open>C31: the specialised check the clock makes before each instruction decides as the
  general check of an instruction fetch from read-only memory does, and like it leaves the core
  alone when it consents; but where the general check reports an instruction protection
  violation at the program counter, it reports a data protection violation at the address.\<close>

theorem clock_check:
  "let general = cpu_has_permission oc pc READONLY_MEMORY CpuMemoryAccess_EXEC addr n cpu;
       clock = cpu_has_permission_for_clock_supply oc pc CpuMemoryAccess_EXEC addr n cpu
   in fst clock = fst general
    \<and> snd general = (if fst clock then cpu else report_violation CpuExceptionError_MIP pc CpuMemoryAccess_EXEC cpu)
    \<and> snd clock = (if fst clock then cpu else report_violation CpuExceptionError_MDP addr CpuMemoryAccess_EXEC cpu)"
  by (simp add: cpu_has_permission_memory cpu_has_permission_for_clock_supply_def Let_def imp_ok_def dmp_ok_def)

section \<open>The regions the setting registers describe\<close>

lemma set_fold_append: "set (fold (\<lambda>i xs. xs @ [f i]) is ys) = set ys \<union> f ` set is"
  by (induction "is" arbitrary: ys) auto

lemma construct_configs:
  "set (exec_configs (mpu (private_cpu_mpu_construct_containers cpu))) =
     exec_config_of (cpu_get_mpu_settign_sysreg (reg_sys (reg cpu))) ` {0..<5}"
  "set (data_configs (mpu (private_cpu_mpu_construct_containers cpu))) =
     data_config_of (cpu_get_mpu_settign_sysreg (reg_sys (reg cpu))) ` {0..<6}"
  unfolding private_cpu_mpu_construct_containers_def Let_def TARGET_CORE_MPU_CONFIG_EXEC_MAXNUM_def
    TARGET_CORE_MPU_CONFIG_DATA_MAXNUM_def
  by (simp_all add: set_fold_append del: upt_rec_numeral)

lemma take_bit_absorb:
  "take_bit n c = c \<Longrightarrow> take_bit n (a AND c) = (a AND c :: 'a::len word)"
  "take_bit n c = c \<Longrightarrow> take_bit n (c AND a) = (c AND a :: 'a::len word)"
  "take_bit n b = b \<Longrightarrow> take_bit n c = c \<Longrightarrow> take_bit n (b OR c) = (b OR c :: 'a::len word)"
  by (metis and.assoc take_bit_eq_mask, metis and.assoc and.commute take_bit_eq_mask, simp add: take_bit_or)

lemma take_bit_28_less: "take_bit 28 w = w \<Longrightarrow> w < (0x10000000 :: u32)"
proof -
  assume "take_bit 28 w = w"
  then have "unat w = take_bit 28 (unat w)" using unsigned_take_bit_eq [of 28 w] by (metis (no_types))
  then have "unat w < 2 ^ 28" using take_bit_nat_less_exp [of 28 "unat w"] by simp
  then show ?thesis by (simp add: word_less_nat_alt)
qed

lemma config_bounds_28:
  "snd (region_bounds (private_cpu_mpu_set_common_obj au al)) < 0x10000000"
proof (rule take_bit_28_less)
  let ?c = "private_cpu_mpu_set_common_obj au al"
  have "take_bit 28 (mc_au ?c) = mc_au ?c" "take_bit 28 (mc_al ?c) = mc_al ?c"
    unfolding private_cpu_mpu_set_common_obj_def TargetCoreMpuConfigType.simps
    by (intro take_bit_absorb; simp)+
  then show "take_bit 28 (snd (region_bounds ?c)) = snd (region_bounds ?c)"
    by (simp add: region_bounds_def take_bit_absorb)
qed

lemma config_of_bounds_28:
  "snd (region_bounds (xc_common (exec_config_of r i))) < 0x10000000"
  "snd (region_bounds (dc_common (data_config_of r i))) < 0x10000000"
  by (simp_all add: exec_config_of_def data_config_of_def Let_def config_bounds_28)

text \<open>the region registers are cut to 28 address bits when the regions are built, so once
  they are, no region reaches above 0x0FFFFFFF: every access from 0x10000000 on that needs the
  consent of a region is refused, whatever was written to the region registers.\<close>

theorem regions_below_28_bits:
  assumes "container_ok oc" and "cpu' = private_cpu_mpu_construct_containers cpu" and "regions_ok cpu'"
    and "0x10000000 \<le> addr" and "addr \<le> addr + (n - 1)" and "t \<noteq> DEVICE"
  shows "(bit (psw (reg cpu')) 17 \<longrightarrow> \<not> fst (cpu_has_permission oc pc t CpuMemoryAccess_WRITE addr n cpu'))
    \<and> (bit (psw (reg cpu')) 16 \<longrightarrow> \<not> fst (cpu_has_permission oc pc t CpuMemoryAccess_EXEC addr n cpu'))
    \<and> (bit (psw (reg cpu')) 16 \<longrightarrow> bit (psw (reg cpu')) 17 \<longrightarrow>
         \<not> fst (cpu_has_permission oc pc t CpuMemoryAccess_READ addr n cpu'))"
proof -
  have "\<not> meets c addr n" if "snd (region_bounds c) < 0x10000000" for c
    using that assms(4) by (auto simp: meets_def)
  then have "\<not> data_grants a addr n cpu'" "\<not> exec_grants a addr n cpu'" for a
    unfolding assms(2) data_grants_def exec_grants_def construct_configs using config_of_bounds_28 by blast+
  with permission_by_grants [OF assms(1,3,5,6)] show ?thesis by (simp add: Let_def)
qed

text \<open>The registers of the first data region are set to let writes to 0x10000000 to 0x1000FFFF through.\<close>

definition high_region_core :: TargetCoreType where
  "high_region_core = (sample_core blank_decoded (\<lambda>_. 0))\<lparr>
     reg := (set_psw 0x30000 (blank_regs (\<lambda>_. 0)))\<lparr>reg_sys := set_mpu_setting 17 0x1000FFF4 (set_mpu_setting 16 0x10000001
              (reg_sys (set_psw 0x30000 (blank_regs (\<lambda>_. 0)))))\<rparr>\<rparr>"

lemma high_region_settings:
  "cpu_get_mpu_settign_sysreg (reg_sys (reg high_region_core)) = (\<lambda>i. if i = 17 then 0x1000FFF4 else if i = 16 then 0x10000001 else 0)"
  "psw (reg (private_cpu_mpu_construct_containers high_region_core)) = 0x30000"
  by (auto simp: high_region_core_def cpu_get_mpu_settign_sysreg_def set_mpu_setting_def blank_regs_def set_psw_def set_cpu_base_def
      psw_def sys_get_cpu_base_def private_cpu_mpu_construct_containers_def Let_def)

lemma high_region_ok: "regions_ok (private_cpu_mpu_construct_containers high_region_core)"
proof -
  have "{0..<5} = {0, 1, 2, 3, 4 :: nat}" "{0..<6} = {0, 1, 2, 3, 4, 5 :: nat}" by auto
  then show ?thesis
    unfolding regions_ok_def construct_configs high_region_settings
    by (simp add: exec_config_of_def data_config_of_def private_cpu_mpu_set_common_obj_def well_bounded_def region_bounds_def)
qed

lemma regions_below_28_bits_witness:
  "\<not> fst (cpu_has_permission list_container 0 GLOBAL_MEMORY CpuMemoryAccess_WRITE 0x10000000 4
       (private_cpu_mpu_construct_containers high_region_core))"
proof -
  have b: "bit (0x30000 :: u32) 17" by simp
  show ?thesis
    using regions_below_28_bits [OF list_container_ok refl high_region_ok, where addr = "0x10000000" and n = 4 and t = GLOBAL_MEMORY and pc = 0]
    by (simp add: high_region_settings(2) b)
qed

section \<open>Exceptions and returns\<close>

definition aue :: "TargetCoreType \<Rightarrow> bool" where
  "aue cpu \<longleftrightarrow> CPU_ISSET_MPM_AUE (reg_sys (reg cpu))"

definition unprotect :: "u32 \<Rightarrow> u32" where
  "unprotect w = put_flag 19 False (put_flag 18 False (put_flag 17 False (put_flag 16 False w)))"

lemma clear_protection_eq: "clear_protection g = set_psw (unprotect (psw g)) g"
  by (simp add: clear_protection_def flag_simps unprotect_def)

lemma cpu_base_aue [simp]: "CPU_ISSET_MPM_AUE (reg_sys (set_cpu_base i v g)) = CPU_ISSET_MPM_AUE (reg_sys g)"
  "CPU_ISSET_MPM_AUE (reg_sys (set_psw v g)) = CPU_ISSET_MPM_AUE (reg_sys g)"
  by (simp_all add: CPU_ISSET_MPM_AUE_def cpu_get_mpu_settign_sysreg_def set_psw_def set_cpu_base_def)

lemma set_psw_base: "sys_get_cpu_base (set_psw v g) i = (if i = 5 then v else sys_get_cpu_base g i)"
  "psw (set_cpu_base i v g) = (if i = 5 then v else psw g)"
  by (simp_all add: set_psw_def psw_def)

lemma base_5: "sys_get_cpu_base g 5 = psw g"
  by (simp add: psw_def)

text \<open>Where an exception of each kind returns to, and the PSW it saves.\<close>

lemma trap_entry:
  assumes "op_exec_trap cpu = Some (0, cpu')" and "f10_gen2 cpu \<le> 0x1F"
  shows "sys_get_cpu_base (reg cpu') SYS_REG_EIPC = reg_pc (reg cpu) + 4"
    "sys_get_cpu_base (reg cpu') SYS_REG_EIPSW = (if aue cpu then unprotect (psw (reg cpu)) else psw (reg cpu))"
    "reg_r (reg cpu') = reg_r (reg cpu)"
  using assms by (auto simp: op_exec_trap_def Let_def ret_def clear_protection_eq aue_def flag_simps set_psw_base base_5 split: if_splits)

lemma fetrap_entry:
  assumes "op_exec_fetrap_1 cpu = Some (0, cpu')"
  shows "sys_get_cpu_base (reg cpu') SYS_REG_FEPC = reg_pc (reg cpu) + 2"
    "sys_get_cpu_base (reg cpu') SYS_REG_FEPSW = psw (reg cpu)"
    "reg_r (reg cpu') = reg_r (reg cpu)"
  using assms by (auto simp: op_exec_fetrap_1_def Let_def ret_def clear_protection_eq flag_simps set_psw_base base_5 split: if_splits)

lemma illegal_access_entry:
  assumes "cpu_illegal_access pc cpu = (True, cpu')"
  shows "sys_get_cpu_base (reg cpu') SYS_REG_FEPC = pc"
    "sys_get_cpu_base (reg cpu') SYS_REG_FEPSW = psw (reg cpu)"
    "reg_r (reg cpu') = reg_r (reg cpu)"
  using assms by (auto simp: cpu_illegal_access_def Let_def flag_simps set_psw_base base_5 cpu_get_psw_def psw_def [unfolded sys_get_cpu_base_def] split: if_splits)

lemma eiret_result:
  "op_exec_eiret_10 cpu = ret cpu (return_from SYS_REG_EIPC SYS_REG_EIPSW (reg cpu))"
  "reg_pc (return_from i j g) = sys_get_cpu_base g i" "psw (return_from i j g) = sys_get_cpu_base g j"
  "reg_r (return_from i j g) = reg_r g"
  by (simp_all add: op_exec_eiret_10_def return_from_def set_psw_base)

text \<open>Returning with \<open>rt\<close> from any handler that keeps the two saved registers goes to \<open>pc\<close> with
  the PSW \<open>w\<close> and changes no general register.\<close>

definition back_to ::
  "(TargetCoreType \<Rightarrow> exec_result) \<Rightarrow> nat \<Rightarrow> nat \<Rightarrow> TargetCoreType \<Rightarrow> u32 \<Rightarrow> u32 \<Rightarrow> bool" where
  "back_to rt i j entry pc w \<longleftrightarrow>
     (\<forall>h. sys_get_cpu_base (reg h) i = sys_get_cpu_base (reg entry) i \<and> sys_get_cpu_base (reg h) j = sys_get_cpu_base (reg entry) j \<longrightarrow>
        (\<exists>h'. rt h = Some (0, h') \<and> reg_pc (reg h') = pc \<and> psw (reg h') = w \<and> reg_r (reg h') = reg_r (reg h)))"

lemma back_to_return:
  assumes "sys_get_cpu_base (reg e) i = pc" and "sys_get_cpu_base (reg e) j = w"
    and "\<And>h. rt h = ret h (return_from i j (reg h))"
  shows "back_to rt i j e pc w"
  using assms by (simp add: back_to_def ret_def eiret_result)

lemma trap_defined: "f10_gen2 cpu \<le> 0x1F \<Longrightarrow> \<exists>e. op_exec_trap cpu = Some (0, e)"
  by (simp add: op_exec_trap_def Let_def ret_def)

lemma cpu_get_psw_simps:
  "psw (g\<lparr>reg_sys := s\<rparr>) = cpu_get_psw s" "cpu_get_psw (set_mpu_illegal_factor i v s) = cpu_get_psw s"
  "cpu_get_psw (reg_sys g) = psw g"
  by (simp_all add: psw_def sys_get_cpu_base_def cpu_get_psw_def set_mpu_illegal_factor_def)

lemma illegal_access_psw:
  assumes "cpu_illegal_access pc cpu = (True, cpu')"
  shows "psw (reg cpu') = unprotect (put_flag 5 True (put_flag 7 True (put_flag 6 True (psw (reg cpu)))))"
    "reg_pc (reg cpu') = 0x30" "exception_error_code (mpu cpu') = CpuExceptionError_None"
  using assms by (auto simp: cpu_illegal_access_def Let_def flag_simps set_psw_base cpu_get_psw_simps
      unprotect_def put_flag_commute split: if_splits)

text \<open>C32: exceptions and their returns match. EIRET from the handler of TRAP comes back behind
  the 4-byte TRAP, FERET from the handler of FETRAP behind the 2-byte FETRAP, and FERET from the
  handler of a protection violation to the reported address; the latter two restore the PSW
  exactly, and the violation enters its handler at 0x30 with the protection bits cleared. EIRET
  restores the PSW of TRAP unless \<open>MPM.AUE\<close> is set: TRAP then clears the protection bits before
  it saves the PSW, and the return leaves the program trusted.\<close>

theorem exception_return:
  assumes "f10_gen2 cpu \<le> 0x1F"
  shows "(\<exists>e. op_exec_trap cpu = Some (0, e) \<and> back_to op_exec_eiret_10 SYS_REG_EIPC SYS_REG_EIPSW e
            (reg_pc (reg cpu) + 4) (if aue cpu then unprotect (psw (reg cpu)) else psw (reg cpu)))
    \<and> (\<exists>e. op_exec_fetrap_1 cpu = Some (0, e) \<and> back_to op_exec_feret_10 SYS_REG_FEPC SYS_REG_FEPSW e
            (reg_pc (reg cpu) + 2) (psw (reg cpu)))
    \<and> (exception_error_code (mpu cpu) \<noteq> CpuExceptionError_None \<longrightarrow>
         (\<exists>e. cpu_illegal_access pc cpu = (True, e) \<and> back_to op_exec_feret_10 SYS_REG_FEPC SYS_REG_FEPSW e pc (psw (reg cpu))
            \<and> reg_pc (reg e) = 0x30 \<and> exception_error_code (mpu e) = CpuExceptionError_None
            \<and> psw (reg e) = unprotect (put_flag 5 True (put_flag 7 True (put_flag 6 True (psw (reg cpu)))))))"
proof (intro conjI impI)
  note er = eiret_result(1) and fr = op_exec_feret_10_def
  from trap_defined [OF assms] obtain e where e: "op_exec_trap cpu = Some (0, e)" by blast
  show "\<exists>e. op_exec_trap cpu = Some (0, e) \<and> back_to op_exec_eiret_10 SYS_REG_EIPC SYS_REG_EIPSW e
            (reg_pc (reg cpu) + 4) (if aue cpu then unprotect (psw (reg cpu)) else psw (reg cpu))"
    by (rule exI [of _ e], rule conjI, rule e, rule back_to_return) (rule trap_entry [OF e assms] er)+
  obtain f where f: "op_exec_fetrap_1 cpu = Some (0, f)"
    by (simp add: op_exec_fetrap_1_def Let_def ret_def)
  show "\<exists>e. op_exec_fetrap_1 cpu = Some (0, e) \<and> back_to op_exec_feret_10 SYS_REG_FEPC SYS_REG_FEPSW e
            (reg_pc (reg cpu) + 2) (psw (reg cpu))"
    by (rule exI [of _ f], rule conjI, rule f, rule back_to_return) (rule fetrap_entry [OF f] fr)+
next
  assume "exception_error_code (mpu cpu) \<noteq> CpuExceptionError_None"
  then obtain e where e: "cpu_illegal_access pc cpu = (True, e)" by (simp add: cpu_illegal_access_def Let_def)
  have "back_to op_exec_feret_10 SYS_REG_FEPC SYS_REG_FEPSW e pc (psw (reg cpu))"
    by (rule back_to_return) (rule illegal_access_entry [OF e] op_exec_feret_10_def)+
  with e illegal_access_psw [OF e]
  show "\<exists>e. cpu_illegal_access pc cpu = (True, e) \<and> back_to op_exec_feret_10 SYS_REG_FEPC SYS_REG_FEPSW e pc (psw (reg cpu))
     \<and> reg_pc (reg e) = 0x30 \<and> exception_error_code (mpu e) = CpuExceptionError_None
     \<and> psw (reg e) = unprotect (put_flag 5 True (put_flag 7 True (put_flag 6 True (psw (reg cpu)))))"
    by blast
qed

lemma exception_return_witness:
  "\<exists>cpu e. psw (reg cpu) = 0x30000 \<and> aue cpu \<and> op_exec_trap cpu = Some (0, e) \<and> back_to op_exec_eiret_10 SYS_REG_EIPC SYS_REG_EIPSW e 4 0"
proof -
  let ?cpu = "(sample_core blank_decoded (\<lambda>_. 0))\<lparr>reg := (set_psw 0x30000 (blank_regs (\<lambda>_. 0)))\<lparr>reg_sys :=
     set_mpu_setting 0 2 (reg_sys (set_psw 0x30000 (blank_regs (\<lambda>_. 0))))\<rparr>\<rparr>"
  have f: "psw (reg ?cpu) = 0x30000" "aue ?cpu" "f10_gen2 ?cpu = 0" "reg_pc (reg ?cpu) = 0"
    by (simp_all add: set_mpu_setting_def blank_regs_def set_psw_def set_cpu_base_def psw_def sys_get_cpu_base_def
       aue_def CPU_ISSET_MPM_AUE_def cpu_get_mpu_settign_sysreg_def CPU_MPM_AUE_def blank_decoded_def)
  have u: "unprotect 0x30000 = 0" by (simp add: unprotect_def put_flag_def)
  have "f10_gen2 ?cpu \<le> 0x1F" unfolding f(3) by simp
  from conjunct1 [OF exception_return [OF this]] f u obtain e
    where e: "op_exec_trap ?cpu = Some (0, e)" "back_to op_exec_eiret_10 SYS_REG_EIPC SYS_REG_EIPSW e 4 0"
    by auto
  show ?thesis by (rule exI [of _ ?cpu], rule exI [of _ e], intro conjI f(1,2) e)
qed

end
