(* ===== verification/V850_Stack_Correct.thy ===== *)
theory V850_Stack_Correct
  imports V850_Mpu_Correct
begin

unbundle bit_operations_syntax

text \<open>
  The stack frame instructions PREPARE and DISPOSE of \<open>V850_Exec_Spec\<close>: the loops as folds of
  one push and one pop, and that the pops undo the pushes over any memory of words.
\<close>

section \<open>Stack frames\<close>

text \<open>What PREPARE and DISPOSE need of the memory below the stack pointer: every address has
  a pointer, and host memory behind pointers is a memory of words, of which two at least four
  bytes apart do not overlap.\<close>

definition stack_memory :: "'w bus \<Rightarrow> (u32 \<Rightarrow> nat) \<Rightarrow> bool" where
  "stack_memory bus ptr \<longleftrightarrow>
     (\<forall>c a m. bus_get_pointer bus c a m = (STD_E_OK, ptr a, m)) \<and>
     (\<forall>p v m. m_core (host_put32 bus p v m) = m_core m \<and> host_get32 bus p (host_put32 bus p v m) = v) \<and>
     (\<forall>p m m'. m_world m = m_world m' \<longrightarrow> host_get32 bus p m = host_get32 bus p m') \<and>
     (\<forall>a b v m. 4 \<le> unat (b - a) \<and> 4 \<le> unat (a - b) \<longrightarrow>
        host_get32 bus (ptr b) (host_put32 bus (ptr a) v m) = host_get32 bus (ptr b) m)"

lemma stack_memoryD:
  assumes "stack_memory bus ptr"
  shows "bus_get_pointer bus c a m = (STD_E_OK, ptr a, m)"
    "m_core (host_put32 bus p v m) = m_core m"
    "host_get32 bus p (host_put32 bus p v m) = v"
    "m_world m = m_world m' \<Longrightarrow> host_get32 bus p m = host_get32 bus p m'"
    "4 \<le> unat (b - a) \<Longrightarrow> 4 \<le> unat (a - b) \<Longrightarrow>
       host_get32 bus (ptr b) (host_put32 bus (ptr a) v m) = host_get32 bus (ptr b) m"
  using assms unfolding stack_memory_def by blast+

abbreviation sp :: "'w machine \<Rightarrow> u32" where "sp m \<equiv> reg_r (m_reg m) 3"

text \<open>One push and one pop.\<close>

definition push_reg :: "'w bus \<Rightarrow> (u32 \<Rightarrow> nat) \<Rightarrow> nat \<Rightarrow> 'w machine \<Rightarrow> 'w machine" where
  "push_reg bus ptr i m =
     m_add_elaps 1 (let m' = host_put32 bus (ptr (sp m - 4)) (reg_r (m_reg m) i) m
                    in m_set_reg (set_r 3 (sp m - 4) (m_reg m')) m')"

definition pop_reg :: "'w bus \<Rightarrow> (u32 \<Rightarrow> nat) \<Rightarrow> nat \<Rightarrow> 'w machine \<Rightarrow> 'w machine" where
  "pop_reg bus ptr i m =
     m_add_elaps 1 (m_set_reg (set_r 3 (sp m + 4) (set_r i (host_get32 bus (ptr (sp m)) m) (m_reg m))) m)"

lemma push_reg_frame:
  assumes "stack_memory bus ptr"
  shows "sp (push_reg bus ptr i m) = sp m - 4" "j \<noteq> 3 \<Longrightarrow> reg_r (m_reg (push_reg bus ptr i m)) j = reg_r (m_reg m) j"
    "decoded_code (m_core (push_reg bus ptr i m)) = decoded_code (m_core m)"
    "host_get32 bus p (push_reg bus ptr i m) = host_get32 bus p (host_put32 bus (ptr (sp m - 4)) (reg_r (m_reg m) i) m)"
  by (simp_all add: push_reg_def Let_def m_add_elaps_def stack_memoryD(2) [OF assms] set_r_def)
    (rule stack_memoryD(4) [OF assms], simp)

lemma pop_reg_frame:
  assumes "3 \<noteq> i"
  shows "sp (pop_reg bus ptr i m) = sp m + 4" "reg_r (m_reg (pop_reg bus ptr i m)) i = host_get32 bus (ptr (sp m)) m"
    "j \<noteq> 3 \<Longrightarrow> j \<noteq> i \<Longrightarrow> reg_r (m_reg (pop_reg bus ptr i m)) j = reg_r (m_reg m) j"
    "decoded_code (m_core (pop_reg bus ptr i m)) = decoded_code (m_core m)"
    "m_world (pop_reg bus ptr i m) = m_world m"
  using assms by (simp_all add: pop_reg_def m_add_elaps_def set_r_def)

lemma prepare_loop_eq:
  assumes "stack_memory bus ptr"
  shows "prepare_loop bus is m = (0, fold (push_reg bus ptr) (filter (\<lambda>i. f13_list (m_core m) i \<noteq> 0) is) m)"
proof (induction "is" arbitrary: m)
  case (Cons i "is")
  then show ?case
    by (simp add: stack_memoryD(1) [OF assms] Let_def push_reg_frame(3) [OF assms] flip: push_reg_def)
      (simp add: push_reg_def push_reg_frame(3) [OF assms, unfolded push_reg_def Let_def] Let_def)
qed simp

lemma dispose_loop_eq:
  assumes "stack_memory bus ptr" and "3 \<notin> set is"
  shows "dispose_loop bus is m = (0, fold (pop_reg bus ptr) (filter (\<lambda>i. f13_list (m_core m) i \<noteq> 0) is) m)"
  using assms(2)
proof (induction "is" arbitrary: m)
  case (Cons i "is")
  then show ?case
    by (simp add: stack_memoryD(1) [OF assms(1)] Let_def pop_reg_def m_add_elaps_def)
qed simp

lemma unat_distance:
  assumes "unat (a - s :: u32) \<le> 4294967288"
  shows "unat (a - (s - 4)) = unat (a - s) + 4" "4 \<le> unat (s - 4 - a)"
proof -
  have "a - (s - 4) = (a - s) + 4" by simp
  with assms show u: "unat (a - (s - 4)) = unat (a - s) + 4"
    by (simp only: unat_word_ariths) simp
  have "s - 4 - a = - (a - (s - 4))" by simp
  with u assms show "4 \<le> unat (s - 4 - a)"
    by (simp only: unat_minus_32) auto
qed

lemma pushes_frame:
  assumes "stack_memory bus ptr" and "unat (a - sp m) + 4 * length is \<le> 4294967292"
  shows "host_get32 bus (ptr a) (fold (push_reg bus ptr) is m) = host_get32 bus (ptr a) m"
  using assms(2)
proof (induction "is" arbitrary: m)
  case (Cons i "is")
  have d: "unat (a - (sp m - 4)) = unat (a - sp m) + 4" "4 \<le> unat (sp m - 4 - a)"
    using unat_distance [of a "sp m"] Cons.prems by simp_all
  then have "host_get32 bus (ptr a) (push_reg bus ptr i m) = host_get32 bus (ptr a) m"
    by (simp add: push_reg_frame(4) [OF assms(1)] stack_memoryD(5) [OF assms(1)])
  moreover have "host_get32 bus (ptr a) (fold (push_reg bus ptr) is (push_reg bus ptr i m)) = host_get32 bus (ptr a) (push_reg bus ptr i m)"
    by (rule Cons.IH) (use Cons.prems d in \<open>simp add: push_reg_frame(1) [OF assms(1)]\<close>)
  ultimately show ?case by simp
qed simp

lemma pushes_regs:
  assumes "stack_memory bus ptr"
  shows "j \<noteq> 3 \<Longrightarrow> reg_r (m_reg (fold (push_reg bus ptr) is m)) j = reg_r (m_reg m) j"
    "decoded_code (m_core (fold (push_reg bus ptr) is m)) = decoded_code (m_core m)"
    "sp (fold (push_reg bus ptr) is m) = sp m - 4 * of_nat (length is)"
  by (induction "is" arbitrary: m) (simp_all add: push_reg_frame [OF assms] algebra_simps)

lemma pops_frame:
  "3 \<notin> set is \<Longrightarrow> m_world (fold (pop_reg bus ptr) is m) = m_world m"
  "3 \<notin> set is \<Longrightarrow> sp (fold (pop_reg bus ptr) is m) = sp m + 4 * of_nat (length is)"
  "3 \<notin> set is \<Longrightarrow> j \<noteq> 3 \<Longrightarrow> j \<notin> set is \<Longrightarrow> reg_r (m_reg (fold (pop_reg bus ptr) is m)) j = reg_r (m_reg m) j"
  by (induction "is" arbitrary: m) (simp_all add: pop_reg_frame algebra_simps)

lemma pops_pc: "reg_pc (m_reg (fold (pop_reg bus ptr) is m)) = reg_pc (m_reg m)"
  by (induction "is" arbitrary: m) (simp_all add: pop_reg_def m_add_elaps_def)

lemma pops_pushes:
  assumes "stack_memory bus ptr" and "distinct is" and "3 \<notin> set is" and "length is < 1073741823"
    and "m_world m2 = m_world (fold (push_reg bus ptr) is m)" and "sp m2 = sp (fold (push_reg bus ptr) is m)"
    and "i \<in> set is"
  shows "reg_r (m_reg (fold (pop_reg bus ptr) (rev is) m2)) i = reg_r (m_reg m) i"
  using assms(2-)
proof (induction "is" arbitrary: m)
  case (Cons k "is")
  let ?m1 = "push_reg bus ptr k m" and ?m3 = "fold (pop_reg bus ptr) (rev is) m2"
  have k: "3 \<noteq> k" "3 \<notin> set (rev is)" using Cons.prems(2) by auto
  have w: "m_world ?m3 = m_world (fold (push_reg bus ptr) is ?m1)"
    by (simp add: Cons.prems(4) [simplified] pops_frame(1) [OF k(2)])
  have s: "sp ?m3 = sp ?m1"
    using Cons.prems(5) by (simp add: pushes_regs(3) [OF assms(1)] pops_frame(2) [OF k(2)])
  have "host_get32 bus (ptr (sp ?m3)) ?m3 = host_get32 bus (ptr (sp ?m1)) (fold (push_reg bus ptr) is ?m1)"
    unfolding s by (rule stack_memoryD(4) [OF assms(1) w])
  also have "\<dots> = host_get32 bus (ptr (sp ?m1)) ?m1"
    by (rule pushes_frame [OF assms(1)]) (use Cons.prems(3) in simp)
  also have "\<dots> = reg_r (m_reg m) k"
    by (simp add: push_reg_frame [OF assms(1)] stack_memoryD(3) [OF assms(1)])
  finally have top: "host_get32 bus (ptr (sp ?m3)) ?m3 = reg_r (m_reg m) k" .
  show ?case
  proof (cases "i = k")
    case True
    then show ?thesis by (simp add: pop_reg_frame [OF k(1)] top)
  next
    case False
    with Cons.prems have i: "i \<in> set is" "i \<noteq> 3" by auto
    have "reg_r (m_reg ?m3) i = reg_r (m_reg ?m1) i"
      by (rule Cons.IH) (use Cons.prems i in simp_all)
    with False i show ?thesis by (simp add: pop_reg_frame [OF k(1)] push_reg_frame [OF assms(1)])
  qed
qed simp

text \<open>The registers a frame instruction names, in the order PREPARE pushes them.\<close>

definition frame_regs :: "TargetCoreType \<Rightarrow> nat list" where
  "frame_regs cpu = filter (\<lambda>i. f13_list cpu i \<noteq> 0) [20..<32]"

lemma frame_regs_simps: "distinct (frame_regs cpu)" "3 \<notin> set (frame_regs cpu)" "length (frame_regs cpu) < 1073741823"
proof -
  show "distinct (frame_regs cpu)" "3 \<notin> set (frame_regs cpu)" by (simp_all add: frame_regs_def)
  have "length (frame_regs cpu) \<le> length [20..<32]" unfolding frame_regs_def by (rule length_filter_le)
  then show "length (frame_regs cpu) < 1073741823" by simp
qed

lemma report_violation_if:
  "reg (report_violation e a t cpu) = reg cpu" "decoded_code (report_violation e a t cpu) = decoded_code cpu"
  "reg (if b then report_violation e a t cpu else cpu) = reg cpu"
  "decoded_code (if b then report_violation e a t cpu else cpu) = decoded_code cpu"
  by (simp_all add: report_violation_def)

lemma cpu_has_permission_frame:
  "reg (snd (cpu_has_permission oc pc t a addr n cpu)) = reg cpu"
  "decoded_code (snd (cpu_has_permission oc pc t a addr n cpu)) = decoded_code cpu"
  by (cases t; simp only: cpu_has_permission_def Let_def snd_conv MpuAddressRegionEnumType.case report_violation_if)+

definition same_state :: "'w machine \<Rightarrow> 'w machine \<Rightarrow> bool" where
  "same_state m m' \<longleftrightarrow> m_reg m' = m_reg m \<and> m_world m' = m_world m \<and> decoded_code (m_core m') = decoded_code (m_core m)"

lemma m_permission_same: "m_permission oc t a addr n m = (p, m') \<Longrightarrow> same_state m m'"
  using cpu_has_permission_frame [of oc "reg_pc (m_reg m)" t a addr n "m_core m"]
  by (auto simp: m_permission_def same_state_def split: prod.splits)

lemma has_permission_prepare_same: "has_permission_prepare oc s ff m = (p, m') \<Longrightarrow> same_state m m'"
proof -
  have t: "same_state a b \<Longrightarrow> same_state b c \<Longrightarrow> same_state a c" for a b c :: "'a machine"
    by (simp add: same_state_def)
  show "has_permission_prepare oc s ff m = (p, m') \<Longrightarrow> same_state m m'"
    unfolding has_permission_prepare_def Let_def
    by (auto split: prod.splits if_splits dest!: m_permission_same intro: t)
qed

lemma has_permission_prepare_frame:
  assumes "has_permission_prepare oc s ff m = (p, m')"
  shows "m_reg m' = m_reg m" "m_world m' = m_world m" "decoded_code (m_core m') = decoded_code (m_core m)"
  using has_permission_prepare_same [OF assms] by (simp_all add: same_state_def)

text \<open>What PREPARE leaves for DISPOSE: the pushed words, and the stack pointer below them.\<close>

lemma prepare_leaves:
  assumes "stack_memory bus ptr" and "op_exec_prepare oc bus m = Some (0, m1)"
  shows "\<exists>m0. m_reg m0 = m_reg m \<and> m_world m1 = m_world (fold (push_reg bus ptr) (frame_regs (m_core m)) m0)
    \<and> sp m1 = sp (fold (push_reg bus ptr) (frame_regs (m_core m)) m0) - push_bit 2 (f13_imm (m_core m))"
proof -
  obtain p m0 where p: "has_permission_prepare oc 20 (drop_bit 3 (f13_gen (m_core m))) m = (p, m0)"
    by (cases "has_permission_prepare oc 20 (drop_bit 3 (f13_gen (m_core m))) m")
  note f = has_permission_prepare_frame [OF p]
  have l: "prepare_loop bus [20..<32] m0 = (0, fold (push_reg bus ptr) (frame_regs (m_core m)) m0)"
    by (simp only: prepare_loop_eq [OF assms(1)] f frame_regs_def)
  show ?thesis
    by (rule exI [of _ m0])
     (use assms(2) f(1) in \<open>auto simp: op_exec_prepare_def Let_def p l stack_memoryD(1) [OF assms(1)] m_ret_def set_r_def
        split: if_splits simp del: upt_rec_numeral upt_Suc\<close>)
qed

lemma trusted_read:
  assumes "IS_TRUSTED CPU_PSW_DMP (cpu_get_psw (reg_sys (m_reg m)))"
  shows "m_permission oc GLOBAL_MEMORY CpuMemoryAccess_READ addr n m = (True, m)"
  using assms by (simp add: m_permission_def cpu_has_permission_def Let_def)

lemma dispose_undoes:
  assumes "stack_memory bus ptr" and "\<exists>m0. m_reg m0 = m_reg m \<and> m_world m2 = m_world (fold (push_reg bus ptr) is m0)
    \<and> sp m2 + imm = sp (fold (push_reg bus ptr) is m0)"
    and "is = frame_regs (m_core m2)"
  defines "m2' \<equiv> m_set_reg (set_r 3 (sp m2 + imm) (m_reg m2)) m2"
  shows "\<exists>m3. dispose_loop bus (rev [20..<32]) m2' = (0, m3) \<and> sp m3 = sp m \<and> m_world m3 = m_world m2
    \<and> reg_pc (m_reg m3) = reg_pc (m_reg m2) \<and> (\<forall>i. i \<noteq> 3 \<longrightarrow> reg_r (m_reg m3) i = reg_r (if i \<in> set is then m_reg m else m_reg m2) i)"
proof -
  obtain m0 where m0: "m_reg m0 = m_reg m" "m_world m2 = m_world (fold (push_reg bus ptr) is m0)"
    "sp m2 + imm = sp (fold (push_reg bus ptr) is m0)" using assms(2) by blast
  let ?m3 = "fold (pop_reg bus ptr) (rev is) m2'"
  note fr = frame_regs_simps [of "m_core m2", folded assms(3)]
  have r: "3 \<notin> set (rev is)" using fr(2) by simp
  have "dispose_loop bus (rev [20..<32]) m2' = (0, ?m3)"
    by (subst dispose_loop_eq [OF assms(1)])
      (simp_all add: assms(3) frame_regs_def m2'_def rev_filter del: upt_rec_numeral)
  moreover have "sp ?m3 = sp m"
    using m0(3) by (simp add: pops_frame(2) [OF r] m2'_def set_r_def pushes_regs(3) [OF assms(1)] m0(1))
  moreover have "m_world ?m3 = m_world m2" by (simp add: pops_frame(1) [OF r] m2'_def)
  moreover have "reg_r (m_reg ?m3) i = reg_r (m_reg m) i" if "i \<in> set is" for i
    by (subst pops_pushes [OF assms(1) fr, of m2' m0 i])
      (use that m0 in \<open>simp_all add: m2'_def set_r_def\<close>)
  moreover have "reg_r (m_reg ?m3) i = reg_r (m_reg m2) i" if "i \<notin> set is" "i \<noteq> 3" for i
    using that by (simp add: pops_frame(3) [OF r] m2'_def set_r_def)
  moreover have "reg_pc (m_reg ?m3) = reg_pc (m_reg m2)" by (simp add: pops_pc m2'_def)
  ultimately show ?thesis by (intro exI [of _ ?m3]) simp
qed

lemma op_exec_dispose_ok:
  assumes "f13_gen (m_core m) = 0" and "IS_TRUSTED CPU_PSW_DMP (cpu_get_psw (reg_sys (m_reg m)))"
    and "dispose_loop bus (rev [20..<32]) (m_set_reg (set_r 3 (sp m + push_bit 2 (f13_imm (m_core m))) (m_reg m))
           (m\<lparr>m_core := (m_core m)\<lparr>real_elaps := 0\<rparr>\<rparr>)) = (0, m3)"
  shows "op_exec_dispose oc bus m = m_ret (m_add_elaps 2 m3) (add_pc 4 (m_reg m3))"
  using assms unfolding op_exec_dispose_def has_permission_dispose_def
  by (simp add: trusted_read m_add_elaps_def del: upt_rec_numeral)


lemma ram_stack_memory: "stack_memory ram_bus unat"
proof -
  have "unat a + 4 \<le> unat b \<or> unat b + 4 \<le> unat a" if "4 \<le> unat (b - a)" "4 \<le> unat (a - b)" for a b :: u32
  proof (cases "a \<le> b")
    case True
    with that(1) show ?thesis by (simp add: unat_sub word_le_nat_alt)
  next
    case False
    then have "b \<le> a" by simp
    with that(2) show ?thesis by (simp add: unat_sub word_le_nat_alt)
  qed
  then show ?thesis
    by (auto simp: stack_memory_def ram_bus_def ram_get32_put32 intro!: ram_get32_put32_other)
qed

text \<open>\<open>PREPARE {r20, r31}, 1\<close>.\<close>

definition prepare_decoded :: "u16 \<Rightarrow> OpDecodedCodeType" where
  "prepare_decoded gen = blank_decoded\<lparr>type13 :=
     \<lparr>t13_opcode = 0, t13_imm = 1, t13_list = (\<lambda>_. 0)(20 := 1, 31 := 1), t13_gen = gen, t13_rfu = 0\<rparr>\<rparr>"

lemma prepare_defined:
  "\<exists>m1. op_exec_prepare oc ram_bus (sample_machine (sample_core (prepare_decoded 1) r) w) = Some (0, m1)"
proof -
  let ?m = "sample_machine (sample_core (prepare_decoded 1) r) w"
  have "has_permission_prepare oc 20 (drop_bit 3 (f13_gen (m_core ?m))) ?m = (True, ?m)"
    by (simp add: has_permission_prepare_def Let_def m_permission_def cpu_has_permission_def IS_TRUSTED_def
        prepare_decoded_def cpu_get_psw_def blank_regs_def sample_machine_def sample_core_def del: upt_rec_numeral)
  then show ?thesis
    unfolding op_exec_prepare_def Let_def
    by (simp add: prepare_loop_eq [OF ram_stack_memory] prepare_decoded_def m_ret_def del: upt_rec_numeral)
qed


end
