(* ===== verification/V850_Intc_Correct.thy ===== *)
theory V850_Intc_Correct
  imports V850_Mpu_Correct
begin

unbundle bit_operations_syntax

text \<open>
  The interrupt controller (\<open>V850_Intc\<close>): the bookkeeping of waiting and served interrupts is
  consistent in every reachable state, and the selection promises the most urgent request.
  \<open>intc_step\<close> is the step relation: requests, register writes, NMIs and clocks in any order,
  with whatever the programs do to the registers of the cores in between.
\<close>

section \<open>Inside the arrays\<close>

lemma intc_reg_pointer_values:
  "cid < 2 \<Longrightarrow> i < 117 \<Longrightarrow> intc_reg_pointer cid (intc_regaddr_icn i) = 16 + 2 * i + 251 * cid"
  "intc_reg_pointer cid INTC_REG_ISPR = 250 + 251 * cid"
proof -
  assume i: "i < 117"
  have u: "(0x3FFFFFF :: u32) = mask 26" by (simp add: mask_eq_exp_minus_1)
  have "(4294963472 + 2 * i) mod 67108864 = (67105040 + 2 * i + 63 * 67108864) mod 67108864" by simp
  also have "\<dots> = 67105040 + 2 * i" using i by (simp only: mod_mult_self1) simp
  finally have m: "(4294963472 + 2 * i) mod 67108864 = 67105040 + 2 * i" .
  have "unat (0xFFFFF110 + word_of_nat i * 2 :: u32) = 0xFFFFF110 + 2 * i"
    using i by (simp add: unat_word_ariths unat_of_nat)
  then have "unat (take_bit 26 (0xFFFFF110 + word_of_nat i * 2) :: u32) = 0x3FFF110 + 2 * i"
    using i m by (simp only: unsigned_take_bit_eq) (simp add: take_bit_eq_mod)
  then have "unat (((0xFFFFF110 + word_of_nat i * 2) AND 0x3FFFFFF) - 0x3FFF100 :: u32) = 16 + 2 * i"
    by (simp add: u flip: take_bit_eq_mask) (subst unat_sub, simp_all add: word_le_nat_alt)
  then show "intc_reg_pointer cid (intc_regaddr_icn i) = 16 + 2 * i + 251 * cid"
    by (simp add: intc_reg_pointer_def intc_get_pointer_def intc_regaddr_icn_def intc_consts)
next
  show "intc_reg_pointer cid INTC_REG_ISPR = 250 + 251 * cid"
    by (simp add: intc_reg_pointer_def intc_get_pointer_def intc_consts)
qed

lemma data_in_simps: "data_in p \<longleftrightarrow> p < 502"
  by (simp add: data_in_def intc_consts)

lemmas small_consts = CPU_CONFIG_CORE_NUM_def INTC_NUM_def INTC_NUM_INTLVL_def

lemma rd8_icn [simp]:
  assumes "cid < 2" "i < 117"
  shows "rd8 s (intc_reg_pointer cid (intc_regaddr_icn i)) = Some (ic_data s (16 + 2 * i + 251 * cid))"
    "wr8 (intc_reg_pointer cid (intc_regaddr_icn i)) v s = Some (s\<lparr>ic_data := (ic_data s)(16 + 2 * i + 251 * cid := v)\<rparr>)"
  using assms by (simp_all add: rd8_def wr8_def intc_reg_pointer_values data_in_simps)

lemma rd8_ispr [simp]:
  assumes "cid < 2"
  shows "rd8 s (intc_reg_pointer cid INTC_REG_ISPR) = Some (ic_data s (250 + 251 * cid))"
    "wr8 (intc_reg_pointer cid INTC_REG_ISPR) v s = Some (s\<lparr>ic_data := (ic_data s)(250 + 251 * cid := v)\<rparr>)"
  using assms by (simp_all add: rd8_def wr8_def intc_reg_pointer_values data_in_simps)

section \<open>The waiting and the served interrupts of a core\<close>

text \<open>The interrupts in service, outermost first.\<close>

definition in_service :: "IntcControlWorkType \<Rightarrow> nat list" where
  "in_service w = (if current_intno w = -1 then []
     else map (\<lambda>k. nat (saved_intno_stack w k)) [0..<nat (saved_intno_off w)] @ [nat (current_intno w)])"

definition waiting_set :: "IntcControlWorkType \<Rightarrow> nat set" where
  "waiting_set w = {i. i < INTC_NUM \<and> \<not> is_idle w i}"

definition slots_ok :: "IntcControlWorkType \<Rightarrow> bool" where
  "slots_ok w \<longleftrightarrow> (\<forall>i < INTC_NUM. if is_idle w i then waiting_lvl_num w i = 0
       else waiting_lvl_num w i = 1 \<and> unat (is_waiting_lvl w i) < INTC_NUM_INTLVL)
     \<and> waiting_int_num w = of_nat (card (waiting_set w))"

definition service_ok :: "IntcControlWorkType \<Rightarrow> bool" where
  "service_ok w \<longleftrightarrow> -1 \<le> current_intno w \<and> 0 \<le> saved_intno_off w \<and> saved_intno_off w \<le> int INTC_NUM_INTLVL
     \<and> (current_intno w = -1 \<longrightarrow> saved_intno_off w = 0) \<and> (\<forall>k < nat (saved_intno_off w). 0 \<le> saved_intno_stack w k)
     \<and> set (in_service w) \<subseteq> waiting_set w
     \<and> sorted_wrt (\<lambda>i j. pri_key w j < pri_key w i) (in_service w)"

definition work_ok :: "IntcControlWorkType \<Rightarrow> bool" where
  "work_ok w \<longleftrightarrow> slots_ok w \<and> service_ok w"

lemma finite_waiting [simp]: "finite (waiting_set w)"
  by (simp add: waiting_set_def)

lemma card_waiting: "card (waiting_set w) \<le> 117"
proof -
  have "card (waiting_set w) \<le> card {..<117 :: nat}"
    by (rule card_mono) (auto simp: waiting_set_def INTC_NUM_def)
  then show ?thesis by simp
qed

text \<open>A new request.\<close>

lemma set_wait_service:
  "in_service (set_wait_intno i l w) = in_service w"
  "saved_intno_off (set_wait_intno i l w) = saved_intno_off w" "current_intno (set_wait_intno i l w) = current_intno w"
  "saved_intno_stack (set_wait_intno i l w) = saved_intno_stack w"
  by (simp_all add: set_wait_intno_def in_service_def)

lemma set_wait_idle:
  assumes "unat l < 8"
  shows "is_idle (set_wait_intno i l w) j \<longleftrightarrow> is_idle w j \<and> j \<noteq> i"
proof -
  have "unat (ucast l :: u8) = unat l" using assms by (simp add: unsigned_ucast_eq take_bit_nat_eq_self)
  with assms show ?thesis by (auto simp: set_wait_intno_def is_idle_def INTC_NUM_INTLVL_def)
qed

lemma set_wait_waiting:
  "unat l < 8 \<Longrightarrow> i < 117 \<Longrightarrow> waiting_set (set_wait_intno i l w) = insert i (waiting_set w)"
  by (auto simp: waiting_set_def set_wait_idle INTC_NUM_def)

lemma set_wait_key: "\<not> is_idle w j \<Longrightarrow> pri_key (set_wait_intno i l w) j = pri_key w j"
  by (auto simp: pri_key_def set_wait_intno_def is_idle_def)

lemma set_wait_slots:
  assumes "slots_ok w" and "unat l < 8" and "i < 117"
  shows "slots_ok (set_wait_intno i l w)"
proof (cases "is_idle w i")
  case True
  then have "i \<notin> waiting_set w" by (simp add: waiting_set_def)
  then have c: "card (insert i (waiting_set w)) = Suc (card (waiting_set w))" by simp
  have u: "unat (ucast l :: u8) = unat l" using assms(2) by (simp add: unsigned_ucast_eq take_bit_nat_eq_self)
  show ?thesis
    using assms True unfolding slots_ok_def set_wait_waiting [OF assms(2,3)] c set_wait_idle [OF assms(2)]
    by (auto simp: set_wait_intno_def u INTC_NUM_INTLVL_def split: if_splits)
next
  case False
  then have "set_wait_intno i l w = w" by (simp add: set_wait_intno_def)
  with assms(1) show ?thesis by simp
qed

lemma sorted_keys_cong:
  assumes "\<And>i. i \<in> set xs \<Longrightarrow> pri_key w i = pri_key w' i"
  shows "sorted_wrt (\<lambda>i j. pri_key w j < pri_key w i) xs \<longleftrightarrow> sorted_wrt (\<lambda>i j. pri_key w' j < pri_key w' i) xs"
  using assms by (induction xs) auto

lemma set_wait_ok:
  assumes "work_ok w" and "unat l < 8" and "i < 117"
  shows "work_ok (set_wait_intno i l w)"
proof -
  have "service_ok w" using assms(1) by (simp add: work_ok_def)
  moreover have "\<not> is_idle w j" if "j \<in> set (in_service w)" for j
    using calculation that by (auto simp: service_ok_def waiting_set_def)
  ultimately have "service_ok (set_wait_intno i l w)"
    using sorted_keys_cong [of "in_service w" "set_wait_intno i l w" w]
    by (auto simp: service_ok_def set_wait_service set_wait_waiting [OF assms(2,3)] set_wait_key)
  with assms set_wait_slots show ?thesis by (simp add: work_ok_def)
qed

text \<open>An interrupt is accepted.\<close>

definition accept :: "nat \<Rightarrow> IntcControlWorkType \<Rightarrow> IntcControlWorkType" where
  "accept i w =
     (let w = (if current_intno w \<noteq> -1
               then w\<lparr>saved_intno_stack := (saved_intno_stack w)(nat (saved_intno_off w) := current_intno w),
                      saved_intno_off := saved_intno_off w + 1\<rparr> else w)
      in w\<lparr>current_intno := int i\<rparr>)"

lemma accept_slots:
  "is_waiting_lvl (accept i w) = is_waiting_lvl w" "waiting_lvl_num (accept i w) = waiting_lvl_num w"
  "waiting_int_num (accept i w) = waiting_int_num w"
  by (simp_all add: accept_def Let_def)

lemma accept_service:
  assumes "service_ok w"
  shows "in_service (accept i w) = in_service w @ [i]"
proof (cases "current_intno w = -1")
  case True
  with assms show ?thesis by (simp add: in_service_def accept_def service_ok_def)
next
  case False
  have "nat (saved_intno_off w + 1) = Suc (nat (saved_intno_off w))"
    using assms by (simp add: service_ok_def nat_add_distrib)
  with False show ?thesis by (simp add: in_service_def accept_def Let_def)
qed

lemma accept_ok:
  assumes "work_ok w" and "i \<in> waiting_set w" and "saved_intno_off w < int INTC_NUM_INTLVL"
    and "current_intno w \<noteq> -1 \<Longrightarrow> pri_key w i < pri_key w (nat (current_intno w))"
  shows "work_ok (accept i w)"
proof -
  have s: "service_ok w" "slots_ok w" using assms(1) by (simp_all add: work_ok_def)
  have i: "is_idle (accept i w) = is_idle w" "pri_key (accept i w) = pri_key w"
    by (simp_all add: is_idle_def pri_key_def accept_slots fun_eq_iff)
  have "slots_ok (accept i w)"
    using s(2) by (simp add: slots_ok_def waiting_set_def i accept_slots)
  moreover have "pri_key w i < pri_key w j" if "j \<in> set (in_service w)" for j
    using that s(1) assms(4)
    by (auto simp: in_service_def service_ok_def sorted_wrt_append split: if_splits dest: less_trans)
  moreover have "\<forall>k < nat (saved_intno_off (accept i w)). 0 \<le> saved_intno_stack (accept i w) k"
    using s(1) by (auto simp: service_ok_def accept_def Let_def nat_less_iff less_Suc_eq split: if_splits)
  ultimately show ?thesis
    using s(1) assms(2,3)
    by (auto simp: work_ok_def service_ok_def accept_service waiting_set_def i sorted_wrt_append)
      (auto simp: accept_def Let_def)
qed

text \<open>The interrupt served last ends.\<close>

definition finish_intr :: "IntcControlWorkType \<Rightarrow> IntcControlWorkType" where
  "finish_intr w =
     (let w = clr_wait_intno (nat (current_intno w)) w
      in if 0 < saved_intno_off w
         then w\<lparr>saved_intno_off := saved_intno_off w - 1,
                current_intno := saved_intno_stack w (nat (saved_intno_off w - 1))\<rparr>
         else w\<lparr>current_intno := -1\<rparr>)"

lemma clr_wait_frame:
  "saved_intno_off (clr_wait_intno i w) = saved_intno_off w" "current_intno (clr_wait_intno i w) = current_intno w"
  "saved_intno_stack (clr_wait_intno i w) = saved_intno_stack w"
  by (simp_all add: clr_wait_intno_def Let_def)

lemma clr_wait_levels:
  assumes "slots_ok w" and "i < 117" and "\<not> is_idle w i"
  shows "is_waiting_lvl (clr_wait_intno i w) = (is_waiting_lvl w)(i := 8)"
    "waiting_lvl_num (clr_wait_intno i w) = (waiting_lvl_num w)(i := 0)"
    "waiting_int_num (clr_wait_intno i w) = waiting_int_num w - 1"
proof -
  have "waiting_lvl_num w i = 1" using assms by (simp add: slots_ok_def INTC_NUM_def)
  then show "is_waiting_lvl (clr_wait_intno i w) = (is_waiting_lvl w)(i := 8)"
    "waiting_lvl_num (clr_wait_intno i w) = (waiting_lvl_num w)(i := 0)"
    "waiting_int_num (clr_wait_intno i w) = waiting_int_num w - 1"
    by (simp_all add: clr_wait_intno_def INTC_NUM_INTLVL_def)
qed

lemma finish_levels:
  assumes "slots_ok w" and "nat (current_intno w) < 117" and "\<not> is_idle w (nat (current_intno w))"
  shows "is_waiting_lvl (finish_intr w) = (is_waiting_lvl w)(nat (current_intno w) := 8)"
    "waiting_lvl_num (finish_intr w) = (waiting_lvl_num w)(nat (current_intno w) := 0)"
    "waiting_int_num (finish_intr w) = waiting_int_num w - 1"
  by (simp_all add: finish_intr_def Let_def clr_wait_levels [OF assms])

lemma finish_service:
  assumes "service_ok w" and "current_intno w \<noteq> -1"
  shows "in_service (finish_intr w) = butlast (in_service w)"
proof (cases "0 < saved_intno_off w")
  case True
  then obtain n where n: "nat (saved_intno_off w) = Suc n" "nat (saved_intno_off w - 1) = n"
    by (metis Suc_pred' nat_diff_distrib' nat_one_as_int zero_less_nat_eq diff_Suc_1 less_imp_le zero_le_one nat_1)
  with assms True show ?thesis
    by (auto simp: in_service_def finish_intr_def Let_def clr_wait_frame service_ok_def butlast_append)
next
  case False
  with assms show ?thesis by (simp add: in_service_def finish_intr_def Let_def clr_wait_frame)
qed

lemma finish_ok:
  assumes "work_ok w" and "current_intno w \<noteq> -1"
  shows "work_ok (finish_intr w)" and "waiting_set (finish_intr w) = waiting_set w - {nat (current_intno w)}"
proof -
  let ?c = "nat (current_intno w)" and ?w = "finish_intr w"
  have s: "service_ok w" "slots_ok w" using assms(1) by (simp_all add: work_ok_def)
  have sv: "in_service w = butlast (in_service w) @ [?c]"
    using assms(2) by (simp add: in_service_def)
  have c: "?c \<in> waiting_set w" using s(1) sv unfolding service_ok_def by (metis in_set_conv_decomp subsetD)
  then have cw: "?c < 117" "\<not> is_idle w ?c" by (simp_all add: waiting_set_def INTC_NUM_def)
  note lv = finish_levels [OF s(2) cw]
  have idle: "is_idle ?w j \<longleftrightarrow> is_idle w j \<or> j = ?c" for j
    by (simp add: is_idle_def lv INTC_NUM_INTLVL_def)
  show ws: "waiting_set ?w = waiting_set w - {?c}" by (auto simp: waiting_set_def idle)
  have card: "card (waiting_set w) = Suc (card (waiting_set w - {?c}))"
    using c by (metis card_Suc_Diff1 finite_waiting)
  have "slots_ok ?w"
    using s(2) by (auto simp: slots_ok_def ws lv idle card split: if_splits)
  moreover have "service_ok ?w"
  proof -
    have srt: "sorted_wrt (\<lambda>i j. pri_key w j < pri_key w i) (butlast (in_service w) @ [?c])"
      using s(1) sv by (simp add: service_ok_def)
    then have ne: "j \<noteq> ?c" if "j \<in> set (butlast (in_service w))" for j
      using that by (auto simp: sorted_wrt_append)
    then have "sorted_wrt (\<lambda>i j. pri_key ?w j < pri_key ?w i) (butlast (in_service w))"
      using srt sorted_keys_cong [of "butlast (in_service w)" ?w w] by (auto simp: sorted_wrt_append pri_key_def lv)
    moreover have "set (butlast (in_service w)) \<subseteq> waiting_set ?w"
      using s(1) ne unfolding ws service_ok_def by (auto dest: in_set_butlastD)
    moreover have "- 1 \<le> saved_intno_stack w (nat (saved_intno_off w - 1)) \<and> saved_intno_stack w (nat (saved_intno_off w - 1)) \<noteq> - 1"
      if "0 < saved_intno_off w"
    proof -
      have "0 \<le> saved_intno_stack w (nat (saved_intno_off w - 1))"
        using s(1) that by (simp add: service_ok_def nat_less_iff)
      then show ?thesis by simp
    qed
    ultimately show ?thesis
      using s(1) unfolding service_ok_def finish_service [OF s(1) assms(2)]
      by (auto simp: finish_intr_def Let_def clr_wait_frame)
  qed
  ultimately show "work_ok ?w" by (simp add: work_ok_def)
qed

lemma finish_accept:
  assumes "work_ok w" and "i \<in> waiting_set w" and "saved_intno_off w < int INTC_NUM_INTLVL"
  shows "current_intno (finish_intr (accept i w)) = current_intno w"
    "saved_intno_off (finish_intr (accept i w)) = saved_intno_off w"
  using assms by (auto simp: finish_intr_def accept_def Let_def clr_wait_frame work_ok_def service_ok_def)

section \<open>Selecting a request\<close>

definition masked :: "nat \<Rightarrow> intc_state \<Rightarrow> nat \<Rightarrow> bool" where
  "masked cid s i \<longleftrightarrow> bit (ic_data s (16 + 2 * i + 251 * cid)) 6"

lemma and_64_u8: "w AND 64 = 64 \<longleftrightarrow> bit (w :: u8) 6"
proof -
  have "w AND push_bit 6 1 = (if bit w 6 then push_bit 6 1 else 0)"
    by (rule bit_word_eqI) (simp only: bit_and_iff bit_push_bit_iff bit_1_iff split: if_split, auto)
  then show ?thesis by simp
qed

lemma is_masked_eq: "cid < 2 \<Longrightarrow> i < 117 \<Longrightarrow> is_masked cid i s = Some (masked cid s i)"
  by (simp add: is_masked_def masked_def and_64_u8)

text \<open>A candidate, and a candidate that may interrupt what is in service.\<close>

definition candidate :: "nat \<Rightarrow> intc_state \<Rightarrow> nat \<Rightarrow> bool" where
  "candidate cid s i \<longleftrightarrow> \<not> is_idle (ic_work s cid) i
     \<and> \<not> (0 < current_intno (ic_work s cid) \<and> current_intno (ic_work s cid) = int i) \<and> \<not> masked cid s i"

definition limit :: "IntcControlWorkType \<Rightarrow> u32" where
  "limit w = (if 0 \<le> current_intno w then pri_key w (nat (current_intno w)) else 0xFFFFFFFF)"

definition better :: "nat \<Rightarrow> intc_state \<Rightarrow> nat \<Rightarrow> int \<times> u32 \<Rightarrow> int \<times> u32" where
  "better cid s i = (\<lambda>(n, m). if candidate cid s i \<and> pri_key (ic_work s cid) i < m then (int i, pri_key (ic_work s cid) i) else (n, m))"

lemma maxpri_body_eq:
  "cid < 2 \<Longrightarrow> i < 117 \<Longrightarrow> maxpri_body cid s i x = Some (better cid s i x)"
  by (cases x) (simp add: maxpri_body_def better_def candidate_def is_masked_eq Let_def)

lemma for_each_total: "(\<And>i x. i \<in> set is \<Longrightarrow> body i x = Some (f i x)) \<Longrightarrow> for_each body is x = Some (fold f is x)"
  by (induction "is" arbitrary: x) simp_all

lemma fold_better:
  "case fold (better cid s) xs (n, m) of (n', m') \<Rightarrow>
     (n' = n \<and> m' = m \<and> (\<forall>i \<in> set xs. candidate cid s i \<longrightarrow> m \<le> pri_key (ic_work s cid) i))
   \<or> (\<exists>i \<in> set xs. n' = int i \<and> m' = pri_key (ic_work s cid) i \<and> candidate cid s i \<and> m' < m
        \<and> (\<forall>j \<in> set xs. candidate cid s j \<longrightarrow> m' \<le> pri_key (ic_work s cid) j))"
proof (induction xs arbitrary: n m)
  case (Cons k xs)
  let ?key = "pri_key (ic_work s cid)"
  show ?case
  proof (cases "candidate cid s k \<and> ?key k < m")
    case True
    with Cons.IH [of "int k" "?key k"] show ?thesis
      by (auto simp: better_def split: prod.splits intro: less_trans dest: less_imp_le)
  next
    case False
    with Cons.IH [of n m] show ?thesis
      by (auto simp: better_def not_less split: prod.splits dest: less_le_trans less_imp_le)
  qed
qed simp

lemma get_maxpri_eq:
  assumes "cid < 2" and "current_intno (ic_work s cid) < 117"
  shows "get_maxpri_itno cid s = Some (if waiting_int_num (ic_work s cid) = 0 then -1
     else fst (fold (better cid s) [0..<117] (-1, limit (ic_work s cid))))"
  using assms for_each_total [of "[0..<117]" "maxpri_body cid s" "better cid s"]
  by (auto simp: get_maxpri_itno_def limit_def Let_def intc_consts maxpri_body_eq nat_less_iff split: prod.split simp del: upt_rec_numeral)

lemma unat_pri_key: "i < 117 \<Longrightarrow> unat (pri_key w i) = 65536 * unat (is_waiting_lvl w i) + i"
proof -
  assume i: "i < 117"
  have b: "bit (of_nat i :: u32) n \<Longrightarrow> n < 16" for n
  proof -
    assume "bit (of_nat i :: u32) n"
    then have "bit i n" by (simp add: bit_simps)
    moreover have "take_bit 16 i = i" using i by (simp add: take_bit_nat_eq_self)
    ultimately show "n < 16" by (metis bit_take_bit_iff)
  qed
  have "pri_key w i = push_bit 16 (ucast (is_waiting_lvl w i)) + of_nat i"
    unfolding pri_key_def
    by (rule disjunctive_add_eq_or [symmetric]) (use b in \<open>fastforce simp: bit_eq_iff bit_and_iff bit_push_bit_iff\<close>)
  moreover have "push_bit 16 (ucast (is_waiting_lvl w i) :: u32) = of_nat (65536 * unat (is_waiting_lvl w i))"
    by (simp add: push_bit_eq_mult unsigned_ucast_eq)
  moreover have "unat (is_waiting_lvl w i) < 2 ^ LENGTH(8)" by (rule unsigned_less)
  ultimately show ?thesis
    using i by (simp add: unat_word_ariths unsigned_ucast_eq take_bit_nat_eq_self unat_of_nat)
qed

text \<open>The levels are compared first, the interrupt numbers next.\<close>

lemma pri_key_less:
  assumes "i < 117" and "j < 117"
  shows "pri_key w i < pri_key w' j \<longleftrightarrow> is_waiting_lvl w i < is_waiting_lvl w' j \<or> is_waiting_lvl w i = is_waiting_lvl w' j \<and> i < j"
  using assms by (auto simp: word_less_nat_alt unat_pri_key word_unat_eq_iff)

lemma pri_key_inj: "i < 117 \<Longrightarrow> j < 117 \<Longrightarrow> pri_key w i = pri_key w j \<Longrightarrow> i = j"
  using pri_key_less [of i j w w] pri_key_less [of j i w w] by (cases i j rule: linorder_cases) auto

lemma pri_key_top: "i < 117 \<Longrightarrow> pri_key w i < 0xFFFFFFFF"
proof -
  assume i: "i < 117"
  have "unat (is_waiting_lvl w i) < 2 ^ LENGTH(8)" by (rule unsigned_less)
  with i show ?thesis by (simp add: word_less_nat_alt unat_pri_key)
qed

text \<open>What the selection promises: it finds a request that may interrupt, if there is one, and
  none of those that may has a higher priority.\<close>

definition may_interrupt :: "nat \<Rightarrow> intc_state \<Rightarrow> nat \<Rightarrow> bool" where
  "may_interrupt cid s i \<longleftrightarrow> i \<in> waiting_set (ic_work s cid) \<and> \<not> masked cid s i
     \<and> (current_intno (ic_work s cid) \<noteq> -1 \<longrightarrow>
          pri_key (ic_work s cid) i < pri_key (ic_work s cid) (nat (current_intno (ic_work s cid))))"

lemma candidate_limit:
  assumes "service_ok (ic_work s cid)" and "i < 117"
  shows "candidate cid s i \<and> pri_key (ic_work s cid) i < limit (ic_work s cid) \<longleftrightarrow> may_interrupt cid s i"
proof -
  let ?w = "ic_work s cid"
  have "current_intno ?w = -1 \<or> 0 \<le> current_intno ?w" using assms(1) by (auto simp: service_ok_def)
  then show ?thesis
    using assms(2) pri_key_top [OF assms(2)]
    by (auto simp: candidate_def may_interrupt_def limit_def waiting_set_def INTC_NUM_def)
qed

lemma current_range:
  assumes "service_ok w"
  shows "current_intno w < 117"
proof (cases "current_intno w = -1")
  case False
  then have "nat (current_intno w) \<in> set (in_service w)" by (simp add: in_service_def)
  with assms have "nat (current_intno w) \<in> waiting_set w" unfolding service_ok_def by blast
  then show ?thesis by (cases "0 \<le> current_intno w") (auto simp: waiting_set_def INTC_NUM_def nat_less_iff)
qed simp

lemma selection:
  assumes "cid < 2" and "work_ok (ic_work s cid)"
  obtains (none) "get_maxpri_itno cid s = Some (-1)" "\<And>i. \<not> may_interrupt cid s i"
  | (some) i where "get_maxpri_itno cid s = Some (int i)" "may_interrupt cid s i"
      "\<And>j. may_interrupt cid s j \<Longrightarrow> pri_key (ic_work s cid) i \<le> pri_key (ic_work s cid) j"
proof -
  let ?w = "ic_work s cid" and ?r = "fold (better cid s) [0..<117] (-1, limit (ic_work s cid))"
  have ok: "service_ok ?w" "slots_ok ?w" using assms(2) by (simp_all add: work_ok_def)
  have range: "j < 117" if "may_interrupt cid s j" for j
    using that by (simp add: may_interrupt_def waiting_set_def INTC_NUM_def)
  have set: "set [0..<117] = {..<117 :: nat}" by auto
  consider (zero) "waiting_int_num ?w = 0" | (pos) "waiting_int_num ?w \<noteq> 0" by blast
  then show thesis
  proof cases
    case zero
    have "card (waiting_set ?w) = 0"
      using zero ok(2) card_waiting [of ?w] by (auto simp: slots_ok_def word_of_nat_eq_0_iff dest!: dvd_imp_le)
    then have "\<not> may_interrupt cid s i" for i by (simp add: may_interrupt_def)
    moreover have "get_maxpri_itno cid s = Some (-1)"
      by (simp only: get_maxpri_eq [OF assms(1) current_range [OF ok(1)]] zero if_True refl)
    ultimately show thesis by (rule none [rotated])
  next
    case pos
    have g: "get_maxpri_itno cid s = Some (fst ?r)"
      by (simp only: get_maxpri_eq [OF assms(1) current_range [OF ok(1)]] pos if_False)
    show thesis
    proof (cases ?r)
      case (Pair n' m')
      with fold_better [where cid = cid and s = s and xs = "[0..<117]" and n = "-1" and m = "limit ?w", unfolded set]
      consider "n' = -1" "\<And>i. i < 117 \<Longrightarrow> candidate cid s i \<Longrightarrow> limit ?w \<le> pri_key ?w i"
        | i where "i < 117" "n' = int i" "candidate cid s i" "pri_key ?w i < limit ?w"
           "\<And>j. j < 117 \<Longrightarrow> candidate cid s j \<Longrightarrow> pri_key ?w i \<le> pri_key ?w j"
        by auto
      then show thesis
      proof cases
        case 1
        then have "\<not> may_interrupt cid s i" for i
          using range [of i] candidate_limit [OF ok(1), of i] by (meson leD)
        with 1 g Pair show thesis by (intro none) simp_all
      next
        case (2 i)
        then have "may_interrupt cid s i" using candidate_limit [OF ok(1), of i] by simp
        moreover have "pri_key ?w i \<le> pri_key ?w j" if "may_interrupt cid s j" for j
          using that range [OF that] candidate_limit [OF ok(1), of j] 2(5) by simp
        ultimately show thesis using 2 g Pair by (intro some [of i]) simp_all
      qed
    qed
  qed
qed

section \<open>The controller's steps\<close>

definition intc_ok :: "intc_state \<Rightarrow> bool" where
  "intc_ok s \<longleftrightarrow> (\<forall>c < 2. work_ok (ic_work s c) \<and> core_id (ic_cores s c) = of_nat c)"

lemma intc_okD: "intc_ok s \<Longrightarrow> c < 2 \<Longrightarrow> work_ok (ic_work s c)" "intc_ok s \<Longrightarrow> c < 2 \<Longrightarrow> unat (core_id (ic_cores s c)) = c"
  by (auto simp: intc_ok_def unat_of_nat)

lemma intc_ok_update:
  assumes "intc_ok s" and "\<And>c. c < 2 \<Longrightarrow> work_ok (ic_work s c) \<Longrightarrow> work_ok (ic_work s' c)"
    and "\<And>c. core_id (ic_cores s' c) = core_id (ic_cores s c)"
  shows "intc_ok s'"
  using assms by (simp add: intc_ok_def)

lemma request_eq:
  assumes "c < 2" and "i < 117"
  shows "common_raise_intr i c s =
    (let p = 16 + 2 * i + 251 * c; d = ic_data s p OR 0x80
     in Some (s\<lparr>ic_data := (ic_data s)(p := d), ic_work := (ic_work s)(c := set_wait_intno i (ucast (d AND 7)) (ic_work s c)),
                ic_cores := (ic_cores s)(c := (ic_cores s c)\<lparr>is_halt := False\<rparr>)\<rparr>))"
  using assms by (simp add: common_raise_intr_def Let_def small_consts set_work_def set_core_def)

lemma unat_level: "unat (ucast (d AND 7 :: u8) :: u32) < 8"
proof -
  have "unat (d AND 7) < 8"
    using word_and_le1 [of d 7] by (simp add: word_less_nat_alt word_le_nat_alt)
  then show ?thesis by (simp add: unsigned_ucast_eq take_bit_nat_eq_self)
qed

lemma request_result:
  assumes "c < 2" and "i < 117"
  shows "\<exists>s' l. common_raise_intr i c s = Some s' \<and> unat l < 8
     \<and> ic_work s' = (ic_work s)(c := set_wait_intno i l (ic_work s c)) \<and> (\<forall>k. core_id (ic_cores s' k) = core_id (ic_cores s k))"
  using unat_level by (auto simp: request_eq [OF assms] Let_def)

lemma end_result:
  assumes "c < 2" and "work_ok (ic_work s c)"
  shows "\<exists>s'. intc_clr_currlvl_ispr c s = Some s' \<and> ic_cores s' = ic_cores s
     \<and> ic_work s' = (ic_work s)(c := if current_intno (ic_work s c) = -1 then ic_work s c else finish_intr (ic_work s c))"
proof (cases "current_intno (ic_work s c) = -1")
  case True
  with assms(1) show ?thesis by (auto simp: intc_clr_currlvl_ispr_def small_consts)
next
  case False
  let ?w = "ic_work s c"
  have s: "service_ok ?w" using assms(2) by (simp add: work_ok_def)
  have r: "0 \<le> current_intno ?w" "nat (current_intno ?w) < 117"
    using s False current_range [OF s] by (auto simp: service_ok_def nat_less_iff)
  have o: "nat (saved_intno_off ?w - 1) < 8" if "0 < saved_intno_off ?w"
    using s that by (simp add: service_ok_def small_consts nat_less_iff)
  show ?thesis
    using assms(1) False r o
    by (auto simp: intc_clr_currlvl_ispr_def Let_def small_consts set_work_def finish_intr_def clr_wait_frame)
qed

lemma raise_result:
  assumes "c < 2" and "intc_ok s" and "i \<in> waiting_set (ic_work s c)"
  shows "intc_raise c i s = Some s \<and> (psw_isset CPU_PSW_NP (reg (ic_cores s c)) \<or> psw_isset CPU_PSW_ID (reg (ic_cores s c)))
    \<or> intc_raise c i s = None \<and> \<not> (psw_isset CPU_PSW_NP (reg (ic_cores s c)) \<or> psw_isset CPU_PSW_ID (reg (ic_cores s c)))
      \<and> current_intno (ic_work s c) \<noteq> -1 \<and> saved_intno_off (ic_work s c) = 8
    \<or> (\<exists>s'. intc_raise c i s = Some s' \<and> \<not> (psw_isset CPU_PSW_NP (reg (ic_cores s c)) \<or> psw_isset CPU_PSW_ID (reg (ic_cores s c)))
        \<and> ic_work s' = (ic_work s)(c := accept i (ic_work s c))
        \<and> (\<forall>k. core_id (ic_cores s' k) = core_id (ic_cores s k))
        \<and> (current_intno (ic_work s c) \<noteq> -1 \<longrightarrow> saved_intno_off (ic_work s c) < 8)
        \<and> reg_pc (reg (ic_cores s' c)) = 0x80 + 16 * of_nat i
        \<and> sys_get_cpu_base (reg (ic_cores s' c)) SYS_REG_EIPC = reg_pc (reg (ic_cores s c))
        \<and> sys_get_cpu_base (reg (ic_cores s' c)) SYS_REG_EIPSW = psw (reg (ic_cores s c))
        \<and> psw (reg (ic_cores s' c)) = put_flag 6 False (put_flag 5 True (psw (reg (ic_cores s c))))
        \<and> reg_r (reg (ic_cores s' c)) = reg_r (reg (ic_cores s c)) \<and> \<not> is_halt (ic_cores s' c)
        \<and> (\<forall>k. k \<noteq> c \<longrightarrow> ic_cores s' k = ic_cores s k)
        \<and> ic_nmi s' = ic_nmi s \<and> (\<forall>p. p \<noteq> 250 + 251 * c \<longrightarrow> ic_data s' p = ic_data s p))"
proof -
  let ?w = "ic_work s c" and ?g = "reg (ic_cores s c)"
  have w: "service_ok ?w" using intc_okD(1) [OF assms(2,1)] by (simp add: work_ok_def)
  have cid: "unat (core_id (ic_cores s c)) = c" by (rule intc_okD(2) [OF assms(2,1)])
  have i: "i < 117" using assms(3) by (simp add: waiting_set_def INTC_NUM_def)
  have off: "0 \<le> saved_intno_off ?w" "saved_intno_off ?w \<le> 8" using w by (simp_all add: service_ok_def small_consts)
  show ?thesis
  proof (cases "psw_isset CPU_PSW_NP ?g \<or> psw_isset CPU_PSW_ID ?g")
    case True
    with assms(1) i show ?thesis by (auto simp: intc_raise_def Let_def cid small_consts)
  next
    case False
    show ?thesis
    proof (cases "current_intno ?w \<noteq> -1 \<and> saved_intno_off ?w = 8")
      case True
      with False assms(1) i show ?thesis by (auto simp: intc_raise_def Let_def cid small_consts)
    next
      case nf: False
      then have "current_intno ?w \<noteq> -1 \<Longrightarrow> nat (saved_intno_off ?w) < 8" using off by linarith
      with False nf assms(1) i off show ?thesis
        by (auto simp: intc_raise_def Let_def cid small_consts accept_def set_work_def set_core_def INTC_MASK_ECR_CODE_def
            flag_simps set_psw_base base_5)
    qed
  qed
qed

lemma raise_cores_frame:
  "core_id (raise_intwdt2 cpu) = core_id cpu" "core_id (raise_nmi cpu) = core_id cpu"
  by (simp_all add: raise_intwdt2_def raise_nmi_def Let_def)

text \<open>The program counter at which an interrupt is entered, and the state it leaves: the request
  is the new innermost service, the interrupted address and PSW are saved.\<close>

definition entered :: "nat \<Rightarrow> nat \<Rightarrow> intc_state \<Rightarrow> intc_state \<Rightarrow> bool" where
  "entered c i s s' \<longleftrightarrow> ic_work s' = (ic_work s)(c := accept i (ic_work s c))
     \<and> (\<forall>k. core_id (ic_cores s' k) = core_id (ic_cores s k))
     \<and> (current_intno (ic_work s c) \<noteq> -1 \<longrightarrow> saved_intno_off (ic_work s c) < 8)
     \<and> reg_pc (reg (ic_cores s' c)) = 0x80 + 16 * of_nat i
     \<and> sys_get_cpu_base (reg (ic_cores s' c)) SYS_REG_EIPC = reg_pc (reg (ic_cores s c))
     \<and> sys_get_cpu_base (reg (ic_cores s' c)) SYS_REG_EIPSW = psw (reg (ic_cores s c))
     \<and> psw (reg (ic_cores s' c)) = put_flag 6 False (put_flag 5 True (psw (reg (ic_cores s c))))
     \<and> reg_r (reg (ic_cores s' c)) = reg_r (reg (ic_cores s c)) \<and> \<not> is_halt (ic_cores s' c)
     \<and> (\<forall>k. k \<noteq> c \<longrightarrow> ic_cores s' k = ic_cores s k)
     \<and> ic_nmi s' = ic_nmi s \<and> (\<forall>p. p \<noteq> 250 + 251 * c \<longrightarrow> ic_data s' p = ic_data s p)"

definition most_urgent :: "nat \<Rightarrow> intc_state \<Rightarrow> nat \<Rightarrow> bool" where
  "most_urgent c s i \<longleftrightarrow> may_interrupt c s i
     \<and> (\<forall>j. may_interrupt c s j \<longrightarrow> pri_key (ic_work s c) i \<le> pri_key (ic_work s c) j)"

definition refuses :: "TargetCoreType \<Rightarrow> bool" where
  "refuses cpu \<longleftrightarrow> bit (psw (reg cpu)) 7 \<or> bit (psw (reg cpu)) 5"

lemma dispatch_cases:
  assumes "c < 2" and "intc_ok s"
  obtains (nmi) s' where "intwdt2_hasreq (ic_nmi s) \<or> 0 < nmi_reqnum (ic_nmi s)" "intc_raise_pending_intr c s = Some s'"
      "ic_work s' = ic_work s" "\<And>k. core_id (ic_cores s' k) = core_id (ic_cores s k)"
  | (none) "\<not> intwdt2_hasreq (ic_nmi s)" "nmi_reqnum (ic_nmi s) \<le> 0" "intc_raise_pending_intr c s = Some s" "\<And>i. \<not> may_interrupt c s i"
  | (refused) i where "\<not> intwdt2_hasreq (ic_nmi s)" "nmi_reqnum (ic_nmi s) \<le> 0" "most_urgent c s i" "refuses (ic_cores s c)" "intc_raise_pending_intr c s = Some s"
  | (overflow) i where "\<not> intwdt2_hasreq (ic_nmi s)" "nmi_reqnum (ic_nmi s) \<le> 0" "most_urgent c s i" "intc_raise_pending_intr c s = None" "\<not> refuses (ic_cores s c)"
      "current_intno (ic_work s c) \<noteq> -1" "saved_intno_off (ic_work s c) = 8"
  | (raised) i s' where "\<not> intwdt2_hasreq (ic_nmi s)" "nmi_reqnum (ic_nmi s) \<le> 0" "most_urgent c s i" "\<not> refuses (ic_cores s c)" "intc_raise_pending_intr c s = Some s'" "entered c i s s'"
proof -
  have cid: "unat (core_id (ic_cores s c)) = c" by (rule intc_okD(2) [OF assms(2,1)])
  have w: "work_ok (ic_work s c)" by (rule intc_okD(1) [OF assms(2,1)])
  show thesis
  proof (cases "intwdt2_hasreq (ic_nmi s) \<or> 0 < nmi_reqnum (ic_nmi s)")
    case True
    then have "\<exists>s'. intc_raise_pending_intr c s = Some s' \<and> ic_work s' = ic_work s \<and> (\<forall>k. core_id (ic_cores s' k) = core_id (ic_cores s k))"
      by (auto simp: intc_raise_pending_intr_def Let_def set_core_def raise_cores_frame)
    with True show thesis by (blast intro: nmi)
  next
    case False
    show thesis
    proof (cases rule: selection [OF assms(1) w])
      case 1
      with False show thesis by (intro that(2)) (simp_all add: intc_raise_pending_intr_def Let_def cid)
    next
      case some: (2 i)
      have urgent: "most_urgent c s i" using some(2,3) by (simp add: most_urgent_def)
      have wait: "i \<in> waiting_set (ic_work s c)" using some(2) by (simp add: may_interrupt_def)
      have ne: "int i \<noteq> current_intno (ic_work s c)" 
      proof
        assume "int i = current_intno (ic_work s c)"
        with some(2) show False unfolding may_interrupt_def by (metis less_irrefl nat_int of_nat_0_le_iff order_less_irrefl neg_0_le_iff_le not_one_le_zero)
      qed
      have d: "intc_raise_pending_intr c s = intc_raise c i s"
        using False some(1) ne by (simp add: intc_raise_pending_intr_def Let_def cid)
      show thesis
        using raise_result [OF assms(1,2) wait] urgent False that(3-5)
        unfolding d entered_def refuses_def psw_isset_flags by auto
    qed
  qed
qed

lemma entered_ok:
  assumes "intc_ok s" and "c < 2" and "may_interrupt c s i" and "entered c i s s'"
  shows "intc_ok s'"
proof (rule intc_ok_update [OF assms(1)])
  fix k :: nat
  assume "k < 2" "work_ok (ic_work s k)"
  moreover have "saved_intno_off (ic_work s c) < int INTC_NUM_INTLVL" if "work_ok (ic_work s c)"
    using that assms(4) by (auto simp: entered_def work_ok_def service_ok_def small_consts)
  ultimately show "work_ok (ic_work s' k)"
    using assms(3,4) accept_ok [of "ic_work s c" i] by (auto simp: entered_def may_interrupt_def)
next
  show "core_id (ic_cores s' k) = core_id (ic_cores s k)" for k using assms(4) by (simp add: entered_def)
qed

lemma dispatch_ok:
  assumes "intc_ok s" and "c < 2" and "intc_raise_pending_intr c s = Some s'"
  shows "intc_ok s'"
  using assms(2,1)
proof (cases rule: dispatch_cases)
  case (nmi t)
  with assms(3) show ?thesis by (intro intc_ok_update [OF assms(1)]) simp_all
next
  case (raised i t)
  with assms(3) have "s' = t" by simp
  with raised entered_ok [OF assms(1,2), of i t] show ?thesis by (simp add: most_urgent_def)
qed (use assms in simp_all)

section \<open>Mask registers\<close>

lemma hook_mask_bit_total:
  assumes "c < 2"
  shows "hook_mask_bit c d n i s = Some (if n + i = 54 \<or> 116 < n + i then s
     else s\<lparr>ic_data := (ic_data s)(16 + 2 * (n + i) + 251 * c :=
       if bit d i then ic_data s (16 + 2 * (n + i) + 251 * c) OR push_bit 6 1
       else ic_data s (16 + 2 * (n + i) + 251 * c) AND NOT (push_bit 6 1))\<rparr>)"
  using assms by (auto simp: hook_mask_bit_def Let_def INTC_PINTNO_NOUSE_def INTC_INTNO_MAX_def simp del: push_bit_of_1)

lemma for_each_keeps:
  assumes "\<And>i s. \<exists>s'. body i s = Some s' \<and> P s s'" and "\<And>s. P s s" and "\<And>a b c. P a b \<Longrightarrow> P b c \<Longrightarrow> P a c"
  shows "\<exists>s'. for_each body is s = Some s' \<and> P s s'"
proof (induction "is" arbitrary: s)
  case (Cons i "is")
  obtain t where "body i s = Some t" "P s t" using assms(1) by blast
  with Cons [of t] assms(3) show ?case by auto
qed (simp add: assms(2))

definition same_but_data :: "intc_state \<Rightarrow> intc_state \<Rightarrow> bool" where
  "same_but_data s s' \<longleftrightarrow> ic_work s' = ic_work s \<and> ic_cores s' = ic_cores s \<and> ic_nmi s' = ic_nmi s"

lemma hook_keeps:
  assumes "c < 2"
  shows "\<exists>s'. for_each (hook_mask_bit c d n) is s = Some s' \<and> same_but_data s s'"
  by (rule for_each_keeps) (auto simp: hook_mask_bit_total [OF assms] same_but_data_def)

lemma wr8_keeps: "wr8 p v s = Some s' \<Longrightarrow> same_but_data s s'"
  by (auto simp: wr8_def same_but_data_def split: if_splits)

section \<open>All the steps\<close>

text \<open>What happens to the controller: a device requests an interrupt of a core, the clock offers
  a core what is pending, a core writes the registers, NMI requests come and go, and the
  cores run, changing anything of themselves but their numbers.\<close>

inductive intc_step :: "intc_state \<Rightarrow> intc_state \<Rightarrow> bool" where
  request: "c < 2 \<Longrightarrow> i < INTC_NUM \<Longrightarrow> common_raise_intr i c s = Some s' \<Longrightarrow> intc_step s s'"
| clock: "c < 2 \<Longrightarrow> intc_raise_pending_intr c s = Some s' \<Longrightarrow> intc_step s s'"
| write8: "c < 2 \<Longrightarrow> intc_put_data8 c addr v8 s = Some s' \<Longrightarrow> intc_step s s'"
| write16: "c < 2 \<Longrightarrow> intc_put_data16 c addr v16 s = Some s' \<Longrightarrow> intc_step s s'"
| write32: "c < 2 \<Longrightarrow> intc_put_data32 c addr v32 s = Some s' \<Longrightarrow> intc_step s s'"
| nmi: "intc_step s (s\<lparr>ic_nmi := n\<rparr>)"
| program: "\<forall>c. core_id (cores c) = core_id (ic_cores s c) \<Longrightarrow> intc_step s (s\<lparr>ic_cores := cores\<rparr>)"

inductive_cases intc_stepE: "intc_step s s'"

lemma same_but_data_ok: "intc_ok s \<Longrightarrow> same_but_data s s' \<Longrightarrow> intc_ok s'"
  by (simp add: intc_ok_def same_but_data_def)

lemma same_but_data_trans: "same_but_data a b \<Longrightarrow> same_but_data b c \<Longrightarrow> same_but_data a c"
  by (simp add: same_but_data_def)

lemma wr16_keeps: "wr16 p v s = Some s' \<Longrightarrow> same_but_data s s'"
  by (auto simp: wr16_def bind_eq_Some_conv dest!: wr8_keeps intro: same_but_data_trans)

lemma end_ok: "intc_ok s \<Longrightarrow> c < 2 \<Longrightarrow> intc_clr_currlvl_ispr c s = Some s' \<Longrightarrow> intc_ok s'"
  using end_result [of c s] finish_ok(1) by (auto simp: intc_ok_def)

lemma hook_same: "c < 2 \<Longrightarrow> for_each (hook_mask_bit c d n) is s = Some s' \<Longrightarrow> same_but_data s s'"
  using hook_keeps [of c d n "is" s] by auto

lemma write8_ok:
  assumes "intc_ok s" and "c < 2" and "intc_put_data8 c addr v s = Some s'"
  shows "intc_ok s'"
proof -
  obtain t where t: "intc_hook_update_reg8 c addr v s = Some t" "wr8 (intc_get_pointer c addr) v t = Some s'"
    using assms(3) by (auto simp: intc_put_data8_def bind_eq_Some_conv)
  have "intc_ok t"
    using t(1) assms(1)
    by (auto simp: intc_hook_update_reg8_def Let_def split: if_splits
        dest: hook_same [OF assms(2)] end_ok [OF assms(1,2)] same_but_data_ok [OF assms(1)])
  then show ?thesis using same_but_data_ok wr8_keeps [OF t(2)] by blast
qed

lemma write16_ok:
  assumes "intc_ok s" and "c < 2" and "intc_put_data16 c addr v s = Some s'"
  shows "intc_ok s'"
proof -
  obtain t where t: "intc_hook_update_reg16 c addr v s = Some t" "wr16 (intc_get_pointer c addr) v t = Some s'"
    using assms(3) by (auto simp: intc_put_data16_def bind_eq_Some_conv)
  have "intc_ok t"
    using t(1) assms(1)
    by (auto simp: intc_hook_update_reg16_def Let_def split: if_splits
        dest: hook_same [OF assms(2)] same_but_data_ok [OF assms(1)])
  then show ?thesis using same_but_data_ok wr16_keeps [OF t(2)] by blast
qed

lemma step_ok: "intc_step s s' \<Longrightarrow> intc_ok s \<Longrightarrow> intc_ok s'"
proof (induction rule: intc_step.induct)
  case (request c i s s')
  have i: "i < 117" using request(2) by (simp add: INTC_NUM_def)
  with request(3) obtain l where l: "unat l < 8" "ic_work s' = (ic_work s)(c := set_wait_intno i l (ic_work s c))"
    "\<And>k. core_id (ic_cores s' k) = core_id (ic_cores s k)"
    using request_result [OF request(1) i, of s] by auto
  show ?case
    by (rule intc_ok_update [OF request(4) _ l(3)]) (use l set_wait_ok i in auto)
next
  case (clock c s s')
  then show ?case using dispatch_ok by blast
next
  case (write8 c addr v s s')
  then show ?case using write8_ok by blast
next
  case (write16 c addr v s s')
  then show ?case using write16_ok by blast
next
  case (write32 c addr v32 s s')
  then obtain t where "wr16 (intc_get_pointer c addr) (ucast v32) s = Some t" "wr16 (intc_get_pointer c addr + 2) (ucast (drop_bit 16 v32)) t = Some s'"
    by (auto simp: intc_put_data32_def Let_def bind_eq_Some_conv)
  with write32(3) show ?case by (blast dest: wr16_keeps same_but_data_ok)
qed (simp_all add: intc_ok_def)

lemma steps_ok: "intc_step\<^sup>*\<^sup>* s s' \<Longrightarrow> intc_ok s \<Longrightarrow> intc_ok s'"
  by (induction rule: rtranclp_induct) (auto intro: step_ok)

section \<open>The initial state\<close>

lemma init_work_ok: "work_ok (init_work w)"
proof -
  have i: "is_idle (init_work w) i" if "i < 117" for i
    using that by (simp add: is_idle_def init_work_def small_consts)
  have "waiting_set (init_work w) = {}" using i by (auto simp: waiting_set_def INTC_NUM_def)
  moreover have "in_service (init_work w) = []" by (simp add: in_service_def init_work_def)
  ultimately show ?thesis
    using i by (auto simp: work_ok_def slots_ok_def service_ok_def) (auto simp: init_work_def small_consts)
qed

lemma wr8_all: "for_each (\<lambda>i s. wr8 (f i) (v i) s) is s = Some s' \<Longrightarrow> same_but_data s s'"
  by (induction "is" arbitrary: s) (auto simp: bind_eq_Some_conv same_but_data_def dest!: wr8_keeps)

lemma wr16_all: "for_each (\<lambda>i s. wr16 (f i) (v i) s) is s = Some s' \<Longrightarrow> same_but_data s s'"
  by (induction "is" arbitrary: s) (auto simp: bind_eq_Some_conv same_but_data_def dest!: wr16_keeps)

lemma init_core_frame:
  assumes "init_core c s = Some s'"
  shows "ic_work s' = (ic_work s)(c := init_work (ic_work s c)) \<and> ic_cores s' = ic_cores s \<and> ic_nmi s' = ic_nmi s"
  using assms unfolding init_core_def Let_def
  by (auto simp: bind_eq_Some_conv set_work_def same_but_data_def simp del: for_each.simps upt_rec_numeral
      dest!: wr8_all wr16_all wr8_keeps)

lemma device_init_ok:
  assumes "device_init_intc 2 s = Some s'" and "\<And>c. c < 2 \<Longrightarrow> core_id (ic_cores s c) = of_nat c"
  shows "intc_ok s'"
proof -
  have u: "[0..<2] = [0, 1 :: nat]" by (simp add: upt_rec)
  obtain t where "init_core 0 (s\<lparr>ic_nmi := \<lparr>intwdt2_hasreq = False, nmi_reqnum = 0\<rparr>\<rparr>) = Some t" "init_core 1 t = Some s'"
    using assms(1) by (auto simp: device_init_intc_def u bind_eq_Some_conv)
  with assms(2) show ?thesis
    by (auto simp: intc_ok_def init_work_ok less_Suc_eq numeral_2_eq_2 dest!: init_core_frame)
qed

text \<open>C5: from initialisation on, whatever requests, register writes, clocks and programs come in
  whatever order, the bookkeeping of each core stays consistent: the count of waiting requests is
  the number of waiting interrupts, each has a level below 8 and is counted once, and the
  interrupts in service are waiting ones, each of strictly higher priority than the one it
  interrupted.\<close>

theorem intc_invariant:
  assumes "device_init_intc 2 s = Some s0" and "\<forall>c < 2. core_id (ic_cores s c) = of_nat c"
    and "intc_step\<^sup>*\<^sup>* s0 s'" and "c < 2"
  shows "let w = ic_work s' c in waiting_int_num w = of_nat (card (waiting_set w))
    \<and> (\<forall>i \<in> waiting_set w. waiting_lvl_num w i = 1 \<and> is_waiting_lvl w i < 8)
    \<and> set (in_service w) \<subseteq> waiting_set w \<and> length (in_service w) \<le> 9
    \<and> sorted_wrt (\<lambda>i j. pri_key w j < pri_key w i) (in_service w)"
proof -
  have "intc_ok s'" using steps_ok [OF assms(3)] device_init_ok [OF assms(1)] assms(2) by blast
  then have w: "work_ok (ic_work s' c)" using assms(4) by (simp add: intc_ok_def)
  then have "length (in_service (ic_work s' c)) \<le> 9"
    by (simp add: work_ok_def service_ok_def in_service_def small_consts nat_le_iff)
  with w show ?thesis
    by (auto simp: Let_def work_ok_def slots_ok_def service_ok_def waiting_set_def small_consts word_less_nat_alt)
qed

text \<open>A controller just reset, and the same with interrupt 7 requested on core 0.\<close>

definition sample_intc :: intc_state where
  "sample_intc = \<lparr>ic_nmi = \<lparr>intwdt2_hasreq = False, nmi_reqnum = 0\<rparr>,
     ic_work = (\<lambda>_. init_work \<lparr>current_intno = 0, saved_intno_off = 0, saved_intno_stack = (\<lambda>_. 0),
       is_waiting_lvl = (\<lambda>_. 0), waiting_lvl_num = (\<lambda>_. 0), waiting_int_num = 0\<rparr>),
     ic_data = (\<lambda>_. 0), ic_cores = (\<lambda>c. (sample_1 (\<lambda>_. 0))\<lparr>core_id := of_nat c\<rparr>)\<rparr>"

definition sample_intc_7 :: intc_state where
  "sample_intc_7 = sample_intc\<lparr>ic_work := (ic_work sample_intc)(0 := set_wait_intno 7 0 (ic_work sample_intc 0))\<rparr>"

lemma sample_intc_ok: "intc_ok sample_intc" "intc_ok sample_intc_7"
  by (auto simp: intc_ok_def sample_intc_def sample_intc_7_def init_work_ok intro!: set_wait_ok)

lemma for_each_defined:
  "(\<And>i s. i \<in> set is \<Longrightarrow> \<exists>s'. body i s = Some s') \<Longrightarrow> \<exists>s'. for_each body is s = Some s'"
proof (induction "is" arbitrary: s)
  case (Cons i "is")
  then obtain t where "body i s = Some t" by fastforce
  with Cons show ?case by simp
qed simp

lemma init_core_total: "c < 2 \<Longrightarrow> \<exists>s'. init_core c s = Some s'"
proof -
  assume c: "c < 2"
  let ?f = "\<lambda>i s. wr8 (intc_reg_pointer c (intc_regaddr_icn i)) 0x47 s"
  obtain t where t: "for_each ?f [0..<117] (set_work c (init_work (ic_work s c)) s) = Some t"
    using c for_each_defined [of "[0..<117]" ?f] by fastforce
  have a: "\<exists>t'. wr16 (intc_reg_pointer c r) v t = Some t'" if "intc_reg_pointer c r + 1 < 502" for r v t
    using that by (simp add: wr16_def wr8_def data_in_simps)
  have b: "intc_reg_pointer c r + 1 < 502" if "r \<in> set [0xFFFFF100, 0xFFFFF102, 0xFFFFF104, 0xFFFFF106, 0xFFFFF108, 0xFFFFF10A, 0xFFFFF10C, 0xFFFFF10E]" for r
    using c that by (auto simp: intc_reg_pointer_def intc_get_pointer_def intc_consts)
  obtain u where u: "for_each (\<lambda>r s. wr16 (intc_reg_pointer c r) 0xFFFF s)
     [0xFFFFF100, 0xFFFFF102, 0xFFFFF104, 0xFFFFF106, 0xFFFFF108, 0xFFFFF10A, 0xFFFFF10C] t = Some u"
    using for_each_defined [of "[0xFFFFF100, 0xFFFFF102, 0xFFFFF104, 0xFFFFF106, 0xFFFFF108, 0xFFFFF10A, 0xFFFFF10C]"
      "\<lambda>r s. wr16 (intc_reg_pointer c r) 0xFFFF s"] a b by fastforce
  have "\<exists>w. wr8 (intc_reg_pointer c 0xFFFFF10E) 0x1F u = Some w"
    using b [of "0xFFFFF10E"] by (simp add: wr8_def data_in_simps)
  with c t u show ?thesis
    by (auto simp: init_core_def Let_def small_consts simp del: for_each.simps upt_rec_numeral)
qed

lemma device_init_total: "\<exists>s'. device_init_intc 2 s = Some s'"
  using for_each_defined [of "[0..<2]" init_core] init_core_total by (fastforce simp: device_init_intc_def)

lemma intc_invariant_witness:
  "\<exists>s0 s'. device_init_intc 2 sample_intc = Some s0 \<and> common_raise_intr 7 0 s0 = Some s'
     \<and> waiting_int_num (ic_work s' 0) = of_nat (card (waiting_set (ic_work s' 0)))
     \<and> length (in_service (ic_work s' 0)) \<le> 9"
proof -
  have cid: "\<forall>c < 2. core_id (ic_cores sample_intc c) = of_nat c" by (simp add: sample_intc_def)
  obtain s0 where s0: "device_init_intc 2 sample_intc = Some s0" using device_init_total by blast
  obtain s' where s': "common_raise_intr 7 0 s0 = Some s'" using request_result [of 0 7 s0] by auto
  then have "intc_step s0 s'" by (intro intc_step.request [of 0 7]) (simp_all add: INTC_NUM_def)
  then have "intc_step\<^sup>*\<^sup>* s0 s'" by simp
  from intc_invariant [OF s0 cid this, of 0] s0 s' show ?thesis by (simp add: Let_def)
qed

lemma sample_intc_7_urgent:
  "may_interrupt 0 sample_intc_7 i \<longleftrightarrow> i = 7" "\<not> refuses (ic_cores sample_intc_7 0)"
  "\<not> intwdt2_hasreq (ic_nmi sample_intc_7)" "nmi_reqnum (ic_nmi sample_intc_7) \<le> 0"
  "current_intno (ic_work sample_intc_7 0) = -1"
proof -
  let ?s = sample_intc_7
  have w: "is_idle (ic_work ?s 0) i \<longleftrightarrow> i \<noteq> 7" if "i < 117" for i
    using that by (simp add: sample_intc_7_def sample_intc_def is_idle_def set_wait_intno_def init_work_def small_consts)
  show cur: "current_intno (ic_work ?s 0) = -1"
    by (simp add: sample_intc_7_def sample_intc_def is_idle_def set_wait_intno_def init_work_def small_consts)
  show "may_interrupt 0 ?s i \<longleftrightarrow> i = 7"
    using w [of i] cur by (auto simp: may_interrupt_def waiting_set_def masked_def INTC_NUM_def)
      (simp add: sample_intc_7_def sample_intc_def)
  show "\<not> refuses (ic_cores ?s 0)"
    by (simp add: refuses_def sample_intc_7_def sample_intc_def sample_1_def)
  show "\<not> intwdt2_hasreq (ic_nmi ?s)" "nmi_reqnum (ic_nmi ?s) \<le> 0"
    by (simp_all add: sample_intc_7_def sample_intc_def)
qed

text \<open>C6: what the clock does to a core, in every state the controller reaches: with no NMI
  pending it enters the handler of the waiting, unmasked interrupt of the highest priority (level
  first, then number) above that in service, saving the interrupted address and PSW, disabling
  further interrupts and leaving the general registers and the other core alone, unless the
  PSW refuses interrupts or none may interrupt, when nothing changes. It is undefined exactly
  when the nine-deep nest of services would grow: the array of saved interrupts has 8 entries.\<close>

theorem intc_dispatch:
  assumes "intc_ok s" and "c < 2" and "\<not> intwdt2_hasreq (ic_nmi s)" and "nmi_reqnum (ic_nmi s) \<le> 0"
  shows "(intc_raise_pending_intr c s = Some s \<and> ((\<forall>i. \<not> may_interrupt c s i) \<or> refuses (ic_cores s c)))
    \<or> (\<exists>i s'. intc_raise_pending_intr c s = Some s' \<and> most_urgent c s i \<and> \<not> refuses (ic_cores s c) \<and> entered c i s s')
    \<or> (intc_raise_pending_intr c s = None \<and> (\<exists>i. most_urgent c s i) \<and> \<not> refuses (ic_cores s c) \<and> length (in_service (ic_work s c)) = 9)"
  using assms(2,1)
proof (cases rule: dispatch_cases)
  case (nmi s')
  with assms(3,4) show ?thesis by simp
next
  case (overflow i)
  moreover have "length (in_service (ic_work s c)) = 9" using overflow by (simp add: in_service_def)
  ultimately show ?thesis by blast
qed blast+

lemma intc_dispatch_witness:
  "\<exists>s'. intc_raise_pending_intr 0 sample_intc_7 = Some s' \<and> entered 0 7 sample_intc_7 s'"
proof -
  have "in_service (ic_work sample_intc_7 0) = []" using sample_intc_7_urgent(5) by (simp add: in_service_def)
  with intc_dispatch [OF sample_intc_ok(2) _ sample_intc_7_urgent(3,4), of 0] sample_intc_7_urgent(1,2) show ?thesis
    by (auto simp: most_urgent_def)
qed

end
