(* ===== verification/V850_Float_Correct.thy ===== *)
theory V850_Float_Correct
  imports V850_Fpu_Ops
begin

unbundle bit_operations_syntax

text \<open>
  Exactness of the arithmetic of \<open>V850_Float\<close>: rounding a number that the format holds returns
  it with no exception, so that sums, differences, products and conversions of integers below
  2^24 are exact in \<open>float\<close>.
\<close>

section \<open>Lengths of numbers\<close>

lemma bitlen_0 [simp]: "bitlen 0 = 0"
  by (simp add: bitlen.simps)

lemma bitlen_pos: "0 < n \<Longrightarrow> bitlen n = Suc (bitlen (n div 2))"
  by (simp add: bitlen.simps [of n])

lemma bitlen_bounds: "0 < n \<Longrightarrow> 2 ^ (bitlen n - 1) \<le> n \<and> n < 2 ^ bitlen n"
proof (induction n rule: bitlen.induct)
  case (1 n)
  show ?case
  proof (cases "n = 1")
    case True
    then show ?thesis by (simp add: bitlen_pos)
  next
    case False
    then have d: "0 < n div 2" using 1(2) by linarith
    then have "2 ^ (bitlen (n div 2) - 1) \<le> n div 2" "n div 2 < 2 ^ bitlen (n div 2)" using 1 by auto
    moreover obtain k where "bitlen (n div 2) = Suc k" using d by (simp add: bitlen_pos)
    ultimately show ?thesis using 1(2) by (simp add: bitlen_pos [of n]) linarith
  qed
qed

lemma bitlen_unique:
  assumes "2 ^ k \<le> n" and "n < 2 ^ Suc k"
  shows "bitlen n = Suc k"
proof -
  have n: "0 < n" using assms(1) by (metis gr0I not_le power_eq_0_iff zero_less_power zero_neq_numeral le_zero_eq)
  note b = bitlen_bounds [OF n]
  have "k < bitlen n" using assms(1) b by (metis order_le_less_trans nat_power_less_imp_less zero_less_numeral)
  moreover have "bitlen n - 1 < Suc k" using assms(2) b by (metis order_le_less_trans nat_power_less_imp_less zero_less_numeral)
  ultimately show ?thesis by linarith
qed

lemma bitlen_le: "n < 2 ^ k \<Longrightarrow> bitlen n \<le> k"
proof (cases "n = 0")
  case False
  assume "n < 2 ^ k"
  with False bitlen_bounds [of n] have "2 ^ (bitlen n - 1) < (2 :: nat) ^ k" by linarith
  then have "bitlen n - 1 < k" by (rule nat_power_less_imp_less [rotated]) simp
  then show ?thesis by linarith
qed simp

lemma bitlen_shift: "0 < n \<Longrightarrow> bitlen (n * 2 ^ k) = bitlen n + k"
  by (induction k) (simp_all add: bitlen_pos [of "n * (2 * 2 ^ k)" for k])

section \<open>Rounding\<close>

lemma round_nat_exact [simp]: "round_nat rm s (m * 2 ^ k) k False = (m, False)"
  by (simp add: round_nat_def split: fe_round.split)

lemma round_nat_scale: "round_nat rm s (m * 2 ^ k) (j + k) False = round_nat rm s m j False"
proof -
  have "m * 2 ^ k mod 2 ^ (j + k) = (m mod 2 ^ j) * 2 ^ k"
    by (simp add: power_add mult_mod_left)
  moreover have "m * 2 ^ k div 2 ^ (j + k) = m div 2 ^ j" by (simp add: power_add)
  moreover have "2 ^ (j + k) < 2 * (x * 2 ^ k) \<longleftrightarrow> 2 ^ j < 2 * x" "2 * (x * 2 ^ k) = 2 ^ (j + k) \<longleftrightarrow> 2 * x = 2 ^ j" for x :: nat
    by (simp_all add: power_add flip: mult.assoc)
  ultimately show ?thesis by (simp add: round_nat_def Let_def split: fe_round.split)
qed

lemma round_at_scale: "round_at rm s (m * 2 ^ k) (e - int k) False t = round_at rm s m e False t"
proof -
  consider (low) "t \<le> e - int k" | (mid) "e - int k < t" "t \<le> e" | (high) "e < t" by linarith
  then show ?thesis
  proof cases
    case low
    then have "nat (e - t) = k + nat (e - int k - t)" by linarith
    with low show ?thesis by (simp add: round_at_def power_add)
  next
    case mid
    then have k: "k = nat (e - t) + nat (t - (e - int k))" by linarith
    have "round_nat rm s (m * 2 ^ nat (e - t) * 2 ^ nat (t - (e - int k))) (nat (t - (e - int k))) False = (m * 2 ^ nat (e - t), False)"
      by (rule round_nat_exact)
    also have "m * 2 ^ nat (e - t) * 2 ^ nat (t - (e - int k)) = m * 2 ^ k"
      using k by (metis mult.assoc power_add)
    finally show ?thesis using mid by (simp add: round_at_def)
  next
    case high
    then have "nat (t - (e - int k)) = nat (t - e) + k" by linarith
    with high show ?thesis by (simp add: round_at_def round_nat_scale)
  qed
qed

text \<open>Rounding depends on the number alone, not on how it is split into mantissa and exponent.\<close>

lemma fp_tiny_scale:
  "0 < m \<Longrightarrow> fp_tiny h F rm s (m * 2 ^ k) (e - int k) False = fp_tiny h F rm s m e False"
  by (simp add: fp_tiny_def bitlen_shift round_at_scale)

lemma fp_round_scale:
  assumes "0 < m"
  shows "fp_round h F rm s (m * 2 ^ k) (e - int k) False = fp_round h F rm s m e False"
proof -
  have "e - int k + int (bitlen m + k) = e + int (bitlen m)" by simp
  then show ?thesis
    unfolding fp_round_def bitlen_shift [OF assms] round_at_scale fp_tiny_scale [OF assms] by (rule ssubst) (rule refl)
qed

lemma fp_round_same:
  assumes "0 < m" and "m * 2 ^ nat (e - d) = n * 2 ^ nat (f - d)" and "d \<le> e" and "d \<le> f"
  shows "fp_round h F rm s m e False = fp_round h F rm s n f False"
proof -
  have n: "0 < n" using assms(1,2) by (cases n) auto
  show ?thesis
    using fp_round_scale [OF assms(1), of h F rm s "nat (e - d)" e] fp_round_scale [OF n, of h F rm s "nat (f - d)" f] assms(2-4)
    by simp
qed

text \<open>A number of at most the format's precision is represented exactly, without an exception.\<close>

definition exact_fp :: "fp_format \<Rightarrow> bool \<Rightarrow> nat \<Rightarrow> int \<Rightarrow> fp" where
  "exact_fp F s m e =
     (let p = man_bits F;
          t = max (e + int (bitlen m) - int (p + 1)) (1 - exp_bias F - int p);
          q = m * 2 ^ nat (e - t)
      in Fp s (if q < 2 ^ p then 0 else nat (t + int p + exp_bias F)) (q mod 2 ^ p))"

definition fits :: "fp_format \<Rightarrow> nat \<Rightarrow> int \<Rightarrow> bool" where
  "fits F m e \<longleftrightarrow> m < 2 ^ Suc (man_bits F) \<and> 1 - exp_bias F - int (man_bits F) \<le> e
     \<and> e + int (bitlen m) \<le> exp_bias F + 1"

definition format_ok :: "fp_format \<Rightarrow> bool" where
  "format_ok F \<longleftrightarrow> exp_bias F + exp_bias F + 1 = int (exp_top F)"

text \<open>The significand \<open>q\<close> of an exact number and the weight \<open>t\<close> of its last bit.\<close>

lemma exact_significand:
  assumes "0 < m" and "fits F m e" and "format_ok F"
    and t_def: "t = max (e + int (bitlen m) - int (man_bits F + 1)) (1 - exp_bias F - int (man_bits F))"
    and q_def: "q = m * 2 ^ nat (e - t)"
  shows "t \<le> e" and "q < 2 ^ Suc (man_bits F)"
    and "2 ^ man_bits F \<le> q \<Longrightarrow> t = e + int (bitlen m) - int (man_bits F + 1)"
    and "q < 2 ^ man_bits F \<Longrightarrow> t = 1 - exp_bias F - int (man_bits F)"
proof -
  note a = assms(2,3) [unfolded fits_def format_ok_def]
  define p where "p = man_bits F"
  have len: "bitlen m \<le> Suc p" using bitlen_le [of m "Suc (man_bits F)"] a by (simp add: p_def)
  show t: "t \<le> e" using len a by (simp add: t_def p_def)
  have q0: "0 < q" using assms(1) by (simp add: q_def)
  have bq: "bitlen q = bitlen m + nat (e - t)" using bitlen_shift [OF assms(1)] by (simp add: q_def)
  have "int (bitlen m) + (e - t) \<le> int (Suc p)" by (simp add: t_def p_def)
  then have bq': "bitlen q \<le> Suc p" using t by (simp add: bq)
  show "q < 2 ^ Suc (man_bits F)"
    using bitlen_bounds [OF q0] bq' unfolding p_def by (meson order_less_le_trans power_increasing one_le_numeral)
  show "t = e + int (bitlen m) - int (man_bits F + 1)" if "2 ^ man_bits F \<le> q"
  proof -
    have "p < bitlen q" using that bitlen_bounds [OF q0] unfolding p_def
      by (metis nat_power_less_imp_less order_le_less_trans zero_less_numeral)
    then have "bitlen q = Suc p" using bq' by simp
    with t show ?thesis by (simp add: bq p_def)
  qed
  show "t = 1 - exp_bias F - int (man_bits F)" if "q < 2 ^ man_bits F"
  proof -
    have "bitlen q \<le> p" using bitlen_le [OF that] by (simp add: p_def)
    then have "bitlen m + nat (e - t) \<le> p" by (simp add: bq)
    then show ?thesis using t by (simp add: t_def max_def p_def split: if_splits)
  qed
qed

lemma fp_round_exact:
  assumes "0 < m" and "fits F m e" and "format_ok F"
  shows "fp_round h F rm s m e False = (exact_fp F s m e, [])" and "fp_valid F (exact_fp F s m e)"
    and "fp_exp (exact_fp F s m e) < exp_top F" and "fp_lsb F (exact_fp F s m e) \<le> e"
    and "fp_sig F (exact_fp F s m e) = m * 2 ^ nat (e - fp_lsb F (exact_fp F s m e))"
proof -
  note a = assms(2,3) [unfolded fits_def format_ok_def]
  define p where "p = man_bits F"
  define t where "t = max (e + int (bitlen m) - int (p + 1)) (1 - exp_bias F - int p)"
  define q where "q = m * 2 ^ nat (e - t)"
  note sig = exact_significand [OF assms t_def [unfolded p_def] q_def, folded p_def]
  note t = sig(1) and q = sig(2) and norm = sig(3) and low = sig(4)
  have ra: "round_at rm s m e False t = (q, False)" using t by (simp add: round_at_def q_def)
  define E where "E = (if q < 2 ^ p then 0 else nat (t + int p + exp_bias F))"
  have x: "exact_fp F s m e = Fp s E (q mod 2 ^ p)"
    unfolding exact_fp_def Let_def E_def q_def t_def p_def ..
  have b0: "0 \<le> exp_bias F" using a by linarith
  have top0: "0 < exp_top F" using b0 a by linarith
  have Etop: "E < exp_top F"
  proof (cases "q < 2 ^ p")
    case True
    then show ?thesis using top0 by (simp add: E_def)
  next
    case False
    then have "t + int p + exp_bias F < int (exp_top F)" using norm a by simp
    with False top0 show ?thesis by (simp add: E_def nat_less_iff)
  qed
  have Epos: "0 < E" if "2 ^ p \<le> q"
    using that by (simp add: E_def t_def)
  have lsb: "fp_lsb F (Fp s E (q mod 2 ^ p)) = t"
  proof (cases "q < 2 ^ p")
    case True
    then show ?thesis using low by (simp add: fp_lsb_def E_def p_def)
  next
    case False
    then have "0 < E" using Epos by simp
    moreover have "int E = t + int p + exp_bias F" using False \<open>0 < E\<close> by (simp add: E_def)
    ultimately show ?thesis by (simp add: fp_lsb_def p_def max_def)
  qed
  have fsig: "fp_sig F (Fp s E (q mod 2 ^ p)) = q"
  proof (cases "q < 2 ^ p")
    case True
    then show ?thesis by (simp add: fp_sig_def E_def)
  next
    case False
    then have "q mod 2 ^ p = q - 2 ^ p" using q by (simp add: mod_if)
    with False Epos show ?thesis by (simp add: fp_sig_def p_def)
  qed
  have r: "fp_round h F rm s m e False = (Fp s E (q mod 2 ^ p), [])"
    unfolding fp_round_def Let_def p_def [symmetric] t_def [symmetric] ra prod.case
    using q Etop by (simp flip: E_def)
  show "fp_round h F rm s m e False = (exact_fp F s m e, [])" using r by (simp only: x)
  show "fp_valid F (exact_fp F s m e)" using Etop by (simp add: x fp_valid_def p_def)
  show "fp_exp (exact_fp F s m e) < exp_top F" using Etop by (simp add: x)
  show "fp_lsb F (exact_fp F s m e) \<le> e" using t by (simp only: x lsb)
  show "fp_sig F (exact_fp F s m e) = m * 2 ^ nat (e - fp_lsb F (exact_fp F s m e))" 
    by (simp only: x fsig lsb) (simp only: q_def)
qed

lemma format_ok_top: "format_ok F \<Longrightarrow> 0 < exp_top F"
proof -
  assume f: "format_ok F"
  then have "0 \<le> exp_bias F" unfolding format_ok_def by linarith
  with f show ?thesis unfolding format_ok_def by linarith
qed

lemma fp_round_zero: "format_ok F \<Longrightarrow> fp_round h F rm s 0 e False = (Fp s 0 0, [])"
  using format_ok_top [of F] by (simp add: fp_round_def Let_def round_at_def round_nat_def split: fe_round.split)

lemma format_ok_FLT [simp]: "format_ok FLT" and format_ok_DBL [simp]: "format_ok DBL"
  by (simp_all add: format_ok_def FLT_def DBL_def exp_bias_def exp_top_def)

section \<open>Integers as \<open>float\<close> numbers\<close>

text \<open>\<open>x\<close> is the number \<open>n\<close>, with at most 24 significant bits.\<close>

definition int_fp :: "int \<Rightarrow> fp" where
  "int_fp n = exact_fp FLT (n < 0) (nat \<bar>n\<bar>) 0"

definition holds_int :: "fp \<Rightarrow> int \<Rightarrow> bool" where
  "holds_int x n \<longleftrightarrow> fp_valid FLT x \<and> fp_exp x < exp_top FLT \<and> fp_lsb FLT x \<le> 0
     \<and> fp_int FLT x = n * 2 ^ nat (- fp_lsb FLT x) \<and> (n \<noteq> 0 \<longrightarrow> fp_neg x = (n < 0))"

lemma FLT_values [simp]: "man_bits FLT = 23" "exp_bias FLT = 127" "exp_top FLT = 255"
  by (simp_all add: FLT_def exp_bias_def exp_top_def)

lemma DBL_values [simp]: "man_bits DBL = 52" "exp_bias DBL = 1023" "exp_top DBL = 2047"
  by (simp_all add: DBL_def exp_bias_def exp_top_def)

lemma fits_int: "m < 2 ^ 24 \<Longrightarrow> fits FLT m 0"
  using bitlen_le [of m 24] by (simp add: fits_def)

lemma int_fp_zero: "int_fp 0 = fp_zero False"
  by (simp add: int_fp_def exact_fp_def fp_zero_def)

lemma round_int:
  assumes "\<bar>n\<bar> < 2 ^ 24" and "n \<noteq> 0" and "d \<le> 0"
  shows "fp_round h FLT rm (n < 0) (nat \<bar>n\<bar> * 2 ^ nat (- d)) d False = (int_fp n, [])"
proof -
  have m: "0 < nat \<bar>n\<bar>" "nat \<bar>n\<bar> < 2 ^ 24" using assms(1,2) by (simp_all add: nat_less_iff)
  have "fp_round h FLT rm (n < 0) (nat \<bar>n\<bar> * 2 ^ nat (- d)) (0 - int (nat (- d))) False = (int_fp n, [])"
    unfolding fp_round_scale [OF m(1)] int_fp_def by (rule fp_round_exact(1) [OF m(1) fits_int [OF m(2)] format_ok_FLT])
  then show ?thesis using assms(3) by simp
qed

lemma holds_int_fp: "\<bar>n\<bar> < 2 ^ 24 \<Longrightarrow> holds_int (int_fp n) n"
proof (cases "n = 0")
  case True
  then show ?thesis by (simp add: int_fp_zero holds_int_def fp_zero_def fp_valid_def fp_lsb_def fp_int_def fp_sig_def)
next
  case False
  assume "\<bar>n\<bar> < 2 ^ 24"
  with False have m: "0 < nat \<bar>n\<bar>" "nat \<bar>n\<bar> < 2 ^ 24" by (simp_all add: nat_less_iff)
  note x = fp_round_exact [OF m(1) fits_int [OF m(2)] format_ok_FLT, where s = "n < 0", folded int_fp_def]
  have neg: "fp_neg (int_fp n) \<longleftrightarrow> n < 0" by (simp add: int_fp_def exact_fp_def Let_def)
  then have "fp_int FLT (int_fp n) = n * 2 ^ nat (- fp_lsb FLT (int_fp n))"
    using x(5) by (simp add: fp_int_def)
  with x neg show ?thesis by (simp add: holds_int_def)
qed

lemma holds_not_special:
  "holds_int x n \<Longrightarrow> \<not> fp_is_nan FLT x" "holds_int x n \<Longrightarrow> \<not> fp_is_inf FLT x"
  by (auto simp: holds_int_def fp_is_nan_def fp_is_inf_def)

lemma holds_minus: "holds_int x n \<Longrightarrow> holds_int (fp_minus x) (- n)"
  by (auto simp: holds_int_def fp_minus_def fp_valid_def fp_lsb_def fp_int_def fp_sig_def)

lemma holds_sig: "holds_int x n \<Longrightarrow> fp_sig FLT x = nat \<bar>n\<bar> * 2 ^ nat (- fp_lsb FLT x)"
proof -
  assume "holds_int x n"
  then have "\<bar>fp_int FLT x\<bar> = \<bar>n\<bar> * 2 ^ nat (- fp_lsb FLT x)" by (simp add: holds_int_def abs_mult)
  then have "int (fp_sig FLT x) = int (nat \<bar>n\<bar> * 2 ^ nat (- fp_lsb FLT x))"
    by (simp add: fp_int_def split: if_splits)
  then show ?thesis by (simp only: of_nat_eq_iff)
qed

lemma add_ints:
  assumes "holds_int x a" and "holds_int y b" and "\<bar>a + b\<bar> < 2 ^ 24" and "rm \<noteq> FE_DOWNWARD"
    and "a + b = 0 \<Longrightarrow> \<not> (fp_neg x \<and> fp_neg y)"
  shows "fp_add h FLT rm x y = (int_fp (a + b), [])"
proof -
  let ?i = "fp_lsb FLT x" and ?j = "fp_lsb FLT y"
  define e where "e = min ?i ?j"
  have l: "?i \<le> 0" "?j \<le> 0" and v: "fp_int FLT x = a * 2 ^ nat (- ?i)" "fp_int FLT y = b * 2 ^ nat (- ?j)"
    using assms(1,2) by (simp_all add: holds_int_def)
  have "nat (- ?i) + nat (?i - e) = nat (- e)" "nat (- ?j) + nat (?j - e) = nat (- e)" using l by (simp_all add: e_def)
  then have n: "fp_int FLT x * 2 ^ nat (?i - e) + fp_int FLT y * 2 ^ nat (?j - e) = (a + b) * 2 ^ nat (- e)"
    unfolding v by (simp add: mult.assoc distrib_right flip: power_add)
  have s: "fp_add h FLT rm x y = fp_sum h FLT rm (fp_neg x) (fp_int FLT x) ?i (fp_neg y) (fp_int FLT y) ?j"
    using holds_not_special [OF assms(1)] holds_not_special [OF assms(2)] by (simp add: fp_add_def)
  show ?thesis
  proof (cases "a + b = 0")
    case True
    with assms(4,5) n show ?thesis by (auto simp: s fp_sum_def Let_def int_fp_zero simp flip: e_def)
  next
    case False
    have "(a + b) * 2 ^ nat (- e) < 0 \<longleftrightarrow> a + b < 0" by (simp add: mult_less_0_iff)
    moreover have "nat \<bar>(a + b) * 2 ^ nat (- e)\<bar> = nat \<bar>a + b\<bar> * 2 ^ nat (- e)"
      by (simp add: abs_mult nat_mult_distrib nat_power_eq)
    ultimately have "fp_sum h FLT rm (fp_neg x) (fp_int FLT x) ?i (fp_neg y) (fp_int FLT y) ?j
        = fp_round h FLT rm (a + b < 0) (nat \<bar>a + b\<bar> * 2 ^ nat (- e)) e False"
      using False unfolding fp_sum_def Let_def e_def [symmetric] n by simp
    also have "\<dots> = (int_fp (a + b), [])"
      by (rule round_int [OF assms(3) False]) (use l in \<open>simp add: e_def\<close>)
    finally show ?thesis by (simp add: s)
  qed
qed

lemma sub_ints:
  assumes "holds_int x a" and "holds_int y b" and "\<bar>a - b\<bar> < 2 ^ 24" and "rm \<noteq> FE_DOWNWARD"
    and "a - b = 0 \<Longrightarrow> \<not> (fp_neg x \<and> \<not> fp_neg y)"
  shows "fp_sub h FLT rm x y = (int_fp (a - b), [])"
  using add_ints [OF assms(1) holds_minus [OF assms(2)], of rm h] assms holds_not_special [OF assms(1)] holds_not_special [OF assms(2)]
  by (simp add: fp_sub_def fp_minus_def)

lemma mul_ints:
  assumes "holds_int x a" and "holds_int y b" and "\<bar>a * b\<bar> < 2 ^ 24" and "a * b \<noteq> 0"
  shows "fp_mul h FLT rm x y = (int_fp (a * b), [])"
proof -
  let ?i = "fp_lsb FLT x" and ?j = "fp_lsb FLT y"
  have l: "?i \<le> 0" "?j \<le> 0" and s: "fp_neg x = (a < 0)" "fp_neg y = (b < 0)"
    using assms by (simp_all add: holds_int_def)
  have "fp_sig FLT x * fp_sig FLT y = nat \<bar>a * b\<bar> * 2 ^ (nat (- ?i) + nat (- ?j))"
    by (simp add: holds_sig [OF assms(1)] holds_sig [OF assms(2)] abs_mult nat_mult_distrib power_add ac_simps)
  also have "nat (- ?i) + nat (- ?j) = nat (- (?i + ?j))" using l by simp
  finally have p: "fp_sig FLT x * fp_sig FLT y = nat \<bar>a * b\<bar> * 2 ^ nat (- (?i + ?j))" .
  have "(fp_neg x \<noteq> fp_neg y) = (a * b < 0)" using assms(4) s by (auto simp: mult_less_0_iff)
  then have "fp_mul h FLT rm x y = fp_round h FLT rm (a * b < 0) (nat \<bar>a * b\<bar> * 2 ^ nat (- (?i + ?j))) (?i + ?j) False"
    using holds_not_special [OF assms(1)] holds_not_special [OF assms(2)] by (simp add: fp_mul_def p)
  also have "\<dots> = (int_fp (a * b), [])" by (rule round_int [OF assms(3,4)]) (use l in simp)
  finally show ?thesis .
qed

lemma of_int_exact: "\<bar>n\<bar> < 2 ^ 24 \<Longrightarrow> fp_of_int h FLT rm n = (int_fp n, [])"
  using round_int [of n 0 h rm] by (cases "n = 0") (simp_all add: fp_of_int_def fp_round_zero int_fp_zero fp_zero_def)

lemma integral_int:
  assumes "holds_int x n"
  shows "round_at rm (fp_neg x) (fp_sig FLT x) (fp_lsb FLT x) False 0 = (nat \<bar>n\<bar>, False)"
proof (cases "fp_lsb FLT x = 0")
  case True
  then show ?thesis using holds_sig [OF assms] by (simp add: round_at_def)
next
  case False
  then have "fp_lsb FLT x < 0" using assms by (simp add: holds_int_def)
  then show ?thesis using holds_sig [OF assms] by (simp add: round_at_def)
qed

lemma to_int_exact:
  assumes "holds_int x n" and "lo \<le> n" and "n \<le> hi"
  shows "fp_to_int h FLT lo hi x = Some (n, [])"
proof -
  have "fp_integral FLT FE_TOWARDZERO x = (n, False)"
    using assms(1) integral_int [OF assms(1), of FE_TOWARDZERO] by (cases "n = 0") (auto simp: fp_integral_def holds_int_def)
  with assms show ?thesis by (simp add: fp_to_int_def holds_int_def)
qed

lemma rint_exact:
  assumes "\<bar>n\<bar> < 2 ^ 24"
  shows "fp_rint h FLT rm (int_fp n) = (int_fp n, [])"
proof (cases "n = 0")
  case True
  then show ?thesis
    using integral_int [OF holds_int_fp [of 0], of rm]
    by (simp add: int_fp_zero fp_rint_def fp_round_zero fp_is_nan_def fp_is_inf_def fp_zero_def)
next
  case False
  have neg: "fp_neg (int_fp n) \<longleftrightarrow> n < 0" using holds_int_fp [OF assms] False by (simp add: holds_int_def)
  show ?thesis
    using integral_int [OF holds_int_fp [OF assms], of rm] holds_not_special [OF holds_int_fp [OF assms]]
      round_int [OF assms False, of 0 h FE_TONEAREST] round_int [OF assms False, of 0 h rm]
    by (simp add: fp_rint_def neg)
qed

end
