(* ===== verification/V850_Fpu_Correct.thy ===== *)
theory V850_Fpu_Correct
  imports V850_Float_Correct V850_Samples
begin

unbundle bit_operations_syntax

text \<open>
  What the floating-point unit of \<open>V850_Fpu_Ops\<close> and \<open>V850_Exec_Fpu\<close> promises: the classes the
  macros of \<open>cpu_fpu_ops.h\<close> recognise, the rounding modes \<open>prepare_float_op\<close> sets, the frame of
  every executor of the table (the locale \<open>float_executor\<close>, a line of 72 instances), exact
  arithmetic on integers, and comparison followed by a transfer of its condition bit.
\<close>

section \<open>Fields of the unions\<close>

lemma bit_of_nat_field: "n < 2 ^ k \<Longrightarrow> bit (word_of_nat n :: u32) i \<Longrightarrow> i < k"
proof -
  assume "n < 2 ^ k" and "bit (word_of_nat n :: u32) i"
  then have "bit n i" "take_bit k n = n" by (simp_all add: bit_simps take_bit_nat_eq_self)
  then show ?thesis by (metis bit_take_bit_iff)
qed

lemma float_binary_fields:
  assumes "E < 2 ^ 8" and "k < 2 ^ 23"
  shows "bit (float_binary (Fp s E k)) 31 = s"
    and "take_bit 8 (drop_bit 23 (float_binary (Fp s E k))) = word_of_nat E"
    and "take_bit 23 (float_binary (Fp s E k)) = word_of_nat k"
proof -
  note b = bit_of_nat_field [OF assms(1)] bit_of_nat_field [OF assms(2)]
  show "bit (float_binary (Fp s E k)) 31 = s"
    using b(1) [of 8] b(2) [of 31] by (auto simp: float_binary_def bit_or_iff bit_push_bit_iff bit_1_iff split: if_splits)
  show "take_bit 8 (drop_bit 23 (float_binary (Fp s E k))) = word_of_nat E"
  proof (rule bit_word_eqI)
    fix n
    show "bit (take_bit 8 (drop_bit 23 (float_binary (Fp s E k)))) n = bit (word_of_nat E :: u32) n"
      using b(1) [of n] b(2) [of "23 + n"]
      by (auto simp: float_binary_def bit_take_bit_iff bit_drop_bit_eq bit_or_iff bit_push_bit_iff bit_1_iff)
  qed
  show "take_bit 23 (float_binary (Fp s E k)) = word_of_nat k"
    by (rule bit_word_eqI) (use b in \<open>auto simp: float_binary_def bit_take_bit_iff bit_or_iff bit_push_bit_iff bit_1_iff\<close>)
qed

lemma float_data_binary:
  assumes "fp_valid FLT x"
  shows "float_data (float_binary x) = x"
proof (cases x)
  case (Fp s E k)
  have "E < 2 ^ 8" "k < 2 ^ 23" using assms Fp by (simp_all add: fp_valid_def)
  with float_binary_fields [of E k s] Fp show ?thesis
    by (simp add: float_data_def unat_of_nat)
qed

lemma float_exp_value: "GET_FLOAT_EXP_VALUE x = of_nat (fp_exp (float_data x))" "fp_exp (float_data x) < 256"
proof -
  have m: "FLOAT_EXP_BIT_MASK = push_bit 23 (mask 8)" by (simp add: FLOAT_EXP_BIT_MASK_def mask_eq_exp_minus_1)
  have "drop_bit 23 (FLOAT_EXP_BIT_MASK AND x) = take_bit 8 (drop_bit 23 x)"
    by (rule bit_word_eqI) (auto simp: m bit_take_bit_iff bit_drop_bit_eq bit_and_iff bit_push_bit_iff bit_mask_iff)
  then show "GET_FLOAT_EXP_VALUE x = of_nat (fp_exp (float_data x))"
    by (simp add: GET_FLOAT_EXP_VALUE_def float_data_def)
  show "fp_exp (float_data x) < 256"
    using take_bit_nat_less_exp [of 8 "unat (drop_bit 23 x)"] by (simp add: float_data_def unsigned_take_bit_eq)
qed

lemma float_mantissa_value: "GET_FLOAT_MANTISSA_VALUE x = of_nat (fp_man (float_data x))" "fp_man (float_data x) < 2 ^ 23"
proof -
  have m: "FLOAT_MANTISSA_BIT_MASK = mask 23" by (simp add: FLOAT_MANTISSA_BIT_MASK_def mask_eq_exp_minus_1)
  show "GET_FLOAT_MANTISSA_VALUE x = of_nat (fp_man (float_data x))"
    by (simp add: GET_FLOAT_MANTISSA_VALUE_def float_data_def m take_bit_eq_mask and.commute)
  show "fp_man (float_data x) < 2 ^ 23"
    using take_bit_nat_less_exp [of 23 "unat x"] by (simp add: float_data_def unsigned_take_bit_eq)
qed

lemma u16_of_nat_eq: "m < 65536 \<Longrightarrow> n < 65536 \<Longrightarrow> (word_of_nat m :: u16) = word_of_nat n \<longleftrightarrow> m = n"
  by (simp add: word_unat_eq_iff unat_of_nat take_bit_nat_eq_self)

lemma u32_of_nat_0: "n < 2 ^ 32 \<Longrightarrow> (word_of_nat n :: u32) = 0 \<longleftrightarrow> n = 0"
  by (simp add: word_unat_eq_iff unat_of_nat take_bit_nat_eq_self)

lemma float_value_tests:
  "GET_FLOAT_EXP_VALUE x = 0 \<longleftrightarrow> fp_exp (float_data x) = 0"
  "GET_FLOAT_EXP_VALUE x = 255 \<longleftrightarrow> fp_exp (float_data x) = 255"
  "GET_FLOAT_MANTISSA_VALUE x = 0 \<longleftrightarrow> fp_man (float_data x) = 0"
  using u16_of_nat_eq [of "fp_exp (float_data x)" 0] u16_of_nat_eq [of "fp_exp (float_data x)" 255]
    u32_of_nat_0 [of "fp_man (float_data x)"] float_mantissa_value(2) [of x] float_exp_value(2) [of x]
  by (simp_all add: float_exp_value(1) float_mantissa_value(1))

lemma sign_ptrn_and: "FLOAT_SIGN_BIT_PTRN AND x \<noteq> 0 \<longleftrightarrow> bit x 31"
proof -
  have "x AND push_bit 31 1 \<noteq> 0 \<longleftrightarrow> bit x 31" by (rule and_push_bit_neq_0_iff_bit)
  then show ?thesis by (simp add: FLOAT_SIGN_BIT_PTRN_def and.commute)
qed

lemma quiet_bit: "x AND push_bit 22 1 \<noteq> 0 \<longleftrightarrow> 2 ^ 22 \<le> fp_man (float_data x)"
proof -
  have "x AND push_bit 22 1 \<noteq> 0 \<longleftrightarrow> bit x 22" by (rule and_push_bit_neq_0_iff_bit)
  also have "\<dots> \<longleftrightarrow> bit (fp_man (float_data x)) 22" by (simp add: float_data_def bit_simps)
  also have "\<dots> \<longleftrightarrow> 2 ^ 22 \<le> fp_man (float_data x)"
  proof -
    have "fp_man (float_data x) div 2 ^ 22 < 2" using float_mantissa_value(2) [of x] by (simp add: div_less_iff_less_mult)
    then have "odd (fp_man (float_data x) div 2 ^ 22) \<longleftrightarrow> 0 < fp_man (float_data x) div 2 ^ 22" by (cases "fp_man (float_data x) div 2 ^ 22 = 0") auto
    then show ?thesis by (simp add: bit_iff_odd div_greater_zero_iff)
  qed
  finally show ?thesis .
qed

section \<open>The classes of \<open>double\<close> numbers\<close>

abbreviation double_exp :: "DoubleBinaryDataType \<Rightarrow> u32" where
  "double_exp x \<equiv> take_bit 11 (drop_bit 20 (binary1 x))"

lemma double_exp_value:
  "GET_DOUBLE_EXP_VALUE x = ucast (double_exp x AND NOT 1)"
  "GET_DOUBLE_EXP_VALUE x = 0 \<longleftrightarrow> fp_exp (double_data x) < 2"
  "GET_DOUBLE_EXP_VALUE x \<noteq> 2047"
proof -
  have m: "DOUBLE_EXP_BIT_MASK = push_bit 21 (mask 10)" by (simp add: DOUBLE_EXP_BIT_MASK_def mask_eq_exp_minus_1)
  have "drop_bit 20 (DOUBLE_EXP_BIT_MASK AND binary1 x) = double_exp x AND NOT 1"
    by (rule bit_word_eqI)
      (auto simp: m bit_take_bit_iff bit_drop_bit_eq bit_and_iff bit_push_bit_iff bit_mask_iff bit_not_iff bit_1_iff)
  then show v: "GET_DOUBLE_EXP_VALUE x = ucast (double_exp x AND NOT 1)" by (simp add: GET_DOUBLE_EXP_VALUE_def)
  have e: "bit (GET_DOUBLE_EXP_VALUE x) n \<longleftrightarrow> bit (double_exp x) n \<and> n \<noteq> 0" for n
    unfolding v by (cases n) (auto simp: bit_unsigned_iff bit_and_iff bit_not_iff bit_1_iff bit_take_bit_iff dest: bit_imp_le_length)
  have "GET_DOUBLE_EXP_VALUE x = 0 \<longleftrightarrow> drop_bit 1 (double_exp x) = 0"
  proof
    assume "GET_DOUBLE_EXP_VALUE x = 0"
    then have "\<not> bit (double_exp x) (1 + n)" for n using e [of "1 + n"] by simp
    then show "drop_bit 1 (double_exp x) = 0" by (intro bit_word_eqI) (simp add: bit_drop_bit_eq del: bit_take_bit_iff)
  next
    assume d: "drop_bit 1 (double_exp x) = 0"
    have "\<not> bit (double_exp x) (1 + n)" for n using arg_cong [OF d, of "\<lambda>w. bit w n"] by (simp add: bit_drop_bit_eq)
    then have "\<not> bit (GET_DOUBLE_EXP_VALUE x) n" for n using e [of n] by (cases n) auto
    then show "GET_DOUBLE_EXP_VALUE x = 0" by (intro bit_word_eqI) simp
  qed
  also have "\<dots> \<longleftrightarrow> unat (double_exp x) div 2 = 0"
  proof -
    have "unat (drop_bit 1 w) = unat w div 2" for w :: u32
      by (subst unat_drop_bit_eq) (simp only: drop_bit_eq_div power_one_right)
    then show ?thesis by (metis unat_eq_0)
  qed
  also have "\<dots> \<longleftrightarrow> fp_exp (double_data x) < 2" by (simp add: double_data_def div_eq_0_iff)
  finally show "GET_DOUBLE_EXP_VALUE x = 0 \<longleftrightarrow> fp_exp (double_data x) < 2" .
  have "\<not> bit (GET_DOUBLE_EXP_VALUE x) 0" unfolding v by (simp add: bit_unsigned_iff bit_and_iff bit_not_iff bit_1_iff)
  moreover have "bit (2047 :: u16) 0" by simp
  ultimately show "GET_DOUBLE_EXP_VALUE x \<noteq> 2047" by metis
qed

lemma double_man_value:
  assumes "fp_exp (double_data x) < 2"
  shows "GET_DOUBLE_MANTISSA0_VALUE x = 0 \<and> GET_DOUBLE_MANTISSA1_VALUE x = 0
    \<longleftrightarrow> fp_exp (double_data x) = 0 \<and> fp_man (double_data x) = 0"
proof -
  let ?E = "double_exp x"
  have m1: "DOUBLE_MANTISSA1_BIT_MASK = mask 23" by (simp add: DOUBLE_MANTISSA1_BIT_MASK_def mask_eq_exp_minus_1)
  have v0: "GET_DOUBLE_MANTISSA0_VALUE x = binary0 x"
  proof -
    have "0xFFFFFFFF = (-1 :: u32)" by simp
    then show ?thesis by (simp only: GET_DOUBLE_MANTISSA0_VALUE_def DOUBLE_MANTISSA0_BIT_MASK_def) simp
  qed
  have v1: "GET_DOUBLE_MANTISSA1_VALUE x = take_bit 23 (binary1 x)"
    by (simp add: GET_DOUBLE_MANTISSA1_VALUE_def m1 take_bit_eq_mask and.commute)
  have "take_bit 3 ?E = ?E"
  proof (rule word_unat_eq_iff [THEN iffD2])
    have "unat ?E < 2 ^ 3" using assms by (simp add: double_data_def)
    then show "unat (take_bit 3 ?E) = unat ?E" by (simp only: unsigned_take_bit_eq take_bit_nat_eq_self)
  qed
  moreover have "take_bit 23 (binary1 x) = 0 \<longleftrightarrow> take_bit 3 ?E = 0 \<and> take_bit 20 (binary1 x) = 0"
  proof
    assume z: "take_bit 23 (binary1 x) = 0"
    then have "\<not> bit (binary1 x) n" if "n < 23" for n using that by (metis bit_0_eq bit_take_bit_iff bot_apply bot_bool_def)
    then show "take_bit 3 ?E = 0 \<and> take_bit 20 (binary1 x) = 0"
      by (auto intro!: bit_word_eqI simp: bit_take_bit_iff bit_drop_bit_eq)
  next
    assume z: "take_bit 3 ?E = 0 \<and> take_bit 20 (binary1 x) = 0"
    have "\<not> bit (binary1 x) n" if "n < 20" for n using that z by (metis bit_0_eq bit_take_bit_iff bot_apply bot_bool_def)
    moreover have "\<not> bit (binary1 x) (20 + n)" if "n < 3" for n
    proof -
      have "\<not> bit (take_bit 3 ?E) n" using z by simp
      with that show ?thesis by (simp add: bit_take_bit_iff bit_drop_bit_eq)
    qed
    ultimately have "\<not> bit (binary1 x) n" if "n < 23" for n
    proof (cases "n < 20")
      case False
      then have "n = 20 + (n - 20)" "n - 20 < 3" using that by simp_all
      then show ?thesis using \<open>\<And>n. n < 3 \<Longrightarrow> \<not> bit (binary1 x) (20 + n)\<close> by metis
    qed (rule \<open>\<And>n. n < 20 \<Longrightarrow> \<not> bit (binary1 x) n\<close>)
    then show "take_bit 23 (binary1 x) = 0" by (auto intro!: bit_word_eqI simp: bit_take_bit_iff)
  qed
  moreover have "fp_exp (double_data x) = 0 \<longleftrightarrow> ?E = 0" by (simp add: double_data_def unat_eq_0)
  moreover have "fp_man (double_data x) = 0 \<longleftrightarrow> binary0 x = 0 \<and> take_bit 20 (binary1 x) = 0"
    by (auto simp: double_data_def unat_eq_0)
  ultimately show ?thesis unfolding v0 v1 by auto
qed

lemma float_sign: "GET_FLOAT_SIGN_BIT_VALUE x = of_bool (fp_neg (float_data x))"
  using sign_ptrn_and [of x] by (simp add: GET_FLOAT_SIGN_BIT_VALUE_def float_data_def)

lemma float_classes:
  "FLOAT_IS_ZERO x \<longleftrightarrow> fp_is_zero (float_data x)"
  "FLOAT_IS_SBNORM x \<longleftrightarrow> fp_exp (float_data x) = 0 \<and> fp_man (float_data x) \<noteq> 0"
  "FLOAT_IS_INF x \<longleftrightarrow> fp_is_inf FLT (float_data x)" "FLOAT_IS_NAN x \<longleftrightarrow> fp_is_nan FLT (float_data x)"
  "FLOAT_IS_MINUS x \<longleftrightarrow> fp_neg (float_data x)"
  by (simp_all add: FLOAT_IS_ZERO_def FLOAT_IS_SBNORM_def FLOAT_IS_INF_def FLOAT_IS_NAN_def FLOAT_IS_MINUS_def
      float_value_tests float_sign fp_is_zero_def fp_is_inf_def fp_is_nan_def)

text \<open>C24: the classification macros. Those of \<open>float\<close> are the classes of IEC 60559. Those of
  \<open>double\<close> are not: the exponent mask 0x7FE00000 misses the lowest exponent bit, so that no
  number is ever infinite or a NaN, and the normal numbers of the smallest exponent count as
  subnormal, to be flushed to zero.\<close>

theorem number_classes:
  "(FLOAT_IS_ZERO x \<longleftrightarrow> fp_is_zero (float_data x))
   \<and> (FLOAT_IS_SBNORM x \<longleftrightarrow> fp_exp (float_data x) = 0 \<and> fp_man (float_data x) \<noteq> 0)
   \<and> (FLOAT_IS_INF x \<longleftrightarrow> fp_is_inf FLT (float_data x))
   \<and> (FLOAT_IS_NAN x \<longleftrightarrow> fp_is_nan FLT (float_data x))
   \<and> (float_is_snan x \<longleftrightarrow> fp_is_snan FLT (float_data x))
   \<and> (FLOAT_IS_MINUS x \<longleftrightarrow> fp_neg (float_data x))
   \<and> \<not> DOUBLE_IS_INF d \<and> \<not> DOUBLE_IS_NAN d
   \<and> (DOUBLE_IS_SBNORM d \<longleftrightarrow>
        fp_exp (double_data d) = 1 \<or> fp_exp (double_data d) = 0 \<and> fp_man (double_data d) \<noteq> 0)"
proof -
  note f = float_classes [of x]
  have "float_is_snan x \<longleftrightarrow> fp_is_snan FLT (float_data x)"
    using quiet_bit [of x] by (simp only: float_is_snan_def fp_is_snan_def f FLT_values not_le [symmetric]) auto
  moreover have "\<not> DOUBLE_IS_INF d \<and> \<not> DOUBLE_IS_NAN d"
    by (simp add: DOUBLE_IS_INF_def DOUBLE_IS_NAN_def double_exp_value(3))
  moreover have "DOUBLE_IS_SBNORM d \<longleftrightarrow>
      fp_exp (double_data d) = 1 \<or> fp_exp (double_data d) = 0 \<and> fp_man (double_data d) \<noteq> 0"
  proof (cases "fp_exp (double_data d) < 2")
    case True
    then show ?thesis using double_man_value [OF True] by (auto simp: DOUBLE_IS_SBNORM_def double_exp_value(2))
  qed (simp add: DOUBLE_IS_SBNORM_def double_exp_value(2))
  ultimately show ?thesis using f by blast
qed

section \<open>The environment of an operation\<close>

definition fpu_bank :: "CpuRegisterType \<Rightarrow> bool" where
  "fpu_bank g \<longleftrightarrow> unat (current_bnk (reg_sys g)) < CPU_SYSBNK_NUM"

definition fpu_reg :: "nat \<Rightarrow> CpuRegisterType \<Rightarrow> u32" where
  "fpu_reg i g = sys_grp (reg_sys g) SYS_GRP_FPU (unat (current_bnk (reg_sys g))) i"

lemma fpu_get_bank: "fpu_bank g \<Longrightarrow> i < 28 \<Longrightarrow> fpu_get i g = Some (fpu_reg i g)"
  by (simp add: fpu_get_def cpu_get_sysreg_fpu_def ref_read_def fpu_bank_def fpu_reg_def size_defs)

text \<open>What an operation may change of the system registers: FPSR, FPST and FPCC of the current bank.\<close>

definition fpu_same :: "CpuRegisterType \<Rightarrow> CpuRegisterType \<Rightarrow> bool" where
  "fpu_same g g' \<longleftrightarrow> reg_pc g' = reg_pc g \<and> reg_r g' = reg_r g
     \<and> current_grp (reg_sys g') = current_grp (reg_sys g) \<and> current_bnk (reg_sys g') = current_bnk (reg_sys g)
     \<and> sys_sysreg (reg_sys g') = sys_sysreg (reg_sys g)
     \<and> (\<forall>G b i. G = SYS_GRP_FPU \<and> b = unat (current_bnk (reg_sys g)) \<and> (i = SYS_REG_FPSR \<or> i = SYS_REG_FPST \<or> i = SYS_REG_FPCC)
          \<or> sys_grp (reg_sys g') G b i = sys_grp (reg_sys g) G b i)"

lemma fpu_same_refl [simp]: "fpu_same g g"
  by (simp add: fpu_same_def)

lemma fpu_same_trans: "fpu_same g h \<Longrightarrow> fpu_same h k \<Longrightarrow> fpu_same g k"
  unfolding fpu_same_def by metis

lemma fpu_upd_same:
  "fpu_upd i f g = Some g' \<Longrightarrow> i = SYS_REG_FPSR \<or> i = SYS_REG_FPST \<or> i = SYS_REG_FPCC \<Longrightarrow> fpu_same g g'"
  by (auto simp: fpu_upd_def Let_def bind_eq_Some_conv ref_write_def cpu_get_sysreg_fpu_def fpu_same_def set_grp_def split: if_splits)

lemma setters_same:
  "sys_set_fpsr_xc d g = Some g' \<Longrightarrow> fpu_same g g'" "sys_set_fpsr_xp d g = Some g' \<Longrightarrow> fpu_same g g'"
  "sys_set_fpsr_cc d g = Some g' \<Longrightarrow> fpu_same g g'"
  by (auto simp: sys_set_fpsr_xc_def sys_set_fpsr_xp_def sys_set_fpsr_cc_def bind_eq_Some_conv dest!: fpu_upd_same intro: fpu_same_trans)

lemma raise_same: "fpst_raise e g = Some g' \<Longrightarrow> fpu_same g g'"
  by (auto simp: fpst_raise_def sys_set_fpst_xc_def sys_set_fpst_xp_def bind_eq_Some_conv dest!: setters_same intro: fpu_same_trans)

lemma clip_same: "clip_invalid b g = Some g' \<Longrightarrow> fpu_same g g'"
  by (auto simp: clip_invalid_def dest: raise_same split: if_splits)

lemma end_exc_same: "end_float_exc r e i x (g, ex) = Some (g', ex') \<Longrightarrow> fpu_same g g'"
  by (auto simp: end_float_exc_def bind_eq_Some_conv dest: raise_same split: if_splits)

lemma end_same: "end_float_op r (g, ex) = Some (g', ex') \<Longrightarrow> fpu_same g g'"
  by (auto simp: end_float_op_def bind_eq_Some_conv dest!: end_exc_same split: if_splits) (meson fpu_same_trans)

definition fpu_keeps ::
  "(FpuConfigSettingType \<Rightarrow> fe_round \<Rightarrow> CpuRegisterType \<Rightarrow> ('a \<times> fe_except list \<times> CpuRegisterType) option) \<Rightarrow> bool" where
  "fpu_keeps body \<longleftrightarrow> (\<forall>cp rm g r e g'. body cp rm g = Some (r, e, g') \<longrightarrow> fpu_same g g')"

lemma float_op_same: "fpu_keeps body \<Longrightarrow> float_op body g = Some (r, g') \<Longrightarrow> fpu_same g g'"
  by (auto simp: float_op_def fpu_keeps_def bind_eq_Some_conv dest!: end_same) (meson fpu_same_trans)

text \<open>What a floating-point executor promises: it fails and changes nothing, or succeeds and
  changes the program counter, the destination registers and the FPU registers above.\<close>

definition fpu_post :: "nat set \<Rightarrow> TargetCoreType \<Rightarrow> exec_result \<Rightarrow> bool" where
  "fpu_post D cpu res \<longleftrightarrow> (\<forall>r cpu'. res = Some (r, cpu') \<longrightarrow>
     r = -1 \<and> cpu' = cpu
     \<or> r = 0 \<and> cpu' = cpu\<lparr>reg := reg cpu'\<rparr> \<and> reg_pc (reg cpu') = reg_pc (reg cpu) + 4
       \<and> (\<forall>i. i \<in> D \<or> reg_r (reg cpu') i = reg_r (reg cpu) i)
       \<and> fpu_same (reg cpu) ((reg cpu')\<lparr>reg_pc := reg_pc (reg cpu), reg_r := reg_r (reg cpu)\<rparr>))"

lemma post_check: "fpu_post D cpu k \<Longrightarrow> fpu_post D cpu (greg_check i cpu k)"
  by (simp add: fpu_post_def greg_check_eq_Some)

lemma post_fail: "fpu_post D cpu (Some (-1, cpu))"
  by (simp add: fpu_post_def)

lemma post_bind:
  fixes m :: "'a option"
  shows "(\<And>x. m = Some x \<Longrightarrow> fpu_post D cpu (k x)) \<Longrightarrow> fpu_post D cpu (m \<bind> k)"
  by (auto simp: fpu_post_def bind_eq_Some_conv)

lemma post_bind2:
  fixes m :: "('a \<times> 'b) option"
  shows "(\<And>x y. m = Some (x, y) \<Longrightarrow> fpu_post D cpu (k x y)) \<Longrightarrow> fpu_post D cpu (m \<bind> (\<lambda>(x, y). k x y))"
  by (auto simp: fpu_post_def bind_eq_Some_conv)

lemma post_bind3:
  fixes m :: "('a \<times> 'b \<times> 'c) option"
  shows "(\<And>x y z. m = Some (x, y, z) \<Longrightarrow> fpu_post D cpu (k x y z)) \<Longrightarrow> fpu_post D cpu (m \<bind> (\<lambda>(x, y, z). k x y z))"
  by (auto simp: fpu_post_def bind_eq_Some_conv)

lemma same_pc_r: "fpu_same g g' \<Longrightarrow> fpu_same g (g'\<lparr>reg_pc := reg_pc g, reg_r := reg_r g\<rparr>)"
  by (simp add: fpu_same_def)

lemma post_wr:
  assumes "fpu_same (reg cpu) g" and "unat i \<in> D"
  shows "fpu_post D cpu (wr_r g i v \<bind> (\<lambda>g. ret cpu (add_pc 4 g)))"
  using assms by (auto simp: fpu_post_def bind_eq_Some_conv wr_r_eq_Some set_r_def add_pc_def fpu_same_def)

lemma post_wr2:
  assumes "fpu_same (reg cpu) g" and "unat i \<in> D" and "unat (i + 1) \<in> D"
  shows "fpu_post D cpu (wr_double g i d \<bind> (\<lambda>g. ret cpu (add_pc 4 g)))"
    and "fpu_post D cpu (wr_int64 g i v \<bind> (\<lambda>g. ret cpu (add_pc 4 g)))"
  using assms
  by (auto simp: fpu_post_def bind_eq_Some_conv wr_double_def wr_int64_def wr_r_eq_Some set_r_def add_pc_def fpu_same_def)

lemma post_ret: "fpu_same (reg cpu) g \<Longrightarrow> fpu_post D cpu (ret cpu (add_pc 4 g))"
  by (auto simp: fpu_post_def add_pc_def fpu_same_def)

lemmas post_rules = post_check post_fail post_wr post_wr2 post_ret post_bind2 post_bind

abbreviation d1 :: "TargetCoreType \<Rightarrow> nat set" where "d1 cpu \<equiv> {unat (ff_reg3 cpu)}"
abbreviation d2 :: "TargetCoreType \<Rightarrow> nat set" where "d2 cpu \<equiv> {unat (ff_reg3 cpu), unat (ff_reg3 cpu + 1)}"
abbreviation d4 :: "TargetCoreType \<Rightarrow> nat set" where "d4 cpu \<equiv> {unat (ff_reg4 cpu)}"

abbreviation d0 :: "TargetCoreType \<Rightarrow> nat set" where "d0 cpu \<equiv> {}"

lemma keeps_simple: "fpu_keeps (\<lambda>cp rm g. Some (f cp rm, e cp rm, g))"
  by (simp add: fpu_keeps_def)

lemma post_arith: "fpu_post (d1 cpu) cpu (float_arith c cpu)" "fpu_post (d2 cpu) cpu (double_arith c cpu)"
  unfolding float_arith_def double_arith_def Let_def
  by (intro post_rules; (erule float_op_same [rotated])?; simp add: fpu_keeps_def split: prod.splits)+

lemma post_fused: "fpu_post (d1 cpu) cpu (float_fused c f cpu)" "fpu_post (d4 cpu) cpu (float_muladd c cpu)"
  unfolding float_fused_def float_muladd_def Let_def
  by (intro post_rules; (erule float_op_same [rotated])?; simp add: fpu_keeps_def split: prod.splits)+

lemma post_to_int:
  "fpu_post (d1 cpu) cpu (float_to_uint32 c cpu)" "fpu_post (d1 cpu) cpu (float_to_sint32 c cpu)"
  "fpu_post (d2 cpu) cpu (double_to_int (ff_reg3 cpu + 1) c2 wr_int64 cpu)" "fpu_post (d1 cpu) cpu (double_to_int (ff_reg3 cpu) c2 wr_int32 cpu)"
  unfolding float_to_uint32_def float_to_sint32_def double_to_int_def wr_int32_def Let_def
  by (intro post_rules; (erule float_op_same [rotated])?;
      auto simp: fpu_keeps_def bind_eq_Some_conv dest: clip_same)+

lemma cc_same: "cmpf_cc r c b g = Some g' \<Longrightarrow> fpu_same g g'"
  by (auto simp: cmpf_cc_def bind_eq_Some_conv dest: setters_same)

lemma post_cmp: "fpu_same (reg cpu) g \<Longrightarrow> fpu_post D cpu (cmpf_cc r c b g \<bind> (\<lambda>g. ret cpu (add_pc 4 g)))"
  by (rule post_bind, rule post_ret) (meson cc_same fpu_same_trans)

text \<open>The floating-point executors of the table and the registers each writes.\<close>

definition fpu_line :: "fp_host \<Rightarrow> (nat \<times> (TargetCoreType \<Rightarrow> exec_result) \<times> (TargetCoreType \<Rightarrow> nat set)) list" where
  "fpu_line h = [
     (OpCodeId_ABSF_D_F, op_exec_absf_d_F, d2),
     (OpCodeId_ABSF_S_F, op_exec_absf_s_F, d1),
     (OpCodeId_ADDF_D_F, (op_exec_addf_d_F h), d2),
     (OpCodeId_ADDF_S_F, (op_exec_addf_s_F h), d1),
     (OpCodeId_CEILF_DL_F, (op_exec_ceilf_dl_F h), d2),
     (OpCodeId_CEILF_DUL_F, (op_exec_ceilf_dul_F h), d2),
     (OpCodeId_CEILF_DUW_F, (op_exec_ceilf_duw_F h), d1),
     (OpCodeId_CEILF_DW_F, op_exec_ceilf_dw_F, d1),
     (OpCodeId_CEILF_SL_F, op_exec_ceilf_sl_F, d2),
     (OpCodeId_CEILF_SUL_F, op_exec_ceilf_sul_F, d2),
     (OpCodeId_CEILF_SUW_F, op_exec_ceilf_suw_F, d1),
     (OpCodeId_CEILF_SW_F, op_exec_ceilf_sw_F, d1),
     (OpCodeId_CMOVF_D_F, op_exec_cmovf_d_F, d2),
     (OpCodeId_CMOVF_S_F, op_exec_cmovf_s_F, d1),
     (OpCodeId_CMPF_D_F, op_exec_cmpf_d_F, d0),
     (OpCodeId_CMPF_S_F, op_exec_cmpf_s_F, d0),
     (OpCodeId_CVTF_DL_F, (op_exec_cvtf_dl_F h), d2),
     (OpCodeId_CVTF_DS_F, (op_exec_cvtf_ds_F h), d1),
     (OpCodeId_CVTF_DUL_F, (op_exec_cvtf_dul_F h), d2),
     (OpCodeId_CVTF_DUW_F, (op_exec_cvtf_duw_F h), d1),
     (OpCodeId_CVTF_DW_F, (op_exec_cvtf_dw_F h), d1),
     (OpCodeId_CVTF_LD_F, (op_exec_cvtf_ld_F h), d2),
     (OpCodeId_CVTF_LS_F, (op_exec_cvtf_ls_F h), d1),
     (OpCodeId_CVTF_SD_F, (op_exec_cvtf_sd_F h), d2),
     (OpCodeId_CVTF_SL_F, op_exec_cvtf_sl_F, d2),
     (OpCodeId_CVTF_SUL_F, op_exec_cvtf_sul_F, d2),
     (OpCodeId_CVTF_SUW_F, (op_exec_cvtf_suw_F h), d1),
     (OpCodeId_CVTF_SW_F, (op_exec_cvtf_sw_F h), d1),
     (OpCodeId_CVTF_ULD_F, (op_exec_cvtf_uld_F h), d2),
     (OpCodeId_CVTF_ULS_F, (op_exec_cvtf_uls_F h), d1),
     (OpCodeId_CVTF_UWD_F, (op_exec_cvtf_uwd_F h), d2),
     (OpCodeId_CVTF_UWS_F, (op_exec_cvtf_uws_F h), d1),
     (OpCodeId_CVTF_WD_F, (op_exec_cvtf_wd_F h), d2),
     (OpCodeId_CVTF_WS_F, (op_exec_cvtf_ws_F h), d1),
     (OpCodeId_DIVF_D_F, (op_exec_divf_d_F h), d2),
     (OpCodeId_DIVF_S_F, (op_exec_divf_s_F h), d1),
     (OpCodeId_FLOORF_DL_F, op_exec_floorf_dl_F, d2),
     (OpCodeId_FLOORF_DUL_F, op_exec_floorf_dul_F, d2),
     (OpCodeId_FLOORF_DUW_F, op_exec_floorf_duw_F, d1),
     (OpCodeId_FLOORF_DW_F, op_exec_floorf_dw_F, d1),
     (OpCodeId_FLOORF_SL_F, (op_exec_floorf_sl_F h), d2),
     (OpCodeId_FLOORF_SUL_F, (op_exec_floorf_sul_F h), d2),
     (OpCodeId_FLOORF_SUW_F, (op_exec_floorf_suw_F h), d1),
     (OpCodeId_FLOORF_SW_F, (op_exec_floorf_sw_F h), d1),
     (OpCodeId_MADDF_S_F, (op_exec_maddf_s_F h), d4),
     (OpCodeId_MAXF_D_F, op_exec_maxf_d_F, d2),
     (OpCodeId_MAXF_S_F, op_exec_maxf_s_F, d1),
     (OpCodeId_MINF_D_F, op_exec_minf_d_F, d2),
     (OpCodeId_MINF_S_F, op_exec_minf_s_F, d1),
     (OpCodeId_MSUBF_S_F, (op_exec_msubf_s_F h), d4),
     (OpCodeId_MULF_D_F, (op_exec_mulf_d_F h), d2),
     (OpCodeId_MULF_S_F, (op_exec_mulf_s_F h), d1),
     (OpCodeId_NEGF_D_F, op_exec_negf_d_F, d2),
     (OpCodeId_NEGF_S_F, op_exec_negf_s_F, d1),
     (OpCodeId_NMADDF_S_F, (op_exec_nmaddf_s_F h), d4),
     (OpCodeId_NMSUBF_S_F, (op_exec_nmsubf_s_F h), d4),
     (OpCodeId_RECIPF_D_F, (op_exec_recipf_d_F h), d2),
     (OpCodeId_RECIPF_S_F, (op_exec_recipf_s_F h), d1),
     (OpCodeId_RSQRTF_D_F, (op_exec_rsqrtf_d_F h), d2),
     (OpCodeId_RSQRTF_S_F, (op_exec_rsqrtf_s_F h), d1),
     (OpCodeId_SQRTF_D_F, (op_exec_sqrtf_d_F h), d2),
     (OpCodeId_SQRTF_S_F, (op_exec_sqrtf_s_F h), d1),
     (OpCodeId_SUBF_D_F, (op_exec_subf_d_F h), d2),
     (OpCodeId_SUBF_S_F, (op_exec_subf_s_F h), d1),
     (OpCodeId_TRNCF_DL_F, (op_exec_trncf_dl_F h), d2),
     (OpCodeId_TRNCF_DUL_F, (op_exec_trncf_dul_F h), d2),
     (OpCodeId_TRNCF_DUW_F, (op_exec_trncf_duw_F h), d1),
     (OpCodeId_TRNCF_DW_F, (op_exec_trncf_dw_F h), d1),
     (OpCodeId_TRNCF_SL_F, (op_exec_trncf_sl_F h), d2),
     (OpCodeId_TRNCF_SUL_F, (op_exec_trncf_sul_F h), d2),
     (OpCodeId_TRNCF_SUW_F, (op_exec_trncf_suw_F h), d1),
     (OpCodeId_TRNCF_SW_F, (op_exec_trncf_sw_F h), d1)]"

lemma fpu_line_table: "list_all (\<lambda>(i, f, D). snd (op_exec_table oc bus h ! i) = Some (on_core f)) (fpu_line h)"
  unfolding fpu_line_def list.pred_inject prod.case op_exec_table_def
  by simp

lemma post_ceilf_duw_F: "fpu_post (d1 cpu) cpu (op_exec_ceilf_duw_F h cpu)"
  unfolding op_exec_ceilf_duw_F_def Let_def wr_int32_def
  by (intro post_check post_wr post_bind3 post_bind2 post_bind) simp_all

lemmas fpu_defs = op_exec_absf_s_F_def op_exec_maxf_s_F_def op_exec_minf_s_F_def op_exec_cmovf_s_F_def
  op_exec_negf_s_F_def op_exec_cmpf_s_F_def op_exec_addf_s_F_def op_exec_mulf_s_F_def
  op_exec_divf_s_F_def op_exec_subf_s_F_def op_exec_addf_d_F_def op_exec_mulf_d_F_def
  op_exec_divf_d_F_def op_exec_subf_d_F_def op_exec_fnmaf_s_F_def op_exec_fnmsf_s_F_def
  op_exec_maddf_s_F_def op_exec_msubf_s_F_def op_exec_nmaddf_s_F_def op_exec_nmsubf_s_F_def
  op_exec_cvtf_ws_F_def op_exec_cvtf_ds_F_def op_exec_cvtf_sd_F_def op_exec_cvtf_ls_F_def
  op_exec_cvtf_uls_F_def op_exec_cvtf_uws_F_def op_exec_cvtf_ld_F_def op_exec_cvtf_uld_F_def
  op_exec_cvtf_uwd_F_def op_exec_cvtf_wd_F_def op_exec_cvtf_suw_F_def op_exec_cvtf_sw_F_def
  op_exec_trncf_sw_F_def op_exec_trncf_suw_F_def op_exec_floorf_suw_F_def op_exec_trncf_sl_F_def
  op_exec_trncf_sul_F_def op_exec_floorf_sul_F_def op_exec_floorf_sl_F_def op_exec_floorf_sw_F_def
  op_exec_ceilf_dl_F_def op_exec_cvtf_dl_F_def op_exec_cvtf_dul_F_def op_exec_cvtf_duw_F_def
  op_exec_cvtf_dw_F_def op_exec_trncf_duw_F_def op_exec_trncf_dw_F_def op_exec_ceilf_dul_F_def
  op_exec_trncf_dul_F_def op_exec_trncf_dl_F_def op_exec_absf_d_F_def op_exec_cmovf_d_F_def
  op_exec_cmpf_d_F_def op_exec_maxf_d_F_def op_exec_minf_d_F_def op_exec_negf_d_F_def
  op_exec_recipf_s_F_def op_exec_recipf_d_F_def op_exec_rsqrtf_d_F_def op_exec_sqrtf_d_F_def
  op_exec_rsqrtf_s_F_def op_exec_sqrtf_s_F_def op_exec_ceilf_dw_F_def op_exec_floorf_dl_F_def
  op_exec_floorf_dul_F_def op_exec_floorf_duw_F_def op_exec_floorf_dw_F_def op_exec_ceilf_sl_F_def
  op_exec_ceilf_sul_F_def op_exec_ceilf_suw_F_def op_exec_ceilf_sw_F_def op_exec_cvtf_sl_F_def
  op_exec_cvtf_sul_F_def

lemma fpu_line_post: "list_all (\<lambda>(i, f, D). \<forall>cpu. fpu_post (D cpu) cpu (f cpu)) (fpu_line h)"
  unfolding fpu_line_def list.pred_inject(2) prod.case
  by (intro conjI list.pred_inject(1) allI post_ceilf_duw_F; unfold fpu_defs Let_def;
      intro post_rules post_arith post_fused post_to_int; (erule float_op_same [rotated])?;
      auto simp: fpu_keeps_def bind_eq_Some_conv wr_int32_def split: if_splits prod.splits
        dest: clip_same raise_same intro!: post_cmp)

section \<open>The contract of a floating-point executor\<close>

locale float_executor = core_executor exec 4 for exec +
  fixes dest :: "TargetCoreType \<Rightarrow> nat set"
  assumes exec_dest: "exec cpu = Some (0, cpu') \<Longrightarrow> i \<in> dest cpu \<or> reg_r (reg cpu') i = reg_r (reg cpu) i"
    and exec_sys: "exec cpu = Some (0, cpu') \<Longrightarrow>
      fpu_same (reg cpu) ((reg cpu')\<lparr>reg_pc := reg_pc (reg cpu), reg_r := reg_r (reg cpu)\<rparr>)"

lemma float_executorI:
  assumes "\<And>cpu. fpu_post (D cpu) cpu (f cpu)"
  shows "float_executor f D"
proof
  fix cpu r cpu' i
  note p = assms [of cpu, unfolded fpu_post_def, rule_format]
  show "f cpu = Some (r, cpu') \<Longrightarrow> cpu' = cpu\<lparr>reg := reg cpu'\<rparr>" using p by fastforce
  show "f cpu = Some (r, cpu') \<Longrightarrow> r = 0 \<or> r = -1 \<and> cpu' = cpu" using p by blast
  show "f cpu = Some (0, cpu') \<Longrightarrow> reg_pc (reg cpu') = reg_pc (reg cpu) + 4" using p by force
  show "f cpu = Some (0, cpu') \<Longrightarrow> i \<in> D cpu \<or> reg_r (reg cpu') i = reg_r (reg cpu) i" using p by force
  show "f cpu = Some (0, cpu') \<Longrightarrow> fpu_same (reg cpu) ((reg cpu')\<lparr>reg_pc := reg_pc (reg cpu), reg_r := reg_r (reg cpu)\<rparr>)"
    using p by force
qed

lemma fpu_lineD: "(i, f, D) \<in> set (fpu_line h) \<Longrightarrow> float_executor f D"
  using fpu_line_post [of h] by (intro float_executorI) (auto simp: list_all_iff)

context float_executor
begin

lemma on_core_dest:
  assumes "on_core exec m = Some (0, m')"
  shows "i \<in> dest (m_core m) \<or> reg_r (m_reg m') i = reg_r (m_reg m) i"
    and "fpu_same (m_reg m) ((m_reg m')\<lparr>reg_pc := reg_pc (m_reg m), reg_r := reg_r (m_reg m)\<rparr>)"
  using assms exec_dest [of "m_core m" "m_core m'" i] exec_sys [of "m_core m" "m_core m'"]
  by (auto simp: on_core_def split: option.splits)

end

interpretation addf_s: float_executor "op_exec_addf_s_F h" "\<lambda>cpu. d1 cpu" for h
  by (rule fpu_lineD [of OpCodeId_ADDF_S_F]) (simp add: fpu_line_def)

interpretation divf_d: float_executor "op_exec_divf_d_F h" "\<lambda>cpu. d2 cpu" for h
  by (rule fpu_lineD [of OpCodeId_DIVF_D_F]) (simp add: fpu_line_def)

interpretation cmpf_s: float_executor "op_exec_cmpf_s_F" "\<lambda>cpu. {}"
  by (rule fpu_lineD [of OpCodeId_CMPF_S_F]) (simp add: fpu_line_def)

text \<open>C23: the 72 floating-point executors of the table other than TRFSR, in every
  implementation of the host's arithmetic: run from the table, an executor either fails with
  nothing changed or succeeds with the program counter advanced by 4; then it has changed only
  its destination registers and, of the system registers, FPSR, FPST and FPCC of the current
  bank.\<close>

theorem fpu_contract:
  assumes "(i, f, D) \<in> set (fpu_line h)"
    and "snd (op_exec_table oc bus h ! i) = Some e" and "e m = Some (r, m')"
  shows "r = -1 \<and> m' = m
    \<or> r = 0 \<and> m_world m' = m_world m \<and> m_nmi m' = m_nmi m \<and> m_core m' = (m_core m)\<lparr>reg := m_reg m'\<rparr>
      \<and> reg_pc (m_reg m') = reg_pc (m_reg m) + 4
      \<and> (\<forall>j. j \<in> D (m_core m) \<or> reg_r (m_reg m') j = reg_r (m_reg m) j)
      \<and> fpu_same (m_reg m) ((m_reg m')\<lparr>reg_pc := reg_pc (m_reg m), reg_r := reg_r (m_reg m)\<rparr>)"
proof -
  have "e = on_core f" using fpu_line_table [of oc bus h] assms(1,2) by (auto simp: list_all_iff)
  with assms(3) have e: "on_core f m = Some (r, m')" by simp
  note c = fpu_lineD [OF assms(1)]
  note k = float_executor.axioms(1) [OF c]
  show ?thesis
    using core_executor.on_core_result [OF k e] core_executor.on_core_frame [OF k e] e
      float_executor.on_core_dest [OF c, of m m'] by auto
qed

section \<open>The rounding mode of an operation\<close>

lemma data2_value: "SYS_GET_DATA2 k v = (if bit v k then 1 else 0) + (if bit v (k + 1) then 2 else 0)"
proof (rule bit_word_eqI)
  fix n assume "n < LENGTH(8)"
  have "bit (SYS_GET_DATA2 k v) n \<longleftrightarrow> n < 2 \<and> bit v (k + n)"
  proof -
    have m: "(0x0003 :: u8) = mask 2" by (simp add: mask_eq_exp_minus_1)
    show ?thesis using \<open>n < LENGTH(8)\<close> unfolding SYS_GET_DATA2_def m
      by (auto simp: bit_and_iff bit_unsigned_iff bit_drop_bit_eq bit_mask_iff)
  qed
  moreover have "bit ((if bit v k then 1 else 0) + (if bit v (k + 1) then 2 else 0) :: u8) n \<longleftrightarrow> n < 2 \<and> bit v (k + n)"
  proof -
    have "bit (3 :: u8) n \<longleftrightarrow> n < 2"
      using bit_mask_iff [where 'a = "8 word", of 2 n] \<open>n < LENGTH(8)\<close> by (simp add: mask_eq_exp_minus_1)
    moreover have "bit (2 :: u8) n \<longleftrightarrow> n = 1"
      using bit_exp_iff [where 'a = "8 word", of 1 n] \<open>n < LENGTH(8)\<close> by auto
    moreover have "n < 2 \<longleftrightarrow> n = 0 \<or> n = 1" by auto
    ultimately show ?thesis by (auto simp: bit_1_iff)
  qed
  ultimately show "bit (SYS_GET_DATA2 k v) n = bit ((if bit v k then 1 else 0) + (if bit v (k + 1) then 2 else 0) :: u8) n"
    by simp
qed

lemma prepare_eq:
  assumes "fpu_bank g"
  defines "z \<equiv> bit (fpu_reg SYS_REG_FPSR g) 18 \<and> \<not> bit (fpu_reg SYS_REG_FPSR g) 19"
  shows "prepare_float_op g = Some (FLOAT_EXCEPTION_BIT_RESET,
    \<lparr>is_FPSR_FS = True, round_type = if z then FpuRounding_RZ else FpuRounding_RN\<rparr>,
    if z then FE_TOWARDZERO else FE_TONEAREST)"
  using fpu_get_bank [OF assms(1), of SYS_REG_FPSR]
  by (simp add: z_def prepare_float_op_def sys_get_fpsr_rm_def data2_value SysFpuRm_RN_def SysFpuRm_RZ_def SysFpuRm_RP_def SysFpuRm_RD_def)

text \<open>the rounding mode in force during an operation. The field RM of FPSR has two bits; the
  code compares it with 0x00, 0x01, 0x10 and 0x11, so that only rounding to nearest and toward
  zero are ever chosen and the modes RM = 2 (up) and RM = 3 (down) round to nearest. Subnormal
  numbers are always flushed, whatever the field FS holds.\<close>

theorem rounding_modes:
  assumes "fpu_bank g"
  shows "\<exists>cp rm. prepare_float_op g = Some (FLOAT_EXCEPTION_BIT_RESET, cp, rm) \<and> is_FPSR_FS cp
    \<and> (round_type cp, rm) = (if bit (fpu_reg SYS_REG_FPSR g) 18 \<and> \<not> bit (fpu_reg SYS_REG_FPSR g) 19
        then (FpuRounding_RZ, FE_TOWARDZERO) else (FpuRounding_RN, FE_TONEAREST))"
  by (simp add: prepare_eq [OF assms])

section \<open>Integers\<close>

lemma int_fp_valid: "\<bar>n\<bar> < 2 ^ 24 \<Longrightarrow> fp_valid FLT (int_fp n)"
  using holds_int_fp [of n] by (simp add: holds_int_def)

lemma int_fp_data: "\<bar>n\<bar> < 2 ^ 24 \<Longrightarrow> float_data (float_binary (int_fp n)) = int_fp n"
  by (simp add: float_data_binary int_fp_valid)

lemma int_fp_not_subnormal:
  assumes "\<bar>n\<bar> < 2 ^ 24"
  shows "\<not> FLOAT_IS_SBNORM (float_binary (int_fp n))"
proof
  assume "FLOAT_IS_SBNORM (float_binary (int_fp n))"
  then have z: "fp_exp (int_fp n) = 0" "fp_man (int_fp n) \<noteq> 0"
    using assms by (simp_all add: FLOAT_IS_SBNORM_def float_value_tests int_fp_data)
  have "fp_sig FLT (int_fp n) = nat \<bar>n\<bar> * 2 ^ nat (- fp_lsb FLT (int_fp n))"
    by (rule holds_sig [OF holds_int_fp [OF assms]])
  with z have m: "fp_man (int_fp n) = nat \<bar>n\<bar> * 2 ^ 149" by (simp add: fp_sig_def fp_lsb_def)
  moreover have "fp_man (int_fp n) < 2 ^ 23" using int_fp_valid [OF assms] by (simp add: fp_valid_def)
  ultimately have "nat \<bar>n\<bar> = 0" by (cases "nat \<bar>n\<bar>") simp_all
  with m z(2) show False by simp
qed

lemma flush_int [simp]:
  "\<bar>n\<bar> < 2 ^ 24 \<Longrightarrow> set_subnormal_operand cp (float_binary (int_fp n)) = float_binary (int_fp n)"
  "\<bar>n\<bar> < 2 ^ 24 \<Longrightarrow> set_subnormal_result cp (float_binary (int_fp n)) = float_binary (int_fp n)"
  by (simp_all add: set_subnormal_operand_def set_subnormal_result_def int_fp_not_subnormal)

lemma int_fp_class [simp]:
  "\<bar>n\<bar> < 2 ^ 24 \<Longrightarrow> \<not> FLOAT_IS_NAN (float_binary (int_fp n))"
  "\<bar>n\<bar> < 2 ^ 24 \<Longrightarrow> \<not> FLOAT_IS_INF (float_binary (int_fp n))"
  using holds_not_special [OF holds_int_fp [of n]] float_classes [of "float_binary (int_fp n)"]
  by (simp_all add: int_fp_data)

lemma float_op_quiet:
  assumes "fpu_bank g" and "\<And>cp rm. rm \<noteq> FE_DOWNWARD \<Longrightarrow> body cp rm g = Some (v, [], g)"
  shows "float_op body g = Some (v, g)"
  by (simp add: float_op_def prepare_eq [OF assms(1)] assms(2) end_float_op_def)

lemma greg_in:
  assumes "i < 32"
  shows "greg_check i cpu k = k" and "rd_r g i = Some (reg_r g (unat i))" and "wr_r g i v = Some (set_r (unat i) v g)"
  using assms [unfolded not_le [symmetric]] by (simp_all add: greg_check_def rd_r_def wr_r_def CPU_GREG_NUM_def)

lemma float_arith_int:
  assumes "fpu_bank (reg cpu)" and "ff_reg1 cpu < 32" and "ff_reg2 cpu < 32" and "ff_reg3 cpu < 32"
    and "reg_r (reg cpu) (unat (ff_reg1 cpu)) = float_binary (int_fp a)" and "\<bar>a\<bar> < 2 ^ 24"
    and "reg_r (reg cpu) (unat (ff_reg2 cpu)) = float_binary (int_fp b)" and "\<bar>b\<bar> < 2 ^ 24"
    and "\<bar>c\<bar> < 2 ^ 24" and "\<And>rm. rm \<noteq> FE_DOWNWARD \<Longrightarrow> compute rm (int_fp a) (int_fp b) = (int_fp c, [])"
  shows "float_arith compute cpu
    = ret cpu (add_pc 4 (set_r (unat (ff_reg3 cpu)) (float_binary (int_fp c)) (reg cpu)))"
  unfolding float_arith_def Let_def
  by (simp only: greg_in assms(2-5,7) bind.bind_lunit prod.case, subst float_op_quiet [OF assms(1)])
    (insert assms, simp_all add: int_fp_data greg_in)

lemma int_fp_neg: "\<bar>n\<bar> < 2 ^ 24 \<Longrightarrow> fp_neg (int_fp n) = (n < 0)"
  using holds_int_fp [of n] by (cases "n = 0") (simp_all add: holds_int_def int_fp_zero fp_zero_def)

text \<open>exact integer arithmetic. With the integers \<open>a\<close> and \<open>b\<close> of magnitude below 2^24 in
  \<open>reg1\<close> and \<open>reg2\<close> as \<open>float\<close> numbers, ADDF.S, SUBF.S and MULF.S store the sum \<open>a + b\<close>, the
  difference \<open>b - a\<close> and the product in \<open>reg3\<close>, when these stay in that range, advance the
  program counter and change nothing else: no exception is recorded, in either of the rounding
  modes and in every implementation of the host's arithmetic.\<close>

theorem integer_arithmetic:
  assumes "fpu_bank (reg cpu)" and "ff_reg1 cpu < 32" and "ff_reg2 cpu < 32" and "ff_reg3 cpu < 32"
    and "reg_r (reg cpu) (unat (ff_reg1 cpu)) = float_binary (int_fp a)" and "\<bar>a\<bar> < 2 ^ 24"
    and "reg_r (reg cpu) (unat (ff_reg2 cpu)) = float_binary (int_fp b)" and "\<bar>b\<bar> < 2 ^ 24"
  shows "(\<bar>a + b\<bar> < 2 ^ 24 \<longrightarrow> op_exec_addf_s_F h cpu
      = Some (0, cpu\<lparr>reg := add_pc 4 (set_r (unat (ff_reg3 cpu)) (float_binary (int_fp (a + b))) (reg cpu))\<rparr>))
    \<and> (\<bar>b - a\<bar> < 2 ^ 24 \<longrightarrow> op_exec_subf_s_F h cpu
      = Some (0, cpu\<lparr>reg := add_pc 4 (set_r (unat (ff_reg3 cpu)) (float_binary (int_fp (b - a))) (reg cpu))\<rparr>))
    \<and> (\<bar>a * b\<bar> < 2 ^ 24 \<longrightarrow> a * b \<noteq> 0 \<longrightarrow> op_exec_mulf_s_F h cpu
      = Some (0, cpu\<lparr>reg := add_pc 4 (set_r (unat (ff_reg3 cpu)) (float_binary (int_fp (a * b))) (reg cpu))\<rparr>))"
proof (intro conjI impI)
  note i = float_arith_int [OF assms] and h = holds_int_fp [OF assms(6)] holds_int_fp [OF assms(8)]
    and n = int_fp_neg [OF assms(6)] int_fp_neg [OF assms(8)]
  show "op_exec_addf_s_F h cpu
      = Some (0, cpu\<lparr>reg := add_pc 4 (set_r (unat (ff_reg3 cpu)) (float_binary (int_fp (a + b))) (reg cpu))\<rparr>)"
    if "\<bar>a + b\<bar> < 2 ^ 24"
    unfolding op_exec_addf_s_F_def by (subst i [OF that], rule add_ints; use that in \<open>simp add: n ret_def h\<close>)
  show "op_exec_subf_s_F h cpu
      = Some (0, cpu\<lparr>reg := add_pc 4 (set_r (unat (ff_reg3 cpu)) (float_binary (int_fp (b - a))) (reg cpu))\<rparr>)"
    if "\<bar>b - a\<bar> < 2 ^ 24"
    unfolding op_exec_subf_s_F_def by (subst i [OF that], rule sub_ints; use that in \<open>simp add: n ret_def h\<close>)
  show "op_exec_mulf_s_F h cpu
      = Some (0, cpu\<lparr>reg := add_pc 4 (set_r (unat (ff_reg3 cpu)) (float_binary (int_fp (a * b))) (reg cpu))\<rparr>)"
    if "\<bar>a * b\<bar> < 2 ^ 24" "a * b \<noteq> 0"
    unfolding op_exec_mulf_s_F_def by (subst i [OF that(1)], rule mul_ints; use that in \<open>simp add: ret_def h\<close>)
qed

lemma cvtf_ws_int:
  assumes "fpu_bank (reg cpu)" and "ff_reg2 cpu < 32" and "ff_reg3 cpu < 32"
    and "\<bar>sint (reg_r (reg cpu) (unat (ff_reg2 cpu)))\<bar> < 2 ^ 24"
  shows "op_exec_cvtf_ws_F h cpu = ret cpu (add_pc 4 (set_r (unat (ff_reg3 cpu))
    (float_binary (int_fp (sint (reg_r (reg cpu) (unat (ff_reg2 cpu)))))) (reg cpu)))"
  unfolding op_exec_cvtf_ws_F_def Let_def
  by (simp only: greg_in assms(2,3) bind.bind_lunit prod.case, subst float_op_quiet [OF assms(1)])
    (insert assms, simp_all add: greg_in of_int_exact)

lemma float_to_sint32_int:
  assumes "fpu_bank (reg cpu)" and "ff_reg2 cpu < 32" and "ff_reg3 cpu < 32"
    and "reg_r (reg cpu) (unat (ff_reg2 cpu)) = float_binary (int_fp n)" and "\<bar>n\<bar> < 2 ^ 24"
    and "cast (float_binary (int_fp n)) = Some (n, [])"
  shows "float_to_sint32 cast cpu = ret cpu (add_pc 4 (set_r (unat (ff_reg3 cpu)) (word_of_int n) (reg cpu)))"
  unfolding float_to_sint32_def Let_def
  by (simp only: greg_in assms(2-4) bind.bind_lunit prod.case, subst float_op_quiet [OF assms(1), where v = "word_of_int n"])
    (insert assms, simp_all add: greg_in clip_invalid_def abs_less_iff)

lemma sw_int:
  assumes "fpu_bank (reg cpu)" and "ff_reg2 cpu < 32" and "ff_reg3 cpu < 32"
    and "reg_r (reg cpu) (unat (ff_reg2 cpu)) = float_binary (int_fp n)" and "\<bar>n\<bar> < 2 ^ 24"
  shows "op_exec_cvtf_sw_F h cpu = ret cpu (add_pc 4 (set_r (unat (ff_reg3 cpu)) (word_of_int n) (reg cpu)))"
    and "op_exec_trncf_sw_F h cpu = ret cpu (add_pc 4 (set_r (unat (ff_reg3 cpu)) (word_of_int n) (reg cpu)))"
proof -
  have c: "to_sint64 h FLT (int_fp n) = Some (n, [])"
    unfolding to_sint64_def by (rule to_int_exact [OF holds_int_fp]) (use assms(5) in \<open>simp_all add: abs_less_iff\<close>)
  show "op_exec_cvtf_sw_F h cpu = ret cpu (add_pc 4 (set_r (unat (ff_reg3 cpu)) (word_of_int n) (reg cpu)))"
    unfolding op_exec_cvtf_sw_F_def by (rule float_to_sint32_int [OF assms]) (simp only: int_fp_data [OF assms(5)] c)
  show "op_exec_trncf_sw_F h cpu = ret cpu (add_pc 4 (set_r (unat (ff_reg3 cpu)) (word_of_int n) (reg cpu)))"
    unfolding op_exec_trncf_sw_F_def
    by (rule float_to_sint32_int [OF assms]) (simp add: int_fp_data [OF assms(5)] cast_rint_def rint_exact [OF assms(5)] c)
qed

text \<open>integers survive the way through \<open>float\<close>. CVTF.WS of a 32-bit integer of magnitude
  below 2^24, and then TRNCF.SW or CVTF.SW of its result, succeed, store the same integer, and
  record no exception: only the two destination registers and the program counter change.\<close>

theorem integer_round_trip:
  assumes "fpu_bank (reg cpu)" and "ff_reg2 cpu < 32" and "ff_reg3 cpu < 32"
    and "\<bar>sint (reg_r (reg cpu) (unat (ff_reg2 cpu)))\<bar> < 2 ^ 24"
    and "ff_reg2 (cpu\<lparr>decoded_code := d\<rparr>) = ff_reg3 cpu" and "ff_reg3 (cpu\<lparr>decoded_code := d\<rparr>) < 32"
    and "f \<in> {op_exec_cvtf_sw_F, op_exec_trncf_sw_F}"
  shows "\<exists>x g. op_exec_cvtf_ws_F h cpu = Some (0, cpu\<lparr>reg := g\<rparr>)
    \<and> g = add_pc 4 (set_r (unat (ff_reg3 cpu)) x (reg cpu))
    \<and> f h' (cpu\<lparr>decoded_code := d, reg := g\<rparr>) = Some (0, cpu\<lparr>decoded_code := d,
        reg := add_pc 4 (set_r (unat (ff_reg3 (cpu\<lparr>decoded_code := d\<rparr>)))
          (reg_r (reg cpu) (unat (ff_reg2 cpu))) g)\<rparr>)"
proof -
  let ?n = "sint (reg_r (reg cpu) (unat (ff_reg2 cpu)))"
  define g where "g = add_pc 4 (set_r (unat (ff_reg3 cpu)) (float_binary (int_fp ?n)) (reg cpu))"
  let ?c = "cpu\<lparr>decoded_code := d, reg := g\<rparr>"
  have r: "ff_reg2 ?c = ff_reg3 cpu" "ff_reg3 ?c = ff_reg3 (cpu\<lparr>decoded_code := d\<rparr>)" using assms(5) by simp_all
  have b: "fpu_bank (reg ?c)" using assms(1) by (simp add: g_def fpu_bank_def add_pc_def set_r_def)
  have v: "reg_r (reg ?c) (unat (ff_reg2 ?c)) = float_binary (int_fp ?n)"
    unfolding r by (simp add: g_def add_pc_def set_r_def)
  have "ff_reg2 ?c < 32" "ff_reg3 ?c < 32" using assms(3,6) unfolding r by simp_all
  note s = sw_int [OF b this v assms(4), of h']
  have "f h' ?c = ret ?c (add_pc 4 (set_r (unat (ff_reg3 ?c)) (word_of_int ?n) (reg ?c)))"
    using assms(7) s by blast
  moreover have "op_exec_cvtf_ws_F h cpu = Some (0, cpu\<lparr>reg := g\<rparr>)"
    unfolding g_def cvtf_ws_int [OF assms(1-4)] by (simp add: ret_def)
  ultimately show ?thesis
    by (intro exI [of _ "float_binary (int_fp ?n)"] exI [of _ g] conjI) (simp_all add: ret_def flip: g_def)
qed

section \<open>Comparison\<close>

lemma word8_set_bit: "ucast (ucast (data :: u8) OR push_bit n (1 :: u32)) = data OR push_bit n (1 :: u8)"
  by (rule bit_word_eqI) (auto simp: bit_unsigned_iff bit_or_iff bit_push_bit_iff bit_1_iff simp del: push_bit_of_1)

lemma word8_clear_bit: "ucast (ucast (data :: u8) AND NOT (push_bit n (1 :: u32))) = data AND NOT (push_bit n (1 :: u8))"
  by (rule bit_word_eqI) (auto simp: bit_unsigned_iff bit_and_iff bit_not_iff bit_push_bit_iff bit_1_iff simp del: push_bit_of_1)

lemma data8_bit: "bit (SYS_GET_DATA8 k (SYS_SET_DATA8 k d v)) n = bit d n" if "k + n < 32" "n < 8"
proof -
  have m: "(0xFFFF :: u32) = mask 16" by (simp add: mask_eq_exp_minus_1)
  show ?thesis using that unfolding SYS_GET_DATA8_def SYS_SET_DATA8_def m
    by (auto simp: bit_unsigned_iff bit_drop_bit_eq bit_or_iff bit_and_iff bit_not_iff bit_push_bit_iff bit_mask_iff
        dest: bit_imp_le_length)
qed

lemma fpu_upd_bank:
  assumes "fpu_bank g" and "i < 28"
  obtains g' where "fpu_upd i f g = Some g'" and "fpu_bank g'"
    and "\<And>j. fpu_reg j g' = (if j = i then f (fpu_reg i g) else fpu_reg j g)"
    and "psw g' = psw g" and "reg_r g' = reg_r g" and "reg_pc g' = reg_pc g"
proof
  let ?g = "g\<lparr>reg_sys := set_grp SYS_GRP_FPU (unat (current_bnk (reg_sys g))) i (f (fpu_reg i g)) (reg_sys g)\<rparr>"
  show "fpu_upd i f g = Some ?g"
    using assms by (simp add: fpu_upd_def cpu_get_sysreg_fpu_def ref_read_def ref_write_def fpu_bank_def fpu_reg_def size_defs)
  show "fpu_bank ?g" using assms by (simp add: fpu_bank_def set_grp_def)
  show "fpu_reg j ?g = (if j = i then f (fpu_reg i g) else fpu_reg j g)" for j
    by (simp add: fpu_reg_def set_grp_def)
  show "psw ?g = psw g" by (simp add: psw_def sys_get_cpu_base_def set_grp_def)
qed simp_all

lemma fpu_upds_bank:
  assumes "fpu_bank g" and "i < 28" and "j < 28" and "i \<noteq> j"
  obtains g' where "fpu_upd i s g \<bind> fpu_upd j t = Some g'" and "fpu_bank g'"
    and "fpu_reg i g' = s (fpu_reg i g)"
    and "psw g' = psw g" and "reg_r g' = reg_r g" and "reg_pc g' = reg_pc g"
proof -
  obtain h where h: "fpu_upd i s g = Some h" "fpu_bank h" "fpu_reg i h = s (fpu_reg i g)"
    "psw h = psw g" "reg_r h = reg_r g" "reg_pc h = reg_pc g"
    by (rule fpu_upd_bank [OF assms(1,2), of s]) simp_all
  obtain k where k: "fpu_upd j t h = Some k" "fpu_bank k" "fpu_reg i k = fpu_reg i h"
    "psw k = psw h" "reg_r k = reg_r h" "reg_pc k = reg_pc h"
    by (rule fpu_upd_bank [OF h(2) assms(3), of t]) (use assms(4) in simp_all)
  show thesis by (rule that [of k]) (simp_all add: h k)
qed

lemma raise_bank:
  assumes "fpu_bank g"
  obtains g' where "fpst_raise e g = Some g'" and "fpu_bank g'"
    and "psw g' = psw g" and "reg_r g' = reg_r g" and "reg_pc g' = reg_pc g"
proof -
  obtain xc where xc: "sys_get_fpst_xc g = Some xc" by (simp add: sys_get_fpst_xc_def fpu_get_bank assms)
  obtain h where h: "sys_set_fpst_xc (xc OR e) g = Some h" "fpu_bank h" "psw h = psw g" "reg_r h = reg_r g" "reg_pc h = reg_pc g"
    unfolding sys_set_fpst_xc_def sys_set_fpsr_xc_def
    by (rule fpu_upds_bank [OF assms, of SYS_REG_FPSR SYS_REG_FPST "SYS_SET_DATA6 10 (xc OR e)" "SYS_SET_DATA6 8 (xc OR e)"]) simp_all
  obtain xp where xp: "sys_get_fpst_xp h = Some xp" by (simp add: sys_get_fpst_xp_def fpu_get_bank h)
  obtain k where k: "sys_set_fpst_xp (xp OR e) h = Some k" "fpu_bank k" "psw k = psw h" "reg_r k = reg_r h" "reg_pc k = reg_pc h"
    unfolding sys_set_fpst_xp_def sys_set_fpsr_xp_def
    by (rule fpu_upds_bank [OF h(2), of SYS_REG_FPSR SYS_REG_FPST "SYS_SET_DATA5 0 (xp OR e)" "SYS_SET_DATA5 0 (xp OR e)"]) simp_all
  show ?thesis by (rule that [of k]) (simp_all add: fpst_raise_def xc xp h k)
qed

lemma cmpf_cc_bank:
  assumes "fpu_bank g" and "n = unat fcbit" and "n < 8"
  obtains g' where "cmpf_cc r c fcbit g = Some g'" and "fpu_bank g'"
    and "bit (SYS_GET_DATA8 24 (fpu_reg SYS_REG_FPSR g')) n \<longleftrightarrow> r AND (c AND 7) \<noteq> 0"
    and "psw g' = psw g" and "reg_r g' = reg_r g" and "reg_pc g' = reg_pc g"
proof -
  define d where "d = SYS_GET_DATA8 24 (fpu_reg SYS_REG_FPSR g)"
  define d' where "d' = (if r AND (c AND 7) \<noteq> 0 then d OR push_bit n 1 else d AND NOT (push_bit n 1))"
  obtain k where k: "sys_set_fpsr_cc d' g = Some k" "fpu_bank k" "fpu_reg SYS_REG_FPSR k = SYS_SET_DATA8 24 d' (fpu_reg SYS_REG_FPSR g)"
    "psw k = psw g" "reg_r k = reg_r g" "reg_pc k = reg_pc g"
    unfolding sys_set_fpsr_cc_def
    by (rule fpu_upds_bank [OF assms(1), of SYS_REG_FPSR SYS_REG_FPCC "SYS_SET_DATA8 24 d'" "SYS_SET_DATA8 0 d'"]) simp_all
  show ?thesis
  proof (rule that [of k])
    show "cmpf_cc r c fcbit g = Some k"
      using k(1) by (simp add: cmpf_cc_def sys_get_fpsr_cc_def fpu_get_bank assms(1) d_def d'_def
          word8_set_bit word8_clear_bit flip: assms(2) del: push_bit_of_1 split: if_splits)
    have "bit d' n \<longleftrightarrow> r AND (c AND 7) \<noteq> 0"
      using assms(3) by (simp add: d'_def bit_or_iff bit_and_iff bit_not_iff bit_push_bit_iff del: push_bit_of_1)
    then show "bit (SYS_GET_DATA8 24 (fpu_reg SYS_REG_FPSR k)) n \<longleftrightarrow> r AND (c AND 7) \<noteq> 0"
      using assms(3) by (simp add: k(3) data8_bit)
  qed (rule k)+
qed

text \<open>The condition \<open>c\<close> of a comparison of \<open>y\<close> with \<open>x\<close>: the bits of \<open>c\<close> select less, equal and
  unordered.\<close>

definition fcond_holds :: "u32 \<Rightarrow> fp \<Rightarrow> fp \<Rightarrow> bool" where
  "fcond_holds c y x \<longleftrightarrow>
     (if fp_is_nan FLT y \<or> fp_is_nan FLT x then bit c 0
      else let (i, j) = fp_cmp_int FLT y x in bit c 2 \<and> i < j \<or> bit c 1 \<and> i = j)"

lemma cmpf_result_cond:
  "cmpf_result l e u AND (c AND 7) \<noteq> 0 \<longleftrightarrow> bit c 2 \<and> l \<or> bit c 1 \<and> e \<or> bit c 0 \<and> u"
proof -
  have m: "(7 :: u32) = mask 3" by (simp add: mask_eq_exp_minus_1)
  have b: "bit (cmpf_result l e u AND (c AND 7)) n \<longleftrightarrow> bit c n \<and> (n = 2 \<and> l \<or> n = 1 \<and> e \<or> n = 0 \<and> u)" for n
    unfolding cmpf_result_def m
    by (auto simp: bit_and_iff bit_or_iff bit_push_bit_iff bit_mask_iff bit_1_iff dest: bit_imp_le_length
        simp del: push_bit_of_1 push_bit_Suc One_nat_def)
  have "cmpf_result l e u AND (c AND 7) \<noteq> 0 \<longleftrightarrow> (\<exists>n. bit (cmpf_result l e u AND (c AND 7)) n)"
    by (metis bit_0_eq bit_eq_iff bot_apply bot_bool_def)
  then show ?thesis unfolding b by auto
qed

lemma trfsr_flag:
  assumes "fpu_bank (reg cpu)" and "unat (ff_fcbit cpu) < 8"
  shows "\<exists>g. op_exec_trfsr_F cpu = Some (0, cpu\<lparr>reg := g\<rparr>) \<and> reg_r g = reg_r (reg cpu)
    \<and> bit (psw g) 0 = bit (SYS_GET_DATA8 24 (fpu_reg SYS_REG_FPSR (reg cpu))) (unat (ff_fcbit cpu))"
proof -
  define v where "v = SYS_GET_DATA8 24 (fpu_reg SYS_REG_FPSR (reg cpu))"
  have "ucast v AND push_bit (unat (ff_fcbit cpu)) (1 :: u32) \<noteq> 0 \<longleftrightarrow> bit v (unat (ff_fcbit cpu))"
    unfolding and_push_bit_neq_0_iff_bit using assms(2) by (simp add: bit_unsigned_iff)
  moreover have "sys_get_fpsr_cc (reg cpu) = Some v"
    by (simp add: sys_get_fpsr_cc_def fpu_get_bank assms(1) v_def)
  ultimately have "op_exec_trfsr_F cpu = Some (0, cpu\<lparr>reg := add_pc 4
      (if bit v (unat (ff_fcbit cpu)) then psw_set CPU_PSW_Z (reg cpu) else psw_clr CPU_PSW_Z (reg cpu))\<rparr>)"
    by (simp add: op_exec_trfsr_F_def ret_def)
  then show ?thesis
    by (intro exI conjI, assumption)
      (simp_all add: v_def add_pc_def psw_set_def psw_clr_def CPU_PSW_Z_def bit_or_iff bit_and_iff bit_not_iff)
qed

text \<open>CMPF.S followed by TRFSR of the same condition bit, from the bits in the registers to the
  flag Z. Both succeed, and Z is set exactly when the condition holds of the two numbers: its
  bits 2, 1 and 0 select less, equal and unordered, NaN operands being unordered whether or not
  the comparison records the invalid operation.\<close>

theorem compare_and_transfer:
  assumes "fpu_bank (reg cpu)" and "ff_reg1 cpu < 32" and "ff_reg2 cpu < 32"
    and "ff_fcbit (cpu\<lparr>decoded_code := d\<rparr>) = ff_fcbit cpu"
  shows "\<exists>g g'. op_exec_cmpf_s_F cpu = Some (0, cpu\<lparr>reg := g\<rparr>)
    \<and> op_exec_trfsr_F (cpu\<lparr>decoded_code := d, reg := g\<rparr>) = Some (0, cpu\<lparr>decoded_code := d, reg := g'\<rparr>)
    \<and> reg_r g' = reg_r (reg cpu)
    \<and> bit (psw g') 0 = fcond_holds (ff_reg3 cpu)
        (float_data (reg_r (reg cpu) (unat (ff_reg2 cpu)))) (float_data (reg_r (reg cpu) (unat (ff_reg1 cpu))))"
proof -
  let ?x = "reg_r (reg cpu) (unat (ff_reg1 cpu))" and ?y = "reg_r (reg cpu) (unat (ff_reg2 cpu))"
    and ?c = "ff_reg3 cpu" and ?n = "unat (ff_fcbit cpu)"
  have n: "?n < 8"
  proof -
    have "ff_fcbit cpu = take_bit 3 (drop_bit 1 (ff_sub cpu))"
    proof -
      have m: "(0x0000000F :: u32) = mask 4" by (simp add: mask_eq_exp_minus_1)
      show ?thesis unfolding ff_fcbit_def m
        by (rule bit_word_eqI) (auto simp: bit_take_bit_iff bit_drop_bit_eq bit_and_iff bit_mask_iff)
    qed
    then show ?thesis using take_bit_nat_less_exp [of 3 "unat (drop_bit 1 (ff_sub cpu))"] by (simp add: unsigned_take_bit_eq)
  qed
  define u where "u \<longleftrightarrow> FLOAT_IS_NAN ?x \<or> FLOAT_IS_NAN ?y"
  define l e where "l \<longleftrightarrow> \<not> u \<and> fst (fp_lt FLT (float_data ?y) (float_data ?x))"
    and "e \<longleftrightarrow> \<not> u \<and> fst (fp_eq FLT (float_data ?y) (float_data ?x))"
  obtain g0 where g0: "(if u \<and> ?c AND 8 \<noteq> 0 then fpst_raise SYS_FPSR_EXPR_V (reg cpu) else Some (reg cpu)) = Some g0"
    "fpu_bank g0" "psw g0 = psw (reg cpu)" "reg_r g0 = reg_r (reg cpu)" "reg_pc g0 = reg_pc (reg cpu)"
    by (cases "u \<and> ?c AND 8 \<noteq> 0") (auto intro: raise_bank [OF assms(1)] simp: assms(1))
  obtain g1 where g1: "cmpf_cc (cmpf_result l e u) ?c (ff_fcbit cpu) g0 = Some g1" "fpu_bank g1"
    "bit (SYS_GET_DATA8 24 (fpu_reg SYS_REG_FPSR g1)) ?n \<longleftrightarrow> cmpf_result l e u AND (?c AND 7) \<noteq> 0"
    "psw g1 = psw g0" "reg_r g1 = reg_r g0" "reg_pc g1 = reg_pc g0"
    by (rule cmpf_cc_bank [OF g0(2) refl n, of "cmpf_result l e u" ?c]) simp_all
  define g where "g = add_pc 4 g1"
  have "op_exec_cmpf_s_F cpu = Some (0, cpu\<lparr>reg := g\<rparr>)"
  proof -
    have "op_exec_cmpf_s_F cpu
        = (if u \<and> ?c AND 8 \<noteq> 0 then fpst_raise SYS_FPSR_EXPR_V (reg cpu) else Some (reg cpu)) \<bind>
          (\<lambda>g. cmpf_cc (cmpf_result l e u) ?c (ff_fcbit cpu) g \<bind> (\<lambda>g. ret cpu (add_pc 4 g)))"
      unfolding op_exec_cmpf_s_F_def Let_def greg_in [OF assms(2)] greg_in [OF assms(3)] bind.bind_lunit u_def [symmetric]
      by (cases u; cases "?c AND 8 = 0") (simp_all add: l_def e_def)
    then show ?thesis unfolding g0(1) by (simp add: g1(1) ret_def g_def)
  qed
  moreover have "fpu_bank g" "fpu_reg SYS_REG_FPSR g = fpu_reg SYS_REG_FPSR g1" "reg_r g = reg_r (reg cpu)"
    using g1 g0 by (simp_all add: g_def add_pc_def fpu_bank_def fpu_reg_def)
  moreover obtain g' where "op_exec_trfsr_F (cpu\<lparr>decoded_code := d, reg := g\<rparr>) = Some (0, cpu\<lparr>decoded_code := d, reg := g'\<rparr>)"
    "reg_r g' = reg_r g" "bit (psw g') 0 = bit (SYS_GET_DATA8 24 (fpu_reg SYS_REG_FPSR g)) ?n"
    using trfsr_flag [of "cpu\<lparr>decoded_code := d, reg := g\<rparr>"] \<open>fpu_bank g\<close> n assms(4) by (auto simp: ff_fcbit_def)
  moreover have "cmpf_result l e u AND (?c AND 7) \<noteq> 0 \<longleftrightarrow> fcond_holds ?c (float_data ?y) (float_data ?x)"
    unfolding cmpf_result_cond
    by (auto simp: fcond_holds_def l_def e_def u_def float_classes fp_lt_def fp_eq_def split: prod.splits)
  ultimately show ?thesis using g1(3) by auto
qed

section \<open>Witnesses\<close>

definition sample_F :: "u16 \<Rightarrow> u16 \<Rightarrow> u32 \<Rightarrow> (nat \<Rightarrow> u32) \<Rightarrow> TargetCoreType" where
  "sample_F reg2 reg3 sub r = sample_core
     (blank_decoded\<lparr>type_f := \<lparr>tf_reg2 = reg2, tf_opcode = 0, tf_reg1 = 1, tf_reg3 = reg3, tf_subopcode = sub\<rparr>\<rparr>) r"

lemma sample_F_simps [simp]:
  "tf_reg1 (type_f (decoded_code (sample_F b c k r))) = 1" "tf_reg2 (type_f (decoded_code (sample_F b c k r))) = b"
  "tf_reg3 (type_f (decoded_code (sample_F b c k r))) = c" "tf_subopcode (type_f (decoded_code (sample_F b c k r))) = k"
  "reg (sample_F b c k r) = blank_regs r" "fpu_bank (blank_regs r)"
  by (simp_all add: sample_F_def fpu_bank_def blank_regs_def size_defs)

lemma int_fp_samples:
  "float_binary (int_fp 3) = 0x40400000" "float_binary (int_fp 5) = 0x40A00000" "float_binary (int_fp 8) = 0x41000000"
  "float_binary (int_fp 2) = 0x40000000" "float_binary (int_fp 15) = 0x41700000"
  by (simp_all add: int_fp_def exact_fp_def Let_def float_binary_def bitlen_pos)

lemma fpu_contract_witness:
  "\<forall>oc bus h w. let m = sample_machine (sample_F 2 3 0 (\<lambda>i. if i = 2 then 0xC0400000 else 7)) w
    in \<exists>e m'. snd (op_exec_table oc bus h ! OpCodeId_ABSF_S_F) = Some e \<and> e m = Some (0, m')
      \<and> reg_r (m_reg m') 3 = 0x40400000 \<and> reg_r (m_reg m') 2 = 0xC0400000 \<and> reg_pc (m_reg m') = 4"
proof (intro allI)
  fix oc and bus :: "'a bus" and h and w :: 'a
  let ?m = "sample_machine (sample_F 2 3 0 (\<lambda>i. if i = 2 then 0xC0400000 else 7)) w"
  have l: "(OpCodeId_ABSF_S_F, op_exec_absf_s_F, d1) \<in> set (fpu_line h)" by (simp add: fpu_line_def)
  have t: "snd (op_exec_table oc bus h ! OpCodeId_ABSF_S_F) = Some (on_core op_exec_absf_s_F)"
    using fpu_line_table [of oc bus h] l by (auto simp: list_all_iff)
  obtain m' where m': "on_core op_exec_absf_s_F ?m = Some (0, m')" "reg_r (m_reg m') 3 = 0x40400000"
    by (simp add: on_core_def op_exec_absf_s_F_def greg_in op_absf_s_def FLOAT_SIGN_BIT_MASK_def ret_def add_pc_def set_r_def)
  from fpu_contract [OF l t m'(1)] have "reg_pc (m_reg m') = 4" "reg_r (m_reg m') 2 = 0xC0400000"
    by (auto dest!: spec [of _ 2])
  with t m' show "let m = ?m in \<exists>e m'. snd (op_exec_table oc bus h ! OpCodeId_ABSF_S_F) = Some e \<and> e m = Some (0, m')
      \<and> reg_r (m_reg m') 3 = 0x40400000 \<and> reg_r (m_reg m') 2 = 0xC0400000 \<and> reg_pc (m_reg m') = 4"
    unfolding Let_def by blast
qed

lemma rounding_modes_witness:
  "\<exists>cp. prepare_float_op ((blank_regs (\<lambda>_. 0))\<lparr>reg_sys := set_grp SYS_GRP_FPU 0 SYS_REG_FPSR 0xC0000 (reg_sys (blank_regs (\<lambda>_. 0)))\<rparr>)
    = Some (FLOAT_EXCEPTION_BIT_RESET, cp, FE_TONEAREST)"
  using rounding_modes [of "(blank_regs (\<lambda>_. 0))\<lparr>reg_sys := set_grp SYS_GRP_FPU 0 SYS_REG_FPSR 0xC0000 (reg_sys (blank_regs (\<lambda>_. 0)))\<rparr>"]
  by (auto simp: fpu_bank_def fpu_reg_def blank_regs_def set_grp_def size_defs)

lemma integer_arithmetic_witness:
  "\<forall>h. let cpu = sample_F 2 3 0 (\<lambda>i. if i = 1 then 0x40400000 else 0x40A00000)
    in op_exec_addf_s_F h cpu = Some (0, cpu\<lparr>reg := add_pc 4 (set_r 3 0x41000000 (reg cpu))\<rparr>)
     \<and> op_exec_subf_s_F h cpu = Some (0, cpu\<lparr>reg := add_pc 4 (set_r 3 0x40000000 (reg cpu))\<rparr>)
     \<and> op_exec_mulf_s_F h cpu = Some (0, cpu\<lparr>reg := add_pc 4 (set_r 3 0x41700000 (reg cpu))\<rparr>)"
proof
  fix h
  show "let cpu = sample_F 2 3 0 (\<lambda>i. if i = 1 then 0x40400000 else 0x40A00000)
    in op_exec_addf_s_F h cpu = Some (0, cpu\<lparr>reg := add_pc 4 (set_r 3 0x41000000 (reg cpu))\<rparr>)
     \<and> op_exec_subf_s_F h cpu = Some (0, cpu\<lparr>reg := add_pc 4 (set_r 3 0x40000000 (reg cpu))\<rparr>)
     \<and> op_exec_mulf_s_F h cpu = Some (0, cpu\<lparr>reg := add_pc 4 (set_r 3 0x41700000 (reg cpu))\<rparr>)"
    using integer_arithmetic [of "sample_F 2 3 0 (\<lambda>i. if i = 1 then 0x40400000 else 0x40A00000)" 3 5 h]
    by (simp add: int_fp_samples)
qed

lemma integer_round_trip_witness:
  "\<forall>h h'. let cpu = sample_F 2 3 0 (\<lambda>i. - 7); d = decoded_code (sample_F 3 4 0 (\<lambda>i. 0))
    in \<exists>g g'. op_exec_cvtf_ws_F h cpu = Some (0, cpu\<lparr>reg := g\<rparr>)
      \<and> op_exec_trncf_sw_F h' (cpu\<lparr>decoded_code := d, reg := g\<rparr>) = Some (0, cpu\<lparr>decoded_code := d, reg := g'\<rparr>)
      \<and> reg_r g' 4 = - 7"
proof (intro allI)
  fix h h'
  let ?cpu = "sample_F 2 3 0 (\<lambda>i. - 7)" and ?d = "decoded_code (sample_F 3 4 0 (\<lambda>i. 0))"
  have "\<bar>sint (- 7 :: u32)\<bar> < 2 ^ 24" by simp
  then obtain g where g: "op_exec_cvtf_ws_F h ?cpu = Some (0, ?cpu\<lparr>reg := g\<rparr>)"
    "op_exec_trncf_sw_F h' (?cpu\<lparr>decoded_code := ?d, reg := g\<rparr>)
      = Some (0, ?cpu\<lparr>decoded_code := ?d, reg := add_pc 4 (set_r 4 (- 7) g)\<rparr>)"
    using integer_round_trip [of ?cpu ?d op_exec_trncf_sw_F h h'] by auto
  moreover have "reg_r (add_pc 4 (set_r 4 (- 7) g)) 4 = - 7" by (simp add: add_pc_def)
  ultimately show "let cpu = ?cpu; d = ?d
    in \<exists>g g'. op_exec_cvtf_ws_F h cpu = Some (0, cpu\<lparr>reg := g\<rparr>)
      \<and> op_exec_trncf_sw_F h' (cpu\<lparr>decoded_code := d, reg := g\<rparr>) = Some (0, cpu\<lparr>decoded_code := d, reg := g'\<rparr>)
      \<and> reg_r g' 4 = - 7"
    unfolding Let_def by blast
qed

lemma compare_and_transfer_witness:
  "let cpu = sample_F 2 4 0 (\<lambda>i. if i = 1 then 0x40400000 else 0x40A00000); d = decoded_code cpu
    in \<exists>g g'. op_exec_cmpf_s_F cpu = Some (0, cpu\<lparr>reg := g\<rparr>)
      \<and> op_exec_trfsr_F (cpu\<lparr>decoded_code := d, reg := g\<rparr>) = Some (0, cpu\<lparr>decoded_code := d, reg := g'\<rparr>)
      \<and> \<not> bit (psw g') 0"
proof -
  let ?cpu = "sample_F 2 4 0 (\<lambda>i. if i = 1 then 0x40400000 else 0x40A00000)"
  have "\<not> fcond_holds 4 (float_data 0x40A00000) (float_data 0x40400000)"
    by (simp add: fcond_holds_def float_data_def fp_cmp_int_def fp_int_def fp_sig_def fp_lsb_def fp_is_nan_def)
  then show ?thesis using compare_and_transfer [of ?cpu "decoded_code ?cpu"] by (auto simp: Let_def)
qed

end
