(* ===== verification/V850_Cpu_Correct.thy ===== *)
theory V850_Cpu_Correct
  imports V850_Logic_Correct
begin

unbundle bit_operations_syntax

text \<open>
  The execution loop of \<open>V850_Cpu\<close>: the ways a step can end as the relation
  \<open>not_cached_step\<close>, the invariant \<open>vcpu_ok\<close> of the instruction cache and its preservation, r0
  and the elapsed time, and what the straight-line executors promise when the loop runs them.
\<close>

section \<open>The state of the loop\<close>

lemma upd_core_frame [simp]:
  "v_core (upd_core f v) = f (v_core v)"
  "v_elaps (upd_core f v) = v_elaps v"
  "static_decoded (upd_core f v) = static_decoded v"
  "cached_codes (upd_core f v) = cached_codes v"
  by (simp_all add: upd_core_def)

lemma zero_r0_frame [simp]:
  "v_elaps (zero_r0 v) = v_elaps v" "static_decoded (zero_r0 v) = static_decoded v"
  "cached_codes (zero_r0 v) = cached_codes v"
  "reg_r (reg (v_core (zero_r0 v))) 0 = 0"
  by (simp_all add: zero_r0_def)

lemma run_exec_eq_Some:
  "run_exec clocks exec v = Some (e, v') \<longleftrightarrow>
     (\<exists>r m. exec (v_machine (upd_core (\<lambda>cpu. cpu\<lparr>real_elaps := clocks\<rparr>) v)) = Some (r, m) \<and>
        (if r < 0 then e = STD_E_EXEC \<and> v' = v\<lparr>v_machine := m\<rparr>
         else e = STD_E_OK \<and> v' = v\<lparr>v_machine := m, v_elaps := v_elaps v + ucast (real_elaps (m_core m))\<rparr>))"
  by (auto simp: run_exec_def Let_def bind_eq_Some_conv upd_core_def)

lemma run_exec_None:
  "run_exec clocks exec v = None \<longleftrightarrow> exec (v_machine (upd_core (\<lambda>cpu. cpu\<lparr>real_elaps := clocks\<rparr>) v)) = None"
  by (auto simp: run_exec_def Let_def split: option.splits Option.bind_splits)

lemma clock_permission_frame:
  assumes "clock_permission oc nbytes v = (p, v')"
  shows "cached_codes v' = cached_codes v" and "static_decoded v' = static_decoded v" and "v_elaps v' = v_elaps v"
    and "p \<Longrightarrow> v' = v"
proof -
  from assms obtain cpu where "v' = upd_core (\<lambda>_. cpu) v"
    and "p \<Longrightarrow> cpu = v_core v"
    by (auto simp: clock_permission_def Let_def cpu_has_permission_for_clock_supply_def split: prod.splits if_splits)
  then show "cached_codes v' = cached_codes v" and "static_decoded v' = static_decoded v" and "v_elaps v' = v_elaps v"
    and "p \<Longrightarrow> v' = v"
    by (simp_all add: upd_core_def)
qed

section \<open>The invariant of the cache\<close>

text \<open>
  A slot is in order when its operands have a known format and, once its executor is set, they
  are what the parser produced for some instruction and the executor is the table's for the
  stored operation code.
\<close>

definition type_ok :: "OpDecodedCodeType \<Rightarrow> bool" where
  "type_ok d \<longleftrightarrow> OpFormatSize (type_id d) \<noteq> None"

definition slot_ok :: "object_container \<Rightarrow> 'w bus \<Rightarrow> fp_host \<Rightarrow> 'w CachedCode \<Rightarrow> bool" where
  "slot_ok oc bus fpu c \<longleftrightarrow> type_ok (cc_decoded_code c) \<and>
     (\<forall>f. cc_op_exec c = Some f \<longrightarrow>
        (\<exists>code d0 ot. op_parse code d0 = Some (Some (ot, cc_decoded_code c)) \<and>
           cc_code_id c = code_id ot \<and> snd (op_exec_table oc bus fpu ! code_id ot) = Some f))"

definition vcpu_ok :: "object_container \<Rightarrow> 'w bus \<Rightarrow> fp_host \<Rightarrow> 'w vcpu \<Rightarrow> bool" where
  "vcpu_ok oc bus fpu v \<longleftrightarrow> type_ok (static_decoded v) \<and> (\<forall>b i. slot_ok oc bus fpu (cached_codes v b i))"

lemma vcpu_okD:
  assumes "vcpu_ok oc bus fpu v"
  shows "type_ok (get_decoded slot v)" and "slot_ok oc bus fpu (cached_codes v b i)"
  using assms by (auto simp: vcpu_ok_def get_decoded_def slot_ok_def split: option.splits)

lemma vcpu_ok_cong:
  "cached_codes v' = cached_codes v \<Longrightarrow> static_decoded v' = static_decoded v \<Longrightarrow>
     vcpu_ok oc bus fpu v' = vcpu_ok oc bus fpu v"
  by (simp add: vcpu_ok_def)

lemma set_slot_frame [simp]:
  "cached_codes (set_slot b i c v) b' i' = (if b' = b \<and> i' = i then c else cached_codes v b' i')"
  "static_decoded (set_slot b i c v) = static_decoded v"
  "v_machine (set_slot b i c v) = v_machine v" "v_elaps (set_slot b i c v) = v_elaps v"
  by (simp_all add: set_slot_def)

lemma put_decoded_static [simp]:
  "static_decoded (put_decoded None d v) = d" "cached_codes (put_decoded None d v) = cached_codes v"
  by (simp_all add: put_decoded_def)

lemma put_decoded_slot [simp]:
  "static_decoded (put_decoded (Some (b, i)) d v) = static_decoded v"
  "cached_codes (put_decoded (Some (b, i)) d v) b' i' =
     (if b' = b \<and> i' = i then (cached_codes v b i)\<lparr>cc_decoded_code := d\<rparr> else cached_codes v b' i')"
  by (simp_all add: put_decoded_def)

lemma v_core_put_decoded [simp]:
  "v_core (put_decoded slot d v) = (v_core v)\<lparr>decoded_code := d\<rparr>"
  "v_elaps (put_decoded slot d v) = v_elaps v"
  by (auto simp: put_decoded_def split: option.splits prod.splits)

lemma vcpu_ok_put_decoded:
  assumes "vcpu_ok oc bus fpu v" and "type_ok d"
    and "\<And>b i. slot = Some (b, i) \<Longrightarrow> cc_op_exec (cached_codes v b i) = None"
  shows "vcpu_ok oc bus fpu (put_decoded slot d v)"
  using assms by (cases slot) (auto simp: vcpu_ok_def slot_ok_def)

lemma vcpu_ok_set_slot:
  assumes "vcpu_ok oc bus fpu v" and "slot_ok oc bus fpu c"
  shows "vcpu_ok oc bus fpu (set_slot b i c v)"
  using assms by (auto simp: vcpu_ok_def)

lemma op_parse_result_cases:
  obtains (reject) "op_parse code d = Some None"
  | (accept) ot d' where "op_parse code d = Some (Some (ot, d'))"
  by (rule op_parse_cases [of code d]) blast+

lemma op_parse_type_ok: "op_parse code d0 = Some (Some (ot, d)) \<Longrightarrow> type_ok d0 \<Longrightarrow> type_ok d"
  by (cases code d0 rule: op_parse_cases) (auto simp: type_ok_def OpDecoder_type_id)

lemma op_parse_code_id: "op_parse code d0 = Some (Some (ot, d)) \<Longrightarrow> code_id ot < OpCodeId_Num"
  by (cases code d0 rule: op_parse_cases) (auto simp: well_named_def)

lemma op_parse_defined: "op_parse code d \<noteq> None"
  by (cases code d rule: op_parse_cases) auto

section \<open>An execution step without the cache\<close>

text \<open>
  Every way a step without cached code can end: the address cannot be resolved, the
  instruction is unknown, execution is not permitted, there is no executor, or the executor
  ran. In the last case the slot, if there is one, is filled when it succeeded.
\<close>

definition fetched :: "'w bus \<Rightarrow> (nat \<times> u32) option \<Rightarrow> 'w vcpu \<Rightarrow> Std_ReturnType \<times> 'w vcpu" where
  "fetched bus slot v =
     (let v = upd_core (\<lambda>cpu. cpu\<lparr>decoded_code := get_decoded slot v\<rparr>) v;
          (err, p, m) = bus_get_pointer bus (core_id (v_core v)) (reg_pc (reg (v_core v))) (v_machine v);
          v = v\<lparr>v_machine := m\<rparr>
      in (err, if err = STD_E_OK then upd_core (\<lambda>cpu. cpu\<lparr>current_code := (\<lambda>i. host_get16 bus (p + 2 * i) m)\<rparr>) v else v))"

lemma fetched_frame:
  assumes "fetched bus slot v = (e, v1)"
  shows "static_decoded v1 = static_decoded v" and "cached_codes v1 = cached_codes v" and "v_elaps v1 = v_elaps v"
    and "get_decoded slot v1 = get_decoded slot v"
  using assms by (auto simp: fetched_def Let_def get_decoded_def split: prod.splits if_splits option.splits)

text \<open>The outcome of a step without cached code, as a relation.\<close>

inductive not_cached_step ::
  "object_container \<Rightarrow> 'w bus \<Rightarrow> fp_host \<Rightarrow> (nat \<times> u32) option \<Rightarrow> 'w vcpu \<Rightarrow> Std_ReturnType \<Rightarrow> 'w vcpu \<Rightarrow> bool"
  for oc bus fpu slot v where
  no_memory: "fetched bus slot v = (e, v1) \<Longrightarrow> e \<noteq> STD_E_OK \<Longrightarrow> not_cached_step oc bus fpu slot v e v1"
| bad_code: "fetched bus slot v = (STD_E_OK, v1) \<Longrightarrow>
    op_parse (current_code (v_core v1)) (get_decoded slot v) = Some None \<Longrightarrow>
    not_cached_step oc bus fpu slot v STD_E_DECODE v1"
| no_permission: "fetched bus slot v = (STD_E_OK, v1) \<Longrightarrow>
    op_parse (current_code (v_core v1)) (get_decoded slot v) = Some (Some (ot, d)) \<Longrightarrow>
    OpFormatSize (type_id d) = Some nbytes \<Longrightarrow>
    clock_permission oc nbytes (put_decoded slot d v1) = (False, v2) \<Longrightarrow>
    not_cached_step oc bus fpu slot v STD_E_SEGV v2"
| no_executor: "fetched bus slot v = (STD_E_OK, v1) \<Longrightarrow>
    op_parse (current_code (v_core v1)) (get_decoded slot v) = Some (Some (ot, d)) \<Longrightarrow>
    OpFormatSize (type_id d) = Some nbytes \<Longrightarrow>
    clock_permission oc nbytes (put_decoded slot d v1) = (True, v2) \<Longrightarrow>
    snd (op_exec_table oc bus fpu ! code_id ot) = None \<Longrightarrow>
    not_cached_step oc bus fpu slot v STD_E_EXEC v2"
| executed: "fetched bus slot v = (STD_E_OK, v1) \<Longrightarrow>
    op_parse (current_code (v_core v1)) (get_decoded slot v) = Some (Some (ot, d)) \<Longrightarrow>
    OpFormatSize (type_id d) = Some nbytes \<Longrightarrow>
    clock_permission oc nbytes (put_decoded slot d v1) = (True, v2) \<Longrightarrow>
    op_exec_table oc bus fpu ! code_id ot = (clocks, Some f) \<Longrightarrow>
    run_exec clocks f v2 = Some (e, v3) \<Longrightarrow>
    v4 = (if e \<noteq> STD_E_OK then v3
          else case slot of None \<Rightarrow> v3
               | Some (b, inx) \<Rightarrow> set_slot b inx ((cached_codes v3 b inx)\<lparr>cc_code_id := code_id ot, cc_op_exec := Some f\<rparr>) v3) \<Longrightarrow>
    not_cached_step oc bus fpu slot v e v4"

lemma table_at_nth: "i < length t \<Longrightarrow> table_at t i = Some (t ! i)"
  by (simp add: table_at_def)

lemma table_at_parsed:
  "op_parse code d0 = Some (Some (ot, d)) \<Longrightarrow>
     table_at (op_exec_table oc bus fpu) (code_id ot) = Some (op_exec_table oc bus fpu ! code_id ot)"
  using op_parse_code_id by (simp add: table_at_nth)

lemma get_decoded_upd [simp]:
  "get_decoded slot (upd_core f v) = get_decoded slot v"
  "get_decoded slot (v\<lparr>v_machine := m\<rparr>) = get_decoded slot v"
  by (auto simp: get_decoded_def split: option.splits)

definition after_fetch ::
  "object_container \<Rightarrow> 'w bus \<Rightarrow> fp_host \<Rightarrow> (nat \<times> u32) option \<Rightarrow> OpDecodedCodeType \<Rightarrow> 'w vcpu
   \<Rightarrow> (Std_ReturnType \<times> 'w vcpu) option" where
  "after_fetch oc bus fpu slot d0 v = do {
     parsed \<leftarrow> op_parse (current_code (v_core v)) d0;
     (case parsed of
        None \<Rightarrow> Some (STD_E_DECODE, v)
      | Some (optype, d) \<Rightarrow> do {
          let v = put_decoded slot d v;
          nbytes \<leftarrow> OpFormatSize (type_id d);
          let (permission, v) = clock_permission oc nbytes v;
          if \<not> permission then Some (STD_E_SEGV, v)
          else do {
            (clocks, exec) \<leftarrow> table_at (op_exec_table oc bus fpu) (code_id optype);
            (case exec of
               None \<Rightarrow> Some (STD_E_EXEC, v)
             | Some f \<Rightarrow> do {
                 (err, v) \<leftarrow> run_exec clocks f v;
                 if err \<noteq> STD_E_OK then Some (err, v)
                 else Some (STD_E_OK,
                   case slot of
                     None \<Rightarrow> v
                   | Some (b, inx) \<Rightarrow>
                       set_slot b inx ((cached_codes v b inx)
                         \<lparr>cc_code_id := code_id optype, cc_op_exec := exec\<rparr>) v)
               })
          }
        })
   }"

lemma not_cached_eq:
  "cpu_supply_clock_not_cached oc bus fpu slot v =
    (case fetched bus slot v of (e, v1) \<Rightarrow>
      if e \<noteq> STD_E_OK then Some (e, v1) else after_fetch oc bus fpu slot (get_decoded slot v) v1)"
  unfolding cpu_supply_clock_not_cached_def fetched_def after_fetch_def Let_def
  by (simp split: prod.split)

lemma not_cached_sound:
  assumes "cpu_supply_clock_not_cached oc bus fpu slot v = Some (e, v')"
  shows "not_cached_step oc bus fpu slot v e v'"
proof -
  obtain e1 v1 where f: "fetched bus slot v = (e1, v1)" by fastforce
  show ?thesis
  proof (cases "e1 = STD_E_OK")
    case False
    with f assms show ?thesis by (auto simp: not_cached_eq intro: no_memory)
  next
    case True
    with f have ok: "fetched bus slot v = (STD_E_OK, v1)" by simp
    have A: "after_fetch oc bus fpu slot (get_decoded slot v) v1 = Some (e, v')"
      using assms by (simp add: not_cached_eq ok)
    show ?thesis
    proof (cases "current_code (v_core v1)" "get_decoded slot v" rule: op_parse_result_cases)
      case reject
      with A ok show ?thesis by (auto simp: after_fetch_def intro: bad_code)
    next
      case (accept ot d)
      obtain clocks exec where t: "op_exec_table oc bus fpu ! code_id ot = (clocks, exec)" by fastforce
      obtain nbytes where n: "OpFormatSize (type_id d) = Some nbytes"
        using A by (auto simp: after_fetch_def accept Let_def bind_eq_Some_conv)
      obtain p v2 where p: "clock_permission oc nbytes (put_decoded slot d v1) = (p, v2)" by fastforce
      show ?thesis
      proof (cases "p \<and> exec \<noteq> None")
        case False
        with A accept no_permission [OF ok accept n] no_executor [OF ok accept n] p t show ?thesis
          by (cases p) (auto simp: after_fetch_def Let_def n table_at_parsed [OF accept])
      next
        case True
        then obtain f where p: "clock_permission oc nbytes (put_decoded slot d v1) = (True, v2)"
          and t: "op_exec_table oc bus fpu ! code_id ot = (clocks, Some f)" using p t by auto
        obtain v3 where r: "run_exec clocks f v2 = Some (e, v3)"
          and v': "v' = (if e \<noteq> STD_E_OK then v3
             else case slot of None \<Rightarrow> v3
             | Some (b, inx) \<Rightarrow> set_slot b inx ((cached_codes v3 b inx)\<lparr>cc_code_id := code_id ot, cc_op_exec := Some f\<rparr>) v3)"
          using A by (auto simp: after_fetch_def Let_def accept n p t table_at_parsed [OF accept] bind_eq_Some_conv split: if_splits)
        show ?thesis by (rule executed [OF ok accept n p t r v'])
      qed
    qed
  qed
qed

lemma not_cached_undefined:
  assumes "cpu_supply_clock_not_cached oc bus fpu slot v = None" and "type_ok (get_decoded slot v)"
  shows "\<exists>i f m. i < OpCodeId_Num \<and> snd (op_exec_table oc bus fpu ! i) = Some f \<and> f m = None"
proof -
  obtain e1 v1 where f: "fetched bus slot v = (e1, v1)" by fastforce
  then have A: "after_fetch oc bus fpu slot (get_decoded slot v) v1 = None"
    using assms by (auto simp: not_cached_eq split: if_splits)
  show ?thesis
  proof (cases "current_code (v_core v1)" "get_decoded slot v" rule: op_parse_result_cases)
    case reject
    with A show ?thesis by (simp add: after_fetch_def)
  next
    case (accept ot d)
    obtain clocks exec where t: "op_exec_table oc bus fpu ! code_id ot = (clocks, exec)" by fastforce
    obtain nbytes where n: "OpFormatSize (type_id d) = Some nbytes"
      using op_parse_type_ok [OF accept assms(2)] by (auto simp: type_ok_def)
    obtain p v2 where p: "clock_permission oc nbytes (put_decoded slot d v1) = (p, v2)" by fastforce
    have "\<exists>f. exec = Some f \<and> run_exec clocks f v2 = None"
      using A by (cases p; cases exec) (auto simp: after_fetch_def Let_def accept n p t table_at_parsed [OF accept] split: Option.bind_splits if_splits)
    then show ?thesis
      using op_parse_code_id [OF accept] t by (metis run_exec_None snd_conv)
  qed
qed

lemma stored_ok:
  assumes "vcpu_ok oc bus fpu v" and "\<And>b i. slot = Some (b, i) \<Longrightarrow> cc_op_exec (cached_codes v b i) = None"
    and "fetched bus slot v = (STD_E_OK, v1)"
    and "op_parse (current_code (v_core v1)) (get_decoded slot v) = Some (Some (ot, d))"
    and "clock_permission oc nbytes (put_decoded slot d v1) = (p, v2)"
  shows "vcpu_ok oc bus fpu v2" and "cached_codes v2 = cached_codes (put_decoded slot d v1)"
proof -
  have "vcpu_ok oc bus fpu v1"
    using assms(1) fetched_frame [OF assms(3)] by (simp add: vcpu_ok_def)
  then have "vcpu_ok oc bus fpu (put_decoded slot d v1)"
    using op_parse_type_ok [OF assms(4)] vcpu_okD(1) [OF assms(1)] assms(2) fetched_frame [OF assms(3)]
    by (intro vcpu_ok_put_decoded) auto
  with clock_permission_frame [OF assms(5)]
  show "vcpu_ok oc bus fpu v2" and "cached_codes v2 = cached_codes (put_decoded slot d v1)"
    by (simp_all add: vcpu_ok_def)
qed

lemma vcpu_ok_run:
  assumes "run_exec clocks f v = Some (e, v')"
  shows "vcpu_ok oc bus fpu v' = vcpu_ok oc bus fpu v" and "cached_codes v' = cached_codes v"
  using assms by (auto simp: run_exec_eq_Some vcpu_ok_def split: if_splits)

lemma not_cached_ok:
  assumes "not_cached_step oc bus fpu slot v e v'" and v: "vcpu_ok oc bus fpu v"
    and s: "\<And>b i. slot = Some (b, i) \<Longrightarrow> cc_op_exec (cached_codes v b i) = None"
  shows "vcpu_ok oc bus fpu v'"
  using assms(1)
proof (cases rule: not_cached_step.cases)
  case no_memory
  with v fetched_frame [OF no_memory(1)] show ?thesis by (simp add: vcpu_ok_def)
next
  case bad_code
  with v fetched_frame [OF bad_code(2)] show ?thesis by (simp add: vcpu_ok_def)
next
  case (no_permission v1 ot d nbytes)
  with stored_ok(1) [OF v s] show ?thesis by blast
next
  case (no_executor v1 ot d nbytes)
  with stored_ok(1) [OF v s] show ?thesis by blast
next
  case (executed v1 ot d nbytes v2 clocks f v3)
  note ok = stored_ok [OF v s executed(1,2,4)]
  have v3: "vcpu_ok oc bus fpu v3" and c: "cached_codes v3 = cached_codes v2"
    using ok(1) vcpu_ok_run [OF executed(6)] by simp_all
  show ?thesis
  proof (cases slot)
    case None
    with v3 executed(7) show ?thesis by simp
  next
    case (Some bi)
    obtain b inx where bi: "bi = (b, inx)" by fastforce
    have d: "cc_decoded_code (cached_codes v3 b inx) = d"
      using c ok(2) Some bi by simp
    have t: "type_ok d" using op_parse_type_ok [OF executed(2)] vcpu_okD(1) [OF v] by blast
    have "slot_ok oc bus fpu ((cached_codes v3 b inx)\<lparr>cc_code_id := code_id ot, cc_op_exec := Some f\<rparr>)"
      unfolding slot_ok_def
    proof (intro conjI allI impI)
      fix g assume "cc_op_exec ((cached_codes v3 b inx)\<lparr>cc_code_id := code_id ot, cc_op_exec := Some f\<rparr>) = Some g"
      then have g: "snd (op_exec_table oc bus fpu ! code_id ot) = Some g" using executed(5) by simp
      show "\<exists>code d0 ot'. op_parse code d0 =
          Some (Some (ot', cc_decoded_code ((cached_codes v3 b inx)\<lparr>cc_code_id := code_id ot, cc_op_exec := Some f\<rparr>))) \<and>
          cc_code_id ((cached_codes v3 b inx)\<lparr>cc_code_id := code_id ot, cc_op_exec := Some f\<rparr>) = code_id ot' \<and>
          snd (op_exec_table oc bus fpu ! code_id ot') = Some g"
        by (rule exI [of _ "current_code (v_core v1)"], rule exI [of _ "get_decoded slot v"], rule exI [of _ ot])
          (simp add: d g executed(2))
    qed (simp add: d t)
    with v3 executed(7) Some bi show ?thesis by (auto intro: vcpu_ok_set_slot)
  qed
qed

section \<open>The execution step\<close>

text \<open>The slot that belongs to the program counter.\<close>

definition slot_of :: "(u32 \<Rightarrow> (nat \<times> u32) option) \<Rightarrow> 'w vcpu \<Rightarrow> (nat \<times> u32) option" where
  "slot_of get_cached_code v =
     map_option (\<lambda>(b, start). (b, reg_pc (reg (v_core v)) - start)) (get_cached_code (reg_pc (reg (v_core v))))"

definition cached_exec :: "(nat \<times> u32) option \<Rightarrow> 'w vcpu \<Rightarrow> 'w exec option" where
  "cached_exec slot v = (case slot of None \<Rightarrow> None | Some (b, inx) \<Rightarrow> cc_op_exec (cached_codes v b inx))"

lemma slot_of_zero_r0 [simp]: "slot_of gcc (zero_r0 v) = slot_of gcc v"
  by (simp add: slot_of_def zero_r0_def)

definition cached_path ::
  "object_container \<Rightarrow> 'w bus \<Rightarrow> fp_host \<Rightarrow> nat \<Rightarrow> u32 \<Rightarrow> 'w exec \<Rightarrow> 'w vcpu
   \<Rightarrow> (Std_ReturnType \<times> 'w vcpu) option" where
  "cached_path oc bus fpu b inx op_exec v = do {
     let c = cached_codes v b inx;
     let v = upd_core (\<lambda>cpu. cpu\<lparr>decoded_code := cc_decoded_code c\<rparr>) v;
     nbytes \<leftarrow> OpFormatSize (type_id (cc_decoded_code c));
     let (permission, v) = clock_permission oc nbytes v;
     if \<not> permission then Some (STD_E_SEGV, v)
     else do {
       (clocks, _) \<leftarrow> table_at (op_exec_table oc bus fpu) (cc_code_id c);
       run_exec clocks op_exec v
     }
   }"

definition finish :: "(Std_ReturnType \<times> 'w vcpu) option \<Rightarrow> (Std_ReturnType \<times> 'w vcpu) option" where
  "finish r = map_option (\<lambda>(e, v). (e, if e = STD_E_OK then zero_r0 v else v)) r"

lemma bind_finish:
  "finish r = r \<bind> (\<lambda>(e, v). if e \<noteq> STD_E_OK then Some (e, v) else Some (STD_E_OK, zero_r0 v))"
  by (cases r) (auto simp: finish_def)

lemma cached_path_eq:
  "finish (cached_path oc bus fpu b inx op_exec v) = do {
     let code_id = cc_code_id (cached_codes v b inx);
     let v = upd_core (\<lambda>cpu. cpu\<lparr>decoded_code := cc_decoded_code (cached_codes v b inx)\<rparr>) v;
     nbytes \<leftarrow> OpFormatSize (type_id (cc_decoded_code (cached_codes v b inx)));
     let (permission, v) = clock_permission oc nbytes v;
     if \<not> permission then Some (STD_E_SEGV, v)
     else do {
       (clocks, _) \<leftarrow> table_at (op_exec_table oc bus fpu) code_id;
       (err, v) \<leftarrow> run_exec clocks op_exec v;
       if err \<noteq> STD_E_OK then Some (err, v) else Some (STD_E_OK, zero_r0 v)
     }
   }"
  unfolding bind_finish cached_path_def Let_def
  by (auto simp: case_prod_op split: option.split prod.split Option.bind_split)

lemma supply_clock_eq:
  "\<not> is_halt (v_core v) \<Longrightarrow> cpu_supply_clock oc bus fpu gcc v =
     finish (case slot_of gcc v of
        Some (b, inx) \<Rightarrow>
          (case cc_op_exec (cached_codes v b inx) of
             Some f \<Rightarrow> cached_path oc bus fpu b inx f (zero_r0 v)
           | None \<Rightarrow> cpu_supply_clock_not_cached oc bus fpu (Some (b, inx)) (zero_r0 v))
      | None \<Rightarrow> cpu_supply_clock_not_cached oc bus fpu None (zero_r0 v))"
proof -
  assume h: "\<not> is_halt (v_core v)"
  have pc: "reg_pc (reg (v_core (zero_r0 v))) = reg_pc (reg (v_core v))" by (simp add: zero_r0_def)
  have g: "get_decoded (Some (b, i)) w = cc_decoded_code (cached_codes w b i)" for b i and w :: "'a vcpu"
    by (simp add: get_decoded_def)
  show ?thesis
  proof (cases "gcc (reg_pc (reg (v_core v)))")
    case None
    with h show ?thesis by (simp add: cpu_supply_clock_def Let_def slot_of_def pc bind_finish)
  next
    case (Some bs)
    obtain b st where bs: "bs = (b, st)" by fastforce
    with h Some show ?thesis
      by (cases "cc_op_exec (cached_codes v b (reg_pc (reg (v_core v)) - st))")
        (simp_all add: cpu_supply_clock_def Let_def slot_of_def pc g cached_path_eq [unfolded Let_def] bind_finish [symmetric])
  qed
qed

lemma finish_eq_Some:
  "finish r = Some (e, v') \<longleftrightarrow> (\<exists>v. r = Some (e, v) \<and> v' = (if e = STD_E_OK then zero_r0 v else v))"
  by (auto simp: finish_def)

lemma finish_None [simp]: "finish r = None \<longleftrightarrow> r = None"
  by (simp add: finish_def)

lemma vcpu_ok_zero_r0 [simp]: "vcpu_ok oc bus fpu (zero_r0 v) = vcpu_ok oc bus fpu v"
  by (simp add: vcpu_ok_def)

lemma cached_path_ok:
  assumes "cached_path oc bus fpu b inx f v = Some (e, v')" and "vcpu_ok oc bus fpu v"
  shows "vcpu_ok oc bus fpu v'"
    and "v_elaps v' = v_elaps v + (if e = STD_E_OK then ucast (real_elaps (v_core v')) else 0)"
proof -
  let ?v = "upd_core (\<lambda>cpu. cpu\<lparr>decoded_code := cc_decoded_code (cached_codes v b inx)\<rparr>) v"
  obtain nbytes where n: "OpFormatSize (type_id (cc_decoded_code (cached_codes v b inx))) = Some nbytes"
    using assms(1) by (auto simp: cached_path_def Let_def bind_eq_Some_conv)
  obtain p v2 where p: "clock_permission oc nbytes ?v = (p, v2)" by fastforce
  have A: "if \<not> p then (e, v') = (STD_E_SEGV, v2) else (\<exists>clocks. run_exec clocks f v2 = Some (e, v'))"
    using assms(1) by (cases p) (auto simp: cached_path_def Let_def n p bind_eq_Some_conv)
  have v2: "vcpu_ok oc bus fpu v2" and t: "v_elaps v2 = v_elaps v"
    using clock_permission_frame [OF p] assms(2) by (simp_all add: vcpu_ok_def)
  show "vcpu_ok oc bus fpu v'"
  proof (cases p)
    case True
    with A obtain clocks where "run_exec clocks f v2 = Some (e, v')" by auto
    from vcpu_ok_run(1) [OF this] v2 show ?thesis by simp
  next
    case False
    with A v2 show ?thesis by simp
  qed
  show "v_elaps v' = v_elaps v + (if e = STD_E_OK then ucast (real_elaps (v_core v')) else 0)"
    using A t by (auto simp: run_exec_eq_Some split: if_splits)
qed

lemma cached_path_undefined:
  assumes "cached_path oc bus fpu b inx f v = None" and "vcpu_ok oc bus fpu v"
    and f: "cc_op_exec (cached_codes v b inx) = Some f"
  shows "\<exists>i f m. i < OpCodeId_Num \<and> snd (op_exec_table oc bus fpu ! i) = Some f \<and> f m = None"
proof -
  let ?c = "cached_codes v b inx"
  obtain code d0 ot where o: "op_parse code d0 = Some (Some (ot, cc_decoded_code ?c))" and i: "cc_code_id ?c = code_id ot"
    and x: "snd (op_exec_table oc bus fpu ! code_id ot) = Some f"
    using vcpu_okD(2) [OF assms(2), of b inx] f by (auto simp: slot_ok_def)
  obtain nbytes where n: "OpFormatSize (type_id (cc_decoded_code ?c)) = Some nbytes"
    using vcpu_okD(2) [OF assms(2), of b inx] by (auto simp: slot_ok_def type_ok_def)
  have "\<exists>clocks v2. run_exec clocks f v2 = None"
    using assms(1) by (auto simp: cached_path_def Let_def n i table_at_parsed [OF o] split: prod.splits if_splits Option.bind_splits)
  then have "\<exists>m. f m = None" by (auto simp: run_exec_None)
  with op_parse_code_id [OF o] x show ?thesis by blast
qed

lemma not_cached_elaps:
  assumes "not_cached_step oc bus fpu slot v e v'"
  shows "v_elaps v' = v_elaps v + (if e = STD_E_OK then ucast (real_elaps (v_core v')) else 0)"
  using assms
proof (cases rule: not_cached_step.cases)
  case (executed v1 ot d nbytes v2 clocks f v3)
  have "v_elaps v2 = v_elaps v"
    using clock_permission_frame [OF executed(4)] fetched_frame [OF executed(1)] by simp
  with executed(6,7) show ?thesis
    by (auto simp: run_exec_eq_Some split: if_splits option.splits)
next
  case (no_permission v1 ot d nbytes)
  with clock_permission_frame [OF no_permission(5)] fetched_frame [OF no_permission(2)] show ?thesis by simp
next
  case (no_executor v1 ot d nbytes)
  with clock_permission_frame [OF no_executor(5)] fetched_frame [OF no_executor(2)] show ?thesis by simp
qed (auto dest: fetched_frame)

lemma supply_clock_steps:
  assumes "\<not> is_halt (v_core v)" and "cpu_supply_clock oc bus fpu gcc v = Some (e, v')"
  obtains (cached) b inx f v1 where "cached_path oc bus fpu b inx f (zero_r0 v) = Some (e, v1)"
      and "v' = (if e = STD_E_OK then zero_r0 v1 else v1)" and "cc_op_exec (cached_codes v b inx) = Some f"
  | (not_cached) slot v1 where "not_cached_step oc bus fpu slot (zero_r0 v) e v1"
      and "v' = (if e = STD_E_OK then zero_r0 v1 else v1)"
      and "\<And>b i. slot = Some (b, i) \<Longrightarrow> cc_op_exec (cached_codes v b i) = None"
proof (cases "cached_exec (slot_of gcc v) v")
  case None
  then have n: "\<And>b i. slot_of gcc v = Some (b, i) \<Longrightarrow> cc_op_exec (cached_codes v b i) = None"
    by (simp add: cached_exec_def)
  from None assms(2) obtain v1 where
    "cpu_supply_clock_not_cached oc bus fpu (slot_of gcc v) (zero_r0 v) = Some (e, v1)"
    and "v' = (if e = STD_E_OK then zero_r0 v1 else v1)"
    unfolding supply_clock_eq [OF assms(1)] finish_eq_Some by (auto simp: cached_exec_def split: option.splits)
  with n not_cached show thesis by (blast dest: not_cached_sound)
next
  case (Some f)
  with assms(2) cached show thesis
    unfolding supply_clock_eq [OF assms(1)] finish_eq_Some by (auto simp: cached_exec_def split: option.splits)
qed

section \<open>A concrete step\<close>

lemma sample_vcpu_ok: "vcpu_ok oc bus fpu (sample_vcpu lo hi r)"
  by (simp add: vcpu_ok_def slot_ok_def type_ok_def blank_decoded_def)

lemma clock_permission_trusted:
  "cpu_get_psw (reg_sys (reg (v_core v))) = 0 \<Longrightarrow> clock_permission oc nbytes v = (True, v)"
  by (simp add: clock_permission_def cpu_has_permission_for_clock_supply_def IS_TRUSTED_def upd_core_def)

lemma type_id_1: "type_id (OpDecode1 code blank_decoded) = OP_CODE_FORMAT_1"
  by (simp add: OpDecode1_def blank_decoded_def)

lemma blank_psw [simp]: "cpu_get_psw (reg_sys (blank_regs r)) = 0"
  by (simp add: cpu_get_psw_def blank_regs_def)

lemma sample_table:
  fixes bus :: "ram bus"
  shows "table_at (op_exec_table oc bus fpu) OpCodeId_ADD_1 = Some (1, Some (on_core op_exec_add_1))"
    and "table_at (op_exec_table oc bus fpu) OpCodeId_DIVH_1 = Some (36, Some (on_core op_exec_divh_1))"
  by (simp_all add: table_at_def op_exec_table_def)

lemma sample_operands:
  "code 0 = 0x11C1 \<or> code 0 = 0x1041 \<Longrightarrow> t1_reg1 (type1 (OpDecode1 code d)) = 1"
  "code 0 = 0x11C1 \<or> code 0 = 0x1041 \<Longrightarrow> t1_reg2 (type1 (OpDecode1 code d)) = 2"
  by (auto simp: OpDecode1_def)

lemmas sample_step_simps = supply_clock_eq slot_of_def not_cached_eq fetched_def Let_def zero_r0_def

lemmas sample_step_simps' = ram_bus_def after_fetch_def sample_vcpu_def upd_core_def parse_sample ram_get16_def
  sample_machine_def put_decoded_def get_decoded_def

lemmas sample_step_simps'' = type_id_1 clock_permission_trusted upd_core_def sample_table run_exec_def on_core_def
  finish_def sample_operands set_slot_def

lemma sample_step:
  "\<exists>v'. cpu_supply_clock list_container ram_bus fpu (\<lambda>_. Some (0, 0)) (sample_vcpu 0xC1 0x11 (\<lambda>i. of_nat i + 5)) = Some (STD_E_OK, v')
     \<and> reg_r (reg (v_core v')) 2 = 13 \<and> cc_op_exec (cached_codes v' 0 0) = Some (on_core op_exec_add_1)"
  by (simp add: sample_step_simps, simp add: sample_step_simps' set_slot_def, simp add: sample_step_simps'',
      simp add: op_exec_add_1_def Let_def alu_state_simps ret_def sample_operands zero_r0_def upd_core_def)

lemma sample_step_undefined:
  "cpu_supply_clock list_container ram_bus fpu (\<lambda>_. None) (sample_vcpu 0x41 0x10 (\<lambda>_. 0x10000)) = None"
  by (simp add: sample_step_simps, simp add: sample_step_simps', simp add: sample_step_simps'',
      simp add: op_exec_divh_1_def Let_def sample_operands c_sdiv_def sext16_def)

section \<open>Properties\<close>

text \<open>C3: the cache only ever holds what parsing produced: when every slot's
  executor is the table's entry for an operation the parser derived together with the stored
  operands, an execution step, whatever the bus, the executors and the MPU do and however it
  ends, leaves a state in which that holds again.\<close>

theorem step_keeps_cache:
  assumes "vcpu_ok oc bus fpu v" and "cpu_supply_clock oc bus fpu get_cached_code v = Some (e, v')"
  shows "vcpu_ok oc bus fpu v'"
proof (cases "is_halt (v_core v)")
  case True
  with assms show ?thesis by (simp add: cpu_supply_clock_def)
next
  case False
  from False assms(2) show ?thesis
  proof (cases rule: supply_clock_steps)
    case cached
    with cached_path_ok(1) [OF cached(1)] assms(1) show ?thesis by simp
  next
    case (not_cached slot v1)
    with not_cached_ok [OF not_cached(1)] assms(1) show ?thesis by simp
  qed
qed

lemma step_keeps_cache_witness:
  "\<forall>fpu. \<exists>v'. cpu_supply_clock list_container ram_bus fpu (\<lambda>_. Some (0, 0)) (sample_vcpu 0xC1 0x11 (\<lambda>i. of_nat i + 5)) = Some (STD_E_OK, v')
     \<and> cc_op_exec (cached_codes v' 0 0) \<noteq> None \<and> vcpu_ok list_container ram_bus fpu v'"
proof
  fix fpu
  obtain v' where s: "cpu_supply_clock list_container ram_bus fpu (\<lambda>_. Some (0, 0)) (sample_vcpu 0xC1 0x11 (\<lambda>i. of_nat i + 5)) = Some (STD_E_OK, v')"
    and c: "cc_op_exec (cached_codes v' 0 0) = Some (on_core op_exec_add_1)"
    using sample_step [of fpu] by blast
  show "\<exists>v'. cpu_supply_clock list_container ram_bus fpu (\<lambda>_. Some (0, 0)) (sample_vcpu 0xC1 0x11 (\<lambda>i. of_nat i + 5)) = Some (STD_E_OK, v')
     \<and> cc_op_exec (cached_codes v' 0 0) \<noteq> None \<and> vcpu_ok list_container ram_bus fpu v'"
    using s c step_keeps_cache [OF sample_vcpu_ok s] by auto
qed





text \<open>C8: the 73 executors of \<open>straight_line\<close> only compute: each is in the executor
  table under its operation code, and run from there it leaves the world, the NMI requests
  and all of the core but its registers as they were; it either succeeds with the program
  counter advanced by the listed distance or fails with nothing changed.\<close>

theorem straight_line_contract:
  assumes "(i, f, n) \<in> set straight_line"
    and "snd (op_exec_table oc bus fpu ! i) = Some h" and "h m = Some (r, m')"
  shows "m_world m' = m_world m \<and> m_nmi m' = m_nmi m \<and> m_core m' = (m_core m)\<lparr>reg := m_reg m'\<rparr>
    \<and> (r = 0 \<and> reg_pc (m_reg m') = reg_pc (m_reg m) + n \<or> r = -1 \<and> m' = m)"
proof -
  have "h = on_core f"
    using straight_line_table [of oc bus fpu] assms(1,2) by (auto simp: list_all_iff)
  with assms(3) have e: "on_core f m = Some (r, m')" by simp
  note c = straight_lineD [OF assms(1)]
  show ?thesis
    using core_executor.on_core_frame [OF c e] core_executor.on_core_result [OF c e] by simp
qed

lemma straight_line_contract_witness:
  "\<forall>oc bus fpu. \<exists>h r m'. snd (op_exec_table oc bus fpu ! OpCodeId_NOP_1) = Some h
     \<and> h (sample_machine (sample_1 (\<lambda>_. 0)) ()) = Some (r, m') \<and> (r = 0 \<longrightarrow> reg_pc (m_reg m') = 2)"
proof (intro allI)
  fix oc and bus :: "unit bus" and fpu
  let ?m = "sample_machine (sample_1 (\<lambda>_. 0)) ()"
  have i: "(OpCodeId_NOP_1, op_exec_nop, 2) \<in> set straight_line"
    by (simp add: straight_line_def)
  then have t: "snd (op_exec_table oc bus fpu ! OpCodeId_NOP_1) = Some (on_core op_exec_nop)"
    using straight_line_table [of oc bus fpu] by (auto simp: list_all_iff)
  obtain r m' where "on_core op_exec_nop ?m = Some (r, m')"
    by (simp add: on_core_def op_exec_nop_def ret_def)
  with t straight_line_contract [OF i t this] have "r = 0 \<longrightarrow> reg_pc (m_reg m') = 2" by (auto simp: sample_1_def)
  with t \<open>on_core op_exec_nop ?m = Some (r, m')\<close> show "\<exists>h r m'. snd (op_exec_table oc bus fpu ! OpCodeId_NOP_1) = Some h
     \<and> h (sample_machine (sample_1 (\<lambda>_. 0)) ()) = Some (r, m') \<and> (r = 0 \<longrightarrow> reg_pc (m_reg m') = 2)"
    by blast
qed

text \<open>the distance an executor advances the program counter is the size of
  its instruction format, except for the four byte and halfword swaps, which advance by 2
  although format XII occupies 4 bytes.\<close>

theorem straight_line_advance:
  assumes "(i, f, n) \<in> set straight_line"
  shows "OpFormatSize (code_formats ! i) = Some n \<longleftrightarrow>
    i \<notin> {OpCodeId_HSH_12, OpCodeId_HSW_12, OpCodeId_BSH_12, OpCodeId_BSW_12}"
  using assms straight_line_size by (auto simp: list_all_iff)

lemma straight_line_advance_witness:
  "OpFormatSize (code_formats ! OpCodeId_BSW_12) \<noteq> Some 2 \<and> OpFormatSize (code_formats ! OpCodeId_ADD_1) = Some 2"
proof
  show "OpFormatSize (code_formats ! OpCodeId_BSW_12) \<noteq> Some 2"
    using straight_line_advance [of OpCodeId_BSW_12 op_exec_bsw_12 2] by (simp add: straight_line_def)
  show "OpFormatSize (code_formats ! OpCodeId_ADD_1) = Some 2"
    using straight_line_advance [of OpCodeId_ADD_1 op_exec_add_1 2] by (simp add: straight_line_def)
qed

text \<open>C16: for operands the decoder produces (register fields below 32), each straight-line
  executor is defined and succeeds on every core, but for the signed and halfword dividers,
  the multiply-accumulates and STSR, whose undefined cases are stated elsewhere.\<close>

theorem straight_line_returns:
  assumes "(i, f, n) \<in> set straight_line"
    and "i \<notin> {OpCodeId_DIVH_1, OpCodeId_DIVH_11, OpCodeId_DIVHU_11, OpCodeId_DIV_11, OpCodeId_DIVQ_11,
            OpCodeId_MAC_11, OpCodeId_MACU_11, OpCodeId_STSR_9}"
    and "OpDecoder (code_formats ! i) = Some dec" and "decoded_code cpu = dec code d"
  shows "\<exists>cpu'. f cpu = Some (0, cpu')"
proof -
  have "\<forall>x \<in> set (reg_fields (code_formats ! i) (decoded_code cpu)). x < 32"
    using reg_fields_less_32 [OF assms(3)] assms(4) by simp
  with straight_line_defined [of cpu] assms(1,2) show ?thesis
    unfolding list_all_iff by fastforce
qed

lemma straight_line_returns_witness:
  "\<exists>cpu'. op_exec_add_1 (sample_1 (\<lambda>_. 0)) = Some (0, cpu')"
  by (rule straight_line_returns [of OpCodeId_ADD_1 op_exec_add_1 2 OpDecode1])
    (simp_all add: straight_line_def code_formats_def sample_1_def)

end
