(* ===== verification/V850_Access.thy ===== *)
theory V850_Access
  imports V850_Fpu_Correct V850_Cpu_Correct
begin

unbundle bit_operations_syntax

text \<open>
  What an instruction can reach. \<open>access\<close> is one step of an instruction: it changes its own core
  but for the number of the core, calls a function of the bus under that number, stores through
  a pointer that the bus has just given it, or takes back an NMI. Every executor of the table, and
  the execution loop around it, is a sequence of these steps.
\<close>

section \<open>The steps of an instruction\<close>

inductive access :: "'w bus \<Rightarrow> 'w machine \<Rightarrow> 'w machine \<Rightarrow> bool" for bus where
  core: "core_id cpu = core_id (m_core m) \<Longrightarrow> access bus m (m\<lparr>m_core := cpu\<rparr>)"
| get8: "bus_get_data8 bus (core_id (m_core m)) a m = (e, v8, m') \<Longrightarrow> access bus m m'"
| get16: "bus_get_data16 bus (core_id (m_core m)) a m = (e, v16, m') \<Longrightarrow> access bus m m'"
| get32: "bus_get_data32 bus (core_id (m_core m)) a m = (e, v32, m') \<Longrightarrow> access bus m m'"
| put8: "bus_put_data8 bus (core_id (m_core m)) a v8 m = (e, m') \<Longrightarrow> access bus m m'"
| put16: "bus_put_data16 bus (core_id (m_core m)) a v16 m = (e, m') \<Longrightarrow> access bus m m'"
| put32: "bus_put_data32 bus (core_id (m_core m)) a v32 m = (e, m') \<Longrightarrow> access bus m m'"
| pointer: "bus_get_pointer bus (core_id (m_core m)) a m = (e, p, m') \<Longrightarrow> access bus m m'"
| store: "bus_get_pointer bus (core_id (m_core m)) a m = (STD_E_OK, p, m') \<Longrightarrow> access bus m (host_put32 bus p v32 m')"
| nmi: "access bus m (intc_clr_nmi m)"

abbreviation accesses :: "'w bus \<Rightarrow> 'w machine \<Rightarrow> 'w machine \<Rightarrow> bool" where
  "accesses bus \<equiv> (access bus)\<^sup>*\<^sup>*"

text \<open>The number of the core, as an executor reads it between its steps.\<close>

named_theorems access_intros \<open>sequences of steps, built from the end\<close>

lemma accesses_core [access_intros]:
  "accesses bus m m' \<Longrightarrow> core_id cpu = core_id (m_core m') \<Longrightarrow> accesses bus m (m'\<lparr>m_core := cpu\<rparr>)"
  by (blast intro: rtranclp.rtrancl_into_rtrancl access.core)

lemma accesses_reg [access_intros]: "accesses bus m m' \<Longrightarrow> accesses bus m (m_set_reg g m')"
  unfolding m_set_reg_def by (rule accesses_core) simp_all

lemma accesses_bus [access_intros]:
  "bus_get_data8 bus c a m1 = (e, v8, m') \<Longrightarrow> c = core_id (m_core m1) \<Longrightarrow> accesses bus m m1 \<Longrightarrow> accesses bus m m'"
  "bus_get_data16 bus c a m1 = (e, v16, m') \<Longrightarrow> c = core_id (m_core m1) \<Longrightarrow> accesses bus m m1 \<Longrightarrow> accesses bus m m'"
  "bus_get_data32 bus c a m1 = (e, v32, m') \<Longrightarrow> c = core_id (m_core m1) \<Longrightarrow> accesses bus m m1 \<Longrightarrow> accesses bus m m'"
  "bus_put_data8 bus c a v8 m1 = (e, m') \<Longrightarrow> c = core_id (m_core m1) \<Longrightarrow> accesses bus m m1 \<Longrightarrow> accesses bus m m'"
  "bus_put_data16 bus c a v16 m1 = (e, m') \<Longrightarrow> c = core_id (m_core m1) \<Longrightarrow> accesses bus m m1 \<Longrightarrow> accesses bus m m'"
  "bus_put_data32 bus c a v32 m1 = (e, m') \<Longrightarrow> c = core_id (m_core m1) \<Longrightarrow> accesses bus m m1 \<Longrightarrow> accesses bus m m'"
  "bus_get_pointer bus c a m1 = (e, p, m') \<Longrightarrow> c = core_id (m_core m1) \<Longrightarrow> accesses bus m m1 \<Longrightarrow> accesses bus m m'"
  by (auto intro: rtranclp.rtrancl_into_rtrancl access.intros)

lemma accesses_store:
  "bus_get_pointer bus c a m1 = (STD_E_OK, p, m') \<Longrightarrow> c = core_id (m_core m1) \<Longrightarrow> accesses bus m m1 \<Longrightarrow>
    accesses bus m (host_put32 bus p v m')"
  by (auto intro: rtranclp.rtrancl_into_rtrancl access.store)

lemma accesses_nmi: "accesses bus m m' \<Longrightarrow> accesses bus m (intc_clr_nmi m')"
  by (blast intro: rtranclp.rtrancl_into_rtrancl access.nmi)

section \<open>Executors\<close>

text \<open>An executor of the core alone keeps the number of its core.\<close>

definition keeps_id :: "(TargetCoreType \<Rightarrow> exec_result) \<Rightarrow> bool" where
  "keeps_id f \<longleftrightarrow> (\<forall>cpu r cpu'. f cpu = Some (r, cpu') \<longrightarrow> core_id cpu' = core_id cpu)"

definition via_bus :: "'w bus \<Rightarrow> 'w exec \<Rightarrow> bool" where
  "via_bus bus f \<longleftrightarrow> (\<forall>m r m'. f m = Some (r, m') \<longrightarrow> accesses bus m m')"

lemma via_busD: "via_bus bus f \<Longrightarrow> f m = Some (r, m') \<Longrightarrow> accesses bus m m'"
  by (simp add: via_bus_def)

lemma on_core_via_bus [simp]: "keeps_id f \<Longrightarrow> via_bus bus (on_core f)"
  by (auto simp: via_bus_def keeps_id_def on_core_def intro: accesses_core)

lemma core_executor_keeps_id: "core_executor f n \<Longrightarrow> keeps_id f"
  unfolding keeps_id_def
proof (intro allI impI)
  fix cpu r cpu' assume "core_executor f n" "f cpu = Some (r, cpu')"
  then have "cpu' = cpu\<lparr>reg := reg cpu'\<rparr>" by (rule core_executor.exec_frame)
  then show "core_id cpu' = core_id cpu" by (metis TargetCoreType.select_convs(2) TargetCoreType.surjective TargetCoreType.update_convs(3))
qed

lemma straight_line_ids: "list_all (\<lambda>(i, f, n). keeps_id f) straight_line"
  using straight_lineD core_executor_keeps_id by (fastforce simp: list_all_iff)

lemma fpu_line_ids: "list_all (\<lambda>(i, f, D). keeps_id f) (fpu_line h)"
  using fpu_lineD [of _ _ _ h] core_executor_keeps_id [of _ 4] by (fastforce simp: list_all_iff float_executor_def)

lemmas computing_ids = straight_line_ids [unfolded straight_line_def list.pred_inject prod.case]
  fpu_line_ids [unfolded fpu_line_def list.pred_inject prod.case]

lemma private_cpu_mpu_id [simp]: "core_id (private_cpu_mpu_construct_containers cpu) = core_id cpu"
  by (simp add: private_cpu_mpu_construct_containers_def Let_def)

lemma system_ids:
  "keeps_id op_exec_bcond_3" "keeps_id op_exec_eiret_10" "keeps_id op_exec_feret_10" "keeps_id op_exec_fetrap_1"
  "keeps_id op_exec_halt" "keeps_id op_exec_jr" "keeps_id op_exec_jmp" "keeps_id op_exec_trap" "keeps_id op_exec_trfsr_F"
  "keeps_id op_exec_ldsr"
  by (auto simp: keeps_id_def op_exec_bcond_3_def op_exec_eiret_10_def op_exec_feret_10_def op_exec_fetrap_1_def
      op_exec_halt_def op_exec_jr_def op_exec_jmp_def op_exec_trap_def op_exec_trfsr_F_def op_exec_ldsr_def exec_simps
      split: option.splits if_splits)

text \<open>Executors that use the bus, by the shape of their code: \<open>reaches\<close> says that every result of a
  computation is reached by steps from the state \<open>m0\<close> the executor started in.\<close>

definition reaches :: "'w bus \<Rightarrow> 'w machine \<Rightarrow> 'w bus_result \<Rightarrow> bool" where
  "reaches bus m0 x \<longleftrightarrow> (\<forall>r m'. x = Some (r, m') \<longrightarrow> accesses bus m0 m')"

lemma via_bus_reaches: "(\<And>m. reaches bus m (f m)) \<Longrightarrow> via_bus bus f"
  by (simp add: via_bus_def reaches_def)

lemma reaches_Some: "accesses bus m0 m \<Longrightarrow> reaches bus m0 (Some (r, m))"
  by (simp add: reaches_def)

lemma reaches_ret: "accesses bus m0 m \<Longrightarrow> reaches bus m0 (m_ret m g)"
  by (simp add: m_ret_def reaches_Some accesses_reg)

lemma reaches_greg: "accesses bus m0 m \<Longrightarrow> reaches bus m0 k \<Longrightarrow> reaches bus m0 (m_greg_check i m k)"
  by (simp add: m_greg_check_def reaches_Some)

lemma reaches_bind: "(\<And>x. reaches bus m0 (f x)) \<Longrightarrow> reaches bus m0 (a \<bind> f)"
  by (cases a) (simp_all add: reaches_def)

lemma reaches_if: "reaches bus m0 a \<Longrightarrow> reaches bus m0 b \<Longrightarrow> reaches bus m0 (if c then a else b)"
  by simp

lemma reaches_if_case:
  "reaches bus m0 (case_prod k a) \<Longrightarrow> reaches bus m0 (case_prod k b) \<Longrightarrow> reaches bus m0 (case_prod k (if c then a else b))"
  by simp

lemma reaches_option: "reaches bus m0 a \<Longrightarrow> (\<And>y. reaches bus m0 (f y)) \<Longrightarrow> reaches bus m0 (case x of None \<Rightarrow> a | Some y \<Rightarrow> f y)"
  by (cases x) simp_all

lemma reaches_get:
  "accesses bus m0 m \<Longrightarrow> c = core_id (m_core m) \<Longrightarrow> (\<And>e v m'. accesses bus m0 m' \<Longrightarrow> reaches bus m0 (k8 e v m')) \<Longrightarrow>
    reaches bus m0 (case bus_get_data8 bus c a m of (e, v, m') \<Rightarrow> k8 e v m')"
  "accesses bus m0 m \<Longrightarrow> c = core_id (m_core m) \<Longrightarrow> (\<And>e v m'. accesses bus m0 m' \<Longrightarrow> reaches bus m0 (k16 e v m')) \<Longrightarrow>
    reaches bus m0 (case bus_get_data16 bus c a m of (e, v, m') \<Rightarrow> k16 e v m')"
  "accesses bus m0 m \<Longrightarrow> c = core_id (m_core m) \<Longrightarrow> (\<And>e v m'. accesses bus m0 m' \<Longrightarrow> reaches bus m0 (k32 e v m')) \<Longrightarrow>
    reaches bus m0 (case bus_get_data32 bus c a m of (e, v, m') \<Rightarrow> k32 e v m')"
  "accesses bus m0 m \<Longrightarrow> c = core_id (m_core m) \<Longrightarrow> (\<And>e p m'. accesses bus m0 m' \<Longrightarrow> reaches bus m0 (kp e p m')) \<Longrightarrow>
    reaches bus m0 (case bus_get_pointer bus c a m of (e, p, m') \<Rightarrow> kp e p m')"
  by (auto split: prod.split intro: accesses_bus)

lemma reaches_put:
  "accesses bus m0 m \<Longrightarrow> c = core_id (m_core m) \<Longrightarrow> (\<And>e m'. accesses bus m0 m' \<Longrightarrow> reaches bus m0 (k e m')) \<Longrightarrow>
    reaches bus m0 (case bus_put_data8 bus c a v8 m of (e, m') \<Rightarrow> k e m')"
  "accesses bus m0 m \<Longrightarrow> c = core_id (m_core m) \<Longrightarrow> (\<And>e m'. accesses bus m0 m' \<Longrightarrow> reaches bus m0 (k e m')) \<Longrightarrow>
    reaches bus m0 (case bus_put_data16 bus c a v16 m of (e, m') \<Rightarrow> k e m')"
  "accesses bus m0 m \<Longrightarrow> c = core_id (m_core m) \<Longrightarrow> (\<And>e m'. accesses bus m0 m' \<Longrightarrow> reaches bus m0 (k e m')) \<Longrightarrow>
    reaches bus m0 (case bus_put_data32 bus c a v32 m of (e, m') \<Rightarrow> k e m')"
  by (auto split: prod.split intro: accesses_bus)

lemma reaches_parse_jmp:
  "accesses bus m0 m \<Longrightarrow> (\<And>x m'. accesses bus m0 m' \<Longrightarrow> reaches bus m0 (k x m')) \<Longrightarrow>
    reaches bus m0 (case op_exec_parse_jmp_addr_fmt6 bus m of (x, m') \<Rightarrow> k x m')"
  by (auto simp: op_exec_parse_jmp_addr_fmt6_def Let_def split: prod.splits intro: accesses_bus)

lemma reaches_pair: "(\<And>x y. reaches bus m0 (k x y)) \<Longrightarrow> reaches bus m0 (case p of (x, y) \<Rightarrow> k x y)"
  by (cases p) simp

lemmas reach_rules = reaches_Some reaches_ret reaches_greg reaches_bind reaches_if reaches_if_case reaches_option
  reaches_get reaches_put reaches_parse_jmp accesses_reg accesses_nmi rtranclp.rtrancl_refl

lemma load_via_bus:
  "via_bus bus (op_exec_sldb bus)" "via_bus bus (op_exec_sldbu bus)" "via_bus bus (op_exec_sldh bus)"
  "via_bus bus (op_exec_sldhu bus)" "via_bus bus (op_exec_sldw bus)" "via_bus bus (op_exec_ldb bus)"
  "via_bus bus (op_exec_ld_b_14 bus)" "via_bus bus (op_exec_ldbu bus)" "via_bus bus (op_exec_ld_bu_14 bus)"
  "via_bus bus (op_exec_ldhw bus)" "via_bus bus (op_exec_ld_h_14 bus)" "via_bus bus (op_exec_ld_w_14 bus)"
  "via_bus bus (op_exec_ldhu bus)" "via_bus bus (op_exec_ld_hu_14 bus)" "via_bus bus (op_exec_mov_6 bus)"
  unfolding op_exec_sldb_def op_exec_sldbu_def op_exec_sldh_def op_exec_sldhu_def op_exec_sldw_def op_exec_ldb_def
    op_exec_ld_b_14_def op_exec_ldbu_def op_exec_ld_bu_14_def op_exec_ldhw_def op_exec_ld_h_14_def op_exec_ld_w_14_def
    op_exec_ldhu_def op_exec_ld_hu_14_def op_exec_mov_6_def Let_def
  by (rule via_bus_reaches, (rule reach_rules refl | assumption)+)+

lemma store_via_bus:
  "via_bus bus (op_exec_sstb bus)" "via_bus bus (op_exec_ssth bus)" "via_bus bus (op_exec_sstw bus)"
  "via_bus bus (op_exec_stb bus)" "via_bus bus (op_exec_st_b_14 bus)" "via_bus bus (op_exec_sthw bus)"
  "via_bus bus (op_exec_st_h_14 bus)" "via_bus bus (op_exec_st_w_14 bus)"
  unfolding op_exec_sstb_def op_exec_ssth_def op_exec_sstw_def op_exec_stb_def op_exec_st_b_14_def op_exec_sthw_def
    op_exec_st_h_14_def op_exec_st_w_14_def Let_def
  by (rule via_bus_reaches, (rule reach_rules refl | assumption)+)+

lemma bit_via_bus:
  "via_bus bus (op_exec_tst1_8 bus)" "via_bus bus (op_exec_set1_8 bus)" "via_bus bus (op_exec_clr1_8 bus)"
  "via_bus bus (op_exec_not1_8 bus)" "via_bus bus (op_exec_tst1_9 bus)" "via_bus bus (op_exec_set1_9 bus)"
  "via_bus bus (op_exec_clr1_9 bus)" "via_bus bus (op_exec_not1_9 bus)" "via_bus bus (op_exec_caxi bus)"
  unfolding op_exec_tst1_8_def op_exec_set1_8_def op_exec_clr1_8_def op_exec_not1_8_def op_exec_tst1_9_def op_exec_set1_9_def
    op_exec_clr1_9_def op_exec_not1_9_def op_exec_caxi_def Let_def
  by (rule via_bus_reaches, (rule reach_rules refl | assumption)+)+

lemma jump_via_bus:
  "via_bus bus (op_exec_jmp_6 bus)" "via_bus bus (op_exec_jarl_6 bus)" "via_bus bus (op_exec_jr_6 bus)"
  "via_bus bus (op_exec_switch bus)" "via_bus bus op_exec_reti"
  unfolding op_exec_jmp_6_def op_exec_jarl_6_def op_exec_jr_6_def op_exec_switch_def op_exec_reti_def Let_def
  by (rule via_bus_reaches, (rule reach_rules refl | assumption)+)+

lemma syscall_via_bus: "via_bus bus (op_exec_syscall_10 bus)"
  unfolding op_exec_syscall_10_def Let_def
  by (rule via_bus_reaches, (rule reach_rules reaches_pair refl m_set_reg_frame | assumption | simp)+)

section \<open>Stack frames\<close>

lemma cpu_has_permission_id: "cpu_has_permission oc pc t a addr n cpu = (p, cpu') \<Longrightarrow> core_id cpu' = core_id cpu"
  by (cases t) (auto simp: cpu_has_permission_def report_violation_def Let_def split: if_splits)

lemma m_permission_accesses: "m_permission oc t a addr n m = (p, m') \<Longrightarrow> accesses bus m0 m \<Longrightarrow> accesses bus m0 m'"
  by (auto simp: m_permission_def split: prod.splits intro: accesses_core dest: cpu_has_permission_id)

lemma permission_frames_access:
  "has_permission_prepare oc i ff m = (p, m') \<Longrightarrow> accesses bus m0 m \<Longrightarrow> accesses bus m0 m'"
  "has_permission_dispose oc i m = (p, m') \<Longrightarrow> accesses bus m0 m \<Longrightarrow> accesses bus m0 m'"
  by (auto simp: has_permission_prepare_def has_permission_dispose_def Let_def split: prod.splits if_splits
      intro: m_permission_accesses)

lemma accesses_elaps: "accesses bus m0 m \<Longrightarrow> accesses bus m0 (m_add_elaps n m)"
  by (simp add: m_add_elaps_def accesses_core)

lemma prepare_loop_accesses: "prepare_loop bus is m = (e, m') \<Longrightarrow> accesses bus m0 m \<Longrightarrow> accesses bus m0 m'"
proof (induction bus "is" m arbitrary: e m' rule: prepare_loop.induct)
  case (2 bus i "is" m)
  show ?case
  proof (cases "f13_list (m_core m) i = 0")
    case True
    with 2 show ?thesis by simp
  next
    case False
    obtain err p m1 where g: "bus_get_pointer bus (core_id (m_core m)) (reg_r (m_reg m) 3 - 4) m = (err, p, m1)"
      by (rule prod_cases3)
    show ?thesis
    proof (cases "err = STD_E_OK")
      case True
      let ?m2 = "host_put32 bus p (reg_r (m_reg m1) i) m1"
      have "accesses bus m0 (m_add_elaps 1 (m_set_reg (set_r 3 (reg_r (m_reg m) 3 - 4) (m_reg ?m2)) ?m2))"
        using g True 2(4) by (auto intro: accesses_elaps accesses_reg accesses_store)
      with 2(2) [OF False refl g [symmetric] refl refl] 2(3) False True g show ?thesis by (simp add: Let_def)
    qed (use 2 False g in \<open>auto simp: Let_def intro: accesses_bus\<close>)
  qed
qed simp

lemma dispose_loop_accesses: "dispose_loop bus is m = (e, m') \<Longrightarrow> accesses bus m0 m \<Longrightarrow> accesses bus m0 m'"
proof (induction bus "is" m arbitrary: e m' rule: dispose_loop.induct)
  case (2 bus i "is" m)
  show ?case
  proof (cases "f13_list (m_core m) i = 0")
    case True
    with 2 show ?thesis by simp
  next
    case False
    obtain err p m1 where g: "bus_get_pointer bus (core_id (m_core m)) (reg_r (m_reg m) 3) m = (err, p, m1)"
      by (rule prod_cases3)
    show ?thesis
    proof (cases "err = STD_E_OK")
      case True
      let ?m2 = "m_set_reg (set_r i (host_get32 bus p m1) (m_reg m1)) m1"
      have "accesses bus m0 (m_add_elaps 1 (m_set_reg (set_r 3 (reg_r (m_reg m) 3 + 4) (m_reg ?m2)) ?m2))"
        using g 2(4) by (auto intro: accesses_elaps accesses_reg accesses_bus)
      with 2(2) [OF False refl g [symmetric] refl refl] 2(3) False True g show ?thesis by (simp add: Let_def)
    qed (use 2 False g in \<open>auto simp: Let_def intro: accesses_bus\<close>)
  qed
qed simp

lemma reaches_frame:
  "accesses bus m0 m \<Longrightarrow> (\<And>p m'. accesses bus m0 m' \<Longrightarrow> reaches bus m0 (k p m')) \<Longrightarrow>
    reaches bus m0 (case has_permission_prepare oc i ff m of (p, m') \<Rightarrow> k p m')"
  "accesses bus m0 m \<Longrightarrow> (\<And>p m'. accesses bus m0 m' \<Longrightarrow> reaches bus m0 (k p m')) \<Longrightarrow>
    reaches bus m0 (case has_permission_dispose oc i m of (p, m') \<Rightarrow> k p m')"
  "accesses bus m0 m \<Longrightarrow> (\<And>e m'. accesses bus m0 m' \<Longrightarrow> reaches bus m0 (l e m')) \<Longrightarrow>
    reaches bus m0 (case prepare_loop bus is m of (e, m') \<Rightarrow> l e m')"
  "accesses bus m0 m \<Longrightarrow> (\<And>e m'. accesses bus m0 m' \<Longrightarrow> reaches bus m0 (l e m')) \<Longrightarrow>
    reaches bus m0 (case dispose_loop bus is m of (e, m') \<Rightarrow> l e m')"
  by (auto split: prod.split intro: permission_frames_access prepare_loop_accesses dispose_loop_accesses)

lemma frame_via_bus: "via_bus bus (op_exec_prepare oc bus)" "via_bus bus (op_exec_dispose oc bus)"
  unfolding op_exec_prepare_def op_exec_dispose_def Let_def
  by (rule via_bus_reaches, (rule reach_rules reaches_frame accesses_elaps accesses_core refl | assumption | simp)+)+

section \<open>The table\<close>

lemma table_via_bus: "list_all (\<lambda>(n, e). case e of None \<Rightarrow> True | Some f \<Rightarrow> via_bus bus f) (op_exec_table oc bus h)"
  unfolding op_exec_table_def list.pred_inject prod.case option.case
  by (simp only: on_core_via_bus computing_ids system_ids load_via_bus store_via_bus bit_via_bus jump_via_bus
      syscall_via_bus frame_via_bus list.pred_inject simp_thms)

lemma in_table_via_bus: "(clocks, Some f) \<in> set (op_exec_table oc bus h) \<Longrightarrow> via_bus bus f"
  using table_via_bus [of bus oc h, unfolded list_all_iff, THEN bspec, of "(clocks, Some f)"] by simp

lemma table_entry_via_bus:
  assumes "i < OpCodeId_Num" and "snd (op_exec_table oc bus h ! i) = Some f"
  shows "via_bus bus f"
proof -
  have "(fst (op_exec_table oc bus h ! i), Some f) = op_exec_table oc bus h ! i" unfolding assms(2) [symmetric] by simp
  also have "\<dots> \<in> set (op_exec_table oc bus h)" using assms(1) by (intro nth_mem) simp
  finally show ?thesis by (rule in_table_via_bus)
qed

text \<open>C10: What an instruction can reach. Whatever executor of the table runs, on whatever operands, bus
  and host arithmetic, each of its effects outside its own core goes through the bus under the
  number of that core (or a pointer the bus has just given for it), except that RETI takes back an
  NMI; and no executor changes the number of its core.\<close>

theorem executors_use_the_bus:
  assumes "(clocks, Some f) \<in> set (op_exec_table oc bus h)" and "f m = Some (r, m')"
  shows "accesses bus m m'"
  using in_table_via_bus [OF assms(1)] assms(2) by (rule via_busD)

definition stb_machine :: "ram machine" where
  "stb_machine = sample_machine (sample_core (OpDecode7 (\<lambda>i. if i = 0 then 0x1741 else 5) blank_decoded) (\<lambda>_. 0x104)) (\<lambda>_. 0)"

lemma stb_step: "\<exists>m'. op_exec_stb ram_bus stb_machine = Some (0, m') \<and> m_world m' = (\<lambda>_. 0)(0x109 := 4)"
  by (simp add: op_exec_stb_def stb_machine_def Let_def m_greg_check_def OpDecode7_def ram_bus_def exec_simps sample_machine_def m_ret_def m_set_reg_def CPU_GREG_NUM_def op_sign_extend_def,
      simp add: word_le_nat_alt fun_eq_iff)
lemma executors_use_the_bus_witness:
  "\<forall>oc h. \<exists>m'. op_exec_table oc ram_bus h ! OpCodeId_ST_B_7 = (1, Some (op_exec_stb ram_bus))
     \<and> op_exec_stb ram_bus stb_machine = Some (0, m') \<and> m_world m' = (\<lambda>_. 0)(0x109 := 4) \<and> accesses ram_bus stb_machine m'"
proof (intro allI)
  fix oc and h :: fp_host
  obtain m' where m': "op_exec_stb ram_bus stb_machine = Some (0, m')" "m_world m' = (\<lambda>_. 0)(0x109 := 4)"
    using stb_step by blast
  have t: "op_exec_table oc ram_bus h ! OpCodeId_ST_B_7 = (1, Some (op_exec_stb ram_bus))"
    by (simp add: op_exec_table_def)
  moreover have "op_exec_table oc ram_bus h ! OpCodeId_ST_B_7 \<in> set (op_exec_table oc ram_bus h)"
    by (rule nth_mem) (simp add: op_exec_table_def)
  ultimately have "accesses ram_bus stb_machine m'" using executors_use_the_bus m'(1) by metis
  with t m' show "\<exists>m'. op_exec_table oc ram_bus h ! OpCodeId_ST_B_7 = (1, Some (op_exec_stb ram_bus))
     \<and> op_exec_stb ram_bus stb_machine = Some (0, m') \<and> m_world m' = (\<lambda>_. 0)(0x109 := 4) \<and> accesses ram_bus stb_machine m'"
    by blast
qed

section \<open>The execution loop\<close>

lemma accesses_upd_core:
  "accesses bus m0 (v_machine v) \<Longrightarrow> core_id (f (v_core v)) = core_id (v_core v) \<Longrightarrow> accesses bus m0 (v_machine (upd_core f v))"
  by (simp add: upd_core_def accesses_core)

lemma accesses_put_decoded: "accesses bus m0 (v_machine v) \<Longrightarrow> accesses bus m0 (v_machine (put_decoded slot d v))"
  by (auto simp: put_decoded_def upd_core_def set_slot_def split: option.splits intro!: accesses_core)

lemma accesses_permission:
  "clock_permission oc n v = (p, v') \<Longrightarrow> accesses bus m0 (v_machine v) \<Longrightarrow> accesses bus m0 (v_machine v')"
  by (auto simp: clock_permission_def cpu_has_permission_for_clock_supply_def report_violation_def Let_def
      split: if_splits intro!: accesses_upd_core)

lemma accesses_fetched: "fetched bus slot v = (e, v') \<Longrightarrow> accesses bus m0 (v_machine v) \<Longrightarrow> accesses bus m0 (v_machine v')"
  by (auto simp: fetched_def Let_def upd_core_def split: prod.splits if_splits
      intro!: accesses_core elim!: accesses_bus(7))

lemma accesses_run_exec:
  assumes "run_exec clocks f v = Some (e, v')" and "via_bus bus f" and "accesses bus m0 (v_machine v)"
  shows "accesses bus m0 (v_machine v')"
proof -
  obtain r m where m: "f (v_machine (upd_core (\<lambda>cpu. cpu\<lparr>real_elaps := clocks\<rparr>) v)) = Some (r, m)" "v_machine v' = m"
    using assms(1) by (auto simp: run_exec_eq_Some split: if_splits)
  have "accesses bus m0 (v_machine (upd_core (\<lambda>cpu. cpu\<lparr>real_elaps := clocks\<rparr>) v))"
    by (rule accesses_upd_core [OF assms(3)]) simp
  then show ?thesis using via_busD [OF assms(2) m(1)] m(2) by (simp add: rtranclp_trans)
qed

lemma not_cached_accesses:
  assumes "not_cached_step oc bus h slot v e v'" and "accesses bus m0 (v_machine v)"
  shows "accesses bus m0 (v_machine v')"
  using assms(1)
proof (cases rule: not_cached_step.cases)
  case (executed v1 ot d nbytes v2 clocks f v3)
  have "via_bus bus f"
    by (rule table_entry_via_bus [of "code_id ot" oc bus h]) (use op_parse_code_id [OF executed(2)] executed(5) in simp_all)
  then have "accesses bus m0 (v_machine v3)"
    by (rule accesses_run_exec [OF executed(6)])
      (use executed assms(2) in \<open>blast intro: accesses_permission accesses_put_decoded accesses_fetched\<close>)
  then show ?thesis using executed(7) by (simp split: option.splits prod.splits)
qed (use assms(2) in \<open>blast intro: accesses_permission accesses_put_decoded accesses_fetched\<close>)+

lemma cached_path_accesses:
  assumes "cached_path oc bus h b inx f v = Some (e, v')" and "via_bus bus f" and "accesses bus m0 (v_machine v)"
  shows "accesses bus m0 (v_machine v')"
proof -
  let ?v = "upd_core (\<lambda>cpu. cpu\<lparr>decoded_code := cc_decoded_code (cached_codes v b inx)\<rparr>) v"
  obtain nbytes p v2 where p: "OpFormatSize (type_id (cc_decoded_code (cached_codes v b inx))) = Some nbytes"
    "clock_permission oc nbytes ?v = (p, v2)"
    using assms(1) by (fastforce simp: cached_path_def Let_def bind_eq_Some_conv)
  have "accesses bus m0 (v_machine ?v)" by (rule accesses_upd_core [OF assms(3)]) simp
  then have v2: "accesses bus m0 (v_machine v2)" by (rule accesses_permission [OF p(2)])
  have "v' = v2 \<or> (\<exists>clocks. run_exec clocks f v2 = Some (e, v'))"
    using assms(1) by (cases p) (auto simp: cached_path_def Let_def p bind_eq_Some_conv)
  then show ?thesis using v2 accesses_run_exec assms(2) by blast
qed

lemma accesses_zero_r0: "accesses bus m0 (v_machine v) \<Longrightarrow> accesses bus m0 (v_machine (zero_r0 v))"
  unfolding zero_r0_def by (rule accesses_upd_core) simp_all

lemma vcpu_ok_via_bus:
  assumes "vcpu_ok oc bus h v" and "cc_op_exec (cached_codes v b i) = Some f"
  shows "via_bus bus f"
proof -
  obtain code d0 ot where "op_parse code d0 = Some (Some (ot, cc_decoded_code (cached_codes v b i)))"
    "snd (op_exec_table oc bus h ! code_id ot) = Some f"
    using vcpu_okD(2) [OF assms(1), of b i] assms(2) by (auto simp: slot_ok_def)
  then show ?thesis using table_entry_via_bus op_parse_code_id by blast
qed

text \<open>A step of the execution loop, with its cache in order.\<close>

lemma supply_clock_accesses:
  assumes "vcpu_ok oc bus h v" and "cpu_supply_clock oc bus h gcc v = Some (e, v')"
  shows "accesses bus (v_machine v) (v_machine v')" and "vcpu_ok oc bus h v'"
proof -
  have "accesses bus (v_machine v) (v_machine v') \<and> vcpu_ok oc bus h v'"
  proof (cases "is_halt (v_core v)")
    case True
    with assms show ?thesis by (simp add: cpu_supply_clock_def)
  next
    case False
    have z: "accesses bus (v_machine v) (v_machine (zero_r0 v))" by (rule accesses_zero_r0) simp
    from False assms(2) show ?thesis
    proof (cases rule: supply_clock_steps)
      case (cached b inx f v1)
      then have "via_bus bus f" using vcpu_ok_via_bus [OF assms(1)] by (auto simp: cached_exec_def)
      with cached cached_path_ok(1) [OF cached(1)] assms(1) cached_path_accesses [OF cached(1) _ z] show ?thesis
        by (auto intro: accesses_zero_r0)
    next
      case (not_cached slot v1)
      with not_cached_ok [OF not_cached(1)] assms(1) not_cached_accesses [OF not_cached(1) z] show ?thesis
        by (auto intro: accesses_zero_r0)
    qed
  qed
  then show "accesses bus (v_machine v) (v_machine v')" and "vcpu_ok oc bus h v'" by simp_all
qed

end
