(* ===== verification/V850_Region.thy ===== *)
theory V850_Region
  imports V850_Intc
begin

unbundle bit_operations_syntax

text \<open>
  What the devices share: the build options of \<open>CMakeLists.txt\<close> that their code tests, the device
  clock, the memory regions and the address map (\<open>src/cpu/config/mpu_config.c\<close> and
  \<open>mpu_config.h\<close>).

  \<open>DeviceClockType\<close> and \<open>MpuAddressRegionType\<close> are declared by the Athrill core: the records hold
  the members this repository uses. The data of a region is a function from offsets to bytes
  with a size; an access is \<open>None\<close> when it leaves the array, and halfwords and words have the
  byte order of a little-endian host.
\<close>

section \<open>Build options and the device clock\<close>

record build =
  MINIMUM_DEVICE_CONFIG :: bool
  CPUEMU_CLOCK_BUG_FIX :: bool
  DISABLE_SERIAL_CLOCK :: bool
  DISABLE_CAN :: bool
  DISABLE_DEVICE_VDEV :: bool

text \<open>The options of the build that \<open>CMakeLists.txt\<close> describes.\<close>

definition cmake_build :: build where
  "cmake_build = \<lparr>MINIMUM_DEVICE_CONFIG = True, CPUEMU_CLOCK_BUG_FIX = True, DISABLE_SERIAL_CLOCK = True,
     DISABLE_CAN = True, DISABLE_DEVICE_VDEV = True\<rparr>"

record DeviceClockType =
  clock :: u64
  intclock :: u64
  min_intr_interval :: u64
  can_skip_clock :: bool
  dev_is_halt :: bool

text \<open>The device configuration file, read through \<open>cpuemu_get_devcfg_value\<close> of the Athrill core:
  the value of a parameter that it holds. Parameters that hold strings are \<open>cfg_string\<close>.\<close>

record devcfg =
  cfg_value :: "string \<Rightarrow> u32 option"
  cfg_string :: "string \<Rightarrow> string option"

definition devcfg_value :: "devcfg \<Rightarrow> string \<Rightarrow> u32 \<Rightarrow> u32" where
  "devcfg_value cfg name v = (case cfg_value cfg name of Some w \<Rightarrow> w | None \<Rightarrow> v)"

section \<open>Regions\<close>

record MpuAddressRegionType =
  rg_start :: u32
  rg_size :: nat
  rg_mask :: u32
  rg_data :: "nat \<Rightarrow> u8"

text \<open>\<open>uint32 off = (addr - region->start);\<close>\<close>

definition rg_off :: "MpuAddressRegionType \<Rightarrow> u32 \<Rightarrow> nat" where
  "rg_off rg addr = unat (addr - rg_start rg)"

definition rg_get8 :: "MpuAddressRegionType \<Rightarrow> nat \<Rightarrow> u8 option" where
  "rg_get8 rg p = (if p < rg_size rg then Some (rg_data rg p) else None)"

definition rg_put8 :: "nat \<Rightarrow> u8 \<Rightarrow> MpuAddressRegionType \<Rightarrow> MpuAddressRegionType option" where
  "rg_put8 p v rg = (if p < rg_size rg then Some (rg\<lparr>rg_data := (rg_data rg)(p := v)\<rparr>) else None)"

definition rg_get16 :: "MpuAddressRegionType \<Rightarrow> nat \<Rightarrow> u16 option" where
  "rg_get16 rg p = do {
     b0 \<leftarrow> rg_get8 rg p;
     b1 \<leftarrow> rg_get8 rg (p + 1);
     Some (ucast b0 OR push_bit 8 (ucast b1))
   }"

definition rg_put16 :: "nat \<Rightarrow> u16 \<Rightarrow> MpuAddressRegionType \<Rightarrow> MpuAddressRegionType option" where
  "rg_put16 p v rg = do { rg \<leftarrow> rg_put8 p (ucast v) rg; rg_put8 (p + 1) (ucast (drop_bit 8 v)) rg }"

definition rg_get32 :: "MpuAddressRegionType \<Rightarrow> nat \<Rightarrow> u32 option" where
  "rg_get32 rg p = do {
     h0 \<leftarrow> rg_get16 rg p;
     h1 \<leftarrow> rg_get16 rg (p + 2);
     Some (ucast h0 OR push_bit 16 (ucast h1))
   }"

definition rg_put32 :: "nat \<Rightarrow> u32 \<Rightarrow> MpuAddressRegionType \<Rightarrow> MpuAddressRegionType option" where
  "rg_put32 p v rg = do { rg \<leftarrow> rg_put16 p (ucast v) rg; rg_put16 (p + 2) (ucast (drop_bit 16 v)) rg }"

text \<open>A pointer into the data is its offset, at most one past the end.\<close>

definition rg_pointer :: "MpuAddressRegionType \<Rightarrow> nat \<Rightarrow> nat option" where
  "rg_pointer rg p = (if p \<le> rg_size rg then Some p else None)"

section \<open>The address map\<close>

datatype region_operation =
    default_memory_operation | intc_memory_operation | timer_memory_operation
  | serial_memory_operation | can_memory_operation | vdev_memory_operation | cpu_register_operation

record map_entry =
  me_start :: u32
  me_size :: nat
  me_mask :: u32
  me_ops :: region_operation

definition MPU_ADDRESS_REGION_MASK_CPU :: u32 where "MPU_ADDRESS_REGION_MASK_CPU = 0x06FFFFFF"
definition MPU_ADDRESS_REGION_MASK_CAN :: u32 where "MPU_ADDRESS_REGION_MASK_CAN = 0x08FFFFFF"
definition MPU_ADDRESS_REGION_MASK_VDEV :: u32 where "MPU_ADDRESS_REGION_MASK_VDEV = 0xFFFFFFFF"
definition MPU_ADDRESS_REGION_SIZE_INX_SERIAL :: nat where "MPU_ADDRESS_REGION_SIZE_INX_SERIAL = 0x78"
definition MPU_ADDRESS_REGION_SIZE_INX_TIMER :: nat where "MPU_ADDRESS_REGION_SIZE_INX_TIMER = 0x170"
definition MPU_ADDRESS_REGION_SIZE_INX_CPU :: nat where "MPU_ADDRESS_REGION_SIZE_INX_CPU = 1024 * 1024"
definition MPU_ADDRESS_REGION_SIZE_INX_PH0 :: nat where "MPU_ADDRESS_REGION_SIZE_INX_PH0 = 1024 * 4"
definition MPU_ADDRESS_REGION_SIZE_INX_PH1 :: nat where "MPU_ADDRESS_REGION_SIZE_INX_PH1 = 1024 * 12"
definition MPU_ADDRESS_REGION_SIZE_INX_CAN :: nat where "MPU_ADDRESS_REGION_SIZE_INX_CAN = 1024 * 1024"
definition MPU_ADDRESS_REGION_SIZE_INX_VDEV :: nat where "MPU_ADDRESS_REGION_SIZE_INX_VDEV = 1024 * 1024"
definition CPU_CONFIG_DEBUG_REGISTER_ADDR :: u32 where "CPU_CONFIG_DEBUG_REGISTER_ADDR = 0x06FF0000"

lemmas map_consts = MPU_ADDRESS_REGION_MASK_PH_def MPU_ADDRESS_REGION_MASK_CPU_def MPU_ADDRESS_REGION_MASK_CAN_def
  MPU_ADDRESS_REGION_MASK_VDEV_def MPU_ADDRESS_REGION_SIZE_INX_INTC_def MPU_ADDRESS_REGION_SIZE_INX_SERIAL_def
  MPU_ADDRESS_REGION_SIZE_INX_TIMER_def MPU_ADDRESS_REGION_SIZE_INX_CPU_def MPU_ADDRESS_REGION_SIZE_INX_PH0_def
  MPU_ADDRESS_REGION_SIZE_INX_PH1_def MPU_ADDRESS_REGION_SIZE_INX_CAN_def MPU_ADDRESS_REGION_SIZE_INX_VDEV_def
  CPU_CONFIG_DEBUG_REGISTER_ADDR_def intc_region_start_def

definition mpu_address_map :: "build \<Rightarrow> map_entry list" where
  "mpu_address_map b =
    [\<lparr>me_start = intc_region_start, me_size = MPU_ADDRESS_REGION_SIZE_INX_INTC,
      me_mask = MPU_ADDRESS_REGION_MASK_PH, me_ops = intc_memory_operation\<rparr>,
     \<lparr>me_start = 0x03FFF590, me_size = MPU_ADDRESS_REGION_SIZE_INX_TIMER,
      me_mask = MPU_ADDRESS_REGION_MASK_PH, me_ops = timer_memory_operation\<rparr>,
     \<lparr>me_start = 0x03FFFA00, me_size = MPU_ADDRESS_REGION_SIZE_INX_SERIAL,
      me_mask = MPU_ADDRESS_REGION_MASK_PH, me_ops = serial_memory_operation\<rparr>,
     \<lparr>me_start = 0x08FF0000, me_size = MPU_ADDRESS_REGION_SIZE_INX_CAN,
      me_mask = MPU_ADDRESS_REGION_MASK_CAN,
      me_ops = if DISABLE_CAN b then default_memory_operation else can_memory_operation\<rparr>]
    @ (if DISABLE_DEVICE_VDEV b then [] else
    [\<lparr>me_start = 0x090F0000, me_size = MPU_ADDRESS_REGION_SIZE_INX_VDEV,
      me_mask = MPU_ADDRESS_REGION_MASK_VDEV, me_ops = vdev_memory_operation\<rparr>])
    @
    [\<lparr>me_start = 0x03FFF000, me_size = MPU_ADDRESS_REGION_SIZE_INX_PH0,
      me_mask = MPU_ADDRESS_REGION_MASK_PH, me_ops = default_memory_operation\<rparr>,
     \<lparr>me_start = 0x03FEC000, me_size = MPU_ADDRESS_REGION_SIZE_INX_PH1,
      me_mask = MPU_ADDRESS_REGION_MASK_PH, me_ops = default_memory_operation\<rparr>,
     \<lparr>me_start = CPU_CONFIG_DEBUG_REGISTER_ADDR, me_size = MPU_ADDRESS_REGION_SIZE_INX_CPU,
      me_mask = MPU_ADDRESS_REGION_MASK_CPU, me_ops = cpu_register_operation\<rparr>]"

definition MPU_CONFIG_REGION_NUM :: "build \<Rightarrow> nat" where
  "MPU_CONFIG_REGION_NUM b = (if \<not> DISABLE_DEVICE_VDEV b then 8 else 7)"

definition MPU_ADDRESS_REGION_INX_INTC :: nat where "MPU_ADDRESS_REGION_INX_INTC = 0"
definition MPU_ADDRESS_REGION_INX_TIMER :: nat where "MPU_ADDRESS_REGION_INX_TIMER = 1"
definition MPU_ADDRESS_REGION_INX_SERIAL :: nat where "MPU_ADDRESS_REGION_INX_SERIAL = 2"
definition MPU_ADDRESS_REGION_INX_CAN :: nat where "MPU_ADDRESS_REGION_INX_CAN = 3"
definition MPU_ADDRESS_REGION_INX_VDEV :: nat where "MPU_ADDRESS_REGION_INX_VDEV = 4"
definition MPU_ADDRESS_REGION_INX_PH0 :: "build \<Rightarrow> nat" where
  "MPU_ADDRESS_REGION_INX_PH0 b = (if \<not> DISABLE_DEVICE_VDEV b then 5 else 4)"
definition MPU_ADDRESS_REGION_INX_PH1 :: "build \<Rightarrow> nat" where
  "MPU_ADDRESS_REGION_INX_PH1 b = (if \<not> DISABLE_DEVICE_VDEV b then 6 else 5)"
definition MPU_ADDRESS_REGION_INX_CPU :: "build \<Rightarrow> nat" where
  "MPU_ADDRESS_REGION_INX_CPU b = (if \<not> DISABLE_DEVICE_VDEV b then 7 else 6)"

section \<open>Reading back\<close>

lemma rg_frame:
  "rg_put8 p v rg = Some rg' \<Longrightarrow> rg_start rg' = rg_start rg \<and> rg_size rg' = rg_size rg \<and> rg_mask rg' = rg_mask rg"
  by (auto simp: rg_put8_def split: if_splits)

lemma rg_put16_frame:
  "rg_put16 p v rg = Some rg' \<Longrightarrow> rg_start rg' = rg_start rg \<and> rg_size rg' = rg_size rg \<and> rg_mask rg' = rg_mask rg"
  by (auto simp: rg_put16_def bind_eq_Some_conv dest!: rg_frame)

lemma rg_put32_frame:
  "rg_put32 p v rg = Some rg' \<Longrightarrow> rg_start rg' = rg_start rg \<and> rg_size rg' = rg_size rg \<and> rg_mask rg' = rg_mask rg"
  by (auto simp: rg_put32_def bind_eq_Some_conv dest!: rg_put16_frame)

lemma rg_put8_defined: "p < rg_size rg \<Longrightarrow> rg_put8 p v rg = Some (rg\<lparr>rg_data := (rg_data rg)(p := v)\<rparr>)"
  by (simp add: rg_put8_def)

lemma rg_put16_defined: "p + 1 < rg_size rg \<Longrightarrow> \<exists>rg'. rg_put16 p v rg = Some rg'"
  by (simp add: rg_put16_def rg_put8_def)

lemma rg_put32_defined: "p + 3 < rg_size rg \<Longrightarrow> \<exists>rg'. rg_put32 p v rg = Some rg'"
  by (simp add: rg_put32_def rg_put16_def rg_put8_def)

end
