(* ===== verification/V850_Timer.thy ===== *)
theory V850_Timer
  imports V850_Region
begin

unbundle bit_operations_syntax

text \<open>
  The timers: \<open>src/device/peripheral/timer/timer32.c\<close> with \<open>inc/timer32.h\<close>, which the build links,
  and \<open>timer.c\<close> with \<open>inc/timer.h\<close>, its 16-bit predecessor, whose names end in \<open>_16\<close> here. Of
  each file the state is \<open>TimerDevice\<close>, a function from channels; the operations of a region
  act on the region they are given. An operation is \<open>None\<close> when it divides by a frequency
  divider of 0, leaves the data of the region, or, in \<open>timer.c\<close>, overflows a signed product.
\<close>

section \<open>timer32.h\<close>

definition TAAnChannelNum :: nat where "TAAnChannelNum = 8"
definition TAAnCTL0 :: "nat \<Rightarrow> u32" where "TAAnCTL0 ch = 0xFFFFF590 + of_nat ch * 4"
definition TAAnCTL1 :: "nat \<Rightarrow> u32" where "TAAnCTL1 ch = 0xFFFFF5A0 + of_nat ch * 4"
definition TAAnCCR0 :: "nat \<Rightarrow> u32" where "TAAnCCR0 ch = 0xFFFFF5C0 + of_nat ch * 4"
definition TAAnCNT :: "nat \<Rightarrow> u32" where "TAAnCNT ch = 0xFFFFF610 + of_nat ch * 4"

section \<open>State\<close>

datatype TimerStateType = TIMER_STATE_STOP | TIMER_STATE_READY | TIMER_STATE_RUNNING
datatype TimerModeType = TIMER_MODE_FREERUN | TIMER_MODE_INTERVAL

record TimerDeviceType =
  t_cnt :: u32
  t_state :: TimerStateType
  t_mode :: TimerModeType
  t_compare0 :: u32
  t_compare0_intno :: u32
  t_start_clock :: u64
  t_fd :: u32

type_synonym timers = "nat \<Rightarrow> TimerDeviceType"

definition timer_base_intno :: "nat \<Rightarrow> nat" where
  "timer_base_intno i = (if i < 5 then 15 + i * 3 else 96 + (i - 5) * 3 + 1)"

definition device_init_timer :: "devcfg \<Rightarrow> timers \<Rightarrow> timers" where
  "device_init_timer cfg T =
     (let value = devcfg_value cfg ''DEVICE_CONFIG_TIMER_FD'' 100
      in (\<lambda>i. if i < TAAnChannelNum
             then \<lparr>t_cnt = 0, t_state = TIMER_STATE_STOP, t_mode = TIMER_MODE_FREERUN, t_compare0 = 0,
                   t_compare0_intno = of_nat (timer_base_intno i + 1), t_start_clock = 0, t_fd = value\<rparr>
             else T i))"

section \<open>The clock\<close>

text \<open>\<open>device_raise_int\<close> of \<open>src/device/device.c\<close>; \<open>n\<close> is the number of cores.\<close>

definition device_raise_int :: "nat \<Rightarrow> u16 \<Rightarrow> intc_state \<Rightarrow> intc_state option" where
  "device_raise_int n intno s = intc_raise_intr n (unat intno) s"

text \<open>The state machine of one timer, up to the new count.\<close>

definition timer_start :: "u64 \<Rightarrow> TimerDeviceType \<Rightarrow> TimerDeviceType" where
  "timer_start now t =
     (if t_state t = TIMER_STATE_STOP then
        if t_mode t = TIMER_MODE_FREERUN then
          if t_start_clock t \<noteq> 0 then t\<lparr>t_start_clock := t_start_clock t + ucast (t_fd t)\<rparr> else t
        else t
      else if t_state t = TIMER_STATE_READY then
        let t = t\<lparr>t_state := TIMER_STATE_RUNNING\<rparr>
        in if t_start_clock t = 0 \<or> t_mode t = TIMER_MODE_INTERVAL then t\<lparr>t_start_clock := now\<rparr> else t
      else t)"

definition device_timer_do_update ::
  "nat \<Rightarrow> DeviceClockType \<Rightarrow> nat \<Rightarrow> timers \<times> intc_state \<Rightarrow> (timers \<times> intc_state) option" where
  "device_timer_do_update n device ch = (\<lambda>(T, s).
     let t = timer_start (clock device) (T ch)
     in do {
       check (t_fd t \<noteq> 0);
       let t = t\<lparr>t_cnt := ucast ((clock device - t_start_clock t) div ucast (t_fd t))\<rparr>;
       if t_mode t = TIMER_MODE_INTERVAL \<and> t_cnt t = t_compare0 t then do {
         s \<leftarrow> device_raise_int n (ucast (t_compare0_intno t)) s;
         Some (T(ch := t\<lparr>t_state := TIMER_STATE_READY\<rparr>), s)
       } else Some (T(ch := t), s)
     })"

definition device_timer_do_calc_min_interval :: "nat \<Rightarrow> timers \<Rightarrow> DeviceClockType \<Rightarrow> DeviceClockType" where
  "device_timer_do_calc_min_interval ch T device =
     (let t = T ch in
      if \<not> can_skip_clock device then device
      else if t_compare0 t \<le> t_cnt t then device
      else
        let interval = ucast ((t_compare0 t - t_cnt t) * t_fd t)
        in if 0 < interval \<and> interval < min_intr_interval device
           then device\<lparr>min_intr_interval := interval\<rparr> else device)"

text \<open>The macro \<open>INLINE_device_supply_clock_timer\<close>, in both of its versions.\<close>

definition INLINE_device_supply_clock_timer ::
  "build \<Rightarrow> nat \<Rightarrow> nat \<Rightarrow> DeviceClockType \<times> timers \<times> intc_state \<Rightarrow> (DeviceClockType \<times> timers \<times> intc_state) option" where
  "INLINE_device_supply_clock_timer b n ch = (\<lambda>(dev_clock, T, s). do {
     check (t_fd (T ch) \<noteq> 0);
     if clock dev_clock mod ucast (t_fd (T ch)) = 0 then do {
       (T, s) \<leftarrow> device_timer_do_update n dev_clock ch (T, s);
       Some (device_timer_do_calc_min_interval ch T dev_clock, T, s)
     }
     else if CPUEMU_CLOCK_BUG_FIX b then Some (dev_clock, T, s)
     else Some (dev_clock\<lparr>can_skip_clock := False\<rparr>, T, s)
   })"

definition timer_channels :: "build \<Rightarrow> nat list" where
  "timer_channels b = (if MINIMUM_DEVICE_CONFIG b then [] else [0, 1]) @ [2, 3]"

definition device_supply_clock_timer ::
  "build \<Rightarrow> nat \<Rightarrow> DeviceClockType \<times> timers \<times> intc_state \<Rightarrow> (DeviceClockType \<times> timers \<times> intc_state) option" where
  "device_supply_clock_timer b n = for_each (INLINE_device_supply_clock_timer b n) (timer_channels b)"

section \<open>Register access\<close>

text \<open>The loops over the channels stop at the first channel whose register has the address.\<close>

definition timer_channel_at :: "(nat \<Rightarrow> u32) \<Rightarrow> MpuAddressRegionType \<Rightarrow> u32 \<Rightarrow> nat option" where
  "timer_channel_at regaddr rg addr = find (\<lambda>ch. addr = regaddr ch AND rg_mask rg) [0..<TAAnChannelNum]"

definition timer_get_data8 :: "MpuAddressRegionType \<Rightarrow> u32 \<Rightarrow> (Std_ReturnType \<times> u8) option" where
  "timer_get_data8 rg addr = do { v \<leftarrow> rg_get8 rg (rg_off rg addr); Some (STD_E_OK, v) }"

text \<open>\<open>timer_get_data16\<close> stores one byte and reports a fault.\<close>

definition timer_get_data16 :: "MpuAddressRegionType \<Rightarrow> u32 \<Rightarrow> (Std_ReturnType \<times> u16) option" where
  "timer_get_data16 rg addr = do { v \<leftarrow> rg_get8 rg (rg_off rg addr); Some (STD_E_SEGV, ucast v) }"

text \<open>\<open>timer_get_data32\<close> leaves \<open>*data\<close> as it is when no channel has the address.\<close>

definition timer_get_data32 :: "MpuAddressRegionType \<Rightarrow> timers \<Rightarrow> u32 \<Rightarrow> u32 \<Rightarrow> Std_ReturnType \<times> u32" where
  "timer_get_data32 rg T addr data =
     (case timer_channel_at TAAnCNT rg addr of
        Some ch \<Rightarrow> (STD_E_OK, t_cnt (T ch))
      | None \<Rightarrow> (STD_E_OK, data))"

definition timer_put_ctl0 :: "u8 \<Rightarrow> TimerDeviceType \<Rightarrow> TimerDeviceType" where
  "timer_put_ctl0 data t =
     t\<lparr>t_state := if data AND push_bit 7 1 = push_bit 7 1 then TIMER_STATE_READY else TIMER_STATE_STOP\<rparr>"

definition timer_put_ctl1 :: "u8 \<Rightarrow> TimerDeviceType \<Rightarrow> TimerDeviceType" where
  "timer_put_ctl1 data t =
     t\<lparr>t_mode := if data AND 0x07 = 0 then TIMER_MODE_INTERVAL else TIMER_MODE_FREERUN\<rparr>"

definition timer_put_data8 ::
  "u32 \<Rightarrow> u8 \<Rightarrow> MpuAddressRegionType \<times> timers \<Rightarrow> (Std_ReturnType \<times> MpuAddressRegionType \<times> timers) option" where
  "timer_put_data8 addr data = (\<lambda>(rg, T). do {
     rg \<leftarrow> rg_put8 (rg_off rg addr) data rg;
     case find (\<lambda>ch. addr = TAAnCTL0 ch AND rg_mask rg \<or> addr = TAAnCTL1 ch AND rg_mask rg) [0..<TAAnChannelNum] of
       Some ch \<Rightarrow>
         Some (STD_E_OK, rg,
           T(ch := if addr = TAAnCTL0 ch AND rg_mask rg then timer_put_ctl0 data (T ch) else timer_put_ctl1 data (T ch)))
     | None \<Rightarrow> Some (STD_E_OK, rg, T)
   })"

definition timer_put_data16 ::
  "u32 \<Rightarrow> u16 \<Rightarrow> MpuAddressRegionType \<times> timers \<Rightarrow> (Std_ReturnType \<times> MpuAddressRegionType \<times> timers) option" where
  "timer_put_data16 addr data = (\<lambda>(rg, T). do {
     rg \<leftarrow> rg_put16 (rg_off rg addr) data rg;
     Some (STD_E_OK, rg, T)
   })"

definition timer_put_data32 ::
  "u32 \<Rightarrow> u32 \<Rightarrow> MpuAddressRegionType \<times> timers \<Rightarrow> (Std_ReturnType \<times> MpuAddressRegionType \<times> timers) option" where
  "timer_put_data32 addr data = (\<lambda>(rg, T). do {
     rg \<leftarrow> rg_put32 (rg_off rg addr) data rg;
     case timer_channel_at TAAnCCR0 rg addr of
       Some ch \<Rightarrow> Some (STD_E_OK, rg, T(ch := (T ch)\<lparr>t_compare0 := data, t_state := TIMER_STATE_READY\<rparr>))
     | None \<Rightarrow> Some (STD_E_OK, rg, T)
   })"

definition timer_get_pointer ::
  "u32 \<Rightarrow> MpuAddressRegionType \<times> timers \<Rightarrow> (Std_ReturnType \<times> nat \<times> MpuAddressRegionType) option" where
  "timer_get_pointer addr = (\<lambda>(rg, T).
     let off = rg_off rg addr
     in do {
       rg \<leftarrow> (case timer_channel_at TAAnCNT rg addr of
               Some ch \<Rightarrow> rg_put32 off (t_cnt (T ch)) rg
             | None \<Rightarrow> Some rg);
       data \<leftarrow> rg_pointer rg off;
       Some (STD_E_OK, data, rg)
     })"

section \<open>timer.c\<close>

definition TAAnCTL0_16 :: "nat \<Rightarrow> u32" where "TAAnCTL0_16 ch = 0xFFFFF590 + of_nat ch * 16"
definition TAAnCTL1_16 :: "nat \<Rightarrow> u32" where "TAAnCTL1_16 ch = 0xFFFFF591 + of_nat ch * 16"
definition TAAnCCR0_16 :: "nat \<Rightarrow> u32" where "TAAnCCR0_16 ch = 0xFFFFF596 + of_nat ch * 16"
definition TAAnCNT_16 :: "nat \<Rightarrow> u32" where "TAAnCNT_16 ch = 0xFFFFF59A + of_nat ch * 16"

record TimerDeviceType_16 =
  t16_cnt :: u16
  t16_state :: TimerStateType
  t16_mode :: TimerModeType
  t16_compare0 :: u16
  t16_compare0_intno :: u16
  t16_start_clock :: u64
  t16_fd :: u16

type_synonym timers_16 = "nat \<Rightarrow> TimerDeviceType_16"

definition device_init_timer_16 :: "devcfg \<Rightarrow> timers_16 \<Rightarrow> timers_16" where
  "device_init_timer_16 cfg T =
     (let value = devcfg_value cfg ''DEVICE_CONFIG_TIMER_FD'' 50000
      in (\<lambda>i. if i < TAAnChannelNum
             then \<lparr>t16_cnt = 0, t16_state = TIMER_STATE_STOP, t16_mode = TIMER_MODE_FREERUN, t16_compare0 = 0,
                   t16_compare0_intno = of_nat (timer_base_intno i + 1), t16_start_clock = 0, t16_fd = ucast value\<rparr>
             else T i))"

definition timer_start_16 :: "u64 \<Rightarrow> TimerDeviceType_16 \<Rightarrow> TimerDeviceType_16" where
  "timer_start_16 now t =
     (if t16_state t = TIMER_STATE_STOP then
        if t16_mode t = TIMER_MODE_FREERUN then
          if t16_start_clock t \<noteq> 0 then t\<lparr>t16_start_clock := t16_start_clock t + ucast (t16_fd t)\<rparr> else t
        else t
      else if t16_state t = TIMER_STATE_READY then
        let t = t\<lparr>t16_state := TIMER_STATE_RUNNING\<rparr>
        in if t16_start_clock t = 0 \<or> t16_mode t = TIMER_MODE_INTERVAL then t\<lparr>t16_start_clock := now\<rparr> else t
      else t)"

definition device_timer_do_update_16 ::
  "nat \<Rightarrow> DeviceClockType \<Rightarrow> nat \<Rightarrow> timers_16 \<times> intc_state \<Rightarrow> (timers_16 \<times> intc_state) option" where
  "device_timer_do_update_16 n device ch = (\<lambda>(T, s).
     let t = timer_start_16 (clock device) (T ch)
     in do {
       check (t16_fd t \<noteq> 0);
       let t = t\<lparr>t16_cnt := ucast ((clock device - t16_start_clock t) div ucast (t16_fd t))\<rparr>;
       if t16_mode t = TIMER_MODE_INTERVAL \<and> t16_cnt t = t16_compare0 t then do {
         s \<leftarrow> device_raise_int n (t16_compare0_intno t) s;
         Some (T(ch := t\<lparr>t16_state := TIMER_STATE_READY\<rparr>), s)
       } else Some (T(ch := t), s)
     })"

text \<open>The operands of the product are promoted to \<open>int\<close>.\<close>

definition device_timer_do_calc_min_interval_16 :: "nat \<Rightarrow> timers_16 \<Rightarrow> DeviceClockType \<Rightarrow> DeviceClockType option" where
  "device_timer_do_calc_min_interval_16 ch T device =
     (let t = T ch in
      if \<not> can_skip_clock device then Some device
      else if t16_compare0 t \<le> t16_cnt t then Some device
      else
        let product = (uint (t16_compare0 t) - uint (t16_cnt t)) * uint (t16_fd t)
        in do {
          check (product < 2 ^ 31);
          let interval = word_of_int product;
          Some (if 0 < interval \<and> interval < min_intr_interval device
                then device\<lparr>min_intr_interval := interval\<rparr> else device)
        })"

definition INLINE_device_supply_clock_timer_16 ::
  "nat \<Rightarrow> nat \<Rightarrow> DeviceClockType \<times> timers_16 \<times> intc_state \<Rightarrow> (DeviceClockType \<times> timers_16 \<times> intc_state) option" where
  "INLINE_device_supply_clock_timer_16 n ch = (\<lambda>(dev_clock, T, s). do {
     check (t16_fd (T ch) \<noteq> 0);
     if clock dev_clock mod ucast (t16_fd (T ch)) = 0 then do {
       (T, s) \<leftarrow> device_timer_do_update_16 n dev_clock ch (T, s);
       dev_clock \<leftarrow> device_timer_do_calc_min_interval_16 ch T dev_clock;
       Some (dev_clock, T, s)
     }
     else Some (dev_clock\<lparr>can_skip_clock := False\<rparr>, T, s)
   })"

definition device_supply_clock_timer_16 ::
  "build \<Rightarrow> nat \<Rightarrow> DeviceClockType \<times> timers_16 \<times> intc_state \<Rightarrow> (DeviceClockType \<times> timers_16 \<times> intc_state) option" where
  "device_supply_clock_timer_16 b n = for_each (INLINE_device_supply_clock_timer_16 n) (timer_channels b)"

definition timer_get_data8_16 :: "MpuAddressRegionType \<Rightarrow> u32 \<Rightarrow> (Std_ReturnType \<times> u8) option" where
  "timer_get_data8_16 rg addr = do { v \<leftarrow> rg_get8 rg (rg_off rg addr); Some (STD_E_OK, v) }"

definition timer_get_data16_16 :: "MpuAddressRegionType \<Rightarrow> timers_16 \<Rightarrow> u32 \<Rightarrow> u16 \<Rightarrow> Std_ReturnType \<times> u16" where
  "timer_get_data16_16 rg T addr data =
     (case timer_channel_at TAAnCNT_16 rg addr of
        Some ch \<Rightarrow> (STD_E_OK, t16_cnt (T ch))
      | None \<Rightarrow> (STD_E_SEGV, data))"

definition timer_get_data32_16 :: "MpuAddressRegionType \<Rightarrow> u32 \<Rightarrow> (Std_ReturnType \<times> u32) option" where
  "timer_get_data32_16 rg addr = do { v \<leftarrow> rg_get32 rg (rg_off rg addr); Some (STD_E_OK, v) }"

definition timer_put_data8_16 ::
  "u32 \<Rightarrow> u8 \<Rightarrow> MpuAddressRegionType \<times> timers_16 \<Rightarrow> (Std_ReturnType \<times> MpuAddressRegionType \<times> timers_16) option" where
  "timer_put_data8_16 addr data = (\<lambda>(rg, T). do {
     rg \<leftarrow> rg_put8 (rg_off rg addr) data rg;
     case find (\<lambda>ch. addr = TAAnCTL0_16 ch AND rg_mask rg \<or> addr = TAAnCTL1_16 ch AND rg_mask rg) [0..<TAAnChannelNum] of
       Some ch \<Rightarrow>
         Some (STD_E_OK, rg, T(ch :=
           if addr = TAAnCTL0_16 ch AND rg_mask rg
           then (T ch)\<lparr>t16_state := if data AND push_bit 7 1 = push_bit 7 1 then TIMER_STATE_READY else TIMER_STATE_STOP\<rparr>
           else (T ch)\<lparr>t16_mode := if data AND 0x07 = 0 then TIMER_MODE_INTERVAL else TIMER_MODE_FREERUN\<rparr>))
     | None \<Rightarrow> Some (STD_E_OK, rg, T)
   })"

definition timer_put_data16_16 ::
  "u32 \<Rightarrow> u16 \<Rightarrow> MpuAddressRegionType \<times> timers_16 \<Rightarrow> (Std_ReturnType \<times> MpuAddressRegionType \<times> timers_16) option" where
  "timer_put_data16_16 addr data = (\<lambda>(rg, T). do {
     rg \<leftarrow> rg_put16 (rg_off rg addr) data rg;
     case timer_channel_at TAAnCCR0_16 rg addr of
       Some ch \<Rightarrow> Some (STD_E_OK, rg, T(ch := (T ch)\<lparr>t16_compare0 := data, t16_state := TIMER_STATE_READY\<rparr>))
     | None \<Rightarrow> Some (STD_E_OK, rg, T)
   })"

definition timer_put_data32_16 ::
  "u32 \<Rightarrow> u32 \<Rightarrow> MpuAddressRegionType \<times> timers_16 \<Rightarrow> (Std_ReturnType \<times> MpuAddressRegionType \<times> timers_16) option" where
  "timer_put_data32_16 addr data = (\<lambda>(rg, T). do {
     rg \<leftarrow> rg_put32 (rg_off rg addr) data rg;
     Some (STD_E_OK, rg, T)
   })"

definition timer_get_pointer_16 ::
  "u32 \<Rightarrow> MpuAddressRegionType \<times> timers_16 \<Rightarrow> (Std_ReturnType \<times> nat \<times> MpuAddressRegionType) option" where
  "timer_get_pointer_16 addr = (\<lambda>(rg, T).
     let off = rg_off rg addr
     in do {
       rg \<leftarrow> (case timer_channel_at TAAnCNT_16 rg addr of
               Some ch \<Rightarrow> rg_put16 off (t16_cnt (T ch)) rg
             | None \<Rightarrow> Some rg);
       data \<leftarrow> rg_pointer rg off;
       Some (STD_E_OK, data, rg)
     })"

end
