(* ===== verification/V850_Serial.thy ===== *)
theory V850_Serial
  imports V850_Timer
begin

unbundle bit_operations_syntax

text \<open>
  The serial interface: \<open>src/device/peripheral/serial/serial.c\<close> and \<open>inc/serial.h\<close>, and the host end
  of a channel, the character queues of
  \<open>src/debugger/executor/concrete_executor/dbg_target_serial.c\<close>.

  The operations of a channel (\<open>DeviceExSerialOpType\<close>, declared by the Athrill core) are a record
  of functions on the host's state. \<open>serial_region\<close> and the region that the memory operations
  get are one region, that of the address map, held in the state. \<open>serial_put_data8\<close> calls itself
  through \<open>serial_set_str\<close>: it is a partial function, \<open>None\<close> where the C recursion would not end.
  The pointer \<open>dev_clock\<close>, written and never read, is left out.
\<close>

section \<open>serial.h\<close>

definition UDnChannelNum :: nat where "UDnChannelNum = 8"
definition UDnCH0 :: nat where "UDnCH0 = 0"
definition UDnCH1 :: nat where "UDnCH1 = 1"
definition UDnSTR :: "nat \<Rightarrow> u32" where "UDnSTR ch = 0xFFFFFA04 + of_nat ch * 16"
definition UDnTX :: "nat \<Rightarrow> u32" where "UDnTX ch = 0xFFFFFA07 + of_nat ch * 16"
definition UDnRX :: "nat \<Rightarrow> u32" where "UDnRX ch = 0xFFFFFA06 + of_nat ch * 16"
definition INTNO_INTUD0R :: u16 where "INTNO_INTUD0R = 36"
definition INTNO_INTUD1R :: u16 where "INTNO_INTUD1R = 39"

section \<open>State\<close>

record 'w DeviceExSerialOpType =
  op_putchar :: "u8 \<Rightarrow> u8 \<Rightarrow> 'w \<Rightarrow> (bool \<times> 'w) option"
  op_getchar :: "u8 \<Rightarrow> 'w \<Rightarrow> (u8 option \<times> 'w) option"
  op_flush :: "(u8 \<Rightarrow> 'w \<Rightarrow> 'w option) option"

record 'w SerialDeviceType =
  last_raised_counter :: u32
  sd_id :: u16
  sd_intno :: u16
  flush_count :: u32
  flush_count_max :: u32
  is_send_data :: bool
  sd_ops :: "'w DeviceExSerialOpType option"
  sd_start_clock :: u64

record 'w serial_state =
  sr_dev :: "nat \<Rightarrow> 'w SerialDeviceType"
  sr_region :: MpuAddressRegionType
  sr_world :: 'w

definition set_sdev :: "nat \<Rightarrow> 'w SerialDeviceType \<Rightarrow> 'w serial_state \<Rightarrow> 'w serial_state" where
  "set_sdev ch d st = st\<lparr>sr_dev := (sr_dev st)(ch := d)\<rparr>"

definition device_init_serial :: "devcfg \<Rightarrow> 'w serial_state \<Rightarrow> 'w serial_state" where
  "device_init_serial cfg st =
     (let d = (\<lambda>i. if i < UDnChannelNum
          then \<lparr>last_raised_counter = 0, sd_id = of_nat i, sd_intno = -1, flush_count = 0, flush_count_max = 100,
                is_send_data = False, sd_ops = None, sd_start_clock = 0\<rparr>
          else sr_dev st i);
          d = d(UDnCH0 := (d UDnCH0)\<lparr>sd_intno := INTNO_INTUD0R\<rparr>);
          d = d(UDnCH1 := (d UDnCH1)\<lparr>sd_intno := INTNO_INTUD1R\<rparr>);
          d = (case cfg_value cfg ''DEBUG_FUNC_SERIAL_FLUSH_COUNT_MAX'' of
                 Some count_max \<Rightarrow> d(UDnCH1 := (d UDnCH1)\<lparr>flush_count_max := count_max\<rparr>)
               | None \<Rightarrow> d)
      in st\<lparr>sr_dev := d\<rparr>)"

definition device_ex_serial_register_ops :: "u8 \<Rightarrow> 'w DeviceExSerialOpType \<Rightarrow> 'w serial_state \<Rightarrow> 'w serial_state option" where
  "device_ex_serial_register_ops channel ops st = do {
     check (unat channel < UDnChannelNum);
     Some (set_sdev (unat channel) ((sr_dev st (unat channel))\<lparr>sd_ops := Some ops\<rparr>) st)
   }"

section \<open>Register access\<close>

definition serial_get_data8 :: "u32 \<Rightarrow> 'w serial_state \<Rightarrow> (Std_ReturnType \<times> u8) option" where
  "serial_get_data8 addr st = do { v \<leftarrow> rg_get8 (sr_region st) (rg_off (sr_region st) addr); Some (STD_E_OK, v) }"

definition serial_get_data16 :: "u32 \<Rightarrow> 'w serial_state \<Rightarrow> (Std_ReturnType \<times> u16) option" where
  "serial_get_data16 addr st = do { v \<leftarrow> rg_get16 (sr_region st) (rg_off (sr_region st) addr); Some (STD_E_OK, v) }"

definition serial_get_data32 :: "u32 \<Rightarrow> 'w serial_state \<Rightarrow> (Std_ReturnType \<times> u32) option" where
  "serial_get_data32 addr st = do { v \<leftarrow> rg_get32 (sr_region st) (rg_off (sr_region st) addr); Some (STD_E_OK, v) }"

text \<open>The value that \<open>serial_set_str\<close> stores.\<close>

definition str_send_bit :: "bool \<Rightarrow> u8 \<Rightarrow> u8" where
  "str_send_bit enable str = (if enable then str OR 0x80 else str AND NOT 0x80)"

text \<open>A transmit register hands the byte to the host and sets the busy bit.\<close>

partial_function (option) serial_put_data8 ::
  "u32 \<Rightarrow> u8 \<Rightarrow> 'w serial_state \<Rightarrow> (Std_ReturnType \<times> 'w serial_state) option" where
  "serial_put_data8 addr data st = do {
     rg \<leftarrow> rg_put8 (rg_off (sr_region st) addr) data (sr_region st);
     let st = st\<lparr>sr_region := rg\<rparr>;
     let tx = (if addr = UDnTX UDnCH0 AND rg_mask rg then Some UDnCH0
               else if addr = UDnTX UDnCH1 AND rg_mask rg then Some UDnCH1 else None);
     case tx of
       Some ch \<Rightarrow> do {
         ops \<leftarrow> sd_ops (sr_dev st ch);
         (r, w) \<leftarrow> op_putchar ops (ucast (sd_id (sr_dev st ch))) data (sr_world st);
         let st = set_sdev ch ((sr_dev st ch)\<lparr>is_send_data := True\<rparr>) (st\<lparr>sr_world := w\<rparr>);
         (e, str) \<leftarrow> serial_get_data8 (UDnSTR ch AND rg_mask rg) st;
         (e, st) \<leftarrow> serial_put_data8 (UDnSTR ch AND rg_mask rg) (str_send_bit True str) st;
         Some (STD_E_OK, st)
       }
     | None \<Rightarrow> Some (STD_E_OK, st)
   }"

definition serial_put_data16 :: "u32 \<Rightarrow> u16 \<Rightarrow> 'w serial_state \<Rightarrow> (Std_ReturnType \<times> 'w serial_state) option" where
  "serial_put_data16 addr data st = do {
     rg \<leftarrow> rg_put16 (rg_off (sr_region st) addr) data (sr_region st);
     Some (STD_E_OK, st\<lparr>sr_region := rg\<rparr>)
   }"

definition serial_put_data32 :: "u32 \<Rightarrow> u32 \<Rightarrow> 'w serial_state \<Rightarrow> (Std_ReturnType \<times> 'w serial_state) option" where
  "serial_put_data32 addr data st = do {
     rg \<leftarrow> rg_put32 (rg_off (sr_region st) addr) data (sr_region st);
     Some (STD_E_OK, st\<lparr>sr_region := rg\<rparr>)
   }"

definition serial_get_pointer :: "u32 \<Rightarrow> 'w serial_state \<Rightarrow> (Std_ReturnType \<times> nat) option" where
  "serial_get_pointer addr st = do {
     data \<leftarrow> rg_pointer (sr_region st) (rg_off (sr_region st) addr);
     Some (STD_E_OK, data)
   }"

section \<open>The status register\<close>

definition serial_set_str :: "bool \<Rightarrow> u8 \<Rightarrow> 'w serial_state \<Rightarrow> 'w serial_state option" where
  "serial_set_str enable channel st = do {
     let addr = UDnSTR (unat channel) AND rg_mask (sr_region st);
     (e, str) \<leftarrow> serial_get_data8 addr st;
     (e, st) \<leftarrow> serial_put_data8 addr (str_send_bit enable str) st;
     Some st
   }"

definition serial_isset_str_ssf :: "u8 \<Rightarrow> 'w serial_state \<Rightarrow> bool option" where
  "serial_isset_str_ssf channel st = do {
     (e, str) \<leftarrow> serial_get_data8 (UDnSTR (unat channel) AND rg_mask (sr_region st)) st;
     Some (str AND 0x10 = 0x10)
   }"

definition serial_set_str_ssf :: "u8 \<Rightarrow> 'w serial_state \<Rightarrow> 'w serial_state option" where
  "serial_set_str_ssf channel st = do {
     let addr = UDnSTR (unat channel) AND rg_mask (sr_region st);
     (e, str) \<leftarrow> serial_get_data8 addr st;
     (e, st) \<leftarrow> serial_put_data8 addr (str OR 0x10) st;
     Some st
   }"

section \<open>The clock\<close>

text \<open>Reception, transmission and flushing of one channel.\<close>

definition serial_receive_step ::
  "nat \<Rightarrow> nat \<Rightarrow> 'w DeviceExSerialOpType \<Rightarrow> 'w serial_state \<times> intc_state \<Rightarrow> ('w serial_state \<times> intc_state) option" where
  "serial_receive_step n ch ops = (\<lambda>(st, s).
     let serial = sr_dev st ch; id8 = ucast (sd_id serial) :: u8
     in do {
       ssf \<leftarrow> serial_isset_str_ssf id8 st;
       if ssf then Some (st, s)
       else if 0 < last_raised_counter serial
       then Some (set_sdev ch (serial\<lparr>last_raised_counter := last_raised_counter serial - 1\<rparr>) st, s)
       else do {
         (ret, w) \<leftarrow> op_getchar ops id8 (sr_world st);
         let st = st\<lparr>sr_world := w\<rparr>;
         case ret of
           None \<Rightarrow> Some (st, s)
         | Some data \<Rightarrow> do {
             st \<leftarrow> serial_set_str_ssf id8 st;
             (e, st) \<leftarrow> serial_put_data8 (UDnRX (unat (sd_id serial)) AND rg_mask (sr_region st)) data st;
             s \<leftarrow> device_raise_int n (sd_intno (sr_dev st ch)) s;
             Some (set_sdev ch ((sr_dev st ch)\<lparr>last_raised_counter := 1000\<rparr>) st, s)
           }
       }
     })"

definition serial_send_step :: "nat \<Rightarrow> 'w serial_state \<Rightarrow> 'w serial_state option" where
  "serial_send_step ch st =
     (if is_send_data (sr_dev st ch) then do {
        st \<leftarrow> serial_set_str False (ucast (sd_id (sr_dev st ch))) st;
        Some (set_sdev ch ((sr_dev st ch)\<lparr>is_send_data := False\<rparr>) st)
      } else Some st)"

definition serial_flush_step :: "nat \<Rightarrow> 'w DeviceExSerialOpType \<Rightarrow> 'w serial_state \<Rightarrow> 'w serial_state option" where
  "serial_flush_step ch ops st =
     (case op_flush ops of
        None \<Rightarrow> Some st
      | Some flush \<Rightarrow>
          let serial = sr_dev st ch in
          if flush_count_max serial \<le> flush_count serial then do {
            w \<leftarrow> flush (ucast (sd_id serial)) (sr_world st);
            Some (set_sdev ch (serial\<lparr>flush_count := 0\<rparr>) (st\<lparr>sr_world := w\<rparr>))
          } else Some (set_sdev ch (serial\<lparr>flush_count := flush_count serial + 1\<rparr>) st))"

definition device_do_serial ::
  "nat \<Rightarrow> nat \<Rightarrow> 'w serial_state \<times> intc_state \<Rightarrow> ('w serial_state \<times> intc_state) option" where
  "device_do_serial n ch = (\<lambda>(st, s).
     case sd_ops (sr_dev st ch) of
       None \<Rightarrow> Some (st, s)
     | Some ops \<Rightarrow> do {
         (st, s) \<leftarrow> serial_receive_step n ch ops (st, s);
         st \<leftarrow> serial_send_step ch st;
         st \<leftarrow> serial_flush_step ch ops st;
         Some (st, s)
       })"

definition device_supply_clock_serial ::
  "build \<Rightarrow> nat \<Rightarrow> 'w serial_state \<times> intc_state \<Rightarrow> ('w serial_state \<times> intc_state) option" where
  "device_supply_clock_serial b n x = do {
     x \<leftarrow> device_do_serial n UDnCH0 x;
     if MINIMUM_DEVICE_CONFIG b then Some x else device_do_serial n UDnCH1 x
   }"

section \<open>The queues of the host\<close>

definition DBG_SERIAL_CHANNEL_NUM :: nat where "DBG_SERIAL_CHANNEL_NUM = 4"
definition DBG_SERIAL_BUFFER_SIZE :: nat where "DBG_SERIAL_BUFFER_SIZE = 1024"

record DbgSerialFifoType =
  fifo_count :: u32
  fifo_write_off :: u32
  fifo_read_off :: u32
  fifo_buffer :: "nat \<Rightarrow> u8"

text \<open>The queues of the channels and what has been printed on the standard output and error.\<close>

record dbg_serial =
  dbg_serial_fifo :: "nat \<Rightarrow> DbgSerialFifoType"
  dbg_stdout :: "u8 list"
  dbg_stderr :: "u8 list"

definition fifo_in :: "u8 \<Rightarrow> DbgSerialFifoType \<Rightarrow> (Std_ReturnType \<times> DbgSerialFifoType) option" where
  "fifo_in data fifo =
     (if DBG_SERIAL_BUFFER_SIZE \<le> unat (fifo_count fifo) then Some (STD_E_LIMIT, fifo)
      else do {
        check (unat (fifo_write_off fifo) < DBG_SERIAL_BUFFER_SIZE);
        let fifo = fifo\<lparr>fifo_buffer := (fifo_buffer fifo)(unat (fifo_write_off fifo) := data)\<rparr>;
        let fifo = fifo\<lparr>fifo_count := fifo_count fifo + 1, fifo_write_off := fifo_write_off fifo + 1\<rparr>;
        Some (STD_E_OK, if DBG_SERIAL_BUFFER_SIZE \<le> unat (fifo_write_off fifo)
                        then fifo\<lparr>fifo_write_off := 0\<rparr> else fifo)
      })"

definition fifo_getchar :: "DbgSerialFifoType \<Rightarrow> (u8 option \<times> DbgSerialFifoType) option" where
  "fifo_getchar fifo =
     (if fifo_count fifo = 0 then Some (None, fifo)
      else do {
        check (unat (fifo_read_off fifo) < DBG_SERIAL_BUFFER_SIZE);
        let data = fifo_buffer fifo (unat (fifo_read_off fifo));
        let fifo = fifo\<lparr>fifo_count := fifo_count fifo - 1, fifo_read_off := fifo_read_off fifo + 1\<rparr>;
        Some (Some data, if DBG_SERIAL_BUFFER_SIZE \<le> unat (fifo_read_off fifo)
                         then fifo\<lparr>fifo_read_off := 0\<rparr> else fifo)
      })"

definition dbg_serial_in :: "u8 \<Rightarrow> u8 \<Rightarrow> dbg_serial \<Rightarrow> (Std_ReturnType \<times> dbg_serial) option" where
  "dbg_serial_in channel data w =
     (if DBG_SERIAL_CHANNEL_NUM \<le> unat channel then Some (STD_E_INVALID, w)
      else do {
        (r, fifo) \<leftarrow> fifo_in data (dbg_serial_fifo w (unat channel));
        Some (r, w\<lparr>dbg_serial_fifo := (dbg_serial_fifo w)(unat channel := fifo)\<rparr>)
      })"

definition dbg_serial_getchar :: "u8 \<Rightarrow> dbg_serial \<Rightarrow> (u8 option \<times> dbg_serial) option" where
  "dbg_serial_getchar channel w =
     (if DBG_SERIAL_CHANNEL_NUM \<le> unat channel then Some (None, w)
      else do {
        (r, fifo) \<leftarrow> fifo_getchar (dbg_serial_fifo w (unat channel));
        Some (r, w\<lparr>dbg_serial_fifo := (dbg_serial_fifo w)(unat channel := fifo)\<rparr>)
      })"

definition dbg_serial_putchar :: "u8 \<Rightarrow> u8 \<Rightarrow> dbg_serial \<Rightarrow> (bool \<times> dbg_serial) option" where
  "dbg_serial_putchar channel data w =
     Some (True, if channel = 0 then w\<lparr>dbg_stdout := dbg_stdout w @ [data]\<rparr>
                 else w\<lparr>dbg_stderr := dbg_stderr w @ [data]\<rparr>)"

text \<open>\<open>device_ex_serial_op\<close> of \<open>src/device/device.c\<close>.\<close>

definition device_ex_serial_op :: "dbg_serial DeviceExSerialOpType" where
  "device_ex_serial_op = \<lparr>op_putchar = dbg_serial_putchar, op_getchar = dbg_serial_getchar, op_flush = None\<rparr>"

end
