(* ===== verification/V850_Device.thy ===== *)
theory V850_Device
  imports V850_Serial
begin

unbundle bit_operations_syntax

text \<open>
  The device dispatcher: \<open>src/device/device.c\<close> and \<open>device.h\<close>. \<open>device\<close> gathers the states of the
  clock and of all devices; \<open>device_supply_clock\<close> runs one clock of each in the code's order.
  What \<open>device.c\<close> calls outside this repository is \<open>device_env\<close>: the memory operations of the
  region PH0, the external devices and the serial FIFO of the Athrill core, with the clock
  functions of the virtual devices. Those that a build leaves out are \<open>None\<close>. \<open>mpthread_init\<close>
  and the profiling macros have no effect on this state.
\<close>

section \<open>Memory access\<close>

record 's MpuAddressRegionOperationType =
  ro_get_data8 :: "nat \<Rightarrow> u32 \<Rightarrow> 's \<Rightarrow> (int \<times> u8 \<times> 's) option"
  ro_get_data16 :: "nat \<Rightarrow> u32 \<Rightarrow> 's \<Rightarrow> (int \<times> u16 \<times> 's) option"
  ro_get_data32 :: "nat \<Rightarrow> u32 \<Rightarrow> 's \<Rightarrow> (int \<times> u32 \<times> 's) option"
  ro_put_data8 :: "nat \<Rightarrow> u32 \<Rightarrow> u8 \<Rightarrow> 's \<Rightarrow> (int \<times> 's) option"
  ro_put_data16 :: "nat \<Rightarrow> u32 \<Rightarrow> u16 \<Rightarrow> 's \<Rightarrow> (int \<times> 's) option"
  ro_put_data32 :: "nat \<Rightarrow> u32 \<Rightarrow> u32 \<Rightarrow> 's \<Rightarrow> (int \<times> 's) option"

definition CPU_CONFIG_CORE_ID_0 :: nat where "CPU_CONFIG_CORE_ID_0 = 0"

text \<open>\<open>msk\<close> and \<open>ops\<close> are the mask and the operations of the region.\<close>

definition device_io_write8 :: "'s MpuAddressRegionOperationType \<Rightarrow> u32 \<Rightarrow> u32 \<Rightarrow> u8 \<Rightarrow> 's \<Rightarrow> (int \<times> 's) option" where
  "device_io_write8 ops msk addr data = ro_put_data8 ops CPU_CONFIG_CORE_ID_0 (addr AND msk) data"

definition device_io_write16 :: "'s MpuAddressRegionOperationType \<Rightarrow> u32 \<Rightarrow> u32 \<Rightarrow> u16 \<Rightarrow> 's \<Rightarrow> (int \<times> 's) option" where
  "device_io_write16 ops msk addr data = ro_put_data16 ops CPU_CONFIG_CORE_ID_0 (addr AND msk) data"

definition device_io_write32 :: "'s MpuAddressRegionOperationType \<Rightarrow> u32 \<Rightarrow> u32 \<Rightarrow> u32 \<Rightarrow> 's \<Rightarrow> (int \<times> 's) option" where
  "device_io_write32 ops msk addr data = ro_put_data32 ops CPU_CONFIG_CORE_ID_0 (addr AND msk) data"

definition device_io_read8 :: "'s MpuAddressRegionOperationType \<Rightarrow> u32 \<Rightarrow> u32 \<Rightarrow> 's \<Rightarrow> (int \<times> u8 \<times> 's) option" where
  "device_io_read8 ops msk addr = ro_get_data8 ops CPU_CONFIG_CORE_ID_0 (addr AND msk)"

definition device_io_read16 :: "'s MpuAddressRegionOperationType \<Rightarrow> u32 \<Rightarrow> u32 \<Rightarrow> 's \<Rightarrow> (int \<times> u16 \<times> 's) option" where
  "device_io_read16 ops msk addr = ro_get_data16 ops CPU_CONFIG_CORE_ID_0 (addr AND msk)"

definition device_io_read32 :: "'s MpuAddressRegionOperationType \<Rightarrow> u32 \<Rightarrow> u32 \<Rightarrow> 's \<Rightarrow> (int \<times> u32 \<times> 's) option" where
  "device_io_read32 ops msk addr = ro_get_data32 ops CPU_CONFIG_CORE_ID_0 (addr AND msk)"

section \<open>State\<close>

datatype VdevIoOperationType = VdevIoOperation_UDP | VdevIoOperation_MMAP

record 'w device =
  dv_clock :: DeviceClockType
  dv_ph0 :: MpuAddressRegionType
  dv_timers :: timers
  dv_serial :: "'w serial_state"
  dv_intc :: intc_state
  dv_enable_vdev :: u32
  dv_vdev_func :: "VdevIoOperationType option"

record 'w device_env =
  ev_build :: build
  ev_cfg :: devcfg
  ev_core_num :: nat
  ev_max_interval :: u64
  ev_ph0_ops :: "MpuAddressRegionType MpuAddressRegionOperationType"
  ev_serial_op :: "'w DeviceExSerialOpType"
  ev_serial_file_op :: "'w DeviceExSerialOpType"
  ev_init_can :: "'w device \<Rightarrow> 'w device option"
  ev_init_vdev :: "VdevIoOperationType \<Rightarrow> 'w device \<Rightarrow> 'w device option"
  ev_init_serial_fifo :: "('w device \<Rightarrow> 'w device option) option"
  ev_init_exdev :: "('w device \<Rightarrow> 'w device option) option"
  ev_clock_vdev :: "VdevIoOperationType \<Rightarrow> 'w device \<Rightarrow> 'w device option"
  ev_clock_serial_fifo :: "('w device \<Rightarrow> 'w device option) option"
  ev_clock_exdev :: "('w device \<Rightarrow> 'w device option) option"

text \<open>\<open>#ifdef\<close> around a call.\<close>

definition if_built :: "('s \<Rightarrow> 's option) option \<Rightarrow> 's \<Rightarrow> 's option" where
  "if_built f s = (case f of None \<Rightarrow> Some s | Some f \<Rightarrow> f s)"

section \<open>Initialisation\<close>

definition device_init_clock :: "'w device_env \<Rightarrow> MpuAddressRegionType \<Rightarrow> MpuAddressRegionType option" where
  "device_init_clock ev region = do {
     (e, region) \<leftarrow> device_io_write8 (ev_ph0_ops ev) (rg_mask region) 0xFFFFF6C2 0x01 region;
     (e, region) \<leftarrow> device_io_write8 (ev_ph0_ops ev) (rg_mask region) 0xFFFFF824 0x00 region;
     Some region
   }"

definition device_register_serial_ops :: "'w device_env \<Rightarrow> 'w serial_state \<Rightarrow> 'w serial_state option" where
  "device_register_serial_ops ev st = do {
     st \<leftarrow> device_ex_serial_register_ops 0 (ev_serial_op ev) st;
     device_ex_serial_register_ops 1
       (if cfg_string (ev_cfg ev) ''SERIAL_FILE_PATH'' \<noteq> None then ev_serial_file_op ev else ev_serial_op ev) st
   }"

text \<open>The devices that \<open>device_init\<close> and \<open>device_reset\<close> both initialise.\<close>

definition device_init_common :: "'w device_env \<Rightarrow> 'w device \<Rightarrow> 'w device option" where
  "device_init_common ev dv = do {
     ph0 \<leftarrow> device_init_clock ev (dv_ph0 dv);
     s \<leftarrow> device_init_intc (ev_core_num ev) (dv_intc dv);
     let T = device_init_timer (ev_cfg ev) (dv_timers dv);
     st \<leftarrow> device_register_serial_ops ev (device_init_serial (ev_cfg ev) (dv_serial dv));
     Some (dv\<lparr>dv_ph0 := ph0, dv_intc := s, dv_timers := T, dv_serial := st\<rparr>)
   }"

definition vdev_op_type :: "devcfg \<Rightarrow> VdevIoOperationType" where
  "vdev_op_type cfg =
     (case cfg_string cfg ''DEBUG_FUNC_VDEV_SIMSYNC_TYPE'' of
        Some sync_type \<Rightarrow> if take 4 sync_type = ''MMAP'' then VdevIoOperation_MMAP else VdevIoOperation_UDP
      | None \<Rightarrow> VdevIoOperation_UDP)"

definition device_init :: "'w device_env \<Rightarrow> 'w device \<Rightarrow> 'w device option" where
  "device_init ev dv = do {
     let dv = dv\<lparr>dv_clock := (dv_clock dv)\<lparr>clock := 0, intclock := 0,
                min_intr_interval := ev_max_interval ev, can_skip_clock := False\<rparr>\<rparr>;
     dv \<leftarrow> device_init_common ev dv;
     dv \<leftarrow> (if DISABLE_CAN (ev_build ev) then Some dv
           else if devcfg_value (ev_cfg ev) ''DEBUG_FUNC_ENABLE_MROS'' 0 \<noteq> 0 then ev_init_can ev dv
           else Some dv);
     dv \<leftarrow> (if DISABLE_DEVICE_VDEV (ev_build ev) then Some dv
           else
             let dv = dv\<lparr>dv_enable_vdev := devcfg_value (ev_cfg ev) ''DEBUG_FUNC_ENABLE_VDEV'' (dv_enable_vdev dv)\<rparr>
             in if dv_enable_vdev dv \<noteq> 0
                then ev_init_vdev ev (vdev_op_type (ev_cfg ev)) (dv\<lparr>dv_vdev_func := Some (vdev_op_type (ev_cfg ev))\<rparr>)
                else Some dv);
     dv \<leftarrow> if_built (ev_init_serial_fifo ev) dv;
     if_built (ev_init_exdev ev) dv
   }"

definition device_reset :: "'w device_env \<Rightarrow> 'w device \<Rightarrow> 'w device option" where
  "device_reset ev dv =
     device_init_common ev (dv\<lparr>dv_clock := (dv_clock dv)\<lparr>clock := 0, intclock := 0,
       min_intr_interval := ev_max_interval ev, can_skip_clock := False, dev_is_halt := False\<rparr>\<rparr>)"

section \<open>One clock\<close>

definition supply_timer :: "'w device_env \<Rightarrow> 'w device \<Rightarrow> 'w device option" where
  "supply_timer ev dv = do {
     (c, T, s) \<leftarrow> device_supply_clock_timer (ev_build ev) (ev_core_num ev) (dv_clock dv, dv_timers dv, dv_intc dv);
     Some (dv\<lparr>dv_clock := c, dv_timers := T, dv_intc := s\<rparr>)
   }"

definition supply_serial :: "'w device_env \<Rightarrow> 'w device \<Rightarrow> 'w device option" where
  "supply_serial ev dv = do {
     (st, s) \<leftarrow> device_supply_clock_serial (ev_build ev) (ev_core_num ev) (dv_serial dv, dv_intc dv);
     Some (dv\<lparr>dv_serial := st, dv_intc := s\<rparr>)
   }"

definition supply_intc :: "'w device_env \<Rightarrow> 'w device \<Rightarrow> 'w device option" where
  "supply_intc ev dv = do {
     (ic, s) \<leftarrow> device_supply_clock_intc (ev_core_num ev) (intclock (dv_clock dv), dv_intc dv);
     Some (dv\<lparr>dv_clock := (dv_clock dv)\<lparr>intclock := ic\<rparr>, dv_intc := s\<rparr>)
   }"

definition device_supply_clock :: "'w device_env \<Rightarrow> 'w device \<Rightarrow> 'w device option" where
  "device_supply_clock ev dv = do {
     let dv = dv\<lparr>dv_clock := (dv_clock dv)\<lparr>min_intr_interval := ev_max_interval ev, can_skip_clock := True\<rparr>\<rparr>;
     dv \<leftarrow> supply_timer ev dv;
     dv \<leftarrow> (if DISABLE_SERIAL_CLOCK (ev_build ev) then Some dv else supply_serial ev dv);
     dv \<leftarrow> (if DISABLE_DEVICE_VDEV (ev_build ev) then Some dv
           else if dv_enable_vdev dv = 1 then do {
             f \<leftarrow> dv_vdev_func dv;
             ev_clock_vdev ev f dv
           } else Some dv);
     dv \<leftarrow> if_built (ev_clock_serial_fifo ev) dv;
     dv \<leftarrow> if_built (ev_clock_exdev ev) dv;
     supply_intc ev dv
   }"

section \<open>Register tables\<close>

datatype DevRegisterIoType = DevRegisterIo_Read | DevRegisterIo_Write

record DevRegisterIoArgType =
  ra_coreId :: u32
  ra_address :: u32
  ra_size :: u32

record 's DevRegisterMappingType =
  rm_start_address :: u32
  rm_size :: u32
  rm_io :: "DevRegisterIoType \<Rightarrow> DevRegisterIoArgType \<Rightarrow> 's \<Rightarrow> 's"

definition search_map :: "'s DevRegisterMappingType list \<Rightarrow> u32 \<Rightarrow> 's DevRegisterMappingType option" where
  "search_map table address =
     find (\<lambda>m. rm_start_address m \<le> address \<and> address < rm_start_address m + rm_size m) table"

definition dev_register_mapping_write_data ::
  "u32 \<Rightarrow> 's DevRegisterMappingType list \<Rightarrow> u32 \<Rightarrow> u32 \<Rightarrow> 's \<Rightarrow> 's" where
  "dev_register_mapping_write_data coreId table address size_arg s =
     (case search_map table address of
        None \<Rightarrow> s
      | Some m \<Rightarrow> rm_io m DevRegisterIo_Write \<lparr>ra_coreId = coreId, ra_address = address, ra_size = size_arg\<rparr> s)"

definition dev_register_mapping_read_data ::
  "u32 \<Rightarrow> 's DevRegisterMappingType list \<Rightarrow> u32 \<Rightarrow> u32 \<Rightarrow> 's \<Rightarrow> 's" where
  "dev_register_mapping_read_data coreId table address size_arg s =
     (case search_map table address of
        None \<Rightarrow> s
      | Some m \<Rightarrow> rm_io m DevRegisterIo_Read \<lparr>ra_coreId = coreId, ra_address = address, ra_size = size_arg\<rparr> s)"

end
