(* ===== verification/V850_Timer_Correct.thy ===== *)
theory V850_Timer_Correct
  imports V850_Device V850_Intc_Correct
begin

unbundle bit_operations_syntax

text \<open>
  The timers (\<open>V850_Timer\<close>): the period of an interval timer, and why the clocks that the simulator
  skips are quiet. A channel is compared with a counter modulo \<open>compare0 + 1\<close> (\<open>timer_at\<close>) over any
  number of clocks.
\<close>

section \<open>The period of an interval timer\<close>

text \<open>One channel run at \<open>K\<close> consecutive clocks, from that of \<open>dev\<close> on.\<close>

fun run_timer :: "build \<Rightarrow> nat \<Rightarrow> nat \<Rightarrow> DeviceClockType \<Rightarrow> nat \<Rightarrow> timers \<times> intc_state \<Rightarrow> (timers \<times> intc_state) option" where
  "run_timer b n ch dev 0 x = Some x"
| "run_timer b n ch dev (Suc K) x = do {
     (T, s) \<leftarrow> run_timer b n ch dev K x;
     (d, T, s) \<leftarrow> INLINE_device_supply_clock_timer b n ch (dev\<lparr>clock := clock dev + of_nat K\<rparr>, T, s);
     Some (T, s)
   }"

text \<open>\<open>m\<close> interrupt requests in a row.\<close>

definition raises :: "nat \<Rightarrow> u16 \<Rightarrow> nat \<Rightarrow> intc_state \<Rightarrow> intc_state option" where
  "raises n intno m = for_each (\<lambda>_. device_raise_int n intno) [0..<m]"

lemma raises_0 [simp]: "raises n intno 0 s = Some s"
  by (simp add: raises_def)

lemma for_each_append: "for_each f (xs @ ys) s = for_each f xs s \<bind> for_each f ys"
  by (induction xs arbitrary: s) (auto split: bind_splits)

lemma for_each_single: "for_each f [x] = f x"
proof
  fix s show "for_each f [x] s = f x s" by (cases "f x s") simp_all
qed

lemma raises_Suc: "raises n intno (Suc m) s = raises n intno m s \<bind> device_raise_int n intno"
  by (simp add: raises_def for_each_append for_each_single)

text \<open>The abstract timer: a counter modulo \<open>c + 1\<close>, which raises the interrupt when it reaches \<open>c\<close>.
  \<open>timer_at t a i\<close> is the timer after the tick of number \<open>i\<close>, the first being at clock \<open>a\<close>.\<close>

definition timer_at :: "TimerDeviceType \<Rightarrow> nat \<Rightarrow> nat \<Rightarrow> TimerDeviceType" where
  "timer_at t a i =
     (let c = unat (t_compare0 t); p = i mod Suc c
      in t\<lparr>t_cnt := of_nat p, t_state := if p = c then TIMER_STATE_READY else TIMER_STATE_RUNNING,
           t_start_clock := of_nat (a + (i - p) * unat (t_fd t))\<rparr>)"

definition timer_ticks :: "nat \<Rightarrow> nat \<Rightarrow> nat" where
  "timer_ticks fd K = (K + fd - 1) div fd"

lemma timer_ticks_0 [simp]: "0 < fd \<Longrightarrow> timer_ticks fd 0 = 0"
  by (simp add: timer_ticks_def)

lemma timer_ticks_Suc:
  assumes "0 < fd"
  shows "timer_ticks fd (Suc K) = (if K mod fd = 0 then Suc (K div fd) else timer_ticks fd K)"
    and "K mod fd = 0 \<Longrightarrow> timer_ticks fd K = K div fd"
proof -
  obtain q r where K: "K = q * fd + r" "r < fd" using assms by (metis div_mult_mod_eq mod_less_divisor)
  have less: "(r + fd - 1) div fd = (if r = 0 then 0 else 1)"
  proof (cases r)
    case (Suc k)
    then have "(k + fd) div fd = 1" using K(2) assms by (simp add: div_add_self2)
    then show ?thesis using Suc by simp
  qed (use assms in simp)
  have "timer_ticks fd (Suc K) = Suc q"
  proof -
    have "timer_ticks fd (Suc K) = (q * fd + (r + fd)) div fd" by (simp add: timer_ticks_def K(1) add.assoc)
    also have "\<dots> = q + (r + fd) div fd" using assms by (simp only: div_mult_self3 neq0_conv)
    also have "\<dots> = Suc q" using K(2) assms by (simp add: div_add_self2)
    finally show ?thesis .
  qed
  moreover have "timer_ticks fd K = (if r = 0 then q else Suc q)"
  proof -
    have "K + fd - 1 = q * fd + (r + fd - 1)" using assms K(1) by simp
    then have "timer_ticks fd K = (q * fd + (r + fd - 1)) div fd" by (simp add: timer_ticks_def)
    also have "\<dots> = q + (r + fd - 1) div fd" using assms by (simp only: div_mult_self3 neq0_conv)
    also have "\<dots> = (if r = 0 then q else Suc q)" by (simp add: less del: One_nat_def)
    finally show ?thesis .
  qed
  ultimately show "timer_ticks fd (Suc K) = (if K mod fd = 0 then Suc (K div fd) else timer_ticks fd K)"
    and "K mod fd = 0 \<Longrightarrow> timer_ticks fd K = K div fd"
    using K by simp_all
qed

lemma div_Suc_step: "Suc i div Suc c = (if i mod Suc c = c then Suc (i div Suc c) else i div Suc c)"
  by (simp add: div_Suc mod_Suc)

lemma u64_of_nat_div:
  assumes "m < 2 ^ 64"
  shows "of_nat m div (ucast (d :: u32) :: u64) = of_nat (m div unat d)"
proof (rule word_unat_eq_iff [THEN iffD2])
  have "m div unat d < 2 ^ 64" using assms by (meson div_le_dividend le_less_trans)
  then show "unat (of_nat m div (ucast d :: u64)) = unat (of_nat (m div unat d) :: u64)"
    using assms unat_ucast_64 by (simp add: unat_div unat_of_nat take_bit_nat_eq_self unsigned_ucast_eq)
qed

text \<open>One tick of an interval timer: the first, and those after it.\<close>

lemma timer_start_interval:
  assumes "t_mode t = TIMER_MODE_INTERVAL"
  shows "timer_start now t = (if t_state t = TIMER_STATE_READY
    then t\<lparr>t_state := TIMER_STATE_RUNNING, t_start_clock := now\<rparr> else t)"
  using assms by (auto simp: timer_start_def Let_def)

lemma timer_tick:
  assumes t: "t_mode t = TIMER_MODE_INTERVAL" "t_fd t \<noteq> 0"
    and u: "timer_start (clock dev) (T ch) = t\<lparr>t_cnt := y, t_state := TIMER_STATE_RUNNING,
      t_start_clock := of_nat (a + (i - p) * unat (t_fd t))\<rparr>"
    and now: "clock dev = of_nat (a + i * unat (t_fd t))" "i * unat (t_fd t) < 2 ^ 64"
    and p: "p = i mod Suc (unat (t_compare0 t))"
  shows "device_timer_do_update n dev ch (T, s)
    = map_option (\<lambda>s. (T(ch := timer_at t a i), s))
        (if p = unat (t_compare0 t) then device_raise_int n (ucast (t_compare0_intno t)) s else Some s)"
proof -
  let ?c = "unat (t_compare0 t)" and ?fd = "unat (t_fd t)"
  define z :: u64 where "z = of_nat (a + (i - p) * ?fd)"
  have le: "p \<le> i" "p \<le> ?c" using p mod_less_divisor [of "Suc ?c" i] by (simp, linarith)
  have "a + i * ?fd = (a + (i - p) * ?fd) + p * ?fd" using le by (simp flip: add_mult_distrib)
  then have "clock dev - z = of_nat (p * ?fd)"
    unfolding now(1) z_def by (metis add_diff_cancel_left' of_nat_add)
  moreover have "of_nat (p * ?fd) div (ucast (t_fd t) :: u64) = of_nat p"
  proof -
    have "p * ?fd < 2 ^ 64" using le(1) now(2) by (meson le_less_trans mult_le_mono1)
    moreover have "0 < ?fd" using t(2) by (simp add: unat_gt_0)
    ultimately show ?thesis by (simp only: u64_of_nat_div nonzero_mult_div_cancel_right)
  qed
  ultimately have "(clock dev - z) div ucast (t_fd t) = of_nat p" by (simp only:)
  moreover have small: "unat (of_nat p :: u32) = p" "unat (of_nat p :: u64) = p"
    using le(2) unat_bound_32 [of "t_compare0 t"] by (simp_all add: unat_of_nat take_bit_nat_eq_self)
  then have "(ucast (of_nat p :: u64) :: u32) = of_nat p"
    by (metis of_nat_unat)
  ultimately have cnt: "(ucast ((clock dev - z) div ucast (t_fd t)) :: u32) = of_nat p" by (simp only:)
  have eq: "(of_nat p :: u32) = t_compare0 t \<longleftrightarrow> p = ?c" using small(1) by (metis word_unat_eq_iff)
  have at: "timer_at t a i = t\<lparr>t_cnt := of_nat p,
      t_state := if p = ?c then TIMER_STATE_READY else TIMER_STATE_RUNNING, t_start_clock := z\<rparr>"
    by (simp only: timer_at_def Let_def p z_def)
  have order: "t\<lparr>t_start_clock := z, t_cnt := v, t_state := q\<rparr> = t\<lparr>t_cnt := v, t_state := q, t_start_clock := z\<rparr>"
    "t\<lparr>t_cnt := v, t_start_clock := z, t_state := q\<rparr> = t\<lparr>t_cnt := v, t_state := q, t_start_clock := z\<rparr>"
    "t\<lparr>t_state := q, t_start_clock := z, t_cnt := v\<rparr> = t\<lparr>t_cnt := v, t_state := q, t_start_clock := z\<rparr>" for v q
    by simp_all
  show ?thesis
    unfolding device_timer_do_update_def prod.case Let_def u z_def [symmetric] at
    by (simp add: t cnt eq check_def map_conv_bind_option comp_def order)
qed

lemma timer_at_phase:
  assumes "t_mode t = TIMER_MODE_INTERVAL" and "p = Suc i mod Suc (unat (t_compare0 t))"
    and "now = of_nat (a + Suc i * unat (t_fd t))"
  shows "\<exists>y. timer_start now (timer_at t a i) = t\<lparr>t_cnt := y, t_state := TIMER_STATE_RUNNING,
      t_start_clock := of_nat (a + (Suc i - p) * unat (t_fd t))\<rparr>"
  using assms by (auto simp: timer_start_interval timer_at_def Let_def mod_Suc distrib_right)

lemma clock_on_tick:
  assumes "fd \<noteq> (0 :: u32)" and "unat (now :: u64) mod unat fd = 0" and "unat now + K < 2 ^ 64"
  shows "(now + of_nat K) mod ucast fd = 0 \<longleftrightarrow> K mod unat fd = 0"
proof -
  have "unat (now + of_nat K) = unat now + K" using assms(3) by (simp add: unat_word_ariths unat_of_nat take_bit_nat_eq_self)
  moreover have "unat (ucast fd :: u64) = unat fd" by (rule unat_ucast_64)
  ultimately have "unat ((now + of_nat K) mod ucast fd) = (unat now + K) mod unat fd" by (simp add: unat_mod)
  also have "\<dots> = K mod unat fd" using assms(2) by (simp add: mod_add_left_eq [symmetric])
  finally show ?thesis by (simp add: unat_eq_zero flip: unat_eq_0)
qed

text \<open>Tick number \<open>j\<close> of a timer that was ready at clock \<open>a\<close>.\<close>

lemma run_timer_tick:
  assumes t: "t_mode (T ch) = TIMER_MODE_INTERVAL" "t_state (T ch) = TIMER_STATE_READY" "t_fd (T ch) \<noteq> 0"
    and now: "clock dev = of_nat (a + j * unat (t_fd (T ch)))" and lt: "j * unat (t_fd (T ch)) < 2 ^ 64"
    and T': "T' = (if j = 0 then T else T(ch := timer_at (T ch) a (j - 1)))"
  shows "device_timer_do_update n dev ch (T', s) = map_option (\<lambda>s. (T'(ch := timer_at (T ch) a j), s))
    (if j mod Suc (unat (t_compare0 (T ch))) = unat (t_compare0 (T ch))
     then device_raise_int n (ucast (t_compare0_intno (T ch))) s else Some s)"
proof -
  let ?fd = "unat (t_fd (T ch))" and ?p = "j mod Suc (unat (t_compare0 (T ch)))"
  have "\<exists>y. timer_start (clock dev) (T' ch) = (T ch)\<lparr>t_cnt := y,
      t_state := TIMER_STATE_RUNNING, t_start_clock := of_nat (a + (j - ?p) * ?fd)\<rparr>"
  proof (cases j)
    case 0
    then show ?thesis using t now by (auto simp: T' timer_start_interval intro!: exI [of _ "t_cnt (T ch)"])
  next
    case (Suc i)
    then show ?thesis using timer_at_phase [OF t(1), of ?p i _ a] now by (simp add: T')
  qed
  then obtain y where "timer_start (clock dev) (T' ch) = (T ch)\<lparr>t_cnt := y,
      t_state := TIMER_STATE_RUNNING, t_start_clock := of_nat (a + (j - ?p) * ?fd)\<rparr>" by blast
  from timer_tick [where T = T' and dev = dev and t = "T ch" and i = j, OF t(1,3) this now lt refl]
  show ?thesis by simp
qed

lemma run_timer_phase:
  assumes t: "t_mode (T ch) = TIMER_MODE_INTERVAL" "t_state (T ch) = TIMER_STATE_READY" "t_fd (T ch) \<noteq> 0"
    and now: "unat (clock dev) mod unat (t_fd (T ch)) = 0"
    and "unat (clock dev) + K < 2 ^ 64"
  defines "i \<equiv> timer_ticks (unat (t_fd (T ch))) K"
  shows "run_timer b n ch dev K (T, s)
    = map_option (\<lambda>s. (if i = 0 then T else T(ch := timer_at (T ch) (unat (clock dev)) (i - 1)), s))
        (raises n (ucast (t_compare0_intno (T ch))) (i div Suc (unat (t_compare0 (T ch)))) s)"
  using assms(5) unfolding i_def
proof (induction K)
  case 0
  then show ?case using t(3) by (simp add: unat_gt_0)
next
  case (Suc K)
  let ?fd = "unat (t_fd (T ch))" and ?c = "unat (t_compare0 (T ch))" and ?a = "unat (clock dev)"
  let ?int = "ucast (t_compare0_intno (T ch)) :: u16"
  have fd: "0 < ?fd" using t(3) by (simp add: unat_gt_0)
  let ?T = "if timer_ticks ?fd K = 0 then T else T(ch := timer_at (T ch) ?a (timer_ticks ?fd K - 1))"
  have IH: "run_timer b n ch dev K (T, s) = map_option (\<lambda>s. (?T, s)) (raises n ?int (timer_ticks ?fd K div Suc ?c) s)"
    by (rule Suc.IH) (use Suc.prems in simp)
  have fd': "t_fd (?T ch) = t_fd (T ch)" by (simp add: timer_at_def Let_def)
  have on: "(clock dev + of_nat K) mod ucast (t_fd (T ch)) = 0 \<longleftrightarrow> K mod ?fd = 0"
    by (rule clock_on_tick [OF t(3) now]) (use Suc.prems in simp)
  show ?case
  proof (cases "K mod ?fd = 0")
    case False
    then have "INLINE_device_supply_clock_timer b n ch (dev\<lparr>clock := clock dev + of_nat K\<rparr>, ?T, s')
        = Some (if CPUEMU_CLOCK_BUG_FIX b then dev\<lparr>clock := clock dev + of_nat K\<rparr>
                else dev\<lparr>clock := clock dev + of_nat K, can_skip_clock := False\<rparr>, ?T, s')" for s'
      using on t(3) unfolding INLINE_device_supply_clock_timer_def prod.case fd' by simp
    then show ?thesis
      using False timer_ticks_Suc(1) [OF fd, of K] by (simp add: IH bind_map_option comp_def map_conv_bind_option del: fun_upd_apply)
  next
    case True
    define j where "j = K div ?fd"
    have K: "K = j * ?fd" using div_mult_mod_eq [of K ?fd] True by (simp add: j_def)
    have tk: "timer_ticks ?fd K = j" "timer_ticks ?fd (Suc K) = Suc j"
      using timer_ticks_Suc [OF fd, of K] True by (simp_all add: j_def)
    define p where "p = j mod Suc ?c"
    have step: "device_timer_do_update n (dev\<lparr>clock := clock dev + of_nat K\<rparr>) ch (?T, s')
        = map_option (\<lambda>s. (?T(ch := timer_at (T ch) ?a j), s)) (if p = ?c then device_raise_int n ?int s' else Some s')" for s'
      unfolding p_def by (rule run_timer_tick [where T = T and ch = ch, OF t]) (use Suc.prems K tk in simp_all)
    have "INLINE_device_supply_clock_timer b n ch (dev\<lparr>clock := clock dev + of_nat K\<rparr>, ?T, s')
        = map_option (\<lambda>s. (device_timer_do_calc_min_interval ch (T(ch := timer_at (T ch) ?a j)) (dev\<lparr>clock := clock dev + of_nat K\<rparr>),
            T(ch := timer_at (T ch) ?a j), s)) (if p = ?c then device_raise_int n ?int s' else Some s')" for s'
      using on True t(3) unfolding INLINE_device_supply_clock_timer_def prod.case fd' step
      by (simp add: bind_map_option comp_def map_conv_bind_option)
    moreover have "raises n ?int (Suc j div Suc ?c) s
        = raises n ?int (j div Suc ?c) s \<bind> (\<lambda>s. if p = ?c then device_raise_int n ?int s else Some s)"
      unfolding div_Suc_step p_def by (simp add: raises_Suc)
    ultimately show ?thesis
      by (simp add: IH tk bind_map_option comp_def map_conv_bind_option del: fun_upd_apply)
  qed
qed

section \<open>Skipping clocks\<close>

definition skip_allowed :: "TimerDeviceType \<Rightarrow> DeviceClockType \<Rightarrow> bool" where
  "skip_allowed t dev \<longleftrightarrow> (0 < (unat (t_compare0 t) - unat (t_cnt t)) * unat (t_fd t)
     \<and> (unat (t_compare0 t) - unat (t_cnt t)) * unat (t_fd t) < 2 ^ 32
     \<longrightarrow> unat (min_intr_interval dev) \<le> (unat (t_compare0 t) - unat (t_cnt t)) * unat (t_fd t))"

lemma calc_min_frame:
  "clock (device_timer_do_calc_min_interval ch T dev) = clock dev"
  "can_skip_clock (device_timer_do_calc_min_interval ch T dev) = can_skip_clock dev"
  "min_intr_interval (device_timer_do_calc_min_interval ch T dev) \<le> min_intr_interval dev"
  by (auto simp: device_timer_do_calc_min_interval_def Let_def)

lemma calc_min_allows:
  assumes "can_skip_clock dev"
  shows "skip_allowed (T ch) (device_timer_do_calc_min_interval ch T dev)"
proof -
  let ?t = "T ch" and ?d = "unat (t_compare0 (T ch)) - unat (t_cnt (T ch))"
  have "unat (ucast ((t_compare0 ?t - t_cnt ?t) * t_fd ?t) :: u64) = ?d * unat (t_fd ?t)"
    if "\<not> t_compare0 ?t \<le> t_cnt ?t" "?d * unat (t_fd ?t) < 2 ^ 32"
  proof -
    have "unat (t_compare0 ?t - t_cnt ?t) = ?d" using that(1) by (simp add: unat_sub)
    then show ?thesis using that(2) by (simp add: unat_ucast_64 unat_word_ariths)
  qed
  moreover have "?d = 0" if "t_compare0 ?t \<le> t_cnt ?t" using that by (simp add: word_le_nat_alt)
  ultimately show ?thesis
    using assms by (auto simp: skip_allowed_def device_timer_do_calc_min_interval_def Let_def word_less_nat_alt word_le_nat_alt not_less)
qed

lemma skip_allowed_mono: "skip_allowed t dev \<Longrightarrow> min_intr_interval dev' \<le> min_intr_interval dev \<Longrightarrow> skip_allowed t dev'"
  by (auto simp: skip_allowed_def word_le_nat_alt)

lemma do_update_frame:
  assumes "device_timer_do_update n dev ch (T, s) = Some (T', s')"
  shows "ch' \<noteq> ch \<Longrightarrow> T' ch' = T ch'" and "t_fd (T' ch') = t_fd (T ch')"
  using assms by (auto simp: device_timer_do_update_def Let_def bind_eq_Some_conv timer_start_def split: if_splits)

lemma inline_frame:
  assumes "INLINE_device_supply_clock_timer b n ch (dev, T, s) = Some (dev', T', s')"
  shows "min_intr_interval dev' \<le> min_intr_interval dev" and "can_skip_clock dev' \<Longrightarrow> can_skip_clock dev"
    and "clock dev' = clock dev" and "ch' \<noteq> ch \<Longrightarrow> T' ch' = T ch'" and "t_fd (T' ch') = t_fd (T ch')"
    and "clock dev mod ucast (t_fd (T ch)) = 0 \<Longrightarrow> can_skip_clock dev' \<Longrightarrow> skip_allowed (T' ch) dev'"
  using assms
  by (auto simp: INLINE_device_supply_clock_timer_def bind_eq_Some_conv calc_min_frame calc_min_allows
      do_update_frame split: if_splits)

lemma timers_skip:
  assumes "for_each (INLINE_device_supply_clock_timer b n) xs (dev, T, s) = Some (dev', T', s')" and "distinct xs"
  shows "min_intr_interval dev' \<le> min_intr_interval dev" and "can_skip_clock dev' \<Longrightarrow> can_skip_clock dev"
    and "ch \<notin> set xs \<Longrightarrow> T' ch = T ch"
    and "ch \<in> set xs \<Longrightarrow> clock dev mod ucast (t_fd (T ch)) = 0 \<Longrightarrow> can_skip_clock dev' \<Longrightarrow> skip_allowed (T' ch) dev'"
  using assms
proof (induction xs arbitrary: dev T s)
  case (Cons x xs)
  { case 1 then show ?case using Cons.IH(1) inline_frame(1) by (fastforce simp: bind_eq_Some_conv) }
  { case 2 then show ?case using Cons.IH(2) inline_frame(2) by (fastforce simp: bind_eq_Some_conv) }
  { case 3 then show ?case using Cons.IH(3) inline_frame(4) by (fastforce simp: bind_eq_Some_conv) }
  { case 4
    then obtain d T1 s1 where i: "INLINE_device_supply_clock_timer b n x (dev, T, s) = Some (d, T1, s1)"
      "for_each (INLINE_device_supply_clock_timer b n) xs (d, T1, s1) = Some (dev', T', s')"
      by (auto simp: bind_eq_Some_conv)
    show ?case
    proof (cases "ch = x")
      case True
      have "can_skip_clock d" "T' ch = T1 ch" "min_intr_interval dev' \<le> min_intr_interval d"
        using Cons.IH(2) [OF _ i(2)] Cons.IH(3) [OF _ i(2)] Cons.IH(1) [OF i(2)] 4 True by auto
      then show ?thesis using inline_frame(6) [OF i(1)] 4(2) True skip_allowed_mono by auto
    next
      case False
      then have "clock d mod ucast (t_fd (T1 ch)) = 0" "ch \<in> set xs"
        using inline_frame(3,5) [OF i(1)] 4(1,2) by auto
      then show ?thesis using Cons.IH(4) [OF _ _ 4(3) i(2)] 4(5) by simp
    qed }
qed auto

lemma distinct_channels: "distinct (timer_channels b)"
  by (simp add: timer_channels_def)

lemma supply_timer_skip:
  assumes "device_supply_clock_timer b n (dev, T, s) = Some (dev', T', s')" and "can_skip_clock dev'"
    and "ch \<in> set (timer_channels b)" and "clock dev mod ucast (t_fd (T ch)) = 0"
  shows "skip_allowed (T' ch) dev'"
  by (rule timers_skip(4) [OF assms(1) [unfolded device_supply_clock_timer_def] distinct_channels assms(3,4,2)])

text \<open>Fewer clocks than the bound after a tick do not reach the next expiry.\<close>

lemma ticks_quiet:
  assumes fd: "0 < fd" and p: "p = i mod Suc c" and j: "j < (c - p) * fd"
  shows "timer_ticks fd (i * fd + 1 + j) div Suc c = timer_ticks fd (i * fd + 1) div Suc c"
proof -
  have ticks: "timer_ticks fd (i * fd + 1 + k) = i + 1 + (k div fd)" for k
  proof -
    have e: "i * fd + 1 + k + fd - 1 = k + (i + 1) * fd" by simp
    have "(k + (i + 1) * fd) div fd = (i + 1) + k div fd" by (rule div_mult_self1) (use fd in simp)
    then show ?thesis unfolding timer_ticks_def e .
  qed
  have k: "j div fd < c - p" using j fd by (simp add: less_mult_imp_div_less)
  have quiet: "(i + 1 + k) div Suc c = i div Suc c" if "k < c - p" for k
  proof -
    have "i = i div Suc c * Suc c + p" unfolding p by (rule div_mult_mod_eq [symmetric])
    then have "i + 1 + k = (p + 1 + k) + i div Suc c * Suc c" by linarith
    then have "(i + 1 + k) div Suc c = i div Suc c + (p + 1 + k) div Suc c" by (simp only: div_mult_self1)
    then show ?thesis using that by simp
  qed
  show ?thesis using ticks [of j] ticks [of 0] quiet [OF k] quiet [of 0] k by simp
qed

text \<open>C13: A free-running interval timer of \<open>timer32.c\<close> raises its compare interrupt with the right
  period. Start channel \<open>ch\<close> in the state that writing the control register leaves (READY, interval
  mode) at a clock divisible by its frequency divider \<open>fd\<close>, and run \<open>K\<close> clocks, calling the clock
  macro at each: the number of interrupt requests made is exactly the number of ticks of \<open>fd\<close> clocks
  divided by \<open>compare0 + 1\<close>, and the channel's counter, state and start clock are those of an abstract
  counter modulo \<open>compare0 + 1\<close>. Nothing else of the timers changes.\<close>

theorem timer_period:
  assumes "t_mode (T ch) = TIMER_MODE_INTERVAL" and "t_state (T ch) = TIMER_STATE_READY" and "t_fd (T ch) \<noteq> 0"
    and "unat (clock dev) mod unat (t_fd (T ch)) = 0" and "unat (clock dev) + K < 2 ^ 64"
  defines "i \<equiv> timer_ticks (unat (t_fd (T ch))) K"
  shows "run_timer b n ch dev K (T, s)
    = map_option (\<lambda>s. (if i = 0 then T else T(ch := timer_at (T ch) (unat (clock dev)) (i - 1)), s))
        (raises n (ucast (t_compare0_intno (T ch))) (i div Suc (unat (t_compare0 (T ch)))) s)"
  unfolding i_def by (rule run_timer_phase [where T = T and ch = ch, OF assms(1-5)])

definition sample_timer :: TimerDeviceType where
  "sample_timer = \<lparr>t_cnt = 0, t_state = TIMER_STATE_READY, t_mode = TIMER_MODE_INTERVAL, t_compare0 = 2,
     t_compare0_intno = 22, t_start_clock = 0, t_fd = 5\<rparr>"

lemma timer_period_witness:
  "map_option snd (run_timer cmake_build 2 0 \<lparr>clock = 10, intclock = 0, min_intr_interval = 0, can_skip_clock = True,
      dev_is_halt = False\<rparr> 31 (\<lambda>_. sample_timer, sample_intc)) = raises 2 22 2 sample_intc"
  using timer_period [of "\<lambda>_. sample_timer" 0 "\<lparr>clock = 10, intclock = 0, min_intr_interval = 0, can_skip_clock = True,
      dev_is_halt = False\<rparr>" 31 cmake_build 2 sample_intc]
  by (simp add: sample_timer_def timer_ticks_def option.map_comp comp_def option.map_ident)

text \<open>C34: The bound that the timers put on skipping clocks is safe. When a clock of all timers ends
  with skipping still allowed, \<open>min_intr_interval\<close> is at most the number of clocks to the next expiry,
  \<open>(compare0 - cnt) * fd\<close>, for each clocked channel at a tick, unless that product is 0 or does
  not fit in 32 bits.\<close>

theorem skip_bound:
  assumes "device_supply_clock_timer b n (dev, T, s) = Some (dev', T', s')" and "can_skip_clock dev'"
    and "ch \<in> set (timer_channels b)" and "clock dev mod ucast (t_fd (T ch)) = 0"
    and "0 < (unat (t_compare0 (T' ch)) - unat (t_cnt (T' ch))) * unat (t_fd (T' ch))"
    and "(unat (t_compare0 (T' ch)) - unat (t_cnt (T' ch))) * unat (t_fd (T' ch)) < 2 ^ 32"
  shows "unat (min_intr_interval dev') \<le> (unat (t_compare0 (T' ch)) - unat (t_cnt (T' ch))) * unat (t_fd (T' ch))"
  using supply_timer_skip [OF assms(1-4)] assms(5,6) by (simp add: skip_allowed_def)

text \<open>C33: The clocks that the bound lets the simulator skip are quiet. After a tick of a running
  interval timer (that of clock number \<open>i * fd\<close> from its start) whose counter is then \<open>cnt\<close>, fewer than
  \<open>(compare0 - cnt) * fd\<close> further clocks request no interrupt: the interrupt controller stays as the
  tick left it.\<close>

theorem skipped_clocks_quiet:
  assumes "t_mode (T ch) = TIMER_MODE_INTERVAL" and "t_state (T ch) = TIMER_STATE_READY" and "t_fd (T ch) \<noteq> 0"
    and "unat (clock dev) mod unat (t_fd (T ch)) = 0" and "unat (clock dev) + i * unat (t_fd (T ch)) + 1 + j < 2 ^ 64"
    and "run_timer b n ch dev (i * unat (t_fd (T ch)) + 1) (T, s) = Some (T', s')"
    and "j < (unat (t_compare0 (T' ch)) - unat (t_cnt (T' ch))) * unat (t_fd (T' ch))"
  shows "map_option snd (run_timer b n ch dev (i * unat (t_fd (T ch)) + 1 + j) (T, s)) = Some s'"
proof -
  let ?fd = "unat (t_fd (T ch))" and ?c = "unat (t_compare0 (T ch))"
  have fd: "0 < ?fd" using assms(3) by (simp add: unat_gt_0)
  have ticks: "timer_ticks ?fd (i * ?fd + 1) = Suc i" using timer_ticks_Suc(1) [OF fd, of "i * ?fd"] fd by simp
  have run: "run_timer b n ch dev K (T, s) = map_option (\<lambda>s. (if timer_ticks ?fd K = 0 then T
      else T(ch := timer_at (T ch) (unat (clock dev)) (timer_ticks ?fd K - 1)), s))
    (raises n (ucast (t_compare0_intno (T ch))) (timer_ticks ?fd K div Suc ?c) s)"
    if "K \<le> i * ?fd + 1 + j" for K
    by (rule run_timer_phase [where T = T and ch = ch, OF assms(1-4)]) (rule le_less_trans [OF _ assms(5)], use that in simp)
  have T': "T' ch = timer_at (T ch) (unat (clock dev)) i" and s': "raises n (ucast (t_compare0_intno (T ch))) (Suc i div Suc ?c) s = Some s'"
    using assms(6) unfolding run [OF le_add1 [of "i * ?fd + 1" j]] ticks by auto
  have "i mod Suc ?c < 2 ^ 32"
    by (rule less_le_trans [OF mod_less_divisor]) (use unat_bound_32 [of "t_compare0 (T ch)"] in simp_all)
  then have "j < (?c - i mod Suc ?c) * ?fd"
    using assms(7) by (simp add: T' timer_at_def Let_def unat_of_nat take_bit_nat_eq_self)
  then have "timer_ticks ?fd (i * ?fd + 1 + j) div Suc ?c = Suc i div Suc ?c"
    using ticks_quiet [where i = i and c = ?c, OF fd refl] ticks by simp
  then show ?thesis unfolding run [OF order_refl] by (simp add: s')
qed

lemma skip_bound_witness:
  "\<exists>dev' T' s'. device_supply_clock_timer cmake_build 2 (\<lparr>clock = 10, intclock = 0, min_intr_interval = 1000,
      can_skip_clock = True, dev_is_halt = False\<rparr>, \<lambda>_. sample_timer, sample_intc) = Some (dev', T', s')
    \<and> unat (min_intr_interval dev') \<le> 10"
proof -
  obtain dev' T' s' where r: "device_supply_clock_timer cmake_build 2 (\<lparr>clock = 10, intclock = 0, min_intr_interval = 1000,
      can_skip_clock = True, dev_is_halt = False\<rparr>, \<lambda>_. sample_timer, sample_intc) = Some (dev', T', s')"
    "can_skip_clock dev'" "T' 2 = sample_timer\<lparr>t_cnt := 0, t_state := TIMER_STATE_RUNNING, t_start_clock := 10\<rparr>"
    by (simp add: device_supply_clock_timer_def timer_channels_def cmake_build_def INLINE_device_supply_clock_timer_def
        sample_timer_def device_timer_do_update_def timer_start_def device_timer_do_calc_min_interval_def Let_def check_def)
  have "unat (min_intr_interval dev') \<le> 10"
    using skip_bound [OF r(1,2), of 2] r(3) by (simp add: timer_channels_def cmake_build_def sample_timer_def)
  then show ?thesis using r(1) by blast
qed

lemma skipped_clocks_quiet_witness:
  "map_option snd (run_timer cmake_build 2 0 \<lparr>clock = 10, intclock = 0, min_intr_interval = 0, can_skip_clock = True,
      dev_is_halt = False\<rparr> (5 + 1 + 4) (\<lambda>_. sample_timer, sample_intc)) = Some sample_intc"
proof -
  let ?dev = "\<lparr>clock = 10, intclock = 0, min_intr_interval = 0, can_skip_clock = True, dev_is_halt = False\<rparr>"
  have "run_timer cmake_build 2 0 ?dev (1 * unat (t_fd sample_timer) + 1) (\<lambda>_. sample_timer, sample_intc)
      = Some ((\<lambda>_. sample_timer)(0 := timer_at sample_timer 10 1), sample_intc)"
    by (subst run_timer_phase) (simp_all add: sample_timer_def timer_ticks_def)
  from skipped_clocks_quiet [OF _ _ _ _ _ this, of 4] show ?thesis
    by (simp add: sample_timer_def timer_at_def Let_def)
qed

end
