(* ===== verification/V850_Window.thy ===== *)
theory V850_Window
  imports V850_Region
begin

unbundle bit_operations_syntax

text \<open>
  The window onto the registers of the current core and the interrupt requests between cores
  (\<open>cpu_register_operation\<close> in \<open>src/cpu/config/cpu_config.c\<close>, with \<open>cpu_config.h\<close>), and the accessors
  of the current core at the end of that file. The cores are those of \<open>intc_state\<close>; \<open>cur\<close> is the
  position of \<open>virtual_cpu.current_core\<close>. The byte and halfword operations are \<open>NULL\<close> in the code.
\<close>

definition CPU_CONFIG_DEBUG_REGADDR_R0 :: u32 where "CPU_CONFIG_DEBUG_REGADDR_R0 = 0x06FF0600"
definition CPU_CONFIG_ADDR_PEID :: u32 where "CPU_CONFIG_ADDR_PEID = 0x06FF6490"
definition CPU_CONFIG_ADDR_MIR_0 :: u32 where "CPU_CONFIG_ADDR_MIR_0 = 0x06FF6800"
definition CPU_CONFIG_ADDR_MIR_1 :: u32 where "CPU_CONFIG_ADDR_MIR_1 = 0x06FF6804"
definition CPU_CONFIG_ADDR_MEV_0 :: u32 where "CPU_CONFIG_ADDR_MEV_0 = 0x06FF6900"
definition CPU_CONFIG_ADDR_MEV_7 :: u32 where "CPU_CONFIG_ADDR_MEV_7 = 0x06FF691C"
definition CPU_CONFIG_ADDR_MIR_0_INTNO :: nat where "CPU_CONFIG_ADDR_MIR_0_INTNO = 0"
definition CPU_CONFIG_ADDR_MIR_1_INTNO :: nat where "CPU_CONFIG_ADDR_MIR_1_INTNO = 1"

lemmas window_consts = CPU_CONFIG_DEBUG_REGISTER_ADDR_def CPU_CONFIG_DEBUG_REGADDR_R0_def CPU_CONFIG_ADDR_PEID_def
  CPU_CONFIG_ADDR_MIR_0_def CPU_CONFIG_ADDR_MIR_1_def CPU_CONFIG_ADDR_MEV_0_def CPU_CONFIG_ADDR_MEV_7_def
  CPU_CONFIG_ADDR_MIR_0_INTNO_def CPU_CONFIG_ADDR_MIR_1_INTNO_def

text \<open>What \<open>get_cpu_register_addr\<close> points to: a general register of the core, or data of the region.\<close>

datatype register_ptr = CoreReg nat | RegionData nat

definition get_cpu_register_addr :: "TargetCoreType \<Rightarrow> u32 \<Rightarrow> register_ptr option" where
  "get_cpu_register_addr core addr =
     (let inx = (addr - CPU_CONFIG_DEBUG_REGISTER_ADDR) div 4 in
      if inx \<le> 31 then Some (CoreReg (unat inx))
      else if addr = CPU_CONFIG_ADDR_PEID then
        Some (RegionData (unat ((addr - CPU_CONFIG_DEBUG_REGISTER_ADDR) * core_id core)))
      else if CPU_CONFIG_ADDR_MEV_0 \<le> addr \<and> addr \<le> CPU_CONFIG_ADDR_MEV_7 then
        Some (RegionData (unat (addr - CPU_CONFIG_DEBUG_REGISTER_ADDR)))
      else if CPU_CONFIG_ADDR_MIR_0 \<le> addr \<and> addr \<le> CPU_CONFIG_ADDR_MIR_1 then
        Some (RegionData (unat (addr - CPU_CONFIG_DEBUG_REGISTER_ADDR)))
      else None)"

type_synonym window = "MpuAddressRegionType \<times> intc_state"

definition ptr_read :: "nat \<Rightarrow> register_ptr \<Rightarrow> window \<Rightarrow> u32 option" where
  "ptr_read cur p = (\<lambda>(rg, s). case p of
     CoreReg i \<Rightarrow> Some (reg_r (reg (ic_cores s cur)) i)
   | RegionData off \<Rightarrow> rg_get32 rg off)"

definition ptr_write :: "nat \<Rightarrow> register_ptr \<Rightarrow> u32 \<Rightarrow> window \<Rightarrow> window option" where
  "ptr_write cur p v = (\<lambda>(rg, s). case p of
     CoreReg i \<Rightarrow> Some (rg, set_core cur ((ic_cores s cur)\<lparr>reg := set_r i v (reg (ic_cores s cur))\<rparr>) s)
   | RegionData off \<Rightarrow> do { rg \<leftarrow> rg_put32 off v rg; Some (rg, s) })"

text \<open>\<open>data\<close> is the value of \<open>*data\<close> before the call.\<close>

definition cpu_get_data32 :: "nat \<Rightarrow> u32 \<Rightarrow> u32 \<Rightarrow> u32 \<Rightarrow> window \<Rightarrow> (Std_ReturnType \<times> u32 \<times> window) option" where
  "cpu_get_data32 cur core_id_arg addr data w =
     (case get_cpu_register_addr (ic_cores (snd w) cur) addr of
        None \<Rightarrow> Some (STD_E_SEGV, data, w)
      | Some registerp \<Rightarrow> do {
          w \<leftarrow> (if addr = CPU_CONFIG_ADDR_PEID then ptr_write cur registerp (core_id_arg + 1) w else Some w);
          v \<leftarrow> ptr_read cur registerp w;
          Some (STD_E_OK, v, w)
        })"

definition cpu_put_data32 :: "nat \<Rightarrow> u32 \<Rightarrow> u32 \<Rightarrow> u32 \<Rightarrow> window \<Rightarrow> (Std_ReturnType \<times> window) option" where
  "cpu_put_data32 cur core_id_arg addr data w =
     (case get_cpu_register_addr (ic_cores (snd w) cur) addr of
        None \<Rightarrow> Some (STD_E_SEGV, w)
      | Some registerp \<Rightarrow>
          if addr = CPU_CONFIG_ADDR_PEID then Some (STD_E_SEGV, w)
          else if addr = CPU_CONFIG_ADDR_MIR_0 then do {
            s \<leftarrow> intc_cpu_trigger_interrupt (unat core_id_arg) CPU_CONFIG_ADDR_MIR_0_INTNO (snd w);
            Some (STD_E_OK, fst w, s)
          }
          else if addr = CPU_CONFIG_ADDR_MIR_1 then do {
            s \<leftarrow> intc_cpu_trigger_interrupt (unat core_id_arg) CPU_CONFIG_ADDR_MIR_1_INTNO (snd w);
            Some (STD_E_OK, fst w, s)
          }
          else do {
            w \<leftarrow> ptr_write cur registerp data w;
            Some (STD_E_OK, w)
          })"

section \<open>Accessors\<close>

definition cpu_get_pc :: "TargetCoreType \<Rightarrow> u32" where
  "cpu_get_pc core = reg_pc (reg core)"

definition cpu_get_sp :: "TargetCoreType \<Rightarrow> u32" where
  "cpu_get_sp core = reg_r (reg core) 3"

definition cpu_get_ep :: "TargetCoreType \<Rightarrow> u32" where
  "cpu_get_ep core = reg_r (reg core) 30"

definition cpu_get_return_addr :: "TargetCoreType \<Rightarrow> u32" where
  "cpu_get_return_addr core = reg_r (reg core) 31"

definition cpu_get_core_id :: "TargetCoreType \<Rightarrow> u32" where
  "cpu_get_core_id core = core_id core"

definition cpu_get_current_core_id :: "nat \<Rightarrow> intc_state \<Rightarrow> u32" where
  "cpu_get_current_core_id cur s = core_id (ic_cores s cur)"

definition cpu_get_current_core_pc :: "nat \<Rightarrow> intc_state \<Rightarrow> u32" where
  "cpu_get_current_core_pc cur s = cpu_get_pc (ic_cores s cur)"

definition cpu_get_current_core_sp :: "nat \<Rightarrow> intc_state \<Rightarrow> u32" where
  "cpu_get_current_core_sp cur s = cpu_get_sp (ic_cores s cur)"

definition cpu_set_core_pc :: "nat \<Rightarrow> u32 \<Rightarrow> intc_state \<Rightarrow> intc_state option" where
  "cpu_set_core_pc cid pc s = do {
     check (cid < CPU_CONFIG_CORE_NUM);
     Some (set_core cid ((ic_cores s cid)\<lparr>reg := (reg (ic_cores s cid))\<lparr>reg_pc := pc\<rparr>\<rparr>) s)
   }"

definition cpu_get_current_core_register :: "nat \<Rightarrow> u32 \<Rightarrow> intc_state \<Rightarrow> u32 option" where
  "cpu_get_current_core_register cur inx s = rd_r (reg (ic_cores s cur)) inx"

definition cpu_get_current_core_ep :: "nat \<Rightarrow> intc_state \<Rightarrow> u32" where
  "cpu_get_current_core_ep cur s = cpu_get_ep (ic_cores s cur)"

section \<open>Reset and halt state of the cores\<close>

text \<open>The number of cores, \<open>virtual_cpu.core_id_num\<close>, is configured outside this repository: it is the
  argument \<open>n\<close>. \<open>cpu_set_current_core\<close> is the choice of \<open>cur\<close>.\<close>

definition cpu_reset :: "nat \<Rightarrow> intc_state \<Rightarrow> intc_state option" where
  "cpu_reset cid s = do {
     check (cid < CPU_CONFIG_CORE_NUM);
     Some (set_core cid (private_cpu_reset (ic_cores s cid)) s)
   }"

fun cpu_init_loop :: "nat list \<Rightarrow> intc_state \<Rightarrow> intc_state option" where
  "cpu_init_loop [] s = Some s"
| "cpu_init_loop (i # is) s = do {
     check (i < CPU_CONFIG_CORE_NUM);
     s \<leftarrow> cpu_reset i (set_core i ((ic_cores s i)\<lparr>core_id := of_nat i\<rparr>) s);
     cpu_init_loop is s
   }"

definition cpu_init :: "nat \<Rightarrow> intc_state \<Rightarrow> intc_state option" where
  "cpu_init n s = cpu_init_loop [0..<n] s"

definition cpu_is_halt :: "nat \<Rightarrow> intc_state \<Rightarrow> bool" where
  "cpu_is_halt cid s = is_halt (ic_cores s cid)"

definition cpu_is_halt_all :: "nat \<Rightarrow> intc_state \<Rightarrow> bool" where
  "cpu_is_halt_all n s = list_all (\<lambda>cid. cpu_is_halt cid s) [0..<n]"

end
