(* ===== verification/V850_Device_Correct.thy ===== *)
theory V850_Device_Correct
  imports V850_Timer_Correct V850_Window
begin

unbundle bit_operations_syntax

text \<open>
  The machine (\<open>V850_Device\<close>): \<open>interrupt_source\<close> is the interface of a clocked device, which the
  timers and the serial interface implement; with it the invariant of the interrupt controller
  carries over to every history of the machine, and the expiry of a timer is followed to the
  interrupt handler. The window onto the registers (\<open>V850_Window\<close>) reads what it writes.
\<close>

section \<open>Requests\<close>

text \<open>What the devices do to the interrupt controller: requests, one after the other.\<close>

inductive request_step :: "intc_state \<Rightarrow> intc_state \<Rightarrow> bool" where
  "common_raise_intr i c s = Some s' \<Longrightarrow> request_step s s'"

abbreviation requests :: "intc_state \<Rightarrow> intc_state \<Rightarrow> bool" where
  "requests \<equiv> request_step\<^sup>*\<^sup>*"

lemma request_bounds: "common_raise_intr i c s = Some s' \<Longrightarrow> c < 2 \<and> i < 117"
  by (simp add: common_raise_intr_def small_consts check_def split: if_splits)

lemma requests_steps: "requests s s' \<Longrightarrow> intc_step\<^sup>*\<^sup>* s s'"
proof (induction rule: rtranclp_induct)
  case (step s s')
  then have "intc_step s s'"
    by (auto elim!: request_step.cases intro!: intc_step.request simp: INTC_NUM_def dest: request_bounds)
  with step.IH show ?case by simp
qed simp

text \<open>Requests add waiting interrupts and wake cores; they touch nothing else that the dispatch reads.\<close>

definition only_adds :: "intc_state \<Rightarrow> intc_state \<Rightarrow> bool" where
  "only_adds s s' \<longleftrightarrow> ic_nmi s' = ic_nmi s \<and> (\<forall>c. reg (ic_cores s' c) = reg (ic_cores s c)
     \<and> waiting_set (ic_work s c) \<subseteq> waiting_set (ic_work s' c)
     \<and> current_intno (ic_work s' c) = current_intno (ic_work s c)
     \<and> (\<forall>i. masked c s' i = masked c s i) \<and> (\<not> is_halt (ic_cores s c) \<longrightarrow> \<not> is_halt (ic_cores s' c)))"

lemma only_adds_trans: "only_adds s t \<Longrightarrow> only_adds t u \<Longrightarrow> only_adds s u"
  by (fastforce simp: only_adds_def)

lemma bit6_or80: "bit (d OR 0x80 :: u8) 6 = bit d 6"
proof -
  have "\<not> bit (0x80 :: u8) 6" by simp
  then show ?thesis by (simp only: bit_or_iff simp_thms)
qed

lemma bit6_upd: "bit ((f(p := f p OR 0x80 :: u8)) q) 6 = bit (f q) 6"
  by (cases "q = p") (simp_all add: bit6_or80)

lemma request_adds:
  assumes "common_raise_intr i c s = Some s'"
  shows "only_adds s s' \<and> i \<in> waiting_set (ic_work s' c) \<and> \<not> is_halt (ic_cores s' c)"
proof -
  have b: "c < 2" "i < 117" using request_bounds [OF assms] by auto
  have "masked k s' j = masked k s j" for k j
    using assms by (auto simp: request_eq [OF b] Let_def masked_def bit6_upd simp del: fun_upd_apply)
  then show ?thesis
    using assms set_wait_waiting [OF unat_level b(2)] set_wait_service
    by (auto simp: request_eq [OF b] Let_def only_adds_def split: if_splits)
qed

lemma requests_adds: "requests s s' \<Longrightarrow> only_adds s s'"
proof (induction rule: rtranclp_induct)
  case (step s' s'')
  then show ?case by (blast elim: request_step.cases dest: request_adds intro: only_adds_trans)
qed (simp add: only_adds_def)

lemma for_each_requests: "for_each (common_raise_intr i) cs s = Some s' \<Longrightarrow> requests s s'"
  by (induction cs arbitrary: s) (auto simp: bind_eq_Some_conv intro: converse_rtranclp_into_rtranclp request_step.intros)

lemma raise_int_requests: "device_raise_int n i s = Some s' \<Longrightarrow> requests s s'"
  by (auto simp: device_raise_int_def intc_raise_intr_def intro: for_each_requests)

text \<open>A request to all cores reaches each of them.\<close>

lemma for_each_reaches:
  "for_each (common_raise_intr i) cs s = Some s' \<Longrightarrow> c \<in> set cs \<Longrightarrow>
    i \<in> waiting_set (ic_work s' c) \<and> \<not> is_halt (ic_cores s' c)"
proof (induction cs arbitrary: s)
  case (Cons k cs)
  then obtain t where t: "common_raise_intr i k s = Some t" "for_each (common_raise_intr i) cs t = Some s'"
    by (auto simp: bind_eq_Some_conv)
  show ?case
  proof (cases "c \<in> set cs")
    case False
    then have "c = k" using Cons.prems(2) by simp
    then show ?thesis using request_adds [OF t(1)] requests_adds [OF for_each_requests [OF t(2)]] by (auto simp: only_adds_def)
  qed (use Cons.IH t in blast)
qed simp

lemma raise_int_reaches:
  "device_raise_int n i s = Some s' \<Longrightarrow> c < n \<Longrightarrow> unat i \<in> waiting_set (ic_work s' c) \<and> \<not> is_halt (ic_cores s' c)"
  by (simp add: device_raise_int_def intc_raise_intr_def for_each_reaches)

section \<open>The interface of a clocked device\<close>

text \<open>A clocked device promises that a clock of it only makes requests.\<close>

locale interrupt_source =
  fixes intc :: "'d \<Rightarrow> intc_state" and clock_step :: "'d \<Rightarrow> 'd option"
  assumes makes_requests: "clock_step d = Some d' \<Longrightarrow> requests (intc d) (intc d')"
begin

lemma refines_controller: "clock_step d = Some d' \<Longrightarrow> intc_step\<^sup>*\<^sup>* (intc d) (intc d')"
  by (rule requests_steps [OF makes_requests])

lemma keeps_invariant: "clock_step d = Some d' \<Longrightarrow> intc_ok (intc d) \<Longrightarrow> intc_ok (intc d')"
  by (rule steps_ok [OF refines_controller])

lemma leaves_the_rest: "clock_step d = Some d' \<Longrightarrow> only_adds (intc d) (intc d')"
  by (rule requests_adds [OF makes_requests])

end

text \<open>Several devices in a row are one.\<close>

lemma for_each_source:
  assumes "\<And>i d d'. f i d = Some d' \<Longrightarrow> requests (intc d) (intc d')" and "for_each f is d = Some d'"
  shows "requests (intc d) (intc d')"
  using assms(2)
proof (induction "is" arbitrary: d)
  case (Cons i "is")
  then obtain e where "f i d = Some e" "for_each f is e = Some d'" by (auto simp: bind_eq_Some_conv)
  with Cons.IH assms(1) show ?case by (meson rtranclp_trans)
qed simp

lemma timer_update_requests: "device_timer_do_update n dev ch (T, s) = Some (T', s') \<Longrightarrow> requests s s'"
  by (auto simp: device_timer_do_update_def Let_def bind_eq_Some_conv dest: raise_int_requests split: if_splits)

lemma timer_inline_requests:
  "INLINE_device_supply_clock_timer b n ch x = Some x' \<Longrightarrow> requests (snd (snd x)) (snd (snd x'))"
  by (auto simp: INLINE_device_supply_clock_timer_def bind_eq_Some_conv dest: timer_update_requests
      split: if_splits prod.splits)

interpretation timer32: interrupt_source "\<lambda>x. snd (snd x)" "device_supply_clock_timer b n" for b n
  by unfold_locales (auto simp: device_supply_clock_timer_def intro: for_each_source [OF timer_inline_requests])

interpretation timer_source: interrupt_source dv_intc "supply_timer ev" for ev
  by unfold_locales (auto simp: supply_timer_def bind_eq_Some_conv dest: timer32.makes_requests)

lemma receive_requests: "serial_receive_step n ch ops (st, s) = Some (st', s') \<Longrightarrow> requests s s'"
  by (auto simp: serial_receive_step_def Let_def bind_eq_Some_conv dest: raise_int_requests
      split: if_splits option.splits)

lemma serial_requests: "device_do_serial n ch x = Some x' \<Longrightarrow> requests (snd x) (snd x')"
  by (auto simp: device_do_serial_def bind_eq_Some_conv dest: receive_requests split: option.splits prod.splits)

interpretation serial_channels: interrupt_source snd "device_supply_clock_serial b n" for b n
  by unfold_locales
    (auto simp: device_supply_clock_serial_def bind_eq_Some_conv split: if_splits dest!: serial_requests intro: rtranclp_trans)

interpretation serial_source: interrupt_source dv_intc "supply_serial ev" for ev
  by unfold_locales (auto simp: supply_serial_def bind_eq_Some_conv dest: serial_channels.makes_requests)

section \<open>One clock of the machine\<close>

lemma for_each_dispatch:
  "for_each intc_raise_pending_intr cs s = Some s' \<Longrightarrow> set cs \<subseteq> {0..<2} \<Longrightarrow> intc_step\<^sup>*\<^sup>* s s'"
proof (induction cs arbitrary: s)
  case (Cons c cs)
  then obtain t where t: "intc_raise_pending_intr c s = Some t" "for_each intc_raise_pending_intr cs t = Some s'"
    by (auto simp: bind_eq_Some_conv)
  then have "intc_step s t" using Cons.prems(2) by (intro intc_step.clock [of c]) auto
  moreover have "intc_step\<^sup>*\<^sup>* t s'" using Cons.IH [OF t(2)] Cons.prems(2) by simp
  ultimately show ?case by (rule converse_rtranclp_into_rtranclp)
qed simp

text \<open>What the devices outside this repository may do to the controller: what its steps do.\<close>

definition steps_controller :: "('w device \<Rightarrow> 'w device option) \<Rightarrow> bool" where
  "steps_controller f \<longleftrightarrow> (\<forall>dv dv'. f dv = Some dv' \<longrightarrow> intc_step\<^sup>*\<^sup>* (dv_intc dv) (dv_intc dv'))"

definition env_ok :: "'w device_env \<Rightarrow> bool" where
  "env_ok ev \<longleftrightarrow> ev_core_num ev = CPU_CONFIG_CORE_NUM
     \<and> steps_controller (ev_init_can ev) \<and> (\<forall>v. steps_controller (ev_init_vdev ev v))
     \<and> steps_controller (if_built (ev_init_serial_fifo ev)) \<and> steps_controller (if_built (ev_init_exdev ev))
     \<and> (\<forall>v. steps_controller (ev_clock_vdev ev v))
     \<and> steps_controller (if_built (ev_clock_serial_fifo ev)) \<and> steps_controller (if_built (ev_clock_exdev ev))"

lemma steps_controllerD: "steps_controller f \<Longrightarrow> f dv = Some dv' \<Longrightarrow> intc_step\<^sup>*\<^sup>* (dv_intc dv) (dv_intc dv')"
  by (simp add: steps_controller_def)

lemma steps_controller_Some: "steps_controller Some"
  by (simp add: steps_controller_def)

lemma supply_intc_steps: "env_ok ev \<Longrightarrow> steps_controller (supply_intc ev)"
  by (auto simp: steps_controller_def env_ok_def supply_intc_def device_supply_clock_intc_def Let_def bind_eq_Some_conv
      small_consts intro!: for_each_dispatch)

text \<open>The clock is the composition of the devices' clocks.\<close>

lemma device_clockE:
  assumes "device_supply_clock ev dv = Some dv'"
  obtains d0 d1 d2 d3 d4 d5 where "dv_intc d0 = dv_intc dv" "dv_timers d0 = dv_timers dv" "clock (dv_clock d0) = clock (dv_clock dv)"
    "supply_timer ev d0 = Some d1"
    "(if DISABLE_SERIAL_CLOCK (ev_build ev) then Some d1 else supply_serial ev d1) = Some d2"
    "d3 = d2 \<or> \<not> DISABLE_DEVICE_VDEV (ev_build ev) \<and> dv_enable_vdev d2 = 1 \<and> (\<exists>v. ev_clock_vdev ev v d2 = Some d3)"
    "if_built (ev_clock_serial_fifo ev) d3 = Some d4" "if_built (ev_clock_exdev ev) d4 = Some d5"
    "supply_intc ev d5 = Some dv'"
proof -
  let ?d0 = "dv\<lparr>dv_clock := (dv_clock dv)\<lparr>min_intr_interval := ev_max_interval ev, can_skip_clock := True\<rparr>\<rparr>"
  obtain d1 where d1: "supply_timer ev ?d0 = Some d1" using assms unfolding device_supply_clock_def Let_def bind_eq_Some_conv by blast
  with assms obtain d2 where d2: "(if DISABLE_SERIAL_CLOCK (ev_build ev) then Some d1 else supply_serial ev d1) = Some d2"
    unfolding device_supply_clock_def Let_def by (auto simp: bind_eq_Some_conv simp del: if_split)
  obtain d3 d4 d5 where r: "(if DISABLE_DEVICE_VDEV (ev_build ev) then Some d2
      else if dv_enable_vdev d2 = 1 then dv_vdev_func d2 \<bind> (\<lambda>f. ev_clock_vdev ev f d2) else Some d2) = Some d3"
    "if_built (ev_clock_serial_fifo ev) d3 = Some d4" "if_built (ev_clock_exdev ev) d4 = Some d5" "supply_intc ev d5 = Some dv'"
    using assms d1 d2 unfolding device_supply_clock_def Let_def by (simp add: bind_eq_Some_conv del: if_split) blast
  from r(1) have "d3 = d2 \<or> \<not> DISABLE_DEVICE_VDEV (ev_build ev) \<and> dv_enable_vdev d2 = 1 \<and> (\<exists>v. ev_clock_vdev ev v d2 = Some d3)"
    by (auto simp: bind_eq_Some_conv split: if_splits)
  from that [OF _ _ _ d1 d2 this r(2-4)] show thesis by simp
qed

lemma device_clock_steps:
  assumes "env_ok ev"
  shows "steps_controller (device_supply_clock ev)"
  unfolding steps_controller_def
proof (intro allI impI)
  fix dv dv' assume "device_supply_clock ev dv = Some dv'"
  then show "intc_step\<^sup>*\<^sup>* (dv_intc dv) (dv_intc dv')"
  proof (cases rule: device_clockE)
    case (1 d0 d1 d2 d3 d4 d5)
    have "intc_step\<^sup>*\<^sup>* (dv_intc dv) (dv_intc d1)" using timer_source.refines_controller [OF 1(4)] 1(1) by simp
    also have "intc_step\<^sup>*\<^sup>* (dv_intc d1) (dv_intc d2)"
      using 1(5) by (auto dest: serial_source.refines_controller split: if_splits)
    also have "intc_step\<^sup>*\<^sup>* (dv_intc d2) (dv_intc d3)"
      using 1(6) assms by (auto simp: env_ok_def dest: steps_controllerD)
    also have "intc_step\<^sup>*\<^sup>* (dv_intc d3) (dv_intc d4)" using 1(7) assms by (auto simp: env_ok_def dest: steps_controllerD)
    also have "intc_step\<^sup>*\<^sup>* (dv_intc d4) (dv_intc d5)" using 1(8) assms by (auto simp: env_ok_def dest: steps_controllerD)
    also have "intc_step\<^sup>*\<^sup>* (dv_intc d5) (dv_intc dv')" by (rule steps_controllerD [OF supply_intc_steps [OF assms] 1(9)])
    finally show ?thesis .
  qed
qed

section \<open>The machine as a state machine\<close>

text \<open>A step is a clock, a step of the controller on behalf of the program (its registers, the
  return from an interrupt, the instructions themselves), a program's write to the registers of the
  timers and the serial interface, or a reset.\<close>

inductive device_step :: "'w device_env \<Rightarrow> 'w device \<Rightarrow> 'w device \<Rightarrow> bool" for ev where
  clock: "device_supply_clock ev dv = Some dv' \<Longrightarrow> device_step ev dv dv'"
| controller: "intc_step (dv_intc dv) s \<Longrightarrow> device_step ev dv (dv\<lparr>dv_intc := s\<rparr>)"
| registers: "device_step ev dv (dv\<lparr>dv_timers := T, dv_serial := st, dv_ph0 := rg, dv_clock := c\<rparr>)"
| reset: "device_reset ev dv = Some dv' \<Longrightarrow> device_step ev dv dv'"

lemma init_common_ok:
  assumes "env_ok ev" and "device_init_common ev dv = Some dv'" and "\<And>c. c < 2 \<Longrightarrow> core_id (ic_cores (dv_intc dv) c) = of_nat c"
  shows "intc_ok (dv_intc dv')"
proof -
  obtain s where "device_init_intc 2 (dv_intc dv) = Some s" "dv_intc dv' = s"
    using assms(1,2) by (auto simp: device_init_common_def env_ok_def small_consts Let_def bind_eq_Some_conv)
  then show ?thesis using device_init_ok assms(3) by blast
qed

lemma device_step_ok: "device_step ev dv dv' \<Longrightarrow> env_ok ev \<Longrightarrow> intc_ok (dv_intc dv) \<Longrightarrow> intc_ok (dv_intc dv')"
proof (induction rule: device_step.induct)
  case (clock dv dv')
  then show ?case using steps_ok steps_controllerD [OF device_clock_steps] by blast
next
  case (reset dv dv')
  then show ?case using init_common_ok [of ev _ dv'] by (auto simp: device_reset_def intc_ok_def)
qed (auto dest: step_ok)

lemma device_steps_ok: "(device_step ev)\<^sup>*\<^sup>* dv dv' \<Longrightarrow> env_ok ev \<Longrightarrow> intc_ok (dv_intc dv) \<Longrightarrow> intc_ok (dv_intc dv')"
  by (induction rule: rtranclp_induct) (auto intro: device_step_ok)

lemma device_init_start:
  assumes "env_ok ev" and "device_init ev dv = Some dv'" and "\<And>c. c < 2 \<Longrightarrow> core_id (ic_cores (dv_intc dv) c) = of_nat c"
  shows "intc_ok (dv_intc dv')"
proof -
  let ?dv = "dv\<lparr>dv_clock := (dv_clock dv)\<lparr>clock := 0, intclock := 0, min_intr_interval := ev_max_interval ev, can_skip_clock := False\<rparr>\<rparr>"
  obtain d1 d2 d3 d4 where r: "device_init_common ev ?dv = Some d1"
    "d2 = d1 \<or> ev_init_can ev d1 = Some d2" "dv_intc d3 = dv_intc d2 \<or> (\<exists>v d. dv_intc d = dv_intc d2 \<and> ev_init_vdev ev v d = Some d3)"
    "if_built (ev_init_serial_fifo ev) d3 = Some d4" "if_built (ev_init_exdev ev) d4 = Some dv'"
  proof -
    obtain d1 where d1: "device_init_common ev ?dv = Some d1" using assms(2) unfolding device_init_def Let_def bind_eq_Some_conv by blast
    then obtain d2 where d2: "(if DISABLE_CAN (ev_build ev) then Some d1
           else if devcfg_value (ev_cfg ev) ''DEBUG_FUNC_ENABLE_MROS'' 0 \<noteq> 0 then ev_init_can ev d1 else Some d1) = Some d2"
      using assms(2) unfolding device_init_def Let_def by (simp add: bind_eq_Some_conv del: if_split) blast
    let ?e = "devcfg_value (ev_cfg ev) ''DEBUG_FUNC_ENABLE_VDEV'' (dv_enable_vdev d2)"
    let ?d = "d2\<lparr>dv_enable_vdev := ?e\<rparr>"
    obtain d3 d4 where e: "(if DISABLE_DEVICE_VDEV (ev_build ev) then Some d2
           else if dv_enable_vdev ?d \<noteq> 0
                then ev_init_vdev ev (vdev_op_type (ev_cfg ev)) (?d\<lparr>dv_vdev_func := Some (vdev_op_type (ev_cfg ev))\<rparr>)
                else Some ?d) = Some d3"
      "if_built (ev_init_serial_fifo ev) d3 = Some d4" "if_built (ev_init_exdev ev) d4 = Some dv'"
      using assms(2) d1 d2 unfolding device_init_def Let_def by (simp add: bind_eq_Some_conv del: if_split) blast
    from e(1) have "dv_intc d3 = dv_intc d2 \<or> (\<exists>v d. dv_intc d = dv_intc d2 \<and> ev_init_vdev ev v d = Some d3)"
      by (auto split: if_splits)
    moreover from d2 have "d2 = d1 \<or> ev_init_can ev d1 = Some d2" by (auto split: if_splits)
    ultimately show thesis using that d1 e(2,3) by blast
  qed
  have "intc_ok (dv_intc d1)" using init_common_ok [OF assms(1) r(1)] assms(3) by simp
  moreover have "intc_step\<^sup>*\<^sup>* (dv_intc d1) (dv_intc d2)" using r(2) assms(1) by (auto simp: env_ok_def dest: steps_controllerD)
  moreover have "intc_step\<^sup>*\<^sup>* (dv_intc d2) (dv_intc d3)"
    using r(3) assms(1) steps_controllerD [of "ev_init_vdev ev _"] by (fastforce simp: env_ok_def)
  moreover have "intc_step\<^sup>*\<^sup>* (dv_intc d3) (dv_intc d4)" "intc_step\<^sup>*\<^sup>* (dv_intc d4) (dv_intc dv')"
    using r(4,5) assms(1) by (auto simp: env_ok_def dest: steps_controllerD)
  ultimately show ?thesis by (blast intro: steps_ok)
qed

text \<open>\<open>cpu_init\<close> numbers the cores, as the controller expects of them.\<close>

lemma private_cpu_reset_core_id [simp]: "core_id (private_cpu_reset cpu) = core_id cpu"
  by (simp add: private_cpu_reset_def private_cpu_mpu_init_def private_cpu_mpu_construct_containers_def Let_def)

lemma cpu_init_core_ids:
  assumes "cpu_init CPU_CONFIG_CORE_NUM s = Some s'"
  shows "\<forall>c < 2. core_id (ic_cores s' c) = of_nat c"
proof -
  have c: "c = 0 \<or> c = 1" if "c < (2::nat)" for c using that by linarith
  have "[0..<CPU_CONFIG_CORE_NUM] = [0, 1]" by (simp add: small_consts upt_rec)
  then show ?thesis
    using assms by (auto simp: cpu_init_def cpu_reset_def set_core_def bind_eq_Some_conv dest: c)
qed

text \<open>The interrupt controller inside the whole machine. From \<open>cpu_init\<close> and \<open>device_init\<close> on, through clocks of
  all devices in the code's order, the program's accesses to the controller and to the registers of
  the devices, and resets, in any order, the bookkeeping of each core stays consistent (the promise
  of the controller alone, C5): the devices only make requests to it. The devices outside this
  repository are assumed to do what the controller's own steps do.\<close>

theorem device_keeps_controller:
  assumes "env_ok ev" and "cpu_init CPU_CONFIG_CORE_NUM s = Some (dv_intc dv)"
    and "device_init ev dv = Some dv0" and "(device_step ev)\<^sup>*\<^sup>* dv0 dv'" and "c < 2"
  shows "let w = ic_work (dv_intc dv') c in waiting_int_num w = of_nat (card (waiting_set w))
    \<and> set (in_service w) \<subseteq> waiting_set w \<and> length (in_service w) \<le> 9
    \<and> sorted_wrt (\<lambda>i j. pri_key w j < pri_key w i) (in_service w)"
proof -
  have "intc_ok (dv_intc dv')"
    using device_init_start [OF assms(1,3)] cpu_init_core_ids [OF assms(2)] device_steps_ok [OF assms(4,1)] by blast
  then have w: "work_ok (ic_work (dv_intc dv') c)" using assms(5) by (rule intc_okD(1))
  then show ?thesis
    by (auto simp: Let_def work_ok_def slots_ok_def service_ok_def in_service_def small_consts nat_le_iff)
qed

section \<open>From the expiry of a timer to its handler\<close>

lemma do_update_expires:
  assumes "device_timer_do_update n dev ch (T, s) = Some (T', s')"
    and "t_mode (T ch) = TIMER_MODE_INTERVAL" "t_state (T ch) = TIMER_STATE_RUNNING"
    and "ucast ((clock dev - t_start_clock (T ch)) div ucast (t_fd (T ch))) = t_compare0 (T ch)"
    and "c < n"
  shows "unat (ucast (t_compare0_intno (T ch)) :: u16) \<in> waiting_set (ic_work s' c) \<and> \<not> is_halt (ic_cores s' c)
    \<and> t_state (T' ch) = TIMER_STATE_READY"
proof -
  have "device_raise_int n (ucast (t_compare0_intno (T ch))) s = Some s' \<and> t_state (T' ch) = TIMER_STATE_READY"
    using assms(1-4) by (auto simp: device_timer_do_update_def timer_start_def Let_def bind_eq_Some_conv)
  with raise_int_reaches [OF _ assms(5)] show ?thesis by blast
qed

lemma timers_expire:
  assumes "for_each (INLINE_device_supply_clock_timer b n) xs (dev, T, s) = Some (dev', T', s')" and "ch \<in> set xs"
    and "t_mode (T ch) = TIMER_MODE_INTERVAL" "t_state (T ch) = TIMER_STATE_RUNNING" and "clock dev mod ucast (t_fd (T ch)) = 0"
    and "ucast ((clock dev - t_start_clock (T ch)) div ucast (t_fd (T ch))) = t_compare0 (T ch)" and "c < n"
  shows "unat (ucast (t_compare0_intno (T ch)) :: u16) \<in> waiting_set (ic_work s' c) \<and> \<not> is_halt (ic_cores s' c)"
  using assms(1-6)
proof (induction xs arbitrary: dev T s)
  case (Cons x xs)
  then obtain d T1 s1 where i: "INLINE_device_supply_clock_timer b n x (dev, T, s) = Some (d, T1, s1)"
    "for_each (INLINE_device_supply_clock_timer b n) xs (d, T1, s1) = Some (dev', T', s')"
    by (auto simp: bind_eq_Some_conv)
  have "requests (snd (snd (d, T1, s1))) (snd (snd (dev', T', s')))"
    by (rule for_each_source [where intc = "\<lambda>x. snd (snd x)", OF timer_inline_requests i(2)])
  then have more: "only_adds s1 s'" by (auto dest: requests_adds)
  show ?case
  proof (cases "x = ch")
    case True
    have "device_timer_do_update n dev ch (T, s) = Some (T1, s1)"
      using i(1) Cons.prems(5) True by (auto simp: INLINE_device_supply_clock_timer_def bind_eq_Some_conv)
    from do_update_expires [OF this Cons.prems(3,4,6) assms(7)] more show ?thesis by (auto simp: only_adds_def)
  next
    case False
    then have "T1 ch = T ch" "clock d = clock dev" using inline_frame(3,4) [OF i(1)] by auto
    with Cons.IH [OF i(2)] Cons.prems False show ?thesis by simp
  qed
qed simp

text \<open>The dispatch, when a waiting interrupt may interrupt and nothing refuses it.\<close>

lemma dispatch_enters:
  assumes "intc_raise_pending_intr 0 s = Some t" and "intc_ok s" and "\<not> intwdt2_hasreq (ic_nmi s)" "nmi_reqnum (ic_nmi s) \<le> 0"
    and "\<not> refuses (ic_cores s 0)" and "may_interrupt 0 s i" and "i \<in> waiting_set (ic_work s 0)"
  shows "let w = ic_work t 0 in i \<in> waiting_set w
    \<and> (\<exists>j \<in> waiting_set w. current_intno w = int j \<and> pri_key w j \<le> pri_key w i \<and> entered 0 j s t)"
proof -
  have z: "(0 :: nat) < 2" by simp
  from z assms(2) show ?thesis
  proof (cases rule: dispatch_cases)
    case (nmi s')
    with assms(3,4) show ?thesis by simp
  next
    case none
    with assms(6) show ?thesis by blast
  next
    case (refused j)
    with assms(5) show ?thesis by simp
  next
    case (overflow j)
    with assms(1) show ?thesis by simp
  next
    case (raised j s')
    then have e: "entered 0 j s t" using assms(1) by simp
    have w: "waiting_set (accept j w) = waiting_set w" "pri_key (accept j w) = pri_key w" for w
      by (auto simp: waiting_set_def is_idle_def pri_key_def accept_slots)
    have "current_intno (accept j w) = int j" for w by (simp add: accept_def Let_def)
    then show ?thesis
      using e w assms(6,7) raised(3) by (auto simp: Let_def entered_def most_urgent_def may_interrupt_def)
  qed
qed


section \<open>A machine\<close>

definition sample_env :: "build \<Rightarrow> nat \<Rightarrow> unit device_env" where
  "sample_env b n = \<lparr>ev_build = b, ev_cfg = \<lparr>cfg_value = (\<lambda>_. None), cfg_string = (\<lambda>_. None)\<rparr>, ev_core_num = n,
     ev_max_interval = 99,
     ev_ph0_ops = \<lparr>ro_get_data8 = (\<lambda>_ _ s. Some (0, 0, s)), ro_get_data16 = (\<lambda>_ _ s. Some (0, 0, s)),
       ro_get_data32 = (\<lambda>_ _ s. Some (0, 0, s)),
       ro_put_data8 = (\<lambda>_ addr v s. map_option (Pair 0) (rg_put8 (unat (addr AND 0xFFF)) v s)),
       ro_put_data16 = (\<lambda>_ _ _ s. Some (0, s)), ro_put_data32 = (\<lambda>_ _ _ s. Some (0, s))\<rparr>,
     ev_serial_op = \<lparr>op_putchar = (\<lambda>_ _ w. Some (True, w)), op_getchar = (\<lambda>_ w. Some (None, w)), op_flush = None\<rparr>,
     ev_serial_file_op = \<lparr>op_putchar = (\<lambda>_ _ w. Some (True, w)), op_getchar = (\<lambda>_ w. Some (None, w)), op_flush = None\<rparr>,
     ev_init_can = Some, ev_init_vdev = (\<lambda>_. Some), ev_init_serial_fifo = None, ev_init_exdev = None,
     ev_clock_vdev = (\<lambda>_. Some), ev_clock_serial_fifo = None, ev_clock_exdev = None\<rparr>"

definition sample_build :: build where
  "sample_build = \<lparr>MINIMUM_DEVICE_CONFIG = True, CPUEMU_CLOCK_BUG_FIX = True, DISABLE_SERIAL_CLOCK = True,
     DISABLE_CAN = True, DISABLE_DEVICE_VDEV = True\<rparr>"

definition sample_device :: "unit device" where
  "sample_device = \<lparr>dv_clock = \<lparr>clock = 20, intclock = 0, min_intr_interval = 0, can_skip_clock = False, dev_is_halt = False\<rparr>,
     dv_ph0 = \<lparr>rg_start = 0, rg_size = 0x1000, rg_mask = 0x3FFFFFF, rg_data = (\<lambda>_. 0)\<rparr>,
     dv_timers = (\<lambda>ch. if ch = 2 then sample_timer\<lparr>t_state := TIMER_STATE_RUNNING, t_start_clock := 10\<rparr>
                       else sample_timer\<lparr>t_state := TIMER_STATE_STOP\<rparr>),
     dv_serial = \<lparr>sr_dev = (\<lambda>_. \<lparr>last_raised_counter = 0, sd_id = 0, sd_intno = -1, flush_count = 0, flush_count_max = 100,
         is_send_data = False, sd_ops = None, sd_start_clock = 0\<rparr>),
       sr_region = \<lparr>rg_start = 0, rg_size = 0, rg_mask = 0, rg_data = (\<lambda>_. 0)\<rparr>, sr_world = ()\<rparr>,
     dv_intc = sample_intc, dv_enable_vdev = 0, dv_vdev_func = None\<rparr>"

lemma sample_env_ok: "env_ok (sample_env b 2)"
  by (simp add: env_ok_def sample_env_def steps_controller_def if_built_def small_consts)

lemma sample_cpu_init: "\<exists>s. cpu_init CPU_CONFIG_CORE_NUM sample_intc = Some s"
  by (simp add: cpu_init_def cpu_reset_def check_def small_consts upt_rec)

lemma sample_device_init:
  assumes "device_init_intc 2 s1 = Some s0"
  shows "\<exists>dv. device_init (sample_env sample_build 2) (sample_device\<lparr>dv_intc := s1\<rparr>) = Some dv \<and> dv_intc dv = s0"
  using assms by (simp add: device_init_def device_init_common_def device_init_clock_def device_io_write8_def sample_env_def
      sample_build_def sample_device_def if_built_def device_register_serial_ops_def device_ex_serial_register_ops_def
      check_def UDnChannelNum_def Let_def rg_put8_def)

lemma device_keeps_controller_witness:
  "\<exists>s1 dv0 s. cpu_init CPU_CONFIG_CORE_NUM sample_intc = Some s1
     \<and> device_init (sample_env sample_build 2) (sample_device\<lparr>dv_intc := s1\<rparr>) = Some dv0 \<and> common_raise_intr 7 0 (dv_intc dv0) = Some s
     \<and> waiting_int_num (ic_work s 0) = of_nat (card (waiting_set (ic_work s 0)))"
proof -
  obtain s1 where s1: "cpu_init CPU_CONFIG_CORE_NUM sample_intc = Some s1" using sample_cpu_init by blast
  obtain s0 where s0: "device_init_intc 2 s1 = Some s0" using device_init_total by blast
  then obtain dv0 where dv0: "device_init (sample_env sample_build 2) (sample_device\<lparr>dv_intc := s1\<rparr>) = Some dv0" "dv_intc dv0 = s0"
    using sample_device_init by blast
  obtain s where s: "common_raise_intr 7 0 s0 = Some s" using request_result [of 0 7 s0] by auto
  then have "intc_step (dv_intc dv0) s" using dv0(2) by (intro intc_step.request [of 0 7]) (simp_all add: INTC_NUM_def)
  then have "(device_step (sample_env sample_build 2))\<^sup>*\<^sup>* dv0 (dv0\<lparr>dv_intc := s\<rparr>)" by (blast intro: device_step.controller)
  from device_keeps_controller [OF sample_env_ok _ dv0(1) this, of sample_intc 0] s1 s dv0 show ?thesis
    by (simp add: Let_def)
qed


section \<open>The window onto the registers\<close>

lemma window_pointer:
  assumes "i < 32"
  shows "get_cpu_register_addr core (CPU_CONFIG_DEBUG_REGISTER_ADDR + 4 * of_nat i) = Some (CoreReg i)"
    and "CPU_CONFIG_DEBUG_REGISTER_ADDR + 4 * of_nat i \<notin> {CPU_CONFIG_ADDR_PEID, CPU_CONFIG_ADDR_MIR_0, CPU_CONFIG_ADDR_MIR_1}"
proof -
  have u: "unat (4 * of_nat i :: u32) = 4 * i" using assms by (simp add: unat_word_ariths unat_of_nat take_bit_nat_eq_self)
  have "unat (4 * of_nat i div 4 :: u32) = i" by (simp only: unat_div u) simp
  then have d: "(4 * of_nat i div 4 :: u32) = of_nat i" by (metis of_nat_unat ucast_id)
  have le: "(of_nat i :: u32) \<le> 31" using assms by (simp add: word_le_nat_alt unat_of_nat take_bit_nat_eq_self)
  show "get_cpu_register_addr core (CPU_CONFIG_DEBUG_REGISTER_ADDR + 4 * of_nat i) = Some (CoreReg i)"
    using assms le by (simp add: get_cpu_register_addr_def Let_def d unat_of_nat take_bit_nat_eq_self)
  have "CPU_CONFIG_DEBUG_REGISTER_ADDR + 4 * of_nat i \<noteq> a" if "124 < unat (a - CPU_CONFIG_DEBUG_REGISTER_ADDR)" for a
    using that u assms by auto
  then show "CPU_CONFIG_DEBUG_REGISTER_ADDR + 4 * of_nat i \<notin> {CPU_CONFIG_ADDR_PEID, CPU_CONFIG_ADDR_MIR_0, CPU_CONFIG_ADDR_MIR_1}"
    by (simp add: window_consts)
qed

text \<open>The debug window onto the general registers reads what it writes. A word written at the address
  of register \<open>i\<close>, 4 bytes apart from 0x06FF0000, is stored in register \<open>i\<close> of the current core and
  in nothing else, and reading the address gives it back. The address 0x06FF0600 that the header
  documents for the first register is refused.\<close>

theorem window_registers:
  assumes "i < 32" and "addr = CPU_CONFIG_DEBUG_REGISTER_ADDR + 4 * of_nat i"
  shows "\<exists>w'. cpu_put_data32 cur cid addr v w = Some (STD_E_OK, w') \<and> cpu_get_data32 cur cid' addr d w' = Some (STD_E_OK, v, w')
    \<and> fst w' = fst w \<and> ic_cores (snd w') = (ic_cores (snd w))(cur := (ic_cores (snd w) cur)\<lparr>reg := set_r i v (reg (ic_cores (snd w) cur))\<rparr>)
    \<and> cpu_get_data32 cur cid' CPU_CONFIG_DEBUG_REGADDR_R0 d w = Some (STD_E_SEGV, d, w)"
proof -
  obtain rg s where w: "w = (rg, s)" by (cases w)
  have r0: "get_cpu_register_addr core CPU_CONFIG_DEBUG_REGADDR_R0 = None" for core
    by (simp add: get_cpu_register_addr_def window_consts)
  show ?thesis
    using window_pointer [OF assms(1)] unfolding assms(2) w
    by (simp add: cpu_put_data32_def cpu_get_data32_def ptr_write_def ptr_read_def set_core_def r0)
qed

lemma window_registers_witness:
  "\<exists>w'. cpu_put_data32 0 0 0x06FF0014 7 (rg, sample_intc) = Some (STD_E_OK, w') \<and> cpu_get_data32 0 0 0x06FF0014 0 w' = Some (STD_E_OK, 7, w')"
  using window_registers [where i = 5 and addr = "0x06FF0014" and cur = 0 and cid = 0 and v = 7 and w = "(rg, sample_intc)" and cid' = 0 and d = 0]
  by (auto simp: CPU_CONFIG_DEBUG_REGISTER_ADDR_def)

end
