(* ===== verification/V850_Interrupt_Correct.thy ===== *)
theory V850_Interrupt_Correct
  imports V850_Device_Correct
begin

unbundle bit_operations_syntax

text \<open>
  The life of an interrupt across the controller (\<open>V850_Intc\<close>), the processor (\<open>V850_Exec_Spec\<close>) and
  the devices: entered by the clock, a handler that runs with interrupts disabled, the write to
  an interrupt control register by which the handler ends the service, and EIRET.
\<close>

section \<open>The handler\<close>

text \<open>What happens while core \<open>c\<close> is in the handler: devices and cores make requests, the clock
  offers pending interrupts to the cores, and the cores run, the handler keeping EIPC, EIPSW and
  the disabling of interrupts.\<close>

inductive handler_step :: "nat \<Rightarrow> intc_state \<Rightarrow> intc_state \<Rightarrow> bool" for c where
  request: "common_raise_intr i k s = Some s' \<Longrightarrow> handler_step c s s'"
| clock: "k < 2 \<Longrightarrow> intc_raise_pending_intr k s = Some s' \<Longrightarrow> handler_step c s s'"
| run: "\<forall>k. core_id (cores k) = core_id (ic_cores s k) \<Longrightarrow>
    sys_get_cpu_base (reg (cores c)) SYS_REG_EIPC = sys_get_cpu_base (reg (ic_cores s c)) SYS_REG_EIPC \<Longrightarrow>
    sys_get_cpu_base (reg (cores c)) SYS_REG_EIPSW = sys_get_cpu_base (reg (ic_cores s c)) SYS_REG_EIPSW \<Longrightarrow>
    bit (psw (reg (cores c))) 5 \<Longrightarrow> handler_step c s (s\<lparr>ic_cores := cores\<rparr>)"

text \<open>What stays the same.\<close>

definition same_service :: "nat \<Rightarrow> intc_state \<Rightarrow> intc_state \<Rightarrow> bool" where
  "same_service c s s' \<longleftrightarrow> intc_ok s' \<and> ic_nmi s' = ic_nmi s \<and> bit (psw (reg (ic_cores s' c))) 5
     \<and> in_service (ic_work s' c) = in_service (ic_work s c) \<and> current_intno (ic_work s' c) = current_intno (ic_work s c)
     \<and> waiting_set (ic_work s c) \<subseteq> waiting_set (ic_work s' c)
     \<and> sys_get_cpu_base (reg (ic_cores s' c)) SYS_REG_EIPC = sys_get_cpu_base (reg (ic_cores s c)) SYS_REG_EIPC
     \<and> sys_get_cpu_base (reg (ic_cores s' c)) SYS_REG_EIPSW = sys_get_cpu_base (reg (ic_cores s c)) SYS_REG_EIPSW"

lemma same_service_trans: "same_service c s t \<Longrightarrow> same_service c t u \<Longrightarrow> same_service c s u"
  by (auto simp: same_service_def)

lemma request_service:
  assumes "common_raise_intr i k s = Some s'" and "intc_ok s" and "bit (psw (reg (ic_cores s c))) 5"
  shows "same_service c s s'"
proof -
  have b: "k < 2" "i < 117" using request_bounds [OF assms(1)] by auto
  have "intc_step s s'" using assms(1) b by (intro intc_step.request [of k i]) (simp_all add: INTC_NUM_def)
  then have "intc_ok s'" using step_ok assms(2) by blast
  moreover have "only_adds s s'" using request_adds [OF assms(1)] by simp
  moreover have "in_service (ic_work s' c) = in_service (ic_work s c)"
    using assms(1) by (auto simp: request_eq [OF b] Let_def set_wait_service)
  ultimately show ?thesis using assms(3) by (simp add: same_service_def only_adds_def)
qed

lemma clock_service:
  assumes "k < 2" and "c < 2" and "intc_raise_pending_intr k s = Some s'" and "intc_ok s" and "bit (psw (reg (ic_cores s c))) 5"
    and "\<not> intwdt2_hasreq (ic_nmi s)" "nmi_reqnum (ic_nmi s) \<le> 0"
  shows "same_service c s s'"
proof -
  have ok: "intc_ok s'" using dispatch_ok [OF assms(4,1,3)] .
  from assms(1,4) show ?thesis
  proof (cases rule: dispatch_cases)
    case (raised i t)
    then have "k \<noteq> c" using assms(5) by (auto simp: refuses_def)
    with raised assms ok show ?thesis by (auto simp: entered_def same_service_def)
  qed (use assms ok in \<open>auto simp: same_service_def\<close>)
qed

lemma handler_step_service:
  assumes "handler_step c s s'" and "c < 2" and "intc_ok s" and "bit (psw (reg (ic_cores s c))) 5"
    and "\<not> intwdt2_hasreq (ic_nmi s)" "nmi_reqnum (ic_nmi s) \<le> 0"
  shows "same_service c s s'"
  using assms(1)
proof cases
  case (request i k)
  then show ?thesis using request_service assms(3,4) by blast
next
  case (clock k)
  then show ?thesis using clock_service assms(2-6) by blast
next
  case (run cores)
  have "intc_ok s'" using step_ok [OF intc_step.program [OF run(2)] assms(3)] run(1) by simp
  then show ?thesis using run by (simp add: same_service_def)
qed

lemma handler_service:
  assumes "(handler_step c)\<^sup>*\<^sup>* s s'" and "c < 2" and "intc_ok s" and "bit (psw (reg (ic_cores s c))) 5"
    and "\<not> intwdt2_hasreq (ic_nmi s)" "nmi_reqnum (ic_nmi s) \<le> 0"
  shows "same_service c s s'"
  using assms(1)
proof (induction rule: rtranclp_induct)
  case base
  then show ?case using assms by (simp add: same_service_def)
next
  case (step t u)
  have "same_service c t u"
    by (rule handler_step_service [OF step(2) assms(2)]) (use step.IH assms(5,6) in \<open>auto simp: same_service_def\<close>)
  with step.IH show ?case by (rule same_service_trans)
qed

section \<open>The end of the service\<close>

lemma end_of_service:
  assumes "c < 2" and "intc_ok s" and "get_imrno addr < 0" and "0 \<le> get_xxICn addr"
    and "current_intno (ic_work s c) \<noteq> -1" and "intc_put_data8 c addr v s = Some s'"
  shows "ic_cores s' = ic_cores s \<and> ic_work s' = (ic_work s)(c := finish_intr (ic_work s c))"
proof -
  from assms(6,3,4) obtain t where t: "intc_clr_currlvl_ispr c s = Some t" "wr8 (intc_get_pointer c addr) v t = Some s'"
    by (auto simp: intc_put_data8_def intc_hook_update_reg8_def Let_def bind_eq_Some_conv)
  have "ic_cores t = ic_cores s \<and> ic_work t = (ic_work s)(c := finish_intr (ic_work s c))"
    using end_result [OF assms(1), of s] intc_okD(1) [OF assms(2,1)] t(1) assms(5) by auto
  moreover have "same_but_data t s'" using wr8_keeps [OF t(2)] .
  ultimately show ?thesis by (simp add: same_but_data_def)
qed

lemma accept_service_last: "in_service (accept i w) = in_service w @ [i]" if "work_ok w"
  using that by (auto simp: in_service_def accept_def Let_def work_ok_def service_ok_def nat_add_distrib)

text \<open>C12: An interrupt comes back to what it interrupted. Let the clock enter the handler of an
  interrupt on a core. However requests, clocks and the other core's interrupts then take turns
  with the handler, as long as that keeps EIPC and EIPSW and interrupts stay disabled: when it
  has written an interrupt control register, EIRET continues the interrupted program with its
  PSW, the services of the core are those of before, innermost last, and of the interrupts that
  are waiting then exactly this one has gone.\<close>

theorem interrupt_returns:
  assumes "intc_ok s" and "c < 2" and "\<not> intwdt2_hasreq (ic_nmi s)" "nmi_reqnum (ic_nmi s) \<le> 0"
    and "intc_raise_pending_intr c s = Some s1" and "current_intno (ic_work s1 c) \<noteq> current_intno (ic_work s c)"
    and "(handler_step c)\<^sup>*\<^sup>* s1 s2"
    and "intc_put_data8 c addr v s2 = Some s3" and "get_imrno addr < 0" "0 \<le> get_xxICn addr"
  shows "\<exists>cpu'. op_exec_eiret_10 (ic_cores s3 c) = Some (0, cpu')
    \<and> reg_pc (reg cpu') = reg_pc (reg (ic_cores s c)) \<and> psw (reg cpu') = psw (reg (ic_cores s c))
    \<and> in_service (ic_work s3 c) = in_service (ic_work s c)
    \<and> waiting_set (ic_work s3 c) = waiting_set (ic_work s2 c) - {nat (current_intno (ic_work s1 c))}"
proof -
  have "\<exists>i. most_urgent c s i \<and> entered c i s s1"
    using assms(2,1) by (cases rule: dispatch_cases) (use assms(3-6) in auto)
  then obtain i where i: "most_urgent c s i" "entered c i s s1" by blast
  have ok1: "intc_ok s1" using dispatch_ok [OF assms(1,2,5)] .
  have w: "work_ok (ic_work s c)" using intc_okD(1) [OF assms(1,2)] .
  note e = i(2) [unfolded entered_def]
  have d: "bit (psw (reg (ic_cores s1 c))) 5" using e by simp
  have cur: "current_intno (ic_work s1 c) = int i" using e by (simp add: accept_def Let_def)
  have sv: "same_service c s1 s2"
    using e by (intro handler_service [OF assms(7,2) ok1 d]) (use assms(3,4) in auto)
  then have s2: "intc_ok s2" "current_intno (ic_work s2 c) \<noteq> -1" using cur by (auto simp: same_service_def)
  note end_s = end_of_service [OF assms(2) s2(1) assms(9,10) s2(2) assms(8)]
  have w2: "work_ok (ic_work s2 c)" using intc_okD(1) [OF s2(1) assms(2)] .
  have "in_service (ic_work s3 c) = butlast (in_service (ic_work s c) @ [i])"
    using end_s finish_service [OF _ s2(2)] w2 sv e accept_service_last [OF w, of i] by (simp add: work_ok_def same_service_def)
  moreover have "waiting_set (ic_work s3 c) = waiting_set (ic_work s2 c) - {nat (current_intno (ic_work s1 c))}"
    using end_s finish_ok(2) [OF w2 s2(2)] sv by (simp add: same_service_def)
  ultimately show ?thesis using end_s sv e by (simp add: eiret_result ret_def same_service_def)
qed

lemma interrupt_returns_witness:
  "\<exists>s1 s2 s3 cpu'. intc_raise_pending_intr 0 sample_intc_7 = Some s1 \<and> common_raise_intr 9 0 s1 = Some s2
     \<and> intc_put_data8 0 0x03FFF11E 7 s2 = Some s3 \<and> op_exec_eiret_10 (ic_cores s3 0) = Some (0, cpu')
     \<and> reg_pc (reg cpu') = reg_pc (reg (ic_cores sample_intc_7 0)) \<and> 7 \<notin> waiting_set (ic_work s3 0)"
proof -
  note urgent = sample_intc_7_urgent
  have "\<exists>s1. intc_raise_pending_intr 0 sample_intc_7 = Some s1 \<and> entered 0 7 sample_intc_7 s1"
    using zero_less_numeral sample_intc_ok(2) by (cases rule: dispatch_cases) (use urgent in \<open>auto simp: most_urgent_def\<close>)
  then obtain s1 where s1: "intc_raise_pending_intr 0 sample_intc_7 = Some s1" "entered 0 7 sample_intc_7 s1" by blast
  have cur: "current_intno (ic_work s1 0) = 7" "current_intno (ic_work sample_intc_7 0) = -1"
    using s1(2) by (simp_all add: entered_def accept_def Let_def sample_intc_7_def sample_intc_def init_work_def set_wait_service)
  obtain s2 where s2: "common_raise_intr 9 0 s1 = Some s2" using request_result [of 0 9 s1] by auto
  then have h: "(handler_step 0)\<^sup>*\<^sup>* s1 s2" by (blast intro: handler_step.request)
  have "intc_ok s1" using dispatch_ok [OF sample_intc_ok(2) _ s1(1)] by simp
  moreover have "intc_step s1 s2" using s2 by (intro intc_step.request [of 0 9]) (simp_all add: INTC_NUM_def)
  ultimately have "intc_ok s2" using step_ok by blast
  then obtain s3 where s3: "intc_put_data8 0 0x03FFF11E 7 s2 = Some s3"
    using end_result [of 0 s2] intc_okD(1) [of s2 0]
    by (auto simp: intc_put_data8_def intc_hook_update_reg8_def get_imrno_def get_xxICn_def Let_def INTC_REG_xxICnStr_def
        INTC_REG_xxICnEnd_def MPU_ADDRESS_REGION_MASK_PH_def wr8_def check_def intc_get_pointer_def intc_region_start_def data_in_def intc_consts)
  have a: "get_imrno 0x03FFF11E < 0" "0 \<le> get_xxICn 0x03FFF11E"
    by (simp_all add: get_imrno_def get_xxICn_def INTC_REG_xxICnStr_def INTC_REG_xxICnEnd_def MPU_ADDRESS_REGION_MASK_PH_def)
  from interrupt_returns [OF sample_intc_ok(2) _ urgent(3,4) s1(1) _ h s3 a] cur s1(1) s2 s3 show ?thesis by auto
qed

end
