(* ===== verification/V850_System.thy ===== *)
theory V850_System
  imports V850_Access V850_Interrupt_Correct
begin

unbundle bit_operations_syntax

text \<open>
  The processor cores, the devices and the bus together. The main loop of the Athrill core, which
  is not in this repository, lets the cores and the devices take turns: a core executes one
  instruction (\<open>cpu_supply_clock\<close>), or the devices get one clock (\<open>device_supply_clock\<close>) or a reset.
  No order of turns is assumed. The promise of the interrupt controller then holds of the whole
  system, because every instruction is a sequence of accesses (\<open>V850_Access\<close>) and every access
  through the bus is a step of the devices.
\<close>

section \<open>The bus and the devices\<close>

text \<open>The world of a core that runs is the devices and the memory. \<open>whole k\<close> is the devices with what
  the machine holds for core \<open>k\<close> put back.\<close>

definition whole :: "nat \<Rightarrow> ('s device \<times> 'r) machine \<Rightarrow> 's device" where
  "whole k m = (let dv = fst (m_world m); s = dv_intc dv in
     dv\<lparr>dv_intc := s\<lparr>ic_cores := (ic_cores s)(k := m_core m), ic_nmi := m_nmi m\<rparr>\<rparr>)"

text \<open>What is assumed of the bus, a function of the Athrill core: it finds the device of an address
  and calls the device's operation, so that an access does to the devices what their steps do.\<close>

definition bus_ok :: "'s device_env \<Rightarrow> nat \<Rightarrow> ('s device \<times> 'r) bus \<Rightarrow> bool" where
  "bus_ok ev k bus \<longleftrightarrow> (\<forall>m a. unat (core_id (m_core m)) = k \<longrightarrow> (let c = core_id (m_core m); steps = (\<lambda>m'. (device_step ev)\<^sup>*\<^sup>* (whole k m) (whole k m')) in
     steps (snd (snd (bus_get_data8 bus c a m))) \<and> steps (snd (snd (bus_get_data16 bus c a m)))
     \<and> steps (snd (snd (bus_get_data32 bus c a m))) \<and> steps (snd (snd (bus_get_pointer bus c a m)))
     \<and> (\<forall>v. steps (snd (bus_put_data8 bus c a v m))) \<and> (\<forall>v. steps (snd (bus_put_data16 bus c a v m)))
     \<and> (\<forall>v. steps (snd (bus_put_data32 bus c a v m))) \<and> (\<forall>p v. steps (host_put32 bus p v m))))"

lemma bus_okD:
  assumes "bus_ok ev k bus" and "unat (core_id (m_core m)) = k"
  shows "bus_get_data8 bus (core_id (m_core m)) a m = (e, v8, m') \<Longrightarrow> (device_step ev)\<^sup>*\<^sup>* (whole k m) (whole k m')"
    "bus_get_data16 bus (core_id (m_core m)) a m = (e, v16, m') \<Longrightarrow> (device_step ev)\<^sup>*\<^sup>* (whole k m) (whole k m')"
    "bus_get_data32 bus (core_id (m_core m)) a m = (e, v32, m') \<Longrightarrow> (device_step ev)\<^sup>*\<^sup>* (whole k m) (whole k m')"
    "bus_get_pointer bus (core_id (m_core m)) a m = (e, p, m') \<Longrightarrow> (device_step ev)\<^sup>*\<^sup>* (whole k m) (whole k m')"
    "bus_put_data8 bus (core_id (m_core m)) a v8 m = (e, m') \<Longrightarrow> (device_step ev)\<^sup>*\<^sup>* (whole k m) (whole k m')"
    "bus_put_data16 bus (core_id (m_core m)) a v16 m = (e, m') \<Longrightarrow> (device_step ev)\<^sup>*\<^sup>* (whole k m) (whole k m')"
    "bus_put_data32 bus (core_id (m_core m)) a v32 m = (e, m') \<Longrightarrow> (device_step ev)\<^sup>*\<^sup>* (whole k m) (whole k m')"
    "(device_step ev)\<^sup>*\<^sup>* (whole k m) (whole k (host_put32 bus p v32 m))"
proof -
  let ?c = "core_id (m_core m)" and ?S = "\<lambda>m'. (device_step ev)\<^sup>*\<^sup>* (whole k m) (whole k m')"
  have all: "?S (snd (snd (bus_get_data8 bus ?c a m)))" "?S (snd (snd (bus_get_data16 bus ?c a m)))"
    "?S (snd (snd (bus_get_data32 bus ?c a m)))" "?S (snd (snd (bus_get_pointer bus ?c a m)))"
    "?S (snd (bus_put_data8 bus ?c a v8 m))" "?S (snd (bus_put_data16 bus ?c a v16 m))"
    "?S (snd (bus_put_data32 bus ?c a v32 m))" "?S (host_put32 bus p v32 m)"
    using assms unfolding bus_ok_def Let_def by blast+
  show "bus_get_data8 bus ?c a m = (e, v8, m') \<Longrightarrow> ?S m'" using all(1) by simp
  show "bus_get_data16 bus ?c a m = (e, v16, m') \<Longrightarrow> ?S m'" using all(2) by simp
  show "bus_get_data32 bus ?c a m = (e, v32, m') \<Longrightarrow> ?S m'" using all(3) by simp
  show "bus_get_pointer bus ?c a m = (e, p, m') \<Longrightarrow> ?S m'" using all(4) by simp
  show "bus_put_data8 bus ?c a v8 m = (e, m') \<Longrightarrow> ?S m'" using all(5) by simp
  show "bus_put_data16 bus ?c a v16 m = (e, m') \<Longrightarrow> ?S m'" using all(6) by simp
  show "bus_put_data32 bus ?c a v32 m = (e, m') \<Longrightarrow> ?S m'" using all(7) by simp
  show "?S (host_put32 bus p v32 m)" by (rule all(8))
qed

lemma whole_core:
  assumes "core_id cpu = core_id (m_core m)"
  shows "device_step ev (whole k m) (whole k (m\<lparr>m_core := cpu\<rparr>))"
proof -
  let ?s = "dv_intc (whole k m)"
  have "intc_step ?s (?s\<lparr>ic_cores := (ic_cores ?s)(k := cpu)\<rparr>)"
    by (rule intc_step.program) (simp add: whole_def Let_def assms)
  then have "device_step ev (whole k m) ((whole k m)\<lparr>dv_intc := ?s\<lparr>ic_cores := (ic_cores ?s)(k := cpu)\<rparr>\<rparr>)"
    by (rule device_step.controller)
  moreover have "?s\<lparr>ic_cores := (ic_cores ?s)(k := cpu)\<rparr> = dv_intc (whole k (m\<lparr>m_core := cpu\<rparr>))"
    by (rule intc_state.equality) (simp_all add: whole_def Let_def)
  moreover have "(whole k m)\<lparr>dv_intc := dv_intc (whole k (m\<lparr>m_core := cpu\<rparr>))\<rparr> = whole k (m\<lparr>m_core := cpu\<rparr>)"
    by (simp add: whole_def Let_def)
  ultimately show ?thesis by simp
qed

lemma whole_nmi: "device_step ev (whole k m) (whole k (intc_clr_nmi m))"
proof (cases "intwdt2_hasreq (m_nmi m)")
  case True
  then show ?thesis by (simp add: intc_clr_nmi_def whole_core)
next
  case False
  let ?s = "dv_intc (whole k m)"
  have "device_step ev (whole k m) ((whole k m)\<lparr>dv_intc := ?s\<lparr>ic_nmi := m_nmi (intc_clr_nmi m)\<rparr>\<rparr>)"
    by (rule device_step.controller [OF intc_step.nmi])
  with False show ?thesis by (simp add: whole_def Let_def intc_clr_nmi_def)
qed

text \<open>An access is a number of steps of the devices, and the core keeps its number through it.\<close>

lemma whole_id: "k < 2 \<Longrightarrow> intc_ok (dv_intc (whole k m)) \<Longrightarrow> unat (core_id (m_core m)) = k"
  using intc_okD(2) [of "dv_intc (whole k m)" k] by (simp add: whole_def Let_def)

lemma access_steps:
  assumes "access bus m m'" and "bus_ok ev k bus" and "env_ok ev" and "k < 2" and "intc_ok (dv_intc (whole k m))"
  shows "(device_step ev)\<^sup>*\<^sup>* (whole k m) (whole k m')"
  using assms(1)
proof cases
  case (store a p m1 v)
  have steps: "(device_step ev)\<^sup>*\<^sup>* (whole k m) (whole k m1)"
    by (rule bus_okD(4) [OF assms(2) whole_id [OF assms(4,5)] store(2)])
  then have "unat (core_id (m_core m1)) = k" using device_steps_ok [OF _ assms(3,5)] whole_id [OF assms(4)] by blast
  then show ?thesis unfolding store(1) by (rule rtranclp_trans [OF steps bus_okD(8) [OF assms(2)]])
qed (use bus_okD [OF assms(2) whole_id [OF assms(4,5)]] whole_core [of _ m ev k] whole_nmi [of ev k m] in \<open>auto intro: r_into_rtranclp\<close>)

lemma accesses_steps:
  assumes "accesses bus m m'" and "bus_ok ev k bus" and "env_ok ev" and "k < 2" and "intc_ok (dv_intc (whole k m))"
  shows "(device_step ev)\<^sup>*\<^sup>* (whole k m) (whole k m')"
  using assms(1)
proof (induction rule: rtranclp_induct)
  case (step m1 m2)
  have "intc_ok (dv_intc (whole k m1))" by (rule device_steps_ok [OF step.IH assms(3,5)])
  with step assms(2-4) show ?case by (blast intro: rtranclp_trans access_steps)
qed simp

section \<open>The system\<close>

record ('s, 'r) system =
  sy_device :: "'s device"
  sy_memory :: 'r
  sy_elaps :: "nat \<Rightarrow> u64"
  sy_static_decoded :: OpDecodedCodeType
  sy_cached_codes :: "nat \<Rightarrow> u32 \<Rightarrow> ('s device \<times> 'r) CachedCode"

text \<open>The system as core \<open>k\<close> sees it while it runs, and the system when it has run.\<close>

definition core_view :: "nat \<Rightarrow> ('s, 'r) system \<Rightarrow> ('s device \<times> 'r) vcpu" where
  "core_view k s =
     \<lparr>v_machine = \<lparr>m_core = ic_cores (dv_intc (sy_device s)) k, m_nmi = ic_nmi (dv_intc (sy_device s)),
        m_world = (sy_device s, sy_memory s)\<rparr>,
      v_elaps = sy_elaps s k, static_decoded = sy_static_decoded s, cached_codes = sy_cached_codes s\<rparr>"

definition put_view :: "nat \<Rightarrow> ('s device \<times> 'r) vcpu \<Rightarrow> ('s, 'r) system \<Rightarrow> ('s, 'r) system" where
  "put_view k v s =
     \<lparr>sy_device = whole k (v_machine v), sy_memory = snd (m_world (v_machine v)), sy_elaps = (sy_elaps s)(k := v_elaps v),
      sy_static_decoded = static_decoded v, sy_cached_codes = cached_codes v\<rparr>"

inductive system_step ::
  "'s device_env \<Rightarrow> object_container \<Rightarrow> ('s device \<times> 'r) bus \<Rightarrow> fp_host \<Rightarrow> (u32 \<Rightarrow> (nat \<times> u32) option)
   \<Rightarrow> ('s, 'r) system \<Rightarrow> ('s, 'r) system \<Rightarrow> bool" for ev oc bus h gcc where
  turn: "k < 2 \<Longrightarrow> cpu_supply_clock oc bus h gcc (core_view k s) = Some (e, v) \<Longrightarrow>
    system_step ev oc bus h gcc s (put_view k v s)"
| clock: "device_supply_clock ev (sy_device s) = Some dv \<Longrightarrow> system_step ev oc bus h gcc s (s\<lparr>sy_device := dv\<rparr>)"
| reset: "device_reset ev (sy_device s) = Some dv \<Longrightarrow> system_step ev oc bus h gcc s (s\<lparr>sy_device := dv\<rparr>)"

definition cache_ok :: "object_container \<Rightarrow> ('s device \<times> 'r) bus \<Rightarrow> fp_host \<Rightarrow> ('s, 'r) system \<Rightarrow> bool" where
  "cache_ok oc bus h s \<longleftrightarrow> vcpu_ok oc bus h (core_view 0 s)"

lemma cache_ok_view: "cache_ok oc bus h s \<longleftrightarrow> vcpu_ok oc bus h (core_view k s)"
  by (simp add: cache_ok_def core_view_def vcpu_ok_def)

lemma whole_core_view [simp]: "whole k (v_machine (core_view k s)) = sy_device s"
  by (simp add: whole_def core_view_def Let_def)

text \<open>A turn of a core is a sequence of steps of the devices, as a clock and a reset are.\<close>

lemma system_step_device:
  assumes "system_step ev oc bus h gcc s s'" and "cache_ok oc bus h s" and "\<forall>k < 2. bus_ok ev k bus"
    and "env_ok ev" and "intc_ok (dv_intc (sy_device s))"
  shows "(device_step ev)\<^sup>*\<^sup>* (sy_device s) (sy_device s') \<and> cache_ok oc bus h s'"
  using assms(1)
proof cases
  case (turn k e v)
  have v: "vcpu_ok oc bus h (core_view k s)" using assms(2) by (simp add: cache_ok_view [of _ _ _ _ k])
  have "(device_step ev)\<^sup>*\<^sup>* (whole k (v_machine (core_view k s))) (whole k (v_machine v))"
    by (rule accesses_steps [OF supply_clock_accesses(1) [OF v turn(3)]]) (use assms(3-5) turn(2) in simp_all)
  moreover have "cache_ok oc bus h s'"
    using supply_clock_accesses(2) [OF v turn(3)] turn(1) by (simp add: cache_ok_def put_view_def core_view_def vcpu_ok_def)
  ultimately show ?thesis using turn(1) by (simp add: put_view_def)
next
  case (clock dv)
  then show ?thesis using assms(2) by (auto simp: cache_ok_def core_view_def vcpu_ok_def intro: device_step.clock)
next
  case (reset dv)
  then show ?thesis using assms(2) by (auto simp: cache_ok_def core_view_def vcpu_ok_def intro: device_step.reset)
qed

lemma system_steps_device:
  assumes "(system_step ev oc bus h gcc)\<^sup>*\<^sup>* s s'" and "cache_ok oc bus h s" and "\<forall>k < 2. bus_ok ev k bus"
    and "env_ok ev" and "intc_ok (dv_intc (sy_device s))"
  shows "(device_step ev)\<^sup>*\<^sup>* (sy_device s) (sy_device s') \<and> cache_ok oc bus h s'"
  using assms(1)
proof (induction rule: rtranclp_induct)
  case (step s1 s2)
  then have "intc_ok (dv_intc (sy_device s1))" using device_steps_ok assms(4,5) by blast
  with step system_step_device [OF step.hyps(2) _ assms(3,4)] show ?case by (blast intro: rtranclp_trans)
qed (simp add: assms(2))

text \<open>C9: The whole emulated system keeps the promise of the interrupt controller. Start the cores with
  \<open>cpu_init\<close>, the devices with \<open>device_init\<close> and an empty cache, and let instructions of either core,
  clocks of the devices and resets follow in any order, for any program in memory: at every
  moment the waiting interrupts of each core are counted correctly, the services in progress are
  waiting interrupts, at most nine and nested by priority, and no core has lost its number. The bus
  and the devices outside this repository are assumed to act on the devices as their steps do.\<close>

theorem system_keeps_controller:
  assumes "env_ok ev" and "\<forall>k < 2. bus_ok ev k bus"
    and "cpu_init CPU_CONFIG_CORE_NUM i0 = Some (dv_intc dv)" and "device_init ev dv = Some (sy_device s0)"
    and "cache_ok oc bus h s0" and "(system_step ev oc bus h gcc)\<^sup>*\<^sup>* s0 s" and "c < 2"
  shows "let w = ic_work (dv_intc (sy_device s)) c in waiting_int_num w = of_nat (card (waiting_set w))
    \<and> set (in_service w) \<subseteq> waiting_set w \<and> length (in_service w) \<le> 9
    \<and> sorted_wrt (\<lambda>i j. pri_key w j < pri_key w i) (in_service w)
    \<and> unat (core_id (ic_cores (dv_intc (sy_device s)) c)) = c"
proof -
  have "intc_ok (dv_intc (sy_device s0))"
    using device_init_start [OF assms(1,4)] cpu_init_core_ids [OF assms(3)] by blast
  then have ok: "intc_ok (dv_intc (sy_device s))"
    using system_steps_device [OF assms(6,5,2,1)] device_steps_ok assms(1) by blast
  have w: "work_ok (ic_work (dv_intc (sy_device s)) c)" using ok assms(7) by (rule intc_okD(1))
  have "unat (core_id (ic_cores (dv_intc (sy_device s)) c)) = c"
    using ok assms(7) by (rule intc_okD(2))
  with w show ?thesis
    by (auto simp: Let_def work_ok_def slots_ok_def service_ok_def in_service_def small_consts nat_le_iff)
qed

section \<open>A system\<close>

text \<open>A bus with the interrupt controller at its addresses and memory everywhere else.\<close>

definition put_back :: "nat \<Rightarrow> intc_state \<Rightarrow> ('s device \<times> 'r) machine \<Rightarrow> ('s device \<times> 'r) machine" where
  "put_back k s m = m\<lparr>m_core := ic_cores s k, m_nmi := ic_nmi s, m_world := ((fst (m_world m))\<lparr>dv_intc := s\<rparr>, snd (m_world m))\<rparr>"

definition with_ram :: "(ram \<Rightarrow> ram) \<Rightarrow> (unit device \<times> ram) machine \<Rightarrow> (unit device \<times> ram) machine" where
  "with_ram f m = m\<lparr>m_world := (fst (m_world m), f (snd (m_world m)))\<rparr>"

definition routed_bus :: "(unit device \<times> ram) bus" where
  "routed_bus = \<lparr>
     bus_get_data8 = (\<lambda>_ a m. (STD_E_OK, snd (m_world m) (unat a), m)),
     bus_get_data16 = (\<lambda>_ a m. (STD_E_OK, ram_get16 (snd (m_world m)) (unat a), m)),
     bus_get_data32 = (\<lambda>_ a m. (STD_E_OK, ram_get32 (snd (m_world m)) (unat a), m)),
     bus_put_data8 = (\<lambda>c a v m. if a - 0x03FFF100 < 0x100 then
         (case intc_put_data8 (unat c) a v (dv_intc (whole (unat c) m)) of None \<Rightarrow> (STD_E_SEGV, m)
          | Some s \<Rightarrow> (STD_E_OK, put_back (unat c) s m))
       else (STD_E_OK, with_ram (\<lambda>w. w(unat a := v)) m)),
     bus_put_data16 = (\<lambda>_ a v m. (STD_E_OK, with_ram (\<lambda>w. ram_put16 w (unat a) v) m)),
     bus_put_data32 = (\<lambda>_ a v m. (STD_E_OK, with_ram (\<lambda>w. ram_put32 w (unat a) v) m)),
     bus_get_pointer = (\<lambda>_ a m. (STD_E_OK, unat a, m)),
     host_get16 = (\<lambda>p m. ram_get16 (snd (m_world m)) p),
     host_get32 = (\<lambda>p m. ram_get32 (snd (m_world m)) p),
     host_put32 = (\<lambda>p v m. with_ram (\<lambda>w. ram_put32 w p v) m),
     cpu_may_store_on_stack_overflow = (\<lambda>_ _ _. False)\<rparr>"

lemma whole_with_ram [simp]: "whole k (with_ram f m) = whole k m"
  by (simp add: whole_def with_ram_def)

lemma whole_put_back: "whole k (put_back k s m) = (whole k m)\<lparr>dv_intc := s\<rparr>"
  by (simp add: whole_def put_back_def Let_def)

lemma routed_bus_ok: "k < 2 \<Longrightarrow> bus_ok ev k routed_bus"
  unfolding bus_ok_def Let_def routed_bus_def
  by (auto simp: whole_put_back split: option.split intro!: r_into_rtranclp device_step.controller intc_step.write8)

definition add_ram :: ram where
  "add_ram a = (if a = 0 then 0xC1 else if a = 1 then 0x11 else 0)"

definition empty_system :: "unit device \<Rightarrow> (unit, ram) system" where
  "empty_system dv = \<lparr>sy_device = dv, sy_memory = add_ram, sy_elaps = (\<lambda>_. 0), sy_static_decoded = blank_decoded,
     sy_cached_codes = (\<lambda>_ _. \<lparr>cc_code_id = 0, cc_decoded_code = blank_decoded, cc_op_exec = None\<rparr>)\<rparr>"

lemma empty_cache_ok: "cache_ok oc bus h (empty_system dv)"
  by (simp add: cache_ok_def core_view_def empty_system_def vcpu_ok_def slot_ok_def type_ok_def blank_decoded_def)

lemma mpu_setting_psw: "cpu_get_psw (set_mpu_setting i v s) = cpu_get_psw s"
  by (simp add: cpu_get_psw_def set_mpu_setting_def set_grp_def)

lemma mpu_settings_psw: "cpu_get_psw (fold (\<lambda>(i, v) s. set_mpu_setting i v s) xs s) = cpu_get_psw s"
  by (induction xs arbitrary: s) (auto simp: mpu_setting_psw)

lemma reset_core:
  "reg_pc (reg (private_cpu_reset cpu)) = 0" "is_halt (private_cpu_reset cpu) = False"
  "cpu_get_psw (reg_sys (reg (private_cpu_reset cpu))) = 0x20"
  by (simp_all add: private_cpu_reset_def private_cpu_mpu_init_def private_cpu_mpu_construct_containers_def Let_def
      mpu_settings_psw set_cpu_base_def, simp add: cpu_get_psw_def set_grp_def)

lemma table_add: "table_at (op_exec_table oc bus h) OpCodeId_ADD_1 = Some (1, Some (on_core op_exec_add_1))"
  by (simp add: table_at_def op_exec_table_def)

lemma permission_20:
  "cpu_get_psw (reg_sys (reg (v_core v))) = 0x20 \<Longrightarrow> clock_permission oc nbytes v = (True, v)"
  by (simp add: clock_permission_def cpu_has_permission_for_clock_supply_def IS_TRUSTED_def upd_core_def CPU_PSW_IMP_def Let_def)

lemma add_turn:
  assumes "is_halt (ic_cores (dv_intc dv) 0) = False" "reg_pc (reg (ic_cores (dv_intc dv) 0)) = 0"
    "cpu_get_psw (reg_sys (reg (ic_cores (dv_intc dv) 0))) = 0x20"
  shows "\<exists>v. cpu_supply_clock list_container routed_bus h (\<lambda>_. Some (0, 0)) (core_view 0 (empty_system dv)) = Some (STD_E_OK, v)"
  using assms
  by (simp add: sample_step_simps core_view_def empty_system_def, simp add: routed_bus_def after_fetch_def upd_core_def parse_sample ram_get16_def
  put_decoded_def get_decoded_def set_slot_def add_ram_def, simp add: type_id_1 permission_20 upd_core_def table_add run_exec_def on_core_def
  finish_def sample_operands set_slot_def,
      simp add: op_exec_add_1_def Let_def alu_state_simps ret_def sample_operands zero_r0_def upd_core_def)
lemma start_cores:
  assumes "cpu_init CPU_CONFIG_CORE_NUM s = Some s1" and "device_init_intc 2 s1 = Some s0"
  shows "\<exists>cpu. ic_cores s0 0 = private_cpu_reset cpu"
proof -
  have u: "[0..<2] = [0, 1 :: nat]" by (simp add: upt_rec)
  have "\<exists>cpu. ic_cores s1 0 = private_cpu_reset cpu"
    using assms(1) by (auto simp: cpu_init_def cpu_reset_def set_core_def bind_eq_Some_conv small_consts upt_rec)
  moreover have "ic_cores s0 = ic_cores s1"
    using assms(2) by (auto simp: device_init_intc_def u bind_eq_Some_conv dest!: init_core_frame)
  ultimately show ?thesis by simp
qed

lemma system_keeps_controller_witness:
  "\<forall>h. \<exists>s1 dv v. cpu_init CPU_CONFIG_CORE_NUM sample_intc = Some s1
     \<and> device_init (sample_env sample_build 2) (sample_device\<lparr>dv_intc := s1\<rparr>) = Some dv
     \<and> cpu_supply_clock list_container routed_bus h (\<lambda>_. Some (0, 0)) (core_view 0 (empty_system dv)) = Some (STD_E_OK, v)
     \<and> unat (core_id (ic_cores (dv_intc (sy_device (put_view 0 v (empty_system dv)))) 1)) = 1"
proof
  fix h
  obtain s1 where s1: "cpu_init CPU_CONFIG_CORE_NUM sample_intc = Some s1" using sample_cpu_init by blast
  obtain s0 where s0: "device_init_intc 2 s1 = Some s0" using device_init_total by blast
  then obtain dv where dv: "device_init (sample_env sample_build 2) (sample_device\<lparr>dv_intc := s1\<rparr>) = Some dv" "dv_intc dv = s0"
    using sample_device_init by blast
  obtain cpu where cpu: "ic_cores (dv_intc dv) 0 = private_cpu_reset cpu" using start_cores [OF s1 s0] dv(2) by blast
  obtain v where v: "cpu_supply_clock list_container routed_bus h (\<lambda>_. Some (0, 0)) (core_view 0 (empty_system dv)) = Some (STD_E_OK, v)"
    using add_turn [of dv h] reset_core cpu by auto
  let ?s = "put_view 0 v (empty_system dv)"
  have step: "(system_step (sample_env sample_build 2) list_container routed_bus h (\<lambda>_. Some (0, 0)))\<^sup>*\<^sup>* (empty_system dv) ?s"
    by (rule r_into_rtranclp, rule system_step.turn [OF _ v]) simp
  have start: "sy_device (empty_system dv) = dv" by (simp add: empty_system_def)
  have "unat (core_id (ic_cores (dv_intc (sy_device ?s)) 1)) = 1"
    using system_keeps_controller [OF sample_env_ok _ _ _ empty_cache_ok step, of sample_intc "sample_device\<lparr>dv_intc := s1\<rparr>" 1]
      s1 dv(1) start routed_bus_ok by (simp add: Let_def)
  with s1 dv(1) v show "\<exists>s1 dv v. cpu_init CPU_CONFIG_CORE_NUM sample_intc = Some s1
     \<and> device_init (sample_env sample_build 2) (sample_device\<lparr>dv_intc := s1\<rparr>) = Some dv
     \<and> cpu_supply_clock list_container routed_bus h (\<lambda>_. Some (0, 0)) (core_view 0 (empty_system dv)) = Some (STD_E_OK, v)
     \<and> unat (core_id (ic_cores (dv_intc (sy_device (put_view 0 v (empty_system dv)))) 1)) = 1" by blast
qed

end
