(* ===== verification/V850_Print.thy ===== *)
theory V850_Print
  imports V850_Window
begin

unbundle bit_operations_syntax

text \<open>
  The register printer of the debugger: \<open>src/debugger/executor/concrete_executor/dbg_target_cpu.c\<close>,
  \<open>debug_print_mpu_status\<close> of \<open>src/cpu/config/cpu_config.c\<close>, and the names of device registers at the
  end of \<open>src/cpu/cpu_common/cpu_ops.h\<close>. A function that prints is the text it prints. The symbol
  table and the elements of a container belong to the Athrill core: they are the argument
  \<open>print_env\<close>.
\<close>

section \<open>printf\<close>

definition digit_char :: "nat \<Rightarrow> char" where
  "digit_char d = (if d < 10 then char_of (48 + d) else char_of (87 + d))"

text \<open>The digits of a number in a base, the first one first.\<close>

fun digits :: "nat \<Rightarrow> nat \<Rightarrow> nat list" where
  "digits b n = (if b < 2 \<or> n < b then [n] else digits b (n div b) @ [n mod b])"

declare digits.simps [simp del]

definition printf_x :: "u32 \<Rightarrow> string" where
  "printf_x w = map digit_char (digits 16 (unat w))"

definition printf_08x :: "u32 \<Rightarrow> string" where
  "printf_08x w = replicate (8 - length (printf_x w)) (CHR ''0'') @ printf_x w"

definition printf_u :: "u32 \<Rightarrow> string" where
  "printf_u w = map digit_char (digits 10 (unat w))"

definition printf_d :: "u32 \<Rightarrow> string" where
  "printf_d w = (if 0 \<le> sint w then printf_u w else ''-'' @ printf_u (- w))"

definition printf_bool :: "bool \<Rightarrow> string" where
  "printf_bool b = printf_u (if b then 1 else 0)"

definition tab :: string where "tab = [CHR 0x09]"
definition newline :: string where "newline = [CHR 0x0A]"

section \<open>What is not in this repository\<close>

record print_env =
  symbol_pc2funcid :: "u32 \<Rightarrow> int \<times> u32"
  symbol_funcid2funcname :: "int \<Rightarrow> string"
  symbol_addr2glid :: "u32 \<Rightarrow> int \<times> u32"
  symbol_glid2glname :: "int \<Rightarrow> string"
  exec_element :: "TargetCoreMpuExecConfigType list \<Rightarrow> nat \<Rightarrow> TargetCoreMpuExecConfigType option"
  data_element :: "TargetCoreMpuDataConfigType list \<Rightarrow> nat \<Rightarrow> TargetCoreMpuDataConfigType option"

section \<open>Memory protection\<close>

definition print_mpu_register :: "string \<Rightarrow> u32 \<Rightarrow> string" where
  "print_mpu_register name v = name @ '' = 0x'' @ printf_08x v @ newline"

text \<open>The two bounds of a region, as \<open>IPA0L = 0x00000002 IPA0U = 0x00000000 mask_method = 0\<close>.\<close>

definition print_mpu_bounds :: "string \<Rightarrow> nat \<Rightarrow> u32 \<Rightarrow> u32 \<Rightarrow> TargetCoreMpuConfigType \<Rightarrow> string" where
  "print_mpu_bounds name i al au config =
     name @ printf_u (of_nat i) @ ''L = 0x'' @ printf_08x al @ '' '' @ name @ printf_u (of_nat i) @ ''U = 0x'' @ printf_08x au
     @ '' mask_method = '' @ printf_bool (mc_is_mask_method config) @ newline
     @ '' al = 0x'' @ printf_08x (mc_al config) @ '' au = 0x'' @ printf_08x (mc_au config) @ newline"

definition print_exec_config :: "print_env \<Rightarrow> TargetCoreType \<Rightarrow> nat \<Rightarrow> string option" where
  "print_exec_config pe cpu i =
     (let setting_sysreg = cpu_get_mpu_settign_sysreg (reg_sys (reg cpu))
      in do {
        obj \<leftarrow> exec_element pe (exec_configs (mpu cpu)) i;
        let al = setting_sysreg (SYS_REG_MPU_IPA0L + i * 2);
        let au = setting_sysreg (SYS_REG_MPU_IPA0U + i * 2);
        Some (if mc_enable_protection (xc_common obj) then
                print_mpu_bounds ''IPA'' i al au (xc_common obj)
                @ '' enable_read = '' @ printf_bool (xc_enable_read obj)
                @ '' enable_exec = '' @ printf_bool (xc_enable_exec obj) @ newline
              else [])
      })"

definition print_data_config :: "print_env \<Rightarrow> TargetCoreType \<Rightarrow> nat \<Rightarrow> string option" where
  "print_data_config pe cpu i =
     (let setting_sysreg = cpu_get_mpu_settign_sysreg (reg_sys (reg cpu))
      in do {
        obj \<leftarrow> data_element pe (data_configs (mpu cpu)) i;
        let al = setting_sysreg (SYS_REG_MPU_DPA0L + i * 2);
        let au = setting_sysreg (SYS_REG_MPU_DPA0U + i * 2);
        Some (if mc_enable_protection (dc_common obj) then
                print_mpu_bounds ''DPA'' i al au (dc_common obj)
                @ '' enable_read = '' @ printf_bool (dc_enable_read obj)
                @ '' enable_write = '' @ printf_bool (dc_enable_write obj) @ newline
              else [])
      })"

fun print_all :: "(nat \<Rightarrow> string option) \<Rightarrow> nat list \<Rightarrow> string option" where
  "print_all p [] = Some []"
| "print_all p (i # is) = do { x \<leftarrow> p i; xs \<leftarrow> print_all p is; Some (x @ xs) }"

definition debug_print_mpu_status :: "print_env \<Rightarrow> TargetCoreType \<Rightarrow> string option" where
  "debug_print_mpu_status pe cpu =
     (let factor_sysreg = cpu_get_mpu_illegal_factor_sysreg (reg_sys (reg cpu));
          setting_sysreg = cpu_get_mpu_settign_sysreg (reg_sys (reg cpu));
          head =
            print_mpu_register ''VSECR'' (factor_sysreg SYS_REG_MPV_VSECR)
            @ print_mpu_register ''VSTID'' (factor_sysreg SYS_REG_MPV_VSTID)
            @ print_mpu_register ''VSADR'' (factor_sysreg SYS_REG_MPV_VSADR)
            @ print_mpu_register ''VMECR'' (factor_sysreg SYS_REG_MPV_VMECR)
            @ print_mpu_register ''VMTID'' (factor_sysreg SYS_REG_MPV_VMTID)
            @ print_mpu_register ''VMADR'' (factor_sysreg SYS_REG_MPV_VMADR)
            @ print_mpu_register ''MPM'' (setting_sysreg SYS_REG_MPU_MPM)
            @ print_mpu_register ''MPC'' (setting_sysreg 1)
            @ print_mpu_register ''TID'' (setting_sysreg SYS_REG_MPU_TID)
      in do {
        exec \<leftarrow> print_all (print_exec_config pe cpu) [0..<TARGET_CORE_MPU_CONFIG_EXEC_MAXNUM];
        data \<leftarrow> print_all (print_data_config pe cpu) [0..<TARGET_CORE_MPU_CONFIG_DATA_MAXNUM];
        Some (head @ exec @ data)
      })"

definition cpu_debug_print_mpu_status :: "print_env \<Rightarrow> nat \<Rightarrow> intc_state \<Rightarrow> string option" where
  "cpu_debug_print_mpu_status pe cid s = do {
     check (cid < CPU_CONFIG_CORE_NUM);
     debug_print_mpu_status pe (ic_cores s cid)
   }"

section \<open>The registers of a core\<close>

definition print_register :: "print_env \<Rightarrow> string \<Rightarrow> u32 \<Rightarrow> string option \<Rightarrow> string" where
  "print_register pe regname addr opt =
     (let (funcid, funcaddr) = symbol_pc2funcid pe addr;
          (glid, gladdr) = symbol_addr2glid pe addr;
          value = regname @ tab @ tab @ ''0x'' @ printf_x addr;
          text =
            (if 0 \<le> funcid then
               value @ '' '' @ symbol_funcid2funcname pe funcid @ ''(+0x'' @ printf_x (addr - funcaddr) @ '')''
             else if 0 \<le> glid then
               value @ '' '' @ symbol_glid2glname pe glid @ ''(+0x'' @ printf_x (addr - gladdr) @ '')''
             else value)
      in text @ (case opt of Some opt \<Rightarrow> '' '' @ opt @ newline | None \<Rightarrow> newline))"

definition register_opt :: "nat \<Rightarrow> string option" where
  "register_opt i =
     (if i = 3 then Some ''Stack Pointer'' else if i = 10 then Some ''Return Value''
      else if i = 6 then Some ''Arg1'' else if i = 7 then Some ''Arg2''
      else if i = 8 then Some ''Arg3'' else if i = 9 then Some ''Arg4'' else None)"

definition print_general_register :: "print_env \<Rightarrow> TargetCoreType \<Rightarrow> nat \<Rightarrow> string" where
  "print_general_register pe cpu i =
     print_register pe (''R'' @ printf_d (of_nat i)) (reg_r (reg cpu) i) (register_opt i)"

definition print_value :: "string \<Rightarrow> u32 \<Rightarrow> string" where
  "print_value name v = name @ tab @ tab @ ''0x'' @ printf_x v @ newline"

definition print_core :: "print_env \<Rightarrow> TargetCoreType \<Rightarrow> string" where
  "print_core pe cpu =
     (let base = sys_get_cpu_base (reg cpu); sysreg = sys_sysreg (reg_sys (reg cpu)) in
      print_register pe ''PC'' (reg_pc (reg cpu)) None
      @ concat (map (print_general_register pe cpu) [0..<32])
      @ print_register pe ''EIPC'' (base SYS_REG_EIPC) None
      @ print_value ''EIPSW'' (base SYS_REG_EIPSW)
      @ print_value ''ECR'' (base SYS_REG_ECR)
      @ print_value ''PSW'' (base SYS_REG_PSW)
      @ print_value ''SCCFG'' (base SYS_REG_SCCFG)
      @ print_register pe ''SCBP'' (base SYS_REG_SCBP) None
      @ print_value ''EIIC'' (base SYS_REG_EIIC)
      @ print_value ''FEIC'' (base SYS_REG_FEIC)
      @ print_register pe ''FEPC'' (base SYS_REG_FEPC) None
      @ print_value ''FEPSW '' (base SYS_REG_FEPSW)
      @ print_value ''CTBP'' (base 20)
      @ print_value ''EIWR'' (sysreg 0)
      @ print_value ''FEWR'' (sysreg 1)
      @ print_value ''BSEL'' (sysreg CPU_SYSREG_BSEL))"

definition dbg_target_print_cpu :: "print_env \<Rightarrow> u32 \<Rightarrow> intc_state \<Rightarrow> string option" where
  "dbg_target_print_cpu pe coreId s = do {
     check (unat coreId < CPU_CONFIG_CORE_NUM);
     status \<leftarrow> cpu_debug_print_mpu_status pe (unat coreId) s;
     Some (''***CPU<'' @ printf_d coreId @ ''>***'' @ newline @ print_core pe (ic_cores s (unat coreId)) @ status)
   }"

section \<open>Names of device registers\<close>

definition addr2devregname :: "u32 \<Rightarrow> string" where
  "addr2devregname addr =
     (if addr = 0xFFFFF1FE then ''PSC''
      else if addr = 0xFFFFF308 then ''SELCNT0''
      else if addr = 0xFFFFF30A then ''SELCNT1''
      else if addr = 0xFFFFF30C then ''SELCNT2''
      else if addr = 0xFFFFF30E then ''SELCNT3''
      else if addr = 0xFFFFF3F8 then ''SELCNT4''
      else if addr = 0xFFFFF3FA then ''SELCNT5''
      else if addr = 0xFFFFF3F0 then ''SSCGCTL''
      else if addr = 0xFFFFF3F1 then ''SFC0''
      else if addr = 0xFFFFF3F2 then ''SFC1''
      else if addr = 0xFFFFF6C0 then ''OSTS''
      else if addr = 0xFFFFF6C1 then ''PLLS''
      else if addr = 0xFFFFF6C2 then ''OSTC''
      else if addr = 0xFFFFF80C then ''RCM''
      else if addr = 0xFFFFF820 then ''PSMR''
      else if addr = 0xFFFFF824 then ''LOCKR''
      else if addr = 0xFFFFF828 then ''PCC''
      else if addr = 0xFFFFF82C then ''PLLCTL''
      else if addr = 0xFFFFF82E then ''CCLS''
      else if addr = 0xFFFFF82F then ''PCLM''
      else if addr = 0xFFFFF860 then ''MCM''
      else if addr = 0xFFFFF870 then ''CLM''
      else if addr = 0xFFFFF8B0 then ''PRSM0''
      else if addr = 0xFFFFF8B1 then ''PRSCM0''
      else ''NULL'')"

section \<open>What is printed can be read\<close>

definition digit_value :: "char \<Rightarrow> nat" where
  "digit_value c = (if of_char c < (58 :: nat) then of_char c - 48 else of_char c - 87)"

definition number_value :: "nat \<Rightarrow> string \<Rightarrow> nat" where
  "number_value b cs = foldl (\<lambda>n c. b * n + digit_value c) 0 cs"

lemma digit_value_char [simp]: "d < 16 \<Longrightarrow> digit_value (digit_char d) = d"
  by (simp add: digit_value_def digit_char_def)

lemma number_value_digits: "2 \<le> b \<Longrightarrow> b \<le> 16 \<Longrightarrow> number_value b (map digit_char (digits b n)) = n"
proof (induction b n rule: digits.induct)
  case (1 b n)
  show ?case
  proof (cases "n < b")
    case True
    with 1 show ?thesis by (simp add: digits.simps [of b n] number_value_def)
  next
    case False
    with 1 have d: "digits b n = digits b (n div b) @ [n mod b]" by (simp add: digits.simps [of b n])
    have "n mod b < b" using 1 by simp
    then have "n mod b < 16" using 1 by linarith
    moreover have "number_value b (map digit_char (digits b (n div b))) = n div b" using 1 False by simp
    ultimately show ?thesis by (simp add: d number_value_def)
  qed
qed

text \<open>The text of a word, whatever its form, is its value again.\<close>

lemma printf_value:
  "number_value 16 (printf_x w) = unat w" "number_value 10 (printf_u w) = unat w"
  by (simp_all add: printf_x_def printf_u_def number_value_digits)

lemma printf_08x_value: "number_value 16 (printf_08x w) = unat w"
proof -
  have z: "digit_value (CHR ''0'') = 0" by (simp add: digit_value_def)
  have "foldl (\<lambda>n c. 16 * n + digit_value c) 0 (replicate k (CHR ''0'')) = 0" for k
    by (induction k) (simp_all add: z)
  then have "number_value 16 (replicate k (CHR ''0'') @ cs) = number_value 16 cs" for k cs
    by (simp add: number_value_def)
  then show ?thesis by (simp add: printf_08x_def printf_value)
qed

end
