(* ===== verification/V850_Serial_Correct.thy ===== *)
theory V850_Serial_Correct
  imports V850_Device_Correct
begin

unbundle bit_operations_syntax

text \<open>
  The serial interface (\<open>V850_Serial\<close>): the ring buffers of the host implement the interface
  \<open>bounded_queue\<close>, and reception and transmission are stated over the queues as lists.
\<close>

section \<open>The interface of a bounded queue\<close>

text \<open>A queue of at most \<open>capacity\<close> elements over a concrete state: \<open>put\<close> appends or refuses when
  the queue is full, \<open>get\<close> removes the oldest element.\<close>

locale bounded_queue =
  fixes contents :: "'q \<Rightarrow> 'b list" and ok :: "'q \<Rightarrow> bool" and capacity :: nat
    and put :: "'b \<Rightarrow> 'q \<Rightarrow> (Std_ReturnType \<times> 'q) option" and get :: "'q \<Rightarrow> ('b option \<times> 'q) option"
  assumes put_appends: "ok q \<Longrightarrow> length (contents q) < capacity \<Longrightarrow>
      \<exists>q'. put b q = Some (STD_E_OK, q') \<and> ok q' \<and> contents q' = contents q @ [b]"
    and put_refuses: "ok q \<Longrightarrow> capacity \<le> length (contents q) \<Longrightarrow> put b q = Some (STD_E_LIMIT, q)"
    and get_removes: "ok q \<Longrightarrow> contents q = b # bs \<Longrightarrow> \<exists>q'. get q = Some (Some b, q') \<and> ok q' \<and> contents q' = bs"
    and get_empty: "ok q \<Longrightarrow> contents q = [] \<Longrightarrow> get q = Some (None, q)"

text \<open>A history of calls, \<open>Some b\<close> for \<open>put b\<close> and \<open>None\<close> for \<open>get\<close>: the code's answers, and
  those of the list.\<close>

datatype 'b answer = Put Std_ReturnType | Got "'b option"

fun calls :: "('b \<Rightarrow> 'q \<Rightarrow> (Std_ReturnType \<times> 'q) option) \<Rightarrow> ('q \<Rightarrow> ('b option \<times> 'q) option)
    \<Rightarrow> 'b option list \<Rightarrow> 'q \<Rightarrow> ('b answer list \<times> 'q) option" where
  "calls put get [] q = Some ([], q)"
| "calls put get (Some b # xs) q = do { (r, q) \<leftarrow> put b q; (rs, q) \<leftarrow> calls put get xs q; Some (Put r # rs, q) }"
| "calls put get (None # xs) q = do { (r, q) \<leftarrow> get q; (rs, q) \<leftarrow> calls put get xs q; Some (Got r # rs, q) }"

fun list_calls :: "nat \<Rightarrow> 'b option list \<Rightarrow> 'b list \<Rightarrow> 'b answer list \<times> 'b list" where
  "list_calls cap [] l = ([], l)"
| "list_calls cap (Some b # xs) l =
    (if length l < cap then map_prod (\<lambda>rs. Put STD_E_OK # rs) id (list_calls cap xs (l @ [b]))
     else map_prod (\<lambda>rs. Put STD_E_LIMIT # rs) id (list_calls cap xs l))"
| "list_calls cap (None # xs) [] = map_prod (\<lambda>rs. Got None # rs) id (list_calls cap xs [])"
| "list_calls cap (None # xs) (b # l) = map_prod (\<lambda>rs. Got (Some b) # rs) id (list_calls cap xs l)"

context bounded_queue
begin

lemma calls_refine:
  assumes "ok q"
  shows "\<exists>q'. calls put get xs q = Some (fst (list_calls capacity xs (contents q)), q')
    \<and> ok q' \<and> contents q' = snd (list_calls capacity xs (contents q))"
  using assms
proof (induction xs arbitrary: q)
  case (Cons x xs)
  show ?case
  proof (cases x)
    case None
    show ?thesis
    proof (cases "contents q")
      case Nil
      with None Cons.IH [OF Cons.prems] get_empty [OF Cons.prems] show ?thesis by auto
    next
      case bs: (Cons b bs)
      from get_removes [OF Cons.prems bs] obtain q' where q': "get q = Some (Some b, q')" "ok q'" "contents q' = bs" by blast
      with None bs Cons.IH [OF q'(2)] show ?thesis by auto
    qed
  next
    case (Some b)
    show ?thesis
    proof (cases "length (contents q) < capacity")
      case True
      from put_appends [OF Cons.prems True] obtain q' where q': "put b q = Some (STD_E_OK, q')" "ok q'" "contents q' = contents q @ [b]" by blast
      with Some True Cons.IH [OF q'(2)] show ?thesis by auto
    next
      case False
      with Some Cons.IH [OF Cons.prems] put_refuses [OF Cons.prems] show ?thesis by auto
    qed
  qed
qed simp

lemma answers: "ok q \<Longrightarrow> map_option fst (calls put get xs q) = Some (fst (list_calls capacity xs (contents q)))"
  using calls_refine [of q xs] by auto

end

section \<open>The ring buffer of the host\<close>

definition fifo_contents :: "DbgSerialFifoType \<Rightarrow> u8 list" where
  "fifo_contents f = map (\<lambda>k. fifo_buffer f ((unat (fifo_read_off f) + k) mod 1024)) [0..<unat (fifo_count f)]"

definition fifo_ok :: "DbgSerialFifoType \<Rightarrow> bool" where
  "fifo_ok f \<longleftrightarrow> unat (fifo_count f) \<le> 1024 \<and> unat (fifo_read_off f) < 1024
     \<and> unat (fifo_write_off f) = (unat (fifo_read_off f) + unat (fifo_count f)) mod 1024"

lemma length_contents [simp]: "length (fifo_contents f) = unat (fifo_count f)"
  by (simp add: fifo_contents_def)

lemma unat_inc: "unat (x :: u32) < 2048 \<Longrightarrow> unat (x + 1) = Suc (unat x)"
  by (simp add: unat_word_ariths)

lemma unat_dec: "x \<noteq> (0 :: u32) \<Longrightarrow> unat (x - 1) = unat x - 1"
  by (simp add: unat_minus_one)

lemma mod_1024_eq: "k < m \<Longrightarrow> m \<le> 1024 \<Longrightarrow> (r + k) mod 1024 \<noteq> (r + m) mod (1024 :: nat) \<or> m = 1024 \<and> k = 0"
proof -
  assume "k < m" "m \<le> 1024"
  show ?thesis
  proof (rule ccontr)
    assume "\<not> ?thesis"
    then have e: "(r + k) mod 1024 = (r + m) mod 1024" "m \<noteq> 1024 \<or> k \<noteq> 0" by auto
    have "1024 dvd m - k" using mod_eq_dvd_iff_nat [of "r + k" "r + m" 1024] e(1) \<open>k < m\<close> by simp
    then have "1024 \<le> m - k" using \<open>k < m\<close> by (simp add: dvd_imp_le)
    with \<open>m \<le> 1024\<close> \<open>k < m\<close> e(2) show False by linarith
  qed
qed

lemma fifo_in_appends:
  assumes "fifo_ok f" and "unat (fifo_count f) < 1024"
  shows "\<exists>f'. fifo_in b f = Some (STD_E_OK, f') \<and> fifo_ok f' \<and> fifo_contents f' = fifo_contents f @ [b]"
proof -
  let ?w = "unat (fifo_write_off f)" and ?r = "unat (fifo_read_off f)" and ?c = "unat (fifo_count f)"
  have w: "?w < 1024" "?w = (?r + ?c) mod 1024" and r: "?r < 1024" using assms(1) by (auto simp: fifo_ok_def)
  define f' where "f' = f\<lparr>fifo_buffer := (fifo_buffer f)(?w := b), fifo_count := fifo_count f + 1,
    fifo_write_off := if 1024 \<le> Suc ?w then 0 else fifo_write_off f + 1\<rparr>"
  have "fifo_in b f = Some (STD_E_OK, f')"
    using assms(2) w by (simp add: fifo_in_def DBG_SERIAL_BUFFER_SIZE_def check_def Let_def f'_def unat_inc)
  moreover have "unat (fifo_write_off f') = (?r + Suc ?c) mod 1024"
    using w by (auto simp: f'_def unat_inc mod_Suc)
  then have "fifo_ok f'" using assms r by (simp add: fifo_ok_def f'_def unat_inc)
  moreover have "fifo_contents f' = fifo_contents f @ [b]"
  proof -
    have "(?r + k) mod 1024 \<noteq> ?w" if "k < ?c" for k
      using mod_1024_eq [OF that, of ?r] assms(2) w(2) by simp
    then show ?thesis using assms(2) w(2) by (simp add: fifo_contents_def f'_def unat_inc)
  qed
  ultimately show ?thesis by blast
qed

lemma fifo_getchar_removes:
  assumes "fifo_ok f" and "fifo_contents f = b # bs"
  shows "\<exists>f'. fifo_getchar f = Some (Some b, f') \<and> fifo_ok f' \<and> fifo_contents f' = bs"
proof -
  let ?r = "unat (fifo_read_off f)" and ?c = "unat (fifo_count f)"
  have r: "?r < 1024" "?c \<le> 1024" using assms(1) by (auto simp: fifo_ok_def)
  have c: "0 < ?c" using assms(2) by (metis length_contents length_greater_0_conv list.distinct(1))
  then have nz: "fifo_count f \<noteq> 0" by auto
  have split: "[0..<?c] = 0 # map Suc [0..<?c - 1]" using c by (simp add: map_Suc_upt upt_conv_Cons)
  define f' where "f' = f\<lparr>fifo_count := fifo_count f - 1, fifo_read_off := if 1024 \<le> Suc ?r then 0 else fifo_read_off f + 1\<rparr>"
  have r': "unat (fifo_read_off f') = Suc ?r mod 1024"
    using r by (auto simp: f'_def unat_inc mod_Suc)
  have b: "b = fifo_buffer f ?r" "bs = map (\<lambda>k. fifo_buffer f ((?r + Suc k) mod 1024)) [0..<?c - 1]"
    using assms(2) r by (simp_all add: fifo_contents_def split comp_def)
  have "fifo_getchar f = Some (Some b, f')"
    using nz r b by (simp add: fifo_getchar_def DBG_SERIAL_BUFFER_SIZE_def check_def Let_def f'_def unat_inc)
  moreover have "fifo_ok f'"
  proof -
    obtain n where n: "?c = Suc n" using c by (cases ?c) auto
    have "(Suc ?r mod 1024 + n) mod 1024 = (?r + ?c) mod 1024" by (simp add: n mod_add_left_eq)
    with assms(1) r' n show ?thesis by (simp add: fifo_ok_def f'_def unat_dec [OF nz])
  qed
  moreover have "fifo_contents f' = bs"
    unfolding fifo_contents_def r' b by (simp add: f'_def unat_dec [OF nz] mod_add_left_eq)
  ultimately show ?thesis by blast
qed

lemma fifo_limits:
  "fifo_ok f \<Longrightarrow> 1024 \<le> unat (fifo_count f) \<Longrightarrow> fifo_in b f = Some (STD_E_LIMIT, f)"
  "fifo_contents f = [] \<Longrightarrow> fifo_getchar f = Some (None, f)"
  by (auto simp: fifo_in_def fifo_getchar_def DBG_SERIAL_BUFFER_SIZE_def fifo_contents_def unat_eq_zero)

interpretation fifo: bounded_queue fifo_contents fifo_ok 1024 fifo_in fifo_getchar
  by unfold_locales (simp_all add: fifo_in_appends fifo_limits fifo_getchar_removes)

text \<open>Channel \<open>ch\<close> of the host.\<close>

abbreviation channel_contents :: "u8 \<Rightarrow> dbg_serial \<Rightarrow> u8 list" where
  "channel_contents ch w \<equiv> fifo_contents (dbg_serial_fifo w (unat ch))"

definition channel_ok :: "u8 \<Rightarrow> dbg_serial \<Rightarrow> bool" where
  "channel_ok ch w \<longleftrightarrow> unat ch < DBG_SERIAL_CHANNEL_NUM \<and> fifo_ok (dbg_serial_fifo w (unat ch))"

interpretation host: bounded_queue "channel_contents ch" "channel_ok ch" 1024 "dbg_serial_in ch" "dbg_serial_getchar ch" for ch
proof (unfold_locales, goal_cases)
  case (1 w b)
  with fifo.put_appends [of "dbg_serial_fifo w (unat ch)" b] show ?case
    by (auto simp: channel_ok_def dbg_serial_in_def)
next
  case (2 w b)
  with fifo.put_refuses [of "dbg_serial_fifo w (unat ch)" b] show ?case
    by (auto simp: channel_ok_def dbg_serial_in_def)
next
  case (3 w b bs)
  with fifo.get_removes [of "dbg_serial_fifo w (unat ch)" b bs] show ?case
    by (auto simp: channel_ok_def dbg_serial_getchar_def)
next
  case (4 w)
  with fifo.get_empty [of "dbg_serial_fifo w (unat ch)"] show ?case
    by (auto simp: channel_ok_def dbg_serial_getchar_def)
qed

section \<open>The registers of the serial interface\<close>

text \<open>The region of the address map, and the identities that \<open>device_init_serial\<close> sets.\<close>

definition serial_ok :: "'w serial_state \<Rightarrow> bool" where
  "serial_ok st \<longleftrightarrow> rg_start (sr_region st) = 0x03FFFA00 \<and> rg_size (sr_region st) = MPU_ADDRESS_REGION_SIZE_INX_SERIAL
     \<and> rg_mask (sr_region st) = MPU_ADDRESS_REGION_MASK_PH \<and> (\<forall>ch < 8. sd_id (sr_dev st ch) = of_nat ch)"

abbreviation str_reg :: "'w serial_state \<Rightarrow> nat \<Rightarrow> u8" where
  "str_reg st ch \<equiv> rg_data (sr_region st) (4 + 16 * ch)"

abbreviation rx_reg :: "'w serial_state \<Rightarrow> nat \<Rightarrow> u8" where
  "rx_reg st ch \<equiv> rg_data (sr_region st) (6 + 16 * ch)"

text \<open>\<open>put_byte p v\<close> stores into the region only.\<close>

definition put_byte :: "nat \<Rightarrow> u8 \<Rightarrow> 'w serial_state \<Rightarrow> 'w serial_state" where
  "put_byte p v st = st\<lparr>sr_region := (sr_region st)\<lparr>rg_data := (rg_data (sr_region st))(p := v)\<rparr>\<rparr>"

lemma put_byte_simps [simp]:
  "serial_ok (put_byte p v st) = serial_ok st" "sr_dev (put_byte p v st) = sr_dev st" "sr_world (put_byte p v st) = sr_world st"
  "rg_data (sr_region (put_byte p v st)) = (rg_data (sr_region st))(p := v)"
  by (simp_all add: put_byte_def serial_ok_def)

lemma less_2: "P (0 :: nat) \<Longrightarrow> P 1 \<Longrightarrow> ch < 2 \<Longrightarrow> P ch"
  by (auto simp: less_Suc_eq numeral_2_eq_2)

lemma ch01: "(ch :: nat) < 2 \<Longrightarrow> ch = 0 \<or> ch = 1"
  by auto

lemmas serial_regs = UDnSTR_def UDnRX_def UDnTX_def UDnCH0_def UDnCH1_def serial_ok_def map_consts rg_off_def

lemma reg_offsets:
  assumes "serial_ok st" and "ch < 2"
  shows "rg_off (sr_region st) (UDnSTR ch AND rg_mask (sr_region st)) = 4 + 16 * ch"
    "rg_off (sr_region st) (UDnRX ch AND rg_mask (sr_region st)) = 6 + 16 * ch"
    "rg_off (sr_region st) (UDnTX ch AND rg_mask (sr_region st)) = 7 + 16 * ch"
  using assms(2,1) by (induction ch rule: less_2; simp add: serial_regs)+

lemma get_STR:
  "serial_ok st \<Longrightarrow> ch < 2 \<Longrightarrow> serial_get_data8 (UDnSTR ch AND rg_mask (sr_region st)) st = Some (STD_E_OK, str_reg st ch)"
  unfolding serial_get_data8_def by (subst reg_offsets) (simp_all add: rg_get8_def serial_ok_def map_consts)

lemma put_plain:
  assumes "serial_ok st" and "ch < 2"
  shows put_STR: "serial_put_data8 (UDnSTR ch AND rg_mask (sr_region st)) v st = Some (STD_E_OK, put_byte (4 + 16 * ch) v st)"
    and put_RX: "serial_put_data8 (UDnRX ch AND rg_mask (sr_region st)) v st = Some (STD_E_OK, put_byte (6 + 16 * ch) v st)"
  using ch01 [OF assms(2)] assms(1)
  by (auto, (subst serial_put_data8.simps, simp add: rg_put8_def put_byte_def serial_regs)+)

text \<open>A write to the transmit register.\<close>

lemma put_TX:
  assumes "serial_ok st" and "ch < 2" and "sd_ops (sr_dev st ch) = Some ops"
    and "op_putchar ops (of_nat ch) v (sr_world st) = Some (r, w)"
  shows "serial_put_data8 (UDnTX ch AND rg_mask (sr_region st)) v st
    = Some (STD_E_OK, put_byte (4 + 16 * ch) (str_reg st ch OR 0x80)
        (set_sdev ch ((sr_dev st ch)\<lparr>is_send_data := True\<rparr>) ((put_byte (7 + 16 * ch) v st)\<lparr>sr_world := w\<rparr>)))"
proof -
  let ?st = "set_sdev ch ((sr_dev st ch)\<lparr>is_send_data := True\<rparr>) ((put_byte (7 + 16 * ch) v st)\<lparr>sr_world := w\<rparr>)"
  have ok: "serial_ok ?st" "rg_mask (sr_region ?st) = rg_mask (sr_region st)" using assms(1) by (auto simp: serial_ok_def set_sdev_def put_byte_def)
  have id: "(ucast (sd_id (sr_dev st ch)) :: u8) = of_nat ch"
    using ch01 [OF assms(2)] assms(1) by (auto simp: serial_ok_def)
  have str: "str_reg ?st ch = str_reg st ch" by (simp add: set_sdev_def put_byte_def)
  have put: "rg_put8 (7 + 16 * ch) v (sr_region st) = Some ((sr_region st)\<lparr>rg_data := (rg_data (sr_region st))(7 + 16 * ch := v)\<rparr>)"
    using assms(1,2) by (simp add: rg_put8_def serial_ok_def map_consts)
  have tx: "(if UDnTX ch AND m = UDnTX UDnCH0 AND m then Some UDnCH0
      else if UDnTX ch AND m = UDnTX UDnCH1 AND m then Some UDnCH1 else None) = Some ch" if "m = MPU_ADDRESS_REGION_MASK_PH" for m
    using ch01 [OF assms(2)] by (auto simp: serial_regs that)
  have m: "rg_mask (sr_region st) = MPU_ADDRESS_REGION_MASK_PH" using assms(1) by (simp add: serial_ok_def)
  show ?thesis
    using get_STR [OF ok(1) assms(2)] put_plain(1) [OF ok(1) assms(2), of "str_reg st ch OR 0x80"] assms(3,4)
    apply (subst serial_put_data8.simps)
    unfolding reg_offsets(3) [OF assms(1,2)] put
    by (simp add: m id tx [OF refl] ok(2) str str_send_bit_def Let_def put_byte_def set_sdev_def
        split del: if_split cong: if_cong)
qed

section \<open>One clock of a channel\<close>

lemma serial_id: "serial_ok st \<Longrightarrow> ch < 2 \<Longrightarrow> (ucast (sd_id (sr_dev st ch)) :: u8) = of_nat ch \<and> unat (sd_id (sr_dev st ch)) = ch"
  using ch01 [of ch] by (auto simp: serial_ok_def)

lemma u8_of_nat: "ch < 2 \<Longrightarrow> unat (of_nat ch :: u8) = ch"
  by (simp add: unat_of_nat take_bit_nat_eq_self)

text \<open>\<open>put_byte\<close> and updates of a device keep the registers in place.\<close>

lemma serial_ok_frame [simp]:
  "serial_ok (st\<lparr>sr_world := w\<rparr>) = serial_ok st"
  "sd_id d = sd_id (sr_dev st ch) \<Longrightarrow> serial_ok (set_sdev ch d st) = serial_ok st"
  by (auto simp: serial_ok_def set_sdev_def)

lemma sr_region_frame [simp]: "sr_region (set_sdev ch d st) = sr_region st" "sr_world (set_sdev ch d st) = sr_world st"
  "sr_dev (set_sdev ch d st) = (sr_dev st)(ch := d)" "rg_mask (sr_region (put_byte p v st)) = rg_mask (sr_region st)"
  by (simp_all add: set_sdev_def put_byte_def)

lemma ssf_iff: "(v :: u8) AND 0x10 = 0x10 \<longleftrightarrow> bit v 4"
proof -
  have "v AND push_bit 4 1 = (if bit v 4 then push_bit 4 1 else 0)"
    by (rule bit_word_eqI) (simp only: bit_and_iff bit_push_bit_iff bit_1_iff split: if_split, auto)
  then show ?thesis by simp
qed

lemma receive_step:
  assumes "serial_ok st" and "ch < 2" and "\<not> bit (str_reg st ch) 4" and "last_raised_counter (sr_dev st ch) = 0"
    and "op_getchar ops (of_nat ch) (sr_world st) = Some (Some b, w)"
    and "device_raise_int n (sd_intno (sr_dev st ch)) s = Some s'"
  shows "serial_receive_step n ch ops (st, s) = Some (set_sdev ch ((sr_dev st ch)\<lparr>last_raised_counter := 1000\<rparr>)
      (put_byte (6 + 16 * ch) b (put_byte (4 + 16 * ch) (str_reg st ch OR 0x10) (st\<lparr>sr_world := w\<rparr>))), s')"
proof -
  let ?st = "st\<lparr>sr_world := w\<rparr>"
  let ?st1 = "put_byte (4 + 16 * ch) (str_reg st ch OR 0x10) ?st"
  have ssf: "serial_isset_str_ssf (of_nat ch) st = Some False"
    using get_STR [OF assms(1,2)] assms(3) by (simp add: serial_isset_str_ssf_def u8_of_nat assms(2) ssf_iff)
  have "serial_ok ?st" "serial_ok ?st1" using assms(1) by simp_all
  note ok = this
  have set: "serial_set_str_ssf (of_nat ch) ?st = Some ?st1"
    using get_STR [OF ok(1) assms(2)] put_STR [OF ok(1) assms(2)]
    by (simp add: serial_set_str_ssf_def u8_of_nat assms(2) Let_def)
  show ?thesis
    using ssf set put_RX [OF ok(2) assms(2), of b] serial_id [OF assms(1,2)] assms(4-6)
    by (simp add: serial_receive_step_def Let_def)
qed

lemma send_step:
  assumes "serial_ok st" and "ch < 2"
  shows "serial_send_step ch st = Some (if is_send_data (sr_dev st ch)
    then set_sdev ch ((sr_dev st ch)\<lparr>is_send_data := False\<rparr>) (put_byte (4 + 16 * ch) (str_reg st ch AND NOT 0x80) st) else st)"
  using get_STR [OF assms] put_STR [OF assms] serial_id [OF assms]
  by (simp add: serial_send_step_def serial_set_str_def str_send_bit_def u8_of_nat assms(2) Let_def)

lemma status_bits_8: "bit (v OR 0x10 :: u8) 4" "bit (v AND NOT 0x80 :: u8) 4 = bit v 4" "\<not> bit (v AND NOT 0x80 :: u8) 7"
  "bit (v OR 0x80 :: u8) 7" "bit (v OR 0x80 :: u8) 4 = bit v 4"
proof -
  have "bit (0x10 :: u8) 4" "\<not> bit (0x80 :: u8) 4" "bit (0x80 :: u8) 7" by simp_all
  then show "bit (v OR 0x10 :: u8) 4" "bit (v AND NOT 0x80 :: u8) 4 = bit v 4" "\<not> bit (v AND NOT 0x80 :: u8) 7"
    "bit (v OR 0x80 :: u8) 7" "bit (v OR 0x80 :: u8) 4 = bit v 4"
    by (simp_all only: bit_or_iff bit_and_iff bit_not_iff simp_thms) simp_all
qed

lemma clock_receives:
  assumes "serial_ok st" and "ch < 2" and "sd_ops (sr_dev st ch) = Some ops" and "op_flush ops = None"
    and "\<not> bit (str_reg st ch) 4" and "last_raised_counter (sr_dev st ch) = 0"
    and "op_getchar ops (of_nat ch) (sr_world st) = Some (Some b, w)"
    and "device_raise_int n (sd_intno (sr_dev st ch)) s = Some s'"
  shows "\<exists>st'. device_do_serial n ch (st, s) = Some (st', s') \<and> sr_world st' = w \<and> serial_ok st'
    \<and> rx_reg st' ch = b \<and> bit (str_reg st' ch) 4 \<and> last_raised_counter (sr_dev st' ch) = 1000 \<and> \<not> is_send_data (sr_dev st' ch)"
proof -
  let ?st = "set_sdev ch ((sr_dev st ch)\<lparr>last_raised_counter := 1000\<rparr>)
      (put_byte (6 + 16 * ch) b (put_byte (4 + 16 * ch) (str_reg st ch OR 0x10) (st\<lparr>sr_world := w\<rparr>)))"
  have ok: "serial_ok ?st" using assms(1) by simp
  show ?thesis
    using send_step [OF ok assms(2)] assms(1,3,4) status_bits_8
    by (simp add: device_do_serial_def receive_step [OF assms(1,2,5-8)] serial_flush_step_def)
qed

text \<open>With nothing to receive, the clock ends a transmission.\<close>

lemma clock_sends:
  assumes "serial_ok st" and "ch < 2" and "sd_ops (sr_dev st ch) = Some ops" and "op_flush ops = None"
    and "op_getchar ops (of_nat ch) (sr_world st) = Some (None, sr_world st)" and "is_send_data (sr_dev st ch)"
  shows "\<exists>st'. device_do_serial n ch (st, s) = Some (st', s) \<and> sr_world st' = sr_world st \<and> \<not> bit (str_reg st' ch) 7
    \<and> \<not> is_send_data (sr_dev st' ch)"
proof -
  have ssf: "serial_isset_str_ssf (of_nat ch) st = Some (bit (str_reg st ch) 4)"
    using get_STR [OF assms(1,2)] by (simp add: serial_isset_str_ssf_def u8_of_nat assms(2) ssf_iff)
  obtain c where "serial_receive_step n ch ops (st, s) = Some (set_sdev ch ((sr_dev st ch)\<lparr>last_raised_counter := c\<rparr>) st, s)"
  proof -
    have id: "set_sdev ch ((sr_dev st ch)\<lparr>last_raised_counter := last_raised_counter (sr_dev st ch)\<rparr>) st = st"
      "st\<lparr>sr_world := sr_world st\<rparr> = st"
      by (simp_all add: set_sdev_def)
    show thesis
      using that [of "last_raised_counter (sr_dev st ch)"] that [of "last_raised_counter (sr_dev st ch) - 1"]
        ssf serial_id [OF assms(1,2)] assms(5) unfolding id
      by (cases "bit (str_reg st ch) 4"; cases "0 < last_raised_counter (sr_dev st ch)")
        (simp_all add: serial_receive_step_def Let_def)
  qed
  then show ?thesis
    using send_step [of "set_sdev ch ((sr_dev st ch)\<lparr>last_raised_counter := c\<rparr>) st" ch] assms(1-4,6) status_bits_8
    by (simp add: device_do_serial_def serial_flush_step_def)
qed

text \<open>C14: The character queue of the host implements a bounded queue. For every history of calls of
  \<open>dbg_serial_in\<close> and \<open>dbg_serial_getchar\<close> on a channel, the answers are those of a list of at most
  1024 bytes, \<open>in\<close> appending at the end (\<open>STD_E_LIMIT\<close> when it is full) and \<open>getchar\<close> taking the
  first; the ring buffer with its two offsets never leaves its array and holds the list.\<close>

theorem serial_fifo_queue:
  assumes "unat ch < DBG_SERIAL_CHANNEL_NUM" and "fifo_ok (dbg_serial_fifo w (unat ch))"
  shows "\<exists>w'. calls (dbg_serial_in ch) (dbg_serial_getchar ch) xs w
      = Some (fst (list_calls DBG_SERIAL_BUFFER_SIZE xs (fifo_contents (dbg_serial_fifo w (unat ch)))), w')
    \<and> fifo_contents (dbg_serial_fifo w' (unat ch))
      = snd (list_calls DBG_SERIAL_BUFFER_SIZE xs (fifo_contents (dbg_serial_fifo w (unat ch))))"
  using host.calls_refine [of ch w xs] assms by (auto simp: channel_ok_def DBG_SERIAL_BUFFER_SIZE_def)

text \<open>C37: Reception. When the status register of a serial channel is clear and no interval is running,
  a clock takes the oldest byte of the host's queue into the receive register, sets the reception
  flag, requests the reception interrupt on every core and starts the interval of 1000 clocks before
  the next byte.\<close>

theorem serial_receive:
  assumes "serial_ok st" and "ch < 2" and "sd_ops (sr_dev st ch) = Some device_ex_serial_op"
    and "fifo_ok (dbg_serial_fifo (sr_world st) ch)" and "fifo_contents (dbg_serial_fifo (sr_world st) ch) = b # bs"
    and "\<not> bit (rg_data (sr_region st) (4 + 16 * ch)) 4" and "last_raised_counter (sr_dev st ch) = 0"
    and "n \<le> 2" and "unat (sd_intno (sr_dev st ch)) < INTC_NUM"
  shows "\<exists>st' s'. device_do_serial n ch (st, s) = Some (st', s')
    \<and> rg_data (sr_region st') (6 + 16 * ch) = b \<and> bit (rg_data (sr_region st') (4 + 16 * ch)) 4
    \<and> fifo_contents (dbg_serial_fifo (sr_world st') ch) = bs \<and> last_raised_counter (sr_dev st' ch) = 1000
    \<and> (\<forall>c < n. unat (sd_intno (sr_dev st ch)) \<in> waiting_set (ic_work s' c))"
proof -
  have u: "unat (of_nat ch :: u8) = ch" by (rule u8_of_nat [OF assms(2)])
  have "channel_ok (of_nat ch) (sr_world st)" using assms(2,4) by (simp add: channel_ok_def u DBG_SERIAL_CHANNEL_NUM_def)
  then obtain w where w: "dbg_serial_getchar (of_nat ch) (sr_world st) = Some (Some b, w)"
    "fifo_contents (dbg_serial_fifo w ch) = bs"
    using host.get_removes [of "of_nat ch" "sr_world st" b bs] assms(5) u by auto
  let ?i = "sd_intno (sr_dev st ch)"
  have "\<exists>s'. device_raise_int n ?i s = Some s'"
    unfolding device_raise_int_def intc_raise_intr_def
  proof (rule for_each_defined)
    fix c t assume "c \<in> set [0..<n]"
    then show "\<exists>s'. common_raise_intr (unat ?i) c t = Some s'"
      using request_result [of c "unat ?i" t] assms(8,9) by (auto simp: INTC_NUM_def)
  qed
  then obtain s' where s': "device_raise_int n ?i s = Some s'" by blast
  have ops: "op_flush device_ex_serial_op = None" "op_getchar device_ex_serial_op (of_nat ch) (sr_world st) = Some (Some b, w)"
    using w by (simp_all add: device_ex_serial_op_def)
  from clock_receives [OF assms(1-3) ops(1) assms(6,7) ops(2) s'] w(2) raise_int_reaches [OF s']
  show ?thesis by auto
qed

text \<open>Transmission. A write to the transmit register prints the byte (channel 0 on the standard
  output, channel 1 on the standard error) and sets the busy flag of the status register; with
  nothing to receive, the next clock of the channel clears the flag and prints nothing more.\<close>

theorem serial_transmit:
  assumes "serial_ok st" and "ch < 2" and "sd_ops (sr_dev st ch) = Some device_ex_serial_op"
    and "fifo_ok (dbg_serial_fifo (sr_world st) ch)" and "fifo_contents (dbg_serial_fifo (sr_world st) ch) = []"
  shows "\<exists>st1 st2. serial_put_data8 (UDnTX ch AND rg_mask (sr_region st)) v st = Some (STD_E_OK, st1)
    \<and> bit (rg_data (sr_region st1) (4 + 16 * ch)) 7
    \<and> device_do_serial n ch (st1, s) = Some (st2, s) \<and> \<not> bit (rg_data (sr_region st2) (4 + 16 * ch)) 7
    \<and> dbg_stdout (sr_world st2) = dbg_stdout (sr_world st) @ (if ch = 0 then [v] else [])
    \<and> dbg_stderr (sr_world st2) = dbg_stderr (sr_world st) @ (if ch = 1 then [v] else [])"
proof -
  have u: "unat (of_nat ch :: u8) = ch" "(of_nat ch :: u8) = 0 \<longleftrightarrow> ch = 0" using ch01 [OF assms(2)] by auto
  define w where "w = snd (the (dbg_serial_putchar (of_nat ch) v (sr_world st)))"
  have putc: "op_putchar device_ex_serial_op (of_nat ch) v (sr_world st) = Some (True, w)"
    by (simp add: device_ex_serial_op_def dbg_serial_putchar_def w_def)
  have w: "dbg_serial_fifo w = dbg_serial_fifo (sr_world st)"
    "dbg_stdout w = dbg_stdout (sr_world st) @ (if ch = 0 then [v] else [])"
    "dbg_stderr w = dbg_stderr (sr_world st) @ (if ch = 1 then [v] else [])"
    using ch01 [OF assms(2)] by (auto simp: w_def dbg_serial_putchar_def)
  obtain st1 where st1: "serial_put_data8 (UDnTX ch AND rg_mask (sr_region st)) v st = Some (STD_E_OK, st1)"
    "serial_ok st1" "bit (str_reg st1 ch) 7" "sr_world st1 = w" "sd_ops (sr_dev st1 ch) = Some device_ex_serial_op"
    "is_send_data (sr_dev st1 ch)"
    using put_TX [OF assms(1-3) putc] assms(1,3) status_bits_8(4) by simp
  have "channel_ok (of_nat ch) w" using assms(2,4) by (simp add: channel_ok_def u w(1) DBG_SERIAL_CHANNEL_NUM_def)
  then have "op_getchar device_ex_serial_op (of_nat ch) (sr_world st1) = Some (None, sr_world st1)"
    using host.get_empty [of "of_nat ch" w] assms(5) by (simp add: device_ex_serial_op_def u w(1) st1(4))
  from clock_sends [OF st1(2) assms(2) st1(5) _ this st1(6), of n s] st1 w(2,3) show ?thesis
    by (auto simp: device_ex_serial_op_def)
qed

text \<open>The host with bytes waiting on every channel, and the interface just initialised.\<close>

definition sample_fifo :: "u8 list \<Rightarrow> DbgSerialFifoType" where
  "sample_fifo bs = \<lparr>fifo_count = of_nat (length bs), fifo_write_off = of_nat (length bs), fifo_read_off = 0,
     fifo_buffer = (\<lambda>i. if i < length bs then bs ! i else 0)\<rparr>"

definition sample_serial :: "u8 list \<Rightarrow> dbg_serial serial_state" where
  "sample_serial bs = \<lparr>sr_dev = (\<lambda>ch. \<lparr>last_raised_counter = 0, sd_id = of_nat ch, sd_intno = 36, flush_count = 0,
       flush_count_max = 100, is_send_data = False, sd_ops = Some device_ex_serial_op, sd_start_clock = 0\<rparr>),
     sr_region = \<lparr>rg_start = 0x03FFFA00, rg_size = 0x78, rg_mask = 0x03FFFFFF, rg_data = (\<lambda>_. 0)\<rparr>,
     sr_world = \<lparr>dbg_serial_fifo = (\<lambda>_. sample_fifo bs), dbg_stdout = [], dbg_stderr = []\<rparr>\<rparr>"

lemma sample_serial_ok:
  "serial_ok (sample_serial bs)" "fifo_ok (sample_fifo [65, 66])" "fifo_contents (sample_fifo [65, 66]) = [65, 66]"
  "fifo_ok (sample_fifo [])" "fifo_contents (sample_fifo []) = []"
  by (simp_all add: serial_ok_def sample_serial_def sample_fifo_def map_consts fifo_ok_def fifo_contents_def upt_rec)

lemma serial_fifo_queue_witness:
  "map_option fst (calls (dbg_serial_in 1) (dbg_serial_getchar 1) [Some 67, None, None, None, None] (sr_world (sample_serial [65, 66])))
    = Some [Put STD_E_OK, Got (Some 65), Got (Some 66), Got (Some 67), Got None]"
proof -
  let ?w = "sr_world (sample_serial [65, 66])" and ?xs = "[Some 67, None, None, None, None] :: u8 option list"
  have q: "fifo_ok (dbg_serial_fifo ?w (unat (1 :: u8)))" "fifo_contents (dbg_serial_fifo ?w (unat (1 :: u8))) = [65, 66]"
    using sample_serial_ok(2,3) by (simp_all add: sample_serial_def)
  have "fst (list_calls 1024 ?xs [65, 66]) = [Put STD_E_OK, Got (Some 65), Got (Some 66), Got (Some 67), Got None]" by simp
  with serial_fifo_queue [OF _ q(1), of ?xs] show ?thesis
    unfolding q(2) DBG_SERIAL_BUFFER_SIZE_def by (auto simp: DBG_SERIAL_CHANNEL_NUM_def simp del: calls.simps list_calls.simps)
qed

lemma serial_receive_witness:
  "\<exists>st' s'. device_do_serial 1 0 (sample_serial [65, 66], sample_intc) = Some (st', s') \<and> rg_data (sr_region st') 6 = 65"
proof -
  have "dbg_serial_fifo (sr_world (sample_serial [65, 66])) 0 = sample_fifo [65, 66]"
    "\<not> bit (rg_data (sr_region (sample_serial [65, 66])) 4) 4" "last_raised_counter (sr_dev (sample_serial [65, 66]) 0) = 0"
    "sd_ops (sr_dev (sample_serial [65, 66]) 0) = Some device_ex_serial_op" "sd_intno (sr_dev (sample_serial [65, 66]) 0) = 36"
    by (simp_all add: sample_serial_def)
  with serial_receive [OF sample_serial_ok(1), of 0 "[65, 66]" 65 "[66]" 1 sample_intc] sample_serial_ok(2,3) show ?thesis
    by (auto simp: INTC_NUM_def)
qed

lemma serial_transmit_witness:
  "\<exists>st1 st2. serial_put_data8 0x03FFFA07 72 (sample_serial []) = Some (STD_E_OK, st1)
     \<and> device_do_serial 1 0 (st1, sample_intc) = Some (st2, sample_intc) \<and> dbg_stdout (sr_world st2) = [72]"
proof -
  have s: "dbg_serial_fifo (sr_world (sample_serial [])) 0 = sample_fifo []" "dbg_stdout (sr_world (sample_serial [])) = []"
    "sd_ops (sr_dev (sample_serial []) 0) = Some device_ex_serial_op" "UDnTX 0 AND rg_mask (sr_region (sample_serial [])) = 0x03FFFA07"
    by (simp_all add: sample_serial_def UDnTX_def)
  from serial_transmit [OF sample_serial_ok(1), of 0 "[]" 72 1 sample_intc] s sample_serial_ok(4,5) show ?thesis
    by auto
qed

end
