(* ===== verification/V850_SerialFile.thy ===== *)
theory V850_SerialFile
  imports V850_Serial
begin

text \<open>
  The file end of a serial channel: the second half of
  \<open>src/debugger/executor/concrete_executor/dbg_target_serial.c\<close> (its parts under \<open>#if 0\<close> left out) and
  \<open>device_ex_serial_file_op\<close> of \<open>src/device/device.c\<close>.

  The operating system is a parameter: the calls of \<open>target_os_api_open_r\<close>, \<open>target_os_api_open_w\<close>,
  \<open>fstat\<close>, \<open>lseek\<close>, \<open>read\<close>, \<open>write\<close> and \<open>close\<close> are functions on its state. \<open>exit(1)\<close> and
  undefined behaviour are the two errors of a call. Messages are left out. A file size is an
  unbounded integer, cut to 32 bits where the code stores it in an \<open>int\<close>.
\<close>

section \<open>Errors\<close>

datatype file_error = Undefined | Exits

definition bindE :: "file_error + 'a \<Rightarrow> ('a \<Rightarrow> file_error + 'b) \<Rightarrow> file_error + 'b" where
  "bindE m f = (case m of Inl e \<Rightarrow> Inl e | Inr x \<Rightarrow> f x)"

lemma bindE_simps [simp]: "bindE (Inl e) f = Inl e" "bindE (Inr x) f = f x"
  by (simp_all add: bindE_def)

definition guardE :: "file_error \<Rightarrow> bool \<Rightarrow> file_error + unit" where
  "guardE e b = (if b then Inr () else Inl e)"

section \<open>The operating system\<close>

record 'o posix =
  os_open_r :: "string \<Rightarrow> 'o \<Rightarrow> int \<times> 'o"
  os_open_w :: "string \<Rightarrow> 'o \<Rightarrow> int \<times> 'o"
  os_fstat :: "int \<Rightarrow> 'o \<Rightarrow> int option"
  os_lseek :: "int \<Rightarrow> int \<Rightarrow> 'o \<Rightarrow> int \<times> 'o"
  os_read :: "int \<Rightarrow> nat \<Rightarrow> 'o \<Rightarrow> u8 list option \<times> 'o"
  os_write :: "int \<Rightarrow> u8 list \<Rightarrow> 'o \<Rightarrow> int \<times> 'o"
  os_close :: "int \<Rightarrow> 'o \<Rightarrow> int \<times> 'o"

text \<open>The conversion to \<open>int\<close>.\<close>

definition to_int :: "int \<Rightarrow> int" where
  "to_int x = sint (word_of_int x :: u32)"

section \<open>State\<close>

record SerialFileType =
  isset :: int
  path :: string
  fd :: int

record SerialFileReaderType =
  r_file :: SerialFileType
  read_off :: int

record SerialFileWriterType =
  w_file :: SerialFileType
  write_off :: int

definition DBG_SERIAL_CACHE_BUFFER_SIZE :: nat where "DBG_SERIAL_CACHE_BUFFER_SIZE = 1024"

record DbgSerialCacheBufferType =
  cb_count :: u32
  cb_off :: u32
  cb_rcheck_count :: u32
  cb_wcheck_count :: u32
  cb_buffer :: "nat \<Rightarrow> u8"

record 'o SerialDeviceFile =
  sf_in :: SerialFileReaderType
  sf_out :: SerialFileWriterType
  DbgSerialCacheWriteBuffer :: "nat \<Rightarrow> DbgSerialCacheBufferType"
  DbgSerialCacheReadBuffer :: "nat \<Rightarrow> DbgSerialCacheBufferType"
  sf_os :: 'o

section \<open>Opening\<close>

definition SERIAL_IN_FILENAME :: string where "SERIAL_IN_FILENAME = ''serial_out.txt''"
definition SERIAL_OUT_FILENAME :: string where "SERIAL_OUT_FILENAME = ''serial_in.txt''"

text \<open>What else the files depend on: \<open>OS_LINUX\<close> and the configuration.\<close>

record 'o file_env =
  fe_linux :: bool
  fe_cfg :: devcfg
  fe_os :: "'o posix"

text \<open>Without the parameter the code uses an uninitialised pointer; a path that does not fit in 4096
  bytes with its terminator leaves the array.\<close>

definition file_pathset :: "'o file_env \<Rightarrow> SerialFileType \<Rightarrow> string \<Rightarrow> file_error + SerialFileType" where
  "file_pathset fe file filename =
     (if 0 \<le> isset file then Inr file
      else case cfg_string (fe_cfg fe) ''SERIAL_FILE_PATH'' of
        None \<Rightarrow> Inl Undefined
      | Some p \<Rightarrow>
          let s = (if p \<noteq> [] then
                     let s = p @ ''/'' @ filename
                     in if \<not> fe_linux fe \<and> hd s = CHR ''/'' then s[0 := s ! 1, 1 := CHR '':''] else s
                   else filename)
          in bindE (guardE Undefined (length s < 4096)) (\<lambda>_. Inr (file\<lparr>isset := 1, path := s\<rparr>)))"

definition my_file_wopen :: "'o file_env \<Rightarrow> SerialFileWriterType \<times> 'o \<Rightarrow> file_error + SerialFileWriterType \<times> 'o" where
  "my_file_wopen fe = (\<lambda>(wfile, os).
     if 0 \<le> fd (w_file wfile) then Inr (wfile, os)
     else bindE (file_pathset fe (w_file wfile) SERIAL_OUT_FILENAME) (\<lambda>file.
       let (d, os) = os_open_w (fe_os fe) (path file) os
       in bindE (guardE Exits (0 \<le> d)) (\<lambda>_.
         case os_fstat (fe_os fe) d os of
           None \<Rightarrow> Inl Exits
         | Some st_size \<Rightarrow> Inr (wfile\<lparr>w_file := file\<lparr>fd := d\<rparr>, write_off := to_int st_size\<rparr>, os))))"

definition my_file_ropen :: "'o file_env \<Rightarrow> SerialFileReaderType \<times> 'o \<Rightarrow> file_error + SerialFileReaderType \<times> 'o" where
  "my_file_ropen fe = (\<lambda>(rfile, os).
     if 0 \<le> fd (r_file rfile) then Inr (rfile, os)
     else bindE (file_pathset fe (r_file rfile) SERIAL_IN_FILENAME) (\<lambda>file.
       let (d, os) = os_open_r (fe_os fe) (path file) os
       in bindE (guardE Exits (0 \<le> d)) (\<lambda>_.
         case os_fstat (fe_os fe) d os of
           None \<Rightarrow> Inl Exits
         | Some st_size \<Rightarrow> Inr (rfile\<lparr>r_file := file\<lparr>fd := d\<rparr>, read_off := to_int st_size\<rparr>, os))))"

section \<open>The write cache\<close>

text \<open>The channel selects a cache; the files are shared by all channels.\<close>

definition channel_check :: "u8 \<Rightarrow> file_error + nat" where
  "channel_check channel =
     (if unat channel < DBG_SERIAL_CHANNEL_NUM then Inr (unat channel) else Inl Undefined)"

definition set_wcache :: "nat \<Rightarrow> DbgSerialCacheBufferType \<Rightarrow> 'o SerialDeviceFile \<Rightarrow> 'o SerialDeviceFile" where
  "set_wcache ch c w = w\<lparr>DbgSerialCacheWriteBuffer := (DbgSerialCacheWriteBuffer w)(ch := c)\<rparr>"

definition set_rcache :: "nat \<Rightarrow> DbgSerialCacheBufferType \<Rightarrow> 'o SerialDeviceFile \<Rightarrow> 'o SerialDeviceFile" where
  "set_rcache ch c w = w\<lparr>DbgSerialCacheReadBuffer := (DbgSerialCacheReadBuffer w)(ch := c)\<rparr>"

text \<open>The part of \<open>file_cache_flush\<close> behind the guards that save small writes. \<open>write\<close> reads
  \<open>count\<close> bytes of the buffer.\<close>

definition file_cache_store :: "'o file_env \<Rightarrow> nat \<Rightarrow> 'o SerialDeviceFile \<Rightarrow> file_error + 'o SerialDeviceFile" where
  "file_cache_store fe ch w =
     bindE (my_file_wopen fe (sf_out w, sf_os w)) (\<lambda>(wfile, os).
       let c = DbgSerialCacheWriteBuffer w ch; d = fd (w_file wfile); n = unat (cb_count c)
       in bindE (guardE Exits (os_fstat (fe_os fe) d os \<noteq> None)) (\<lambda>_.
       let (e, os) = os_lseek (fe_os fe) d (write_off wfile) os
       in bindE (guardE Exits (0 \<le> to_int e)) (\<lambda>_.
       bindE (guardE Undefined (n \<le> DBG_SERIAL_CACHE_BUFFER_SIZE)) (\<lambda>_.
       let (e, os) = os_write (fe_os fe) d (map (cb_buffer c) [0..<n]) os
       in bindE (guardE Exits (word_of_int e = cb_count c)) (\<lambda>_.
       bindE (guardE Undefined (write_off wfile < 2 ^ 31 - 1)) (\<lambda>_.
       let (e, os) = os_close (fe_os fe) d os
       in bindE (guardE Exits (0 \<le> to_int e)) (\<lambda>_.
       Inr (set_wcache ch (c\<lparr>cb_count := 0, cb_off := 0\<rparr>)
         (w\<lparr>sf_out := wfile\<lparr>w_file := (w_file wfile)\<lparr>fd := -1\<rparr>, write_off := write_off wfile + 1\<rparr>, sf_os := os\<rparr>)))))))))"

definition file_cache_flush :: "'o file_env \<Rightarrow> u8 \<Rightarrow> 'o SerialDeviceFile \<Rightarrow> file_error + 'o SerialDeviceFile" where
  "file_cache_flush fe channel w =
     bindE (channel_check channel) (\<lambda>ch.
       let c = DbgSerialCacheWriteBuffer w ch
       in if cb_count c = 0 then Inr w
          else if cb_count c < 128 then
            let c = c\<lparr>cb_wcheck_count := cb_wcheck_count c + 1\<rparr>
            in if cb_wcheck_count c < 10000 then Inr (set_wcache ch c w)
               else file_cache_store fe ch (set_wcache ch (c\<lparr>cb_wcheck_count := 0\<rparr>) w)
          else file_cache_store fe ch w)"

text \<open>\<open>off\<close> is read before the cache is flushed.\<close>

definition file_cache_write :: "'o file_env \<Rightarrow> u8 \<Rightarrow> u8 \<Rightarrow> 'o SerialDeviceFile \<Rightarrow> file_error + Std_ReturnType \<times> 'o SerialDeviceFile" where
  "file_cache_write fe channel d w =
     bindE (channel_check channel) (\<lambda>ch.
       let off = cb_off (DbgSerialCacheWriteBuffer w ch)
       in bindE (if unat (cb_count (DbgSerialCacheWriteBuffer w ch)) = DBG_SERIAL_CACHE_BUFFER_SIZE
                 then file_cache_flush fe channel w else Inr w) (\<lambda>w.
       bindE (guardE Undefined (unat off < DBG_SERIAL_CACHE_BUFFER_SIZE)) (\<lambda>_.
       let c = DbgSerialCacheWriteBuffer w ch
       in Inr (STD_E_OK, set_wcache ch (c\<lparr>cb_buffer := (cb_buffer c)(unat off := d),
            cb_count := cb_count c + 1, cb_off := cb_off c + 1\<rparr>) w))))"

section \<open>The read cache\<close>

text \<open>The part of \<open>file_cache_load\<close> behind the guard that saves calls, in two steps: what there is to
  read in the file, and reading as much of it as fits behind the offset of the cache.\<close>

definition file_cache_fill :: "'o file_env \<Rightarrow> nat \<Rightarrow> int \<Rightarrow> 'o SerialDeviceFile \<Rightarrow> file_error + Std_ReturnType \<times> 'o SerialDeviceFile" where
  "file_cache_fill fe ch fread_size w =
     (let c = DbgSerialCacheReadBuffer w ch;
          c = (if DBG_SERIAL_CACHE_BUFFER_SIZE \<le> unat (cb_off c) then c\<lparr>cb_off := 0\<rparr> else c);
          off = unat (cb_off c); cache_size = int DBG_SERIAL_CACHE_BUFFER_SIZE - int off;
          read_size = (if fread_size < cache_size then fread_size else cache_size);
          w = set_rcache ch c w; rfile = sf_in w
      in if read_size = 0 then Inr (STD_E_NOENT, w)
         else bindE (guardE Undefined (0 < read_size)) (\<lambda>_.
         let (r, os) = os_read (fe_os fe) (fd (r_file rfile)) (nat read_size) (sf_os w)
         in case r of
           None \<Rightarrow> Inl Exits
         | Some bs \<Rightarrow>
             bindE (guardE Exits (bs \<noteq> [])) (\<lambda>_.
             bindE (guardE Undefined (length bs \<le> nat read_size \<and> read_off rfile + int (length bs) < 2 ^ 31)) (\<lambda>_.
             Inr (STD_E_OK, set_rcache ch (c\<lparr>cb_buffer := (\<lambda>i. if off \<le> i \<and> i < off + length bs then bs ! (i - off) else cb_buffer c i),
                   cb_count := cb_count c + of_nat (length bs)\<rparr>)
                 (w\<lparr>sf_in := rfile\<lparr>read_off := read_off rfile + int (length bs)\<rparr>, sf_os := os\<rparr>))))))"

definition file_cache_fetch :: "'o file_env \<Rightarrow> nat \<Rightarrow> 'o SerialDeviceFile \<Rightarrow> file_error + Std_ReturnType \<times> 'o SerialDeviceFile" where
  "file_cache_fetch fe ch w =
     bindE (my_file_ropen fe (sf_in w, sf_os w)) (\<lambda>(rfile, os).
       case os_fstat (fe_os fe) (fd (r_file rfile)) os of
         None \<Rightarrow> Inl Exits
       | Some st_size \<Rightarrow>
           if st_size \<le> read_off rfile then Inr (STD_E_NOENT, w\<lparr>sf_in := rfile, sf_os := os\<rparr>)
           else
             let fread_size = to_int (st_size - read_off rfile);
                 (e, os) = os_lseek (fe_os fe) (fd (r_file rfile)) (read_off rfile) os
             in bindE (guardE Exits (0 \<le> to_int e)) (\<lambda>_.
                file_cache_fill fe ch fread_size (w\<lparr>sf_in := rfile, sf_os := os\<rparr>)))"

definition file_cache_load :: "'o file_env \<Rightarrow> u8 \<Rightarrow> 'o SerialDeviceFile \<Rightarrow> file_error + Std_ReturnType \<times> 'o SerialDeviceFile" where
  "file_cache_load fe channel w =
     bindE (channel_check channel) (\<lambda>ch.
       let c = DbgSerialCacheReadBuffer w ch
       in if 0 < cb_count c then Inr (STD_E_OK, w)
          else
            let c = c\<lparr>cb_rcheck_count := cb_rcheck_count c + 1\<rparr>
            in if cb_rcheck_count c < 100 then Inr (STD_E_NOENT, set_rcache ch c w)
               else file_cache_fetch fe ch (set_rcache ch (c\<lparr>cb_rcheck_count := 0\<rparr>) w))"

definition file_cache_read :: "u8 \<Rightarrow> 'o SerialDeviceFile \<Rightarrow> file_error + u8 option \<times> 'o SerialDeviceFile" where
  "file_cache_read channel w =
     bindE (channel_check channel) (\<lambda>ch.
       let c = DbgSerialCacheReadBuffer w ch
       in if cb_count c = 0 then Inr (None, w)
          else bindE (guardE Undefined (unat (cb_off c) < DBG_SERIAL_CACHE_BUFFER_SIZE)) (\<lambda>_.
            Inr (Some (cb_buffer c (unat (cb_off c))), set_rcache ch (c\<lparr>cb_count := cb_count c - 1, cb_off := cb_off c + 1\<rparr>) w)))"

section \<open>The operations of the channel\<close>

definition dbg_serial_getchar_file :: "u8 \<Rightarrow> 'o SerialDeviceFile \<Rightarrow> file_error + u8 option \<times> 'o SerialDeviceFile" where
  "dbg_serial_getchar_file channel w = file_cache_read channel w"

definition dbg_serial_putchar_file :: "'o file_env \<Rightarrow> u8 \<Rightarrow> u8 \<Rightarrow> 'o SerialDeviceFile \<Rightarrow> file_error + bool \<times> 'o SerialDeviceFile" where
  "dbg_serial_putchar_file fe channel data w =
     bindE (file_cache_write fe channel data w) (\<lambda>(e, w). Inr (e = STD_E_OK, w))"

definition dbg_serial_flush_file :: "'o file_env \<Rightarrow> u8 \<Rightarrow> 'o SerialDeviceFile \<Rightarrow> file_error + 'o SerialDeviceFile" where
  "dbg_serial_flush_file fe channel w =
     bindE (file_cache_flush fe channel w) (\<lambda>w.
     bindE (file_cache_load fe channel w) (\<lambda>(e, w). Inr w))"

text \<open>As the operations of a device, a call that does not return has no next state.\<close>

definition returned :: "file_error + 'a \<Rightarrow> 'a option" where
  "returned r = (case r of Inl _ \<Rightarrow> None | Inr x \<Rightarrow> Some x)"

definition device_ex_serial_file_op :: "'o file_env \<Rightarrow> 'o SerialDeviceFile DeviceExSerialOpType" where
  "device_ex_serial_file_op fe = \<lparr>
     op_putchar = (\<lambda>channel data w. returned (dbg_serial_putchar_file fe channel data w)),
     op_getchar = (\<lambda>channel w. returned (dbg_serial_getchar_file channel w)),
     op_flush = Some (\<lambda>channel w. returned (dbg_serial_flush_file fe channel w))\<rparr>"

end
