(* ===== verification/V850_SerialFile_Correct.thy ===== *)
theory V850_SerialFile_Correct
  imports V850_SerialFile
begin

unbundle bit_operations_syntax

text \<open>
  The file end of a serial channel (\<open>V850_SerialFile\<close>): what the program sends reaches the file, what the
  file receives reaches the program, in order, for an operating system that keeps the promises of
  \<open>regular_file\<close>; and the error of a full cache.
\<close>

section \<open>A file\<close>

text \<open>What the operating system promises for a regular file that nobody else changes: \<open>content\<close> is the
  file, \<open>pos\<close> the position of the descriptor in use.\<close>

definition regular_file :: "'o posix \<Rightarrow> ('o \<Rightarrow> u8 list) \<Rightarrow> ('o \<Rightarrow> nat) \<Rightarrow> bool" where
  "regular_file os content pos \<longleftrightarrow>
     (\<forall>p s. 0 \<le> fst (os_open_w os p s) \<and> content (snd (os_open_w os p s)) = content s)
   \<and> (\<forall>p s. 0 \<le> fst (os_open_r os p s) \<and> content (snd (os_open_r os p s)) = content s)
   \<and> (\<forall>d s. os_fstat os d s = Some (int (length (content s))))
   \<and> (\<forall>d n s. 0 \<le> n \<longrightarrow> fst (os_lseek os d n s) = n \<and> content (snd (os_lseek os d n s)) = content s \<and> pos (snd (os_lseek os d n s)) = nat n)
   \<and> (\<forall>d bs s. pos s = length (content s) \<longrightarrow> fst (os_write os d bs s) = int (length bs) \<and> content (snd (os_write os d bs s)) = content s @ bs)
   \<and> (\<forall>d n s. fst (os_read os d n s) = Some (take n (drop (pos s) (content s))) \<and> content (snd (os_read os d n s)) = content s)
   \<and> (\<forall>d s. fst (os_close os d s) = 0 \<and> content (snd (os_close os d s)) = content s)"

lemma to_int_small: "0 \<le> x \<Longrightarrow> x < 2 ^ 31 \<Longrightarrow> to_int x = x"
  by (simp add: to_int_def sint_uint uint_word_of_int take_bit_int_eq_self signed_take_bit_int_eq_self)

section \<open>The write cache\<close>

definition wcache_holds :: "DbgSerialCacheBufferType \<Rightarrow> u8 list \<Rightarrow> bool" where
  "wcache_holds c bs \<longleftrightarrow> unat (cb_count c) = length bs \<and> unat (cb_off c) = length bs \<and> length bs \<le> DBG_SERIAL_CACHE_BUFFER_SIZE
     \<and> map (cb_buffer c) [0..<length bs] = bs"

abbreviation wcache :: "u8 \<Rightarrow> 'o SerialDeviceFile \<Rightarrow> DbgSerialCacheBufferType" where
  "wcache ch w \<equiv> DbgSerialCacheWriteBuffer w (unat ch)"

lemma unat_Suc_32: "unat (x :: u32) < 4096 \<Longrightarrow> unat (x + 1) = Suc (unat x)"
  by (simp add: unat_word_ariths)

lemma put_one:
  assumes "unat ch < 4" and "wcache_holds (wcache ch w) bs" and "length bs < 1024"
  shows "\<exists>w'. dbg_serial_putchar_file fe ch b w = Inr (True, w') \<and> wcache_holds (wcache ch w') (bs @ [b])
    \<and> sf_os w' = sf_os w \<and> sf_out w' = sf_out w"
proof -
  have c: "unat (cb_count (wcache ch w)) = length bs" "unat (cb_off (wcache ch w)) = length bs"
    "map (cb_buffer (wcache ch w)) [0..<length bs] = bs"
    using assms(2) by (auto simp: wcache_holds_def)
  have "map ((cb_buffer (wcache ch w))(length bs := b)) [0..<length bs] = bs"
    using c(3) by (metis (no_types, lifting) atLeastLessThan_upt fun_upd_other less_irrefl list.map_cong0 atLeastLessThan_iff)
  then show ?thesis
    using assms(1,3) c
    by (auto simp: dbg_serial_putchar_file_def file_cache_write_def channel_check_def DBG_SERIAL_CHANNEL_NUM_def guardE_def
        DBG_SERIAL_CACHE_BUFFER_SIZE_def set_wcache_def wcache_holds_def Let_def unat_Suc_32)
qed

fun put_all :: "'o file_env \<Rightarrow> u8 \<Rightarrow> u8 list \<Rightarrow> 'o SerialDeviceFile \<Rightarrow> file_error + 'o SerialDeviceFile" where
  "put_all fe ch [] w = Inr w"
| "put_all fe ch (b # bs) w = bindE (dbg_serial_putchar_file fe ch b w) (\<lambda>(r, w). put_all fe ch bs w)"

lemma put_all_caches:
  assumes "unat ch < 4" and "wcache_holds (wcache ch w) bs0" and "length bs0 + length bs \<le> 1024"
  shows "\<exists>w'. put_all fe ch bs w = Inr w' \<and> wcache_holds (wcache ch w') (bs0 @ bs) \<and> sf_os w' = sf_os w \<and> sf_out w' = sf_out w"
  using assms(2,3)
proof (induction bs arbitrary: w bs0)
  case (Cons b bs)
  obtain w1 where w1: "dbg_serial_putchar_file fe ch b w = Inr (True, w1)" "wcache_holds (wcache ch w1) (bs0 @ [b])"
    "sf_os w1 = sf_os w" "sf_out w1 = sf_out w"
    using put_one [OF assms(1) Cons.prems(1)] Cons.prems(2) by fastforce
  from Cons.IH [OF w1(2)] Cons.prems(2) w1 show ?case by auto
qed simp

text \<open>A full cache cannot take another byte: the offset is read before the cache is emptied.\<close>

lemma full_cache:
  assumes "wcache_holds (wcache ch w) bs" and "length bs = 1024"
  shows "\<exists>e. dbg_serial_putchar_file fe ch b w = Inl e"
proof -
  have "unat (cb_off (wcache ch w)) = 1024" "unat (cb_count (wcache ch w)) = 1024" using assms by (auto simp: wcache_holds_def)
  then show ?thesis
    by (cases "file_cache_flush fe ch w")
      (auto simp: dbg_serial_putchar_file_def file_cache_write_def channel_check_def guardE_def DBG_SERIAL_CACHE_BUFFER_SIZE_def Let_def)
qed

lemma wopen_regular:
  assumes "regular_file (fe_os fe) content pos" and "fd (w_file wfile) < 0" and "0 \<le> isset (w_file wfile)"
    and "length (content s) < 2 ^ 31"
  shows "\<exists>wfile' s'. my_file_wopen fe (wfile, s) = Inr (wfile', s') \<and> content s' = content s \<and> write_off wfile' = int (length (content s))"
  using assms
  by (auto simp: my_file_wopen_def file_pathset_def regular_file_def guardE_def split_beta Let_def to_int_small)

lemma store_regular:
  assumes os: "regular_file (fe_os fe) content pos" and "fd (w_file (sf_out w)) < 0" and "0 \<le> isset (w_file (sf_out w))"
    and "length (content (sf_os w)) < 2 ^ 31 - 1" and "wcache_holds (DbgSerialCacheWriteBuffer w k) bs"
  shows "\<exists>w'. file_cache_store fe k w = Inr w' \<and> content (sf_os w') = content (sf_os w) @ bs
    \<and> wcache_holds (DbgSerialCacheWriteBuffer w' k) [] \<and> fd (w_file (sf_out w')) < 0"
proof -
  let ?n = "int (length (content (sf_os w)))"
  obtain wfile s where o1: "my_file_wopen fe (sf_out w, sf_os w) = Inr (wfile, s)" "content s = content (sf_os w)" "write_off wfile = ?n"
    using wopen_regular [OF os assms(2,3), of "sf_os w"] assms(4) by auto
  let ?d = "fd (w_file wfile)"
  obtain e s2 where o2: "os_lseek (fe_os fe) ?d (write_off wfile) s = (e, s2)" by fastforce
  have s2: "e = ?n" "content s2 = content (sf_os w)" "pos s2 = length (content (sf_os w))"
    using os o1(2,3) o2 unfolding regular_file_def by (metis fst_conv snd_conv nat_int of_nat_0_le_iff)+
  obtain e3 s3 where o3: "os_write (fe_os fe) ?d bs s2 = (e3, s3)" by fastforce
  have s3: "e3 = int (length bs)" "content s3 = content (sf_os w) @ bs"
    using os s2(2,3) o3 unfolding regular_file_def by (metis fst_conv snd_conv)+
  obtain e4 s4 where o4: "os_close (fe_os fe) ?d s3 = (e4, s4)" by fastforce
  have s4: "e4 = 0" "content s4 = content (sf_os w) @ bs"
    using os s3(2) o4 unfolding regular_file_def by (metis fst_conv snd_conv)+
  have stat: "os_fstat (fe_os fe) ?d s \<noteq> None" using os by (simp add: regular_file_def)
  let ?c = "DbgSerialCacheWriteBuffer w k"
  have c: "unat (cb_count ?c) = length bs" "map (cb_buffer ?c) [0..<length bs] = bs" "length bs \<le> 1024"
    using assms(5) by (auto simp: wcache_holds_def DBG_SERIAL_CACHE_BUFFER_SIZE_def)
  have "(word_of_int (int (length bs)) :: u32) = cb_count ?c" using c(1) by (metis of_nat_unat of_int_of_nat_eq ucast_id)
  then show ?thesis
    using o1 o2 o3 o4 s2 s3 s4 stat c assms(4)
    by (simp add: file_cache_store_def Let_def guardE_def DBG_SERIAL_CACHE_BUFFER_SIZE_def to_int_small set_wcache_def wcache_holds_def)
qed


text \<open>C39: A full write cache loses the program. When 1024 bytes are waiting, sending another one never
  succeeds, whatever the operating system does: the emulator has exited, or writes the byte
  behind the end of the cache, because it has read the offset before it empties the cache.\<close>

theorem file_cache_overflow:
  assumes "wcache_holds (DbgSerialCacheWriteBuffer w (unat ch)) bs" and "length bs = DBG_SERIAL_CACHE_BUFFER_SIZE"
  shows "\<exists>e. dbg_serial_putchar_file fe ch b w = Inl e"
  using full_cache [OF assms(1)] assms(2) by (simp add: DBG_SERIAL_CACHE_BUFFER_SIZE_def)

section \<open>The read cache\<close>

definition rcache_holds :: "DbgSerialCacheBufferType \<Rightarrow> u8 list \<Rightarrow> bool" where
  "rcache_holds c bs \<longleftrightarrow> unat (cb_count c) = length bs \<and> unat (cb_off c) + length bs \<le> DBG_SERIAL_CACHE_BUFFER_SIZE
     \<and> map (cb_buffer c) [unat (cb_off c)..<unat (cb_off c) + length bs] = bs"

abbreviation rcache :: "u8 \<Rightarrow> 'o SerialDeviceFile \<Rightarrow> DbgSerialCacheBufferType" where
  "rcache ch w \<equiv> DbgSerialCacheReadBuffer w (unat ch)"

fun get_all :: "u8 \<Rightarrow> nat \<Rightarrow> 'o SerialDeviceFile \<Rightarrow> file_error + u8 option list \<times> 'o SerialDeviceFile" where
  "get_all ch 0 w = Inr ([], w)"
| "get_all ch (Suc n) w = bindE (dbg_serial_getchar_file ch w) (\<lambda>(r, w). bindE (get_all ch n w) (\<lambda>(rs, w). Inr (r # rs, w)))"

lemma get_one:
  assumes "unat ch < 4" and "rcache_holds (rcache ch w) (b # bs)"
  shows "\<exists>w'. dbg_serial_getchar_file ch w = Inr (Some b, w') \<and> rcache_holds (rcache ch w') bs \<and> sf_os w' = sf_os w \<and> sf_in w' = sf_in w"
proof -
  let ?c = "rcache ch w"
  have c: "unat (cb_count ?c) = Suc (length bs)" "unat (cb_off ?c) + Suc (length bs) \<le> 1024"
    "map (cb_buffer ?c) [unat (cb_off ?c)..<unat (cb_off ?c) + Suc (length bs)] = b # bs"
    using assms(2) by (auto simp: rcache_holds_def DBG_SERIAL_CACHE_BUFFER_SIZE_def)
  have nz: "cb_count ?c \<noteq> 0" using c(1) by auto
  have "unat (cb_count ?c - 1) = length bs" using c(1) nz by (simp add: unat_minus_one)
  moreover have "unat (cb_off ?c + 1) = Suc (unat (cb_off ?c))" using c(2) by (intro unat_Suc_32) simp
  moreover have "cb_buffer ?c (unat (cb_off ?c)) = b"
    "map (cb_buffer ?c) [Suc (unat (cb_off ?c))..<Suc (unat (cb_off ?c)) + length bs] = bs"
    using c(3) by (simp_all add: upt_conv_Cons del: upt_Suc)
  ultimately show ?thesis
    using assms(1) c(1,2) nz
    by (auto simp: dbg_serial_getchar_file_def file_cache_read_def channel_check_def DBG_SERIAL_CHANNEL_NUM_def guardE_def
        DBG_SERIAL_CACHE_BUFFER_SIZE_def set_rcache_def rcache_holds_def Let_def)
qed

lemma get_none:
  assumes "unat ch < 4" and "rcache_holds (rcache ch w) []"
  shows "dbg_serial_getchar_file ch w = Inr (None, w)"
  using assms
  by (auto simp: dbg_serial_getchar_file_def file_cache_read_def channel_check_def DBG_SERIAL_CHANNEL_NUM_def rcache_holds_def unat_eq_0 Let_def)

lemma get_all_reads:
  assumes "unat ch < 4" and "rcache_holds (rcache ch w) bs"
  shows "\<exists>w'. get_all ch (Suc (length bs)) w = Inr (map Some bs @ [None], w') \<and> rcache_holds (rcache ch w') [] \<and> sf_os w' = sf_os w
    \<and> sf_in w' = sf_in w"
  using assms(2)
proof (induction bs arbitrary: w)
  case Nil
  with get_none [OF assms(1) Nil] show ?case by simp
next
  case (Cons b bs)
  obtain w1 where w1: "dbg_serial_getchar_file ch w = Inr (Some b, w1)" "rcache_holds (rcache ch w1) bs" "sf_os w1 = sf_os w" "sf_in w1 = sf_in w"
    using get_one [OF assms(1) Cons.prems] by blast
  from Cons.IH [OF w1(2)] w1 show ?case by auto
qed

lemma fill_regular:
  assumes os: "regular_file (fe_os fe) content pos" and "rcache_holds (DbgSerialCacheReadBuffer w k) []"
    and "pos (sf_os w) = nat (read_off (sf_in w))" and "0 \<le> read_off (sf_in w)" and "read_off (sf_in w) + int m < 2 ^ 31"
    and "m = length (content (sf_os w)) - nat (read_off (sf_in w))" and "0 < m"
  defines "off \<equiv> unat (cb_off (DbgSerialCacheReadBuffer w k)) mod 1024"
  shows "\<exists>w' bs. file_cache_fill fe k (int m) w = Inr (STD_E_OK, w') \<and> bs = take (1024 - off) (drop (nat (read_off (sf_in w))) (content (sf_os w)))
    \<and> rcache_holds (DbgSerialCacheReadBuffer w' k) bs \<and> content (sf_os w') = content (sf_os w)
    \<and> read_off (sf_in w') = read_off (sf_in w) + int (length bs)"
proof -
  let ?r = "read_off (sf_in w)" and ?s = "sf_os w" and ?c = "DbgSerialCacheReadBuffer w k"
  have count: "unat (cb_count ?c) = 0" "unat (cb_off ?c) \<le> 1024" using assms(2) by (auto simp: rcache_holds_def DBG_SERIAL_CACHE_BUFFER_SIZE_def)
  have off: "off < 1024" "off = (if 1024 \<le> unat (cb_off ?c) then 0 else unat (cb_off ?c))"
    using count(2) by (auto simp: off_def)
  define c where "c = (if DBG_SERIAL_CACHE_BUFFER_SIZE \<le> unat (cb_off ?c) then ?c\<lparr>cb_off := 0\<rparr> else ?c)"
  have c: "unat (cb_off c) = off" "cb_count c = 0"
    using off(2) count(1) by (auto simp: c_def unat_eq_0 DBG_SERIAL_CACHE_BUFFER_SIZE_def)
  define n where "n = min (1024 - off) m"
  define bs where "bs = take n (drop (nat ?r) (content ?s))"
  have bs: "take (1024 - off) (drop (nat ?r) (content ?s)) = bs" "length bs = n"
    using assms(6) by (auto simp: bs_def n_def min_def)
  have n: "0 < n" "n \<le> 1024 - off" using off(1) assms(7) by (auto simp: n_def)
  have rs: "(if int m < int DBG_SERIAL_CACHE_BUFFER_SIZE - int off then int m else int DBG_SERIAL_CACHE_BUFFER_SIZE - int off) = int n"
    using off(1) by (auto simp: n_def DBG_SERIAL_CACHE_BUFFER_SIZE_def)
  define s3 where "s3 = snd (os_read (fe_os fe) (fd (r_file (sf_in w))) n ?s)"
  have "fst (os_read (fe_os fe) (fd (r_file (sf_in w))) n ?s) = Some bs" "content s3 = content ?s"
    using os assms(3) by (auto simp: regular_file_def s3_def bs_def)
  then have rd: "os_read (fe_os fe) (fd (r_file (sf_in w))) n ?s = (Some bs, s3)" "content s3 = content ?s"
    by (simp_all add: s3_def prod_eq_iff)
  define c' where "c' = c\<lparr>cb_buffer := (\<lambda>i. if off \<le> i \<and> i < off + length bs then bs ! (i - off) else cb_buffer c i),
    cb_count := cb_count c + of_nat (length bs)\<rparr>"
  have lt: "?r + int (length bs) < 2 ^ 31" using assms(5) bs(2) by (auto simp: n_def)
  have ne: "bs \<noteq> []" using bs(2) n(1) by auto
  have "file_cache_fill fe k (int m) w = Inr (STD_E_OK, set_rcache k c'
      (set_rcache k c w\<lparr>sf_in := (sf_in w)\<lparr>read_off := ?r + int (length bs)\<rparr>, sf_os := s3\<rparr>))"
    unfolding file_cache_fill_def Let_def c_def [symmetric] c(1) rs
    using n(1) rd(1) lt ne bs(2) by (simp add: guardE_def c'_def set_rcache_def)
  moreover have "rcache_holds c' bs"
  proof -
    have "map (cb_buffer c') [off..<off + n] = bs"
      by (rule nth_equalityI) (simp_all add: c'_def bs(2))
    moreover have "n \<le> 1024" using n(2) by linarith
    then have "unat (of_nat n :: u32) = n" by (simp add: unat_of_nat take_bit_nat_eq_self)
    then have "unat (cb_count c') = n" by (simp add: c'_def c(2) bs(2))
    moreover have "unat (cb_off c') = off" by (simp add: c'_def c(1))
    ultimately show ?thesis
      unfolding rcache_holds_def bs(2) using n(2) off(1) by (simp add: DBG_SERIAL_CACHE_BUFFER_SIZE_def)
  qed
  ultimately show ?thesis
    using rd(2) bs by (auto simp: set_rcache_def)
qed

lemma fetch_regular:
  assumes os: "regular_file (fe_os fe) content pos" and "0 \<le> fd (r_file (sf_in w))" and "rcache_holds (DbgSerialCacheReadBuffer w k) []"
    and "0 \<le> read_off (sf_in w)" and "nat (read_off (sf_in w)) < length (content (sf_os w))" and "length (content (sf_os w)) < 2 ^ 31"
  defines "off \<equiv> unat (cb_off (DbgSerialCacheReadBuffer w k)) mod 1024"
  shows "\<exists>w' bs. file_cache_fetch fe k w = Inr (STD_E_OK, w') \<and> bs = take (1024 - off) (drop (nat (read_off (sf_in w))) (content (sf_os w)))
    \<and> rcache_holds (DbgSerialCacheReadBuffer w' k) bs \<and> content (sf_os w') = content (sf_os w)
    \<and> read_off (sf_in w') = read_off (sf_in w) + int (length bs)"
proof -
  let ?r = "read_off (sf_in w)" and ?d = "fd (r_file (sf_in w))" and ?s = "sf_os w"
  obtain e s2 where o1: "os_lseek (fe_os fe) ?d ?r ?s = (e, s2)" by fastforce
  have s2: "e = ?r" "content s2 = content ?s" "pos s2 = nat ?r"
    using os assms(4) o1 unfolding regular_file_def by (metis fst_conv snd_conv)+
  define m where "m = length (content ?s) - nat ?r"
  have sub: "int (length (content ?s)) - ?r = int m" using assms(4,5) by (auto simp: m_def)
  have fs: "to_int (int (length (content ?s)) - ?r) = int m"
    unfolding sub by (rule to_int_small) (use assms(6) in \<open>auto simp: m_def\<close>)
  have ropen: "my_file_ropen fe (sf_in w, ?s) = Inr (sf_in w, ?s)" using assms(2) by (simp add: my_file_ropen_def)
  have stat: "os_fstat (fe_os fe) ?d ?s = Some (int (length (content ?s)))" using os by (simp add: regular_file_def)
  have lt: "\<not> int (length (content ?s)) \<le> ?r" "?r + int m < 2 ^ 31" "0 < m" using assms(4-6) by (auto simp: m_def)
  have te: "0 \<le> to_int ?r" using lt(2) assms(4) by (subst to_int_small) auto
  have "file_cache_fetch fe k w = file_cache_fill fe k (int m) (w\<lparr>sf_in := sf_in w, sf_os := s2\<rparr>)"
    unfolding file_cache_fetch_def ropen bindE_simps prod.case stat option.case Let_def fs o1
    using lt(1) te by (simp add: s2(1) guardE_def)
  with fill_regular [OF os, of "w\<lparr>sf_in := sf_in w, sf_os := s2\<rparr>" k m] assms(3,4) s2(2,3) lt(2,3)
  show ?thesis by (simp add: off_def m_def)
qed

text \<open>Bytes that arrive in the input file reach the program, in order. At the hundredth poll of an
  empty cache, whose file is open with bytes behind the last one read, a part of the file is
  loaded that is as long as the cache allows; the program then gets exactly these bytes, and
  after them nothing; the next load continues behind them.\<close>

theorem file_input:
  assumes "regular_file (fe_os fe) content pos" and "unat ch < DBG_SERIAL_CHANNEL_NUM"
    and "rcache_holds (DbgSerialCacheReadBuffer w (unat ch)) []" and "cb_rcheck_count (DbgSerialCacheReadBuffer w (unat ch)) = 99"
    and "0 \<le> fd (r_file (sf_in w))" and "0 \<le> read_off (sf_in w)"
    and "nat (read_off (sf_in w)) < length (content (sf_os w))" and "length (content (sf_os w)) < 2 ^ 31"
    and "bs = take (1024 - unat (cb_off (DbgSerialCacheReadBuffer w (unat ch))) mod 1024)
      (drop (nat (read_off (sf_in w))) (content (sf_os w)))"
  shows "\<exists>w1 w2. file_cache_load fe ch w = Inr (STD_E_OK, w1) \<and> get_all ch (Suc (length bs)) w1 = Inr (map Some bs @ [None], w2)
    \<and> content (sf_os w2) = content (sf_os w) \<and> read_off (sf_in w2) = read_off (sf_in w) + int (length bs)
    \<and> rcache_holds (DbgSerialCacheReadBuffer w2 (unat ch)) []"
proof -
  have ch: "unat ch < 4" using assms(2) by (simp add: DBG_SERIAL_CHANNEL_NUM_def)
  let ?w = "set_rcache (unat ch) ((rcache ch w)\<lparr>cb_rcheck_count := 0\<rparr>) w"
  have w: "rcache_holds (rcache ch ?w) []" "sf_in ?w = sf_in w" "sf_os ?w = sf_os w" "cb_off (rcache ch ?w) = cb_off (rcache ch w)"
    using assms(3) by (simp_all add: set_rcache_def rcache_holds_def)
  obtain w1 where w1: "file_cache_fetch fe (unat ch) ?w = Inr (STD_E_OK, w1)" "rcache_holds (rcache ch w1) bs"
    "content (sf_os w1) = content (sf_os w)" "read_off (sf_in w1) = read_off (sf_in w) + int (length bs)"
    using fetch_regular [OF assms(1) _ w(1)] assms(5-9) w(2-4) by auto
  have "cb_count (rcache ch w) = 0" using assms(3) by (simp add: rcache_holds_def unat_eq_0)
  then have "file_cache_load fe ch w = Inr (STD_E_OK, w1)"
    using ch assms(4) w1(1) by (simp add: file_cache_load_def channel_check_def DBG_SERIAL_CHANNEL_NUM_def Let_def set_rcache_def)
  with get_all_reads [OF ch w1(2)] w1(3,4) show ?thesis by auto
qed

section \<open>A file in memory\<close>

record ram_file =
  rf_content :: "u8 list"
  rf_pos :: nat

definition ram_os :: "ram_file posix" where
  "ram_os = \<lparr>os_open_r = (\<lambda>_ s. (3, s\<lparr>rf_pos := 0\<rparr>)), os_open_w = (\<lambda>_ s. (4, s\<lparr>rf_pos := 0\<rparr>)),
     os_fstat = (\<lambda>_ s. Some (int (length (rf_content s)))),
     os_lseek = (\<lambda>_ n s. (n, s\<lparr>rf_pos := nat n\<rparr>)),
     os_read = (\<lambda>_ n s. (let bs = take n (drop (rf_pos s) (rf_content s)) in (Some bs, s\<lparr>rf_pos := rf_pos s + length bs\<rparr>))),
     os_write = (\<lambda>_ bs s. (int (length bs), s\<lparr>rf_content := take (rf_pos s) (rf_content s) @ bs @ drop (rf_pos s + length bs) (rf_content s),
        rf_pos := rf_pos s + length bs\<rparr>)),
     os_close = (\<lambda>_ s. (0, s))\<rparr>"

lemma ram_os_regular: "regular_file ram_os rf_content rf_pos"
  by (simp add: regular_file_def ram_os_def Let_def)

definition sample_files :: "u8 list \<Rightarrow> ram_file SerialDeviceFile" where
  "sample_files bs = \<lparr>sf_in = \<lparr>r_file = \<lparr>isset = 1, path = ''serial_out.txt'', fd = 3\<rparr>, read_off = 0\<rparr>,
     sf_out = \<lparr>w_file = \<lparr>isset = 1, path = ''serial_in.txt'', fd = -1\<rparr>, write_off = 0\<rparr>,
     DbgSerialCacheWriteBuffer = (\<lambda>_. \<lparr>cb_count = 0, cb_off = 0, cb_rcheck_count = 0, cb_wcheck_count = 0, cb_buffer = (\<lambda>_. 0)\<rparr>),
     DbgSerialCacheReadBuffer = (\<lambda>_. \<lparr>cb_count = 0, cb_off = 0, cb_rcheck_count = 99, cb_wcheck_count = 0, cb_buffer = (\<lambda>_. 0)\<rparr>),
     sf_os = \<lparr>rf_content = bs, rf_pos = 0\<rparr>\<rparr>"

definition sample_file_env :: "ram_file file_env" where
  "sample_file_env = \<lparr>fe_linux = True, fe_cfg = \<lparr>cfg_value = (\<lambda>_. None), cfg_string = (\<lambda>_. None)\<rparr>, fe_os = ram_os\<rparr>"


lemma file_cache_overflow_witness:
  "\<exists>w e. put_all sample_file_env 1 (replicate 1024 7) (sample_files []) = Inr w \<and> dbg_serial_putchar_file sample_file_env 1 9 w = Inl e"
proof -
  have c: "wcache_holds (wcache 1 (sample_files [])) []" by (simp add: sample_files_def wcache_holds_def)
  obtain w where w: "put_all sample_file_env 1 (replicate 1024 7) (sample_files []) = Inr w" "wcache_holds (wcache 1 w) (replicate 1024 7)"
    using put_all_caches [OF _ c, of "replicate 1024 7" sample_file_env] by auto
  from file_cache_overflow [OF w(2), of sample_file_env 9] w(1) show ?thesis by (auto simp: DBG_SERIAL_CACHE_BUFFER_SIZE_def)
qed

lemma file_input_witness:
  "\<exists>w1 w2. file_cache_load sample_file_env 1 (sample_files [10, 20, 30]) = Inr (STD_E_OK, w1)
     \<and> get_all 1 4 w1 = Inr ([Some 10, Some 20, Some 30, None], w2)"
proof -
  have r: "regular_file (fe_os sample_file_env) rf_content rf_pos" by (simp add: sample_file_env_def ram_os_regular)
  have four: "(4 :: nat) = Suc (length [10, 20, 30 :: u8])" by simp
  show ?thesis
    using file_input [OF r, of 1 "sample_files [10, 20, 30]" "[10, 20, 30]"] unfolding four
    by (auto simp: sample_files_def rcache_holds_def DBG_SERIAL_CACHE_BUFFER_SIZE_def DBG_SERIAL_CHANNEL_NUM_def simp del: get_all.simps)
qed

end
