(* ===== verification/V850_Vdev.thy ===== *)
theory V850_Vdev
  imports V850_Device
begin

unbundle bit_operations_syntax

text \<open>
  The virtual devices, through which the machine exchanges packets with a simulator of its
  environment: \<open>src/device/peripheral/vdev/vdev.c\<close>, \<open>vdev_udp.c\<close>, \<open>vdev_mmap.c\<close>, \<open>vdev_private.h\<close> and
  \<open>src/device/peripheral/inc/vdev.h\<close> (their parts under \<open>#if 0\<close> left out).

  \<open>vdev_control\<close> and the static variables of \<open>vdev_udp.c\<close> are one record, with the buffers of the
  UDP connection and of the mapped memory as functions from offsets to bytes of known size. The
  calls of the Athrill core are arguments: \<open>udp_comm_create_ipaddr\<close> and \<open>udp_comm_remote_write\<close>
  return a status, \<open>udp_comm_read\<close> a status with the packet it put in the read buffer, and
  \<open>mpu_address_get_ram\<close> the memory. The thread of the receiver and that of the complemental sender
  are given as the body of their loops; a body, and what a lock protects, is one step. A failed
  \<open>ASSERT\<close> is \<open>None\<close>. Messages are left out.
\<close>

section \<open>vdev.h\<close>

definition VDEV_BASE :: u32 where "VDEV_BASE = 0x090F0000"
definition VDEV_RX_DATA_BASE :: u32 where "VDEV_RX_DATA_BASE = VDEV_BASE"
definition VDEV_RX_DATA_SIZE :: u32 where "VDEV_RX_DATA_SIZE = 0x1000"
definition VDEV_RX_DATA_HEAD_SIZE :: u32 where "VDEV_RX_DATA_HEAD_SIZE = 32"
definition VDEV_RX_DATA_BODY_OFF :: u32 where "VDEV_RX_DATA_BODY_OFF = VDEV_RX_DATA_HEAD_SIZE"
definition VDEV_RX_DATA_HEAD_HEADER :: "u8 list" where "VDEV_RX_DATA_HEAD_HEADER = [69, 84, 82, 88]"
definition VDEV_RX_DATA_HEAD_VERSION :: u32 where "VDEV_RX_DATA_HEAD_VERSION = 1"
definition VDEV_RX_DATA_HEAD_EXT_OFF :: u32 where "VDEV_RX_DATA_HEAD_EXT_OFF = 512"
definition VDEV_RX_DATA_HEAD_EXT_SIZE :: u32 where "VDEV_RX_DATA_HEAD_EXT_SIZE = 512"
definition VDEV_TX_DATA_BASE :: u32 where "VDEV_TX_DATA_BASE = VDEV_BASE + VDEV_RX_DATA_SIZE"
definition VDEV_TX_DATA_SIZE :: u32 where "VDEV_TX_DATA_SIZE = 0x1000"
definition VDEV_TX_DATA_COMM_SIZE :: u32 where "VDEV_TX_DATA_COMM_SIZE = 1024"
definition VDEV_TX_DATA_HEAD_SIZE :: u32 where "VDEV_TX_DATA_HEAD_SIZE = 32"
definition VDEV_TX_DATA_BODY_OFF :: u32 where "VDEV_TX_DATA_BODY_OFF = VDEV_TX_DATA_HEAD_SIZE"
definition VDEV_TX_DATA_BODY_SIZE :: u32 where "VDEV_TX_DATA_BODY_SIZE = VDEV_TX_DATA_COMM_SIZE - VDEV_TX_DATA_HEAD_SIZE"
definition VDEV_TX_DATA_HEAD_HEADER :: "u8 list" where "VDEV_TX_DATA_HEAD_HEADER = [69, 84, 84, 88]"
definition VDEV_TX_DATA_HEAD_VERSION :: u32 where "VDEV_TX_DATA_HEAD_VERSION = 1"
definition VDEV_TX_DATA_HEAD_EXT_OFF :: u32 where "VDEV_TX_DATA_HEAD_EXT_OFF = 512"
definition VDEV_TX_DATA_HEAD_EXT_SIZE :: u32 where "VDEV_TX_DATA_HEAD_EXT_SIZE = 512"
definition VDEV_TX_FLAG_BASE :: u32 where "VDEV_TX_FLAG_BASE = VDEV_TX_DATA_BASE + VDEV_TX_DATA_SIZE"
definition VDEV_TX_SIM_TIME :: "nat \<Rightarrow> nat" where "VDEV_TX_SIM_TIME inx = 0x008 + inx * 8"
definition VDEV_RX_SIM_TIME :: "nat \<Rightarrow> nat" where "VDEV_RX_SIM_TIME inx = 0x010 + inx * 8"
definition VDEV_SIM_INX_ME :: nat where "VDEV_SIM_INX_ME = 0"
definition VDEV_SIM_INX_YOU :: nat where "VDEV_SIM_INX_YOU = 1"
definition VDEV_TX_FLAG :: "nat \<Rightarrow> u32" where "VDEV_TX_FLAG index = VDEV_TX_FLAG_BASE + of_nat index"

lemmas vdev_consts = VDEV_BASE_def VDEV_RX_DATA_BASE_def VDEV_RX_DATA_SIZE_def VDEV_RX_DATA_HEAD_SIZE_def
  VDEV_RX_DATA_BODY_OFF_def VDEV_RX_DATA_HEAD_HEADER_def VDEV_RX_DATA_HEAD_VERSION_def VDEV_RX_DATA_HEAD_EXT_OFF_def
  VDEV_RX_DATA_HEAD_EXT_SIZE_def VDEV_TX_DATA_BASE_def VDEV_TX_DATA_SIZE_def VDEV_TX_DATA_COMM_SIZE_def
  VDEV_TX_DATA_HEAD_SIZE_def VDEV_TX_DATA_BODY_OFF_def VDEV_TX_DATA_BODY_SIZE_def VDEV_TX_DATA_HEAD_HEADER_def
  VDEV_TX_DATA_HEAD_VERSION_def VDEV_TX_DATA_HEAD_EXT_OFF_def VDEV_TX_DATA_HEAD_EXT_SIZE_def VDEV_TX_FLAG_BASE_def
  VDEV_TX_SIM_TIME_def VDEV_RX_SIM_TIME_def VDEV_SIM_INX_ME_def VDEV_SIM_INX_YOU_def VDEV_TX_FLAG_def

section \<open>Buffers\<close>

text \<open>A buffer is a region of its own; \<open>memcpy\<close> and \<open>memset\<close> between buffers of known size, and
  words and doublewords in the byte order of the host.\<close>

record buffer =
  bf_size :: nat
  bf_data :: "nat \<Rightarrow> u8"

definition bf_read :: "buffer \<Rightarrow> nat \<Rightarrow> nat \<Rightarrow> u8 list option" where
  "bf_read b p n = (if p + n \<le> bf_size b then Some (map (bf_data b) [p..<p + n]) else None)"

definition bf_write :: "nat \<Rightarrow> u8 list \<Rightarrow> buffer \<Rightarrow> buffer option" where
  "bf_write p bs b =
     (if p + length bs \<le> bf_size b
      then Some (b\<lparr>bf_data := (\<lambda>i. if p \<le> i \<and> i < p + length bs then bs ! (i - p) else bf_data b i)\<rparr>) else None)"

definition le_bytes :: "nat \<Rightarrow> u64 \<Rightarrow> u8 list" where
  "le_bytes n v = map (\<lambda>k. ucast (drop_bit (8 * k) v)) [0..<n]"

fun le_value :: "u8 list \<Rightarrow> u64" where
  "le_value [] = 0"
| "le_value (b # bs) = ucast b OR push_bit 8 (le_value bs)"

definition rg_buffer :: "MpuAddressRegionType \<Rightarrow> buffer" where
  "rg_buffer rg = \<lparr>bf_size = rg_size rg, bf_data = rg_data rg\<rparr>"

definition rg_write :: "nat \<Rightarrow> u8 list \<Rightarrow> MpuAddressRegionType \<Rightarrow> MpuAddressRegionType option" where
  "rg_write p bs rg = map_option (\<lambda>b. rg\<lparr>rg_data := bf_data b\<rparr>) (bf_write p bs (rg_buffer rg))"

section \<open>State\<close>

record VdevControlType =
  is_wait :: bool
  client_port :: u16
  server_port :: u16
  vd_region :: MpuAddressRegionType
  cpu_freq :: u32
  vdev_sim_time :: "nat \<Rightarrow> u64"
  write_data :: buffer
  write_len :: nat
  read_data :: buffer
  remote_ipaddr :: string
  local_ipaddr :: string
  tx_data_addr :: u32
  tx_data :: buffer
  rx_data_addr :: u32
  rx_data :: buffer
  enable_complemental_send :: u32
  reset_area_off :: u32
  reset_area_size :: u32
  previous_sent :: int
  vd_sent :: "(string \<times> u8 list) list"

text \<open>\<open>previous_sent\<close> is a time in nanoseconds; \<open>vd_sent\<close> are the packets that \<open>udp_comm_remote_write\<close>
  was given, with the address they go to. The functions of the Athrill core that the
  initialisation calls:\<close>

record vdev_env =
  ve_cfg :: devcfg
  ve_cfg_hex :: "string \<Rightarrow> u32 option"
  ve_comm_create :: "string \<Rightarrow> u16 \<Rightarrow> u16 \<Rightarrow> Std_ReturnType"
  ve_threads :: Std_ReturnType
  ve_get_ram :: "u32 \<Rightarrow> buffer option"

section \<open>vdev.c\<close>

text \<open>The header of the packets that are sent.\<close>

definition tx_head :: "u8 list" where
  "tx_head = VDEV_TX_DATA_HEAD_HEADER @ le_bytes 4 (ucast VDEV_TX_DATA_HEAD_VERSION) @ replicate 16 0
     @ le_bytes 4 (ucast VDEV_TX_DATA_HEAD_EXT_OFF) @ le_bytes 4 (ucast VDEV_TX_DATA_HEAD_EXT_SIZE)"

definition cfg_or :: "'a option \<Rightarrow> 'a \<Rightarrow> 'a" where
  "cfg_or x v = (case x of Some w \<Rightarrow> w | None \<Rightarrow> v)"

definition device_init_vdev_udp :: "vdev_env \<Rightarrow> VdevControlType \<Rightarrow> VdevControlType option" where
  "device_init_vdev_udp ve vd = do {
     let cfg = ve_cfg ve;
     let vd = vd\<lparr>remote_ipaddr := cfg_or (cfg_string cfg ''DEBUG_FUNC_VDEV_TX_IPADDR'') ''127.0.0.1''\<rparr>;
     tx_port \<leftarrow> cfg_value cfg ''DEBUG_FUNC_VDEV_TX_PORTNO'';
     let vd = vd\<lparr>local_ipaddr := cfg_or (cfg_string cfg ''DEBUG_FUNC_VDEV_RX_IPADDR'') ''127.0.0.1'',
                client_port := ucast tx_port\<rparr>;
     rx_port \<leftarrow> cfg_value cfg ''DEBUG_FUNC_VDEV_RX_PORTNO'';
     let vd = vd\<lparr>server_port := ucast rx_port\<rparr>;
     check (ve_comm_create ve (local_ipaddr vd) (client_port vd) (server_port vd) = STD_E_OK);
     wd \<leftarrow> bf_write 0 tx_head (write_data vd);
     let vd = vd\<lparr>write_data := wd, write_len := unat VDEV_TX_DATA_COMM_SIZE\<rparr>;
     check (ve_threads ve = STD_E_OK);
     let vd = vd\<lparr>enable_complemental_send := devcfg_value cfg ''DEVICE_CONFIG_COMPLEMENTAL_TX_SENDING'' (enable_complemental_send vd),
                reset_area_off := devcfg_value cfg ''DEVICE_CONFIG_RESET_AREA_OFFSET'' (reset_area_off vd),
                reset_area_size := devcfg_value cfg ''DEVICE_CONFIG_RESET_AREA_SIZE'' (reset_area_size vd)\<rparr>;
     check (enable_complemental_send vd \<noteq> 0 \<longrightarrow> reset_area_off vd \<noteq> 0 \<and> reset_area_size vd \<noteq> 0);
     Some vd
   }"

definition device_init_vdev_mmap :: "vdev_env \<Rightarrow> VdevControlType \<Rightarrow> VdevControlType option" where
  "device_init_vdev_mmap ve vd = do {
     tx_addr \<leftarrow> ve_cfg_hex ve ''DEBUG_FUNC_VDEV_MMAP_TX'';
     tx \<leftarrow> ve_get_ram ve tx_addr;
     rx_addr \<leftarrow> ve_cfg_hex ve ''DEBUG_FUNC_VDEV_MMAP_RX'';
     rx \<leftarrow> ve_get_ram ve rx_addr;
     tx \<leftarrow> bf_write 0 tx_head tx;
     Some (vd\<lparr>tx_data_addr := tx_addr, tx_data := tx, rx_data_addr := rx_addr, rx_data := rx\<rparr>)
   }"

text \<open>\<open>freq\<close> is \<open>DEFAULT_CPU_FREQ\<close>, a constant of the Athrill core.\<close>

definition device_init_vdev :: "vdev_env \<Rightarrow> u32 \<Rightarrow> MpuAddressRegionType \<Rightarrow> VdevIoOperationType \<Rightarrow> VdevControlType \<Rightarrow> VdevControlType option" where
  "device_init_vdev ve freq region op_type vd =
     (let vd = vd\<lparr>vd_region := region, is_wait := True,
                cpu_freq := devcfg_value (ve_cfg ve) ''DEVICE_CONFIG_TIMER_FD'' freq\<rparr>
      in case op_type of
        VdevIoOperation_UDP \<Rightarrow> device_init_vdev_udp ve vd
      | VdevIoOperation_MMAP \<Rightarrow> device_init_vdev_mmap ve vd)"

section \<open>Keeping time\<close>

text \<open>The common part of \<open>device_supply_clock_vdev_udp\<close> and \<open>device_supply_clock_vdev_mmap\<close>. The
  product is computed in 64 bits, the quotient is undefined for a frequency of 0.\<close>

definition vdev_keep_time :: "u64 \<Rightarrow> DeviceClockType \<times> VdevControlType \<Rightarrow> (DeviceClockType \<times> VdevControlType) option" where
  "vdev_keep_time max_interval = (\<lambda>(dev_clock, vd). do {
     let unity_sim_time = vdev_sim_time vd VDEV_SIM_INX_YOU * ucast (cpu_freq vd);
     check (cpu_freq vd \<noteq> 0);
     let vd = vd\<lparr>vdev_sim_time := (vdev_sim_time vd)(VDEV_SIM_INX_ME := clock dev_clock div ucast (cpu_freq vd))\<rparr>;
     if unity_sim_time \<noteq> 0 \<and> min_intr_interval dev_clock \<noteq> max_interval then
       let interval = (if unity_sim_time \<le> clock dev_clock then 2 else unity_sim_time - clock dev_clock)
       in Some (if interval < min_intr_interval dev_clock then dev_clock\<lparr>min_intr_interval := interval\<rparr> else dev_clock, vd)
     else Some (dev_clock, vd)
   })"

definition device_supply_clock_vdev_udp :: "u64 \<Rightarrow> DeviceClockType \<times> VdevControlType \<Rightarrow> (DeviceClockType \<times> VdevControlType) option" where
  "device_supply_clock_vdev_udp max_interval = vdev_keep_time max_interval"

definition device_supply_clock_vdev_mmap :: "u64 \<Rightarrow> DeviceClockType \<times> VdevControlType \<Rightarrow> (DeviceClockType \<times> VdevControlType) option" where
  "device_supply_clock_vdev_mmap max_interval = (\<lambda>(dev_clock, vd). do {
     bs \<leftarrow> bf_read (rx_data vd) (VDEV_RX_SIM_TIME VDEV_SIM_INX_ME) 8;
     let vd = vd\<lparr>vdev_sim_time := (vdev_sim_time vd)(VDEV_SIM_INX_YOU := le_value bs)\<rparr>;
     (dev_clock, vd) \<leftarrow> vdev_keep_time max_interval (dev_clock, vd);
     tx \<leftarrow> bf_write (VDEV_TX_SIM_TIME VDEV_SIM_INX_ME) (le_bytes 8 (vdev_sim_time vd VDEV_SIM_INX_ME)) (tx_data vd);
     tx \<leftarrow> bf_write (VDEV_TX_SIM_TIME VDEV_SIM_INX_YOU) (le_bytes 8 (vdev_sim_time vd VDEV_SIM_INX_YOU)) tx;
     Some (dev_clock, vd\<lparr>tx_data := tx\<rparr>)
   })"

section \<open>The UDP connection: reception\<close>

definition bf_word :: "buffer \<Rightarrow> nat \<Rightarrow> u32 option" where
  "bf_word b i = map_option (\<lambda>bs. ucast (le_value bs)) (bf_read b (4 * i) 4)"

definition vdev_udp_packet_check :: "buffer \<Rightarrow> Std_ReturnType option" where
  "vdev_udp_packet_check p = do {
     head \<leftarrow> bf_read p 0 4;
     version \<leftarrow> bf_word p 1;
     ext_off \<leftarrow> bf_word p 6;
     ext_size \<leftarrow> bf_word p 7;
     Some (if head \<noteq> VDEV_RX_DATA_HEAD_HEADER then STD_E_INVALID
           else if version \<noteq> VDEV_RX_DATA_HEAD_VERSION then STD_E_INVALID
           else if ext_off \<noteq> VDEV_RX_DATA_HEAD_EXT_OFF then STD_E_INVALID
           else if ext_size \<noteq> VDEV_RX_DATA_HEAD_EXT_SIZE then STD_E_INVALID
           else STD_E_OK)
   }"

text \<open>The body of the receiver's loop: \<open>udp_comm_read\<close> returned \<open>err\<close> and left the read buffer as
  \<open>bf\<close> with \<open>len\<close> bytes received.\<close>

definition vdev_thread_do_proc :: "Std_ReturnType \<Rightarrow> buffer \<Rightarrow> nat \<Rightarrow> VdevControlType \<Rightarrow> VdevControlType option" where
  "vdev_thread_do_proc err bf len vd = do {
     let vd = vd\<lparr>read_data := bf\<rparr>;
     if err \<noteq> STD_E_OK then Some vd
     else do {
       ok \<leftarrow> vdev_udp_packet_check bf;
       if ok \<noteq> STD_E_OK then Some vd
       else do {
         bs \<leftarrow> bf_read bf 0 len;
         rg \<leftarrow> rg_write (unat (VDEV_RX_DATA_BASE - VDEV_BASE)) bs (vd_region vd);
         st \<leftarrow> bf_read bf (VDEV_RX_SIM_TIME VDEV_SIM_INX_ME) 8;
         Some (vd\<lparr>vd_region := rg, vdev_sim_time := (vdev_sim_time vd)(VDEV_SIM_INX_YOU := le_value st)\<rparr>)
       }
     }
   }"

section \<open>The UDP connection: transmission\<close>

definition send_packet :: "VdevControlType \<Rightarrow> VdevControlType option" where
  "send_packet vd = do {
     bs \<leftarrow> bf_read (write_data vd) 0 (write_len vd);
     Some (vd\<lparr>vd_sent := vd_sent vd @ [(remote_ipaddr vd, bs)]\<rparr>)
   }"

definition save_sent_time :: "int \<Rightarrow> VdevControlType \<Rightarrow> VdevControlType" where
  "save_sent_time now vd = vd\<lparr>previous_sent := now\<rparr>"

definition get_time_from_previous_sending :: "int \<Rightarrow> VdevControlType \<Rightarrow> int" where
  "get_time_from_previous_sending now vd = now - previous_sent vd"

text \<open>What the lock of the complemental sender protects in its loop, entered at the time \<open>now\<close>.\<close>

definition vdev_send_thread_do_proc :: "int \<Rightarrow> VdevControlType \<Rightarrow> VdevControlType option" where
  "vdev_send_thread_do_proc now vd =
     (if 10 * 1000000 \<le> get_time_from_previous_sending now vd
      then map_option (save_sent_time now) (send_packet vd)
      else Some vd)"

definition clear_reset_area :: "u32 \<Rightarrow> VdevControlType \<Rightarrow> VdevControlType option" where
  "clear_reset_area tx_off vd =
     (if reset_area_off vd \<noteq> 0 \<and> reset_area_size vd \<noteq> 0 then do {
        let zero = replicate (unat (reset_area_size vd)) 0;
        wd \<leftarrow> bf_write (unat (reset_area_off vd)) zero (write_data vd);
        rg \<leftarrow> rg_write (unat (tx_off + reset_area_off vd)) zero (vd_region vd);
        Some (vd\<lparr>write_data := wd, vd_region := rg\<rparr>)
      } else Some vd)"

text \<open>What the lock protects when the program sets the transmission flag.\<close>

definition vdev_udp_send :: "int \<Rightarrow> VdevControlType \<Rightarrow> VdevControlType option" where
  "vdev_udp_send now vd = do {
     let tx_off = VDEV_TX_DATA_BASE - rg_start (vd_region vd);
     body \<leftarrow> bf_read (rg_buffer (vd_region vd)) (unat (tx_off + VDEV_TX_DATA_BODY_OFF)) (unat VDEV_TX_DATA_BODY_SIZE);
     wd \<leftarrow> bf_write (unat VDEV_TX_DATA_BODY_OFF) body (write_data vd);
     wd \<leftarrow> bf_write (VDEV_TX_SIM_TIME VDEV_SIM_INX_ME) (le_bytes 8 (vdev_sim_time vd VDEV_SIM_INX_ME)) wd;
     wd \<leftarrow> bf_write (VDEV_TX_SIM_TIME VDEV_SIM_INX_YOU) (le_bytes 8 (vdev_sim_time vd VDEV_SIM_INX_YOU)) wd;
     vd \<leftarrow> send_packet (vd\<lparr>write_data := wd\<rparr>);
     vd \<leftarrow> clear_reset_area tx_off vd;
     Some (save_sent_time now vd)
   }"

section \<open>The UDP connection: registers\<close>

definition vdev_udp_get_data8 :: "u32 \<Rightarrow> VdevControlType \<Rightarrow> (Std_ReturnType \<times> u8) option" where
  "vdev_udp_get_data8 addr vd = do {
     v \<leftarrow> rg_get8 (vd_region vd) (unat (addr - rg_start (vd_region vd) + VDEV_RX_DATA_BODY_OFF));
     Some (STD_E_OK, v)
   }"

definition vdev_udp_get_data16 :: "u32 \<Rightarrow> VdevControlType \<Rightarrow> (Std_ReturnType \<times> u16) option" where
  "vdev_udp_get_data16 addr vd = do {
     v \<leftarrow> rg_get16 (vd_region vd) (unat (addr - rg_start (vd_region vd) + VDEV_RX_DATA_BODY_OFF));
     Some (STD_E_OK, v)
   }"

definition vdev_udp_get_data32 :: "u32 \<Rightarrow> VdevControlType \<Rightarrow> (Std_ReturnType \<times> u32) option" where
  "vdev_udp_get_data32 addr vd = do {
     v \<leftarrow> rg_get32 (vd_region vd) (unat (addr - rg_start (vd_region vd) + VDEV_RX_DATA_BODY_OFF));
     Some (STD_E_OK, v)
   }"

definition vdev_udp_put_data8 :: "int \<Rightarrow> u32 \<Rightarrow> u8 \<Rightarrow> VdevControlType \<Rightarrow> (Std_ReturnType \<times> VdevControlType) option" where
  "vdev_udp_put_data8 now addr data vd = do {
     rg \<leftarrow> rg_put8 (unat (addr - rg_start (vd_region vd) + VDEV_TX_DATA_BODY_OFF)) data (vd_region vd);
     let vd = vd\<lparr>vd_region := rg\<rparr>;
     if addr = VDEV_TX_FLAG 0 then do {
       vd \<leftarrow> vdev_udp_send now vd;
       Some (STD_E_OK, vd)
     } else Some (STD_E_OK, vd)
   }"

definition vdev_udp_put_data16 :: "u32 \<Rightarrow> u16 \<Rightarrow> VdevControlType \<Rightarrow> (Std_ReturnType \<times> VdevControlType) option" where
  "vdev_udp_put_data16 addr data vd = do {
     rg \<leftarrow> rg_put16 (unat (addr - rg_start (vd_region vd) + VDEV_TX_DATA_BODY_OFF)) data (vd_region vd);
     Some (STD_E_OK, vd\<lparr>vd_region := rg\<rparr>)
   }"

definition vdev_udp_put_data32 :: "u32 \<Rightarrow> u32 \<Rightarrow> VdevControlType \<Rightarrow> (Std_ReturnType \<times> VdevControlType) option" where
  "vdev_udp_put_data32 addr data vd = do {
     rg \<leftarrow> rg_put32 (unat (addr - rg_start (vd_region vd) + VDEV_TX_DATA_BODY_OFF)) data (vd_region vd);
     Some (STD_E_OK, vd\<lparr>vd_region := rg\<rparr>)
   }"

definition vdev_udp_get_pointer :: "u32 \<Rightarrow> VdevControlType \<Rightarrow> (Std_ReturnType \<times> nat) option" where
  "vdev_udp_get_pointer addr vd = do {
     p \<leftarrow> rg_pointer (vd_region vd) (unat (addr - rg_start (vd_region vd) + VDEV_TX_DATA_BODY_OFF));
     Some (STD_E_OK, p)
   }"

section \<open>The mapped memory: registers\<close>

text \<open>A buffer as a region, for the accesses of the program.\<close>

definition bf_region :: "buffer \<Rightarrow> MpuAddressRegionType" where
  "bf_region b = \<lparr>rg_start = 0, rg_size = bf_size b, rg_mask = 0, rg_data = bf_data b\<rparr>"

text \<open>What an address below \<open>VDEV_TX_DATA_BASE\<close>, and above, reads.\<close>

definition vdev_mmap_place :: "u32 \<Rightarrow> VdevControlType \<Rightarrow> MpuAddressRegionType \<times> nat" where
  "vdev_mmap_place addr vd =
     (if addr < VDEV_TX_DATA_BASE
      then (bf_region (rx_data vd), unat (addr - rg_start (vd_region vd) + VDEV_RX_DATA_BODY_OFF))
      else (bf_region (tx_data vd), unat (addr - VDEV_TX_DATA_BASE + VDEV_TX_DATA_BODY_OFF)))"

definition vdev_mmap_get_data8 :: "u32 \<Rightarrow> VdevControlType \<Rightarrow> (Std_ReturnType \<times> u8) option" where
  "vdev_mmap_get_data8 addr vd =
     do { v \<leftarrow> rg_get8 (fst (vdev_mmap_place addr vd)) (snd (vdev_mmap_place addr vd)); Some (STD_E_OK, v) }"

definition vdev_mmap_get_data16 :: "u32 \<Rightarrow> VdevControlType \<Rightarrow> (Std_ReturnType \<times> u16) option" where
  "vdev_mmap_get_data16 addr vd =
     do { v \<leftarrow> rg_get16 (fst (vdev_mmap_place addr vd)) (snd (vdev_mmap_place addr vd)); Some (STD_E_OK, v) }"

definition vdev_mmap_get_data32 :: "u32 \<Rightarrow> VdevControlType \<Rightarrow> (Std_ReturnType \<times> u32) option" where
  "vdev_mmap_get_data32 addr vd =
     do { v \<leftarrow> rg_get32 (fst (vdev_mmap_place addr vd)) (snd (vdev_mmap_place addr vd)); Some (STD_E_OK, v) }"

definition set_tx :: "MpuAddressRegionType \<Rightarrow> VdevControlType \<Rightarrow> VdevControlType" where
  "set_tx rg vd = vd\<lparr>tx_data := \<lparr>bf_size = bf_size (tx_data vd), bf_data = rg_data rg\<rparr>\<rparr>"

definition vdev_mmap_put_data8 :: "u32 \<Rightarrow> u8 \<Rightarrow> VdevControlType \<Rightarrow> (Std_ReturnType \<times> VdevControlType) option" where
  "vdev_mmap_put_data8 addr data vd =
     (if addr = VDEV_TX_FLAG 0 then Some (STD_E_OK, vd)
      else do {
        rg \<leftarrow> rg_put8 (unat (addr - VDEV_TX_DATA_BASE + VDEV_TX_DATA_BODY_OFF)) data (bf_region (tx_data vd));
        Some (STD_E_OK, set_tx rg vd)
      })"

definition vdev_mmap_put_data16 :: "u32 \<Rightarrow> u16 \<Rightarrow> VdevControlType \<Rightarrow> (Std_ReturnType \<times> VdevControlType) option" where
  "vdev_mmap_put_data16 addr data vd = do {
     rg \<leftarrow> rg_put16 (unat (addr - VDEV_TX_DATA_BASE + VDEV_TX_DATA_BODY_OFF)) data (bf_region (tx_data vd));
     Some (STD_E_OK, set_tx rg vd)
   }"

definition vdev_mmap_put_data32 :: "u32 \<Rightarrow> u32 \<Rightarrow> VdevControlType \<Rightarrow> (Std_ReturnType \<times> VdevControlType) option" where
  "vdev_mmap_put_data32 addr data vd = do {
     rg \<leftarrow> rg_put32 (unat (addr - VDEV_TX_DATA_BASE + VDEV_TX_DATA_BODY_OFF)) data (bf_region (tx_data vd));
     Some (STD_E_OK, set_tx rg vd)
   }"

definition vdev_mmap_get_pointer :: "u32 \<Rightarrow> VdevControlType \<Rightarrow> (Std_ReturnType \<times> nat) option" where
  "vdev_mmap_get_pointer addr vd = do {
     p \<leftarrow> rg_pointer (vd_region vd) (rg_off (vd_region vd) addr);
     Some (STD_E_OK, p)
   }"

section \<open>The packets of a history\<close>

text \<open>The program, the receiver, the complemental sender and the clock take turns.\<close>

datatype vdev_event =
    PutData8 int u32 u8 | PutData32 u32 u32
  | Received Std_ReturnType buffer nat | ComplementalSend int | Clock DeviceClockType

definition vdev_event :: "u64 \<Rightarrow> vdev_event \<Rightarrow> VdevControlType \<Rightarrow> VdevControlType option" where
  "vdev_event max_interval e vd = (case e of
     PutData8 now addr v \<Rightarrow> map_option snd (vdev_udp_put_data8 now addr v vd)
   | PutData32 addr v \<Rightarrow> map_option snd (vdev_udp_put_data32 addr v vd)
   | Received err bf len \<Rightarrow> vdev_thread_do_proc err bf len vd
   | ComplementalSend now \<Rightarrow> if enable_complemental_send vd \<noteq> 0 then vdev_send_thread_do_proc now vd else Some vd
   | Clock dev_clock \<Rightarrow> map_option snd (device_supply_clock_vdev_udp max_interval (dev_clock, vd)))"

end
