(* ===== verification/V850_Vdev_Correct.thy ===== *)
theory V850_Vdev_Correct
  imports V850_Vdev V850_Serial_Correct
begin

unbundle bit_operations_syntax

text \<open>
  The virtual devices (\<open>V850_Vdev\<close>): every packet sent is well formed in every history, what a packet
  carries, and the bound that keeps the clock behind the environment.
\<close>

section \<open>Buffers\<close>

lemma length_bf_read: "bf_read b p n = Some bs \<Longrightarrow> length bs = n"
  by (auto simp: bf_read_def split: if_splits)

lemma bf_write_frame: "bf_write p bs b = Some b' \<Longrightarrow> bf_size b' = bf_size b \<and> p + length bs \<le> bf_size b"
  by (auto simp: bf_write_def split: if_splits)

lemma bf_read_same: "bf_write p bs b = Some b' \<Longrightarrow> bf_read b' p (length bs) = Some bs"
  by (auto simp: bf_write_def bf_read_def intro!: nth_equalityI split: if_splits)

lemma bf_read_other:
  "bf_write p bs b = Some b' \<Longrightarrow> q + n \<le> p \<or> p + length bs \<le> q \<Longrightarrow> bf_read b' q n = bf_read b q n"
  by (auto simp: bf_write_def bf_read_def split: if_splits)

lemma bf_read_part:
  "bf_read b p n = Some bs \<Longrightarrow> k + m \<le> n \<Longrightarrow> bf_read b (p + k) m = Some (take m (drop k bs))"
  by (auto simp: bf_read_def take_map drop_map intro!: arg_cong [where f = "map _"] nth_equalityI split: if_splits)

section \<open>Bytes and words\<close>

lemma le_bytes_Suc: "le_bytes (Suc n) v = ucast v # le_bytes n (drop_bit 8 v)"
  by (simp add: le_bytes_def map_upt_Suc add.commute del: upt_Suc)

lemma le_bytes_0 [simp]: "le_bytes 0 v = []"
  by (simp add: le_bytes_def)

lemma length_le_bytes [simp]: "length (le_bytes n v) = n"
  by (simp add: le_bytes_def)

lemma le_value_bytes: "le_value (le_bytes n v) = take_bit (8 * n) v"
proof (induction n arbitrary: v)
  case (Suc n)
  show ?case
    unfolding le_bytes_Suc le_value.simps Suc
    by (rule bit_word_eqI) (auto simp: bit_or_iff bit_push_bit_iff bit_take_bit_iff bit_drop_bit_eq bit_ucast_iff not_less)
qed simp

lemma le_value_8: "le_value (le_bytes 8 v) = v"
  by (simp add: le_value_bytes take_bit_length_eq [where 'a = 64, simplified])

section \<open>The packets that are sent\<close>

text \<open>The format of a packet: 1024 bytes that start with the header of \<open>VdevTxDataHeadType\<close>.\<close>

definition packet_ok :: "u8 list \<Rightarrow> bool" where
  "packet_ok bs \<longleftrightarrow> length bs = 1024 \<and> take 4 bs = VDEV_TX_DATA_HEAD_HEADER
     \<and> take 4 (drop 4 bs) = le_bytes 4 (ucast VDEV_TX_DATA_HEAD_VERSION)
     \<and> take 4 (drop 24 bs) = le_bytes 4 (ucast VDEV_TX_DATA_HEAD_EXT_OFF)
     \<and> take 4 (drop 28 bs) = le_bytes 4 (ucast VDEV_TX_DATA_HEAD_EXT_SIZE)"

text \<open>The header in the buffer of the connection, and the state that keeps it.\<close>

definition head_ok :: "buffer \<Rightarrow> bool" where
  "head_ok b \<longleftrightarrow> 1024 \<le> bf_size b \<and> bf_read b 0 4 = Some VDEV_TX_DATA_HEAD_HEADER
     \<and> bf_read b 4 4 = Some (le_bytes 4 (ucast VDEV_TX_DATA_HEAD_VERSION))
     \<and> bf_read b 24 4 = Some (le_bytes 4 (ucast VDEV_TX_DATA_HEAD_EXT_OFF))
     \<and> bf_read b 28 4 = Some (le_bytes 4 (ucast VDEV_TX_DATA_HEAD_EXT_SIZE))"

definition reset_ok :: "VdevControlType \<Rightarrow> bool" where
  "reset_ok vd \<longleftrightarrow> (reset_area_off vd = 0 \<or> reset_area_size vd = 0 \<or> 32 \<le> unat (reset_area_off vd))"

definition vdev_ok :: "VdevControlType \<Rightarrow> bool" where
  "vdev_ok vd \<longleftrightarrow> head_ok (write_data vd) \<and> write_len vd = 1024 \<and> reset_ok vd \<and> (\<forall>p \<in> set (vd_sent vd). packet_ok (snd p))"

lemma head_ok_write:
  assumes "head_ok b" and "bf_write p bs b = Some b'" and "8 \<le> p" and "p + length bs \<le> 24 \<or> 32 \<le> p"
  shows "head_ok b'"
proof -
  have "bf_read b' q 4 = bf_read b q 4" if "q \<in> {0, 4, 24, 28}" for q
    using bf_read_other [OF assms(2), of q 4] that assms(3,4) by auto
  with assms(1) bf_write_frame [OF assms(2)] show ?thesis by (simp add: head_ok_def)
qed

lemma head_ok_packet:
  assumes "head_ok b" and "bf_read b 0 1024 = Some bs"
  shows "packet_ok bs"
proof -
  have "bf_read b q 4 = Some (take 4 (drop q bs))" if "q + 4 \<le> 1024" for q
    using bf_read_part [OF assms(2), of q 4] that by simp
  from this [of 0] this [of 4] this [of 24] this [of 28] assms(1) length_bf_read [OF assms(2)] show ?thesis
    by (simp add: head_ok_def packet_ok_def)
qed

lemma tx_head_ok:
  assumes "bf_write 0 tx_head b = Some b'" and "1024 \<le> bf_size b"
  shows "head_ok b'"
proof -
  have l: "length tx_head = 32" by (simp add: tx_head_def vdev_consts)
  have "bf_read b' q 4 = Some (take 4 (drop q tx_head))" if "q + 4 \<le> 32" for q
    using bf_read_part [OF bf_read_same [OF assms(1)], of q 4] that l by simp
  from this [of 0] this [of 4] this [of 24] this [of 28] bf_write_frame [OF assms(1)] assms(2) show ?thesis
    by (simp add: head_ok_def tx_head_def VDEV_TX_DATA_HEAD_HEADER_def)
qed

lemma send_packet_ok:
  assumes "send_packet vd = Some vd'" and "vdev_ok vd"
  shows "vdev_ok vd'"
proof -
  obtain bs where bs: "bf_read (write_data vd) 0 1024 = Some bs" "vd' = vd\<lparr>vd_sent := vd_sent vd @ [(remote_ipaddr vd, bs)]\<rparr>"
    using assms by (auto simp: send_packet_def bind_eq_Some_conv vdev_ok_def)
  with assms(2) head_ok_packet [OF _ bs(1)] show ?thesis by (simp add: vdev_ok_def reset_ok_def ball_Un)
qed

lemma send_packet_frame:
  "send_packet vd = Some vd' \<Longrightarrow> vd_region vd' = vd_region vd \<and> write_data vd' = write_data vd
     \<and> reset_area_off vd' = reset_area_off vd \<and> reset_area_size vd' = reset_area_size vd"
  by (auto simp: send_packet_def bind_eq_Some_conv)

lemma clear_reset_ok:
  assumes "clear_reset_area off vd = Some vd'" and "vdev_ok vd"
  shows "vdev_ok vd'"
proof (cases "reset_area_off vd \<noteq> 0 \<and> reset_area_size vd \<noteq> 0")
  case True
  then obtain wd rg where wd: "bf_write (unat (reset_area_off vd)) (replicate (unat (reset_area_size vd)) 0) (write_data vd) = Some wd"
    "vd' = vd\<lparr>write_data := wd, vd_region := rg\<rparr>"
    using assms(1) by (auto simp: clear_reset_area_def bind_eq_Some_conv Let_def)
  have "32 \<le> unat (reset_area_off vd)" using assms(2) True by (simp add: vdev_ok_def reset_ok_def)
  with head_ok_write [OF _ wd(1)] assms(2) wd(2) show ?thesis by (simp add: vdev_ok_def reset_ok_def)
next
  case False
  with assms show ?thesis by (auto simp: clear_reset_area_def)
qed

lemma udp_send_ok:
  assumes "vdev_udp_send now vd = Some vd'" and "vdev_ok vd"
  shows "vdev_ok vd'"
proof -
  obtain body w0 w1 w2 v1 v2 where w:
    "bf_write (unat VDEV_TX_DATA_BODY_OFF) body (write_data vd) = Some w0"
    "bf_write (VDEV_TX_SIM_TIME VDEV_SIM_INX_ME) (le_bytes 8 (vdev_sim_time vd VDEV_SIM_INX_ME)) w0 = Some w1"
    "bf_write (VDEV_TX_SIM_TIME VDEV_SIM_INX_YOU) (le_bytes 8 (vdev_sim_time vd VDEV_SIM_INX_YOU)) w1 = Some w2"
    and v: "send_packet (vd\<lparr>write_data := w2\<rparr>) = Some v1"
    "clear_reset_area (VDEV_TX_DATA_BASE - rg_start (vd_region vd)) v1 = Some v2" "vd' = save_sent_time now v2"
    using assms(1) unfolding vdev_udp_send_def Let_def bind_eq_Some_conv by blast
  have "head_ok w0" using head_ok_write [OF _ w(1)] assms(2) by (simp add: vdev_ok_def vdev_consts)
  then have "head_ok w1" using head_ok_write [OF _ w(2)] by (simp add: vdev_consts)
  then have "head_ok w2" using head_ok_write [OF _ w(3)] by (simp add: vdev_consts)
  then have "vdev_ok (vd\<lparr>write_data := w2\<rparr>)" using assms(2) by (simp add: vdev_ok_def reset_ok_def)
  then have "vdev_ok v2" using send_packet_ok [OF v(1)] clear_reset_ok [OF v(2)] by blast
  then show ?thesis by (simp add: v(3) save_sent_time_def vdev_ok_def reset_ok_def)
qed

lemma vdev_ok_irrelevant [simp]:
  "vdev_ok (vd\<lparr>vd_region := rg\<rparr>) = vdev_ok vd" "vdev_ok (vd\<lparr>read_data := bf\<rparr>) = vdev_ok vd"
  "vdev_ok (vd\<lparr>vdev_sim_time := t\<rparr>) = vdev_ok vd" "vdev_ok (vd\<lparr>previous_sent := now\<rparr>) = vdev_ok vd"
  by (simp_all add: vdev_ok_def reset_ok_def)

lemma vdev_event_ok: "vdev_event m e vd = Some vd' \<Longrightarrow> vdev_ok vd \<Longrightarrow> vdev_ok vd'"
  by (cases e)
    (auto simp: vdev_event_def vdev_udp_put_data8_def vdev_udp_put_data32_def vdev_thread_do_proc_def bind_eq_Some_conv Let_def
      vdev_send_thread_do_proc_def device_supply_clock_vdev_udp_def vdev_keep_time_def save_sent_time_def
      dest: udp_send_ok send_packet_ok split: if_splits)

lemma vdev_events_ok: "for_each (vdev_event m) es vd = Some vd' \<Longrightarrow> vdev_ok vd \<Longrightarrow> vdev_ok vd'"
  by (induction es arbitrary: vd) (auto simp: bind_eq_Some_conv dest: vdev_event_ok)

lemma init_udp_ok:
  assumes "device_init_vdev_udp ve vd = Some vd'" and "1024 \<le> bf_size (write_data vd)" and "vd_sent vd = []" and "reset_ok vd'"
  shows "vdev_ok vd'"
proof -
  obtain wd where "bf_write 0 tx_head (write_data vd) = Some wd" "write_data vd' = wd" "write_len vd' = 1024" "vd_sent vd' = vd_sent vd"
    using assms(1) by (auto simp: device_init_vdev_udp_def Let_def bind_eq_Some_conv vdev_consts)
  with assms(2-4) tx_head_ok [of "write_data vd" wd] show ?thesis by (simp add: vdev_ok_def)
qed

text \<open>C15: Every packet that leaves the virtual device is well formed. From the initialisation of the UDP
  connection on, however the program's writes, the receiver, the complemental sender and the
  clock take turns, each packet handed to \<open>udp_comm_remote_write\<close> has 1024 bytes and starts with
  the header of \<open>VdevTxDataHeadType\<close> (ETTX, version 1, extension at 512 of 512 bytes), provided the
  configured reset area does not start inside the header.\<close>

theorem vdev_packets:
  assumes "device_init_vdev_udp ve vd = Some vd0" and "1024 \<le> bf_size (write_data vd)" and "vd_sent vd = []"
    and "reset_ok vd0" and "for_each (vdev_event max_interval) es vd0 = Some vd'"
  shows "\<forall>p \<in> set (vd_sent vd'). packet_ok (snd p)"
  using vdev_events_ok [OF assms(5) init_udp_ok [OF assms(1-4)]] by (simp add: vdev_ok_def)

section \<open>The contents of a packet\<close>

lemma transmit:
  assumes "vdev_udp_send now vd = Some vd'" and "write_len vd = 1024"
  obtains bs where "vd_sent vd' = vd_sent vd @ [(remote_ipaddr vd, bs)]"
    "le_value (take 8 (drop 8 bs)) = vdev_sim_time vd VDEV_SIM_INX_ME"
    "le_value (take 8 (drop 16 bs)) = vdev_sim_time vd VDEV_SIM_INX_YOU"
    "bf_read (rg_buffer (vd_region vd)) (unat (VDEV_TX_DATA_BASE - rg_start (vd_region vd) + VDEV_TX_DATA_BODY_OFF)) 992 = Some (drop 32 bs)"
    "previous_sent vd' = now"
proof -
  obtain body w0 w1 w2 v1 v2 where w:
    "bf_read (rg_buffer (vd_region vd)) (unat (VDEV_TX_DATA_BASE - rg_start (vd_region vd) + VDEV_TX_DATA_BODY_OFF)) (unat VDEV_TX_DATA_BODY_SIZE) = Some body"
    "bf_write (unat VDEV_TX_DATA_BODY_OFF) body (write_data vd) = Some w0"
    "bf_write (VDEV_TX_SIM_TIME VDEV_SIM_INX_ME) (le_bytes 8 (vdev_sim_time vd VDEV_SIM_INX_ME)) w0 = Some w1"
    "bf_write (VDEV_TX_SIM_TIME VDEV_SIM_INX_YOU) (le_bytes 8 (vdev_sim_time vd VDEV_SIM_INX_YOU)) w1 = Some w2"
    and v: "send_packet (vd\<lparr>write_data := w2\<rparr>) = Some v1"
    "clear_reset_area (VDEV_TX_DATA_BASE - rg_start (vd_region vd)) v1 = Some v2" "vd' = save_sent_time now v2"
    using assms(1) unfolding vdev_udp_send_def Let_def bind_eq_Some_conv by blast
  obtain bs where bs: "bf_read w2 0 1024 = Some bs" "vd_sent v1 = vd_sent vd @ [(remote_ipaddr vd, bs)]"
    using v(1) assms(2) by (auto simp: send_packet_def bind_eq_Some_conv)
  have part: "bf_read w2 q n = Some (take n (drop q bs))" if "q + n \<le> 1024" for q n
    using bf_read_part [OF bs(1), of q n] that by simp
  have l: "length body = 992" using length_bf_read [OF w(1)] by (simp add: vdev_consts)
  have "bf_read w2 8 8 = Some (le_bytes 8 (vdev_sim_time vd VDEV_SIM_INX_ME))"
    using bf_read_other [OF w(4), of 8 8] bf_read_same [OF w(3)] by (simp add: vdev_consts)
  moreover have "bf_read w2 16 8 = Some (le_bytes 8 (vdev_sim_time vd VDEV_SIM_INX_YOU))"
    using bf_read_same [OF w(4)] by (simp add: vdev_consts)
  moreover have "bf_read w2 32 992 = Some body"
    using bf_read_other [OF w(4), of 32 992] bf_read_other [OF w(3), of 32 992] bf_read_same [OF w(2)] l
    by (simp add: vdev_consts)
  moreover have "length bs = 1024" by (rule length_bf_read [OF bs(1)])
  ultimately have "take 8 (drop 8 bs) = le_bytes 8 (vdev_sim_time vd VDEV_SIM_INX_ME)"
    "take 8 (drop 16 bs) = le_bytes 8 (vdev_sim_time vd VDEV_SIM_INX_YOU)" "drop 32 bs = body"
    using part [of 8 8] part [of 16 8] part [of 32 992] by simp_all
  moreover have "vd_sent vd' = vd_sent v1"
    using v(2,3) by (auto simp: clear_reset_area_def save_sent_time_def bind_eq_Some_conv Let_def split: if_splits)
  ultimately show thesis
    using that [of bs] bs(2) w(1) v(3) by (simp add: le_value_8 save_sent_time_def vdev_consts)
qed

text \<open>C35: What a packet carries. When the program writes the transmission flag, one packet is sent: the
  receiver that decodes its two time fields finds the simulation times of the machine and of
  the environment, and its body is the transmission area of the program's memory.\<close>

theorem vdev_transmits:
  assumes "vdev_udp_put_data8 now (VDEV_TX_FLAG 0) v vd = Some (STD_E_OK, vd')" and "write_len vd = 1024"
    and "rg_start (vd_region vd) = VDEV_BASE"
  shows "\<exists>bs. vd_sent vd' = vd_sent vd @ [(remote_ipaddr vd, bs)]
    \<and> le_value (take 8 (drop 8 bs)) = vdev_sim_time vd VDEV_SIM_INX_ME
    \<and> le_value (take 8 (drop 16 bs)) = vdev_sim_time vd VDEV_SIM_INX_YOU
    \<and> drop 32 bs = map (rg_data (vd_region vd)) [0x1020..<0x1400] \<and> previous_sent vd' = now"
proof -
  obtain rg where rg: "rg_put8 (unat (VDEV_TX_FLAG 0 - rg_start (vd_region vd) + VDEV_TX_DATA_BODY_OFF)) v (vd_region vd) = Some rg"
    "vdev_udp_send now (vd\<lparr>vd_region := rg\<rparr>) = Some vd'"
    using assms(1) by (auto simp: vdev_udp_put_data8_def bind_eq_Some_conv Let_def)
  have frame: "rg_start rg = VDEV_BASE" "rg_data rg = (rg_data (vd_region vd))(0x2020 := v)"
    using rg(1) assms(3) by (auto simp: rg_put8_def vdev_consts split: if_splits)
  have body: "map (rg_data rg) [0x1020..<0x1400] = map (rg_data (vd_region vd)) [0x1020..<0x1400]"
    unfolding frame(2) by (rule map_cong [OF refl]) (simp del: upt_rec_numeral)
  have off: "unat (VDEV_TX_DATA_BASE - rg_start rg + VDEV_TX_DATA_BODY_OFF) = 0x1020" by (simp add: frame(1) vdev_consts)
  have len: "write_len (vd\<lparr>vd_region := rg\<rparr>) = 1024" using assms(2) by simp
  obtain bs where bs: "vd_sent vd' = vd_sent vd @ [(remote_ipaddr vd, bs)]"
    "le_value (take 8 (drop 8 bs)) = vdev_sim_time vd VDEV_SIM_INX_ME"
    "le_value (take 8 (drop 16 bs)) = vdev_sim_time vd VDEV_SIM_INX_YOU"
    "bf_read (rg_buffer rg) 0x1020 992 = Some (drop 32 bs)" "previous_sent vd' = now"
    using transmit [OF rg(2) len] by (auto simp: off)
  have "0x1020 + 992 = (0x1400 :: nat)" by simp
  then have "drop 32 bs = map (rg_data rg) [0x1020..<0x1400]"
    using bs(4) by (simp only: bf_read_def rg_buffer_def buffer.simps option.inject option.distinct split: if_splits)
  then have "drop 32 bs = map (rg_data (vd_region vd)) [0x1020..<0x1400]" using body by (rule trans)
  with bs(1-3,5) show ?thesis by blast
qed

section \<open>Keeping time\<close>

text \<open>C36: The clock never runs ahead of the environment. When the time of the environment is known and
  clocks may be skipped, the bound on skipped clocks ends at most at that time, or is at most 2
  when the machine is not behind it; it is never raised, and the machine's own time is the clock
  divided by the frequency.\<close>

theorem vdev_time_bound:
  assumes "device_supply_clock_vdev_udp max_interval (dev, vd) = Some (dev', vd')"
    and "min_intr_interval dev \<noteq> max_interval"
    and "vdev_sim_time vd VDEV_SIM_INX_YOU * ucast (cpu_freq vd) = t" and "t \<noteq> 0"
  shows "min_intr_interval dev' \<le> min_intr_interval dev \<and> clock dev' = clock dev
    \<and> (if clock dev < t then unat (clock dev) + unat (min_intr_interval dev') \<le> unat t else min_intr_interval dev' \<le> 2)
    \<and> vdev_sim_time vd' VDEV_SIM_INX_ME = clock dev div ucast (cpu_freq vd)"
proof -
  have sub: "unat (clock dev) + unat (t - clock dev) = unat t" if "clock dev < t"
    using that by (simp add: unat_sub order_less_imp_le word_less_nat_alt)
  show ?thesis
    using assms sub
    by (auto simp: device_supply_clock_vdev_udp_def vdev_keep_time_def Let_def bind_eq_Some_conv not_less
        word_le_nat_alt word_less_nat_alt split: if_splits)
qed

section \<open>A connection\<close>

definition sample_vdev :: VdevControlType where
  "sample_vdev = \<lparr>is_wait = True, client_port = 0, server_port = 0,
     vd_region = \<lparr>rg_start = VDEV_BASE, rg_size = 0x100000, rg_mask = 0xFFFFFFFF, rg_data = (\<lambda>_. 0)\<rparr>,
     cpu_freq = 100, vdev_sim_time = (\<lambda>i. if i = 1 then 50 else 0), write_data = \<lparr>bf_size = 1024, bf_data = (\<lambda>_. 0)\<rparr>, write_len = 0,
     read_data = \<lparr>bf_size = 1024, bf_data = (\<lambda>_. 0)\<rparr>, remote_ipaddr = [], local_ipaddr = [],
     tx_data_addr = 0, tx_data = \<lparr>bf_size = 0, bf_data = (\<lambda>_. 0)\<rparr>, rx_data_addr = 0, rx_data = \<lparr>bf_size = 0, bf_data = (\<lambda>_. 0)\<rparr>,
     enable_complemental_send = 0, reset_area_off = 0, reset_area_size = 0, previous_sent = 0, vd_sent = []\<rparr>"

definition sample_vdev_env :: vdev_env where
  "sample_vdev_env = \<lparr>ve_cfg = \<lparr>cfg_value = (\<lambda>n. if n = ''DEBUG_FUNC_VDEV_TX_PORTNO'' \<or> n = ''DEBUG_FUNC_VDEV_RX_PORTNO'' then Some 54001 else None),
       cfg_string = (\<lambda>_. None)\<rparr>, ve_cfg_hex = (\<lambda>_. None), ve_comm_create = (\<lambda>_ _ _. STD_E_OK), ve_threads = STD_E_OK,
     ve_get_ram = (\<lambda>_. None)\<rparr>"

lemma init_udp_frame:
  assumes "device_init_vdev_udp ve vd = Some vd'"
  shows "write_len vd' = 1024" "vd_region vd' = vd_region vd" "bf_size (write_data vd') = bf_size (write_data vd)"
    "reset_area_off vd' = devcfg_value (ve_cfg ve) ''DEVICE_CONFIG_RESET_AREA_OFFSET'' (reset_area_off vd)"
  using assms by (auto simp: device_init_vdev_udp_def Let_def bind_eq_Some_conv vdev_consts dest: bf_write_frame)

lemma sample_init:
  obtains vd where "device_init_vdev_udp sample_vdev_env sample_vdev = Some vd"
proof -
  have l: "length tx_head = 32" by (simp add: tx_head_def vdev_consts)
  show thesis
    using that by (simp add: device_init_vdev_udp_def sample_vdev_env_def sample_vdev_def check_def bf_write_def l devcfg_value_def)
qed

lemma send_defined:
  assumes "bf_size (write_data vd) = 1024" and "write_len vd = 1024" and "reset_area_off vd = 0"
    and "rg_start (vd_region vd) = VDEV_BASE" and "rg_size (vd_region vd) = 0x100000"
  shows "\<exists>vd'. vdev_udp_put_data8 now (VDEV_TX_FLAG 0) v vd = Some (STD_E_OK, vd')"
  using assms
  by (simp add: vdev_udp_put_data8_def vdev_udp_send_def rg_put8_def bf_read_def bf_write_def rg_buffer_def Let_def send_packet_def
      clear_reset_area_def vdev_consts del: upt_rec_numeral)

lemma vdev_packets_witness:
  "\<exists>vd0 vd'. device_init_vdev_udp sample_vdev_env sample_vdev = Some vd0
     \<and> for_each (vdev_event 99) [PutData8 5 (VDEV_TX_FLAG 0) 1] vd0 = Some vd' \<and> list_all (\<lambda>p. packet_ok (snd p)) (vd_sent vd')"
proof -
  obtain vd0 where init: "device_init_vdev_udp sample_vdev_env sample_vdev = Some vd0" by (rule sample_init)
  note vd0 = init init_udp_frame [OF init]
  have off: "reset_area_off vd0 = 0" by (simp add: vd0(5) sample_vdev_env_def sample_vdev_def devcfg_value_def)
  have size: "bf_size (write_data vd0) = 1024" by (simp add: vd0(4) sample_vdev_def)
  obtain vd' where "vdev_udp_put_data8 5 (VDEV_TX_FLAG 0) 1 vd0 = Some (STD_E_OK, vd')"
    using send_defined [OF size vd0(2) off] vd0(3) by (auto simp: sample_vdev_def)
  then have e: "for_each (vdev_event 99) [PutData8 5 (VDEV_TX_FLAG 0) 1] vd0 = Some vd'" by (simp add: vdev_event_def)
  have "\<forall>p \<in> set (vd_sent vd'). packet_ok (snd p)"
    by (rule vdev_packets [OF vd0(1) _ _ _ e]) (simp_all add: sample_vdev_def reset_ok_def off)
  then show ?thesis using vd0(1) e by (auto simp: list_all_iff)
qed

lemma vdev_transmits_witness:
  "\<exists>vd vd' p. vdev_udp_put_data8 5 (VDEV_TX_FLAG 0) 1 vd = Some (STD_E_OK, vd') \<and> vd_sent vd' = [p] \<and> le_value (take 8 (drop 16 (snd p))) = 50"
proof -
  let ?vd = "sample_vdev\<lparr>write_len := 1024\<rparr>"
  obtain vd' where vd': "vdev_udp_put_data8 5 (VDEV_TX_FLAG 0) 1 ?vd = Some (STD_E_OK, vd')"
    using send_defined [of ?vd 5 1] by (auto simp: sample_vdev_def)
  with vdev_transmits [OF vd'] show ?thesis
    by (fastforce simp: sample_vdev_def VDEV_SIM_INX_YOU_def simp del: upt_rec_numeral)
qed

lemma vdev_time_bound_witness:
  "\<exists>dev' vd'. device_supply_clock_vdev_udp 99 (\<lparr>clock = 4900, intclock = 0, min_intr_interval = 500, can_skip_clock = True,
      dev_is_halt = False\<rparr>, sample_vdev) = Some (dev', vd') \<and> 4900 + unat (min_intr_interval dev') \<le> 5000"
proof -
  let ?dev = "\<lparr>clock = 4900, intclock = 0, min_intr_interval = 500, can_skip_clock = True, dev_is_halt = False\<rparr>"
  obtain dev' vd' where r: "device_supply_clock_vdev_udp 99 (?dev, sample_vdev) = Some (dev', vd')"
    by (simp add: device_supply_clock_vdev_udp_def vdev_keep_time_def check_def sample_vdev_def Let_def vdev_consts)
  have t: "vdev_sim_time sample_vdev VDEV_SIM_INX_YOU * ucast (cpu_freq sample_vdev) = 5000"
    by (simp add: sample_vdev_def VDEV_SIM_INX_YOU_def)
  show ?thesis using vdev_time_bound [OF r _ t] r by auto
qed

end
