(* ===== verification/V850_Can.thy ===== *)
theory V850_Can
  imports V850_Region
begin

unbundle bit_operations_syntax

text \<open>
  The virtual CAN interface, which carries messages between the program and ROS topics:
  \<open>src/device/peripheral/can/can.c\<close> and \<open>src/device/peripheral/inc/can.h\<close>.

  The tables of publishers and subscribers are lists, an entry \<open>None\<close> while uninitialised. A
  publisher and a subscriber of the Athrill core are their topic identifiers. \<open>mpu_get_pointer\<close> is
  an argument: \<open>cm_load\<close> and \<open>cm_store\<close> are what reading and writing through the pointer it gives
  for an address do, \<open>None\<close> where it gives none. \<open>can_published\<close> are the calls of
  \<open>ros_topic_publish\<close>. A failed \<open>ASSERT\<close> is \<open>None\<close>. Messages are left out.
\<close>

section \<open>can.h\<close>

definition VCAN_RX_DATA_BASE :: u32 where "VCAN_RX_DATA_BASE = 0x08FF0000"
definition VCAN_RX_FLAG_BASE :: u32 where "VCAN_RX_FLAG_BASE = 0x08FF1000"
definition VCAN_TX_DATA_BASE :: u32 where "VCAN_TX_DATA_BASE = 0x08FF2000"
definition VCAN_TX_FLAG_BASE :: u32 where "VCAN_TX_FLAG_BASE = 0x08FF3000"
definition VCAN_TX_FLAG_SIZE :: u32 where "VCAN_TX_FLAG_SIZE = 0x1000"
definition VCAN_MAX_MBOX_NUM :: u32 where "VCAN_MAX_MBOX_NUM = 1024"
definition VCAN_RX_DATA_0 :: "u32 \<Rightarrow> u32" where "VCAN_RX_DATA_0 mbox = VCAN_RX_DATA_BASE + (8 * mbox + 0)"
definition VCAN_RX_DATA_1 :: "u32 \<Rightarrow> u32" where "VCAN_RX_DATA_1 mbox = VCAN_RX_DATA_BASE + (8 * mbox + 4)"
definition VCAN_RX_FLAG :: "u32 \<Rightarrow> u32" where "VCAN_RX_FLAG mbox = VCAN_RX_FLAG_BASE + mbox"
definition VCAN_TX_DATA_0 :: "u32 \<Rightarrow> u32" where "VCAN_TX_DATA_0 mbox = VCAN_TX_DATA_BASE + (8 * mbox + 0)"
definition VCAN_TX_DATA_1 :: "u32 \<Rightarrow> u32" where "VCAN_TX_DATA_1 mbox = VCAN_TX_DATA_BASE + (8 * mbox + 4)"

lemmas can_consts = VCAN_RX_DATA_BASE_def VCAN_RX_FLAG_BASE_def VCAN_TX_DATA_BASE_def VCAN_TX_FLAG_BASE_def
  VCAN_TX_FLAG_SIZE_def VCAN_MAX_MBOX_NUM_def VCAN_RX_DATA_0_def VCAN_RX_DATA_1_def VCAN_RX_FLAG_def
  VCAN_TX_DATA_0_def VCAN_TX_DATA_1_def

section \<open>State\<close>

record pub_req =
  pub_topic_name :: string
  pub_topic :: "int option"

record sub_req =
  sub_topic_name :: string
  sub_topic :: "int option"

record 'm can_state =
  mros_pub_req_num :: u32
  pub_req_table :: "pub_req option list"
  mros_sub_req_num :: u32
  sub_req_table :: "sub_req option list"
  can_region :: MpuAddressRegionType
  can_memory :: 'm
  can_published :: "(int option \<times> u32 \<times> u32) list"

record 'm can_env =
  ce_cfg :: devcfg
  cm_load :: "u32 \<Rightarrow> nat \<Rightarrow> 'm \<Rightarrow> u8 list option"
  cm_store :: "u32 \<Rightarrow> u8 list \<Rightarrow> 'm \<Rightarrow> 'm option"
  pub_register :: "pub_req option list \<Rightarrow> u32 \<Rightarrow> pub_req option list option"
  sub_register :: "sub_req option list \<Rightarrow> u32 \<Rightarrow> sub_req option list option"

section \<open>Configuration\<close>

fun decimal :: "nat \<Rightarrow> string" where
  "decimal n = (if n < 10 then [char_of (48 + n)] else decimal (n div 10) @ [char_of (48 + n mod 10)])"

declare decimal.simps [simp del]

text \<open>The names of the topics, up to the first parameter that is missing.\<close>

fun can_topics :: "devcfg \<Rightarrow> string \<Rightarrow> nat \<Rightarrow> nat \<Rightarrow> string option list" where
  "can_topics cfg fmt i 0 = []"
| "can_topics cfg fmt i (Suc n) =
     (case cfg_string cfg (fmt @ decimal i) of
        None \<Rightarrow> replicate (Suc n) None
      | Some t \<Rightarrow> Some t # can_topics cfg fmt (Suc i) n)"

definition device_parse_can_config_pub :: "'m can_env \<Rightarrow> 'm can_state \<Rightarrow> 'm can_state" where
  "device_parse_can_config_pub ce st =
     (case cfg_value (ce_cfg ce) ''DEBUG_FUNC_MROS_TOPIC_PUB_NUM'' of
        None \<Rightarrow> st
      | Some param_num \<Rightarrow> st\<lparr>mros_pub_req_num := param_num,
          pub_req_table := map (map_option (\<lambda>t. \<lparr>pub_topic_name = t, pub_topic = None\<rparr>))
            (can_topics (ce_cfg ce) ''DEBUG_FUNC_MROS_TOPIC_PUB_'' 0 (unat param_num))\<rparr>)"

definition device_parse_can_config_sub :: "'m can_env \<Rightarrow> 'm can_state \<Rightarrow> 'm can_state" where
  "device_parse_can_config_sub ce st =
     (case cfg_value (ce_cfg ce) ''DEBUG_FUNC_MROS_TOPIC_SUB_NUM'' of
        None \<Rightarrow> st
      | Some param_num \<Rightarrow> st\<lparr>mros_sub_req_num := param_num,
          sub_req_table := map (map_option (\<lambda>t. \<lparr>sub_topic_name = t, sub_topic = None\<rparr>))
            (can_topics (ce_cfg ce) ''DEBUG_FUNC_MROS_TOPIC_SUB_'' 0 (unat param_num))\<rparr>)"

text \<open>The registrations of the Athrill core fill in the topics, or fail.\<close>

definition device_init_can :: "'m can_env \<Rightarrow> MpuAddressRegionType \<Rightarrow> 'm can_state \<Rightarrow> 'm can_state" where
  "device_init_can ce region st =
     (let st = device_parse_can_config_sub ce (device_parse_can_config_pub ce (st\<lparr>can_region := region\<rparr>))
      in case pub_register ce (pub_req_table st) (mros_pub_req_num st) of
        None \<Rightarrow> st
      | Some t \<Rightarrow>
          let st = st\<lparr>pub_req_table := t\<rparr>
          in case sub_register ce (sub_req_table st) (mros_sub_req_num st) of
            None \<Rightarrow> st
          | Some t \<Rightarrow> st\<lparr>sub_req_table := t\<rparr>)"

section \<open>Messages to the program\<close>

definition cm_load32 :: "'m can_env \<Rightarrow> u32 \<Rightarrow> 'm \<Rightarrow> u32 option" where
  "cm_load32 ce addr m = do {
     bs \<leftarrow> cm_load ce addr 4 m;
     check (length bs = 4);
     Some (ucast (bs ! 0) OR push_bit 8 (ucast (bs ! 1)) OR push_bit 16 (ucast (bs ! 2)) OR push_bit 24 (ucast (bs ! 3)))
   }"

text \<open>The message is copied before its length is cut to the size of the program's buffer.\<close>

definition topic_callback_common :: "'m can_env \<Rightarrow> u8 list \<Rightarrow> u32 \<Rightarrow> u32 \<Rightarrow> u32 \<Rightarrow> 'm \<Rightarrow> 'm option" where
  "topic_callback_common ce data rx_data_addr rx_datalen_addr rx_flag_addr m = do {
     tmp_data \<leftarrow> cm_load32 ce rx_data_addr m;
     tmp_datalen \<leftarrow> cm_load32 ce rx_datalen_addr m;
     if tmp_datalen = 0 then Some m
     else do {
       m \<leftarrow> cm_store ce tmp_data data m;
       tmp_datalen \<leftarrow> cm_load32 ce rx_datalen_addr m;
       let copylen = (if tmp_datalen < of_nat (length data) then tmp_datalen else of_nat (length data));
       m \<leftarrow> cm_store ce (tmp_data + (if copylen < tmp_datalen then copylen else copylen - 1)) [0] m;
       cm_store ce rx_flag_addr [1] m
     }
   }"

text \<open>The first subscription with the topic of the message; an uninitialised entry is \<open>None\<close> for the call.\<close>

fun find_topic :: "sub_req option list \<Rightarrow> int \<Rightarrow> nat \<Rightarrow> nat option option" where
  "find_topic [] topic_id i = Some None"
| "find_topic (None # t) topic_id i = None"
| "find_topic (Some r # t) topic_id i =
     (if sub_topic r = Some topic_id then Some (Some i) else find_topic t topic_id (Suc i))"

definition topic_callback :: "'m can_env \<Rightarrow> int \<Rightarrow> u8 list \<Rightarrow> 'm can_state \<Rightarrow> 'm can_state option" where
  "topic_callback ce topic_id data st = do {
     check (unat (mros_sub_req_num st) \<le> length (sub_req_table st));
     r \<leftarrow> find_topic (take (unat (mros_sub_req_num st)) (sub_req_table st)) topic_id 0;
     case r of
       None \<Rightarrow> Some st
     | Some i \<Rightarrow> do {
         m \<leftarrow> topic_callback_common ce data (VCAN_RX_DATA_0 (of_nat i)) (VCAN_RX_DATA_1 (of_nat i)) (VCAN_RX_FLAG (of_nat i))
                (can_memory st);
         Some (st\<lparr>can_memory := m\<rparr>)
       }
   }"

section \<open>Register access\<close>

definition can_get_data8 :: "u32 \<Rightarrow> 'm can_state \<Rightarrow> (Std_ReturnType \<times> u8) option" where
  "can_get_data8 addr st = do { v \<leftarrow> rg_get8 (can_region st) (rg_off (can_region st) addr); Some (STD_E_OK, v) }"

definition can_get_data16 :: "u32 \<Rightarrow> 'm can_state \<Rightarrow> (Std_ReturnType \<times> u16) option" where
  "can_get_data16 addr st = do { v \<leftarrow> rg_get16 (can_region st) (rg_off (can_region st) addr); Some (STD_E_OK, v) }"

definition can_get_data32 :: "u32 \<Rightarrow> 'm can_state \<Rightarrow> (Std_ReturnType \<times> u32) option" where
  "can_get_data32 addr st = do { v \<leftarrow> rg_get32 (can_region st) (rg_off (can_region st) addr); Some (STD_E_OK, v) }"

text \<open>A write to the transmission flag of a mailbox publishes its message.\<close>

definition can_put_data8 :: "'m can_env \<Rightarrow> u32 \<Rightarrow> u8 \<Rightarrow> 'm can_state \<Rightarrow> (Std_ReturnType \<times> 'm can_state) option" where
  "can_put_data8 ce addr data st = do {
     rg \<leftarrow> rg_put8 (rg_off (can_region st) addr) data (can_region st);
     let st = st\<lparr>can_region := rg\<rparr>;
     if VCAN_TX_FLAG_BASE \<le> addr \<and> addr < VCAN_TX_FLAG_BASE + VCAN_TX_FLAG_SIZE then
       let mbox = addr - VCAN_TX_FLAG_BASE
       in if mbox \<le> VCAN_MAX_MBOX_NUM then do {
         tmp_data \<leftarrow> cm_load32 ce (VCAN_TX_DATA_0 mbox) (can_memory st);
         tmp_datalen \<leftarrow> cm_load32 ce (VCAN_TX_DATA_1 mbox) (can_memory st);
         check (unat mbox < length (pub_req_table st));
         r \<leftarrow> pub_req_table st ! unat mbox;
         Some (STD_E_OK, st\<lparr>can_published := can_published st @ [(pub_topic r, tmp_data, tmp_datalen)]\<rparr>)
       } else Some (STD_E_OK, st)
     else Some (STD_E_OK, st)
   }"

definition can_put_data16 :: "u32 \<Rightarrow> u16 \<Rightarrow> 'm can_state \<Rightarrow> (Std_ReturnType \<times> 'm can_state) option" where
  "can_put_data16 addr data st = do {
     rg \<leftarrow> rg_put16 (rg_off (can_region st) addr) data (can_region st);
     Some (STD_E_OK, st\<lparr>can_region := rg\<rparr>)
   }"

definition can_put_data32 :: "u32 \<Rightarrow> u32 \<Rightarrow> 'm can_state \<Rightarrow> (Std_ReturnType \<times> 'm can_state) option" where
  "can_put_data32 addr data st = do {
     rg \<leftarrow> rg_put32 (rg_off (can_region st) addr) data (can_region st);
     Some (STD_E_OK, st\<lparr>can_region := rg\<rparr>)
   }"

definition can_get_pointer :: "u32 \<Rightarrow> 'm can_state \<Rightarrow> (Std_ReturnType \<times> nat) option" where
  "can_get_pointer addr st = do {
     p \<leftarrow> rg_pointer (can_region st) (rg_off (can_region st) addr);
     Some (STD_E_OK, p)
   }"

end
