(* ===== verification/V850_Can_Correct.thy ===== *)
theory V850_Can_Correct
  imports V850_Can
begin

unbundle bit_operations_syntax

text \<open>
  The virtual CAN interface (\<open>V850_Can\<close>): what a message does to the memory of the program.
\<close>

section \<open>Messages\<close>

text \<open>A memory in which every address is usable, as \<open>mpu_get_pointer\<close> gives it inside one region.\<close>

definition flat_memory :: "(u32 \<Rightarrow> u8) can_env \<Rightarrow> bool" where
  "flat_memory ce \<longleftrightarrow> (\<forall>a n m. cm_load ce a n m = Some (map (\<lambda>k. m (a + of_nat k)) [0..<n]))
     \<and> (\<forall>a bs m. cm_store ce a bs m = Some (\<lambda>x. if unat (x - a) < length bs then bs ! unat (x - a) else m x))"

definition word_at :: "(u32 \<Rightarrow> u8) \<Rightarrow> u32 \<Rightarrow> u32" where
  "word_at m a = ucast (m a) OR push_bit 8 (ucast (m (a + 1))) OR push_bit 16 (ucast (m (a + 2))) OR push_bit 24 (ucast (m (a + 3)))"

lemma load_word: "flat_memory ce \<Longrightarrow> cm_load32 ce a m = Some (word_at m a)"
  by (simp add: flat_memory_def cm_load32_def word_at_def check_def upt_rec eval_nat_numeral add.commute)



text \<open>A message of three bytes for a buffer of two at address 100, announced by mailbox 0.\<close>

definition sample_can_env :: "(u32 \<Rightarrow> u8) can_env" where
  "sample_can_env = \<lparr>ce_cfg = \<lparr>cfg_value = (\<lambda>_. None), cfg_string = (\<lambda>_. None)\<rparr>,
     cm_load = (\<lambda>a n m. Some (map (\<lambda>k. m (a + of_nat k)) [0..<n])),
     cm_store = (\<lambda>a bs m. Some (\<lambda>x. if unat (x - a) < length bs then bs ! unat (x - a) else m x)),
     pub_register = (\<lambda>t _. Some t), sub_register = (\<lambda>t _. Some t)\<rparr>"

definition sample_can :: "(u32 \<Rightarrow> u8) can_state" where
  "sample_can = \<lparr>mros_pub_req_num = 0, pub_req_table = [], mros_sub_req_num = 1,
     sub_req_table = [Some \<lparr>sub_topic_name = ''topic'', sub_topic = Some 7\<rparr>],
     can_region = \<lparr>rg_start = 0x08FF0000, rg_size = 0x100000, rg_mask = 0x08FFFFFF, rg_data = (\<lambda>_. 0)\<rparr>,
     can_memory = (\<lambda>x. if x = 0x08FF0000 then 100 else if x = 0x08FF0004 then 2 else 0), can_published = []\<rparr>"


end
