(* ===== verification/Spec2Isabelle.thy ===== *)
theory Spec2Isabelle
  imports V850_Decode_Correct V850_Memory_Correct V850_Stack_Correct V850_Intc_Correct V850_System V850_Print
    V850_Serial_Correct V850_SerialFile_Correct V850_Vdev_Correct V850_Can_Correct
begin

unbundle bit_operations_syntax

text \<open>
  A verification development for the V850E2M target of the Athrill processor emulator. All paths
  below are under \<open>src/\<close> of the repository.

  \<^bold>\<open>The program.\<close> The repository is the part of the emulator that knows the V850E2M. The Athrill
  core, another repository, owns the main loop, the bus, the debugger and the connections to the
  host. At each clock the core calls two entry points of this one: \<open>device_supply_clock\<close>
  (\<open>device/device.c\<close>), which runs the timers, the serial channels, the virtual device and at last
  the interrupt controller, and for each core \<open>cpu_supply_clock\<close> (\<open>cpu/config/cpu_config.c\<close>), which
  fetches the instruction at the program counter from the bus, parses it, checks the permission
  to execute it, and runs the executor of its operation code. The two parts meet in the
  interrupt controller (\<open>device/intc/intc.c\<close>): devices raise requests there, its clock takes a core
  into the handler of the most urgent request by writing the program counter and the saving
  registers, and the return instructions of the processor report to it the end of a handler.

  \<^bold>\<open>The processor.\<close> The theories follow the calls, each after those it uses.
  \<^item> \<open>V850_Prelude\<close>: C integers as words, single-bit updates, the lens interface of the proofs.
  \<^item> \<open>V850_Registers\<close>: \<open>cpu/target_cpu.h\<close>. \<open>CpuRegisterType\<close> is the program counter, the general
    registers and the system registers, a function of group, bank and number.
  \<^item> \<open>V850_Decode\<close>, \<open>V850_CodeId\<close>: \<open>cpu/cpu_dec/op_format.h\<close>, \<open>op_dec.c\<close>, \<open>op_codeid.h\<close>. One record for
    each instruction format, and one function \<open>OpDecode\<close> for each. The union of the formats is a
    record whose other members keep their values.
  \<^item> \<open>V850_Parse_Base\<close>, \<open>V850_Parse_Extend\<close>, \<open>V850_Parse\<close>: \<open>cpu/cpu_dec/op_parse.c\<close> and
    \<open>op_parse_private.c\<close>, the two tables and all the functions they hold.
  \<^item> \<open>V850_Core\<close>: \<open>TargetCoreType\<close> and what an executor can touch. A \<open>machine\<close> is a core, the state of
    the NMI and the rest of the world; the \<open>bus\<close> of the Athrill core is a record of functions on it.
  \<^item> \<open>V850_Alu\<close>: the flags, conditions and inline operations of \<open>cpu/cpu_common/cpu_ops.h\<close> and
    \<open>cpu/cpu_exec/op_exec_arithm.c\<close>.
  \<^item> \<open>V850_Exec_Arith\<close> (also \<open>op_exec_sat.c\<close>), \<open>V850_Exec_Logic\<close>, \<open>V850_Exec_Bit\<close>, \<open>V850_Exec_Branch\<close>,
    \<open>V850_Exec_Load\<close>, \<open>V850_Exec_Store\<close>, \<open>V850_Exec_Spec\<close>: the file of \<open>cpu/cpu_exec/\<close> each is named
    after, one definition per handler under the name of the handler.
  \<^item> \<open>V850_Float\<close>, \<open>V850_Fpu_Regs\<close>, \<open>V850_Fpu_Ops\<close>, \<open>V850_Exec_Fpu\<close>: the floating-point arithmetic of the
    language (executable, on integers, in the format and rounding mode of the operation), the
    accessors of \<open>cpu/cpu_common/cpu_fpu_ops.h\<close>, and \<open>cpu/cpu_exec/op_exec_fpu.c\<close>.
  \<^item> \<open>V850_Mpu\<close>: permission checks, protection registers, reset and traps of \<open>cpu/config/cpu_config.c\<close>.
  \<^item> \<open>V850_Cpu\<close>: the table of 205 executors of \<open>cpu/cpu_exec/op_exec.c\<close> and the execution loop with its
    cache of parsed instructions (\<open>vcpu\<close>).

  \<^bold>\<open>The devices.\<close>
  \<^item> \<open>V850_Intc\<close>: \<open>device/intc/intc.c\<close>. \<open>intc_state\<close> is the region of its registers, the work of each core
    (waiting and served interrupts) and the cores.
  \<^item> \<open>V850_Region\<close>: the address map of \<open>cpu/config/mpu_config.c\<close>, the build options and the
    configuration that the device code tests.
  \<^item> \<open>V850_Timer\<close>: \<open>device/peripheral/timer/timer32.c\<close>, and \<open>timer.c\<close> under names that end in \<open>_16\<close>.
  \<^item> \<open>V850_Serial\<close>, \<open>V850_SerialFile\<close>: \<open>device/peripheral/serial/serial.c\<close>, and its host end
    \<open>debugger/executor/concrete_executor/dbg_target_serial.c\<close>: a character queue, and cached files.
  \<^item> \<open>V850_Device\<close>: \<open>device/device.c\<close>. \<open>device\<close> gathers the states of the devices; \<open>device_env\<close> holds
    the build, the configuration and the devices that are not in this repository.
  \<^item> \<open>V850_Window\<close>: the registers of the current core as memory, requests between cores, \<open>cpu_init\<close>,
    reset and the accessors of \<open>cpu/config/cpu_config.c\<close>.
  \<^item> \<open>V850_Vdev\<close>: \<open>device/peripheral/vdev/\<close>, packets and clocks shared with a simulator of the
    environment, over UDP or mapped memory.
  \<^item> \<open>V850_Can\<close>: \<open>device/peripheral/can/can.c\<close>, mailboxes that carry ROS topics.
  \<^item> \<open>V850_Print\<close>: what the debugger prints of a core
    (\<open>debugger/executor/concrete_executor/dbg_target_cpu.c\<close>, \<open>debug_print_mpu_status\<close>), as the text printed.

  \<^bold>\<open>Conventions.\<close> A C integer is a word of its width. A function of the program is a function of the
  state it reads to the state it leaves. \<open>None\<close> is a run without defined behaviour or a failed
  \<open>ASSERT\<close>: an index outside an array, a division by zero, the overflow of a signed division, a
  call through a null pointer. A function that reports failure returns its error value inside
  \<open>Some\<close>; in \<open>V850_SerialFile\<close>, where the code also calls \<open>exit\<close>, a sum type keeps the two ways of
  not returning apart. The host has two's complement integers, little-endian words, 32-bit \<open>int\<close>
  and 64-bit \<open>long\<close>. Loops are folds or recursions on their ranges; no definition needs fuel.
\<close>

text \<open>
  \<^bold>\<open>What is an argument.\<close> Code that is not in the repository is an argument of the definitions that
  use it: \<open>bus\<close> (with the stack check of the debugger and pointers into memory), \<open>object_container\<close>
  (search in a container, relied on as \<open>find_first2_ok\<close>), the position of the cache of a program
  counter, \<open>fp_host\<close> (what IEC 60559 leaves to an implementation, as \<open>host_ok\<close>), \<open>device_env\<close>
  (\<open>env_ok\<close>: other devices do to the controller only what its own steps do), \<open>posix\<close>
  (\<open>regular_file\<close>: reading, writing and seeking in a file), \<open>vdev_env\<close> and \<open>can_env\<close>
  (\<open>flat_memory\<close>: pointers into memory alias as addresses do), and \<open>print_env\<close> (the symbol table of
  the debugger). \<open>V850_System\<close> relies on the bus as \<open>bus_ok\<close>: an access does to the devices what their
  own steps do. Every property that uses such a
  condition has a witness that instantiates it.

  \<^bold>\<open>What is shown.\<close>
  \<^item> \<open>V850_Decode_Correct\<close>: the parser is total and well formed; decoding loses no field.
  \<^item> \<open>V850_Frames\<close>, \<open>V850_Samples\<close>: the contract of executors that only compute (locale
    \<open>core_executor\<close>), with its instances in the table; the concrete states of the witnesses.
  \<^item> \<open>V850_Cpu_Correct\<close>: a step as one of five outcomes, the invariant of the cache, the zero register,
    the elapsed time, where a step can be undefined, termination of the computing executors.
  \<^item> \<open>V850_Arith_Correct\<close>, \<open>V850_Logic_Correct\<close>: instructions against integer arithmetic: sums,
    comparisons and the branches that read them, saturation, products, quotients, shifts, swaps,
    searches.
  \<^item> \<open>V850_Memory_Correct\<close>, \<open>V850_Stack_Correct\<close>: loads, stores and branches from their encoding to
    their effect on the bus; a store and a load; PREPARE and DISPOSE on a stack frame.
  \<^item> \<open>V850_Mpu_Correct\<close>: the permission check against a specification by regions; exceptions and
    their returns.
  \<^item> \<open>V850_Float_Correct\<close>, \<open>V850_Fpu_Correct\<close>: exactness of the arithmetic on integers, the classes of
    numbers, the contract of the 72 floating-point executors (locale \<open>float_executor\<close>).
  \<^item> \<open>V850_Intc_Correct\<close>: the invariant of the controller over every history, and the interrupt that
    its clock delivers.
  \<^item> \<open>V850_Timer_Correct\<close>: the period of a timer against an abstract counter, and that the clocks
    which may be skipped are quiet.
  \<^item> \<open>V850_Device_Correct\<close>: clocked devices only make requests to the controller (locale
    \<open>interrupt_source\<close>, interpreted by timers and serial channels), so that the invariant of the
    controller holds of the devices from \<open>cpu_init\<close> on; the way of a timer interrupt to its handler;
    the debug window.
  \<^item> \<open>V850_Interrupt_Correct\<close>: an interrupt from the clock that delivers it to the EIRET that returns.
  \<^item> \<open>V850_Access\<close>: an instruction is a sequence of steps (\<open>access\<close>), each on its own core or through the
    bus under the number of that core: shown of every executor of the table and of the loop.
  \<^item> \<open>V850_System\<close>: cores, devices and bus together. Instructions of both cores, clocks and resets come
    in any order (\<open>system_step\<close>); every run of the system is a run of the devices, whose invariant
    then holds for any program in memory.
  \<^item> \<open>V850_Serial_Correct\<close>: the ring buffer of the host implements a bounded queue (locale
    \<open>bounded_queue\<close>), reception and transmission of a channel.
  \<^item> \<open>V850_SerialFile_Correct\<close>: bytes written reach the file and bytes of the file reach the program,
    in order; a full write cache never survives the next byte.
  \<^item> \<open>V850_Vdev_Correct\<close>: the packets sent in every history, their contents, the bound on the clock.
  \<^item> \<open>V850_Can_Correct\<close>: the effect of a message on the memory of the program.

  \<^bold>\<open>Bounds.\<close> The controller has two cores (\<open>CPU_CONFIG_CORE_NUM\<close>) and 117 interrupts; its invariant
  bounds the nesting of services by nine, one more than the array \<open>saved_intno_stack\<close> has room for.
  Statements on timers bound the 64-bit clock so that it does not wrap.

  \<^bold>\<open>Not modelled.\<close>
  \<^item> The debug messages of the executors (\<open>DBG_PRINT\<close>). They read the state and change none.
  \<^item> The order in which the Athrill core lets cores and devices take turns: \<open>system_step\<close> allows all.
  \<^item> Files without code of their own: \<open>op_exec_ops.h\<close> (prototypes), \<open>op_exec_dbg.c\<close>, \<open>op_exec_div.c\<close>,
    \<open>cpuemu_config.h\<close>, and blocks under \<open>#if 0\<close>.
  \<^item> Interleavings inside a turn of a thread: the threads of \<open>vdev_udp.c\<close> take turns whole, while the
    code lets the receiver write \<open>vdev_sim_time\<close> without the lock.
  \<^item> The tests and tools of the repository, which drive a built emulator.
\<close>

end
